(* ===== verification/Clerk_Prelude.thy ===== *)
theory Clerk_Prelude
  imports Complex_Main
begin

text \<open>
  Shared vocabulary of the development.

  \<^item> Python text is a list of code points (\<open>pystr\<close>), so that lengths and white space are
    those of \<^verbatim>\<open>str\<close> and not of bytes; \<open>u ''abc''\<close> is an ASCII literal.
  \<^item> A function that may raise returns \<open>'a res\<close>, that is \<open>exn + 'a\<close>; \<open>rbind\<close> sequences two
    such computations and \<open>require\<close> is the usual \<^verbatim>\<open>if not ok: raise ...\<close>.
  \<^item> A dynamically typed JSON-like value is a \<open>pyval\<close>; a dictionary is an association list in
    insertion order with the last write replacing the value in place, as Python does.
  \<^item> The collections \<open>res_simps\<close> and \<open>py_simps\<close> gather the rewrite rules of the first two groups.
\<close>

named_theorems res_simps "inversion rules for computations that may raise"
named_theorems py_simps "evaluation rules for Python text and dictionaries"

subsection \<open>Exceptions and results\<close>

datatype exn =
    ValueError string
  | TypeError string
  | LookupError string
  | OverflowError string
  | InvalidOperation
  | UnknownJobTypeError
  | JobLeaseLostError
  | JobStateError
  | ResourceLimitExceeded string
  | UnsafeArchiveMemberError string
  | UnsupportedFileError string
  | InvalidCapabilityRegistrationError string
  | DuplicateCapabilityRegistrationError
  | SandboxUnavailable
  | StaleSourceIntakeError
  | DocumentNotFoundError
  | RawSourceVersionError string
  | ReprocessStateError string
  | SourceVersionSupersededError
  | UploadIdempotencyConflictError
  | SourceIntakeValidationError string
  | StaleExtractionError
  | ReviewValidationError string
  | MappingValidationError string
  | MappingConflictError string
  | MappingNotFoundError
  | ReviewBatchNotFoundError
  | ReviewBatchConflictError string
  | ReviewBatchValidationError string
  | ChunkingError
  | BillNotFoundError
  | BillValidationError string
  | BillConflictError
  | RecurringBillNormalizationError string
  | AssertionError
  | KeyError
  | OSError
  | BadZipFile
  | RuntimeError string
  | IntegrityError
  | StagedSourceVersionSupersededError
  | CandidateDraftError string
  | AccountingExportError string

type_synonym 'a res = "exn + 'a"

fun rbind :: "'a res \<Rightarrow> ('a \<Rightarrow> 'b res) \<Rightarrow> 'b res" where
  "rbind (Inl e) f = Inl e"
| "rbind (Inr x) f = f x"

definition require :: "bool \<Rightarrow> exn \<Rightarrow> unit res" where
  "require b e = (if b then Inr () else Inl e)"

fun rmap :: "('a \<Rightarrow> 'b res) \<Rightarrow> 'a list \<Rightarrow> 'b list res" where
  "rmap f [] = Inr []"
| "rmap f (x # xs) = rbind (f x) (\<lambda>y. rbind (rmap f xs) (\<lambda>ys. Inr (y # ys)))"

definition ok :: "'a res \<Rightarrow> bool" where
  "ok r = (case r of Inl _ \<Rightarrow> False | Inr _ \<Rightarrow> True)"

lemma rbind_Inr [res_simps]: "rbind m f = Inr y \<longleftrightarrow> (\<exists>x. m = Inr x \<and> f x = Inr y)"
  by (cases m) auto

lemma rbind_Inl [res_simps]:
  "rbind m f = Inl e \<longleftrightarrow> m = Inl e \<or> (\<exists>x. m = Inr x \<and> f x = Inl e)"
  by (cases m) auto

lemma require_Inr [res_simps]: "require b e = Inr x \<longleftrightarrow> b"
  by (simp add: require_def)

lemma require_Inl [res_simps]: "require b e = Inl e' \<longleftrightarrow> \<not> b \<and> e' = e"
  by (auto simp: require_def)

lemma require_True [simp]: "require True e = Inr ()"
  by (simp add: require_def)

lemma require_False [simp]: "require False e = Inl e"
  by (simp add: require_def)

lemma case_option_Inr [res_simps]:
  "(case m of None \<Rightarrow> Inl e | Some x \<Rightarrow> f x) = Inr y \<longleftrightarrow> (\<exists>x. m = Some x \<and> f x = Inr y)"
  by (cases m) auto

lemma if_Inl_Inr [res_simps]: "(if b then Inl e else m) = Inr y \<longleftrightarrow> \<not> b \<and> m = Inr y"
  by simp

lemma rbind_assoc: "rbind (rbind m f) g = rbind m (\<lambda>x. rbind (f x) g)"
  by (cases m) auto

lemma rbind_cong [fundef_cong]:
  "m = m' \<Longrightarrow> (\<And>x. m' = Inr x \<Longrightarrow> f x = f' x) \<Longrightarrow> rbind m f = rbind m' f'"
  by (cases m') auto

lemma rmap_Inr_length: "rmap f xs = Inr ys \<Longrightarrow> length ys = length xs"
  by (induction xs arbitrary: ys) (auto simp: res_simps)

lemma rmap_Inr_nth:
  "rmap f xs = Inr ys \<Longrightarrow> i < length xs \<Longrightarrow> f (xs ! i) = Inr (ys ! i)"
proof (induction xs arbitrary: ys i)
  case (Cons x xs)
  then show ?case by (cases i) (auto simp: res_simps)
qed simp

lemma ok_Inr [simp]: "ok (Inr x)" and ok_Inl [simp]: "\<not> ok (Inl e)"
  by (simp_all add: ok_def)

lemma ok_iff: "ok r \<longleftrightarrow> (\<exists>x. r = Inr x)"
  by (cases r) auto

text \<open>A predicate on a branching computation is shown branch by branch.\<close>

lemma pred_if: "(b \<Longrightarrow> P x) \<Longrightarrow> (\<not> b \<Longrightarrow> P y) \<Longrightarrow> P (if b then x else y)"
  by simp

lemma pred_option:
  "(m = None \<Longrightarrow> P x) \<Longrightarrow> (\<And>v. m = Some v \<Longrightarrow> P (f v)) \<Longrightarrow> P (case m of None \<Rightarrow> x | Some v \<Rightarrow> f v)"
  by (cases m) auto

lemma pred_prod: "(\<And>a b. m = (a, b) \<Longrightarrow> P (f a b)) \<Longrightarrow> P (case m of (a, b) \<Rightarrow> f a b)"
  by (cases m) auto

lemma ok_rbind: "ok m \<Longrightarrow> (\<And>x. m = Inr x \<Longrightarrow> ok (f x)) \<Longrightarrow> ok (rbind m f)"
  by (cases m) auto

lemma find_SomeD: "find P xs = Some x \<Longrightarrow> x \<in> set xs \<and> P x"
  by (auto simp: find_Some_iff)

subsection \<open>Tables with unique keys\<close>

lemma find_unique:
  assumes "distinct (map f xs)" "x \<in> set xs" "f x = k"
  shows "find (\<lambda>y. f y = k) xs = Some x"
  using assms
proof (induction xs)
  case (Cons a xs)
  then show ?case by (cases "f a = k") (auto simp: rev_image_eqI)
qed simp

lemma filter_unique:
  assumes "distinct (map f xs)" "x \<in> set xs" "f x = k" "P x"
  shows "filter (\<lambda>y. f y = k \<and> P y) xs = [x]"
  using assms
proof (induction xs)
  case (Cons a xs)
  show ?case
  proof (cases "a = x")
    case True
    then have "\<forall>y \<in> set xs. f y \<noteq> k" using Cons.prems by (auto simp: image_iff)
    then have "filter (\<lambda>y. f y = k \<and> P y) xs = []" by (auto simp: filter_empty_conv)
    then show ?thesis using True Cons.prems by simp
  next
    case False
    then have "x \<in> set xs" "f a \<noteq> k" using Cons.prems by force+
    then show ?thesis using Cons by simp
  qed
qed simp

lemma filter_singleton:
  assumes "distinct xs" "x \<in> set xs" "\<And>y. y \<in> set xs \<Longrightarrow> P y \<longleftrightarrow> y = x"
  shows "filter P xs = [x]"
  using assms
proof (induction xs)
  case (Cons a xs)
  show ?case
  proof (cases "a = x")
    case True
    then have "filter P xs = []" using Cons.prems by (auto simp: filter_empty_conv)
    with True Cons.prems show ?thesis by auto
  next
    case False
    with Cons show ?thesis by auto
  qed
qed simp

lemma distinct_map_update:
  "(\<And>x. x \<in> set xs \<Longrightarrow> f (g x) = f x) \<Longrightarrow> distinct (map f (map g xs)) = distinct (map f xs)"
  by (metis (mono_tags, lifting) comp_apply map_eq_conv map_map)

lemma find_map_key:
  "(\<And>x. x \<in> set xs \<Longrightarrow> f (g x) = f x)
    \<Longrightarrow> find (\<lambda>x. f x = k) (map g xs) = map_option g (find (\<lambda>x. f x = k) xs)"
  by (induction xs) auto

lemma find_append_same: "find P xs = Some x \<Longrightarrow> find P (xs @ ys) = Some x"
  by (induction xs) (auto split: if_splits)

subsection \<open>Python text\<close>

type_synonym pystr = "nat list"

definition u :: "string \<Rightarrow> pystr" where
  "u s = map of_char s"

lemma u_eq_iff [simp, py_simps]: "u s = u t \<longleftrightarrow> s = t"
  by (simp add: u_def inj_map_eq_map inj_def)

lemma u_Nil [simp, py_simps]: "u [] = []"
  by (simp add: u_def)

lemma u_Cons [py_simps]: "u (c # s) = of_char c # u s"
  by (simp add: u_def)

lemma u_eq_Nil [simp]: "u s = [] \<longleftrightarrow> s = []" and Nil_eq_u [simp]: "[] = u s \<longleftrightarrow> s = []"
  by (auto simp: u_def)

lemma length_u [simp]: "length (u s) = length s"
  by (simp add: u_def)

text \<open>\<open>is_space\<close> is \<^verbatim>\<open>str.isspace\<close> on one code point (the fixed set CPython compiles in).\<close>

definition is_space :: "nat \<Rightarrow> bool" where
  "is_space c \<longleftrightarrow> (9 \<le> c \<and> c \<le> 13) \<or> (28 \<le> c \<and> c \<le> 32) \<or> c = 133 \<or> c = 160 \<or> c = 5760
     \<or> (8192 \<le> c \<and> c \<le> 8202) \<or> c = 8232 \<or> c = 8233 \<or> c = 8239 \<or> c = 8287 \<or> c = 12288"

definition lstrip :: "pystr \<Rightarrow> pystr" where
  "lstrip s = dropWhile is_space s"

definition strip :: "pystr \<Rightarrow> pystr" where
  "strip s = rev (dropWhile is_space (rev (dropWhile is_space s)))"

lemma lstrip_hd: "dropWhile P s \<noteq> [] \<Longrightarrow> \<not> P (hd (dropWhile P s))"
  by (rule hd_dropWhile)

lemma dropWhile_rev_id:
  "(s = [] \<or> \<not> P (last s)) \<Longrightarrow> rev (dropWhile P (rev s)) = s"
  by (cases s rule: rev_cases) auto

lemma dropWhile_id: "(s = [] \<or> \<not> P (hd s)) \<Longrightarrow> dropWhile P s = s"
  by (cases s) auto

lemma strip_last: "strip s \<noteq> [] \<Longrightarrow> \<not> is_space (last (strip s))"
  unfolding strip_def
  by (metis hd_dropWhile last_rev rev_is_Nil_conv)

lemma strip_hd: "strip s \<noteq> [] \<Longrightarrow> \<not> is_space (hd (strip s))"
proof -
  assume ne: "strip s \<noteq> []"
  define t where "t = dropWhile is_space s"
  obtain w where w: "rev t = w @ dropWhile is_space (rev t)"
    by (metis takeWhile_dropWhile_id)
  then have "t = strip s @ rev w"
    unfolding strip_def t_def [symmetric] by (metis rev_append rev_rev_ident)
  with ne have "hd t = hd (strip s)" and "t \<noteq> []" by auto
  then show ?thesis
    using hd_dropWhile [of is_space s] by (simp add: t_def)
qed

lemma strip_Nil [simp]: "strip [] = []"
  by (simp add: strip_def)

lemma strip_strip [simp]: "strip (strip s) = strip s"
proof (cases "strip s = []")
  case True
  then show ?thesis by simp
next
  case False
  then have "dropWhile is_space (strip s) = strip s"
    by (simp add: dropWhile_id strip_hd)
  moreover have "rev (dropWhile is_space (rev (strip s))) = strip s"
    using strip_last [OF False] by (simp add: dropWhile_rev_id)
  ultimately show ?thesis by (simp add: strip_def [of "strip s"])
qed

lemma strip_no_space: "list_all (\<lambda>c. \<not> is_space c) s \<Longrightarrow> strip s = s"
  by (cases "s = []") (simp_all add: strip_def dropWhile_id dropWhile_rev_id list_all_iff)

lemma set_strip: "set (strip s) \<subseteq> set s"
  unfolding strip_def by (metis dual_order.trans set_dropWhileD set_rev subsetI)

lemma length_strip: "length (strip s) \<le> length s"
  unfolding strip_def by (metis length_dropWhile_le length_rev order_trans)

definition is_ascii_digit :: "nat \<Rightarrow> bool" where
  "is_ascii_digit c \<longleftrightarrow> 48 \<le> c \<and> c \<le> 57"

definition is_lower_hex :: "nat \<Rightarrow> bool" where
  "is_lower_hex c \<longleftrightarrow> is_ascii_digit c \<or> (97 \<le> c \<and> c \<le> 102)"

definition is_sha256_hex :: "pystr \<Rightarrow> bool" where
  "is_sha256_hex s \<longleftrightarrow> length s = 64 \<and> list_all is_lower_hex s"

text \<open>\<open>starts p s\<close> is \<^verbatim>\<open>s.startswith(p)\<close>, \<open>ends p s\<close> is \<^verbatim>\<open>s.endswith(p)\<close> and
  \<open>infix_of p s\<close> is \<^verbatim>\<open>p in s\<close>; they serve text and bytes alike.\<close>

definition starts :: "'a list \<Rightarrow> 'a list \<Rightarrow> bool" where
  "starts p s \<longleftrightarrow> take (length p) s = p"

definition ends :: "'a list \<Rightarrow> 'a list \<Rightarrow> bool" where
  "ends p s \<longleftrightarrow> length p \<le> length s \<and> drop (length s - length p) s = p"

fun infix_of :: "'a list \<Rightarrow> 'a list \<Rightarrow> bool" where
  "infix_of p [] = (p = [])"
| "infix_of p (x # xs) = (starts p (x # xs) \<or> infix_of p xs)"

lemma starts_iff: "starts p s \<longleftrightarrow> (\<exists>t. s = p @ t)"
  unfolding starts_def by (metis append_eq_conv_conj append_take_drop_id)

lemma ends_iff: "ends p s \<longleftrightarrow> (\<exists>t. s = t @ p)"
  unfolding ends_def by (metis append_eq_conv_conj append_take_drop_id diff_add_inverse2
      le_add2 length_append length_drop diff_diff_cancel)

lemma starts_u [simp, py_simps]: "starts (u p) (u s) = starts p s"
  by (simp add: starts_def u_def take_map inj_map_eq_map inj_def)

lemma starts_Nil [simp, py_simps]: "starts [] s"
  by (simp add: starts_def)

lemma starts_Cons [simp, py_simps]: "starts (x # p) s \<longleftrightarrow> (case s of [] \<Rightarrow> False | y # t \<Rightarrow> x = y \<and> starts p t)"
  by (cases s) (auto simp: starts_def)

lemma infix_of_u [simp, py_simps]: "infix_of (u p) (u s) = infix_of p s"
proof (induction s)
  case (Cons a s)
  then show ?case using starts_u [of p "a # s"] by (simp add: u_Cons)
qed simp

subsection \<open>Dictionaries and dynamic values\<close>

type_synonym ('k, 'v) dict = "('k \<times> 'v) list"

fun dict_set :: "'k \<Rightarrow> 'v \<Rightarrow> ('k, 'v) dict \<Rightarrow> ('k, 'v) dict" where
  "dict_set k v [] = [(k, v)]"
| "dict_set k v ((k', v') # d) = (if k = k' then (k, v) # d else (k', v') # dict_set k v d)"

abbreviation dict_get :: "('k, 'v) dict \<Rightarrow> 'k \<Rightarrow> 'v option" where
  "dict_get d k \<equiv> map_of d k"

lemma dict_get_set [simp, py_simps]: "dict_get (dict_set k v d) = (dict_get d)(k \<mapsto> v)"
  by (induction d) (auto simp: fun_eq_iff)

lemma keys_dict_set [simp]: "fst ` set (dict_set k v d) = insert k (fst ` set d)"
  by (induction d) force+

lemma distinct_dict_set: "distinct (map fst d) \<Longrightarrow> distinct (map fst (dict_set k v d))"
  by (induction d) (auto simp: image_iff)

datatype pyval =
    PNone
  | PBool bool
  | PInt int
  | PFloat rat
  | PNonFinite
  | PStr pystr
  | PUuid nat
  | PObject nat
  | PList "pyval list"
  | PDict "(pystr \<times> pyval) list"

end
