(* ===== verification/Capabilities.thy ===== *)
theory Capabilities
  imports Clerk_Prelude "HOL-Library.List_Lexorder"
begin

text \<open>
  The universal-intake capability registry (\<^verbatim>\<open>src/clerksan/ingest/capabilities.py\<close>) and the
  intake mode vocabulary of \<^verbatim>\<open>src/clerksan/config.py\<close>. A registry is built by
  \<open>mk_registry\<close>, the model of \<^verbatim>\<open>CapabilityRegistry.__post_init__\<close>: it validates, sorts and
  freezes the process set, the limits and the flags, and refuses to advertise any process
  capability without verified sandbox evidence. The SHA-256 of a canonical JSON payload is
  the parameter \<open>digest\<close> (\<^verbatim>\<open>json.dumps\<close> with sorted keys followed by \<^verbatim>\<open>hashlib.sha256\<close>).
\<close>

datatype intake_mode = Legacy | Universal

definition intake_mode_value :: "intake_mode \<Rightarrow> pystr" where
  "intake_mode_value m = (case m of Legacy \<Rightarrow> u ''legacy'' | Universal \<Rightarrow> u ''universal'')"

record settings =
  intake_mode :: intake_mode
  job_lease_seconds :: int
  job_max_attempts :: int
  job_retry_base_seconds :: int
  setting_value :: "pystr \<Rightarrow> pyval"

definition require_universal_sandbox :: "intake_mode \<Rightarrow> bool \<Rightarrow> intake_mode res" where
  "require_universal_sandbox m verified =
     (if m = Universal \<and> \<not> verified then Inl SandboxUnavailable else Inr m)"

subsection \<open>Canonical keys\<close>

definition is_lower_alnum :: "nat \<Rightarrow> bool" where
  "is_lower_alnum c \<longleftrightarrow> is_ascii_digit c \<or> (97 \<le> c \<and> c \<le> 122)"

definition capability_key :: "pystr \<Rightarrow> bool" where
  "capability_key s \<longleftrightarrow> (case s of [] \<Rightarrow> False | c # cs \<Rightarrow> is_lower_alnum c \<and>
     list_all (\<lambda>x. is_lower_alnum x \<or> x = 46 \<or> x = 95 \<or> x = 43 \<or> x = 45) cs)"

definition setting_key :: "pystr \<Rightarrow> bool" where
  "setting_key s \<longleftrightarrow> (case s of [] \<Rightarrow> False | c # cs \<Rightarrow> 97 \<le> c \<and> c \<le> 122 \<and>
     list_all (\<lambda>x. is_lower_alnum x \<or> x = 95) cs)"

subsection \<open>Sandbox evidence\<close>

record sandbox_evidence =
  sb_verified :: bool
  sb_backend :: "pystr option"
  sb_evidence_digest :: "pystr option"

definition mk_sandbox_evidence ::
  "bool \<Rightarrow> pystr option \<Rightarrow> pystr option \<Rightarrow> sandbox_evidence res" where
  "mk_sandbox_evidence verified backend evidence =
     (if verified then
        if (case backend of None \<Rightarrow> True | Some b \<Rightarrow> \<not> capability_key b) then
          Inl (InvalidCapabilityRegistrationError ''verified sandbox evidence requires a canonical backend key'')
        else if (case evidence of None \<Rightarrow> True | Some d \<Rightarrow> \<not> is_sha256_hex d) then
          Inl (InvalidCapabilityRegistrationError ''verified sandbox evidence requires a lowercase SHA-256 digest'')
        else Inr \<lparr>sb_verified = True, sb_backend = backend, sb_evidence_digest = evidence\<rparr>
      else if backend \<noteq> None \<or> evidence \<noteq> None then
        Inl (InvalidCapabilityRegistrationError ''unverified sandbox evidence cannot name a backend or evidence digest'')
      else Inr \<lparr>sb_verified = False, sb_backend = None, sb_evidence_digest = None\<rparr>)"

definition opt_str :: "pystr option \<Rightarrow> pyval" where
  "opt_str s = (case s of None \<Rightarrow> PNone | Some t \<Rightarrow> PStr t)"

definition sandbox_payload :: "sandbox_evidence \<Rightarrow> pyval" where
  "sandbox_payload s = PDict
     [(u ''backend'', opt_str (sb_backend s)),
      (u ''evidence_digest'', opt_str (sb_evidence_digest s)),
      (u ''verified'', PBool (sb_verified s))]"

definition phase_one_sandbox_evidence :: sandbox_evidence where
  "phase_one_sandbox_evidence = \<lparr>sb_verified = False, sb_backend = None, sb_evidence_digest = None\<rparr>"

subsection \<open>The registry\<close>

record registry =
  reg_process :: "pystr list"
  reg_limits :: "(pystr, pyval) dict"
  reg_flags :: "(pystr, pyval) dict"
  reg_sandbox :: sandbox_evidence
  reg_schema :: pystr
  reg_version :: int
  reg_registry_digest :: pystr
  reg_capabilities_digest :: pystr

definition sandbox_verified :: "registry \<Rightarrow> bool" where
  "sandbox_verified r = sb_verified (reg_sandbox r)"

definition registry_schema :: pystr where
  "registry_schema = u ''clerksan.universal-intake-capabilities''"

fun first_duplicate :: "pystr list \<Rightarrow> pystr set \<Rightarrow> pystr option" where
  "first_duplicate [] seen = None"
| "first_duplicate (v # vs) seen =
     (if v \<in> seen then Some v else first_duplicate vs (insert v seen))"

fun limit_ok :: "pyval \<Rightarrow> bool" where
  "limit_ok (PInt i) = (0 < i)"
| "limit_ok (PFloat r) = (0 < r)"
| "limit_ok _ = False"

fun flag_ok :: "pyval \<Rightarrow> bool" where
  "flag_ok (PBool b) = True"
| "flag_ok (PStr s) = True"
| "flag_ok _ = False"

fun canonical_entries ::
  "(pyval \<Rightarrow> bool) \<Rightarrow> (pystr, pyval) dict \<Rightarrow> (pystr, pyval) dict \<Rightarrow> (pystr, pyval) dict res" where
  "canonical_entries good [] acc = Inr acc"
| "canonical_entries good ((k, v) # kvs) acc =
     (if \<not> setting_key k then
        Inl (InvalidCapabilityRegistrationError ''names must be canonical setting keys'')
      else if dict_get acc k \<noteq> None then
        Inl (InvalidCapabilityRegistrationError ''duplicate'')
      else if \<not> good v then
        Inl (InvalidCapabilityRegistrationError ''unsupported value'')
      else canonical_entries good kvs (acc @ [(k, v)]))"

definition canonical_limits :: "(pystr, pyval) dict \<Rightarrow> (pystr, pyval) dict res" where
  "canonical_limits values = rbind (canonical_entries limit_ok values []) (\<lambda>d. Inr (sort_key fst d))"

definition canonical_flags :: "(pystr, pyval) dict \<Rightarrow> (pystr, pyval) dict res" where
  "canonical_flags values = rbind (canonical_entries flag_ok values []) (\<lambda>d. Inr (sort_key fst d))"

definition capabilities_payload :: "pystr list \<Rightarrow> sandbox_evidence \<Rightarrow> pystr \<Rightarrow> int \<Rightarrow> pyval" where
  "capabilities_payload prc sb sch ver = PDict
     [(u ''process'', PList (map PStr prc)), (u ''sandbox'', sandbox_payload sb),
      (u ''schema'', PStr sch), (u ''version'', PInt ver)]"

definition registry_payload ::
  "pystr list \<Rightarrow> (pystr, pyval) dict \<Rightarrow> (pystr, pyval) dict \<Rightarrow> sandbox_evidence \<Rightarrow> pystr \<Rightarrow> int \<Rightarrow> pyval" where
  "registry_payload prc lims flg sb sch ver = PDict
     [(u ''flags'', PDict flg), (u ''limits'', PDict lims),
      (u ''process'', PList (map PStr prc)), (u ''sandbox'', sandbox_payload sb),
      (u ''schema'', PStr sch), (u ''version'', PInt ver)]"

definition mk_registry ::
  "(pyval \<Rightarrow> pystr) \<Rightarrow> pystr list \<Rightarrow> (pystr, pyval) dict \<Rightarrow> (pystr, pyval) dict
     \<Rightarrow> sandbox_evidence \<Rightarrow> pystr \<Rightarrow> int \<Rightarrow> registry res" where
  "mk_registry digest prc lims flg sb sch ver =
     (if sch \<noteq> registry_schema \<or> ver \<noteq> 1 then
        Inl (InvalidCapabilityRegistrationError ''unsupported capability registry schema'')
      else if \<not> list_all capability_key prc then
        Inl (InvalidCapabilityRegistrationError ''process capabilities must use canonical lowercase keys'')
      else if first_duplicate prc {} \<noteq> None then Inl DuplicateCapabilityRegistrationError
      else let prc' = sort prc in
        if prc' \<noteq> [] \<and> \<not> sb_verified sb then
          Inl (InvalidCapabilityRegistrationError ''universal process capabilities require verified sandbox evidence'')
        else rbind (canonical_limits lims) (\<lambda>lims'.
             rbind (canonical_flags flg) (\<lambda>flg'.
             Inr \<lparr>reg_process = prc', reg_limits = lims', reg_flags = flg', reg_sandbox = sb,
                  reg_schema = sch, reg_version = ver,
                  reg_registry_digest = digest (registry_payload prc' lims' flg' sb sch ver),
                  reg_capabilities_digest = digest (capabilities_payload prc' sb sch ver)\<rparr>)))"

subsection \<open>Building the live registry\<close>

record activation_probe =
  ap_verified :: bool
  ap_backend :: "pystr option"
  ap_evidence_digest :: "pystr option"
  ap_capabilities :: "pystr list"

definition capability_limit_fields :: "pystr list" where
  "capability_limit_fields = map u
     [''max_request_bytes'', ''max_upload_bytes'', ''max_multipart_files'', ''max_multipart_fields'',
      ''max_json_bytes'', ''max_json_depth'', ''upload_concurrency'', ''idempotency_retention_hours'',
      ''recent_intakes_default_limit'', ''recent_intakes_max_limit'',
      ''worker_capability_heartbeat_seconds'', ''worker_capability_lease_seconds'',
      ''storage_reservation_grace_seconds'', ''max_pdf_pages'', ''max_image_frames'',
      ''max_image_pixels'', ''max_image_width'', ''max_image_height'', ''max_text_characters'',
      ''max_tabular_rows'', ''max_tabular_cells'', ''max_structured_nodes'', ''max_recursion_depth'',
      ''max_normalized_output_bytes'', ''max_archive_members'', ''max_archive_uncompressed_bytes'',
      ''max_archive_expansion_ratio'']"

definition legacy_required_process_formats :: "pystr list" where
  "legacy_required_process_formats =
     map u [''md'', ''docx'', ''xlsx'', ''pdf'', ''jpeg'', ''png'', ''webp'']"

definition settings_limits :: "settings \<Rightarrow> (pystr, pyval) dict" where
  "settings_limits st = map (\<lambda>name. (name, setting_value st name)) capability_limit_fields"

definition empty_opt :: "pystr option \<Rightarrow> bool" where
  "empty_opt s = (case s of None \<Rightarrow> True | Some t \<Rightarrow> t = [])"

definition require_activation_probe :: "activation_probe \<Rightarrow> unit res" where
  "require_activation_probe p =
     (if \<not> ap_verified p then Inl SandboxUnavailable
      else if empty_opt (ap_backend p) \<or> empty_opt (ap_evidence_digest p) then
        Inl (InvalidCapabilityRegistrationError ''verified activation probe lacks sandbox evidence'')
      else if \<not> list_all capability_key (ap_capabilities p) then
        Inl (InvalidCapabilityRegistrationError ''activation probe capabilities must be canonical lowercase keys'')
      else Inr ())"

definition build_activation_candidate_registry ::
  "(pyval \<Rightarrow> pystr) \<Rightarrow> settings \<Rightarrow> activation_probe \<Rightarrow> registry res" where
  "build_activation_candidate_registry digest st p =
     rbind (require_activation_probe p) (\<lambda>_.
     let prc = sort (remdups (ap_capabilities p)) in
     if filter (\<lambda>f. f \<notin> set prc) legacy_required_process_formats \<noteq> [] then
       Inl (InvalidCapabilityRegistrationError ''activation candidate is missing legacy equivalents'')
     else rbind (mk_sandbox_evidence True (ap_backend p) (ap_evidence_digest p)) (\<lambda>sb.
       mk_registry digest prc (settings_limits st)
         [(u ''intake_mode'', PStr (intake_mode_value Legacy)),
          (u ''safe_fallback_enabled'', PBool True),
          (u ''universal_activation_enabled'', PBool False),
          (u ''activation_candidate'', PBool True)]
         sb registry_schema 1))"

definition build_capability_registry ::
  "(pyval \<Rightarrow> pystr) \<Rightarrow> settings \<Rightarrow> activation_probe option \<Rightarrow> registry res" where
  "build_capability_registry digest st probe =
     (case intake_mode st of
        Universal \<Rightarrow>
          (case probe of
             None \<Rightarrow> Inl SandboxUnavailable
           | Some p \<Rightarrow>
               if \<not> ap_verified p then Inl SandboxUnavailable
               else rbind (build_activation_candidate_registry digest st p) (\<lambda>cand.
                 mk_registry digest (reg_process cand) (settings_limits st)
                   [(u ''intake_mode'', PStr (intake_mode_value Universal)),
                    (u ''safe_fallback_enabled'', PBool True),
                    (u ''universal_activation_enabled'', PBool True)]
                   (reg_sandbox cand) registry_schema 1))
      | Legacy \<Rightarrow>
          mk_registry digest [] (settings_limits st)
            [(u ''intake_mode'', PStr (intake_mode_value Legacy)),
             (u ''safe_fallback_enabled'', PBool False),
             (u ''universal_activation_enabled'', PBool False)]
            phase_one_sandbox_evidence registry_schema 1)"

subsection \<open>What a registry that was built satisfies\<close>

definition registry_wf :: "registry \<Rightarrow> bool" where
  "registry_wf r \<longleftrightarrow> sorted (reg_process r) \<and> distinct (reg_process r)
     \<and> list_all capability_key (reg_process r)
     \<and> (reg_process r \<noteq> [] \<longrightarrow> sandbox_verified r)
     \<and> sorted (map fst (reg_limits r)) \<and> distinct (map fst (reg_limits r))
     \<and> list_all limit_ok (map snd (reg_limits r))
     \<and> sorted (map fst (reg_flags r)) \<and> distinct (map fst (reg_flags r))
     \<and> list_all flag_ok (map snd (reg_flags r))"

lemma first_duplicate_None:
  "first_duplicate vs seen = None \<longleftrightarrow> distinct vs \<and> set vs \<inter> seen = {}"
  by (induction vs arbitrary: seen) auto

lemma canonical_entries_Inr:
  assumes "canonical_entries good kvs acc = Inr d"
    and "distinct (map fst acc)" and "list_all good (map snd acc)"
  shows "distinct (map fst d) \<and> list_all good (map snd d) \<and> d = acc @ kvs"
  using assms
proof (induction good kvs acc rule: canonical_entries.induct)
  case (2 good k v kvs acc)
  from "2.prems"(1) have g: "setting_key k" "dict_get acc k = None" "good v"
    and rec: "canonical_entries good kvs (acc @ [(k, v)]) = Inr d"
    by (auto split: if_splits)
  have "distinct (map fst (acc @ [(k, v)]))" and "list_all good (map snd (acc @ [(k, v)]))"
    using "2.prems"(2,3) g by (auto simp: map_of_eq_None_iff)
  with rec g have "distinct (map fst d) \<and> list_all good (map snd d) \<and> d = (acc @ [(k, v)]) @ kvs"
    using "2.IH" by blast
  then show ?case by (metis append_Cons append_Nil append_assoc)
qed simp

lemma canonical_entries_complete:
  "list_all setting_key (map fst kvs) \<Longrightarrow> distinct (map fst (acc @ kvs)) \<Longrightarrow> list_all good (map snd kvs)
    \<Longrightarrow> canonical_entries good kvs acc = Inr (acc @ kvs)"
  by (induction good kvs acc rule: canonical_entries.induct) (auto simp: map_of_eq_None_iff)

lemma capability_limit_fields_ok:
  "list_all setting_key capability_limit_fields \<and> distinct capability_limit_fields"
proof
  show "distinct capability_limit_fields"
    by (simp add: capability_limit_fields_def distinct_map inj_on_def)
  show "list_all setting_key capability_limit_fields"
    by (simp add: capability_limit_fields_def setting_key_def u_def is_lower_alnum_def is_ascii_digit_def)
qed

lemma canonical_sorted:
  assumes "canonical_entries good kvs [] = Inr d"
  shows "sorted (map fst (sort_key fst d)) \<and> distinct (map fst (sort_key fst d))
    \<and> list_all good (map snd (sort_key fst d))"
proof -
  have "distinct (map fst d)" and g: "list_all good (map snd d)"
    using canonical_entries_Inr [OF assms] by auto
  then have "distinct (map fst (sort_key fst d))"
    by (metis distinct_map distinct_sort set_sort)
  with g show ?thesis by (auto simp: list_all_iff)
qed

lemma mk_registry_wf:
  assumes "mk_registry digest prc lims flg sb sch ver = Inr r"
  shows "registry_wf r"
  using assms
  by (auto simp: mk_registry_def registry_wf_def canonical_limits_def canonical_flags_def
      sandbox_verified_def first_duplicate_None Let_def res_simps list_all_iff
      split: if_splits dest!: canonical_sorted; force)

lemma mk_registry_process:
  assumes "mk_registry digest prc lims flg sb sch ver = Inr r"
  shows "set (reg_process r) = set prc \<and> reg_sandbox r = sb"
proof -
  have "reg_process r = sort prc" "reg_sandbox r = sb"
    using assms by (auto simp: mk_registry_def Let_def res_simps)
  then show ?thesis by simp
qed

end
