(* ===== verification/Py_Text.thy ===== *)
theory Py_Text
  imports Clerk_Prelude
begin

text \<open>
  The parts of Python's text processing that several components use: \<^verbatim>\<open>str.join\<close>,
  \<^verbatim>\<open>str.split\<close> without arguments, decimal and hexadecimal numerals and the UTF-8 codec. The
  encoders are prefix codes, a contract stated once as the locale \<open>prefix_code\<close>.
\<close>

subsection \<open>Prefix codes\<close>

locale prefix_code =
  fixes enc :: "'a \<Rightarrow> 'b list" and dom_ok :: "'a \<Rightarrow> bool"
  assumes enc_prefix: "\<lbrakk>dom_ok x; dom_ok y; enc x @ r = enc y @ r'\<rbrakk> \<Longrightarrow> x = y \<and> r = r'"
    and enc_nonempty: "dom_ok x \<Longrightarrow> enc x \<noteq> []"
begin

definition enc_all :: "'a list \<Rightarrow> 'b list" where
  "enc_all xs = concat (map enc xs)"

lemma enc_all_terminated:
  "\<lbrakk>list_all dom_ok xs; list_all dom_ok ys;
    \<And>x. dom_ok x \<Longrightarrow> hd (enc x) \<noteq> t; enc_all xs @ t # r = enc_all ys @ t # r'\<rbrakk> \<Longrightarrow> xs = ys \<and> r = r'"
proof (induction xs arbitrary: ys)
  case Nil
  show ?case
  proof (cases ys)
    case (Cons y ys')
    with Nil have y: "dom_ok y" "t # r = enc y @ enc_all ys' @ t # r'" by (simp_all add: enc_all_def)
    then have "hd (enc y) = t" using enc_nonempty [OF y(1)] by (cases "enc y") auto
    with Nil(3) [OF y(1)] show ?thesis by simp
  qed (use Nil in \<open>simp add: enc_all_def\<close>)
next
  case (Cons x xs)
  show ?case
  proof (cases ys)
    case Nil
    with Cons.prems have x: "dom_ok x" "enc x @ enc_all xs @ t # r = t # r'" by (simp_all add: enc_all_def)
    then have "hd (enc x) = t" using enc_nonempty [OF x(1)] by (cases "enc x") auto
    with Cons.prems(3) [OF x(1)] show ?thesis by simp
  next
    case (Cons y ys')
    note ys = this
    with Cons.prems have *: "enc x @ (enc_all xs @ t # r) = enc y @ (enc_all ys' @ t # r')"
      and dom: "dom_ok x" "dom_ok y" "list_all dom_ok xs" "list_all dom_ok ys'"
      by (simp_all add: enc_all_def)
    from enc_prefix [OF dom(1,2) *] have eq: "x = y" "enc_all xs @ t # r = enc_all ys' @ t # r'" by simp_all
    from Cons.IH [OF dom(3,4) Cons.prems(3) eq(2)] eq(1) ys show ?thesis by simp
  qed
qed

lemma enc_all_inj:
  "\<lbrakk>list_all dom_ok xs; list_all dom_ok ys; enc_all xs = enc_all ys\<rbrakk> \<Longrightarrow> xs = ys"
proof (induction xs arbitrary: ys)
  case Nil
  then show ?case using enc_nonempty by (cases ys) (auto simp: enc_all_def)
next
  case (Cons x xs)
  show ?case
  proof (cases ys)
    case Nil
    then show ?thesis using Cons.prems enc_nonempty by (auto simp: enc_all_def)
  next
    case (Cons y ys')
    with Cons.prems enc_prefix [of x y "enc_all xs" "enc_all ys'"] Cons.IH [of ys'] show ?thesis
      by (auto simp: enc_all_def)
  qed
qed

end

subsection \<open>Joining and splitting\<close>

definition join :: "pystr \<Rightarrow> pystr list \<Rightarrow> pystr" where
  "join sep parts = (case parts of [] \<Rightarrow> [] | p # ps \<Rightarrow> p @ concat (map (\<lambda>q. sep @ q) ps))"

lemma join_simps [simp, py_simps]:
  "join sep [] = []" "join sep [p] = p" "join sep (p # q # ps) = p @ sep @ join sep (q # ps)"
  by (simp_all add: join_def)

lemma join_sep_inj:
  "\<lbrakk>\<forall>p \<in> set ps. c \<notin> set p; \<forall>q \<in> set qs. c \<notin> set q; ps \<noteq> []; qs \<noteq> [];
    join [c] ps = join [c] qs\<rbrakk> \<Longrightarrow> ps = qs"
proof (induction ps arbitrary: qs rule: induct_list012)
  case (2 p)
  then show ?case by (cases qs rule: remdups_adj.cases) auto
next
  case (3 p p' ps)
  show ?case
  proof (cases qs rule: remdups_adj.cases)
    case (3 q q' qs')
    have run: "takeWhile (\<lambda>x. x \<noteq> c) (a @ c # b) = a" if "c \<notin> set a" for a b
      using that by (simp add: takeWhile_append1 takeWhile_append2 takeWhile_tail)
        (metis (mono_tags, lifting) self_append_conv takeWhile.simps(2) takeWhile_append2)
    from 3 "3.prems" have eq: "p @ c # join [c] (p' # ps) = q @ c # join [c] (q' # qs')" by simp
    then have "p = q" using run [of p "join [c] (p' # ps)"] run [of q "join [c] (q' # qs')"] 3 "3.prems" by simp
    with eq 3 "3.prems" "3.IH"(2) [of "q' # qs'"] show ?thesis by simp
  qed (use 3 in auto)
qed simp

text \<open>\<^verbatim>\<open>s.split(c)\<close> and \<^verbatim>\<open>s.replace\<close> of one character.\<close>

fun split_on :: "nat \<Rightarrow> pystr \<Rightarrow> pystr list" where
  "split_on c [] = [[]]"
| "split_on c (x # xs) = (if x = c then [] # split_on c xs
     else (case split_on c xs of [] \<Rightarrow> [[x]] | p # ps \<Rightarrow> (x # p) # ps))"

definition remove_char :: "nat \<Rightarrow> pystr \<Rightarrow> pystr" where
  "remove_char c s = filter (\<lambda>x. x \<noteq> c) s"

text \<open>\<^verbatim>\<open>s.split()\<close>: the maximal runs of characters that are not white space.\<close>

function split_ws :: "pystr \<Rightarrow> pystr list" where
  "split_ws [] = []"
| "split_ws (c # s) =
     (if is_space c then split_ws s
      else takeWhile (\<lambda>d. \<not> is_space d) (c # s) # split_ws (dropWhile (\<lambda>d. \<not> is_space d) s))"
  by pat_completeness auto

termination split_ws
  by (relation "measure length") (auto simp: le_imp_less_Suc length_dropWhile_le)

declare split_ws.simps(2) [simp del]

lemma split_ws_words:
  "w \<in> set (split_ws s) \<Longrightarrow> w \<noteq> [] \<and> list_all (\<lambda>d. \<not> is_space d) w"
proof (induction s rule: split_ws.induct)
  case (2 c s)
  show ?case
  proof (cases "is_space c")
    case True
    with 2 show ?thesis by (simp add: split_ws.simps(2) [of c])
  next
    case False
    have "list_all (\<lambda>d. \<not> is_space d) (takeWhile (\<lambda>d. \<not> is_space d) (c # s))"
      by (simp only: list_all_iff) (blast dest: set_takeWhileD)
    with False 2 show ?thesis by (auto simp: split_ws.simps(2) [of c])
  qed
qed simp

text \<open>\<^verbatim>\<open>" ".join(s.split())\<close>\<close>

definition clean_spaces :: "pystr \<Rightarrow> pystr" where
  "clean_spaces s = join [32] (split_ws s)"

subsection \<open>Numerals\<close>

text \<open>\<open>nat_str\<close> is \<^verbatim>\<open>str\<close> on a non-negative integer.\<close>

fun nat_str :: "nat \<Rightarrow> pystr" where
  "nat_str n = (if n < 10 then [48 + n] else nat_str (n div 10) @ [48 + n mod 10])"

declare nat_str.simps [simp del]

definition int_str :: "int \<Rightarrow> pystr" where
  "int_str i = (if i < 0 then 45 # nat_str (nat (- i)) else nat_str (nat i))"

lemma nat_str_nonempty [simp]: "nat_str n \<noteq> []"
  by (subst nat_str.simps) simp

lemma nat_str_digits: "list_all is_ascii_digit (nat_str n)"
proof (induction n rule: nat_str.induct)
  case (1 n)
  then show ?case
    by (subst nat_str.simps) (auto simp: is_ascii_digit_def [of "48 + _"])
qed

text \<open>The value of a digit string, the inverse of \<open>nat_str\<close>.\<close>

definition digits_value :: "pystr \<Rightarrow> nat" where
  "digits_value s = foldl (\<lambda>a c. 10 * a + (c - 48)) 0 s"

lemma digits_value_nat_str [simp]: "digits_value (nat_str n) = n"
proof (induction n rule: nat_str.induct)
  case (1 n)
  then show ?case by (subst nat_str.simps) (auto simp: digits_value_def)
qed

lemma nat_str_inj [simp]: "nat_str m = nat_str n \<longleftrightarrow> m = n"
  by (metis digits_value_nat_str)

lemma nat_str_hd: "hd (nat_str n) \<noteq> 45"
  using nat_str_digits [of n] by (cases "nat_str n") (auto simp: is_ascii_digit_def)

lemma int_str_inj [simp]: "int_str i = int_str j \<longleftrightarrow> i = j"
proof
  assume eq: "int_str i = int_str j"
  show "i = j"
  proof (cases "i < 0"; cases "j < 0")
    assume "i < 0" "\<not> j < 0"
    then show ?thesis using eq nat_str_hd [of "nat j"]
      by (simp add: int_str_def) (metis list.sel(1))
  next
    assume "\<not> i < 0" "j < 0"
    then show ?thesis using eq nat_str_hd [of "nat i"] by (simp add: int_str_def)
  qed (use eq in \<open>auto simp: int_str_def\<close>)
qed simp

definition hex_digit :: "nat \<Rightarrow> nat" where
  "hex_digit d = (if d < 10 then 48 + d else 87 + d)"

definition upper_hex_digit :: "nat \<Rightarrow> nat" where
  "upper_hex_digit d = (if d < 10 then 48 + d else 55 + d)"

lemma hex_digit_inj [simp]:
  "hex_digit d = hex_digit e \<longleftrightarrow> d = e" "upper_hex_digit d = upper_hex_digit e \<longleftrightarrow> d = e"
  if "d < 16" "e < 16"
  using that by (auto simp: hex_digit_def upper_hex_digit_def split: if_splits)

definition hex4 :: "nat \<Rightarrow> pystr" where
  "hex4 n = [hex_digit (n div 4096 mod 16), hex_digit (n div 256 mod 16), hex_digit (n div 16 mod 16),
     hex_digit (n mod 16)]"

lemma div_mod_eqI: "\<lbrakk>m div b = n div b; m mod b = n mod b\<rbrakk> \<Longrightarrow> m = (n :: nat)"
  by (metis div_mult_mod_eq)

lemma div_split: "n div 256 = n div 16 div 16" "n div 4096 = n div 16 div 16 div 16"
  "n div 262144 = n div 4096 div 64" for n :: nat
  by (simp_all add: div_mult2_eq [symmetric])

lemma hex4_inj:
  assumes "m < 65536" "n < 65536" and "hex4 m @ r = hex4 n @ r'"
  shows "m = n \<and> r = r'"
proof -
  have eq: "m div 4096 mod 16 = n div 4096 mod 16" "m div 256 mod 16 = n div 256 mod 16"
    "m div 16 mod 16 = n div 16 mod 16" "m mod 16 = n mod 16" "r = r'"
    using assms(3) by (simp_all add: hex4_def)
  have "m div 4096 < 16" "n div 4096 < 16" using assms by (simp_all add: div_less_iff_less_mult)
  then have "m div 16 div 16 div 16 = n div 16 div 16 div 16" using eq(1) by (simp add: div_split)
  then have "m = n" using eq by (auto simp: div_split intro!: div_mod_eqI [of _ 16])
  with eq(5) show ?thesis by simp
qed

subsection \<open>UTF-8\<close>

text \<open>A Unicode scalar value: a code point that is not a surrogate. The codec refuses the others.\<close>

definition is_surrogate :: "nat \<Rightarrow> bool" where
  "is_surrogate c \<longleftrightarrow> 55296 \<le> c \<and> c \<le> 57343"

definition is_scalar :: "nat \<Rightarrow> bool" where
  "is_scalar c \<longleftrightarrow> c < 1114112 \<and> \<not> is_surrogate c"

definition utf8_char :: "nat \<Rightarrow> nat list" where
  "utf8_char c =
     (if c < 128 then [c]
      else if c < 2048 then [192 + c div 64, 128 + c mod 64]
      else if c < 65536 then [224 + c div 4096, 128 + c div 64 mod 64, 128 + c mod 64]
      else [240 + c div 262144, 128 + c div 4096 mod 64, 128 + c div 64 mod 64, 128 + c mod 64])"

definition utf8_encode :: "pystr \<Rightarrow> nat list option" where
  "utf8_encode s = (if list_all is_scalar s then Some (concat (map utf8_char s)) else None)"

lemma div_split_64: "n div 4096 = n div 64 div 64" "n div 262144 = n div 64 div 64 div 64" for n :: nat
  by (simp_all add: div_mult2_eq [symmetric])

lemma utf8_bounds:
  "c < 2048 \<Longrightarrow> c div 64 < 32" "c < 65536 \<Longrightarrow> c div 4096 < 16" "c < 1114112 \<Longrightarrow> c div 262144 < 5"
  for c :: nat
  by (simp_all add: div_less_iff_less_mult)

definition utf8_class :: "nat \<Rightarrow> nat" where
  "utf8_class c = (if c < 128 then 1 else if c < 2048 then 2 else if c < 65536 then 3 else 4)"

definition head_class :: "nat \<Rightarrow> nat" where
  "head_class b = (if b < 128 then 1 else if b < 224 then 2 else if b < 240 then 3 else 4)"

lemma utf8_head: "utf8_class c = head_class (hd (utf8_char c))"
  using utf8_bounds [of c] by (auto simp: utf8_class_def head_class_def utf8_char_def)

lemma utf8_by_class:
  "utf8_class c = 1 \<Longrightarrow> utf8_char c = [c]"
  "utf8_class c = 2 \<Longrightarrow> utf8_char c = [192 + c div 64, 128 + c mod 64]"
  "utf8_class c = 3 \<Longrightarrow> utf8_char c = [224 + c div 4096, 128 + c div 64 mod 64, 128 + c mod 64]"
  "utf8_class c = 4 \<Longrightarrow> utf8_char c = [240 + c div 262144, 128 + c div 4096 mod 64, 128 + c div 64 mod 64, 128 + c mod 64]"
  by (cases "c < 128"; cases "c < 2048"; cases "c < 65536"; simp add: utf8_class_def utf8_char_def)+

lemma utf8_char_prefix:
  assumes "is_scalar c" and "is_scalar d" and "utf8_char c @ r = utf8_char d @ r'"
  shows "c = d \<and> r = r'"
proof -
  have "utf8_char c \<noteq> []" "utf8_char d \<noteq> []" by (simp_all add: utf8_char_def)
  then have "hd (utf8_char c) = hd (utf8_char d)" using assms(3) by (metis hd_append2)
  then have same: "utf8_class c = utf8_class d" using utf8_head [of c] utf8_head [of d] by simp
  have "utf8_class c \<in> {1, 2, 3, 4}" by (simp add: utf8_class_def)
  then consider "utf8_class c = 1" | "utf8_class c = 2" | "utf8_class c = 3" | "utf8_class c = 4" by auto
  then show ?thesis
  proof cases
    case 1
    then show ?thesis using same assms(3) by (simp add: utf8_by_class)
  next
    case 2
    then have "c div 64 = d div 64" "c mod 64 = d mod 64" "r = r'" using same assms(3) by (simp_all add: utf8_by_class)
    then show ?thesis by (metis div_mod_eqI)
  next
    case 3
    then have "c div 64 div 64 = d div 64 div 64" "c div 64 mod 64 = d div 64 mod 64" "c mod 64 = d mod 64" "r = r'"
      using same assms(3) by (simp_all add: utf8_by_class div_split_64)
    then show ?thesis by (metis div_mod_eqI)
  next
    case 4
    then have "c div 64 div 64 div 64 = d div 64 div 64 div 64" "c div 64 div 64 mod 64 = d div 64 div 64 mod 64"
      "c div 64 mod 64 = d div 64 mod 64" "c mod 64 = d mod 64" "r = r'"
      using same assms(3) by (simp_all add: utf8_by_class div_split_64)
    then show ?thesis by (metis div_mod_eqI)
  qed
qed

interpretation utf8: prefix_code utf8_char is_scalar
proof unfold_locales
  show "utf8_char x \<noteq> []" for x by (simp add: utf8_char_def)
qed (rule utf8_char_prefix)

lemma utf8_encode_inj:
  assumes "utf8_encode s = Some b" and "utf8_encode t = Some b"
  shows "s = t"
  using assms utf8.enc_all_inj [of s t] by (auto simp: utf8_encode_def utf8.enc_all_def split: if_splits)

lemma utf8_encode_bytes: "utf8_encode s = Some b \<Longrightarrow> list_all (\<lambda>x. x < 256) b"
proof -
  have "list_all (\<lambda>x. x < 256) (utf8_char c)" if "is_scalar c" for c
    using that utf8_bounds [of c] by (auto simp: utf8_char_def is_scalar_def intro: less_trans)
  then show "utf8_encode s = Some b \<Longrightarrow> list_all (\<lambda>x. x < 256) b"
    by (fastforce simp: utf8_encode_def list_all_iff split: if_splits)
qed

end
