(* ===== verification/Clerk_Models.thy ===== *)
theory Clerk_Models
  imports Py_Text
begin

text \<open>
  The persisted vocabulary of \<^verbatim>\<open>src/clerksan/db/models.py\<close>: the string enumerations with their
  stored values, and the rows of the tables that several components share. Identifiers
  (\<^verbatim>\<open>UUID\<close>) are natural numbers below \<open>2 ^ 128\<close>, and since the canonical text of a UUID is a
  fixed-width lower-case hexadecimal number, ordering by that text is ordering by the number.
  A timestamp is a number of microseconds.
\<close>

datatype document_class = Receipt | Invoice | Bill | Recurring_Bill | Quote | Other_Class

datatype file_kind = Original | Page_Render | Normalized

datatype job_status = Queued | Running | Done | Failed | Dead

datatype intake_intent = Legacy_Unspecified | Generic_File | Bill_Scan

datatype execution_profile = Legacy_Compat | Universal_Sandboxed

datatype source_intake_state =
  SI_Queued | SI_Processing | SI_Processed | SI_Needs_Mapping | SI_Stored_Unprocessed | SI_Failed

datatype extraction_status = Pending_Review | Approved | Rejected | Superseded

datatype record_kind = Financial | Generic_Document

datatype financial_subtype =
  FS_Transaction | FS_Receipt | FS_Invoice | FS_Bill | FS_Recurring_Bill | FS_Quote | FS_Other

datatype batch_lifecycle = B_Open | B_Ready_To_Activate | B_Active | B_Superseded | B_Rejected

datatype payment_status = Paid | Unpaid | Overdue

datatype issuer_kind = Electric | Gas | Water | Nhi | Tax | Other_Issuer

datatype dialect = Sqlite | Postgresql

definition intake_intent_value :: "intake_intent \<Rightarrow> pystr" where
  "intake_intent_value i = (case i of
     Legacy_Unspecified \<Rightarrow> u ''legacy_unspecified''
   | Generic_File \<Rightarrow> u ''generic_file''
   | Bill_Scan \<Rightarrow> u ''bill_scan'')"

definition intake_intent_of :: "pystr \<Rightarrow> intake_intent option" where
  "intake_intent_of s =
     (if s = u ''legacy_unspecified'' then Some Legacy_Unspecified
      else if s = u ''generic_file'' then Some Generic_File
      else if s = u ''bill_scan'' then Some Bill_Scan else None)"

lemma intake_intent_roundtrip [simp]: "intake_intent_of (intake_intent_value i) = Some i"
  by (cases i) (simp_all add: intake_intent_of_def intake_intent_value_def)

lemma intake_intent_of_Some: "intake_intent_of s = Some i \<Longrightarrow> s = intake_intent_value i"
  by (auto simp: intake_intent_of_def intake_intent_value_def split: if_splits)

definition issuer_kind_value :: "issuer_kind \<Rightarrow> pystr" where
  "issuer_kind_value k = u (case k of Electric \<Rightarrow> ''electric'' | Gas \<Rightarrow> ''gas''
     | Water \<Rightarrow> ''water'' | Nhi \<Rightarrow> ''nhi'' | Tax \<Rightarrow> ''tax'' | Other_Issuer \<Rightarrow> ''other'')"

definition issuer_kind_of :: "pystr \<Rightarrow> issuer_kind option" where
  "issuer_kind_of s = find (\<lambda>k. issuer_kind_value k = s)
     [Electric, Gas, Water, Nhi, Tax, Other_Issuer]"

lemma issuer_kind_roundtrip [simp]: "issuer_kind_of (issuer_kind_value k) = Some k"
  by (cases k) (simp_all add: issuer_kind_of_def issuer_kind_value_def)

subsection \<open>Rows\<close>

record job =
  j_id :: nat
  j_document_id :: nat
  j_job_type :: pystr
  j_payload :: "(pystr, pyval) dict"
  j_idempotency_key :: pystr
  j_execution_profile :: execution_profile
  j_sandbox_verified :: bool
  j_registry_digest :: "pystr option"
  j_capabilities_digest :: "pystr option"
  j_requirements_digest :: pystr
  j_required_components :: "pystr list"
  j_intake_intent :: intake_intent
  j_status :: job_status
  j_attempts :: int
  j_last_error :: "pystr option"
  j_available_at :: int
  j_lease_expires_at :: "int option"
  j_lease_owner :: "pystr option"
  j_created_at :: int
  j_updated_at :: int

record source_intake =
  si_id :: nat
  si_document_id :: nat
  si_source_file_id :: nat
  si_source_version :: int
  si_source_sha256 :: pystr
  si_duplicate_of :: "nat option"
  si_detected_family :: "pystr option"
  si_detected_format :: "pystr option"
  si_canonical_mime :: "pystr option"
  si_detection_evidence :: "pyval list"
  si_policy_version :: pystr
  si_registry_digest :: "pystr option"
  si_capabilities_digest :: "pystr option"
  si_requirements_digest :: pystr
  si_required_components :: "pystr list"
  si_intake_intent :: intake_intent
  si_state :: source_intake_state
  si_reason_code :: "pystr option"
  si_retryable :: bool
  si_failure_phase :: "pystr option"
  si_execution_profile :: execution_profile
  si_sandbox_verified :: bool
  si_upload_idempotency_key :: "nat option"
  si_intent_digest :: "pystr option"
  si_version :: int
  si_created_at :: int
  si_updated_at :: int

subsection \<open>Canonical UUID text\<close>

fun hex_text :: "nat \<Rightarrow> nat \<Rightarrow> pystr" where
  "hex_text 0 n = []"
| "hex_text (Suc k) n = hex_text k (n div 16) @ [hex_digit (n mod 16)]"

definition uuid_str :: "nat \<Rightarrow> pystr" where
  "uuid_str n = (let h = hex_text 32 n in
     take 8 h @ [45] @ take 4 (drop 8 h) @ [45] @ take 4 (drop 12 h) @ [45]
       @ take 4 (drop 16 h) @ [45] @ drop 20 h)"

lemma uuid_str_scalar: "list_all is_scalar (uuid_str n)"
proof -
  have digit: "is_scalar (hex_digit (m mod 16))" for m
    by (simp add: hex_digit_def is_scalar_def is_surrogate_def) presburger
  have "list_all is_scalar (hex_text k n)" for k by (induction k arbitrary: n) (simp_all add: digit)
  then show ?thesis
    by (auto simp: uuid_str_def Let_def list_all_iff is_scalar_def is_surrogate_def dest: in_set_takeD in_set_dropD)
qed

lemma ascii_scalar: "list_all is_scalar (u s)"
proof -
  have "is_scalar (of_char c)" for c
    using nat_of_char_less_256 [of c] by (simp add: is_scalar_def is_surrogate_def del: nat_of_char_less_256)
  then show ?thesis by (auto simp: u_def list_all_iff)
qed

end
