(* ===== verification/Job_Queue.thy ===== *)
theory Job_Queue
  imports Capabilities Clerk_Models "HOL-Library.Product_Lexorder"
begin

text \<open>
  The durable job queue, \<^verbatim>\<open>src/clerksan/ingest/jobs.py\<close>. The state is the table of jobs with the
  rows of the two tables it references. Every operation of the module that writes is a
  definition here, with its guards in the order of the source; a savepoint that is rolled
  back leaves the table as it was. \<open>now\<close> is the clock reading \<^verbatim>\<open>_utcnow()\<close> of the call.

  Parameters that stand for library code: \<open>uuid_of v\<close> is \<^verbatim>\<open>UUID(str(v))\<close> (\<open>None\<close> when it
  raises), \<open>digest\<close> the SHA-256 of a canonical JSON payload, \<open>hash\<close> the SHA-256 of the JSON list
  of required components, \<open>worker_id\<close> the host and process identifier.
\<close>

record jobdb =
  jobs :: "job list"
  intakes :: "source_intake list"
  documents :: "nat list"

type_synonym uuid_parser = "pyval \<Rightarrow> nat option"

definition usec :: "int \<Rightarrow> int" where
  "usec secs = secs * 1000000"

subsection \<open>Argument validation\<close>

fun clean_nonempty :: "pyval \<Rightarrow> pystr res" where
  "clean_nonempty (PStr s) =
     (if strip s = [] then Inl (ValueError ''must not be empty'') else Inr (strip s))"
| "clean_nonempty _ = Inl (TypeError ''must be a string'')"

fun validate_optional_digest :: "pyval \<Rightarrow> pystr option res" where
  "validate_optional_digest PNone = Inr None"
| "validate_optional_digest (PStr s) =
     (if is_sha256_hex (strip s) then Inr (Some (strip s))
      else Inl (ValueError ''must be a 64-character lowercase hexadecimal digest''))"
| "validate_optional_digest _ = Inl (TypeError ''must be a string'')"

fun clean_component :: "pyval \<Rightarrow> pystr res" where
  "clean_component (PStr s) =
     (if strip s = [] then Inl (ValueError ''required_components must not contain blanks'')
      else Inr (strip s))"
| "clean_component _ = Inl (TypeError ''required_components must contain strings'')"

fun normalize_required_components :: "pyval \<Rightarrow> pystr list res" where
  "normalize_required_components (PList vs) =
     rbind (rmap clean_component vs) (\<lambda>ns.
       if \<not> distinct ns then Inl (ValueError ''required_components must not contain duplicates'')
       else Inr (sort ns))"
| "normalize_required_components _ = Inl (TypeError ''required_components must be a sequence'')"

fun json_safe :: "pyval \<Rightarrow> bool" where
  "json_safe (PList vs) = (\<forall>v \<in> set vs. json_safe v)"
| "json_safe (PDict kvs) = (\<forall>kv \<in> set kvs. json_safe (snd kv))"
| "json_safe PNonFinite = False"
| "json_safe (PUuid n) = False"
| "json_safe (PObject n) = False"
| "json_safe _ = True"

definition coerce_uuid :: "uuid_parser \<Rightarrow> pyval \<Rightarrow> nat option" where
  "coerce_uuid uuid_of v = (case v of PUuid n \<Rightarrow> Some n | _ \<Rightarrow> uuid_of v)"

fun job_document_payload :: "uuid_parser \<Rightarrow> pyval \<Rightarrow> (nat \<times> (pystr, pyval) dict) res" where
  "job_document_payload uuid_of (PDict payload) =
     (let v = (case dict_get payload (u ''document_id'') of None \<Rightarrow> PNone | Some w \<Rightarrow> w) in
      case coerce_uuid uuid_of v of
        None \<Rightarrow> Inl (ValueError ''payload.document_id must be a UUID'')
      | Some d \<Rightarrow>
          let stored = dict_set (u ''document_id'') (PStr (uuid_str d)) payload in
          if json_safe (PDict stored) then Inr (d, stored)
          else Inl (TypeError ''payload must contain only JSON-safe values''))"
| "job_document_payload uuid_of _ = Inl (TypeError ''payload must be a JSON object'')"

definition payload_uuid :: "uuid_parser \<Rightarrow> pyval \<Rightarrow> nat option" where
  "payload_uuid uuid_of v = (case v of PNone \<Rightarrow> None | _ \<Rightarrow> coerce_uuid uuid_of v)"

fun payload_source_version :: "pyval \<Rightarrow> int option" where
  "payload_source_version (PInt i) = (if 0 < i then Some i else None)"
| "payload_source_version _ = None"

definition provided :: "(pyval \<Rightarrow> 'a option) \<Rightarrow> (pystr, pyval) dict \<Rightarrow> pystr \<Rightarrow> exn \<Rightarrow> 'a option res" where
  "provided get payload field err =
     (case dict_get payload field of
        None \<Rightarrow> Inr None
      | Some v \<Rightarrow> (case get v of None \<Rightarrow> Inl err | Some x \<Rightarrow> Inr (Some x)))"

fun normalize_optional_intake_intent :: "pyval \<Rightarrow> intake_intent option res" where
  "normalize_optional_intake_intent PNone = Inr None"
| "normalize_optional_intake_intent (PStr s) =
     (case intake_intent_of s of
        None \<Rightarrow> Inl (ValueError ''unsupported intake_intent'')
      | Some i \<Rightarrow> Inr (Some i))"
| "normalize_optional_intake_intent _ = Inl (ValueError ''unsupported intake_intent'')"

subsection \<open>Binding a job to its source intake\<close>

definition opt_match :: "'a option \<Rightarrow> 'a \<Rightarrow> bool" where
  "opt_match want have = (case want of None \<Rightarrow> True | Some x \<Rightarrow> have = x)"

definition source_intake_for_payload ::
  "uuid_parser \<Rightarrow> source_intake list \<Rightarrow> nat \<Rightarrow> (pystr, pyval) dict
     \<Rightarrow> (source_intake option \<times> (pystr, pyval) dict) res" where
  "source_intake_for_payload uuid_of rows doc payload =
     rbind (provided (payload_uuid uuid_of) payload (u ''source_intake_id'')
              (ValueError ''payload.source_intake_id must be a UUID'')) (\<lambda>sid.
     rbind (provided (payload_uuid uuid_of) payload (u ''source_file_id'')
              (ValueError ''payload.source_file_id must be a UUID'')) (\<lambda>fid.
     rbind (provided payload_source_version payload (u ''source_version'')
              (ValueError ''payload.source_version must be a positive integer'')) (\<lambda>ver.
     if sid = None \<and> fid = None \<and> ver = None then Inr (None, payload)
     else
       (case take 2 (filter (\<lambda>r. si_document_id r = doc \<and> opt_match sid (si_id r)
                 \<and> opt_match fid (si_source_file_id r) \<and> opt_match ver (si_source_version r)) rows) of
          [r] \<Rightarrow> Inr (Some r,
                  dict_set (u ''source_version'') (PInt (si_source_version r))
                 (dict_set (u ''source_file_id'') (PStr (uuid_str (si_source_file_id r)))
                 (dict_set (u ''source_intake_id'') (PStr (uuid_str (si_id r))) payload)))
        | _ \<Rightarrow> Inl (ValueError ''payload source identity must resolve to exactly one persisted source intake'')))))"

definition resolve_intake_intent ::
  "uuid_parser \<Rightarrow> source_intake list \<Rightarrow> nat \<Rightarrow> (pystr, pyval) dict \<Rightarrow> pyval
     \<Rightarrow> (intake_intent \<times> source_intake option \<times> (pystr, pyval) dict) res" where
  "resolve_intake_intent uuid_of rows doc payload requested =
     rbind (normalize_optional_intake_intent requested) (\<lambda>req.
     rbind (source_intake_for_payload uuid_of rows doc payload) (\<lambda>(src, payload').
     case src of
       None \<Rightarrow> Inr (case req of None \<Rightarrow> Legacy_Unspecified | Some i \<Rightarrow> i, None, payload')
     | Some r \<Rightarrow>
         if req \<noteq> None \<and> req \<noteq> Some (si_intake_intent r) then
           Inl (ValueError ''intake_intent must match the persisted source intake'')
         else Inr (si_intake_intent r, Some r, payload')))"

subsection \<open>Enqueue\<close>

record enqueue_args =
  ea_job_type :: pyval
  ea_payload :: pyval
  ea_idempotency_key :: pyval
  ea_settings :: "settings option"
  ea_registry_digest :: pyval
  ea_capabilities_digest :: pyval
  ea_requirements_digest :: pyval
  ea_required_components :: pyval
  ea_intake_intent :: pyval
  ea_registry :: "registry option"

definition active_registry ::
  "(pyval \<Rightarrow> pystr) \<Rightarrow> enqueue_args \<Rightarrow> registry option res" where
  "active_registry digest a =
     (case ea_registry a of
        Some r \<Rightarrow> Inr (Some r)
      | None \<Rightarrow>
          (case ea_settings a of
             None \<Rightarrow> Inr None
           | Some st \<Rightarrow> rbind (build_capability_registry digest st None) (\<lambda>r. Inr (Some r))))"

definition or_default :: "pyval \<Rightarrow> pystr option \<Rightarrow> pyval" where
  "or_default v d = (if v \<noteq> PNone then v else opt_str d)"

definition is_universal :: "enqueue_args \<Rightarrow> bool" where
  "is_universal a = (case ea_settings a of None \<Rightarrow> False | Some st \<Rightarrow> intake_mode st = Universal)"

definition check_universal_evidence ::
  "bool \<Rightarrow> registry option \<Rightarrow> pystr option \<Rightarrow> pystr option \<Rightarrow> unit res" where
  "check_universal_evidence universal reg rd cd =
     (if \<not> universal then Inr ()
      else (case reg of
         None \<Rightarrow> Inl (ValueError ''universal jobs require a verified capability registry'')
       | Some r \<Rightarrow>
           if \<not> sandbox_verified r then
             Inl (ValueError ''universal jobs require a verified capability registry'')
           else if rd \<noteq> Some (reg_registry_digest r) \<or> cd \<noteq> Some (reg_capabilities_digest r) then
             Inl (ValueError ''universal job evidence must match the active registry'')
           else Inr ()))"

text \<open>
  Building the row (everything before the savepoint), then the savepoint itself. An
  integrity error of any kind is answered by \<^verbatim>\<open>return None\<close>: a used primary key, a used
  \<open>(document_id, idempotency_key)\<close> pair, or, where the database enforces it, a missing document.
\<close>

definition build_job ::
  "(pyval \<Rightarrow> pystr) \<Rightarrow> (pystr list \<Rightarrow> pystr) \<Rightarrow> uuid_parser \<Rightarrow> nat \<Rightarrow> int
     \<Rightarrow> source_intake list \<Rightarrow> enqueue_args \<Rightarrow> job res" where
  "build_job digest hash uuid_of new_id now rows a =
     rbind (active_registry digest a) (\<lambda>reg.
     rbind (clean_nonempty (ea_job_type a)) (\<lambda>jt.
     rbind (clean_nonempty (ea_idempotency_key a)) (\<lambda>key.
     rbind (validate_optional_digest
              (or_default (ea_registry_digest a) (map_option reg_registry_digest reg))) (\<lambda>rd.
     rbind (validate_optional_digest
              (or_default (ea_capabilities_digest a) (map_option reg_capabilities_digest reg))) (\<lambda>cd.
     rbind (check_universal_evidence (is_universal a) reg rd cd) (\<lambda>_.
     rbind (normalize_required_components (ea_required_components a)) (\<lambda>comps.
     rbind (validate_optional_digest (ea_requirements_digest a)) (\<lambda>qd.
     rbind (require (qd = None \<or> qd = Some (hash comps))
              (ValueError ''requirements_digest must match canonical required_components'')) (\<lambda>_.
     rbind (job_document_payload uuid_of (ea_payload a)) (\<lambda>(doc, stored).
     rbind (resolve_intake_intent uuid_of rows doc stored (ea_intake_intent a)) (\<lambda>(intent, src, stored').
     rbind (require (is_universal a \<or> (case src of None \<Rightarrow> True
                        | Some r \<Rightarrow> si_execution_profile r \<noteq> Universal_Sandboxed))
              (ValueError ''a sandboxed source intake cannot use legacy execution'')) (\<lambda>_.
     Inr \<lparr>j_id = new_id, j_document_id = doc, j_job_type = jt,
          j_payload = dict_set (u ''intake_intent'') (PStr (intake_intent_value intent)) stored',
          j_idempotency_key = key,
          j_execution_profile = (if is_universal a then Universal_Sandboxed else Legacy_Compat),
          j_sandbox_verified = is_universal a,
          j_registry_digest = rd, j_capabilities_digest = cd,
          j_requirements_digest = (case qd of None \<Rightarrow> hash comps | Some d \<Rightarrow> d),
          j_required_components = comps, j_intake_intent = intent,
          j_status = Queued, j_attempts = 0, j_last_error = None, j_available_at = now,
          j_lease_expires_at = None, j_lease_owner = None,
          j_created_at = now, j_updated_at = now\<rparr>))))))))))))"

definition integrity_error :: "dialect \<Rightarrow> 'z jobdb_scheme \<Rightarrow> job \<Rightarrow> bool" where
  "integrity_error dia db j \<longleftrightarrow>
     (\<exists>k \<in> set (jobs db). j_id k = j_id j
        \<or> (j_document_id k = j_document_id j \<and> j_idempotency_key k = j_idempotency_key j))
     \<or> (dia = Postgresql \<and> j_document_id j \<notin> set (documents db))"

definition enqueue ::
  "(pyval \<Rightarrow> pystr) \<Rightarrow> (pystr list \<Rightarrow> pystr) \<Rightarrow> uuid_parser \<Rightarrow> dialect \<Rightarrow> nat \<Rightarrow> int
     \<Rightarrow> 'z jobdb_scheme \<Rightarrow> enqueue_args \<Rightarrow> (nat option \<times> 'z jobdb_scheme) res" where
  "enqueue digest hash uuid_of dia new_id now db a =
     rbind (build_job digest hash uuid_of new_id now (intakes db) a) (\<lambda>j.
       if integrity_error dia db j then Inr (None, db)
       else Inr (Some (j_id j), db\<lparr>jobs := jobs db @ [j]\<rparr>))"

subsection \<open>Leases\<close>

definition lease :: "settings \<Rightarrow> int \<Rightarrow> pystr \<Rightarrow> job \<Rightarrow> job" where
  "lease st now owner j =
     j\<lparr>j_status := Running, j_attempts := j_attempts j + 1, j_lease_owner := Some owner,
       j_lease_expires_at := Some (now + usec (job_lease_seconds st)), j_updated_at := now\<rparr>"

definition lease_expired :: "int \<Rightarrow> job \<Rightarrow> bool" where
  "lease_expired now j = (case j_lease_expires_at j of None \<Rightarrow> False | Some e \<Rightarrow> e \<le> now)"

definition eligible_clause :: "settings \<Rightarrow> int \<Rightarrow> job \<Rightarrow> bool" where
  "eligible_clause st now j \<longleftrightarrow>
     (j_status j = Queued \<and> j_available_at j \<le> now)
     \<or> (j_status j = Running \<and> lease_expired now j \<and> j_attempts j < job_max_attempts st)"

definition execution_scope ::
  "(pystr list \<Rightarrow> pystr) \<Rightarrow> settings \<Rightarrow> registry \<Rightarrow> bool \<Rightarrow> job \<Rightarrow> bool" where
  "execution_scope hash st reg models_ready j \<longleftrightarrow>
     (case intake_mode st of
        Universal \<Rightarrow> j_execution_profile j = Universal_Sandboxed \<and> j_sandbox_verified j
          \<and> j_registry_digest j = Some (reg_registry_digest reg)
          \<and> j_capabilities_digest j = Some (reg_capabilities_digest reg)
      | Legacy \<Rightarrow> j_execution_profile j = Legacy_Compat \<and> \<not> j_sandbox_verified j)
     \<and> (models_ready \<or> j_requirements_digest j = hash [])"

definition job_pipeline_completed :: "(pystr, pyval) dict \<Rightarrow> bool" where
  "job_pipeline_completed payload \<longleftrightarrow>
     (case dict_get payload (u ''_pipeline'') of
        Some (PDict p) \<Rightarrow> dict_get p (u ''completed'') = Some (PBool True)
      | _ \<Rightarrow> False)"

definition exhausted_expired :: "settings \<Rightarrow> int \<Rightarrow> (job \<Rightarrow> bool) \<Rightarrow> job \<Rightarrow> bool" where
  "exhausted_expired st now scope j \<longleftrightarrow> j_status j = Running \<and> lease_expired now j
     \<and> job_max_attempts st \<le> j_attempts j \<and> scope j"

definition bury :: "int \<Rightarrow> job \<Rightarrow> job" where
  "bury now j =
     (let d = j\<lparr>j_status := Dead, j_lease_expires_at := None, j_lease_owner := None,
               j_last_error := Some (u ''lease expired after final attempt''),
               j_updated_at := now\<rparr> in
      if job_pipeline_completed (j_payload j) then d\<lparr>j_status := Done, j_last_error := None\<rparr> else d)"

definition bury_exhausted_expired_jobs ::
  "settings \<Rightarrow> int \<Rightarrow> (job \<Rightarrow> bool) \<Rightarrow> 'z jobdb_scheme \<Rightarrow> 'z jobdb_scheme \<times> job list" where
  "bury_exhausted_expired_jobs st now scope db =
     (db\<lparr>jobs := map (\<lambda>j. if exhausted_expired st now scope j then bury now j else j) (jobs db)\<rparr>,
      filter (\<lambda>j. j_status j = Dead)
        (map (bury now) (filter (exhausted_expired st now scope) (jobs db))))"

definition claim_order :: "job \<Rightarrow> int \<times> int \<times> nat" where
  "claim_order j = (j_available_at j, j_created_at j, j_id j)"

definition first_eligible :: "(job \<Rightarrow> bool) \<Rightarrow> job list \<Rightarrow> job option" where
  "first_eligible elig js =
     (case sort_key claim_order (filter elig js) of [] \<Rightarrow> None | j # _ \<Rightarrow> Some j)"

definition update_job :: "(job \<Rightarrow> job) \<Rightarrow> nat \<Rightarrow> 'z jobdb_scheme \<Rightarrow> 'z jobdb_scheme" where
  "update_job f i db = db\<lparr>jobs := map (\<lambda>j. if j_id j = i then f j else j) (jobs db)\<rparr>"

definition claim_postgresql ::
  "(nat \<Rightarrow> bool) \<Rightarrow> (job \<Rightarrow> bool) \<Rightarrow> settings \<Rightarrow> int \<Rightarrow> pystr \<Rightarrow> 'z jobdb_scheme \<Rightarrow> job option \<times> 'z jobdb_scheme" where
  "claim_postgresql locked elig st now owner db =
     (case first_eligible (\<lambda>j. elig j \<and> \<not> locked (j_id j)) (jobs db) of
        None \<Rightarrow> (None, db)
      | Some j \<Rightarrow> (Some (lease st now owner j), update_job (lease st now owner) (j_id j) db))"

definition claim_sqlite ::
  "(job \<Rightarrow> bool) \<Rightarrow> settings \<Rightarrow> int \<Rightarrow> pystr \<Rightarrow> 'z jobdb_scheme \<Rightarrow> job option \<times> 'z jobdb_scheme" where
  "claim_sqlite elig st now owner db =
     (case map_option j_id (first_eligible elig (jobs db)) of
        None \<Rightarrow> (None, db)
      | Some i \<Rightarrow>
          (map_option (lease st now owner) (find (\<lambda>j. j_id j = i \<and> elig j) (jobs db)),
           db\<lparr>jobs := map (\<lambda>j. if j_id j = i \<and> elig j then lease st now owner j else j) (jobs db)\<rparr>))"

definition lease_owner_text :: "pystr option \<Rightarrow> pystr \<Rightarrow> pyval" where
  "lease_owner_text given worker_id =
     PStr (case given of None \<Rightarrow> worker_id | Some s \<Rightarrow> if s = [] then worker_id else s)"

text \<open>
  \<open>on_terminal\<close> is the callback the worker supplies; it runs once per job that was buried, in
  the same transaction. \<open>locked\<close> is the set of rows other PostgreSQL transactions hold.
\<close>

fun run_terminal_handlers ::
  "(job \<Rightarrow> 'z jobdb_scheme \<Rightarrow> 'z jobdb_scheme res) \<Rightarrow> job list \<Rightarrow> 'z jobdb_scheme \<Rightarrow> 'z jobdb_scheme res" where
  "run_terminal_handlers h [] db = Inr db"
| "run_terminal_handlers h (j # js) db = rbind (h j db) (run_terminal_handlers h js)"

definition claim_next ::
  "(pyval \<Rightarrow> pystr) \<Rightarrow> (pystr list \<Rightarrow> pystr) \<Rightarrow> dialect \<Rightarrow> (nat \<Rightarrow> bool) \<Rightarrow> settings
     \<Rightarrow> registry option \<Rightarrow> bool \<Rightarrow> pystr option \<Rightarrow> pystr \<Rightarrow> (job \<Rightarrow> 'z jobdb_scheme \<Rightarrow> 'z jobdb_scheme res)
     \<Rightarrow> int \<Rightarrow> 'z jobdb_scheme \<Rightarrow> (job option \<times> 'z jobdb_scheme) res" where
  "claim_next digest hash dia locked st reg_opt models_ready given worker_id on_terminal now db =
     rbind (case reg_opt of Some r \<Rightarrow> Inr r
                          | None \<Rightarrow> build_capability_registry digest st None) (\<lambda>reg.
     rbind (clean_nonempty (lease_owner_text given worker_id)) (\<lambda>owner.
     let scope = execution_scope hash st reg models_ready;
         buried = bury_exhausted_expired_jobs st now scope db;
         elig = (\<lambda>j. eligible_clause st now j \<and> scope j) in
     rbind (run_terminal_handlers on_terminal (snd buried) (fst buried)) (\<lambda>db2.
     Inr (case dia of
            Sqlite \<Rightarrow> claim_sqlite elig st now owner db2
          | Postgresql \<Rightarrow> claim_postgresql locked elig st now owner db2))))"

definition locked_job :: "nat \<Rightarrow> 'z jobdb_scheme \<Rightarrow> job res" where
  "locked_job i db =
     (case find (\<lambda>j. j_id j = i) (jobs db) of
        None \<Rightarrow> Inl (LookupError ''job does not exist'')
      | Some j \<Rightarrow> Inr j)"

definition require_running_lease :: "job \<Rightarrow> pystr option \<Rightarrow> unit res" where
  "require_running_lease j owner =
     (if j_status j \<noteq> Running then Inl JobStateError
      else if owner \<noteq> None \<and> j_lease_owner j \<noteq> owner then Inl JobLeaseLostError
      else Inr ())"

definition renew_lease :: "settings \<Rightarrow> pystr option \<Rightarrow> int \<Rightarrow> nat \<Rightarrow> 'z jobdb_scheme \<Rightarrow> 'z jobdb_scheme res" where
  "renew_lease st owner now i db =
     rbind (locked_job i db) (\<lambda>j.
     rbind (require_running_lease j owner) (\<lambda>_.
     Inr (update_job (\<lambda>j. j\<lparr>j_lease_expires_at := Some (now + usec (job_lease_seconds st)),
                            j_updated_at := now\<rparr>) i db)))"

definition mark_done :: "pystr option \<Rightarrow> int \<Rightarrow> nat \<Rightarrow> 'z jobdb_scheme \<Rightarrow> 'z jobdb_scheme res" where
  "mark_done owner now i db =
     rbind (locked_job i db) (\<lambda>j.
     rbind (require_running_lease j owner) (\<lambda>_.
     Inr (update_job (\<lambda>j. j\<lparr>j_status := Done, j_lease_expires_at := None, j_lease_owner := None,
                            j_last_error := None, j_updated_at := now\<rparr>) i db)))"

definition clean_error :: "pystr \<Rightarrow> pystr" where
  "clean_error e =
     take 4000 (if strip e = [] then u ''handler failed without an error message'' else strip e)"

definition retry_delay :: "int \<Rightarrow> int \<Rightarrow> int" where
  "retry_delay attempts base = min (base * 2 ^ nat (max (attempts - 1) 0)) 3600"

definition retried :: "settings \<Rightarrow> int \<Rightarrow> pystr \<Rightarrow> job \<Rightarrow> job" where
  "retried st now e j =
     (let k = j\<lparr>j_last_error := Some (clean_error e), j_lease_expires_at := None,
               j_lease_owner := None, j_updated_at := now\<rparr> in
      if job_max_attempts st \<le> j_attempts k then k\<lparr>j_status := Dead\<rparr>
      else k\<lparr>j_status := Queued,
             j_available_at := now + usec (retry_delay (j_attempts k) (job_retry_base_seconds st))\<rparr>)"

definition retry_or_bury ::
  "settings \<Rightarrow> pystr option \<Rightarrow> pystr \<Rightarrow> int \<Rightarrow> nat \<Rightarrow> 'z jobdb_scheme \<Rightarrow> 'z jobdb_scheme res" where
  "retry_or_bury st owner e now i db =
     rbind (locked_job i db) (\<lambda>j.
     rbind (require_running_lease j owner) (\<lambda>_.
     Inr (update_job (retried st now e) i db)))"

subsection \<open>Handlers\<close>

text \<open>The handler registry \<^verbatim>\<open>_HANDLERS\<close>; a handler is identified by a number (object identity),
  and a value that is not callable by \<open>None\<close>.\<close>

definition register_handler ::
  "pyval \<Rightarrow> nat option \<Rightarrow> (pystr, nat) dict \<Rightarrow> (pystr, nat) dict res" where
  "register_handler job_type handler handlers =
     rbind (clean_nonempty job_type) (\<lambda>t.
     case handler of
       None \<Rightarrow> Inl (TypeError ''handler must be callable'')
     | Some h \<Rightarrow>
         (case dict_get handlers t of
            Some h' \<Rightarrow> if h' \<noteq> h then Inl (ValueError ''a handler is already registered'')
                      else Inr (dict_set t h handlers)
          | None \<Rightarrow> Inr (dict_set t h handlers)))"

definition get_handler :: "pystr \<Rightarrow> (pystr, nat) dict \<Rightarrow> nat res" where
  "get_handler job_type handlers =
     (case dict_get handlers job_type of None \<Rightarrow> Inl UnknownJobTypeError | Some h \<Rightarrow> Inr h)"

end
