(* ===== verification/Job_Queue_Inv.thy ===== *)
theory Job_Queue_Inv
  imports Job_Queue
begin

text \<open>
  Invariants of the job queue: what every row satisfies (\<open>job_wf\<close>), what the table satisfies
  (\<open>table_ok\<close>), that each operation keeps both, and the reachable tables as an inductive
  relation over the operations. Every operation but \<open>enqueue\<close> rows_evolve rows in place, which
  \<open>row_update\<close> captures once for all of them.
\<close>

definition job_wf :: "settings \<Rightarrow> job \<Rightarrow> bool" where
  "job_wf st j \<longleftrightarrow> 0 \<le> j_attempts j \<and> j_attempts j \<le> job_max_attempts st
     \<and> (j_status j = Queued \<longrightarrow> j_attempts j < job_max_attempts st)
     \<and> (j_status j = Running \<longrightarrow> 1 \<le> j_attempts j)
     \<and> (j_status j = Running \<longleftrightarrow> j_lease_owner j \<noteq> None)
     \<and> (j_status j = Running \<longleftrightarrow> j_lease_expires_at j \<noteq> None)
     \<and> (j_execution_profile j = Universal_Sandboxed \<longleftrightarrow> j_sandbox_verified j)"

definition job_ident :: "job \<Rightarrow> nat \<times> nat \<times> pystr" where
  "job_ident j = (j_id j, j_document_id j, j_idempotency_key j)"

definition table_ok :: "settings \<Rightarrow> 'z jobdb_scheme \<Rightarrow> bool" where
  "table_ok st db \<longleftrightarrow> distinct (map j_id (jobs db))
     \<and> distinct (map (snd \<circ> job_ident) (jobs db)) \<and> list_all (job_wf st) (jobs db)"

definition terminal :: "job \<Rightarrow> bool" where
  "terminal j \<longleftrightarrow> j_status j \<in> {Done, Failed, Dead}"

definition row_update :: "settings \<Rightarrow> job list \<Rightarrow> (job \<Rightarrow> job) \<Rightarrow> bool" where
  "row_update st js f \<longleftrightarrow> (\<forall>j \<in> set js. job_ident (f j) = job_ident j
     \<and> (job_wf st j \<longrightarrow> job_wf st (f j)) \<and> (terminal j \<longrightarrow> f j = j))"

definition rows_evolve :: "settings \<Rightarrow> 'z jobdb_scheme \<Rightarrow> 'z jobdb_scheme \<Rightarrow> bool" where
  "rows_evolve st db db' \<longleftrightarrow> (\<exists>f. jobs db' = map f (jobs db) \<and> row_update st (jobs db) f)"

lemma rows_evolveI [intro?]:
  "jobs db' = map f (jobs db) \<Longrightarrow> row_update st (jobs db) f \<Longrightarrow> rows_evolve st db db'"
  by (auto simp only: rows_evolve_def)

lemma rows_evolve_ident:
  assumes "rows_evolve st db db'"
  shows "map job_ident (jobs db') = map job_ident (jobs db)"
  using assms by (auto simp: rows_evolve_def row_update_def)

lemma rows_evolve_table_ok:
  assumes "rows_evolve st db db'" and "table_ok st db"
  shows "table_ok st db'"
proof -
  have m: "map job_ident (jobs db') = map job_ident (jobs db)"
    using assms(1) by (rule rows_evolve_ident)
  have "map j_id js = map fst (map job_ident js)" and
    "map (snd \<circ> job_ident) js = map snd (map job_ident js)" for js
    by (simp_all add: job_ident_def)
  with m have ids: "map j_id (jobs db') = map j_id (jobs db)"
    and keys: "map (snd \<circ> job_ident) (jobs db') = map (snd \<circ> job_ident) (jobs db)" by metis+
  have "list_all (job_wf st) (jobs db')"
    using assms by (auto simp: rows_evolve_def row_update_def table_ok_def list_all_iff)
  with assms(2) show ?thesis unfolding table_ok_def ids keys by simp
qed

lemma rows_evolve_refl [simp]: "rows_evolve st db db"
  by (rule rows_evolveI [where f = "\<lambda>j. j"]) (simp_all add: row_update_def)

lemma rows_evolve_trans:
  assumes "rows_evolve st db1 db2" and "rows_evolve st db2 db3"
  shows "rows_evolve st db1 db3"
proof -
  from assms obtain f g where "jobs db2 = map f (jobs db1)" "row_update st (jobs db1) f"
    "jobs db3 = map g (jobs db2)" "row_update st (jobs db2) g"
    by (auto simp only: rows_evolve_def)
  then show ?thesis
    by (intro rows_evolveI [where f = "g \<circ> f"]) (auto simp: row_update_def)
qed

lemma rows_evolve_terminal:
  assumes "rows_evolve st db db'" and "j \<in> set (jobs db)" and "terminal j"
  shows "j \<in> set (jobs db')"
  using assms by (force simp: rows_evolve_def row_update_def)

lemma update_job_evolves:
  "row_update st (jobs db) (\<lambda>k. if j_id k = i then g k else k) \<Longrightarrow> rows_evolve st db (update_job g i db)"
  by (rule rows_evolveI [where f = "\<lambda>k. if j_id k = i then g k else k"]) (auto simp: update_job_def)

subsection \<open>Picking the next job\<close>

lemma first_eligible_Some:
  assumes "first_eligible elig js = Some j"
  shows "j \<in> set js" and "elig j" and "\<forall>k \<in> set js. elig k \<longrightarrow> claim_order j \<le> claim_order k"
proof -
  let ?s = "sort_key claim_order (filter elig js)"
  from assms obtain rest where s: "?s = j # rest"
    by (auto simp: first_eligible_def split: list.splits)
  have set_s: "set ?s = {k \<in> set js. elig k}" by simp
  from s set_s show "j \<in> set js" and "elig j" by auto
  have "sorted (map claim_order ?s)" by simp
  with s have "\<forall>k \<in> set ?s. claim_order j \<le> claim_order k" by auto
  with set_s show "\<forall>k \<in> set js. elig k \<longrightarrow> claim_order j \<le> claim_order k" by simp
qed

lemma first_eligible_None:
  "first_eligible elig js = None \<longleftrightarrow> (\<forall>k \<in> set js. \<not> elig k)"
proof -
  have "sort_key claim_order (filter elig js) = [] \<longleftrightarrow> filter elig js = []"
    by (metis length_0_conv length_sort)
  then show ?thesis
    by (auto simp: first_eligible_def filter_empty_conv split: list.splits)
qed

lemma unique_id:
  "distinct (map j_id js) \<Longrightarrow> j \<in> set js \<Longrightarrow> k \<in> set js \<Longrightarrow> j_id j = j_id k \<Longrightarrow> j = k"
  by (auto simp: distinct_map inj_on_def)

lemma find_by_id:
  assumes "distinct (map j_id js)" and "j \<in> set js" and "P j"
  shows "find (\<lambda>k. j_id k = j_id j \<and> P k) js = Some j"
  using assms by (induction js) (auto simp: image_iff)

lemma claim_sqlite_postgresql:
  assumes "distinct (map j_id (jobs db))"
  shows "claim_sqlite elig st now owner db = claim_postgresql (\<lambda>_. False) elig st now owner db"
proof (cases "first_eligible elig (jobs db)")
  case None
  then show ?thesis by (simp add: claim_sqlite_def claim_postgresql_def)
next
  case (Some j)
  have j: "j \<in> set (jobs db)" "elig j" using first_eligible_Some [OF Some] by auto
  have same: "map (\<lambda>k. if j_id k = j_id j \<and> elig k then lease st now owner k else k) (jobs db)
      = map (\<lambda>k. if j_id k = j_id j then lease st now owner k else k) (jobs db)"
    using j unique_id [OF assms _ j(1)] by auto
  show ?thesis using find_by_id [where P = elig, OF assms j] Some
    by (simp add: claim_sqlite_def claim_postgresql_def update_job_def same)
qed

subsection \<open>Each operation rows_evolve rows soundly\<close>

lemma lease_row:
  assumes "eligible_clause st now j"
  shows "job_ident (lease st now owner j) = job_ident j"
    and "job_wf st j \<Longrightarrow> job_wf st (lease st now owner j)" and "\<not> terminal j"
  using assms by (auto simp: lease_def job_ident_def job_wf_def eligible_clause_def terminal_def)

lemma claim_postgresql_evolves:
  assumes d: "distinct (map j_id (jobs db))"
    and c: "claim_postgresql locked elig st now owner db = (r, db')"
    and e: "\<And>j. elig j \<Longrightarrow> eligible_clause st now j"
  shows "rows_evolve st db db'"
proof (cases "first_eligible (\<lambda>j. elig j \<and> \<not> locked (j_id j)) (jobs db)")
  case None
  with c show ?thesis by (simp add: claim_postgresql_def)
next
  case (Some j)
  let ?f = "\<lambda>k. if j_id k = j_id j then lease st now owner k else k"
  have j: "j \<in> set (jobs db)" "eligible_clause st now j"
    using first_eligible_Some(1,2) [OF Some] e by auto
  have "row_update st (jobs db) ?f"
    unfolding row_update_def using unique_id [OF d _ j(1)] lease_row [OF j(2)] by auto
  with c Some show ?thesis
    by (auto simp: claim_postgresql_def intro: update_job_evolves)
qed

lemma bury_row:
  assumes "exhausted_expired st now scope j"
  shows "job_ident (bury now j) = job_ident j"
    and "job_wf st j \<Longrightarrow> job_wf st (bury now j)" and "\<not> terminal j"
  using assms by (auto simp: bury_def Let_def job_ident_def job_wf_def exhausted_expired_def terminal_def)

lemma bury_evolves:
  assumes "bury_exhausted_expired_jobs st now scope db = (db', dead)"
  shows "rows_evolve st db db'"
  using assms bury_row
  by (intro rows_evolveI [where f = "\<lambda>j. if exhausted_expired st now scope j then bury now j else j"])
     (auto simp: bury_exhausted_expired_jobs_def row_update_def)

lemma locked_job_Inr: "locked_job i db = Inr j \<Longrightarrow> j \<in> set (jobs db) \<and> j_id j = i"
  by (auto simp: locked_job_def find_Some_iff in_set_conv_nth split: option.splits)

lemma running_update:
  assumes d: "distinct (map j_id (jobs db))" and l: "locked_job i db = Inr j"
    and r: "j_status j = Running"
    and f: "job_ident (f j) = job_ident j" "job_wf st j \<Longrightarrow> job_wf st (f j)"
  shows "row_update st (jobs db) (\<lambda>k. if j_id k = i then f k else k)"
proof -
  have j: "j \<in> set (jobs db)" "j_id j = i" using locked_job_Inr [OF l] by auto
  have "k = j" if "k \<in> set (jobs db)" "j_id k = i" for k
    using unique_id [OF d that(1) j(1)] that(2) j(2) by simp
  with f r show ?thesis by (auto simp: row_update_def terminal_def)
qed

lemma require_running_lease_Inr:
  "require_running_lease j owner = Inr x \<longleftrightarrow>
     j_status j = Running \<and> (owner = None \<or> j_lease_owner j = owner)"
  by (auto simp: require_running_lease_def)

lemma renew_lease_evolves:
  assumes "distinct (map j_id (jobs db))" and "renew_lease st owner now i db = Inr db'"
  shows "rows_evolve st db db'"
proof -
  let ?g = "\<lambda>j. j\<lparr>j_lease_expires_at := Some (now + usec (job_lease_seconds st)), j_updated_at := now\<rparr>"
  from assms(2) obtain j where "locked_job i db = Inr j" "j_status j = Running"
    and "db' = update_job ?g i db"
    by (auto simp: renew_lease_def res_simps require_running_lease_Inr)
  moreover from this have "row_update st (jobs db) (\<lambda>k. if j_id k = i then ?g k else k)"
    by (intro running_update [OF assms(1)]) (auto simp: job_ident_def job_wf_def)
  ultimately show ?thesis by (simp add: update_job_evolves)
qed

lemma mark_done_evolves:
  assumes "distinct (map j_id (jobs db))" and "mark_done owner now i db = Inr db'"
  shows "rows_evolve st db db'"
proof -
  let ?g = "\<lambda>j. j\<lparr>j_status := Done, j_lease_expires_at := None, j_lease_owner := None,
                 j_last_error := None, j_updated_at := now\<rparr>"
  from assms(2) obtain j where "locked_job i db = Inr j" "j_status j = Running"
    and "db' = update_job ?g i db"
    by (auto simp: mark_done_def res_simps require_running_lease_Inr)
  moreover from this have "row_update st (jobs db) (\<lambda>k. if j_id k = i then ?g k else k)"
    by (intro running_update [OF assms(1)]) (auto simp: job_ident_def job_wf_def)
  ultimately show ?thesis by (simp add: update_job_evolves)
qed

lemma retry_or_bury_evolves:
  assumes "distinct (map j_id (jobs db))" and "retry_or_bury st owner e now i db = Inr db'"
  shows "rows_evolve st db db'"
proof -
  from assms(2) obtain j where "locked_job i db = Inr j" "j_status j = Running"
    and "db' = update_job (retried st now e) i db"
    by (auto simp: retry_or_bury_def res_simps require_running_lease_Inr)
  moreover from this
  have "row_update st (jobs db) (\<lambda>k. if j_id k = i then retried st now e k else k)"
    by (intro running_update [OF assms(1)]) (auto simp: retried_def Let_def job_ident_def job_wf_def)
  ultimately show ?thesis by (simp add: update_job_evolves)
qed

subsection \<open>Claiming, as one operation\<close>

definition keeps_jobs :: "(job \<Rightarrow> 'z jobdb_scheme \<Rightarrow> 'z jobdb_scheme res) \<Rightarrow> bool" where
  "keeps_jobs h \<longleftrightarrow> (\<forall>j db db'. h j db = Inr db' \<longrightarrow> jobs db' = jobs db)"

text \<open>
  What a callback on a buried job may do to the table of jobs: rewrite the row of that job,
  keeping its identity and its well-formedness and leaving it unleased. \<open>settled_row\<close> is that
  contract for one row.
\<close>

definition settled_row :: "settings \<Rightarrow> (job \<Rightarrow> job) \<Rightarrow> bool" where
  "settled_row st g \<longleftrightarrow> (\<forall>k. job_ident (g k) = job_ident k
     \<and> (job_wf st k \<longrightarrow> j_status k \<noteq> Running \<longrightarrow> job_wf st (g k) \<and> j_status (g k) \<noteq> Running))"

definition handler_ok :: "settings \<Rightarrow> (job \<Rightarrow> 'z jobdb_scheme \<Rightarrow> 'z jobdb_scheme res) \<Rightarrow> bool" where
  "handler_ok st h \<longleftrightarrow> (\<forall>j db db'. h j db = Inr db' \<longrightarrow>
     (\<exists>g. settled_row st g \<and> jobs db' = map (\<lambda>k. if j_id k = j_id j then g k else k) (jobs db)))"

lemma keeps_jobs_handler_ok: "keeps_jobs h \<Longrightarrow> handler_ok st h"
  unfolding handler_ok_def keeps_jobs_def settled_row_def
  by (intro allI impI exI [where x = "\<lambda>k. k"]) simp

lemma run_terminal_handlers_jobs:
  "keeps_jobs h \<Longrightarrow> run_terminal_handlers h js db = Inr db' \<Longrightarrow> jobs db' = jobs db"
  by (induction js arbitrary: db) (auto simp: res_simps keeps_jobs_def)

lemma settled_row_id [simp]: "settled_row st g \<Longrightarrow> j_id (g k) = j_id k"
  unfolding settled_row_def job_ident_def by (metis fst_conv)

lemma settled_row_comp:
  "settled_row st f \<Longrightarrow> settled_row st g \<Longrightarrow> settled_row st (\<lambda>k. if P k then g (f k) else f k)"
  unfolding settled_row_def by (simp split: if_split)

lemma settled_row_if: "settled_row st g \<Longrightarrow> settled_row st (\<lambda>k. if P k then g k else k)"
  unfolding settled_row_def by simp

lemma run_terminal_handlers_rows:
  assumes "handler_ok st h" and "run_terminal_handlers h js db = Inr db'"
  shows "\<exists>g. settled_row st g \<and> jobs db' = map (\<lambda>k. if j_id k \<in> j_id ` set js then g k else k) (jobs db)"
  using assms(2)
proof (induction js arbitrary: db)
  case Nil
  then show ?case
    by (auto intro!: exI [where x = "\<lambda>k. k"] simp: settled_row_def)
next
  case (Cons j js)
  then obtain db1 where h: "h j db = Inr db1" and r: "run_terminal_handlers h js db1 = Inr db'"
    by (auto simp: res_simps)
  from assms(1) h obtain f where f: "settled_row st f"
    and db1: "jobs db1 = map (\<lambda>k. if j_id k = j_id j then f k else k) (jobs db)"
    unfolding handler_ok_def by blast
  from Cons.IH [OF r] obtain g where g: "settled_row st g"
    and db': "jobs db' = map (\<lambda>k. if j_id k \<in> j_id ` set js then g k else k) (jobs db1)" by blast
  let ?f = "\<lambda>k. if j_id k = j_id j then f k else k"
  let ?G = "\<lambda>k. if j_id k \<in> j_id ` set js then g (?f k) else ?f k"
  have "settled_row st ?G" by (rule settled_row_comp [OF settled_row_if [OF f] g])
  moreover have "jobs db' = map (\<lambda>k. if j_id k \<in> j_id ` set (j # js) then ?G k else k) (jobs db)"
    unfolding db' db1 using settled_row_id [OF f] by simp
  ultimately show ?case by blast
qed

text \<open>Burial followed by the callbacks: \<open>buried_row\<close> is what happens to an exhausted row.\<close>

definition buried_row :: "settings \<Rightarrow> (job \<Rightarrow> job) \<Rightarrow> bool" where
  "buried_row st g \<longleftrightarrow> (\<forall>k. job_ident (g k) = job_ident k
     \<and> (job_wf st k \<longrightarrow> j_status k = Running \<longrightarrow> job_wf st (g k) \<and> j_status (g k) \<noteq> Running))"

lemma buried_row_id: "buried_row st g \<Longrightarrow> j_id (g k) = j_id k"
  unfolding buried_row_def job_ident_def by (metis fst_conv)

lemma bury_settles: "j_status (bury now j) \<noteq> Running" "job_ident (bury now j) = job_ident j"
  by (simp_all add: bury_def Let_def job_ident_def)

lemma bury_then_handlers:
  assumes h: "handler_ok st h" and d: "distinct (map j_id (jobs db))"
    and b: "bury_exhausted_expired_jobs st now scope db = (db1, dead)"
    and t: "run_terminal_handlers h dead db1 = Inr db2"
  shows "\<exists>g. buried_row st g
    \<and> jobs db2 = map (\<lambda>j. if exhausted_expired st now scope j then g j else j) (jobs db)"
proof -
  from run_terminal_handlers_rows [OF h t] obtain g where g: "settled_row st g" and
    db2: "jobs db2 = map (\<lambda>k. if j_id k \<in> j_id ` set dead then g k else k) (jobs db1)" by blast
  let ?e = "exhausted_expired st now scope"
  have db1: "jobs db1 = map (\<lambda>j. if ?e j then bury now j else j) (jobs db)"
    and dead: "set dead \<subseteq> bury now ` {j \<in> set (jobs db). ?e j}"
    using b by (auto simp: bury_exhausted_expired_jobs_def)
  have idb: "j_id (bury now j) = j_id j" for j by (simp add: bury_def Let_def)
  have out: "j_id j \<notin> j_id ` set dead" if j: "j \<in> set (jobs db)" and ne: "\<not> ?e j" for j
  proof
    assume "j_id j \<in> j_id ` set dead"
    then obtain k where "k \<in> set (jobs db)" "?e k" "j_id j = j_id k" using dead idb by auto
    with unique_id [OF d j] ne show False by blast
  qed
  let ?G = "\<lambda>j. if j_id j \<in> j_id ` set dead then g (bury now j) else bury now j"
  have "jobs db2 = map (\<lambda>j. if ?e j then ?G j else j) (jobs db)"
    unfolding db2 db1 map_map by (rule map_cong [OF refl]) (simp add: idb out)
  moreover have "buried_row st ?G"
  proof -
    have "job_wf st (bury now k)" if "job_wf st k" "j_status k = Running" for k
      using that by (auto simp: bury_def Let_def job_wf_def)
    then show ?thesis using g bury_settles unfolding buried_row_def settled_row_def by simp
  qed
  ultimately show ?thesis by blast
qed

lemma buried_row_evolves:
  assumes "buried_row st g"
    and "jobs db2 = map (\<lambda>j. if exhausted_expired st now scope j then g j else j) (jobs db)"
  shows "rows_evolve st db db2"
  using assms by (intro rows_evolveI [where f = "\<lambda>j. if exhausted_expired st now scope j then g j else j"])
    (auto simp: buried_row_def row_update_def exhausted_expired_def terminal_def)

lemma claim_next_Inr:
  assumes "claim_next digest hash dia locked st reg_opt ready given wid h now db = Inr (r, db')"
    and "handler_ok st h" and "distinct (map j_id (jobs db))"
  obtains scope owner db2 locked' g where
    "clean_nonempty (lease_owner_text given wid) = Inr owner" "rows_evolve st db db2"
    "buried_row st g"
    "jobs db2 = map (\<lambda>j. if exhausted_expired st now scope j then g j else j) (jobs db)"
    "claim_postgresql locked' (\<lambda>j. eligible_clause st now j \<and> scope j) st now owner db2 = (r, db')"
proof -
  from assms(1) obtain reg owner db2 where o: "clean_nonempty (lease_owner_text given wid) = Inr owner" and
    t: "run_terminal_handlers h (snd (bury_exhausted_expired_jobs st now (execution_scope hash st reg ready) db))
          (fst (bury_exhausted_expired_jobs st now (execution_scope hash st reg ready) db)) = Inr db2"
    and c: "(case dia of
        Sqlite \<Rightarrow> claim_sqlite (\<lambda>j. eligible_clause st now j \<and> execution_scope hash st reg ready j) st now owner db2
      | Postgresql \<Rightarrow> claim_postgresql locked (\<lambda>j. eligible_clause st now j \<and> execution_scope hash st reg ready j) st now owner db2)
      = (r, db')"
    by (auto simp: claim_next_def res_simps Let_def)
  from bury_then_handlers [OF assms(2,3) _ t, unfolded prod.collapse, OF refl] obtain g where
    g: "buried_row st g" and db2: "jobs db2
      = map (\<lambda>j. if exhausted_expired st now (execution_scope hash st reg ready) j then g j else j) (jobs db)"
    by blast
  have ev: "rows_evolve st db db2" using buried_row_evolves [OF g db2] .
  have "map j_id (jobs db2) = map j_id (jobs db)"
    using arg_cong [OF rows_evolve_ident [OF ev], of "map fst"] by (simp add: job_ident_def comp_def)
  then have d2: "distinct (map j_id (jobs db2))" using assms(3) by simp
  have "\<exists>locked'. claim_postgresql locked'
      (\<lambda>j. eligible_clause st now j \<and> execution_scope hash st reg ready j) st now owner db2 = (r, db')"
    using c claim_sqlite_postgresql [OF d2] by (cases dia) auto
  then show thesis using that o ev g db2 by blast
qed

lemma claim_next_evolves:
  assumes "claim_next digest hash dia locked st reg_opt ready given wid h now db = Inr (r, db')"
    and "handler_ok st h" and "distinct (map j_id (jobs db))"
  shows "rows_evolve st db db'"
proof -
  from assms obtain scope owner db2 locked' where ev: "rows_evolve st db db2" and
    c: "claim_postgresql locked' (\<lambda>j. eligible_clause st now j \<and> scope j) st now owner db2 = (r, db')"
    by (rule claim_next_Inr) blast
  have "map j_id (jobs db2) = map j_id (jobs db)"
    using arg_cong [OF rows_evolve_ident [OF ev], of "map fst"] by (simp add: job_ident_def comp_def)
  then have "rows_evolve st db2 db'"
    using claim_postgresql_evolves [OF _ c] assms(3) by simp
  with ev show ?thesis by (rule rows_evolve_trans)
qed

subsection \<open>Enqueue\<close>

lemma check_profile_consistent:
  assumes "build_job digest hash uuid_of new_id now rows a = Inr j"
  shows "j_id j = new_id" and "j_status j = Queued" and "j_attempts j = 0"
    and "j_lease_owner j = None" and "j_lease_expires_at j = None"
    and "j_execution_profile j = Universal_Sandboxed \<longleftrightarrow> j_sandbox_verified j"
  using assms by (auto simp: build_job_def res_simps split: prod.split_asm if_splits)

lemma enqueue_table_ok:
  assumes "enqueue digest hash uuid_of dia new_id now db a = Inr (r, db')"
    and "table_ok st db" and "1 \<le> job_max_attempts st"
  shows "table_ok st db'"
proof -
  from assms(1) obtain j where j: "build_job digest hash uuid_of new_id now (intakes db) a = Inr j"
    and db': "db' = (if integrity_error dia db j then db else db\<lparr>jobs := jobs db @ [j]\<rparr>)"
    by (auto simp: enqueue_def res_simps split: if_splits)
  have "job_wf st j" using check_profile_consistent [OF j] assms(3) by (simp add: job_wf_def)
  with db' assms(2) show ?thesis
    by (auto simp: table_ok_def integrity_error_def job_ident_def)
qed

subsection \<open>Reachable tables\<close>

inductive queue_step ::
  "(pyval \<Rightarrow> pystr) \<Rightarrow> (pystr list \<Rightarrow> pystr) \<Rightarrow> uuid_parser \<Rightarrow> settings \<Rightarrow> jobdb \<Rightarrow> jobdb \<Rightarrow> bool"
  for digest hash uuid_of st where
  enqueue_step: "enqueue digest hash uuid_of dia new_id now db a = Inr (r, db')
     \<Longrightarrow> queue_step digest hash uuid_of st db db'"
| claim_step: "claim_next digest hash dia locked st reg_opt ready given wid h now db = Inr (r, db')
     \<Longrightarrow> handler_ok st h \<Longrightarrow> queue_step digest hash uuid_of st db db'"
| renew_step: "renew_lease st owner now i db = Inr db' \<Longrightarrow> queue_step digest hash uuid_of st db db'"
| done_step: "mark_done owner now i db = Inr db' \<Longrightarrow> queue_step digest hash uuid_of st db db'"
| retry_step: "retry_or_bury st owner e now i db = Inr db'
     \<Longrightarrow> queue_step digest hash uuid_of st db db'"

inductive reachable_queue ::
  "(pyval \<Rightarrow> pystr) \<Rightarrow> (pystr list \<Rightarrow> pystr) \<Rightarrow> uuid_parser \<Rightarrow> settings \<Rightarrow> jobdb \<Rightarrow> bool"
  for digest hash uuid_of st where
  empty_queue: "jobs db = [] \<Longrightarrow> reachable_queue digest hash uuid_of st db"
| queue_steps: "reachable_queue digest hash uuid_of st db \<Longrightarrow> queue_step digest hash uuid_of st db db'
     \<Longrightarrow> reachable_queue digest hash uuid_of st db'"

lemma table_ok_distinct: "table_ok st db \<Longrightarrow> distinct (map j_id (jobs db))"
  by (simp add: table_ok_def)

lemma queue_step_table_ok:
  assumes "queue_step digest hash uuid_of st db db'" and "table_ok st db" and "1 \<le> job_max_attempts st"
  shows "table_ok st db'"
  using assms(1)
proof cases
  case enqueue_step
  then show ?thesis using enqueue_table_ok assms(2,3) by blast
next
  case claim_step
  then show ?thesis
    using claim_next_evolves rows_evolve_table_ok table_ok_distinct assms(2) by blast
next
  case renew_step
  then show ?thesis
    using renew_lease_evolves rows_evolve_table_ok table_ok_distinct assms(2) by blast
next
  case done_step
  then show ?thesis
    using mark_done_evolves rows_evolve_table_ok table_ok_distinct assms(2) by blast
next
  case retry_step
  then show ?thesis
    using retry_or_bury_evolves rows_evolve_table_ok table_ok_distinct assms(2) by blast
qed

lemma queue_step_terminal:
  assumes "queue_step digest hash uuid_of st db db'" and "table_ok st db"
    and "j \<in> set (jobs db)" and "terminal j"
  shows "j \<in> set (jobs db')"
  using assms(1)
proof cases
  case (enqueue_step dia new_id now a r)
  then show ?thesis using assms(3) by (auto simp: enqueue_def res_simps split: if_splits)
next
  case claim_step
  then show ?thesis
    using claim_next_evolves rows_evolve_terminal table_ok_distinct assms(2-) by blast
next
  case renew_step
  then show ?thesis
    using renew_lease_evolves rows_evolve_terminal table_ok_distinct assms(2-) by blast
next
  case done_step
  then show ?thesis
    using mark_done_evolves rows_evolve_terminal table_ok_distinct assms(2-) by blast
next
  case retry_step
  then show ?thesis
    using retry_or_bury_evolves rows_evolve_terminal table_ok_distinct assms(2-) by blast
qed

lemma reachable_queue_table_ok:
  "reachable_queue digest hash uuid_of st db \<Longrightarrow> 1 \<le> job_max_attempts st \<Longrightarrow> table_ok st db"
  by (induction rule: reachable_queue.induct)
     (simp add: table_ok_def, blast intro: queue_step_table_ok)

end
