(* ===== verification/Job_Lease.thy ===== *)
theory Job_Lease
  imports Job_Queue_Inv
begin

text \<open>
  The lease contract the worker relies on, as an interface. A client of the queue knows, for
  each job, who holds it and until when (\<open>holder\<close>); it claims with its own identity and finishes
  (done or retry) with the same identity. The locale states the laws, derives from them that a
  live lease excludes every other worker for its whole duration and that a worker whose lease
  was taken over cannot finish, and is interpreted on the definitions of the queue.
\<close>

locale leased_queue =
  fixes inv :: "'q \<Rightarrow> bool"
    and holder :: "'q \<Rightarrow> nat \<Rightarrow> (pystr \<times> int) option"
    and claim :: "int \<Rightarrow> pystr \<Rightarrow> 'q \<Rightarrow> nat option \<Rightarrow> 'q \<Rightarrow> bool"
    and finish :: "pystr \<Rightarrow> nat \<Rightarrow> 'q \<Rightarrow> 'q \<Rightarrow> bool"
  assumes claim_inv: "inv q \<Longrightarrow> claim now w q r q' \<Longrightarrow> inv q'"
    and finish_inv: "inv q \<Longrightarrow> finish w i q q' \<Longrightarrow> inv q'"
    and claim_takes: "inv q \<Longrightarrow> claim now w q (Some i) q' \<Longrightarrow> \<exists>e. holder q' i = Some (w, e)"
    and claim_respects: "inv q \<Longrightarrow> claim now w q r q' \<Longrightarrow> holder q i = Some (v, e) \<Longrightarrow> now < e
          \<Longrightarrow> holder q' i = Some (v, e) \<and> r \<noteq> Some i"
    and finish_holds: "inv q \<Longrightarrow> finish w i q q' \<Longrightarrow> \<exists>e. holder q i = Some (w, e)"
    and finish_frees: "inv q \<Longrightarrow> finish w i q q' \<Longrightarrow> holder q' i = None"
    and finish_frame: "inv q \<Longrightarrow> finish w i q q' \<Longrightarrow> k \<noteq> i \<Longrightarrow> holder q' k = holder q k"
begin

inductive others :: "pystr \<Rightarrow> int \<Rightarrow> nat option list \<Rightarrow> 'q \<Rightarrow> 'q \<Rightarrow> bool" for w e where
  others_refl: "others w e [] q q"
| others_claim: "others w e rs q q' \<Longrightarrow> claim now v q' r q'' \<Longrightarrow> now < e \<Longrightarrow> others w e (r # rs) q q''"
| others_finish: "others w e rs q q' \<Longrightarrow> finish v k q' q'' \<Longrightarrow> v \<noteq> w \<Longrightarrow> others w e rs q q''"

lemma lease_is_exclusive:
  assumes "others w e rs q q'" and "inv q" and "holder q i = Some (w, e)"
  shows "inv q' \<and> holder q' i = Some (w, e) \<and> Some i \<notin> set rs"
  using assms
proof (induction rule: others.induct)
  case (others_refl q)
  then show ?case by simp
next
  case (others_claim rs q q' now v r q'')
  then show ?case using claim_inv claim_respects [of q' now v r q'' i w e] by auto
next
  case (others_finish rs q q' v k q'')
  then have h: "inv q'" "holder q' i = Some (w, e)" "Some i \<notin> set rs" by auto
  have "k \<noteq> i" using finish_holds [OF h(1) others_finish.hyps(2)] h(2) others_finish.hyps(3) by auto
  then show ?case
    using h finish_inv [OF h(1) others_finish.hyps(2)] finish_frame [OF h(1) others_finish.hyps(2)]
    by auto
qed

lemma lost_lease_cannot_finish:
  assumes "inv q" and "claim now v q (Some i) q'" and "v \<noteq> w"
  shows "\<not> finish w i q' q''"
proof
  assume f: "finish w i q' q''"
  have "inv q'" using claim_inv [OF assms(1,2)] .
  then show False
    using finish_holds [OF _ f] claim_takes [OF assms(1,2)] assms(3) by auto
qed

lemma finished_is_free:
  assumes "inv q" and "finish w i q q'"
  shows "\<not> finish v i q' q''"
  using finish_frees [OF assms] finish_holds [OF finish_inv [OF assms]] by fastforce

end

subsection \<open>The queue provides the contract\<close>

definition job_lease :: "job \<Rightarrow> (pystr \<times> int) option" where
  "job_lease j = (if j_status j = Running then
     (case (j_lease_owner j, j_lease_expires_at j) of (Some w, Some e) \<Rightarrow> Some (w, e) | _ \<Rightarrow> None)
   else None)"

definition job_holder :: "'z jobdb_scheme \<Rightarrow> nat \<Rightarrow> (pystr \<times> int) option" where
  "job_holder db i = (case find (\<lambda>j. j_id j = i) (jobs db) of None \<Rightarrow> None | Some j \<Rightarrow> job_lease j)"

definition worker_claims ::
  "(pyval \<Rightarrow> pystr) \<Rightarrow> (pystr list \<Rightarrow> pystr) \<Rightarrow> settings \<Rightarrow> int \<Rightarrow> pystr \<Rightarrow> 'z jobdb_scheme \<Rightarrow> nat option \<Rightarrow> 'z jobdb_scheme \<Rightarrow> bool" where
  "worker_claims digest hash st now w db r db' \<longleftrightarrow> w \<noteq> [] \<and> strip w = w \<and>
     (\<exists>dia locked reg_opt ready wid h jo. handler_ok st h \<and> r = map_option j_id jo \<and>
        claim_next digest hash dia locked st reg_opt ready (Some w) wid h now db = Inr (jo, db'))"

definition worker_finishes :: "settings \<Rightarrow> pystr \<Rightarrow> nat \<Rightarrow> 'z jobdb_scheme \<Rightarrow> 'z jobdb_scheme \<Rightarrow> bool" where
  "worker_finishes st w i db db' \<longleftrightarrow> (\<exists>now. mark_done (Some w) now i db = Inr db')
     \<or> (\<exists>now e. retry_or_bury st (Some w) e now i db = Inr db')"

lemma find_map_id:
  "(\<And>j. j \<in> set js \<Longrightarrow> j_id (f j) = j_id j) \<Longrightarrow>
     find (\<lambda>j. j_id j = i) (map f js) = map_option f (find (\<lambda>j. j_id j = i) js)"
  by (induction js) auto

lemma job_holder_evolve:
  assumes "jobs db' = map f (jobs db)" and "\<And>j. j \<in> set (jobs db) \<Longrightarrow> j_id (f j) = j_id j"
    and "find (\<lambda>j. j_id j = i) (jobs db) = Some j"
  shows "job_holder db' i = job_lease (f j)"
proof -
  have "find (\<lambda>j. j_id j = i) (jobs db') = Some (f j)"
    unfolding assms(1) by (subst find_map_id) (simp_all add: assms(2,3))
  then show ?thesis by (simp add: job_holder_def)
qed

lemma job_holder_Some:
  "job_holder db i = Some x \<Longrightarrow>
     \<exists>j \<in> set (jobs db). find (\<lambda>j. j_id j = i) (jobs db) = Some j \<and> j_id j = i \<and> job_lease j = Some x"
  by (auto simp: job_holder_def split: option.splits dest: find_SomeD)

lemma update_job_holder:
  assumes "\<And>j. j_id (g j) = j_id j"
  shows "job_holder (update_job g i db) k =
     (case find (\<lambda>j. j_id j = k) (jobs db) of None \<Rightarrow> None
      | Some j \<Rightarrow> job_lease (if k = i then g j else j))"
proof -
  have "find (\<lambda>j. j_id j = k) (map (\<lambda>j. if j_id j = i then g j else j) (jobs db))
      = map_option (\<lambda>j. if j_id j = i then g j else j) (find (\<lambda>j. j_id j = k) (jobs db))"
    by (rule find_map_id) (simp add: assms)
  then have h: "job_holder (update_job g i db) k =
      (case find (\<lambda>j. j_id j = k) (jobs db) of None \<Rightarrow> None
       | Some j \<Rightarrow> job_lease (if j_id j = i then g j else j))"
    by (simp add: job_holder_def update_job_def split: option.split)
  show ?thesis
  proof (cases "find (\<lambda>j. j_id j = k) (jobs db)")
    case (Some j)
    then have "j_id j = k" using find_SomeD by fastforce
    with Some show ?thesis by (simp add: h)
  qed (simp add: h)
qed

lemma finish_update:
  assumes "worker_finishes st w i db db'"
  obtains g j where "db' = update_job g i db" "\<And>j. j_id (g j) = j_id j" "\<And>j. job_lease (g j) = None"
    "locked_job i db = Inr j" "j_status j = Running" "j_lease_owner j = Some w"
  using assms unfolding worker_finishes_def
proof (elim disjE exE)
  fix now
  assume "mark_done (Some w) now i db = Inr db'"
  then obtain j where j: "locked_job i db = Inr j" "j_status j = Running" "j_lease_owner j = Some w"
    and db': "db' = update_job (\<lambda>j. j\<lparr>j_status := Done, j_lease_expires_at := None,
          j_lease_owner := None, j_last_error := None, j_updated_at := now\<rparr>) i db"
    by (auto simp: mark_done_def res_simps require_running_lease_Inr)
  then show thesis by (intro that [OF db' _ _ j]) (auto simp: job_lease_def)
next
  fix now e
  assume "retry_or_bury st (Some w) e now i db = Inr db'"
  then obtain j where j: "locked_job i db = Inr j" "j_status j = Running" "j_lease_owner j = Some w"
    and db': "db' = update_job (retried st now e) i db"
    by (auto simp: retry_or_bury_def res_simps require_running_lease_Inr)
  then show thesis by (intro that [OF db' _ _ j]) (auto simp: retried_def Let_def job_lease_def)
qed

lemma finish_laws:
  assumes "table_ok st db" and "worker_finishes st w i db db'"
  shows "table_ok st db'" and "\<exists>e. job_holder db i = Some (w, e)" and "job_holder db' i = None"
    and "k \<noteq> i \<Longrightarrow> job_holder db' k = job_holder db k"
proof -
  have d: "distinct (map j_id (jobs db))" using assms(1) by (rule table_ok_distinct)
  have "rows_evolve st db db'"
    using assms(2) mark_done_evolves [OF d] retry_or_bury_evolves [OF d]
    by (auto simp: worker_finishes_def)
  then show "table_ok st db'" using assms(1) by (rule rows_evolve_table_ok)
  from assms(2) obtain g j where u: "db' = update_job g i db" "\<And>j. j_id (g j) = j_id j"
    "\<And>j. job_lease (g j) = None" and l: "locked_job i db = Inr j"
    and r: "j_status j = Running" "j_lease_owner j = Some w"
    by (rule finish_update) blast
  have f: "find (\<lambda>j. j_id j = i) (jobs db) = Some j"
    using l by (auto simp: locked_job_def split: option.splits)
  then have "job_wf st j" using assms(1) find_SomeD by (fastforce simp: table_ok_def list_all_iff)
  with r f show "\<exists>e. job_holder db i = Some (w, e)"
    by (auto simp: job_holder_def job_lease_def job_wf_def)
  show "job_holder db' i = None"
    by (simp add: u(1) update_job_holder [OF u(2)] f u(3))
  show "job_holder db' k = job_holder db k" if "k \<noteq> i"
    unfolding u(1) update_job_holder [OF u(2)] using that by (simp add: job_holder_def split: option.split)
qed

lemma live_lease_untouched:
  assumes "job_lease j = Some (v, e)" and "now < e"
  shows "\<not> exhausted_expired st now scope j" and "\<not> eligible_clause st now j"
  using assms
  by (auto simp: exhausted_expired_def eligible_clause_def lease_expired_def job_lease_def
      split: if_splits option.splits)

lemma claim_owner:
  "w \<noteq> [] \<Longrightarrow> strip w = w \<Longrightarrow> clean_nonempty (lease_owner_text (Some w) wid) = Inr w"
  by (simp add: lease_owner_text_def)

lemma claim_laws:
  assumes "table_ok st db" and "worker_claims digest hash st now w db r db'"
  shows "table_ok st db'" and "r = Some i \<Longrightarrow> \<exists>e. job_holder db' i = Some (w, e)"
    and "job_holder db i = Some (v, e) \<Longrightarrow> now < e \<Longrightarrow> job_holder db' i = Some (v, e) \<and> r \<noteq> Some i"
proof -
  have d: "distinct (map j_id (jobs db))" using assms(1) by (rule table_ok_distinct)
  from assms(2) obtain dia locked reg_opt ready wid h jo where w: "w \<noteq> []" "strip w = w"
    and h: "handler_ok st h" and r: "r = map_option j_id jo"
    and c: "claim_next digest hash dia locked st reg_opt ready (Some w) wid h now db = Inr (jo, db')"
    by (auto simp: worker_claims_def)
  show "table_ok st db'"
    using rows_evolve_table_ok [OF claim_next_evolves [OF c h d] assms(1)] .
  from c h d obtain scope owner db2 locked' g where
    o: "clean_nonempty (lease_owner_text (Some w) wid) = Inr owner" and ev: "rows_evolve st db db2"
    and g: "buried_row st g"
    and b: "jobs db2 = map (\<lambda>j. if exhausted_expired st now scope j then g j else j) (jobs db)"
    and p: "claim_postgresql locked' (\<lambda>j. eligible_clause st now j \<and> scope j) st now owner db2 = (jo, db')"
    by (rule claim_next_Inr) blast
  have own: "owner = w" using o claim_owner [OF w] by simp
  have d2: "distinct (map j_id (jobs db2))"
    using rows_evolve_table_ok [OF ev assms(1)] by (rule table_ok_distinct)
  have idl: "j_id (lease st now owner k) = j_id k" for k by (simp add: lease_def)
  let ?elig = "\<lambda>j. (eligible_clause st now j \<and> scope j) \<and> \<not> locked' (j_id j)"
  show "\<exists>e. job_holder db' i = Some (w, e)" if "r = Some i"
  proof -
    from that r p obtain j where j: "first_eligible ?elig (jobs db2) = Some j" "j_id j = i"
      and db': "db' = update_job (lease st now owner) i db2"
      by (auto simp: claim_postgresql_def idl split: option.splits)
    have "find (\<lambda>k. j_id k = i) (jobs db2) = Some j"
      using find_by_id [where P = "\<lambda>_. True", OF d2 first_eligible_Some(1) [OF j(1)]] j(2) by simp
    then show ?thesis
      unfolding db' update_job_holder [OF idl] by (simp add: own job_lease_def lease_def)
  qed
  show "job_holder db' i = Some (v, e) \<and> r \<noteq> Some i" if hold: "job_holder db i = Some (v, e)" and live: "now < e"
  proof -
    from job_holder_Some [OF hold] obtain j where f: "find (\<lambda>j. j_id j = i) (jobs db) = Some j"
      and j: "j_id j = i" "job_lease j = Some (v, e)" by blast
    note untouched = live_lease_untouched [OF j(2) live]
    have "find (\<lambda>j. j_id j = i) (jobs db2) = Some j"
      unfolding b by (subst find_map_id) (auto simp: f untouched buried_row_id [OF g])
    then have j2: "j \<in> set (jobs db2)" and h2: "job_holder db2 i = Some (v, e)"
      using j(2) by (auto simp: job_holder_def dest: find_SomeD)
    show ?thesis
    proof (cases "first_eligible ?elig (jobs db2)")
      case None
      with p r h2 show ?thesis by (simp add: claim_postgresql_def)
    next
      case (Some k)
      have "j_id k \<noteq> i"
        using first_eligible_Some [OF Some] unique_id [OF d2 _ j2, of k] j(1) untouched(2) by auto
      then have "job_holder (update_job (lease st now owner) (j_id k) db2) i = job_holder db2 i"
        unfolding update_job_holder [OF idl] by (simp add: job_holder_def split: option.split)
      with Some p r h2 \<open>j_id k \<noteq> i\<close> show ?thesis by (auto simp: claim_postgresql_def idl)
    qed
  qed
qed

interpretation jq: leased_queue "table_ok st" job_holder "worker_claims digest hash st"
  "worker_finishes st" for digest hash st
proof (unfold_locales, goal_cases)
  case (1 q now w r q')
  then show ?case by (rule claim_laws(1))
next
  case (2 q w i q')
  then show ?case by (rule finish_laws(1))
next
  case (3 q now w i q')
  then show ?case using claim_laws(2) by blast
next
  case (4 q now w r q' i v e)
  then show ?case using claim_laws(3) by blast
next
  case (5 q w i q')
  then show ?case by (rule finish_laws(2))
next
  case (6 q w i q')
  then show ?case by (rule finish_laws(3))
next
  case (7 q w i q' k)
  then show ?case by (rule finish_laws(4))
qed

end
