(* ===== verification/Job_Queue_Props.thy ===== *)
theory Job_Queue_Props
  imports Job_Lease
begin

text \<open>
  The properties of the job queue: the invariant of every reachable table, terminal jobs,
  lease exclusion, the claim order, idempotent enqueueing, retries, and the separation of
  the two execution profiles.
\<close>

subsection \<open>A concrete queue\<close>

definition demo_settings :: settings where
  "demo_settings = \<lparr>intake_mode = Legacy, job_lease_seconds = 120, job_max_attempts = 4,
     job_retry_base_seconds = 2, setting_value = (\<lambda>_. PInt 1)\<rparr>"

definition demo_digest :: "pyval \<Rightarrow> pystr" where
  "demo_digest v = replicate 64 48"

definition demo_hash :: "pystr list \<Rightarrow> pystr" where
  "demo_hash vs = replicate 64 49"

definition demo_uuid :: uuid_parser where
  "demo_uuid v = None"

definition demo_args :: enqueue_args where
  "demo_args = \<lparr>ea_job_type = PStr (u ''process_document''),
     ea_payload = PDict [(u ''document_id'', PUuid 7)],
     ea_idempotency_key = PStr (u ''k''), ea_settings = None,
     ea_registry_digest = PNone, ea_capabilities_digest = PNone, ea_requirements_digest = PNone,
     ea_required_components = PList [], ea_intake_intent = PNone, ea_registry = None\<rparr>"

definition demo_empty :: jobdb where
  "demo_empty = \<lparr>jobs = [], intakes = [], documents = [7]\<rparr>"

definition demo_registry :: registry where
  "demo_registry = \<lparr>reg_process = [], reg_limits = [], reg_flags = [],
     reg_sandbox = phase_one_sandbox_evidence, reg_schema = registry_schema, reg_version = 1,
     reg_registry_digest = replicate 64 48, reg_capabilities_digest = replicate 64 48\<rparr>"

definition demo_job :: job where
  "demo_job = \<lparr>j_id = 1, j_document_id = 7, j_job_type = u ''process_document'',
     j_payload = [(u ''document_id'', PStr (uuid_str 7)),
                  (u ''intake_intent'', PStr (u ''legacy_unspecified''))],
     j_idempotency_key = u ''k'', j_execution_profile = Legacy_Compat, j_sandbox_verified = False,
     j_registry_digest = None, j_capabilities_digest = None,
     j_requirements_digest = replicate 64 49, j_required_components = [],
     j_intake_intent = Legacy_Unspecified, j_status = Queued, j_attempts = 0, j_last_error = None,
     j_available_at = 0, j_lease_expires_at = None, j_lease_owner = None,
     j_created_at = 0, j_updated_at = 0\<rparr>"

definition demo_queued :: jobdb where
  "demo_queued = demo_empty\<lparr>jobs := [demo_job]\<rparr>"

definition demo_leased :: jobdb where
  "demo_leased = demo_empty\<lparr>jobs := [lease demo_settings 0 (u ''A'') demo_job]\<rparr>"

lemma strip_u:
  "s \<noteq> [] \<Longrightarrow> \<not> is_space (of_char (hd s)) \<Longrightarrow> \<not> is_space (of_char (last s)) \<Longrightarrow> strip (u s) = u s"
  unfolding strip_def
  by (subst dropWhile_id) (auto simp: u_def hd_map last_map dropWhile_rev_id)

lemma demo_enqueue:
  "enqueue demo_digest demo_hash demo_uuid Postgresql 1 0 demo_empty demo_args = Inr (Some 1, demo_queued)"
proof -
  have s: "strip (u ''process_document'') = u ''process_document''" "strip (u ''k'') = u ''k''"
    by (rule strip_u; simp add: is_space_def)+
  show ?thesis
    by (simp add: enqueue_def build_job_def demo_args_def active_registry_def or_default_def opt_str_def
        check_universal_evidence_def is_universal_def s coerce_uuid_def resolve_intake_intent_def
        source_intake_for_payload_def provided_def integrity_error_def demo_empty_def demo_queued_def
        demo_job_def demo_hash_def intake_intent_value_def)
qed

lemma demo_reachable: "reachable_queue demo_digest demo_hash demo_uuid demo_settings demo_queued"
proof (rule queue_steps)
  show "reachable_queue demo_digest demo_hash demo_uuid demo_settings demo_empty"
    by (rule empty_queue) (simp add: demo_empty_def)
  show "queue_step demo_digest demo_hash demo_uuid demo_settings demo_empty demo_queued"
    by (rule enqueue_step [OF demo_enqueue])
qed

lemma demo_claim:
  "claim_next demo_digest demo_hash Sqlite (\<lambda>_. False) demo_settings (Some demo_registry) True
     (Some (u ''A'')) [] (\<lambda>j db. Inr db) 0 demo_queued
   = Inr (Some (lease demo_settings 0 (u ''A'') demo_job), demo_leased)"
proof -
  have s: "strip (u ''A'') = u ''A''" by (rule strip_u; simp add: is_space_def)
  show ?thesis
    by (simp add: claim_next_def lease_owner_text_def s bury_exhausted_expired_jobs_def
        exhausted_expired_def demo_queued_def demo_empty_def demo_job_def claim_sqlite_def
        first_eligible_def eligible_clause_def execution_scope_def demo_settings_def
        demo_leased_def Let_def)
qed

lemma keeps_jobs_skip [simp]: "keeps_jobs (\<lambda>j db. Inr db)"
  by (simp add: keeps_jobs_def)

lemma handler_ok_skip [simp]: "handler_ok st (\<lambda>j db. Inr db)"
  by (rule keeps_jobs_handler_ok) simp

lemma demo_worker_claims:
  "worker_claims demo_digest demo_hash demo_settings 0 (u ''A'') demo_queued (Some 1) demo_leased"
proof -
  have s: "strip (u ''A'') = u ''A''" by (rule strip_u; simp add: is_space_def)
  show ?thesis unfolding worker_claims_def
    by (intro conjI s exI [of _ Sqlite] exI [of _ "\<lambda>_. False"] exI [of _ "Some demo_registry"]
        exI [of _ True] exI [of _ "[]"] exI [of _ "\<lambda>j db. Inr db"]
        exI [of _ "Some (lease demo_settings 0 (u ''A'') demo_job)"] demo_claim handler_ok_skip)
       (simp_all add: lease_def demo_job_def)
qed

lemma demo_max_attempts: "1 \<le> job_max_attempts demo_settings"
  by (simp add: demo_settings_def)

lemma demo_table_ok: "table_ok demo_settings demo_queued"
  using reachable_queue_table_ok [OF demo_reachable demo_max_attempts] .

definition demo_done_job :: job where
  "demo_done_job = (lease demo_settings 0 (u ''A'') demo_job)
     \<lparr>j_status := Done, j_lease_expires_at := None, j_lease_owner := None, j_last_error := None,
      j_updated_at := 3\<rparr>"

definition demo_done :: jobdb where
  "demo_done = demo_empty\<lparr>jobs := [demo_done_job]\<rparr>"

lemma demo_leased_reachable:
  "reachable_queue demo_digest demo_hash demo_uuid demo_settings demo_leased"
  by (rule queue_steps [OF demo_reachable claim_step [OF demo_claim handler_ok_skip]])

lemma demo_leased_ok: "table_ok demo_settings demo_leased"
  using reachable_queue_table_ok [OF demo_leased_reachable demo_max_attempts] .

lemma demo_leased_holder: "job_holder demo_leased 1 = Some (u ''A'', 120000000)"
  by (simp add: job_holder_def demo_leased_def demo_empty_def lease_def demo_job_def job_lease_def
      demo_settings_def usec_def)

lemma demo_done_reachable:
  "reachable_queue demo_digest demo_hash demo_uuid demo_settings demo_done"
proof (rule queue_steps [OF demo_leased_reachable done_step])
  show "mark_done (Some (u ''A'')) 3 1 demo_leased = Inr demo_done"
    by (simp add: mark_done_def locked_job_def demo_leased_def demo_empty_def demo_done_def
        demo_done_job_def require_running_lease_def update_job_def)
       (simp add: lease_def demo_job_def)
qed

lemma demo_replay_step: "queue_step demo_digest demo_hash demo_uuid demo_settings demo_done demo_done"
proof (rule enqueue_step)
  have s: "strip (u ''process_document'') = u ''process_document''" "strip (u ''k'') = u ''k''"
    by (rule strip_u; simp add: is_space_def)+
  show "enqueue demo_digest demo_hash demo_uuid Postgresql 2 5 demo_done demo_args = Inr (None, demo_done)"
    by (simp add: enqueue_def build_job_def demo_args_def active_registry_def or_default_def opt_str_def
        check_universal_evidence_def is_universal_def s coerce_uuid_def resolve_intake_intent_def
        source_intake_for_payload_def provided_def integrity_error_def demo_empty_def demo_done_def
        demo_done_job_def lease_def demo_job_def demo_hash_def intake_intent_value_def)
qed

lemma demo_second_claim:
  "worker_claims demo_digest demo_hash demo_settings 10 (u ''B'') demo_leased None demo_leased"
proof -
  have s: "strip (u ''B'') = u ''B''" by (rule strip_u; simp add: is_space_def)
  have "claim_next demo_digest demo_hash Sqlite (\<lambda>_. False) demo_settings (Some demo_registry) True
     (Some (u ''B'')) [] (\<lambda>j db. Inr db) 10 demo_leased = Inr (None, demo_leased)"
    by (simp add: claim_next_def lease_owner_text_def s bury_exhausted_expired_jobs_def
        exhausted_expired_def demo_leased_def demo_empty_def demo_job_def lease_def claim_sqlite_def
        first_eligible_def eligible_clause_def lease_expired_def demo_settings_def usec_def Let_def)
  with s show ?thesis unfolding worker_claims_def
    by (intro conjI s exI [of _ Sqlite] exI [of _ "\<lambda>_. False"] exI [of _ "Some demo_registry"]
        exI [of _ True] exI [of _ "[]"] exI [of _ "\<lambda>j db. Inr db"] exI [of _ None] handler_ok_skip)
       simp_all
qed

subsection \<open>Every reachable table\<close>

text \<open>
  C1. In every table reachable from an empty one by enqueueing, claiming, renewing, finishing
  and retrying in any order, at any clock readings and by any workers: ids are unique, a
  document has at most one job per idempotency key, no job was attempted more than
  \<^verbatim>\<open>job_max_attempts\<close> times, a job carries a lease owner and an expiry exactly while it is
  running, and its profile agrees with its sandbox evidence.
\<close>

theorem queue_invariant:
  assumes "reachable_queue digest hash uuid_of st db" and "1 \<le> job_max_attempts st"
  shows "distinct (map j_id (jobs db))
    \<and> (\<forall>j \<in> set (jobs db). \<forall>k \<in> set (jobs db). j_document_id j = j_document_id k \<longrightarrow>
           j_idempotency_key j = j_idempotency_key k \<longrightarrow> j = k)
    \<and> (\<forall>j \<in> set (jobs db). 0 \<le> j_attempts j \<and> j_attempts j \<le> job_max_attempts st
           \<and> (j_status j = Running \<longleftrightarrow> j_lease_owner j \<noteq> None)
           \<and> (j_status j = Running \<longleftrightarrow> j_lease_expires_at j \<noteq> None)
           \<and> (j_execution_profile j = Universal_Sandboxed \<longleftrightarrow> j_sandbox_verified j))"
proof (intro conjI)
  have t: "table_ok st db" using reachable_queue_table_ok [OF assms] .
  then show "distinct (map j_id (jobs db))" by (rule table_ok_distinct)
  show "\<forall>j \<in> set (jobs db). \<forall>k \<in> set (jobs db). j_document_id j = j_document_id k \<longrightarrow>
      j_idempotency_key j = j_idempotency_key k \<longrightarrow> j = k"
    using t by (auto simp: table_ok_def job_ident_def distinct_map inj_on_def)
  have "\<forall>j \<in> set (jobs db). job_wf st j" using t by (simp add: table_ok_def list_all_iff)
  then show "\<forall>j \<in> set (jobs db). 0 \<le> j_attempts j \<and> j_attempts j \<le> job_max_attempts st
      \<and> (j_status j = Running \<longleftrightarrow> j_lease_owner j \<noteq> None)
      \<and> (j_status j = Running \<longleftrightarrow> j_lease_expires_at j \<noteq> None)
      \<and> (j_execution_profile j = Universal_Sandboxed \<longleftrightarrow> j_sandbox_verified j)"
    unfolding job_wf_def by blast
qed

theorem queue_invariant_witness:
  "demo_job \<in> set (jobs demo_queued) \<and> j_attempts demo_job \<le> job_max_attempts demo_settings"
  using queue_invariant [OF demo_reachable demo_max_attempts] by (simp add: demo_queued_def)

text \<open>
  C18. A job that is done, failed or dead is never changed again: whatever operation runs
  next, the very same row is still in the table.
\<close>

theorem terminal_jobs_are_final:
  assumes "reachable_queue digest hash uuid_of st db" and "1 \<le> job_max_attempts st"
    and "queue_step digest hash uuid_of st db db'"
    and "j \<in> set (jobs db)" and "j_status j \<in> {Done, Failed, Dead}"
  shows "j \<in> set (jobs db')"
  using queue_step_terminal [OF assms(3) reachable_queue_table_ok [OF assms(1,2)] assms(4)] assms(5)
  by (simp add: terminal_def)

theorem terminal_jobs_are_final_witness:
  "demo_done_job \<in> set (jobs demo_done) \<and> j_status demo_done_job = Done"
  using terminal_jobs_are_final [OF demo_done_reachable demo_max_attempts demo_replay_step, of demo_done_job]
  by (simp add: demo_done_def demo_done_job_def)

subsection \<open>Leases\<close>



text \<open>
  A worker whose expired lease was taken over by another worker cannot report the job as
  done or failed: both operations raise \<^verbatim>\<open>JobLeaseLostError\<close> and change nothing.
\<close>

lemma superseded_worker_is_refused:
  assumes "table_ok st db" and "worker_claims digest hash st now v db (Some i) db'" and "v \<noteq> w"
  shows "mark_done (Some w) t i db' = Inl JobLeaseLostError
    \<and> retry_or_bury st (Some w) msg t i db' = Inl JobLeaseLostError
    \<and> renew_lease st (Some w) t i db' = Inl JobLeaseLostError"
proof -
  obtain e where "job_holder db' i = Some (v, e)" using jq.claim_takes [OF assms(1,2)] by blast
  then obtain j where "locked_job i db' = Inr j" and "j_status j = Running" and "j_lease_owner j = Some v"
    by (auto dest!: job_holder_Some simp: locked_job_def job_lease_def split: if_splits option.splits)
  with assms(3) show ?thesis
    by (simp add: mark_done_def retry_or_bury_def renew_lease_def require_running_lease_def)
qed

lemma superseded_worker_is_refused_witness:
  "mark_done (Some (u ''B'')) 5 1 demo_leased = Inl JobLeaseLostError"
  using superseded_worker_is_refused [OF demo_table_ok demo_worker_claims, of "u ''B''" 5 "[]"] by simp

subsection \<open>Which job is claimed\<close>

lemma buried_not_eligible: "\<not> eligible_clause st now (bury now j)"
  by (simp add: bury_def Let_def eligible_clause_def)

lemma exhausted_not_eligible: "exhausted_expired st now scope j \<Longrightarrow> \<not> eligible_clause st now j"
  by (auto simp: exhausted_expired_def eligible_clause_def)

lemma burying_keeps_eligible:
  assumes "\<And>j. elig j \<Longrightarrow> eligible_clause st now j"
  shows "{j \<in> set (map (\<lambda>j. if exhausted_expired st now scope j then bury now j else j) js). elig j}
    = {j \<in> set js. elig j}"
proof -
  have "\<not> exhausted_expired st now scope j" if "elig j" for j
    using assms [OF that] exhausted_not_eligible by blast
  moreover have "\<not> elig (bury now j)" for j
    using assms buried_not_eligible by blast
  ultimately show ?thesis by (auto split: if_splits)
qed



text \<open>
  C20. The two database back ends claim alike: with unique ids, SQLite's conditional update
  and PostgreSQL's locking select (when no row is locked by another transaction) lease the
  same job and leave the same table.
\<close>

theorem sqlite_claims_like_postgresql:
  assumes "distinct (map j_id (jobs db))"
  shows "claim_sqlite elig st now owner db = claim_postgresql (\<lambda>_. False) elig st now owner db"
  using assms by (rule claim_sqlite_postgresql)

theorem sqlite_claims_like_postgresql_witness:
  "claim_sqlite (\<lambda>_. True) demo_settings 0 (u ''A'') demo_queued
     = claim_postgresql (\<lambda>_. False) (\<lambda>_. True) demo_settings 0 (u ''A'') demo_queued"
  by (rule sqlite_claims_like_postgresql) (simp add: demo_queued_def)

text \<open>
  The two execution profiles never mix: a worker in legacy mode only leases
  legacy-compatible jobs without sandbox evidence, and a worker in universal mode only leases
  sandboxed jobs whose registry and capability digests are those of its own registry.
\<close>

lemma execution_profiles_are_separate:
  assumes "claim_next digest hash dia locked st (Some reg) ready given wid h now db = Inr (Some k, db')"
  shows "case intake_mode st of
      Legacy \<Rightarrow> j_execution_profile k = Legacy_Compat \<and> \<not> j_sandbox_verified k
    | Universal \<Rightarrow> j_execution_profile k = Universal_Sandboxed \<and> j_sandbox_verified k
        \<and> j_registry_digest k = Some (reg_registry_digest reg)
        \<and> j_capabilities_digest k = Some (reg_capabilities_digest reg)"
proof -
  let ?elig = "\<lambda>j. eligible_clause st now j \<and> execution_scope hash st reg ready j"
  from assms obtain owner db2 where
    "(case dia of Sqlite \<Rightarrow> claim_sqlite ?elig st now owner db2
      | Postgresql \<Rightarrow> claim_postgresql locked ?elig st now owner db2) = (Some k, db')"
    by (auto simp: claim_next_def res_simps Let_def)
  then obtain j where "?elig j" and "k = lease st now owner j"
    by (auto simp: claim_sqlite_def claim_postgresql_def split: dialect.splits option.splits
        dest!: find_SomeD first_eligible_Some(2))
  then show ?thesis by (auto simp: execution_scope_def lease_def split: intake_mode.splits)
qed

lemma execution_profiles_are_separate_witness:
  "j_execution_profile (lease demo_settings 0 (u ''A'') demo_job) = Legacy_Compat"
  using execution_profiles_are_separate [OF demo_claim] by (simp add: demo_settings_def)

subsection \<open>Enqueueing twice, retrying\<close>

lemma build_job_restamp:
  "build_job digest hash uuid_of i' now' rows a =
     rbind (build_job digest hash uuid_of i now rows a) (\<lambda>j.
       Inr (j\<lparr>j_id := i', j_available_at := now', j_created_at := now', j_updated_at := now'\<rparr>))"
  by (simp add: build_job_def rbind_assoc split_def)

text \<open>
  C21. Enqueueing is idempotent per document and key: after a request that created a job, the
  same request at any later time and with any fresh id creates no second job, reports
  \<^verbatim>\<open>None\<close> and leaves the table as it is.
\<close>

theorem enqueue_is_idempotent:
  assumes "enqueue digest hash uuid_of dia i now db a = Inr (Some k, db')"
  shows "enqueue digest hash uuid_of dia i' now' db' a = Inr (None, db')"
proof -
  from assms obtain j where j: "build_job digest hash uuid_of i now (intakes db) a = Inr j"
    and db': "db' = db\<lparr>jobs := jobs db @ [j]\<rparr>"
    by (auto simp: enqueue_def res_simps split: if_splits)
  have "build_job digest hash uuid_of i' now' (intakes db') a
      = Inr (j\<lparr>j_id := i', j_available_at := now', j_created_at := now', j_updated_at := now'\<rparr>)"
    using build_job_restamp [of digest hash uuid_of i' now' _ a i now] j db' by simp
  moreover have "integrity_error dia db'
      (j\<lparr>j_id := i', j_available_at := now', j_created_at := now', j_updated_at := now'\<rparr>)"
    by (auto simp: integrity_error_def db')
  ultimately show ?thesis by (simp add: enqueue_def)
qed

theorem enqueue_is_idempotent_witness:
  "enqueue demo_digest demo_hash demo_uuid Postgresql 2 9 demo_queued demo_args = Inr (None, demo_queued)"
  by (rule enqueue_is_idempotent [OF demo_enqueue])

text \<open>
  \<^verbatim>\<open>None\<close> is not only the answer for an existing logical job: on PostgreSQL a valid request
  for a document that does not exist violates the foreign key, and the same handler turns
  that error into \<^verbatim>\<open>None\<close>, whatever the table holds; nothing is queued.
\<close>

lemma enqueue_hides_missing_document:
  assumes "build_job digest hash uuid_of i now (intakes db) a = Inr j"
    and "j_document_id j \<notin> set (documents db)"
  shows "enqueue digest hash uuid_of Postgresql i now db a = Inr (None, db)"
  using assms by (simp add: enqueue_def integrity_error_def)

lemma enqueue_hides_missing_document_witness:
  "enqueue demo_digest demo_hash demo_uuid Postgresql 1 0 \<lparr>jobs = [], intakes = [], documents = []\<rparr> demo_args
     = Inr (None, \<lparr>jobs = [], intakes = [], documents = []\<rparr>)"
proof -
  obtain j where "build_job demo_digest demo_hash demo_uuid 1 0 (intakes demo_empty) demo_args = Inr j"
    using demo_enqueue by (auto simp: enqueue_def res_simps)
  then have "build_job demo_digest demo_hash demo_uuid 1 0
      (intakes \<lparr>jobs = [], intakes = [], documents = []\<rparr>) demo_args = Inr j"
    by (simp add: demo_empty_def)
  then show ?thesis by (rule enqueue_hides_missing_document) simp
qed

lemma retry_delay_le_next:
  assumes "0 \<le> base" and "a \<le> b"
  shows "retry_delay a base \<le> retry_delay b base"
proof -
  have "nat (max (a - 1) 0) \<le> nat (max (b - 1) 0)" using assms(2) by linarith
  then have "(2::int) ^ nat (max (a - 1) 0) \<le> 2 ^ nat (max (b - 1) 0)" by (rule power_increasing) simp
  then have "base * 2 ^ nat (max (a - 1) 0) \<le> base * 2 ^ nat (max (b - 1) 0)"
    using assms(1) by (rule mult_left_mono)
  then show ?thesis unfolding retry_delay_def by linarith
qed



end
