(* ===== verification/Py_Num.thy ===== *)
theory Py_Num
  imports Clerk_Prelude "HOL-Library.Log_Nat"
begin

text \<open>
  The two rounded number types the program computes with, as exact rationals followed by one
  rounding: the binary64 \<^verbatim>\<open>float\<close> that integer true division returns, and \<^verbatim>\<open>decimal.Decimal\<close> under
  the default context (28 significant digits, ties to even). \<open>flog b q\<close> is the exponent of the
  leading digit of \<open>q\<close> in base \<open>b\<close>, computed from the numerator and the denominator.
\<close>

subsection \<open>Leading exponent\<close>

definition flog :: "nat \<Rightarrow> rat \<Rightarrow> int" where
  "flog b q =
     (let (n, d) = quotient_of q;
          e = int (floorlog b (nat n)) - int (floorlog b (nat d))
      in if (of_nat b :: rat) powi e \<le> q then e else e - 1)"

definition round_half_even :: "rat \<Rightarrow> int" where
  "round_half_even q =
     (let f = \<lfloor>q\<rfloor>; r = q - of_int f
      in if r < 1 / 2 then f else if 1 / 2 < r then f + 1 else if even f then f else f + 1)"

text \<open>\<open>round_at b e q\<close> is the multiple of \<open>b powi e\<close> nearest to \<open>q\<close>.\<close>

definition round_at :: "nat \<Rightarrow> int \<Rightarrow> rat \<Rightarrow> rat" where
  "round_at b e q = of_int (round_half_even (q / of_nat b powi e)) * of_nat b powi e"

definition round_sig :: "nat \<Rightarrow> nat \<Rightarrow> rat \<Rightarrow> rat" where
  "round_sig b p q = (if q = 0 then 0 else round_at b (flog b \<bar>q\<bar> + 1 - int p) q)"

definition dec_round :: "rat \<Rightarrow> rat" where
  "dec_round q = round_sig 10 28 q"

text \<open>Integer true division of non-negative integers: the quotient rounded once to binary64,
  gradual underflow included; a quotient that rounds beyond the largest double raises.\<close>

definition round_double :: "rat \<Rightarrow> rat" where
  "round_double q = (if q = 0 then 0 else round_at 2 (max (flog 2 \<bar>q\<bar> - 52) (- 1074)) q)"

definition py_truediv :: "int \<Rightarrow> int \<Rightarrow> rat res" where
  "py_truediv a b =
     (let q = round_double (of_int a / of_int b)
      in if 2 ^ 1024 \<le> \<bar>q\<bar> then Inl (OverflowError ''integer division result too large for a float'')
         else Inr q)"

lemma quotient_of_pos_num: "0 < q \<Longrightarrow> quotient_of q = (n, d) \<Longrightarrow> 0 < n \<and> 0 < d"
  using quotient_of_denom_pos [of q n d] quotient_of_div [of q n d]
  by (auto simp: zero_less_divide_iff)

lemma floorlog_le: "2 \<le> b \<Longrightarrow> 0 < n \<Longrightarrow> b ^ (floorlog b n - 1) \<le> n"
  using floorlog_bounds [of n b] by simp

lemma floorlog_gt: "2 \<le> b \<Longrightarrow> 0 < n \<Longrightarrow> n < b ^ floorlog b n"
  using floorlog_bounds [of n b] by simp

lemma floorlog_pos: "2 \<le> b \<Longrightarrow> 0 < n \<Longrightarrow> 0 < floorlog b n"
  by (simp add: floorlog_def)

lemma flog_bounds:
  assumes b: "2 \<le> b" and q: "0 < q"
  shows "(of_nat b :: rat) powi flog b q \<le> q \<and> q < of_nat b powi (flog b q + 1)"
proof -
  obtain n d where nd: "quotient_of q = (n, d)" by fastforce
  have pos: "0 < n" "0 < d" using quotient_of_pos_num [OF q nd] by auto
  define e where "e = int (floorlog b (nat n)) - int (floorlog b (nat d))"
  have q_eq: "q = of_nat (nat n) / of_nat (nat d)"
    using quotient_of_div [OF nd] pos by (simp add: of_nat_nat)
  let ?ln = "floorlog b (nat n)" and ?ld = "floorlog b (nat d)"
  have B: "(1 :: rat) < of_nat b" and B0: "(of_nat b :: rat) \<noteq> 0" using b by auto
  have fp: "0 < ?ln" "0 < ?ld" using pos b by (simp_all add: floorlog_pos)
  have n1: "(of_nat b :: rat) ^ (?ln - 1) \<le> of_nat (nat n)"
    and n2: "(of_nat (nat n) :: rat) < of_nat b ^ ?ln"
    and d1: "(of_nat b :: rat) ^ (?ld - 1) \<le> of_nat (nat d)"
    and d2: "(of_nat (nat d) :: rat) < of_nat b ^ ?ld"
    using floorlog_le [of b "nat n"] floorlog_gt [of b "nat n"] floorlog_le [of b "nat d"]
      floorlog_gt [of b "nat d"] b pos
    unfolding of_nat_power [symmetric] of_nat_le_iff of_nat_less_iff by simp_all
  have powi_div: "(of_nat b :: rat) ^ i / of_nat b ^ j = of_nat b powi (int i - int j)" for i j
    using B0 by (simp add: power_int_diff)
  have "q < of_nat b ^ ?ln / of_nat b ^ (?ld - 1)"
    unfolding q_eq using n2 d1 B pos by (intro frac_less) auto
  then have up: "q < of_nat b powi (e + 1)"
    using fp by (simp add: powi_div e_def of_nat_diff algebra_simps)
  have "of_nat b ^ (?ln - 1) / of_nat b ^ ?ld \<le> q"
    unfolding q_eq using n1 d2 B pos by (intro frac_le) auto
  then have lo: "of_nat b powi (e - 1) \<le> q"
    using fp by (simp add: powi_div e_def of_nat_diff algebra_simps)
  show ?thesis
    using up lo unfolding flog_def nd by (simp add: Let_def e_def [symmetric] not_le)
qed

subsection \<open>Error of one rounding\<close>

lemma round_half_even_error: "\<bar>of_int (round_half_even q) - q\<bar> \<le> 1 / 2"
proof -
  have "of_int \<lfloor>q\<rfloor> \<le> q" and "q < of_int \<lfloor>q\<rfloor> + 1" by linarith+
  then show ?thesis
    unfolding round_half_even_def Let_def abs_if by (simp only: of_int_add of_int_1 split: if_split) linarith
qed

lemma round_half_even_int [simp]: "round_half_even (of_int i) = i"
  by (simp add: round_half_even_def)

lemma round_half_even_mono:
  assumes "p \<le> q"
  shows "round_half_even p \<le> round_half_even q"
proof (rule ccontr)
  assume "\<not> ?thesis"
  then have gt: "round_half_even q + 1 \<le> round_half_even p" by simp
  have "of_int (round_half_even p) \<le> p + 1 / 2" "q - 1 / 2 \<le> of_int (round_half_even q)"
    using round_half_even_error [of p] round_half_even_error [of q] unfolding abs_le_iff
    by linarith+
  moreover have "(of_int (round_half_even q) + 1 :: rat) \<le> of_int (round_half_even p)"
    using gt by (metis of_int_1 of_int_add of_int_le_iff)
  ultimately have "p = q" using assms by linarith
  with gt show False by simp
qed

lemma round_at_error:
  assumes "0 < b"
  shows "\<bar>round_at b e q - q\<bar> \<le> of_nat b powi e / 2"
proof -
  let ?s = "(of_nat b :: rat) powi e"
  have s: "0 < ?s" using assms by simp
  have "round_at b e q - q = (of_int (round_half_even (q / ?s)) - q / ?s) * ?s"
    using s assms by (simp add: round_at_def left_diff_distrib)
  then have "\<bar>round_at b e q - q\<bar> = \<bar>of_int (round_half_even (q / ?s)) - q / ?s\<bar> * ?s"
    using s by (simp add: abs_mult)
  also have "\<dots> \<le> 1 / 2 * ?s"
    using s by (intro mult_right_mono round_half_even_error) simp
  finally show ?thesis by simp
qed

lemma round_sig_error:
  assumes "2 \<le> b"
  shows "\<bar>round_sig b p q - q\<bar> \<le> \<bar>q\<bar> * of_nat b powi (1 - int p) / 2"
proof (cases "q = 0")
  case False
  let ?e = "flog b \<bar>q\<bar>"
  have "\<bar>round_sig b p q - q\<bar> \<le> of_nat b powi (?e + 1 - int p) / 2"
    using False assms round_at_error [of b "?e + 1 - int p" q] by (simp add: round_sig_def)
  also have "of_nat b powi (?e + 1 - int p) = of_nat b powi ?e * (of_nat b :: rat) powi (1 - int p)"
    using assms by (simp add: power_int_add [symmetric] algebra_simps)
  also have "\<dots> \<le> \<bar>q\<bar> * of_nat b powi (1 - int p)"
    using flog_bounds [OF assms, of "\<bar>q\<bar>"] False by (intro mult_right_mono) auto
  finally show ?thesis by simp
qed (simp add: round_sig_def)

lemma round_double_lower:
  assumes "2 powi (- 1022) \<le> q"
  shows "q * (1 - 1 / 2 ^ 53) \<le> round_double q"
proof -
  have q: "0 < q" using assms by (meson less_le_trans zero_less_numeral zero_less_power_int)
  have fb: "(2 :: rat) powi flog 2 q \<le> q" "q < 2 powi (flog 2 q + 1)"
    using flog_bounds [of 2 q] q by auto
  have "(2 :: rat) powi (- 1022) < 2 powi (flog 2 q + 1)" using assms fb by linarith
  then have "- 1022 < flog 2 q + 1" by (meson one_le_numeral not_le power_int_increasing)
  then have e: "max (flog 2 q - 52) (- 1074) = flog 2 q - 52" by simp
  have "q - round_double q \<le> 2 powi (flog 2 q - 52) / 2"
    using round_at_error [of 2 "flog 2 q - 52" q] q e
    unfolding round_double_def abs_le_iff by simp
  also have "(2 :: rat) powi (flog 2 q - 52) = 2 powi flog 2 q / 2 ^ 52"
    by (simp add: power_int_diff)
  also have "2 powi flog 2 q / 2 ^ 52 / 2 \<le> q / 2 ^ 53" using fb by simp
  finally show ?thesis by (simp add: algebra_simps)
qed

lemma round_half_even_nonneg: "0 \<le> q \<Longrightarrow> 0 \<le> round_half_even q"
  using round_half_even_mono [of 0 q] round_half_even_int [of 0] by simp

lemma round_double_nonneg: "0 \<le> q \<Longrightarrow> 0 \<le> round_double q"
  by (auto simp: round_double_def round_at_def round_half_even_nonneg)

subsection \<open>Exact results\<close>

lemma round_at_int:
  assumes "0 < b" "e \<le> 0"
  shows "round_at b e (of_int i) = of_int i"
proof -
  define s :: rat where "s = of_nat b powi e"
  have "s = inverse (of_nat b ^ nat (- e))"
    using assms(2) by (cases "e = 0") (simp_all add: s_def power_int_def power_inverse)
  then have "(of_int i :: rat) / s = of_int (i * int b ^ nat (- e))" by (simp add: field_simps)
  moreover have "s \<noteq> 0" using assms(1) by (simp add: s_def)
  ultimately show ?thesis
    unfolding round_at_def s_def [symmetric] by (metis nonzero_eq_divide_eq round_half_even_int)
qed

lemma round_double_int:
  assumes "0 \<le> i" "i < 2 ^ 53"
  shows "round_double (of_int i) = of_int i"
proof (cases "i = 0")
  case False
  then have i: "(0 :: rat) < of_int i" using assms by simp
  have "(2 :: rat) powi flog 2 (of_int i) \<le> of_int i" using flog_bounds [OF _ i, of 2] by simp
  also have "(of_int i :: rat) < 2 powi 53" using assms(2) by (simp flip: of_int_power)
  finally have "flog 2 (of_int i) < 53" by (meson not_le one_le_numeral power_int_increasing)
  then show ?thesis using i by (simp add: round_double_def round_at_int)
qed (simp add: round_double_def)

lemma py_truediv_exact:
  assumes "0 < c" "n = k * c" "0 \<le> k" "k < 2 ^ 53"
  shows "py_truediv n c = Inr (of_int k)"
proof -
  have "(of_int n :: rat) / of_int c = of_int k" using assms by simp
  moreover have "\<not> (2 :: rat) ^ 1024 \<le> of_int k"
  proof -
    have "of_int k < (2 :: rat) ^ 53" using assms(4) by (simp flip: of_int_power)
    also have "(2 :: rat) ^ 53 \<le> 2 ^ 1024" by (rule power_increasing) auto
    finally show ?thesis by simp
  qed
  ultimately show ?thesis
    unfolding py_truediv_def Let_def using assms(3,4) by (simp only: round_double_int of_int_abs [symmetric] abs_of_nonneg) simp
qed

subsection \<open>Decimal values\<close>

datatype decimal_value = Finite_Dec rat | Infinite_Dec bool | NaN_Dec

text \<open>Ordered comparison of decimals raises on a NaN.\<close>

fun dv_less :: "decimal_value \<Rightarrow> decimal_value \<Rightarrow> bool res" where
  "dv_less NaN_Dec y = Inl InvalidOperation"
| "dv_less x NaN_Dec = Inl InvalidOperation"
| "dv_less (Finite_Dec x) (Finite_Dec y) = Inr (x < y)"
| "dv_less (Finite_Dec x) (Infinite_Dec neg) = Inr (\<not> neg)"
| "dv_less (Infinite_Dec neg) (Finite_Dec y) = Inr neg"
| "dv_less (Infinite_Dec a) (Infinite_Dec b) = Inr (a \<and> \<not> b)"

end
