(* ===== verification/Ingest_Limits.thy ===== *)
theory Ingest_Limits
  imports Py_Num
begin

text \<open>
  Resource bounds of \<^verbatim>\<open>src/clerksan/ingest/limits.py\<close>. A \<open>parse_budget\<close> operation returns its
  result together with the budget, because Python keeps the counters when a call raises. ZIP
  metadata is read from bytes (a list of numbers below 256) exactly as
  \<^verbatim>\<open>safe_zip_central_directory\<close> does; the end-of-central-directory search (\<^verbatim>\<open>zipfile._EndRecData\<close>)
  and the two member-name codecs are parameters.
\<close>

subsection \<open>Limits\<close>

record ingest_limits =
  max_upload_bytes :: int
  max_pdf_pages :: int
  max_image_pixels :: int
  max_image_width :: int
  max_image_height :: int
  max_archive_members :: int
  max_archive_uncompressed_bytes :: int
  max_archive_expansion_ratio :: rat
  max_image_frames :: int
  max_text_characters :: int
  max_tabular_rows :: int
  max_tabular_cells :: int
  max_structured_nodes :: int
  max_recursion_depth :: int
  max_normalized_output_bytes :: int

definition default_limits :: ingest_limits where
  "default_limits =
     \<lparr>max_upload_bytes = 25 * 1024 * 1024, max_pdf_pages = 100, max_image_pixels = 40000000,
      max_image_width = 12000, max_image_height = 12000, max_archive_members = 2000,
      max_archive_uncompressed_bytes = 200 * 1024 * 1024, max_archive_expansion_ratio = 100,
      max_image_frames = 100, max_text_characters = 2000000, max_tabular_rows = 100000,
      max_tabular_cells = 1000000, max_structured_nodes = 500000, max_recursion_depth = 4,
      max_normalized_output_bytes = 50 * 1024 * 1024\<rparr>"

definition require_nonnegative :: "string \<Rightarrow> int \<Rightarrow> unit res" where
  "require_nonnegative label n = require (0 \<le> n) (ValueError (label @ '' must not be negative''))"

subsection \<open>The aggregate parse budget\<close>

record parse_budget =
  limits :: ingest_limits
  bytes_consumed :: int
  pixels_consumed :: int
  frames_consumed :: int
  pages_consumed :: int
  characters_consumed :: int
  nodes_consumed :: int
  rows_consumed :: int
  cells_consumed :: int
  parts_consumed :: int
  normalized_output_bytes_consumed :: int
  max_nesting :: int
  current_nesting :: int

definition fresh_budget :: "ingest_limits \<Rightarrow> parse_budget" where
  "fresh_budget l = \<lparr>limits = l, bytes_consumed = 0, pixels_consumed = 0, frames_consumed = 0,
     pages_consumed = 0, characters_consumed = 0, nodes_consumed = 0, rows_consumed = 0,
     cells_consumed = 0, parts_consumed = 0, normalized_output_bytes_consumed = 0,
     max_nesting = 0, current_nesting = 0\<rparr>"

type_synonym 'a budget_op = "parse_budget \<Rightarrow> 'a res \<times> parse_budget"

text \<open>\<^verbatim>\<open>_consume\<close> addresses a counter and its limit by attribute name; here by getter and setter.\<close>

definition consume ::
  "(parse_budget \<Rightarrow> int) \<Rightarrow> ((int \<Rightarrow> int) \<Rightarrow> parse_budget \<Rightarrow> parse_budget)
     \<Rightarrow> (ingest_limits \<Rightarrow> int) \<Rightarrow> string \<Rightarrow> string \<Rightarrow> int \<Rightarrow> unit budget_op" where
  "consume get put lim_of label limit_name amount b =
     (case require_nonnegative label amount of
        Inl e \<Rightarrow> (Inl e, b)
      | Inr _ \<Rightarrow>
          let observed = get b + amount; bound = lim_of (limits b)
          in if bound < observed then (Inl (ResourceLimitExceeded limit_name), b)
             else (Inr (), put (\<lambda>_. observed) b))"

definition consume_bytes :: "int \<Rightarrow> unit budget_op" where
  "consume_bytes = consume bytes_consumed bytes_consumed_update max_archive_uncompressed_bytes
     ''bytes consumed'' ''max_archive_uncompressed_bytes''"

definition consume_pixels :: "int \<Rightarrow> unit budget_op" where
  "consume_pixels = consume pixels_consumed pixels_consumed_update max_image_pixels
     ''pixels consumed'' ''max_image_pixels''"

definition consume_frames :: "int \<Rightarrow> unit budget_op" where
  "consume_frames = consume frames_consumed frames_consumed_update max_image_frames
     ''frames consumed'' ''max_image_frames''"

definition consume_pages :: "int \<Rightarrow> unit budget_op" where
  "consume_pages = consume pages_consumed pages_consumed_update max_pdf_pages
     ''pages consumed'' ''max_pdf_pages''"

definition consume_characters :: "int \<Rightarrow> unit budget_op" where
  "consume_characters = consume characters_consumed characters_consumed_update max_text_characters
     ''characters consumed'' ''max_text_characters''"

definition consume_nodes :: "int \<Rightarrow> unit budget_op" where
  "consume_nodes = consume nodes_consumed nodes_consumed_update max_structured_nodes
     ''nodes consumed'' ''max_structured_nodes''"

definition consume_rows :: "int \<Rightarrow> unit budget_op" where
  "consume_rows = consume rows_consumed rows_consumed_update max_tabular_rows
     ''rows consumed'' ''max_tabular_rows''"

definition consume_cells :: "int \<Rightarrow> unit budget_op" where
  "consume_cells = consume cells_consumed cells_consumed_update max_tabular_cells
     ''cells consumed'' ''max_tabular_cells''"

definition consume_parts :: "int \<Rightarrow> unit budget_op" where
  "consume_parts = consume parts_consumed parts_consumed_update max_archive_members
     ''parts consumed'' ''max_archive_members''"

definition consume_normalized_output :: "int \<Rightarrow> unit budget_op" where
  "consume_normalized_output = consume normalized_output_bytes_consumed
     normalized_output_bytes_consumed_update max_normalized_output_bytes
     ''normalized output bytes consumed'' ''max_normalized_output_bytes''"

definition consume_nesting :: "int \<Rightarrow> unit budget_op" where
  "consume_nesting depth b =
     (case require_nonnegative ''nesting depth'' depth of
        Inl e \<Rightarrow> (Inl e, b)
      | Inr _ \<Rightarrow>
          if max_recursion_depth (limits b) < depth
          then (Inl (ResourceLimitExceeded ''max_recursion_depth''), b)
          else (Inr (), b\<lparr>max_nesting := max (max_nesting b) depth\<rparr>))"

text \<open>The context manager \<^verbatim>\<open>nested\<close>: the decrement is in a \<^verbatim>\<open>finally\<close> clause, so it runs when the
  body raises as well.\<close>

definition nested :: "'a budget_op \<Rightarrow> 'a budget_op" where
  "nested body b =
     (let next_depth = current_nesting b + 1
      in case consume_nesting next_depth b of
           (Inl e, b') \<Rightarrow> (Inl e, b')
         | (Inr _, b') \<Rightarrow>
             let (r, b'') = body (b'\<lparr>current_nesting := next_depth\<rparr>)
             in (r, b''\<lparr>current_nesting := current_nesting b'' - 1\<rparr>))"

subsection \<open>One-shot checks\<close>

definition check_upload_size :: "int \<Rightarrow> ingest_limits \<Rightarrow> unit res" where
  "check_upload_size n l = rbind (require_nonnegative ''upload size'' n) (\<lambda>_.
     require (n \<le> max_upload_bytes l) (ResourceLimitExceeded ''max_upload_bytes''))"

definition check_pdf_pages :: "int \<Rightarrow> ingest_limits \<Rightarrow> unit res" where
  "check_pdf_pages n l = rbind (require_nonnegative ''PDF page count'' n) (\<lambda>_.
     require (n \<le> max_pdf_pages l) (ResourceLimitExceeded ''max_pdf_pages''))"

definition check_image_pixels :: "int \<Rightarrow> int \<Rightarrow> ingest_limits \<Rightarrow> unit res" where
  "check_image_pixels w h l =
     (if w < 1 \<or> h < 1 then Inl (ValueError ''image dimensions must be greater than zero'')
      else if max_image_width l < w then Inl (ResourceLimitExceeded ''max_image_width'')
      else if max_image_height l < h then Inl (ResourceLimitExceeded ''max_image_height'')
      else if max_image_pixels l < w * h then Inl (ResourceLimitExceeded ''max_image_pixels'')
      else Inr ())"

subsection \<open>Archive members\<close>

type_synonym bytes = "nat list"

record archive_member =
  m_name :: pystr
  m_compressed_size :: int
  m_uncompressed_size :: int
  m_is_symlink :: bool

fun split_on :: "nat \<Rightarrow> pystr \<Rightarrow> pystr list" where
  "split_on c [] = [[]]"
| "split_on c (x # xs) =
     (if x = c then [] # split_on c xs
      else (case split_on c xs of [] \<Rightarrow> [[x]] | p # ps \<Rightarrow> (x # p) # ps))"

text \<open>\<^verbatim>\<open>PurePosixPath.parts\<close> of a relative path: the empty and the \<open>.\<close> components are dropped by
  the constructor.\<close>

definition posix_parts :: "pystr \<Rightarrow> pystr list" where
  "posix_parts name = filter (\<lambda>p. p \<noteq> [] \<and> p \<noteq> u ''.'') (split_on 47 name)"

definition is_ascii_letter :: "nat \<Rightarrow> bool" where
  "is_ascii_letter c \<longleftrightarrow> (65 \<le> c \<and> c \<le> 90) \<or> (97 \<le> c \<and> c \<le> 122)"

text \<open>Of a path with no backslash and no leading slash, \<^verbatim>\<open>PureWindowsPath.is_absolute\<close> asks for a
  drive letter, a colon and a slash.\<close>

definition windows_absolute :: "pystr \<Rightarrow> bool" where
  "windows_absolute name \<longleftrightarrow> (case name of c # d # e # _ \<Rightarrow> is_ascii_letter c \<and> d = 58 \<and> e = 47
     | _ \<Rightarrow> False)"

definition drive_qualified :: "pystr \<Rightarrow> bool" where
  "drive_qualified name \<longleftrightarrow> (case name of c # d # _ \<Rightarrow> is_ascii_letter c \<and> d = 58 | _ \<Rightarrow> False)"

definition validate_member_path :: "pystr \<Rightarrow> unit res" where
  "validate_member_path name =
     (if name = [] then Inl (UnsafeArchiveMemberError ''empty path'')
      else if 0 \<in> set name then Inl (UnsafeArchiveMemberError ''NUL byte'')
      else if 92 \<in> set name then
        Inl (UnsafeArchiveMemberError ''backslash path separators are not allowed'')
      else if starts [47] name \<or> windows_absolute name then
        Inl (UnsafeArchiveMemberError ''absolute path'')
      else if drive_qualified name then Inl (UnsafeArchiveMemberError ''drive-qualified path'')
      else if \<exists>p \<in> set (posix_parts name). p \<in> {[], u ''.'', u ''..''} then
        Inl (UnsafeArchiveMemberError ''traversal or ambiguous path component'')
      else Inr ())"

text \<open>The ratio of two sizes as a \<^verbatim>\<open>float\<close>, compared with the configured bound.\<close>

definition check_ratio :: "int \<Rightarrow> int \<Rightarrow> ingest_limits \<Rightarrow> unit res" where
  "check_ratio uncompressed compressed l =
     rbind (py_truediv uncompressed compressed) (\<lambda>ratio.
       require (ratio \<le> max_archive_expansion_ratio l)
         (ResourceLimitExceeded ''max_archive_expansion_ratio''))"

definition check_member_expansion :: "archive_member \<Rightarrow> ingest_limits \<Rightarrow> unit res" where
  "check_member_expansion m l =
     (if 0 < m_uncompressed_size m \<and> m_compressed_size m = 0 then
        Inl (ResourceLimitExceeded ''max_archive_expansion_ratio'')
      else if m_compressed_size m = 0 then Inr ()
      else check_ratio (m_uncompressed_size m) (m_compressed_size m) l)"

record validator =
  v_member_count :: int
  v_total_compressed :: int
  v_total_uncompressed :: int
  v_names :: "pystr list"

definition new_validator :: validator where
  "new_validator = \<lparr>v_member_count = 0, v_total_compressed = 0, v_total_uncompressed = 0, v_names = []\<rparr>"

definition validator_add :: "ingest_limits \<Rightarrow> archive_member \<Rightarrow> validator \<Rightarrow> validator res" where
  "validator_add l m v =
     (let count = v_member_count v + 1 in
      if max_archive_members l < count then Inl (ResourceLimitExceeded ''max_archive_members'')
      else rbind (validate_member_path (m_name m)) (\<lambda>_.
        if m_is_symlink m then Inl (UnsafeArchiveMemberError ''symbolic links are not allowed'')
        else if m_compressed_size m < 0 \<or> m_uncompressed_size m < 0 then
          Inl (UnsafeArchiveMemberError ''negative member size'')
        else rbind (check_member_expansion m l) (\<lambda>_.
          let c = v_total_compressed v + m_compressed_size m;
              n = v_total_uncompressed v + m_uncompressed_size m
          in if max_archive_uncompressed_bytes l < n then
               Inl (ResourceLimitExceeded ''max_archive_uncompressed_bytes'')
             else Inr \<lparr>v_member_count = count, v_total_compressed = c,
                       v_total_uncompressed = n, v_names = v_names v @ [m_name m]\<rparr>)))"

definition validator_finish :: "ingest_limits \<Rightarrow> validator \<Rightarrow> pystr list res" where
  "validator_finish l v =
     (if 0 < v_total_uncompressed v \<and> v_total_compressed v = 0 then
        Inl (ResourceLimitExceeded ''max_archive_expansion_ratio'')
      else if 0 < v_total_compressed v then
        rbind (check_ratio (v_total_uncompressed v) (v_total_compressed v) l)
          (\<lambda>_. Inr (v_names v))
      else Inr (v_names v))"

fun validator_add_all :: "ingest_limits \<Rightarrow> archive_member list \<Rightarrow> validator \<Rightarrow> validator res" where
  "validator_add_all l [] v = Inr v"
| "validator_add_all l (m # ms) v = rbind (validator_add l m v) (validator_add_all l ms)"

text \<open>\<^verbatim>\<open>safe_zip_members\<close> with its two accepted shapes: \<^verbatim>\<open>ZipInfo\<close> records (or the archive that
  lists them), and a legacy snapshot of names and size pairs.\<close>

record zip_info =
  zi_filename :: pystr
  zi_compress_size :: int
  zi_file_size :: int
  zi_external_attr :: nat
  zi_flag_bits :: nat

datatype zip_members = Infos "zip_info list" | Names "pystr list"

definition s_islnk :: "nat \<Rightarrow> bool" where
  "s_islnk mode \<longleftrightarrow> (mode div 4096) mod 16 = 10"

definition info_member :: "zip_info \<Rightarrow> archive_member" where
  "info_member i = \<lparr>m_name = zi_filename i, m_compressed_size = zi_compress_size i,
     m_uncompressed_size = zi_file_size i, m_is_symlink = s_islnk (zi_external_attr i div 65536)\<rparr>"

definition coerce_members ::
  "zip_members \<Rightarrow> (int \<times> int) list option \<Rightarrow> archive_member list res" where
  "coerce_members members sizes =
     (let mismatch = Inl (ValueError ''archive member names and sizes must have the same length'')
      in case members of
        Infos [] \<Rightarrow> (case sizes of None \<Rightarrow> Inr [] | Some s \<Rightarrow> if s = [] then Inr [] else mismatch)
      | Names [] \<Rightarrow> (case sizes of None \<Rightarrow> Inr [] | Some s \<Rightarrow> if s = [] then Inr [] else mismatch)
      | Infos infos \<Rightarrow>
          if sizes \<noteq> None then Inl (ValueError ''sizes must not be supplied with ZipInfo members'')
          else Inr (map info_member infos)
      | Names names \<Rightarrow>
          (case sizes of
             None \<Rightarrow> mismatch
           | Some s \<Rightarrow>
               if length names \<noteq> length s then mismatch
               else Inr (map (\<lambda>(n, c, x). \<lparr>m_name = n, m_compressed_size = c,
                      m_uncompressed_size = x, m_is_symlink = False\<rparr>) (zip names s))))"

definition zip_members_length :: "zip_members \<Rightarrow> int" where
  "zip_members_length members = (case members of Infos i \<Rightarrow> int (length i) | Names n \<Rightarrow> int (length n))"

definition safe_zip_members ::
  "zip_members \<Rightarrow> (int \<times> int) list option \<Rightarrow> ingest_limits \<Rightarrow> pystr list res" where
  "safe_zip_members members sizes l =
     (if max_archive_members l < zip_members_length members then
        Inl (ResourceLimitExceeded ''max_archive_members'')
      else rbind (coerce_members members sizes) (\<lambda>ms.
           rbind (validator_add_all l ms new_validator) (validator_finish l)))"

subsection \<open>The central directory read from bytes\<close>

text \<open>\<open>le data off n\<close> is \<^verbatim>\<open>struct.unpack_from\<close> of one little-endian unsigned field.\<close>

fun le_value :: "bytes \<Rightarrow> nat" where
  "le_value [] = 0"
| "le_value (b # bs) = b + 256 * le_value bs"

definition le :: "bytes \<Rightarrow> nat \<Rightarrow> nat \<Rightarrow> nat" where
  "le data off n = le_value (take n (drop off data))"

definition slice :: "bytes \<Rightarrow> nat \<Rightarrow> nat \<Rightarrow> bytes" where
  "slice data a b = take (b - a) (drop a data)"

fun zip64_extra_payload :: "bytes \<Rightarrow> bytes res" where
  "zip64_extra_payload extra =
     (if extra = [] then Inl (UnsafeArchiveMemberError ''missing ZIP64 metadata'')
      else if length extra < 4 then Inl (UnsafeArchiveMemberError ''invalid ZIP64 metadata'')
      else let size = le extra 2 2 in
        if length extra < 4 + size then Inl (UnsafeArchiveMemberError ''invalid ZIP64 metadata'')
        else if le extra 0 2 = 1 then Inr (slice extra 4 (4 + size))
        else zip64_extra_payload (drop (4 + size) extra))"

declare zip64_extra_payload.simps [simp del]

definition read_zip64_size :: "bytes \<Rightarrow> nat \<Rightarrow> (nat \<times> nat) res" where
  "read_zip64_size payload cursor =
     (if length payload < cursor + 8 then Inl (UnsafeArchiveMemberError ''invalid ZIP64 metadata'')
      else Inr (le payload cursor 8, cursor + 8))"

definition zip64_sentinel :: nat where
  "zip64_sentinel = 4294967295"

definition zip_member_sizes :: "nat \<Rightarrow> nat \<Rightarrow> bytes \<Rightarrow> (nat \<times> nat) res" where
  "zip_member_sizes compressed uncompressed extra =
     (if compressed \<noteq> zip64_sentinel \<and> uncompressed \<noteq> zip64_sentinel
      then Inr (compressed, uncompressed)
      else rbind (zip64_extra_payload extra) (\<lambda>payload.
        rbind (if uncompressed = zip64_sentinel then read_zip64_size payload 0
               else Inr (uncompressed, 0)) (\<lambda>(unc, cursor).
        rbind (if compressed = zip64_sentinel then read_zip64_size payload cursor
               else Inr (compressed, cursor)) (\<lambda>(cmp, _).
        Inr (cmp, unc)))))"

text \<open>The codecs: \<open>decode_name utf8 raw\<close> is \<^verbatim>\<open>raw.decode("utf-8" or "cp437")\<close>.\<close>

definition decode_zip_member_name ::
  "(bool \<Rightarrow> bytes \<Rightarrow> pystr option) \<Rightarrow> bytes \<Rightarrow> nat \<Rightarrow> pystr res" where
  "decode_zip_member_name decode_name raw flags =
     (case decode_name (odd (flags div 2048)) raw of
        None \<Rightarrow> Inl (UnsafeArchiveMemberError ''invalid member name encoding'')
      | Some n \<Rightarrow> Inr n)"

record end_record =
  ecd_disk_number :: nat
  ecd_disk_start :: nat
  ecd_entries_this_disk :: nat
  ecd_entries_total :: nat
  ecd_size :: nat
  ecd_location :: nat

definition size_central_dir :: nat where
  "size_central_dir = 46"

definition central_signature :: bytes where
  "central_signature = [80, 75, 1, 2]"

definition read_entry ::
  "(bool \<Rightarrow> bytes \<Rightarrow> pystr option) \<Rightarrow> bytes \<Rightarrow> nat \<Rightarrow> nat \<Rightarrow> (archive_member \<times> nat) res" where
  "read_entry decode_name data cursor directory_end =
     (if directory_end < cursor + size_central_dir then
        Inl (UnsafeArchiveMemberError ''truncated central directory'')
      else if slice data cursor (cursor + 4) \<noteq> central_signature then
        Inl (UnsafeArchiveMemberError ''invalid central directory entry'')
      else
        let name_start = cursor + size_central_dir;
            name_end = name_start + le data (cursor + 28) 2;
            extra_end = name_end + le data (cursor + 30) 2;
            entry_end = extra_end + le data (cursor + 32) 2
        in if directory_end < entry_end then
             Inl (UnsafeArchiveMemberError ''truncated central directory entry'')
           else
             rbind (decode_zip_member_name decode_name (slice data name_start name_end)
                      (le data (cursor + 8) 2)) (\<lambda>name.
             rbind (zip_member_sizes (le data (cursor + 20) 4) (le data (cursor + 24) 4)
                      (slice data name_end extra_end)) (\<lambda>(cmp, unc).
             Inr (\<lparr>m_name = name, m_compressed_size = int cmp, m_uncompressed_size = int unc,
                   m_is_symlink = s_islnk (le data (cursor + 38) 4 div 65536)\<rparr>, entry_end))))"

fun read_directory ::
  "(bool \<Rightarrow> bytes \<Rightarrow> pystr option) \<Rightarrow> ingest_limits \<Rightarrow> bytes \<Rightarrow> nat \<Rightarrow> nat \<Rightarrow> nat
     \<Rightarrow> validator \<Rightarrow> (validator \<times> nat) res" where
  "read_directory decode_name l data directory_end 0 cursor v = Inr (v, cursor)"
| "read_directory decode_name l data directory_end (Suc n) cursor v =
     rbind (read_entry decode_name data cursor directory_end) (\<lambda>(m, entry_end).
     rbind (validator_add l m v) (\<lambda>v'.
       read_directory decode_name l data directory_end n entry_end v'))"

text \<open>The result is the set of member names, given as a list without repetitions.\<close>

definition safe_zip_central_directory ::
  "(bytes \<Rightarrow> end_record option) \<Rightarrow> (bool \<Rightarrow> bytes \<Rightarrow> pystr option) \<Rightarrow> bytes \<Rightarrow> ingest_limits
     \<Rightarrow> pystr list res" where
  "safe_zip_central_directory end_rec_data decode_name data l =
     (case end_rec_data data of
        None \<Rightarrow> Inl (UnsafeArchiveMemberError ''invalid ZIP central directory'')
      | Some er \<Rightarrow>
          if ecd_disk_number er \<noteq> 0 \<or> ecd_disk_start er \<noteq> 0
             \<or> ecd_entries_this_disk er \<noteq> ecd_entries_total er then
            Inl (UnsafeArchiveMemberError ''multi-disk archives are not supported'')
          else if max_archive_members l < int (ecd_entries_total er) then
            Inl (ResourceLimitExceeded ''max_archive_members'')
          else if ecd_location er < ecd_size er \<or> length data < ecd_location er then
            Inl (UnsafeArchiveMemberError ''invalid central directory bounds'')
          else
            rbind (read_directory decode_name l data (ecd_location er) (ecd_entries_total er)
                     (ecd_location er - ecd_size er) new_validator) (\<lambda>(v, cursor).
              if cursor \<noteq> ecd_location er then
                Inl (UnsafeArchiveMemberError ''invalid central directory length'')
              else rbind (validator_finish l v) (\<lambda>names. Inr (remdups names))))"

end
