(* ===== verification/Ingest_Limits_Props.thy ===== *)
theory Ingest_Limits_Props
  imports Ingest_Limits
begin

text \<open>
  What the resource bounds guarantee. The ten counters of a \<open>parse_budget\<close> implement one
  contract, the locale \<open>bounded_counter\<close>; \<open>parse_action\<close> is the language of everything an adapter
  may do with a budget (spend, recurse through \<^verbatim>\<open>nested\<close>, raise) and the budget accepts such a
  program exactly when its totals and its depth fit the limits. An archive that passes the
  validator has only paths that stay below the extraction root and totals within the limits.
\<close>

subsection \<open>The contract of one counter\<close>

fun run_all :: "('a \<Rightarrow> 's \<Rightarrow> unit res \<times> 's) \<Rightarrow> 'a list \<Rightarrow> 's \<Rightarrow> unit res \<times> 's" where
  "run_all f [] s = (Inr (), s)"
| "run_all f (x # xs) s =
     (case f x s of (Inl e, s') \<Rightarrow> (Inl e, s') | (Inr _, s') \<Rightarrow> run_all f xs s')"

locale bounded_counter =
  fixes used :: "'s \<Rightarrow> int" and bound :: "'s \<Rightarrow> int" and spend :: "int \<Rightarrow> 's \<Rightarrow> unit res \<times> 's"
  assumes spend_within: "0 \<le> n \<Longrightarrow> used s + n \<le> bound s \<Longrightarrow>
      \<exists>s'. spend n s = (Inr (), s') \<and> used s' = used s + n \<and> bound s' = bound s"
    and spend_beyond: "n < 0 \<or> bound s < used s + n \<Longrightarrow> \<exists>e. spend n s = (Inl e, s)"
begin

lemma spend_Inr:
  assumes "spend n s = (Inr x, s')"
  shows "0 \<le> n \<and> used s + n \<le> bound s \<and> used s' = used s + n \<and> bound s' = bound s"
  using assms spend_within [of n s] spend_beyond [of n s] by fastforce

lemma spend_Inl: "spend n s = (Inl e, s') \<Longrightarrow> s' = s"
  using spend_within [of n s] spend_beyond [of n s] by fastforce

lemma run_all_bounded:
  "used s \<le> bound s \<Longrightarrow> run_all spend ns s = (r, s') \<Longrightarrow> used s' \<le> bound s' \<and> bound s' = bound s"
proof (induction ns arbitrary: s)
  case (Cons n ns)
  obtain q t where sp: "spend n s = (q, t)" by fastforce
  show ?case
  proof (cases q)
    case (Inl e)
    then show ?thesis using sp spend_Inl Cons.prems by auto
  next
    case (Inr x)
    then have "used t \<le> bound t" "bound t = bound s" "run_all spend ns t = (r, s')"
      using sp spend_Inr [of n s x t] Cons.prems by auto
    with Cons.IH show ?thesis by metis
  qed
qed simp

lemma run_all_exact:
  "used s \<le> bound s \<Longrightarrow> run_all spend ns s = (r, s') \<Longrightarrow>
     (r = Inr () \<longleftrightarrow> list_all (\<lambda>n. 0 \<le> n) ns \<and> used s + sum_list ns \<le> bound s)
     \<and> (r = Inr () \<longrightarrow> used s' = used s + sum_list ns)"
proof (induction ns arbitrary: s)
  case (Cons n ns)
  obtain q t where sp: "spend n s = (q, t)" by fastforce
  have nonneg: "list_all (\<lambda>n. 0 \<le> n) ns \<Longrightarrow> 0 \<le> sum_list ns"
    by (simp add: list_all_iff sum_list_nonneg)
  show ?case
  proof (cases q)
    case (Inl e)
    then have "\<not> (0 \<le> n \<and> used s + n \<le> bound s)" and "r = Inl e"
      using sp spend_within [of n s] Cons.prems(2) by auto
    then show ?thesis using nonneg by auto
  next
    case (Inr x)
    then have t: "0 \<le> n" "used s + n \<le> bound s" "used t = used s + n" "bound t = bound s"
      using spend_Inr sp by auto
    have "run_all spend ns t = (r, s')" using Cons.prems(2) sp Inr by simp
    with Cons.IH [of t] t show ?thesis by (simp add: algebra_simps)
  qed
qed simp

end

datatype resource = R_Bytes | R_Pixels | R_Frames | R_Pages | R_Characters | R_Nodes | R_Rows
  | R_Cells | R_Parts | R_Output

definition consume_resource :: "resource \<Rightarrow> int \<Rightarrow> unit budget_op" where
  "consume_resource r = (case r of R_Bytes \<Rightarrow> consume_bytes | R_Pixels \<Rightarrow> consume_pixels
     | R_Frames \<Rightarrow> consume_frames | R_Pages \<Rightarrow> consume_pages | R_Characters \<Rightarrow> consume_characters
     | R_Nodes \<Rightarrow> consume_nodes | R_Rows \<Rightarrow> consume_rows | R_Cells \<Rightarrow> consume_cells
     | R_Parts \<Rightarrow> consume_parts | R_Output \<Rightarrow> consume_normalized_output)"

definition res_used :: "resource \<Rightarrow> parse_budget \<Rightarrow> int" where
  "res_used r b = (case r of R_Bytes \<Rightarrow> bytes_consumed b | R_Pixels \<Rightarrow> pixels_consumed b
     | R_Frames \<Rightarrow> frames_consumed b | R_Pages \<Rightarrow> pages_consumed b
     | R_Characters \<Rightarrow> characters_consumed b | R_Nodes \<Rightarrow> nodes_consumed b | R_Rows \<Rightarrow> rows_consumed b
     | R_Cells \<Rightarrow> cells_consumed b | R_Parts \<Rightarrow> parts_consumed b
     | R_Output \<Rightarrow> normalized_output_bytes_consumed b)"

definition res_limit :: "resource \<Rightarrow> parse_budget \<Rightarrow> int" where
  "res_limit r b = (let l = limits b in case r of R_Bytes \<Rightarrow> max_archive_uncompressed_bytes l
     | R_Pixels \<Rightarrow> max_image_pixels l | R_Frames \<Rightarrow> max_image_frames l | R_Pages \<Rightarrow> max_pdf_pages l
     | R_Characters \<Rightarrow> max_text_characters l | R_Nodes \<Rightarrow> max_structured_nodes l
     | R_Rows \<Rightarrow> max_tabular_rows l | R_Cells \<Rightarrow> max_tabular_cells l
     | R_Parts \<Rightarrow> max_archive_members l | R_Output \<Rightarrow> max_normalized_output_bytes l)"

lemmas consume_defs = consume_def consume_bytes_def consume_pixels_def consume_frames_def
  consume_pages_def consume_characters_def consume_nodes_def consume_rows_def consume_cells_def
  consume_parts_def consume_normalized_output_def require_nonnegative_def

lemma consume_resource_within:
  assumes "0 \<le> n" "res_used r b + n \<le> res_limit r b"
  shows "\<exists>b'. consume_resource r n b = (Inr (), b') \<and> limits b' = limits b
    \<and> current_nesting b' = current_nesting b \<and> max_nesting b' = max_nesting b
    \<and> (\<forall>r'. res_used r' b' = res_used r' b + (if r' = r then n else 0))"
  using assms
  by (cases r) (auto simp: consume_resource_def consume_defs res_used_def res_limit_def Let_def
      split: resource.splits)

lemma consume_resource_beyond:
  assumes "n < 0 \<or> res_limit r b < res_used r b + n"
  shows "\<exists>e. consume_resource r n b = (Inl e, b)"
  using assms
  by (cases r) (auto simp: consume_resource_def consume_defs res_used_def res_limit_def Let_def
      split: sum.splits)

lemma res_limit_cong: "limits b' = limits b \<Longrightarrow> res_limit r b' = res_limit r b"
  by (simp add: res_limit_def)

interpretation budget: bounded_counter "res_used r" "res_limit r" "consume_resource r" for r
proof
  fix n s assume "0 \<le> n" "res_used r s + n \<le> res_limit r s"
  then obtain b' where b': "consume_resource r n s = (Inr (), b')" "limits b' = limits s"
    "\<forall>r'. res_used r' b' = res_used r' s + (if r' = r then n else 0)"
    using consume_resource_within by blast
  then show "\<exists>s'. consume_resource r n s = (Inr (), s') \<and> res_used r s' = res_used r s + n
      \<and> res_limit r s' = res_limit r s"
    using res_limit_cong [of b' s r] by (intro exI [of _ b']) simp
qed (rule consume_resource_beyond)

subsection \<open>Whole parses\<close>

datatype parse_action = Spend resource int | Nest "parse_action list" | Fail exn

fun run_action :: "parse_action \<Rightarrow> unit budget_op"
  and run_actions :: "parse_action list \<Rightarrow> unit budget_op" where
  "run_action (Spend r n) b = consume_resource r n b"
| "run_action (Nest acts) b = nested (\<lambda>b'. run_actions acts b') b"
| "run_action (Fail e) b = (Inl e, b)"
| "run_actions [] b = (Inr (), b)"
| "run_actions (a # acts) b =
     (case run_action a b of (Inl e, b') \<Rightarrow> (Inl e, b') | (Inr _, b') \<Rightarrow> run_actions acts b')"

text \<open>The specification of a program: what it spends in all, how deep it recurses, and whether it
  is free of negative amounts and of errors of its own.\<close>

fun total :: "resource \<Rightarrow> parse_action \<Rightarrow> int"
  and totals :: "resource \<Rightarrow> parse_action list \<Rightarrow> int" where
  "total r (Spend r' n) = (if r = r' then n else 0)"
| "total r (Nest acts) = totals r acts"
| "total r (Fail e) = 0"
| "totals r [] = 0"
| "totals r (a # acts) = total r a + totals r acts"

fun depth :: "parse_action \<Rightarrow> int" and depths :: "parse_action list \<Rightarrow> int" where
  "depth (Nest acts) = 1 + depths acts"
| "depth (Spend r n) = 0"
| "depth (Fail e) = 0"
| "depths [] = 0"
| "depths (a # acts) = max (depth a) (depths acts)"

fun clean :: "parse_action \<Rightarrow> bool" and cleans :: "parse_action list \<Rightarrow> bool" where
  "clean (Spend r n) = (0 \<le> n)"
| "clean (Nest acts) = cleans acts"
| "clean (Fail e) = False"
| "cleans [] = True"
| "cleans (a # acts) = (clean a \<and> cleans acts)"

definition budget_ok :: "parse_budget \<Rightarrow> bool" where
  "budget_ok b \<longleftrightarrow> (\<forall>r. 0 \<le> res_used r b \<and> res_used r b \<le> res_limit r b)
     \<and> 0 \<le> current_nesting b \<and> current_nesting b \<le> max_nesting b
     \<and> max_nesting b \<le> max_recursion_depth (limits b)"

definition fits :: "bool \<Rightarrow> (resource \<Rightarrow> int) \<Rightarrow> int \<Rightarrow> parse_budget \<Rightarrow> bool" where
  "fits c t d b \<longleftrightarrow> c \<and> (\<forall>r. res_used r b + t r \<le> res_limit r b)
     \<and> current_nesting b + d \<le> max_recursion_depth (limits b)"

definition accounted :: "bool \<Rightarrow> (resource \<Rightarrow> int) \<Rightarrow> int \<Rightarrow> parse_budget \<Rightarrow> unit res \<times> parse_budget \<Rightarrow> bool" where
  "accounted c t d b = (\<lambda>(r, b'). budget_ok b' \<and> limits b' = limits b
     \<and> current_nesting b' = current_nesting b \<and> (r = Inr () \<longleftrightarrow> fits c t d b)
     \<and> (r = Inr () \<longrightarrow> (\<forall>x. res_used x b' = res_used x b + t x)))"

lemma total_nonneg: "clean a \<Longrightarrow> 0 \<le> total r a"
  and totals_nonneg: "cleans acts \<Longrightarrow> 0 \<le> totals r acts"
  by (induction r a and r acts rule: total_totals.induct) auto

lemma depth_nonneg: "0 \<le> depth a" and depths_nonneg: "0 \<le> depths acts"
  by (induction a and acts rule: depth_depths.induct) auto

lemma accounted_spend:
  assumes "budget_ok b"
  shows "accounted (0 \<le> n) (\<lambda>x. if x = r then n else 0) 0 b (consume_resource r n b)"
proof (cases "0 \<le> n \<and> res_used r b + n \<le> res_limit r b")
  case True
  then obtain b' where b': "consume_resource r n b = (Inr (), b')" "limits b' = limits b"
    "current_nesting b' = current_nesting b" "max_nesting b' = max_nesting b"
    "\<forall>x. res_used x b' = res_used x b + (if x = r then n else 0)"
    using consume_resource_within by blast
  have "\<forall>x. res_limit x b' = res_limit x b" using b'(2) res_limit_cong by blast
  with True b' assms show ?thesis by (auto simp: accounted_def fits_def budget_ok_def)
next
  case False
  then obtain e where "consume_resource r n b = (Inl e, b)"
    using consume_resource_beyond [of n r b] by force
  with False assms show ?thesis by (auto simp: accounted_def fits_def)
qed

lemma accounted_nested:
  assumes b: "budget_ok b" and d: "0 \<le> d"
    and body: "\<And>b'. budget_ok b' \<Longrightarrow> accounted c t d b' (body b')"
  shows "accounted c t (1 + d) b (nested body b)"
proof (cases "current_nesting b + 1 \<le> max_recursion_depth (limits b)")
  case False
  then have "nested body b = (Inl (ResourceLimitExceeded ''max_recursion_depth''), b)"
    using b by (simp add: nested_def consume_nesting_def require_nonnegative_def require_def budget_ok_def Let_def)
  with False b d show ?thesis by (simp add: accounted_def fits_def)
next
  case True
  define b1 where "b1 = b\<lparr>max_nesting := max (max_nesting b) (current_nesting b + 1),
    current_nesting := current_nesting b + 1\<rparr>"
  obtain r b2 where r: "body b1 = (r, b2)" by fastforce
  have same: "res_used x (b1 :: parse_budget) = res_used x b" "limits b1 = limits b"
      "res_limit x b1 = res_limit x b" for x
    by (auto simp: b1_def res_used_def res_limit_def split: resource.split)
  have same2: "res_used x (b2\<lparr>current_nesting := k\<rparr>) = res_used x b2"
      "res_limit x (b2\<lparr>current_nesting := k\<rparr>) = res_limit x b2" for x k
    by (auto simp: res_used_def res_limit_def split: resource.split)
  have cur: "current_nesting b1 = current_nesting b + 1"
      "max_nesting b1 = max (max_nesting b) (current_nesting b + 1)"
    by (simp_all add: b1_def)
  have ok1: "budget_ok b1" using b True by (auto simp: budget_ok_def same cur)
  have run: "nested body b = (r, b2\<lparr>current_nesting := current_nesting b2 - 1\<rparr>)"
    using True b r by (simp add: nested_def consume_nesting_def require_nonnegative_def
        require_def budget_ok_def Let_def b1_def)
  have "accounted c t d b1 (r, b2)" using body [OF ok1] r by simp
  then show ?thesis
    unfolding run accounted_def fits_def budget_ok_def using b
    by (auto simp: same same2 cur budget_ok_def)
qed

lemma accounted_seq:
  assumes fst: "accounted c1 t1 d1 b (Inr x, b1)" and snd: "accounted c2 t2 d2 b1 res2"
    and pos: "c2 \<Longrightarrow> \<forall>r. 0 \<le> t2 r"
  shows "accounted (c1 \<and> c2) (\<lambda>r. t1 r + t2 r) (max d1 d2) b res2"
proof -
  have "\<forall>r. res_limit r b1 = res_limit r b"
    using fst by (auto simp: accounted_def intro: res_limit_cong)
  with assms show ?thesis
    by (auto simp: accounted_def fits_def algebra_simps split: prod.splits)
qed

lemma accounted_stop:
  assumes "accounted c1 t1 d1 b (Inl e, b1)" and "c2 \<Longrightarrow> \<forall>r. 0 \<le> t2 r"
  shows "accounted (c1 \<and> c2) (\<lambda>r. t1 r + t2 r) (max d1 d2) b (Inl e, b1)"
proof -
  have "\<not> fits c1 t1 d1 b" using assms(1) by (simp add: accounted_def)
  then have "\<not> fits (c1 \<and> c2) (\<lambda>r. t1 r + t2 r) (max d1 d2) b"
    using assms(2) unfolding fits_def by (smt (verit, best))
  with assms(1) show ?thesis by (simp add: accounted_def)
qed

lemma run_action_accounted:
  "budget_ok b \<Longrightarrow> accounted (clean a) (\<lambda>r. total r a) (depth a) b (run_action a b)"
  and run_actions_accounted:
  "budget_ok b \<Longrightarrow> accounted (cleans acts) (\<lambda>r. totals r acts) (depths acts) b (run_actions acts b)"
proof (induction a b and acts b rule: run_action_run_actions.induct)
  case (1 r n b)
  then show ?case using accounted_spend [of b n r] by simp
next
  case (2 acts b)
  then show ?case using accounted_nested [OF "2.prems" depths_nonneg] by simp
next
  case (5 a acts b)
  obtain q b1 where q: "run_action a b = (q, b1)" by fastforce
  have acc: "accounted (clean a) (\<lambda>r. total r a) (depth a) b (q, b1)"
    using "5.IH"(1) "5.prems" q by simp
  show ?case
  proof (cases q)
    case (Inl e)
    then show ?thesis using accounted_stop acc totals_nonneg q by simp
  next
    case (Inr x)
    moreover have "budget_ok b1" using acc by (simp add: accounted_def)
    ultimately show ?thesis
      using accounted_seq [OF acc [unfolded Inr]] "5.IH"(2) q totals_nonneg by simp
  qed
qed (auto simp: accounted_def fits_def budget_ok_def)


lemma resource_all: "(\<forall>x. P x) \<longleftrightarrow> P R_Bytes \<and> P R_Pixels \<and> P R_Frames \<and> P R_Pages
    \<and> P R_Characters \<and> P R_Nodes \<and> P R_Rows \<and> P R_Cells \<and> P R_Parts \<and> P R_Output"
  by (metis resource.exhaust)

lemma fresh_budget_ok: "budget_ok (fresh_budget default_limits)"
  by (simp add: budget_ok_def resource_all fresh_budget_def default_limits_def res_used_def
      res_limit_def)

subsection \<open>Paths\<close>

text \<open>Resolution of a relative path below a directory, given as the stack of its components:
  \<open>None\<close> is an escape above the root of the stack.\<close>

fun resolve :: "pystr list \<Rightarrow> pystr list \<Rightarrow> pystr list option" where
  "resolve dir [] = Some dir"
| "resolve dir (p # ps) =
     (if p = [] \<or> p = u ''.'' then resolve dir ps
      else if p = u ''..'' then (case dir of [] \<Rightarrow> None | _ # up \<Rightarrow> resolve up ps)
      else resolve (p # dir) ps)"

lemma resolve_without_dotdot:
  "u ''..'' \<notin> set ps \<Longrightarrow>
     resolve dir ps = Some (rev (filter (\<lambda>p. p \<noteq> [] \<and> p \<noteq> u ''.'') ps) @ dir)"
  by (induction ps arbitrary: dir) auto

lemma posix_parts_dotdot: "u ''..'' \<in> set (split_on 47 name) \<Longrightarrow> u ''..'' \<in> set (posix_parts name)"
  by (simp add: posix_parts_def)

lemma validate_member_path_Inr:
  assumes "validate_member_path name = Inr x"
  shows "name \<noteq> [] \<and> 0 \<notin> set name \<and> 92 \<notin> set name \<and> hd name \<noteq> 47
    \<and> u ''..'' \<notin> set (split_on 47 name)"
proof -
  have g: "name \<noteq> []" "0 \<notin> set name" "92 \<notin> set name" "\<not> starts [47] name"
    "u ''..'' \<notin> set (posix_parts name)"
    using assms by (auto simp: validate_member_path_def split: if_splits)
  then have "hd name \<noteq> 47" by (cases name) (auto simp: starts_def)
  with g show ?thesis using posix_parts_dotdot by blast
qed

subsection \<open>Archives\<close>

definition sum_compressed :: "archive_member list \<Rightarrow> int" where
  "sum_compressed ms = sum_list (map m_compressed_size ms)"

definition sum_uncompressed :: "archive_member list \<Rightarrow> int" where
  "sum_uncompressed ms = sum_list (map m_uncompressed_size ms)"

text \<open>The bound on the expansion ratio carries one rounding of the quotient to binary64.\<close>

definition ratio_ok :: "int \<Rightarrow> int \<Rightarrow> ingest_limits \<Rightarrow> bool" where
  "ratio_ok unc cmp l \<longleftrightarrow>
     of_int unc * (1 - 1 / 2 ^ 53) \<le> max_archive_expansion_ratio l * of_int cmp"

definition member_ok :: "ingest_limits \<Rightarrow> archive_member \<Rightarrow> bool" where
  "member_ok l m \<longleftrightarrow> validate_member_path (m_name m) = Inr () \<and> \<not> m_is_symlink m
     \<and> 0 \<le> m_compressed_size m \<and> 0 \<le> m_uncompressed_size m
     \<and> ratio_ok (m_uncompressed_size m) (m_compressed_size m) l"

definition archive_ok :: "ingest_limits \<Rightarrow> archive_member list \<Rightarrow> bool" where
  "archive_ok l ms \<longleftrightarrow> int (length ms) \<le> max_archive_members l \<and> list_all (member_ok l) ms
     \<and> sum_uncompressed ms \<le> max_archive_uncompressed_bytes l
     \<and> ratio_ok (sum_uncompressed ms) (sum_compressed ms) l"

definition normal_ratio :: "ingest_limits \<Rightarrow> bool" where
  "normal_ratio l \<longleftrightarrow> 2 powi (- 1022) \<le> max_archive_expansion_ratio l
     \<and> 0 \<le> max_archive_members l \<and> 0 \<le> max_archive_uncompressed_bytes l"

lemma check_ratio_Inr:
  assumes l: "normal_ratio l" and pos: "0 \<le> unc" "0 < cmp" and c: "check_ratio unc cmp l = Inr x"
  shows "ratio_ok unc cmp l"
proof -
  let ?q = "of_int unc / of_int cmp :: rat" and ?L = "max_archive_expansion_ratio l"
  have le: "round_double ?q \<le> ?L"
    using c by (auto simp: check_ratio_def py_truediv_def Let_def res_simps split: if_splits)
  have "?q * (1 - 1 / 2 ^ 53) \<le> ?L"
  proof (cases "2 powi (- 1022) \<le> ?q")
    case True
    then show ?thesis using round_double_lower [of ?q] le by linarith
  next
    case False
    have "?q * (1 - 1 / 2 ^ 53) \<le> ?q * 1" using pos by (intro mult_left_mono) auto
    with False l show ?thesis unfolding normal_ratio_def by linarith
  qed
  then have "?q * (1 - 1 / 2 ^ 53) * of_int cmp \<le> ?L * of_int cmp"
    using pos by (intro mult_right_mono) auto
  then show ?thesis using pos by (simp add: ratio_ok_def mult.commute)
qed

lemma validator_add_Inr:
  assumes l: "normal_ratio l" and a: "validator_add l m v = Inr v'"
  shows "member_ok l m \<and> v_member_count v' = v_member_count v + 1
    \<and> v_member_count v' \<le> max_archive_members l
    \<and> v_total_compressed v' = v_total_compressed v + m_compressed_size m
    \<and> v_total_uncompressed v' = v_total_uncompressed v + m_uncompressed_size m
    \<and> v_total_uncompressed v' \<le> max_archive_uncompressed_bytes l
    \<and> v_names v' = v_names v @ [m_name m]"
proof -
  have p: "validate_member_path (m_name m) = Inr ()" "\<not> m_is_symlink m"
    "0 \<le> m_compressed_size m" "0 \<le> m_uncompressed_size m" "check_member_expansion m l = Inr ()"
    and rest: "v_member_count v' = v_member_count v + 1"
    "v_member_count v' \<le> max_archive_members l"
    "v_total_compressed v' = v_total_compressed v + m_compressed_size m"
    "v_total_uncompressed v' = v_total_uncompressed v + m_uncompressed_size m"
    "v_total_uncompressed v' \<le> max_archive_uncompressed_bytes l"
    "v_names v' = v_names v @ [m_name m]"
    using a by (auto simp: validator_add_def Let_def res_simps split: if_splits)
  have "ratio_ok (m_uncompressed_size m) (m_compressed_size m) l"
  proof (cases "m_compressed_size m = 0")
    case True
    then have "m_uncompressed_size m = 0"
      using p by (auto simp: check_member_expansion_def split: if_splits)
    with True show ?thesis by (simp add: ratio_ok_def)
  next
    case False
    then have "check_ratio (m_uncompressed_size m) (m_compressed_size m) l = Inr ()"
      using p by (simp add: check_member_expansion_def)
    with False p show ?thesis using check_ratio_Inr [OF l] by simp
  qed
  with p rest show ?thesis by (simp add: member_ok_def)
qed

definition collected :: "ingest_limits \<Rightarrow> archive_member list \<Rightarrow> validator \<Rightarrow> bool" where
  "collected l ms v \<longleftrightarrow> list_all (member_ok l) ms \<and> v_names v = map m_name ms
     \<and> v_member_count v = int (length ms) \<and> v_member_count v \<le> max_archive_members l
     \<and> v_total_compressed v = sum_compressed ms \<and> v_total_uncompressed v = sum_uncompressed ms
     \<and> v_total_uncompressed v \<le> max_archive_uncompressed_bytes l"

lemma collected_new: "normal_ratio l \<Longrightarrow> collected l [] new_validator"
  by (simp add: collected_def new_validator_def sum_compressed_def sum_uncompressed_def normal_ratio_def)

lemma collected_add:
  "normal_ratio l \<Longrightarrow> collected l ms v \<Longrightarrow> validator_add l m v = Inr v' \<Longrightarrow> collected l (ms @ [m]) v'"
  by (drule (1) validator_add_Inr)
     (auto simp: collected_def sum_compressed_def sum_uncompressed_def)

lemma collected_add_all:
  "normal_ratio l \<Longrightarrow> collected l ms v \<Longrightarrow> validator_add_all l ms' v = Inr v'
    \<Longrightarrow> collected l (ms @ ms') v'"
proof (induction ms' arbitrary: ms v)
  case (Cons m ms')
  then obtain w where "validator_add l m v = Inr w" "validator_add_all l ms' w = Inr v'"
    by (auto simp: res_simps)
  then show ?case using Cons.IH [OF Cons.prems(1) collected_add] Cons.prems by fastforce
qed simp

lemma sum_compressed_nonneg: "list_all (member_ok l) ms \<Longrightarrow> 0 \<le> sum_compressed ms"
  and sum_uncompressed_nonneg: "list_all (member_ok l) ms \<Longrightarrow> 0 \<le> sum_uncompressed ms"
  by (auto simp: sum_compressed_def sum_uncompressed_def list_all_iff member_ok_def
      intro!: sum_list_nonneg)

lemma validator_finish_Inr:
  assumes l: "normal_ratio l" and c: "collected l ms v" and f: "validator_finish l v = Inr names"
  shows "archive_ok l ms \<and> names = map m_name ms"
proof -
  have nn: "0 \<le> sum_compressed ms" "0 \<le> sum_uncompressed ms"
    using c sum_compressed_nonneg sum_uncompressed_nonneg by (auto simp: collected_def)
  have "ratio_ok (sum_uncompressed ms) (sum_compressed ms) l"
  proof (cases "sum_compressed ms = 0")
    case True
    then have "sum_uncompressed ms = 0"
      using f c nn by (auto simp: validator_finish_def collected_def split: if_splits)
    with True show ?thesis by (simp add: ratio_ok_def)
  next
    case False
    then have "check_ratio (sum_uncompressed ms) (sum_compressed ms) l = Inr ()"
      using f c nn by (auto simp: validator_finish_def collected_def res_simps split: if_splits)
    with False nn show ?thesis using check_ratio_Inr [OF l] by simp
  qed
  moreover have "names = v_names v"
    using f by (auto simp: validator_finish_def res_simps split: if_splits)
  ultimately show ?thesis using c by (simp add: archive_ok_def collected_def)
qed

text \<open>\<open>tiles\<close>: the parsed entries cover the directory from \<open>cursor\<close> to its end without a gap.\<close>

inductive tiles ::
  "(bool \<Rightarrow> bytes \<Rightarrow> pystr option) \<Rightarrow> bytes \<Rightarrow> nat \<Rightarrow> nat \<Rightarrow> archive_member list \<Rightarrow> bool"
  for decode_name data directory_end where
  tiles_end: "tiles decode_name data directory_end directory_end []"
| tiles_entry: "read_entry decode_name data cursor directory_end = Inr (m, next) \<Longrightarrow> cursor < next
    \<Longrightarrow> tiles decode_name data directory_end next ms
    \<Longrightarrow> tiles decode_name data directory_end cursor (m # ms)"

lemma read_entry_advances:
  "read_entry decode_name data cursor directory_end = Inr (m, next) \<Longrightarrow> cursor < next"
  by (auto simp: read_entry_def size_central_dir_def Let_def res_simps split: if_splits)

lemma read_directory_Inr:
  assumes "normal_ratio l" "collected l ms v"
    "read_directory decode_name l data directory_end n cursor v = Inr (v', directory_end)"
  shows "\<exists>ms'. length ms' = n \<and> tiles decode_name data directory_end cursor ms' \<and> collected l (ms @ ms') v'"
  using assms(2,3)
proof (induction n arbitrary: ms cursor v)
  case 0
  then show ?case using tiles_end by auto
next
  case (Suc n)
  then obtain m nxt w where e: "read_entry decode_name data cursor directory_end = Inr (m, nxt)"
    and w: "validator_add l m v = Inr w"
    and d: "read_directory decode_name l data directory_end n nxt w = Inr (v', directory_end)"
    by (auto simp: res_simps)
  from Suc.IH [OF collected_add [OF assms(1) Suc.prems(1) w] d] obtain ms' where
    "length ms' = n" "tiles decode_name data directory_end nxt ms'" "collected l (ms @ [m] @ ms') v'"
    by auto
  with e read_entry_advances [OF e] show ?case
    by (intro exI [of _ "m # ms'"]) (auto intro: tiles_entry)
qed

lemma check_ratio_exact:
  "0 < c \<Longrightarrow> n = k * c \<Longrightarrow> 0 \<le> k \<Longrightarrow> k < 2 ^ 53 \<Longrightarrow> of_int k \<le> max_archive_expansion_ratio l
    \<Longrightarrow> check_ratio n c l = Inr ()"
  by (simp add: check_ratio_def py_truediv_exact)

lemma demo_paths: "validate_member_path (u ''a.txt'') = Inr ()"
  "validate_member_path (u ''d/b.txt'') = Inr ()" "validate_member_path [97, 98] = Inr ()"
  by code_simp+

definition demo_entry :: bytes where
  "demo_entry = [80, 75, 1, 2, 0, 0, 0, 0, 0, 0, 0, 0, 0, 0, 0, 0, 0, 0, 0, 0,
     5, 0, 0, 0, 10, 0, 0, 0, 2, 0, 0, 0, 0, 0, 0, 0, 0, 0, 0, 0, 0, 0, 0, 0, 0, 0, 97, 98]"

definition demo_end :: end_record where
  "demo_end = \<lparr>ecd_disk_number = 0, ecd_disk_start = 0, ecd_entries_this_disk = 1,
     ecd_entries_total = 1, ecd_size = 48, ecd_location = 48\<rparr>"

lemma demo_read: "length demo_entry = 48"
  "read_entry (\<lambda>_ raw. Some raw) demo_entry 0 48 = Inr (\<lparr>m_name = [97, 98], m_compressed_size = 5,
     m_uncompressed_size = 10, m_is_symlink = False\<rparr>, 48)"
  by (simp_all add: demo_entry_def read_entry_def slice_def le_def central_signature_def
      size_central_dir_def decode_zip_member_name_def zip_member_sizes_def zip64_sentinel_def
      s_islnk_def)

subsection \<open>Properties\<close>

text \<open>C23. A parse, however it spends, recurses and fails, leaves the budget within every limit with
  the nesting depth it started from, and it succeeds exactly when it raises nothing of its own, no
  amount is negative, the total of each resource fits the remaining budget and the recursion fits
  the depth limit.\<close>

theorem parse_budget_is_exact:
  assumes "budget_ok b" "run_actions acts b = (r, b')"
  shows "budget_ok b' \<and> current_nesting b' = current_nesting b
    \<and> (r = Inr () \<longleftrightarrow> cleans acts \<and> (\<forall>x. res_used x b + totals x acts \<le> res_limit x b)
         \<and> current_nesting b + depths acts \<le> max_recursion_depth (limits b))"
  using run_actions_accounted [OF assms(1), of acts] assms(2)
  by (simp add: accounted_def fits_def)

theorem parse_budget_is_exact_witness:
  "\<exists>b'. run_actions [Spend R_Rows 3, Nest [Spend R_Cells 1000001]] (fresh_budget default_limits)
      = (Inl (ResourceLimitExceeded ''max_tabular_cells''), b') \<and> budget_ok b' \<and> current_nesting b' = 0"
proof -
  let ?acts = "[Spend R_Rows 3, Nest [Spend R_Cells 1000001]]"
  obtain r b' where run: "run_actions ?acts (fresh_budget default_limits) = (r, b')" by fastforce
  have "r = Inl (ResourceLimitExceeded ''max_tabular_cells'')"
    using run by (simp add: fresh_budget_def default_limits_def consume_resource_def consume_defs
        nested_def consume_nesting_def Let_def split: prod.splits)
  moreover have "current_nesting (fresh_budget default_limits) = 0" by (simp add: fresh_budget_def)
  ultimately show ?thesis
    using parse_budget_is_exact [OF fresh_budget_ok run] run by auto
qed

text \<open>Charging one resource in any number of pieces is accepted exactly when no piece is
  negative and their sum fits, and the counter then holds the sum: an adapter cannot get round a
  limit by splitting its work, nor be refused because it did.\<close>

lemma split_charges_are_exact:
  assumes "res_used r b \<le> res_limit r b" "run_all (consume_resource r) ns b = (q, b')"
  shows "res_used r b' \<le> res_limit r b' \<and> res_limit r b' = res_limit r b
    \<and> (q = Inr () \<longleftrightarrow> list_all (\<lambda>n. 0 \<le> n) ns \<and> res_used r b + sum_list ns \<le> res_limit r b)
    \<and> (q = Inr () \<longrightarrow> res_used r b' = res_used r b + sum_list ns)"
  using budget.run_all_bounded [OF assms] budget.run_all_exact [OF assms] by blast

lemma split_charges_are_exact_witness:
  "\<exists>b'. run_all (consume_resource R_Pages) [60, 40] (fresh_budget default_limits) = (Inr (), b')
      \<and> res_used R_Pages b' = 100"
proof -
  obtain q b' where run: "run_all (consume_resource R_Pages) [60, 40] (fresh_budget default_limits) = (q, b')"
    by fastforce
  have pre: "res_used R_Pages (fresh_budget default_limits) = 0"
    "res_limit R_Pages (fresh_budget default_limits) = 100"
    by (simp_all add: fresh_budget_def default_limits_def res_used_def res_limit_def)
  show ?thesis using split_charges_are_exact [OF _ run] run pre by auto
qed

text \<open>C16. A member name the validator accepts resolves, component by component, to a place below
  whatever directory the archive is unpacked in, and never leaves it on the way.\<close>

theorem accepted_member_paths_are_confined:
  assumes "validate_member_path name = Inr ()"
  shows "resolve dir (split_on 47 name) = Some (rev (posix_parts name) @ dir)
    \<and> hd name \<noteq> 47 \<and> 92 \<notin> set name \<and> 0 \<notin> set name"
  using validate_member_path_Inr [OF assms] resolve_without_dotdot
  by (simp add: posix_parts_def)

theorem accepted_member_paths_are_confined_witness:
  "resolve [u ''out''] (split_on 47 (u ''xl/./a..b'')) = Some [u ''a..b'', u ''xl'', u ''out'']"
proof -
  have "validate_member_path (u ''xl/./a..b'') = Inr ()" by code_simp
  then have "resolve [u ''out''] (split_on 47 (u ''xl/./a..b''))
      = Some (rev (posix_parts (u ''xl/./a..b'')) @ [u ''out''])"
    using accepted_member_paths_are_confined by blast
  also have "rev (posix_parts (u ''xl/./a..b'')) = [u ''a..b'', u ''xl'']" by code_simp
  finally show ?thesis by simp
qed

text \<open>C24. Names and sizes that \<^verbatim>\<open>safe_zip_members\<close> accepts are a safe archive: as many members as
  allowed, each with a confined path, no symbolic link and an admissible expansion ratio, and
  admissible totals; it returns their names in order.\<close>

theorem safe_zip_members_are_safe:
  assumes "normal_ratio l" "safe_zip_members members sizes l = Inr names"
  shows "\<exists>ms. coerce_members members sizes = Inr ms \<and> names = map m_name ms \<and> archive_ok l ms"
proof -
  from assms(2) obtain ms v where "coerce_members members sizes = Inr ms"
    "validator_add_all l ms new_validator = Inr v" "validator_finish l v = Inr names"
    by (auto simp: safe_zip_members_def res_simps split: if_splits)
  with assms(1) show ?thesis
    using collected_add_all [OF assms(1) collected_new] validator_finish_Inr [OF assms(1)]
    by (metis append_Nil)
qed

theorem safe_zip_members_are_safe_witness:
  "\<exists>ms. coerce_members (Names [u ''a.txt'', u ''d/b.txt'']) (Some [(10, 900), (2, 180)]) = Inr ms
     \<and> [u ''a.txt'', u ''d/b.txt''] = map m_name ms \<and> archive_ok default_limits ms"
proof (rule safe_zip_members_are_safe)
  show "normal_ratio default_limits" by (simp add: normal_ratio_def default_limits_def power_int_minus field_simps)
  show "safe_zip_members (Names [u ''a.txt'', u ''d/b.txt'']) (Some [(10, 900), (2, 180)]) default_limits
      = Inr [u ''a.txt'', u ''d/b.txt'']"
    by (simp add: safe_zip_members_def demo_paths zip_members_length_def coerce_members_def
        validator_add_def check_member_expansion_def check_ratio_exact [where k = 90]
        new_validator_def validator_finish_def default_limits_def)
qed

text \<open>
  When the streaming directory reader accepts the bytes of an archive, the entries it read
  tile the central directory exactly from the recorded start to the recorded end, their number is
  the recorded one, they form a safe archive and the result is the set of their names.\<close>

lemma central_directory_is_safe:
  assumes "normal_ratio l" "safe_zip_central_directory end_rec_data decode_name data l = Inr names"
  shows "\<exists>er ms. end_rec_data data = Some er \<and> length ms = ecd_entries_total er
    \<and> ecd_location er \<le> length data
    \<and> tiles decode_name data (ecd_location er) (ecd_location er - ecd_size er) ms
    \<and> archive_ok l ms \<and> set names = m_name ` set ms"
proof -
  from assms(2) obtain er v ns where er: "end_rec_data data = Some er" "ecd_location er \<le> length data"
    and d: "read_directory decode_name l data (ecd_location er) (ecd_entries_total er)
              (ecd_location er - ecd_size er) new_validator = Inr (v, ecd_location er)"
    and f: "validator_finish l v = Inr ns" and n: "names = remdups ns"
    by (auto simp: safe_zip_central_directory_def res_simps split: option.splits if_splits)
  obtain ms where "length ms = ecd_entries_total er" "collected l ms v"
    "tiles decode_name data (ecd_location er) (ecd_location er - ecd_size er) ms"
    using read_directory_Inr [OF assms(1) collected_new [OF assms(1)] d] by auto
  with er f n show ?thesis using validator_finish_Inr [OF assms(1)] by (metis set_remdups set_map)
qed

lemma central_directory_is_safe_witness:
  "\<exists>er ms. Some demo_end = Some er \<and> length ms = ecd_entries_total er
    \<and> ecd_location er \<le> length demo_entry
    \<and> tiles (\<lambda>_ raw. Some raw) demo_entry (ecd_location er) (ecd_location er - ecd_size er) ms
    \<and> archive_ok default_limits ms \<and> set [[97, 98]] = m_name ` set ms"
proof (rule central_directory_is_safe [where end_rec_data = "\<lambda>_. Some demo_end"])
  show "normal_ratio default_limits" by (simp add: normal_ratio_def default_limits_def power_int_minus field_simps)
  show "safe_zip_central_directory (\<lambda>_. Some demo_end) (\<lambda>_ raw. Some raw) demo_entry default_limits
      = Inr [[97, 98]]"
    by (simp add: safe_zip_central_directory_def demo_read validator_add_def demo_paths
        check_member_expansion_def check_ratio_exact [where k = 2] new_validator_def
        validator_finish_def default_limits_def demo_end_def)
qed

end
