(* ===== verification/File_Type.thy ===== *)
theory File_Type
  imports Ingest_Limits
begin

text \<open>
  Content-based format detection, \<^verbatim>\<open>src/clerksan/ingest/filetype.py\<close>. What the module asks of the
  standard library's archive readers, codecs and case mappings is the record \<open>file_env\<close>: every
  definition takes it as an argument and nothing is assumed of it. \<^verbatim>\<open>KeyError\<close>, \<^verbatim>\<open>OSError\<close>,
  \<^verbatim>\<open>BadZipFile\<close> (with \<^verbatim>\<open>LargeZipFile\<close>) are the exceptions the module catches around \<^verbatim>\<open>zipfile\<close>.
\<close>

datatype file_type = MD | DOCX | XLSX | PDF | JPEG | PNG | WEBP | CSV | TSV | TXT | RST | LOG
  | JSON | JSONL | YAML | XML | HTML | SVG | BMP | GIF | TIFF | PPTX | ODT | ODP | ODS | RTF
  | EML | ZIP | TAR | TGZ | GZ

definition file_type_value :: "file_type \<Rightarrow> pystr" where
  "file_type_value t = u (case t of MD \<Rightarrow> ''md'' | DOCX \<Rightarrow> ''docx'' | XLSX \<Rightarrow> ''xlsx''
     | PDF \<Rightarrow> ''pdf'' | JPEG \<Rightarrow> ''jpeg'' | PNG \<Rightarrow> ''png'' | WEBP \<Rightarrow> ''webp'' | CSV \<Rightarrow> ''csv''
     | TSV \<Rightarrow> ''tsv'' | TXT \<Rightarrow> ''txt'' | RST \<Rightarrow> ''rst'' | LOG \<Rightarrow> ''log'' | JSON \<Rightarrow> ''json''
     | JSONL \<Rightarrow> ''jsonl'' | YAML \<Rightarrow> ''yaml'' | XML \<Rightarrow> ''xml'' | HTML \<Rightarrow> ''html'' | SVG \<Rightarrow> ''svg''
     | BMP \<Rightarrow> ''bmp'' | GIF \<Rightarrow> ''gif'' | TIFF \<Rightarrow> ''tiff'' | PPTX \<Rightarrow> ''pptx'' | ODT \<Rightarrow> ''odt''
     | ODP \<Rightarrow> ''odp'' | ODS \<Rightarrow> ''ods'' | RTF \<Rightarrow> ''rtf'' | EML \<Rightarrow> ''eml'' | ZIP \<Rightarrow> ''zip''
     | TAR \<Rightarrow> ''tar'' | TGZ \<Rightarrow> ''tgz'' | GZ \<Rightarrow> ''gz'')"

definition legacy_file_types :: "file_type list" where
  "legacy_file_types = [MD, DOCX, XLSX, PDF, JPEG, PNG, WEBP]"

definition mime_by_file_type :: "file_type \<Rightarrow> pystr" where
  "mime_by_file_type t = u (case t of
       MD \<Rightarrow> ''text/markdown''
     | DOCX \<Rightarrow> ''application/vnd.openxmlformats-officedocument.wordprocessingml.document''
     | XLSX \<Rightarrow> ''application/vnd.openxmlformats-officedocument.spreadsheetml.sheet''
     | PDF \<Rightarrow> ''application/pdf''
     | JPEG \<Rightarrow> ''image/jpeg''
     | PNG \<Rightarrow> ''image/png''
     | WEBP \<Rightarrow> ''image/webp''
     | CSV \<Rightarrow> ''text/csv''
     | TSV \<Rightarrow> ''text/tab-separated-values''
     | TXT \<Rightarrow> ''text/plain''
     | RST \<Rightarrow> ''text/x-rst''
     | LOG \<Rightarrow> ''text/plain''
     | JSON \<Rightarrow> ''application/json''
     | JSONL \<Rightarrow> ''application/x-ndjson''
     | YAML \<Rightarrow> ''application/yaml''
     | XML \<Rightarrow> ''application/xml''
     | HTML \<Rightarrow> ''text/html''
     | SVG \<Rightarrow> ''image/svg+xml''
     | BMP \<Rightarrow> ''image/bmp''
     | GIF \<Rightarrow> ''image/gif''
     | TIFF \<Rightarrow> ''image/tiff''
     | PPTX \<Rightarrow> ''application/vnd.openxmlformats-officedocument.presentationml.presentation''
     | ODT \<Rightarrow> ''application/vnd.oasis.opendocument.text''
     | ODP \<Rightarrow> ''application/vnd.oasis.opendocument.presentation''
     | ODS \<Rightarrow> ''application/vnd.oasis.opendocument.spreadsheet''
     | RTF \<Rightarrow> ''application/rtf''
     | EML \<Rightarrow> ''message/rfc822''
     | ZIP \<Rightarrow> ''application/zip''
     | TAR \<Rightarrow> ''application/x-tar''
     | TGZ \<Rightarrow> ''application/gzip''
     | GZ \<Rightarrow> ''application/gzip'')"

record detected_format =
  df_family :: pystr
  df_format :: pystr
  df_canonical_mime :: pystr
  df_charset :: "pystr option"
  df_evidence :: "pystr list"

definition mk_detected ::
  "pystr \<Rightarrow> pystr \<Rightarrow> pystr \<Rightarrow> pystr option \<Rightarrow> pystr list \<Rightarrow> detected_format res" where
  "mk_detected family format mime charset evidence =
     (if family = [] \<or> format = [] \<or> mime = [] then
        Inl (ValueError ''detected format fields must be non-empty'')
      else Inr \<lparr>df_family = family, df_format = format, df_canonical_mime = mime,
                df_charset = charset, df_evidence = evidence\<rparr>)"

subsection \<open>What the standard library provides\<close>

datatype codec = Utf8 | Utf8_Sig | Utf16 | Cp932

record file_env =
  fe_is_zipfile :: "bytes \<Rightarrow> bool"
  fe_end_rec :: "bytes \<Rightarrow> end_record option"
  fe_decode_name :: "bool \<Rightarrow> bytes \<Rightarrow> pystr option"
  fe_infolist :: "bytes \<Rightarrow> zip_info list res"
  fe_read :: "bytes \<Rightarrow> zip_info \<Rightarrow> bytes res"
  fe_tar_opens :: "bytes \<Rightarrow> bool"
  fe_decode :: "codec \<Rightarrow> bytes \<Rightarrow> pystr option"
  fe_lower :: "pystr \<Rightarrow> pystr"
  fe_casefold :: "pystr \<Rightarrow> pystr"

definition zip_names :: "file_env \<Rightarrow> bytes \<Rightarrow> ingest_limits \<Rightarrow> pystr list res" where
  "zip_names env data l = safe_zip_central_directory (fe_end_rec env) (fe_decode_name env) data l"

definition getinfo :: "zip_info list \<Rightarrow> pystr \<Rightarrow> zip_info res" where
  "getinfo infos name = (case find (\<lambda>i. zi_filename i = name) (rev infos) of
     None \<Rightarrow> Inl KeyError | Some i \<Rightarrow> Inr i)"

definition zip_caught :: "exn \<Rightarrow> bool" where
  "zip_caught e \<longleftrightarrow> e = KeyError \<or> e = OSError \<or> e = BadZipFile"

text \<open>\<^verbatim>\<open>except (KeyError, OSError, BadZipFile, LargeZipFile): return default\<close>\<close>

definition or_else :: "'a res \<Rightarrow> 'a \<Rightarrow> 'a res" where
  "or_else r d = (case r of Inl e \<Rightarrow> if zip_caught e then Inr d else Inl e | Inr x \<Rightarrow> Inr x)"

definition byte_lower :: "nat \<Rightarrow> nat" where
  "byte_lower b = (if 65 \<le> b \<and> b \<le> 90 then b + 32 else b)"

definition byte_space :: "nat \<Rightarrow> bool" where
  "byte_space b \<longleftrightarrow> b = 32 \<or> (9 \<le> b \<and> b \<le> 13)"

definition byte_strip :: "bytes \<Rightarrow> bytes" where
  "byte_strip s = rev (dropWhile byte_space (rev (dropWhile byte_space s)))"

text \<open>\<^verbatim>\<open>PurePath(name).suffix\<close>: from the last dot of the last component, unless that dot is its
  first or its last character.\<close>

definition path_name :: "pystr \<Rightarrow> pystr" where
  "path_name name = (case rev (posix_parts name) of [] \<Rightarrow> [] | p # _ \<Rightarrow> p)"

definition path_suffix :: "pystr \<Rightarrow> pystr" where
  "path_suffix name =
     (let nm = path_name name; tl_rev = takeWhile (\<lambda>c. c \<noteq> 46) (rev nm); n = length tl_rev
      in if n = 0 \<or> length nm \<le> n + 1 then [] else drop (length nm - (n + 1)) nm)"

definition lower_suffix :: "file_env \<Rightarrow> pystr \<Rightarrow> pystr" where
  "lower_suffix env name = fe_lower env (path_suffix name)"

subsection \<open>Text\<close>

definition has_nul_without_bom :: "bytes \<Rightarrow> bool" where
  "has_nul_without_bom data \<longleftrightarrow> 0 \<in> set data \<and> \<not> (starts [255, 254] data \<or> starts [254, 255] data)"

definition text_candidates :: "bytes \<Rightarrow> (codec \<times> pystr) list" where
  "text_candidates data =
     (if starts [239, 187, 191] data \<or> starts [255, 254] data \<or> starts [254, 255] data
      then [(Utf8_Sig, u ''utf-8''), (Utf16, u ''utf-16'')]
      else [(Utf8, u ''utf-8''), (Cp932, u ''cp932'')])"

fun first_decoding :: "file_env \<Rightarrow> bytes \<Rightarrow> (codec \<times> pystr) list \<Rightarrow> (pystr \<times> pystr) option" where
  "first_decoding env data [] = None"
| "first_decoding env data ((c, charset) # cs) =
     (case fe_decode env c data of
        None \<Rightarrow> first_decoding env data cs
      | Some text \<Rightarrow> Some (text, charset))"

definition control_count :: "pystr \<Rightarrow> nat" where
  "control_count text = length (filter (\<lambda>c. c < 32 \<and> c \<noteq> 9 \<and> c \<noteq> 10 \<and> c \<noteq> 13) text)"

definition decode_safe_text :: "file_env \<Rightarrow> bytes \<Rightarrow> (pystr \<times> pystr) option" where
  "decode_safe_text env data =
     (if data = [] then Some ([], u ''utf-8'')
      else if has_nul_without_bom data then None
      else case first_decoding env data (text_candidates data) of
        None \<Rightarrow> None
      | Some (text, charset) \<Rightarrow>
          if 0 \<in> set text then None
          else if max 2 (length text div 100) < control_count text then None
          else Some (text, charset))"

definition delimited_extensions :: "(pystr \<times> file_type) list" where
  "delimited_extensions = [(u ''.csv'', CSV), (u ''.tsv'', TSV)]"

definition delimited_text_evidence ::
  "file_env \<Rightarrow> bytes \<Rightarrow> pystr option \<Rightarrow> (file_type \<times> pystr) option" where
  "delimited_text_evidence env data claimed_name =
     (case claimed_name of
        None \<Rightarrow> None
      | Some name \<Rightarrow>
          if name = [] then None
          else case map_of delimited_extensions (lower_suffix env name) of
            None \<Rightarrow> None
          | Some t \<Rightarrow>
              if has_nul_without_bom data then None
              else case first_decoding env data (text_candidates data) of
                None \<Rightarrow> None
              | Some (text, charset) \<Rightarrow>
                  if 0 \<in> set text then None
                  else if (if t = TSV then 9 else 44) \<notin> set text then None
                  else Some (t, charset))"

definition universal_text_extensions :: "(pystr \<times> file_type) list" where
  "universal_text_extensions =
     [(u ''.md'', MD), (u ''.markdown'', MD), (u ''.txt'', TXT), (u ''.rst'', RST), (u ''.log'', LOG),
      (u ''.json'', JSON), (u ''.jsonl'', JSONL), (u ''.ndjson'', JSONL), (u ''.yaml'', YAML),
      (u ''.yml'', YAML), (u ''.xml'', XML), (u ''.html'', HTML), (u ''.htm'', HTML),
      (u ''.svg'', SVG), (u ''.eml'', EML)]"

definition or_empty :: "pystr option \<Rightarrow> pystr" where
  "or_empty name = (case name of None \<Rightarrow> [] | Some n \<Rightarrow> n)"

text \<open>For \<^verbatim>\<open>.json\<close> both the successful and the failing \<^verbatim>\<open>json.loads\<close> return the same type.\<close>

definition universal_text_evidence :: "file_env \<Rightarrow> bytes \<Rightarrow> pystr option \<Rightarrow> file_type option" where
  "universal_text_evidence env data claimed_name =
     (case decode_safe_text env data of
        None \<Rightarrow> None
      | Some (text, _) \<Rightarrow>
          let stripped = dropWhile (\<lambda>c. c \<in> {65279, 32, 9, 13, 10}) text;
              folded = fe_casefold env (take 512 stripped)
          in if starts (u ''<svg'') folded
                \<or> (starts (u ''<?xml'') folded \<and> infix_of (u ''<svg'') folded) then Some SVG
             else if starts (u ''<!doctype html'') folded \<or> starts (u ''<html'') folded
                \<or> starts (u ''<head'') folded \<or> starts (u ''<body'') folded then Some HTML
             else if starts (u ''<?xml'') folded then Some XML
             else case map_of universal_text_extensions (lower_suffix env (or_empty claimed_name)) of
               Some t \<Rightarrow> Some t
             | None \<Rightarrow> Some TXT)"

definition is_safe_utf8_text :: "file_env \<Rightarrow> bytes \<Rightarrow> bool" where
  "is_safe_utf8_text env data \<longleftrightarrow> 0 \<notin> set data \<and> fe_decode env Utf8_Sig data \<noteq> None"

definition has_text_extension :: "file_env \<Rightarrow> pystr \<Rightarrow> bool" where
  "has_text_extension env name \<longleftrightarrow>
     lower_suffix env name \<in> {u ''.md'', u ''.markdown'', u ''.txt''}"

subsection \<open>Binary formats\<close>

definition png_magic :: bytes where
  "png_magic = [137, 80, 78, 71, 13, 10, 26, 10]"

definition is_webp :: "bytes \<Rightarrow> bool" where
  "is_webp data \<longleftrightarrow> 12 \<le> length data \<and> take 4 data = u ''RIFF'' \<and> slice data 8 12 = u ''WEBP''"

definition docx_content_type :: bytes where
  "docx_content_type =
     u ''application/vnd.openxmlformats-officedocument.wordprocessingml.document.main+xml''"

definition xlsx_content_type :: bytes where
  "xlsx_content_type =
     u ''application/vnd.openxmlformats-officedocument.spreadsheetml.sheet.main+xml''"

definition pptx_content_type :: bytes where
  "pptx_content_type =
     u ''application/vnd.openxmlformats-officedocument.presentationml.presentation.main+xml''"

definition max_content_types_bytes :: int where
  "max_content_types_bytes = 1048576"

definition detect_ooxml_type :: "file_env \<Rightarrow> bytes \<Rightarrow> ingest_limits \<Rightarrow> file_type option res" where
  "detect_ooxml_type env data l =
     or_else
       (rbind (zip_names env data l) (\<lambda>names.
        rbind (fe_infolist env data) (\<lambda>infos.
        rbind (getinfo infos (u ''[Content_Types].xml'')) (\<lambda>info.
          if max_content_types_bytes < zi_file_size info then Inr None
          else rbind (fe_read env data info) (\<lambda>raw.
            let content = map byte_lower raw;
                is_docx = u ''word/document.xml'' \<in> set names \<and> infix_of docx_content_type content;
                is_xlsx = u ''xl/workbook.xml'' \<in> set names \<and> infix_of xlsx_content_type content
            in Inr (if is_docx = is_xlsx then None
                    else if is_docx then Some DOCX else Some XLSX))))))
       None"

definition detect_zip_package_type :: "file_env \<Rightarrow> bytes \<Rightarrow> ingest_limits \<Rightarrow> file_type option res" where
  "detect_zip_package_type env data l =
     rbind (detect_ooxml_type env data l) (\<lambda>legacy.
       if legacy \<noteq> None then Inr legacy
       else or_else
         (rbind (zip_names env data l) (\<lambda>names.
          rbind (fe_infolist env data) (\<lambda>infos.
          rbind (if u ''[Content_Types].xml'' \<notin> set names then Inr False
                 else rbind (getinfo infos (u ''[Content_Types].xml'')) (\<lambda>info.
                   if max_content_types_bytes < zi_file_size info then Inr False
                   else rbind (fe_read env data info) (\<lambda>raw.
                     Inr (u ''ppt/presentation.xml'' \<in> set names
                          \<and> infix_of pptx_content_type (map byte_lower raw))))) (\<lambda>is_pptx.
          if is_pptx then Inr (Some PPTX)
          else if u ''mimetype'' \<notin> set names then Inr None
          else rbind (getinfo infos (u ''mimetype'')) (\<lambda>info.
            if 256 < zi_file_size info then Inr None
            else rbind (fe_read env data info) (\<lambda>raw.
              Inr (map_of [(u ''application/vnd.oasis.opendocument.text'', ODT),
                           (u ''application/vnd.oasis.opendocument.presentation'', ODP),
                           (u ''application/vnd.oasis.opendocument.spreadsheet'', ODS)]
                     (byte_strip raw))))))))
         None)"

definition detect_binary_type :: "file_env \<Rightarrow> bytes \<Rightarrow> ingest_limits \<Rightarrow> file_type option res" where
  "detect_binary_type env data l =
     (if starts (u ''%PDF-'') data then Inr (Some PDF)
      else if starts png_magic data then Inr (Some PNG)
      else if starts [255, 216, 255] data then Inr (Some JPEG)
      else if is_webp data then Inr (Some WEBP)
      else if fe_is_zipfile env data then detect_ooxml_type env data l
      else Inr None)"

definition image_magics :: "(bytes \<times> file_type) list" where
  "image_magics = [(u ''BM'', BMP), (u ''GIF87a'', GIF), (u ''GIF89a'', GIF),
     ([73, 73, 42, 0], TIFF), ([77, 77, 0, 42], TIFF)]"

definition image_magic :: "bytes \<Rightarrow> file_type option" where
  "image_magic data = map_option snd (find (\<lambda>(magic, _). starts magic data) image_magics)"

definition is_rtf :: "bytes \<Rightarrow> bool" where
  "is_rtf data \<longleftrightarrow> starts (u ''{'' @ [92] @ u ''rtf'') (dropWhile byte_space data)"

definition is_tar :: "file_env \<Rightarrow> bytes \<Rightarrow> bool" where
  "is_tar env data \<longleftrightarrow> 512 \<le> length data \<and> fe_tar_opens env data"

definition gzip_magic :: bytes where
  "gzip_magic = [31, 139]"

definition detect_universal_binary_type ::
  "file_env \<Rightarrow> bytes \<Rightarrow> ingest_limits \<Rightarrow> pystr \<Rightarrow> file_type option res" where
  "detect_universal_binary_type env data l claimed_name =
     rbind (detect_binary_type env data l) (\<lambda>legacy.
       if legacy \<noteq> None then Inr legacy
       else if image_magic data \<noteq> None then Inr (image_magic data)
       else if is_rtf data then Inr (Some RTF)
       else if is_tar env data then Inr (Some TAR)
       else if starts gzip_magic data then
         let lowered = fe_casefold env claimed_name
         in Inr (Some (if ends (u ''.tgz'') lowered \<or> ends (u ''.tar.gz'') lowered then TGZ else GZ))
       else if fe_is_zipfile env data then
         rbind (detect_zip_package_type env data l) (\<lambda>t.
           Inr (Some (case t of None \<Rightarrow> ZIP | Some t' \<Rightarrow> t')))
       else Inr None)"

subsection \<open>The two detectors\<close>

definition detect_file_type ::
  "file_env \<Rightarrow> bytes \<Rightarrow> pystr \<Rightarrow> ingest_limits \<Rightarrow> file_type res" where
  "detect_file_type env data claimed_name l =
     rbind (detect_binary_type env data l) (\<lambda>detected.
       case detected of
         Some t \<Rightarrow> Inr t
       | None \<Rightarrow>
           if fe_is_zipfile env data then Inl (UnsupportedFileError ''application/zip'')
           else if is_safe_utf8_text env data \<and> has_text_extension env claimed_name then Inr MD
           else if is_safe_utf8_text env data then Inl (UnsupportedFileError ''text/plain'')
           else Inl (UnsupportedFileError ''application/octet-stream''))"

definition detect_universal_file_type ::
  "file_env \<Rightarrow> bytes \<Rightarrow> pystr \<Rightarrow> ingest_limits \<Rightarrow> file_type res" where
  "detect_universal_file_type env data claimed_name l =
     rbind (detect_universal_binary_type env data l claimed_name) (\<lambda>detected.
       case detected of
         Some t \<Rightarrow> Inr t
       | None \<Rightarrow>
           (case delimited_text_evidence env data (Some claimed_name) of
              Some (t, _) \<Rightarrow> Inr t
            | None \<Rightarrow>
                (case universal_text_evidence env data (Some claimed_name) of
                   Some t \<Rightarrow> Inr t
                 | None \<Rightarrow>
                     Inl (UnsupportedFileError
                       (if decode_safe_text env data \<noteq> None then ''text/plain''
                        else ''application/octet-stream'')))))"

subsection \<open>Structural inspection\<close>

definition executable_signature :: "bytes \<Rightarrow> pystr option" where
  "executable_signature data =
     (if starts [127, 69, 76, 70] data then Some (u ''elf'')
      else if starts (u ''MZ'') data then Some (u ''pe'')
      else if starts [254, 237, 250, 206] data \<or> starts [254, 237, 250, 207] data
           \<or> starts [202, 254, 186, 190] data then Some (u ''mach-o'')
      else None)"

definition media_signature :: "bytes \<Rightarrow> (pystr \<times> pystr \<times> pystr) option" where
  "media_signature data =
     (if starts (u ''ID3'') data
         \<or> (2 \<le> length data \<and> data ! 0 = 255 \<and> (data ! 1 div 32) mod 8 = 7)
      then Some (u ''audio'', u ''mp3'', u ''audio/mpeg'')
      else if starts (u ''fLaC'') data then Some (u ''audio'', u ''flac'', u ''audio/flac'')
      else if starts (u ''OggS'') data then Some (u ''audio'', u ''ogg'', u ''audio/ogg'')
      else if 12 \<le> length data \<and> take 4 data = u ''RIFF'' \<and> slice data 8 12 = u ''WAVE''
      then Some (u ''audio'', u ''wav'', u ''audio/wav'')
      else if 12 \<le> length data \<and> take 4 data = u ''RIFF'' \<and> slice data 8 12 = u ''AVI ''
      then Some (u ''video'', u ''avi'', u ''video/x-msvideo'')
      else if starts [26, 69, 223, 163] data
      then Some (u ''video'', u ''matroska'', u ''video/x-matroska'')
      else if 12 \<le> length data \<and> slice data 4 8 = u ''ftyp'' then
        (let brand = slice data 8 12
         in if brand \<in> {u ''avif'', u ''avis'', u ''heic'', u ''heix'', u ''mif1'', u ''msf1''} then
              (let name = (if brand \<in> {u ''avif'', u ''avis''} then u ''avif'' else u ''heif'')
               in Some (u ''image'', name, u ''image/'' @ name))
            else Some (u ''video'', u ''mp4'', u ''video/mp4''))
      else None)"

datatype file_source = From_Bytes bytes | From_Path bytes | From_Other

definition bounded_inspection_bytes :: "file_source \<Rightarrow> ingest_limits \<Rightarrow> bytes res" where
  "bounded_inspection_bytes src l =
     rbind (case src of
         From_Path content \<Rightarrow> Inr (take (nat (max_upload_bytes l + 1)) content)
       | From_Bytes data \<Rightarrow> Inr data
       | From_Other \<Rightarrow> Inl (TypeError ''source must be bytes-like or a pathlib.Path'')) (\<lambda>data.
     rbind (check_upload_size (int (length data)) l) (\<lambda>_. Inr data))"

definition detected_legacy :: "file_type \<Rightarrow> string \<Rightarrow> pystr \<Rightarrow> detected_format res" where
  "detected_legacy t family evidence =
     mk_detected (u family) (file_type_value t) (mime_by_file_type t) None [evidence]"

definition zip_detected :: "string \<Rightarrow> string \<Rightarrow> string \<Rightarrow> detected_format res" where
  "zip_detected family format evidence =
     mk_detected (u family) (u format) (u ''application/zip'') None [u ''magic:zip'', u evidence]"

definition malformed_zip :: "detected_format res" where
  "malformed_zip = zip_detected ''malformed'' ''zip'' ''structure:invalid-central-directory''"

fun unsafe_archive :: "exn \<Rightarrow> bool" where
  "unsafe_archive (UnsafeArchiveMemberError _) = True"
| "unsafe_archive OSError = True"
| "unsafe_archive BadZipFile = True"
| "unsafe_archive _ = False"

definition active_member :: "pystr \<Rightarrow> bool" where
  "active_member n \<longleftrightarrow> ends (u ''vbaproject.bin'') n \<or> (infix_of (u ''/embeddings/'') n \<and> ends (u ''.bin'') n)"

definition executable_member :: "pystr \<Rightarrow> bool" where
  "executable_member n \<longleftrightarrow> ends (u ''.class'') n \<or> ends (u ''.dex'') n"

definition package_format :: "pystr list \<Rightarrow> file_type option \<Rightarrow> detected_format res" where
  "package_format lowercase_names detected =
     (if detected = Some DOCX then detected_legacy DOCX ''document'' (u ''structure:ooxml-docx'')
      else if detected = Some XLSX then detected_legacy XLSX ''spreadsheet'' (u ''structure:ooxml-xlsx'')
      else if detected = Some PPTX then detected_legacy PPTX ''presentation'' (u ''structure:ooxml-pptx'')
      else if detected = Some ODT then detected_legacy ODT ''document'' (u ''structure:odt'')
      else if detected = Some ODP then detected_legacy ODP ''document'' (u ''structure:odp'')
      else if detected = Some ODS then detected_legacy ODS ''spreadsheet'' (u ''structure:ods'')
      else if list_ex executable_member lowercase_names then
        zip_detected ''executable'' ''executable-zip'' ''structure:executable-member''
      else zip_detected ''container'' ''zip'' ''structure:container'')"

definition inspect_zip :: "file_env \<Rightarrow> bytes \<Rightarrow> ingest_limits \<Rightarrow> detected_format res" where
  "inspect_zip env data l =
     (case rbind (zip_names env data l) (\<lambda>names.
             rbind (fe_infolist env data) (\<lambda>infos. Inr (names, infos))) of
        Inl e \<Rightarrow> if unsafe_archive e then malformed_zip else Inl e
      | Inr (names, infos) \<Rightarrow>
          if list_ex (\<lambda>i. odd (zi_flag_bits i)) infos then
            zip_detected ''encrypted'' ''zip'' ''structure:encrypted-member''
          else
            let lowercase_names = map (fe_lower env) names
            in if list_ex active_member lowercase_names then
                 zip_detected ''active'' ''ooxml'' ''structure:active-package-member''
               else rbind (detect_zip_package_type env data l) (package_format lowercase_names))"

definition text_family :: "file_type \<Rightarrow> string" where
  "text_family t = (case t of JSON \<Rightarrow> ''structured'' | JSONL \<Rightarrow> ''structured'' | YAML \<Rightarrow> ''structured''
     | XML \<Rightarrow> ''structured'' | HTML \<Rightarrow> ''markup'' | SVG \<Rightarrow> ''markup'' | EML \<Rightarrow> ''email'' | _ \<Rightarrow> ''text'')"

definition inspect_pdf :: "bytes \<Rightarrow> detected_format res" where
  "inspect_pdf data =
     (if infix_of (u ''/Encrypt'') data then
        mk_detected (u ''encrypted'') (u ''pdf'') (mime_by_file_type PDF) None
          [u ''magic:pdf'', u ''structure:encrypted'']
      else if infix_of (u ''/JavaScript'') data \<or> infix_of (u ''/OpenAction'') data
           \<or> infix_of (u ''/Launch'') data then
        mk_detected (u ''active'') (u ''pdf'') (mime_by_file_type PDF) None
          [u ''magic:pdf'', u ''structure:active-content'']
      else detected_legacy PDF ''document'' (u ''magic:pdf''))"

definition inspect_text :: "file_env \<Rightarrow> bytes \<Rightarrow> file_type \<Rightarrow> detected_format res" where
  "inspect_text env data t =
     (if starts (u ''#!'') data then
        mk_detected (u ''active'') (u ''script'') (u ''text/plain'') (Some (u ''utf-8''))
          [u ''text:utf-8'', u ''structure:shebang'']
      else case decode_safe_text env data of
        None \<Rightarrow> Inl AssertionError
      | Some (_, charset) \<Rightarrow>
          mk_detected (u (text_family t)) (file_type_value t) (mime_by_file_type t) (Some charset)
            [u ''text:'' @ charset, u ''structure:'' @ file_type_value t])"

definition inspect_file ::
  "file_env \<Rightarrow> file_source \<Rightarrow> pystr option \<Rightarrow> ingest_limits \<Rightarrow> detected_format res" where
  "inspect_file env src declared_name l =
     rbind (bounded_inspection_bytes src l) (\<lambda>data.
       if data = [] then
         mk_detected (u ''empty'') (u ''empty'') (u ''application/octet-stream'') None [u ''size:0'']
       else case executable_signature data of
         Some x \<Rightarrow> mk_detected (u ''executable'') x (u ''application/x-executable'') None [u ''magic:'' @ x]
       | None \<Rightarrow>
       if starts (u ''%PDF-'') data then inspect_pdf data
       else if starts png_magic data then detected_legacy PNG ''image'' (u ''magic:png'')
       else if starts [255, 216, 255] data then detected_legacy JPEG ''image'' (u ''magic:jpeg'')
       else if is_webp data then detected_legacy WEBP ''image'' (u ''magic:webp'')
       else case image_magic data of
         Some t \<Rightarrow> detected_legacy t ''image'' (u ''magic:'' @ file_type_value t)
       | None \<Rightarrow>
       if is_rtf data then detected_legacy RTF ''document'' (u ''magic:rtf'')
       else if is_tar env data then detected_legacy TAR ''container'' (u ''structure:tar'')
       else if starts gzip_magic data then
         detected_legacy
           (if lower_suffix env (or_empty declared_name) \<in> {u ''.tgz'', u ''.tar.gz''} then TGZ else GZ)
           ''container'' (u ''magic:gzip'')
       else case delimited_text_evidence env data declared_name of
         Some (t, charset) \<Rightarrow>
           mk_detected (u ''tabular'') (file_type_value t) (mime_by_file_type t) (Some charset)
             [u ''text:'' @ charset, u ''filename:'' @ file_type_value t]
       | None \<Rightarrow>
       (case media_signature data of
         Some (family, format, mime) \<Rightarrow> mk_detected family format mime None [u ''magic:'' @ format]
       | None \<Rightarrow>
       if fe_is_zipfile env data then inspect_zip env data l
       else if starts [80, 75, 3, 4] data \<or> starts [80, 75, 5, 6] data \<or> starts [80, 75, 7, 8] data then
         malformed_zip
       else case universal_text_evidence env data declared_name of
         Some t \<Rightarrow> inspect_text env data t
       | None \<Rightarrow>
           mk_detected (u ''opaque'') (u ''unknown'') (u ''application/octet-stream'') None
             [u ''content:opaque'']))"

end
