(* ===== verification/Intake_Policy.thy ===== *)
theory Intake_Policy
  imports File_Type Clerk_Models
begin

text \<open>
  The intake policy, \<^verbatim>\<open>src/clerksan/ingest/policy.py\<close>: the public reason vocabulary with its two
  classifications, and \<open>decide_intake\<close>, which turns a detected format, the process formats of the
  registry and the declared intent into one of three actions.
\<close>

datatype public_reason_code =
    Processing_Queued | Mapping_Required | Model_Unavailable | Processing_Failed
  | Legacy_Outcome_Unavailable | Adapter_Unavailable | Decoder_Unavailable | Opaque_Safe_Fallback
  | Invalid_Host | Empty_File | Request_Too_Large | Multipart_Limit_Exceeded | Json_Limit_Exceeded
  | Upload_Capacity_Exceeded | Upload_Too_Large | Prohibited_Audio | Prohibited_Video
  | Prohibited_Executable | Active_Content | Encrypted_Content | Inspection_Ambiguous
  | Malformed_Content | Resource_Limit_Exceeded | Idempotency_Conflict | Internal_Error
  | Sandbox_Unavailable | Worker_Capability_Stale | Registry_Mismatch | Local_Data_Needs_Upgrade
  | Generic_Candidate_Deferred | Intake_Intent_Mismatch

definition all_reason_codes :: "public_reason_code list" where
  "all_reason_codes = [Processing_Queued, Mapping_Required, Model_Unavailable, Processing_Failed,
     Legacy_Outcome_Unavailable, Adapter_Unavailable, Decoder_Unavailable, Opaque_Safe_Fallback,
     Invalid_Host, Empty_File, Request_Too_Large, Multipart_Limit_Exceeded, Json_Limit_Exceeded,
     Upload_Capacity_Exceeded, Upload_Too_Large, Prohibited_Audio, Prohibited_Video,
     Prohibited_Executable, Active_Content, Encrypted_Content, Inspection_Ambiguous,
     Malformed_Content, Resource_Limit_Exceeded, Idempotency_Conflict, Internal_Error,
     Sandbox_Unavailable, Worker_Capability_Stale, Registry_Mismatch, Local_Data_Needs_Upgrade,
     Generic_Candidate_Deferred, Intake_Intent_Mismatch]"

definition reason_value :: "public_reason_code \<Rightarrow> pystr" where
  "reason_value r = u (case r of
       Processing_Queued \<Rightarrow> ''processing_queued'' | Mapping_Required \<Rightarrow> ''mapping_required''
     | Model_Unavailable \<Rightarrow> ''model_unavailable'' | Processing_Failed \<Rightarrow> ''processing_failed''
     | Legacy_Outcome_Unavailable \<Rightarrow> ''legacy_outcome_unavailable''
     | Adapter_Unavailable \<Rightarrow> ''adapter_unavailable'' | Decoder_Unavailable \<Rightarrow> ''decoder_unavailable''
     | Opaque_Safe_Fallback \<Rightarrow> ''opaque_safe_fallback'' | Invalid_Host \<Rightarrow> ''invalid_host''
     | Empty_File \<Rightarrow> ''empty_file'' | Request_Too_Large \<Rightarrow> ''request_too_large''
     | Multipart_Limit_Exceeded \<Rightarrow> ''multipart_limit_exceeded''
     | Json_Limit_Exceeded \<Rightarrow> ''json_limit_exceeded''
     | Upload_Capacity_Exceeded \<Rightarrow> ''upload_capacity_exceeded''
     | Upload_Too_Large \<Rightarrow> ''upload_too_large'' | Prohibited_Audio \<Rightarrow> ''prohibited_audio''
     | Prohibited_Video \<Rightarrow> ''prohibited_video'' | Prohibited_Executable \<Rightarrow> ''prohibited_executable''
     | Active_Content \<Rightarrow> ''active_content'' | Encrypted_Content \<Rightarrow> ''encrypted_content''
     | Inspection_Ambiguous \<Rightarrow> ''inspection_ambiguous'' | Malformed_Content \<Rightarrow> ''malformed_content''
     | Resource_Limit_Exceeded \<Rightarrow> ''resource_limit_exceeded''
     | Idempotency_Conflict \<Rightarrow> ''idempotency_conflict'' | Internal_Error \<Rightarrow> ''internal_error''
     | Sandbox_Unavailable \<Rightarrow> ''sandbox_unavailable''
     | Worker_Capability_Stale \<Rightarrow> ''worker_capability_stale''
     | Registry_Mismatch \<Rightarrow> ''registry_mismatch''
     | Local_Data_Needs_Upgrade \<Rightarrow> ''local_data_needs_upgrade''
     | Generic_Candidate_Deferred \<Rightarrow> ''generic_candidate_deferred''
     | Intake_Intent_Mismatch \<Rightarrow> ''intake_intent_mismatch'')"

definition reason_of :: "pystr \<Rightarrow> public_reason_code option" where
  "reason_of s = find (\<lambda>r. reason_value r = s) all_reason_codes"

datatype intake_action = Process | Store_Unprocessed | Reject

record intake_decision =
  dec_action :: intake_action
  dec_reason_code :: public_reason_code
  dec_adapter_key :: "pystr option"
  dec_retryable :: bool

definition family_rejections :: "(pystr \<times> public_reason_code) list" where
  "family_rejections =
     [(u ''empty'', Empty_File), (u ''audio'', Prohibited_Audio), (u ''video'', Prohibited_Video),
      (u ''executable'', Prohibited_Executable), (u ''active'', Active_Content),
      (u ''encrypted'', Encrypted_Content), (u ''ambiguous'', Inspection_Ambiguous),
      (u ''malformed'', Malformed_Content)]"

definition policy_rejections :: "public_reason_code list" where
  "policy_rejections = [Invalid_Host, Empty_File, Request_Too_Large, Multipart_Limit_Exceeded,
     Json_Limit_Exceeded, Upload_Capacity_Exceeded, Upload_Too_Large, Prohibited_Audio,
     Prohibited_Video, Prohibited_Executable, Active_Content, Encrypted_Content,
     Inspection_Ambiguous, Malformed_Content, Resource_Limit_Exceeded, Idempotency_Conflict,
     Internal_Error, Intake_Intent_Mismatch]"

definition retryable_reasons :: "public_reason_code list" where
  "retryable_reasons = [Model_Unavailable, Processing_Failed, Adapter_Unavailable,
     Decoder_Unavailable, Opaque_Safe_Fallback, Upload_Capacity_Exceeded, Internal_Error,
     Sandbox_Unavailable, Worker_Capability_Stale, Registry_Mismatch, Generic_Candidate_Deferred]"

definition reason_is_retryable :: "public_reason_code \<Rightarrow> bool" where
  "reason_is_retryable r \<longleftrightarrow> r \<in> set retryable_reasons"

definition rejected :: "public_reason_code \<Rightarrow> intake_decision" where
  "rejected r = \<lparr>dec_action = Reject, dec_reason_code = r, dec_adapter_key = None,
     dec_retryable = reason_is_retryable r\<rparr>"

definition stored :: "public_reason_code \<Rightarrow> intake_decision" where
  "stored r = \<lparr>dec_action = Store_Unprocessed, dec_reason_code = r, dec_adapter_key = None,
     dec_retryable = reason_is_retryable r\<rparr>"

definition removeprefix :: "pystr \<Rightarrow> pystr \<Rightarrow> pystr" where
  "removeprefix p s = (if starts p s then drop (length p) s else s)"

fun evidence_rejection :: "pystr list \<Rightarrow> public_reason_code option" where
  "evidence_rejection [] = None"
| "evidence_rejection (item # items) =
     (case reason_of (removeprefix (u ''risk:'') item) of
        None \<Rightarrow> evidence_rejection items
      | Some r \<Rightarrow> if r \<in> set policy_rejections then Some r else evidence_rejection items)"

datatype intent_arg = No_Intent | Intent intake_intent | Intent_Text pystr

definition normalize_intake_intent :: "intent_arg \<Rightarrow> intake_intent res" where
  "normalize_intake_intent a = (case a of
     No_Intent \<Rightarrow> Inr Legacy_Unspecified
   | Intent i \<Rightarrow> Inr i
   | Intent_Text s \<Rightarrow> (case intake_intent_of s of
       Some i \<Rightarrow> Inr i | None \<Rightarrow> Inl (ValueError ''unsupported intake_intent'')))"

definition is_tabular_format :: "detected_format \<Rightarrow> bool" where
  "is_tabular_format d \<longleftrightarrow> df_family d \<in> {u ''table'', u ''tabular'', u ''spreadsheet''}
     \<or> df_format d \<in> {u ''csv'', u ''tsv'', u ''xlsx'', u ''xls'', u ''ods''}"

definition is_bill_scan_format :: "detected_format \<Rightarrow> bool" where
  "is_bill_scan_format d \<longleftrightarrow> df_family d = u ''image'' \<or> df_format d = u ''pdf''"

definition adapter_for :: "(pystr, pystr) dict option \<Rightarrow> pystr \<Rightarrow> pystr" where
  "adapter_for keys format =
     (case dict_get (case keys of None \<Rightarrow> [] | Some d \<Rightarrow> d) format of None \<Rightarrow> format | Some k \<Rightarrow> k)"

definition decide_intake ::
  "detected_format \<Rightarrow> pystr set \<Rightarrow> (pystr, pystr) dict option \<Rightarrow> public_reason_code option
     \<Rightarrow> intent_arg \<Rightarrow> intake_decision res" where
  "decide_intake d process_formats adapter_keys violation intake_intent_arg =
     (case violation of
        Some v \<Rightarrow>
          if v \<notin> set policy_rejections then Inl (ValueError ''is not a policy rejection'')
          else Inr (rejected v)
      | None \<Rightarrow>
     (case (case evidence_rejection (df_evidence d) of
              Some r \<Rightarrow> Some r | None \<Rightarrow> map_of family_rejections (df_family d)) of
        Some r \<Rightarrow> Inr (rejected r)
      | None \<Rightarrow>
     rbind (normalize_intake_intent intake_intent_arg) (\<lambda>intent.
       if intent = Bill_Scan \<and> \<not> is_bill_scan_format d then Inr (rejected Intake_Intent_Mismatch)
       else if df_family d = u ''container'' \<and> df_format d \<notin> process_formats then
         Inr (rejected Inspection_Ambiguous)
       else if intent = Generic_File \<and> is_tabular_format d then
         Inr \<lparr>dec_action = Process, dec_reason_code = Mapping_Required,
              dec_adapter_key = Some (adapter_for adapter_keys (df_format d)), dec_retryable = False\<rparr>
       else if intent = Generic_File \<and> is_bill_scan_format d \<and> df_format d \<notin> process_formats then
         Inr (stored Generic_Candidate_Deferred)
       else if df_format d \<in> process_formats then
         Inr \<lparr>dec_action = Process, dec_reason_code = Processing_Queued,
              dec_adapter_key = Some (adapter_for adapter_keys (df_format d)), dec_retryable = False\<rparr>
       else if df_family d = u ''image'' then Inr (stored Decoder_Unavailable)
       else if df_family d = u ''opaque'' then Inr (stored Opaque_Safe_Fallback)
       else Inr (stored Adapter_Unavailable))))"

subsection \<open>Lemmas\<close>

declare evidence_rejection.simps(2) [simp del]

lemma reason_of_value [simp]: "reason_of (reason_value r) = Some r"
  by (cases r) (simp_all add: reason_of_def all_reason_codes_def reason_value_def)

lemma reason_of_Some: "reason_of s = Some r \<Longrightarrow> s = reason_value r"
  by (auto simp: reason_of_def find_Some_iff)

lemma reason_value_no_colon: "58 \<notin> set (reason_value r)"
  by (cases r) (simp_all add: reason_value_def u_def)

text \<open>An evidence token with a colon that is not a risk marker names no reason.\<close>

lemma tagged_evidence_is_neutral:
  "58 \<in> set item \<Longrightarrow> \<not> starts (u ''risk:'') item \<Longrightarrow>
     evidence_rejection (item # items) = evidence_rejection items"
  using reason_of_Some reason_value_no_colon
  by (fastforce simp: removeprefix_def evidence_rejection.simps split: option.splits)

lemma tagged_literals:
  "evidence_rejection ((u ''magic:'' @ x) # items) = evidence_rejection items"
  "evidence_rejection ((u ''text:'' @ x) # items) = evidence_rejection items"
  "evidence_rejection ((u ''structure:'' @ x) # items) = evidence_rejection items"
  "evidence_rejection ((u ''filename:'' @ x) # items) = evidence_rejection items"
  "evidence_rejection ((u ''content:'' @ x) # items) = evidence_rejection items"
  "evidence_rejection ((u ''size:'' @ x) # items) = evidence_rejection items"
  by (rule tagged_evidence_is_neutral; simp add: u_def)+

lemma family_rejections_policy:
  "map_of family_rejections f = Some r \<Longrightarrow> r \<in> set policy_rejections"
  by (auto simp: family_rejections_def policy_rejections_def split: if_splits)

lemma evidence_rejection_policy:
  "evidence_rejection items = Some r \<Longrightarrow> r \<in> set policy_rejections"
  by (induction items) (auto simp: evidence_rejection.simps split: option.splits if_splits)

end
