(* ===== verification/Intake_Props.thy ===== *)
theory Intake_Props
  imports Intake_Policy
begin

text \<open>
  What detection and policy guarantee together: content decides the adapter, prohibited content is
  rejected whatever the registry, the name and the intent say, and only advertised formats are
  processed.
\<close>

subsection \<open>Detected formats\<close>

definition nonempty_fields :: "detected_format \<Rightarrow> bool" where
  "nonempty_fields d \<longleftrightarrow> df_family d \<noteq> [] \<and> df_format d \<noteq> [] \<and> df_canonical_mime d \<noteq> []"

definition neutral :: "detected_format res \<Rightarrow> bool" where
  "neutral r \<longleftrightarrow> (\<forall>d. r = Inr d \<longrightarrow> evidence_rejection (df_evidence d) = None \<and> nonempty_fields d)"

lemma neutral_Inl [simp]: "neutral (Inl e)"
  by (simp add: neutral_def)

lemma neutral_rbind: "(\<And>x. m = Inr x \<Longrightarrow> neutral (f x)) \<Longrightarrow> neutral (rbind m f)"
  by (cases m) (auto simp: neutral_def)

lemma literal_evidence:
  "CHR '':'' \<in> set s \<Longrightarrow> \<not> starts ''risk:'' s \<Longrightarrow>
     evidence_rejection (u s # items) = evidence_rejection items"
  by (rule tagged_evidence_is_neutral) (force simp: u_def, simp del: starts_Cons)

lemma neutral_mk: "evidence_rejection ev = None \<Longrightarrow> neutral (mk_detected f g m c ev)"
  by (simp add: mk_detected_def neutral_def nonempty_fields_def)

lemma neutral_detected_legacy:
  "evidence_rejection [ev] = None \<Longrightarrow> neutral (detected_legacy t f ev)"
  by (simp add: detected_legacy_def neutral_mk)

lemma neutral_zip_detected:
  "CHR '':'' \<in> set ev \<Longrightarrow> \<not> starts ''risk:'' ev \<Longrightarrow> neutral (zip_detected f g ev)"
  by (simp add: zip_detected_def neutral_mk literal_evidence)

lemmas neutral_intros = neutral_mk neutral_detected_legacy neutral_zip_detected neutral_rbind
lemmas evidence_simps = literal_evidence tagged_literals

lemma neutral_inspect_pdf: "neutral (inspect_pdf data)"
  by (simp add: inspect_pdf_def neutral_intros evidence_simps)

lemma neutral_inspect_text: "neutral (inspect_text env data t)"
  by (simp add: inspect_text_def neutral_intros evidence_simps split: option.splits)

lemma neutral_malformed_zip: "neutral malformed_zip"
  by (simp add: malformed_zip_def neutral_zip_detected)

lemma neutral_package_format: "neutral (package_format names t)"
  by (simp add: package_format_def neutral_detected_legacy neutral_zip_detected evidence_simps)

lemma neutral_inspect_zip: "neutral (inspect_zip env data l)"
  unfolding inspect_zip_def Let_def
  by (auto intro!: neutral_rbind neutral_package_format neutral_malformed_zip neutral_zip_detected
      split: sum.split)

lemmas neutral_branches = pred_if [of _ neutral] pred_option [of _ neutral] pred_prod [of _ neutral]

lemma neutral_inspect_file: "neutral (inspect_file env src name l)"
  unfolding inspect_file_def
  by (intro neutral_rbind neutral_branches neutral_inspect_pdf neutral_inspect_text
      neutral_inspect_zip neutral_malformed_zip neutral_mk neutral_detected_legacy;
      simp add: evidence_simps)

lemma inspect_file_neutral:
  "inspect_file env src name l = Inr d \<Longrightarrow> evidence_rejection (df_evidence d) = None \<and> nonempty_fields d"
  using neutral_inspect_file [of env src name l] by (simp add: neutral_def)

lemma decide_family_rejection:
  assumes "evidence_rejection (df_evidence d) = None" "map_of family_rejections (df_family d) = Some r"
  shows "decide_intake d pf keys None i = Inr (rejected r)"
  using assms by (simp add: decide_intake_def)

lemma policy_reasons:
  "Intake_Intent_Mismatch \<in> set policy_rejections" "Inspection_Ambiguous \<in> set policy_rejections"
  "reason_is_retryable Generic_Candidate_Deferred" "reason_is_retryable Decoder_Unavailable"
  "reason_is_retryable Opaque_Safe_Fallback" "reason_is_retryable Adapter_Unavailable"
  "dec_action (rejected r) = Reject" "dec_reason_code (rejected r) = r"
  "dec_action (stored r) = Store_Unprocessed" "dec_retryable (stored r) = reason_is_retryable r"
  by (simp_all add: policy_rejections_def reason_is_retryable_def retryable_reasons_def rejected_def
      stored_def)

subsection \<open>Binary detection\<close>

lemma or_else_Inr: "or_else m d = Inr x \<longleftrightarrow> m = Inr x \<or> (x = d \<and> (\<exists>e. m = Inl e \<and> zip_caught e))"
  by (auto simp: or_else_def split: sum.splits if_splits)

lemma detect_ooxml_type_Some:
  "detect_ooxml_type env data l = Inr (Some t) \<Longrightarrow> t = DOCX \<or> t = XLSX"
  by (auto simp: detect_ooxml_type_def or_else_Inr res_simps Let_def split: if_splits)

lemma detect_binary_type_Some:
  "detect_binary_type env data l = Inr (Some t) \<Longrightarrow> t \<in> {PDF, PNG, JPEG, WEBP, DOCX, XLSX}"
  by (auto simp: detect_binary_type_def dest: detect_ooxml_type_Some split: if_splits)

lemma detect_file_type_binary:
  assumes "detect_file_type env data name l = Inr t" "t \<noteq> MD"
  shows "detect_binary_type env data l = Inr (Some t)"
  using assms by (auto simp: detect_file_type_def res_simps split: option.splits if_splits)

subsection \<open>Inspection never fails outside archives\<close>

lemma ok_mk: "f \<noteq> [] \<Longrightarrow> g \<noteq> [] \<Longrightarrow> m \<noteq> [] \<Longrightarrow> ok (mk_detected f g m c ev)"
  by (simp add: mk_detected_def)

lemma type_literals: "file_type_value t \<noteq> []" "mime_by_file_type t \<noteq> []" "text_family t \<noteq> []"
  by (cases t; simp add: file_type_value_def mime_by_file_type_def text_family_def)+

lemma ok_typed: "f \<noteq> [] \<Longrightarrow> ok (mk_detected f (file_type_value t) (mime_by_file_type t) c ev)"
  by (simp add: ok_mk type_literals)

lemma ok_detected_legacy: "f \<noteq> [] \<Longrightarrow> ok (detected_legacy t f ev)"
  by (simp add: detected_legacy_def ok_typed)

lemma ok_malformed_zip: "ok malformed_zip"
  by (simp add: malformed_zip_def zip_detected_def ok_mk)

lemma ok_inspect_pdf: "ok (inspect_pdf data)"
  by (simp add: inspect_pdf_def ok_mk ok_detected_legacy type_literals)

lemma ok_inspect_text:
  "universal_text_evidence env data name = Some t \<Longrightarrow> ok (inspect_text env data t)"
  by (auto simp: universal_text_evidence_def inspect_text_def ok_mk type_literals
      split: option.splits)

lemmas ok_branches = pred_if [of _ ok] pred_option [of _ ok] pred_prod [of _ ok]

lemma ok_media: "media_signature data = Some (f, g, m) \<Longrightarrow> ok (mk_detected f g m c ev)"
  by (auto simp: media_signature_def Let_def ok_mk split: if_splits)

lemma ok_executable:
  "executable_signature data = Some x \<Longrightarrow> ok (mk_detected (u ''executable'') x (u ''application/x-executable'') c ev)"
  by (auto simp: executable_signature_def ok_mk split: if_splits)

subsection \<open>Properties\<close>

text \<open>
  A file that the live detector recognises as anything but text is recognised as the same
  format under every claimed name and by the universal detector, and the format is one of the legacy
  allowlist: renaming an upload cannot select another adapter.\<close>

lemma detection_ignores_the_name:
  assumes "detect_file_type env data name l = Inr t" "t \<noteq> MD"
  shows "detect_file_type env data other l = Inr t \<and> detect_universal_file_type env data other l = Inr t
    \<and> t \<in> set legacy_file_types"
  using detect_file_type_binary [OF assms] detect_binary_type_Some [of env data l t]
  by (auto simp: detect_file_type_def detect_universal_file_type_def
      detect_universal_binary_type_def legacy_file_types_def)

definition demo_env :: file_env where
  "demo_env = \<lparr>fe_is_zipfile = (\<lambda>_. False), fe_end_rec = (\<lambda>_. None), fe_decode_name = (\<lambda>_ raw. Some raw),
     fe_infolist = (\<lambda>_. Inl BadZipFile), fe_read = (\<lambda>_ _. Inl BadZipFile), fe_tar_opens = (\<lambda>_. False),
     fe_decode = (\<lambda>c raw. if c = Utf16 then Some (drop 2 raw) else if list_all (\<lambda>b. b < 128) raw then Some raw else None),
     fe_lower = id, fe_casefold = id\<rparr>"

lemma detection_ignores_the_name_witness:
  "detect_file_type demo_env (u ''%PDF-1.7'') (u ''a.txt'') default_limits = Inr PDF
   \<and> detect_universal_file_type demo_env (u ''%PDF-1.7'') (u ''a.txt'') default_limits = Inr PDF"
proof -
  have "detect_file_type demo_env (u ''%PDF-1.7'') (u ''scan.pdf'') default_limits = Inr PDF"
    by (simp add: detect_file_type_def detect_binary_type_def starts_def u_def)
  from detection_ignores_the_name [OF this] show ?thesis by simp
qed


definition demo_pdf :: bytes where
  "demo_pdf = [37, 80, 68, 70, 45, 47, 76, 97, 117, 110, 99, 104]"


text \<open>
  A native executable (ELF, PE or Mach-O by its magic bytes) is rejected as such.\<close>

lemma executables_are_rejected:
  assumes "executable_signature data \<noteq> None" "int (length data) \<le> max_upload_bytes l"
  shows "\<exists>d. inspect_file env (From_Bytes data) name l = Inr d
    \<and> decide_intake d pf keys None i = Inr (rejected Prohibited_Executable)"
proof -
  obtain x where x: "executable_signature data = Some x" using assms(1) by auto
  then have ne: "data \<noteq> []" "x \<noteq> []" by (auto simp: executable_signature_def starts_def split: if_splits)
  let ?d = "\<lparr>df_family = u ''executable'', df_format = x, df_canonical_mime = u ''application/x-executable'',
    df_charset = None, df_evidence = [u ''magic:'' @ x]\<rparr>"
  have d: "inspect_file env (From_Bytes data) name l = Inr ?d"
    using assms(2) ne x by (simp add: inspect_file_def bounded_inspection_bytes_def
        check_upload_size_def require_nonnegative_def mk_detected_def)
  have "map_of family_rejections (df_family ?d) = Some Prohibited_Executable"
    by (simp add: family_rejections_def)
  with d show ?thesis using decide_family_rejection inspect_file_neutral by blast
qed

lemma executables_are_rejected_witness:
  "\<exists>d. inspect_file demo_env (From_Bytes (u ''MZ'')) (Some (u ''receipt.pdf'')) default_limits = Inr d
    \<and> decide_intake d {u ''pe''} None None No_Intent = Inr (rejected Prohibited_Executable)"
  by (rule executables_are_rejected)
     (simp_all add: executable_signature_def starts_def default_limits_def u_def)

text \<open>
  A decision to process is taken only for content with no rejecting evidence or family,
  and only when the registry advertises the exact format or a generic import of a table was asked
  for; a decision to store without processing is always retryable; a rejection carries a reason of
  the rejection table.\<close>

lemma decisions_follow_the_registry:
  assumes "decide_intake d pf keys violation i = Inr dec"
  shows "(dec_action dec = Process \<longrightarrow> violation = None \<and> evidence_rejection (df_evidence d) = None
      \<and> map_of family_rejections (df_family d) = None
      \<and> (df_format d \<in> pf \<or> normalize_intake_intent i = Inr Generic_File \<and> is_tabular_format d))
    \<and> (dec_action dec = Store_Unprocessed \<longrightarrow> df_format d \<notin> pf \<and> dec_retryable dec)
    \<and> (dec_action dec = Reject \<longrightarrow> dec_reason_code dec \<in> set policy_rejections)"
proof (cases "violation = None \<and> evidence_rejection (df_evidence d) = None
    \<and> map_of family_rejections (df_family d) = None")
  case True
  then obtain intent where intent: "normalize_intake_intent i = Inr intent"
    using assms by (auto simp: decide_intake_def res_simps)
  with True assms show ?thesis
    by (simp add: decide_intake_def split: if_splits) (auto simp: policy_reasons)
next
  case False
  then obtain r where "dec = rejected r" "r \<in> set policy_rejections"
    using assms evidence_rejection_policy family_rejections_policy
    by (auto simp: decide_intake_def split: option.splits if_splits)
  then show ?thesis by (simp add: policy_reasons)
qed

lemma decisions_follow_the_registry_witness:
  "\<not> (\<exists>dec. decide_intake \<lparr>df_family = u ''document'', df_format = u ''rtf'', df_canonical_mime = u ''application/rtf'',
        df_charset = None, df_evidence = []\<rparr> {u ''pdf''} None None No_Intent = Inr dec \<and> dec_action dec = Process)"
  using decisions_follow_the_registry [of "\<lparr>df_family = u ''document'', df_format = u ''rtf'',
      df_canonical_mime = u ''application/rtf'', df_charset = None, df_evidence = []\<rparr>" "{u ''pdf''}" None None No_Intent]
  by (auto simp: normalize_intake_intent_def)

text \<open>
  Inspection of bytes that are not a ZIP archive and are within the upload limit always
  returns a description, and its family, format and media type are non-empty, so the guard of
  \<^verbatim>\<open>DetectedFormat\<close> never raises.\<close>

lemma inspection_is_total:
  assumes "int (length data) \<le> max_upload_bytes l" "\<not> fe_is_zipfile env data"
  shows "\<exists>d. inspect_file env (From_Bytes data) name l = Inr d \<and> nonempty_fields d"
proof -
  have "bounded_inspection_bytes (From_Bytes data) l = Inr data"
    using assms(1)
    by (simp add: bounded_inspection_bytes_def check_upload_size_def require_nonnegative_def)
  then have "ok (inspect_file env (From_Bytes data) name l)"
    unfolding inspect_file_def using assms(2)
    by (simp only: rbind.simps if_False)
       (intro ok_branches ok_detected_legacy ok_malformed_zip ok_inspect_pdf ok_inspect_text
        ok_executable ok_typed ok_media ok_mk; (assumption | simp))
  then show ?thesis using inspect_file_neutral by (auto simp: ok_iff)
qed

lemma inspection_is_total_witness:
  "\<exists>d. inspect_file demo_env (From_Bytes [0, 1, 2]) None default_limits = Inr d \<and> nonempty_fields d"
  by (rule inspection_is_total) (simp_all add: default_limits_def demo_env_def)

text \<open>A gzip stream whose name ends in \<^verbatim>\<open>.tar.gz\<close> is a \<^verbatim>\<open>tgz\<close> for the universal detector but a
  plain \<^verbatim>\<open>gz\<close> for inspection, because the suffix of a path never contains two dots.\<close>

lemma tar_gz_is_inspected_as_gz:
  assumes "int (length data) \<le> max_upload_bytes l" "starts gzip_magic data"
    "\<not> fe_is_zipfile env data" "\<not> is_tar env data" "ends (u ''.tar.gz'') (fe_casefold env name)"
    "lower_suffix env name = u ''.gz''"
  shows "detect_universal_file_type env data name l = Inr TGZ
    \<and> (\<exists>d. inspect_file env (From_Bytes data) (Some name) l = Inr d \<and> df_format d = u ''gz'')"
proof -
  obtain rest where data: "data = 31 # 139 # rest"
    using assms(2) by (auto simp: gzip_magic_def split: list.splits)
  have "detect_binary_type env data l = Inr None" "image_magic data = None" "\<not> is_rtf data"
    "executable_signature data = None" "\<not> starts (u ''%PDF-'') data" "\<not> starts png_magic data"
    "\<not> is_webp data"
    using assms(3)
    by (simp_all add: data detect_binary_type_def png_magic_def is_webp_def image_magic_def
        image_magics_def is_rtf_def byte_space_def executable_signature_def u_def)
  with assms data show ?thesis
    by (simp add: detect_universal_file_type_def detect_universal_binary_type_def
        inspect_file_def bounded_inspection_bytes_def check_upload_size_def require_nonnegative_def
        detected_legacy_def mk_detected_def file_type_value_def mime_by_file_type_def or_empty_def)
qed

lemma tar_gz_is_inspected_as_gz_witness:
  "detect_universal_file_type demo_env [31, 139, 8] (u ''a.tar.gz'') default_limits = Inr TGZ
    \<and> (\<exists>d. inspect_file demo_env (From_Bytes [31, 139, 8]) (Some (u ''a.tar.gz'')) default_limits = Inr d
         \<and> df_format d = u ''gz'')"
proof (rule tar_gz_is_inspected_as_gz)
  show "lower_suffix demo_env (u ''a.tar.gz'') = u ''.gz''"
    by (simp add: lower_suffix_def demo_env_def path_suffix_def path_name_def posix_parts_def u_def)
qed (simp_all add: default_limits_def gzip_magic_def demo_env_def is_tar_def ends_def u_def)

text \<open>Text in UTF-16 with a little-endian byte order mark is accepted as text by the universal
  detector, but inspection takes the mark for an MPEG audio frame and policy rejects the file as
  audio, unless its name selects a delimited format.\<close>

lemma utf16_text_is_rejected_as_audio:
  assumes "int (length data) \<le> max_upload_bytes l" "starts [255, 254] data"
    "\<not> fe_is_zipfile env data" "\<not> is_tar env data" "decode_safe_text env data \<noteq> None"
    "delimited_text_evidence env data (Some name) = None"
  shows "(\<exists>t. detect_universal_file_type env data name l = Inr t)
    \<and> (\<exists>d. inspect_file env (From_Bytes data) (Some name) l = Inr d
         \<and> decide_intake d pf keys None i = Inr (rejected Prohibited_Audio))"
proof -
  obtain rest where data: "data = 255 # 254 # rest"
    using assms(2) by (auto split: list.splits)
  have pre: "detect_binary_type env data l = Inr None" "image_magic data = None" "\<not> is_rtf data"
    "executable_signature data = None" "\<not> starts (u ''%PDF-'') data" "\<not> starts png_magic data"
    "\<not> is_webp data" "\<not> starts gzip_magic data" "\<not> starts [255, 216, 255] data"
    "media_signature data = Some (u ''audio'', u ''mp3'', u ''audio/mpeg'')"
    using assms(3)
    by (simp_all add: data detect_binary_type_def png_magic_def is_webp_def image_magic_def
        image_magics_def is_rtf_def byte_space_def executable_signature_def gzip_magic_def
        media_signature_def u_def)
  let ?d = "\<lparr>df_family = u ''audio'', df_format = u ''mp3'', df_canonical_mime = u ''audio/mpeg'',
    df_charset = None, df_evidence = [u ''magic:'' @ u ''mp3'']\<rparr>"
  have "inspect_file env (From_Bytes data) (Some name) l = Inr ?d"
    using pre assms data by (simp add: inspect_file_def bounded_inspection_bytes_def
        check_upload_size_def require_nonnegative_def mk_detected_def)
  moreover have "decide_intake ?d pf keys None i = Inr (rejected Prohibited_Audio)"
    by (rule decide_family_rejection) (simp_all add: tagged_literals family_rejections_def)
  moreover have "\<exists>t. universal_text_evidence env data (Some name) = Some t"
    using assms(5) by (auto simp: universal_text_evidence_def Let_def split: option.splits)
  ultimately show ?thesis
    using pre assms by (auto simp: detect_universal_file_type_def detect_universal_binary_type_def)
qed

lemma utf16_text_is_rejected_as_audio_witness:
  "(\<exists>t. detect_universal_file_type demo_env [255, 254, 104, 105] (u ''a.txt'') default_limits = Inr t)
    \<and> (\<exists>d. inspect_file demo_env (From_Bytes [255, 254, 104, 105]) (Some (u ''a.txt'')) default_limits = Inr d
         \<and> decide_intake d {} None None No_Intent = Inr (rejected Prohibited_Audio))"
proof (rule utf16_text_is_rejected_as_audio)
  show "delimited_text_evidence demo_env [255, 254, 104, 105] (Some (u ''a.txt'')) = None"
    by (simp add: delimited_text_evidence_def delimited_extensions_def lower_suffix_def demo_env_def
        path_suffix_def path_name_def posix_parts_def u_def)
qed (simp_all add: default_limits_def demo_env_def is_tar_def decode_safe_text_def
      has_nul_without_bom_def text_candidates_def control_count_def)

end
