(* ===== verification/Source_Intake.thy ===== *)
theory Source_Intake
  imports Job_Queue
begin

text \<open>
  The source-intake projection of \<^verbatim>\<open>src/clerksan/db/repositories.py\<close> (\<^verbatim>\<open>SourceIntakeRepo\<close>): one
  row per immutable original, advanced along \<open>source_intake_transitions\<close> under an optimistic
  version, and the upload-key reservations that make an upload exactly-once. The state holds the
  two tables, the jobs that a replay reports and the keys this session believes it reserved.

  Both database branches of \<^verbatim>\<open>reserve_upload_idempotency\<close> insert the reservation unless the key
  exists and otherwise read the existing row, so they share one definition. A call that raises
  leaves the tables to the caller's rollback: it returns no state.
\<close>

record reservation =
  rs_key :: nat
  rs_source_sha256 :: pystr
  rs_intent_digest :: pystr
  rs_source_intake_id :: "nat option"

record document_file =
  f_id :: nat
  f_document_id :: nat
  f_version :: int
  f_kind :: file_kind
  f_content_path :: pystr
  f_sha256 :: pystr
  f_mime :: pystr
  f_source_filename :: pystr
  f_source_file_id :: "nat option"
  f_source_version :: "int option"
  f_page_number :: "int option"
  f_ocr_text :: "pystr option"
  f_text_provenance :: "pystr option"

record intakedb =
  source_rows :: "source_intake list"
  reservations :: "reservation list"
  owned_keys :: "nat set"
  intake_jobs :: "job list"

subsection \<open>Argument validation\<close>

definition clean_text :: "pystr \<Rightarrow> pystr res" where
  "clean_text v = (if strip v = [] then Inl (ValueError ''must not be empty'') else Inr (strip v))"

definition validate_sha256 :: "pystr \<Rightarrow> unit res" where
  "validate_sha256 v = require (is_sha256_hex v)
     (ValueError ''sha256 must be a 64-character lowercase hexadecimal digest'')"

fun repo_optional_digest :: "pyval \<Rightarrow> pystr option res" where
  "repo_optional_digest PNone = Inr None"
| "repo_optional_digest (PStr s) =
     (if is_sha256_hex (strip s) then Inr (Some (strip s))
      else Inl (SourceIntakeValidationError ''must be a 64-character lowercase hexadecimal digest''))"
| "repo_optional_digest _ = Inl (SourceIntakeValidationError ''must be a string'')"

fun repo_intake_intent :: "pyval \<Rightarrow> intake_intent res" where
  "repo_intake_intent (PStr s) = (case intake_intent_of s of
     Some i \<Rightarrow> Inr i | None \<Rightarrow> Inl (SourceIntakeValidationError ''unsupported intake_intent''))"
| "repo_intake_intent _ = Inl (SourceIntakeValidationError ''unsupported intake_intent'')"

fun repo_component :: "pyval \<Rightarrow> pystr res" where
  "repo_component (PStr s) =
     (if strip s = [] then Inl (SourceIntakeValidationError ''required_components must not contain blanks'')
      else Inr (strip s))"
| "repo_component _ = Inl (SourceIntakeValidationError ''required_components must contain strings'')"

fun repo_required_components :: "pyval \<Rightarrow> pystr list res" where
  "repo_required_components (PList vs) =
     rbind (rmap repo_component vs) (\<lambda>ns.
       if \<not> distinct ns then
         Inl (SourceIntakeValidationError ''required_components must not contain duplicates'')
       else Inr (sort ns))"
| "repo_required_components _ = Inl (SourceIntakeValidationError ''required_components must be a sequence'')"

definition normalize_upload_idempotency_key :: "uuid_parser \<Rightarrow> pyval \<Rightarrow> nat option res" where
  "normalize_upload_idempotency_key uuid_of v = (case v of
     PNone \<Rightarrow> Inr None
   | _ \<Rightarrow> (case coerce_uuid uuid_of v of
       Some k \<Rightarrow> Inr (Some k)
     | None \<Rightarrow> Inl (SourceIntakeValidationError ''upload_idempotency_key must be a UUID'')))"

fun clean_optional_text :: "pyval \<Rightarrow> pystr option res" where
  "clean_optional_text PNone = Inr None"
| "clean_optional_text (PStr s) = Inr (if strip s = [] then None else Some (strip s))"
| "clean_optional_text _ = Inl (SourceIntakeValidationError ''must be a string'')"

definition state_value :: "source_intake_state \<Rightarrow> pystr" where
  "state_value s = u (case s of SI_Queued \<Rightarrow> ''queued'' | SI_Processing \<Rightarrow> ''processing''
     | SI_Processed \<Rightarrow> ''processed'' | SI_Needs_Mapping \<Rightarrow> ''needs_mapping''
     | SI_Stored_Unprocessed \<Rightarrow> ''stored_unprocessed'' | SI_Failed \<Rightarrow> ''failed'')"

definition coerce_state :: "source_intake_state + pystr \<Rightarrow> source_intake_state res" where
  "coerce_state v = (case v of
     Inl s \<Rightarrow> Inr s
   | Inr t \<Rightarrow> (case find (\<lambda>s. state_value s = t)
       [SI_Queued, SI_Processing, SI_Processed, SI_Needs_Mapping, SI_Stored_Unprocessed, SI_Failed] of
         Some s \<Rightarrow> Inr s
       | None \<Rightarrow> Inl (SourceIntakeValidationError ''unsupported source intake state'')))"

definition coerce_profile :: "execution_profile + pystr \<Rightarrow> execution_profile res" where
  "coerce_profile v = (case v of
     Inl p \<Rightarrow> Inr p
   | Inr t \<Rightarrow> if t = u ''legacy_compat'' then Inr Legacy_Compat
            else if t = u ''universal_sandboxed'' then Inr Universal_Sandboxed
            else Inl (SourceIntakeValidationError ''unsupported execution profile''))"

subsection \<open>Upload reservations\<close>

datatype upload_outcome = New | Conflict | Replay "source_intake \<times> job option"

definition find_reservation :: "nat \<Rightarrow> intakedb \<Rightarrow> reservation option" where
  "find_reservation k db = find (\<lambda>r. rs_key r = k) (reservations db)"

definition find_intake :: "nat \<Rightarrow> intakedb \<Rightarrow> source_intake option" where
  "find_intake i db = find (\<lambda>r. si_id r = i) (source_rows db)"

definition job_source_version :: "job \<Rightarrow> int option" where
  "job_source_version j = (case dict_get (j_payload j) (u ''source_version'') of
     None \<Rightarrow> None | Some v \<Rightarrow> payload_source_version v)"

definition job_order :: "job \<Rightarrow> int \<times> int \<times> nat" where
  "job_order j = (j_created_at j, j_updated_at j, j_id j)"

text \<open>\<^verbatim>\<open>max(..., key=_job_order, default=None)\<close>: the first greatest element.\<close>

definition latest_job :: "job list \<Rightarrow> job option" where
  "latest_job js = find (\<lambda>j. \<forall>k \<in> set js. job_order k \<le> job_order j) js"

definition replay_job :: "source_intake \<Rightarrow> intakedb \<Rightarrow> job option" where
  "replay_job row db = latest_job (filter (\<lambda>j. j_document_id j = si_document_id row
       \<and> job_source_version j = Some (si_source_version row)
       \<and> j_job_type j = u ''process_document'') (intake_jobs db))"

definition settle_reservation ::
  "nat \<Rightarrow> pystr \<Rightarrow> pystr \<Rightarrow> reservation \<Rightarrow> intakedb \<Rightarrow> upload_outcome" where
  "settle_reservation k sha intent r db =
     (if rs_source_sha256 r \<noteq> sha \<or> rs_intent_digest r \<noteq> intent then Conflict
      else case rs_source_intake_id r of
        None \<Rightarrow> if k \<in> owned_keys db then New else Conflict
      | Some i \<Rightarrow>
          (case find_intake i db of
             None \<Rightarrow> Conflict
           | Some row \<Rightarrow>
               if si_upload_idempotency_key row \<noteq> Some k then Conflict
               else Replay (row, replay_job row db)))"

definition reserve_upload_idempotency ::
  "uuid_parser \<Rightarrow> pyval \<Rightarrow> pystr \<Rightarrow> pyval \<Rightarrow> intakedb \<Rightarrow> (upload_outcome \<times> intakedb) res" where
  "reserve_upload_idempotency uuid_of key sha intent_digest db =
     rbind (normalize_upload_idempotency_key uuid_of key) (\<lambda>key'.
     case key' of None \<Rightarrow> Inl AssertionError | Some k \<Rightarrow>
     rbind (validate_sha256 sha) (\<lambda>_.
     rbind (repo_optional_digest intent_digest) (\<lambda>intent'.
     case intent' of None \<Rightarrow> Inl AssertionError | Some intent \<Rightarrow>
       let db1 = (if find_reservation k db = None
                  then db\<lparr>owned_keys := owned_keys db - {k}\<rparr> else db)
       in case find_reservation k db1 of
            None \<Rightarrow>
              Inr (New, db1\<lparr>owned_keys := insert k (owned_keys db1),
                reservations := reservations db1 @
                  [\<lparr>rs_key = k, rs_source_sha256 = sha, rs_intent_digest = intent,
                    rs_source_intake_id = None\<rparr>]\<rparr>)
          | Some r \<Rightarrow> Inr (settle_reservation k sha intent r db1, db1))))"

subsection \<open>Creating the projection of a source\<close>

record companion_args =
  ca_document_id :: nat
  ca_source_file :: document_file
  ca_duplicate_of :: "nat option"
  ca_upload_key :: pyval
  ca_intent_digest :: pyval
  ca_registry_digest :: pyval
  ca_capabilities_digest :: pyval
  ca_policy_version :: pystr
  ca_required_components :: pyval
  ca_intake_intent :: pyval
  ca_detected_family :: pyval
  ca_detected_format :: pyval
  ca_canonical_mime :: pyval
  ca_detection_evidence :: "pyval list"
  ca_state :: "source_intake_state + pystr"
  ca_reason_code :: pyval
  ca_retryable :: bool
  ca_failure_phase :: pyval
  ca_execution_profile :: "execution_profile + pystr"
  ca_sandbox_verified :: bool

fun is_dict :: "pyval \<Rightarrow> bool" where
  "is_dict (PDict d) = True"
| "is_dict _ = False"

text \<open>\<open>companion_row\<close> is the validation of \<^verbatim>\<open>create_source_companion\<close> in its order, ending in the row
  it will insert; \<open>new_id\<close> is the drawn UUID and \<open>now\<close> the server clock.\<close>

definition companion_row ::
  "uuid_parser \<Rightarrow> (pystr list \<Rightarrow> pystr) \<Rightarrow> companion_args \<Rightarrow> nat \<Rightarrow> int \<Rightarrow> source_intake res" where
  "companion_row uuid_of hash a new_id now =
     rbind (normalize_upload_idempotency_key uuid_of (ca_upload_key a)) (\<lambda>key.
     rbind (repo_optional_digest (ca_intent_digest a)) (\<lambda>intent_digest.
     rbind (require ((key = None) = (intent_digest = None)) (SourceIntakeValidationError
       ''upload_idempotency_key and intent_digest must be supplied together'')) (\<lambda>_.
     rbind (require (f_document_id (ca_source_file a) = ca_document_id a
         \<and> f_kind (ca_source_file a) = Original) (SourceIntakeValidationError
       ''source intake must reference the exact same-document original'')) (\<lambda>_.
     rbind (validate_sha256 (f_sha256 (ca_source_file a))) (\<lambda>_.
     rbind (require (ca_duplicate_of a \<noteq> Some (ca_document_id a)) (SourceIntakeValidationError
       ''duplicate_of_document_id must not be self'')) (\<lambda>_.
     rbind (repo_required_components (ca_required_components a)) (\<lambda>components.
     rbind (repo_intake_intent (ca_intake_intent a)) (\<lambda>intent.
     rbind (clean_text (ca_policy_version a)) (\<lambda>policy.
     rbind (repo_optional_digest (ca_registry_digest a)) (\<lambda>rdigest.
     rbind (repo_optional_digest (ca_capabilities_digest a)) (\<lambda>cdigest.
     rbind (clean_optional_text (ca_detected_family a)) (\<lambda>family.
     rbind (clean_optional_text (ca_detected_format a)) (\<lambda>format.
     rbind (clean_optional_text (ca_canonical_mime a)) (\<lambda>mime.
     rbind (clean_optional_text (ca_reason_code a)) (\<lambda>reason.
     rbind (clean_optional_text (ca_failure_phase a)) (\<lambda>phase.
     rbind (coerce_state (ca_state a)) (\<lambda>state.
     rbind (coerce_profile (ca_execution_profile a)) (\<lambda>profile.
     rbind (require ((profile = Universal_Sandboxed) = ca_sandbox_verified a)
       (SourceIntakeValidationError ''execution profile and sandbox evidence must agree'')) (\<lambda>_.
     rbind (require (\<not> (profile = Universal_Sandboxed \<and> (rdigest = None \<or> cdigest = None)))
       (SourceIntakeValidationError ''universal intake requires registry and capability digests'')) (\<lambda>_.
     rbind (require (\<not> (state = SI_Failed \<and> reason = None))
       (SourceIntakeValidationError ''failed source intake requires a reason_code'')) (\<lambda>_.
     rbind (require (list_all is_dict (ca_detection_evidence a))
       (SourceIntakeValidationError ''detection_evidence must contain objects'')) (\<lambda>_.
     Inr \<lparr>si_id = new_id, si_document_id = ca_document_id a,
          si_source_file_id = f_id (ca_source_file a),
          si_source_version = f_version (ca_source_file a),
          si_source_sha256 = f_sha256 (ca_source_file a), si_duplicate_of = ca_duplicate_of a,
          si_detected_family = family, si_detected_format = format,
          si_canonical_mime = (case mime of None \<Rightarrow> Some (f_mime (ca_source_file a)) | Some m \<Rightarrow> Some m),
          si_detection_evidence = ca_detection_evidence a, si_policy_version = policy,
          si_registry_digest = rdigest, si_capabilities_digest = cdigest,
          si_requirements_digest = hash components, si_required_components = components,
          si_intake_intent = intent, si_state = state, si_reason_code = reason,
          si_retryable = ca_retryable a, si_failure_phase = phase,
          si_execution_profile = profile, si_sandbox_verified = ca_sandbox_verified a,
          si_upload_idempotency_key = key, si_intent_digest = intent_digest, si_version = 1,
          si_created_at = now, si_updated_at = now\<rparr>))))))))))))))))))))))"

text \<open>The unique constraints of the table that an insert can violate.\<close>

definition source_identity :: "source_intake \<Rightarrow> nat \<times> nat \<times> int \<times> pystr" where
  "source_identity r =
     (si_document_id r, si_source_file_id r, si_source_version r, si_source_sha256 r)"

definition violates_unique :: "source_intake list \<Rightarrow> source_intake \<Rightarrow> bool" where
  "violates_unique rows r \<longleftrightarrow> (\<exists>x \<in> set rows. si_id x = si_id r \<or> source_identity x = source_identity r
     \<or> (si_upload_idempotency_key r \<noteq> None \<and> si_upload_idempotency_key x = si_upload_idempotency_key r))"

definition insert_intake :: "source_intake \<Rightarrow> intakedb \<Rightarrow> intakedb res" where
  "insert_intake r db =
     (if violates_unique (source_rows db) r \<or> si_source_version r \<le> 0
      then Inl IntegrityError
      else Inr (db\<lparr>source_rows := source_rows db @ [r]\<rparr>))"

definition bind_reservation :: "nat \<Rightarrow> nat \<Rightarrow> intakedb \<Rightarrow> intakedb" where
  "bind_reservation k i db = db\<lparr>reservations :=
     map (\<lambda>r. if rs_key r = k then r\<lparr>rs_source_intake_id := Some i\<rparr> else r) (reservations db)\<rparr>"

definition create_source_companion ::
  "uuid_parser \<Rightarrow> (pystr list \<Rightarrow> pystr) \<Rightarrow> companion_args \<Rightarrow> nat \<Rightarrow> int \<Rightarrow> intakedb
     \<Rightarrow> (nat \<times> intakedb) res" where
  "create_source_companion uuid_of hash a new_id now db =
     rbind (companion_row uuid_of hash a new_id now) (\<lambda>row.
     case si_upload_idempotency_key row of
       None \<Rightarrow> rbind (insert_intake row db) (\<lambda>db'. Inr (new_id, db'))
     | Some k \<Rightarrow>
         rbind (reserve_upload_idempotency uuid_of (PUuid k) (si_source_sha256 row)
                  (opt_str (si_intent_digest row)) db) (\<lambda>(outcome, db1).
         if outcome \<noteq> New then
           Inl (SourceIntakeValidationError ''upload idempotency reservation could not be bound'')
         else case find_reservation k db1 of
           None \<Rightarrow> Inl (SourceIntakeValidationError ''upload idempotency reservation does not match this source'')
         | Some r \<Rightarrow>
             if rs_source_sha256 r \<noteq> si_source_sha256 row
                \<or> Some (rs_intent_digest r) \<noteq> si_intent_digest row
                \<or> rs_source_intake_id r \<noteq> None then
               Inl (SourceIntakeValidationError ''upload idempotency reservation does not match this source'')
             else rbind (insert_intake row db1) (\<lambda>db2. Inr (new_id, bind_reservation k new_id db2))))"

subsection \<open>Transitions\<close>

definition source_intake_transitions :: "source_intake_state \<Rightarrow> source_intake_state set" where
  "source_intake_transitions s = (case s of
     SI_Queued \<Rightarrow> {SI_Processing, SI_Processed, SI_Needs_Mapping, SI_Stored_Unprocessed, SI_Failed}
   | SI_Processing \<Rightarrow> {SI_Queued, SI_Processed, SI_Needs_Mapping, SI_Stored_Unprocessed, SI_Failed}
   | SI_Processed \<Rightarrow> {SI_Queued}
   | SI_Needs_Mapping \<Rightarrow> {SI_Queued, SI_Processing, SI_Failed}
   | SI_Stored_Unprocessed \<Rightarrow> {SI_Queued, SI_Processing, SI_Failed}
   | SI_Failed \<Rightarrow> {SI_Queued})"

record transition_args =
  tr_intake_id :: nat
  tr_expected_version :: int
  tr_state :: "source_intake_state + pystr"
  tr_actor :: pystr
  tr_reason_code :: pyval
  tr_retryable :: bool
  tr_failure_phase :: pyval

definition transitioned ::
  "source_intake_state \<Rightarrow> pystr option \<Rightarrow> bool \<Rightarrow> pystr option \<Rightarrow> int \<Rightarrow> source_intake \<Rightarrow> source_intake" where
  "transitioned state reason retryable phase now r =
     r\<lparr>si_state := state, si_reason_code := reason, si_retryable := retryable,
       si_failure_phase := phase, si_version := si_version r + 1, si_updated_at := now\<rparr>"

definition transition :: "transition_args \<Rightarrow> int \<Rightarrow> intakedb \<Rightarrow> (int \<times> intakedb) res" where
  "transition a now db =
     (if tr_expected_version a < 1 then
        Inl (SourceIntakeValidationError ''expected_version must be greater than zero'')
      else
      rbind (coerce_state (tr_state a)) (\<lambda>state.
      case find_intake (tr_intake_id a) db of
        None \<Rightarrow> Inl StaleSourceIntakeError
      | Some current \<Rightarrow>
          if si_version current \<noteq> tr_expected_version a then Inl StaleSourceIntakeError
          else if state \<notin> source_intake_transitions (si_state current) then
            Inl (SourceIntakeValidationError ''source intake cannot transition'')
          else
          rbind (clean_optional_text (tr_reason_code a)) (\<lambda>reason.
          rbind (clean_optional_text (tr_failure_phase a)) (\<lambda>phase.
          rbind (require (\<not> (state = SI_Failed \<and> reason = None))
            (SourceIntakeValidationError ''failed source intake requires a reason_code'')) (\<lambda>_.
          rbind (clean_text (tr_actor a)) (\<lambda>_.
          let hits = (\<lambda>r. si_id r = tr_intake_id a \<and> si_version r = tr_expected_version a
                \<and> si_state r = si_state current)
          in if length (filter hits (source_rows db)) \<noteq> 1 then Inl StaleSourceIntakeError
             else Inr (tr_expected_version a + 1,
               db\<lparr>source_rows := map (\<lambda>r. if hits r
                   then transitioned state reason (tr_retryable a) phase now r else r)
                 (source_rows db)\<rparr>)))))))"

end
