(* ===== verification/Optimistic.thy ===== *)
theory Optimistic
  imports Clerk_Prelude
begin

text \<open>
  The contract of an optimistic, version-guarded table. \<open>step\<close> is any change of the store and never
  lowers the version of a row; \<open>put i v\<close> is a write of row \<open>i\<close> by someone who read version \<open>v\<close>: it
  happens only while the row still has that version and advances it by one.
\<close>

locale versioned_store =
  fixes valid :: "'db \<Rightarrow> bool"
    and version :: "'db \<Rightarrow> nat \<Rightarrow> int option"
    and put :: "nat \<Rightarrow> int \<Rightarrow> 'db \<Rightarrow> 'db \<Rightarrow> bool"
    and step :: "'db \<Rightarrow> 'db \<Rightarrow> bool"
  assumes step_valid: "valid db \<Longrightarrow> step db db' \<Longrightarrow> valid db'"
    and step_grows: "valid db \<Longrightarrow> step db db' \<Longrightarrow> version db i = Some v
      \<Longrightarrow> \<exists>w. version db' i = Some w \<and> v \<le> w"
    and put_step: "put i v db db' \<Longrightarrow> step db db'"
    and put_checks: "valid db \<Longrightarrow> put i v db db' \<Longrightarrow> version db i = Some v \<and> version db' i = Some (v + 1)"
begin

lemma steps_grow:
  "rtranclp step db db' \<Longrightarrow> valid db \<Longrightarrow> version db i = Some v
    \<Longrightarrow> valid db' \<and> (\<exists>w. version db' i = Some w \<and> v \<le> w)"
proof (induction rule: rtranclp_induct)
  case (step db1 db2)
  then obtain w where "valid db1" "version db1 i = Some w" "v \<le> w" by blast
  with step.hyps(2) show ?case using step_valid step_grows by (meson order_trans)
qed auto

lemma lost_update_is_refused:
  assumes "valid db" "put i v db db1" "rtranclp step db1 db2"
  shows "\<not> put i v db2 db3"
proof
  assume late: "put i v db2 db3"
  have "valid db1" "version db1 i = Some (v + 1)"
    using assms put_step step_valid put_checks by blast+
  then have "valid db2" "\<exists>w. version db2 i = Some w \<and> v + 1 \<le> w"
    using steps_grow [OF assms(3)] by blast+
  then show False using put_checks [OF _ late] by force
qed

end

end
