(* ===== verification/Source_Intake_Props.thy ===== *)
theory Source_Intake_Props
  imports Source_Intake Optimistic
begin

text \<open>
  Invariants of the intake tables over every sequence of repository calls, the exactly-once
  guarantee of an upload key, and the optimistic state machine as an instance of
  \<open>versioned_store\<close>.
\<close>

definition row_ok :: "source_intake \<Rightarrow> bool" where
  "row_ok r \<longleftrightarrow> 1 \<le> si_version r \<and> 0 < si_source_version r
     \<and> (si_state r = SI_Failed \<longrightarrow> si_reason_code r \<noteq> None)
     \<and> (si_execution_profile r = Universal_Sandboxed \<longleftrightarrow> si_sandbox_verified r)
     \<and> (si_sandbox_verified r \<longrightarrow> si_registry_digest r \<noteq> None \<and> si_capabilities_digest r \<noteq> None)
     \<and> (si_upload_idempotency_key r = None \<longleftrightarrow> si_intent_digest r = None)"

definition bound_by :: "source_intake \<Rightarrow> nat \<Rightarrow> reservation \<Rightarrow> bool" where
  "bound_by r k v \<longleftrightarrow> rs_key v = k \<and> rs_source_intake_id v = Some (si_id r)
     \<and> rs_source_sha256 v = si_source_sha256 r \<and> Some (rs_intent_digest v) = si_intent_digest r"

definition intakes_ok :: "intakedb \<Rightarrow> bool" where
  "intakes_ok db \<longleftrightarrow> list_all row_ok (source_rows db) \<and> distinct (map si_id (source_rows db))
     \<and> distinct (map source_identity (source_rows db)) \<and> distinct (map rs_key (reservations db))
     \<and> (\<forall>r \<in> set (source_rows db). \<forall>k. si_upload_idempotency_key r = Some k
          \<longrightarrow> (\<exists>v \<in> set (reservations db). bound_by r k v))"

text \<open>One repository call, or the start of a session, or a reservation hint that outlived a
  rolled-back transaction, or progress of the job queue.\<close>

inductive intake_step :: "intakedb \<Rightarrow> intakedb \<Rightarrow> bool" where
  step_reserve: "reserve_upload_idempotency uuid_of key sha intent db = Inr (outcome, db')
    \<Longrightarrow> intake_step db db'"
| step_create: "create_source_companion uuid_of hash a new_id now db = Inr (i, db') \<Longrightarrow> intake_step db db'"
| step_transition: "transition a now db = Inr (v, db') \<Longrightarrow> intake_step db db'"
| step_session: "intake_step db (db\<lparr>owned_keys := {}\<rparr>)"
| step_stale_hint: "find_reservation k db = None \<Longrightarrow> intake_step db (db\<lparr>owned_keys := insert k (owned_keys db)\<rparr>)"
| step_jobs: "intake_step db (db\<lparr>intake_jobs := js\<rparr>)"

inductive reachable_intake :: "intakedb \<Rightarrow> bool" where
  reach_empty: "reachable_intake \<lparr>source_rows = [], reservations = [], owned_keys = {}, intake_jobs = []\<rparr>"
| reach_step: "reachable_intake db \<Longrightarrow> intake_step db db' \<Longrightarrow> reachable_intake db'"

subsection \<open>Every step keeps the tables well formed\<close>

lemma companion_row_ok:
  assumes "companion_row uuid_of hash a new_id now = Inr row" "0 < si_source_version row"
  shows "row_ok row \<and> si_id row = new_id"
  using assms by (auto simp: companion_row_def row_ok_def res_simps)

lemma reserve_cases:
  assumes "reserve_upload_idempotency uuid_of key sha intent db = Inr (outcome, db')"
  obtains k d where "coerce_uuid uuid_of key = Some k" "repo_optional_digest intent = Inr (Some d)"
    "is_sha256_hex sha"
    "case find_reservation k db of
       None \<Rightarrow> outcome = New \<and> db' = db\<lparr>owned_keys := insert k (owned_keys db),
         reservations := reservations db @ [\<lparr>rs_key = k, rs_source_sha256 = sha, rs_intent_digest = d,
           rs_source_intake_id = None\<rparr>]\<rparr>
     | Some r \<Rightarrow> outcome = settle_reservation k sha d r db \<and> db' = db"
proof -
  from assms obtain k d where k: "normalize_upload_idempotency_key uuid_of key = Inr (Some k)"
    and d: "repo_optional_digest intent = Inr (Some d)" and s: "is_sha256_hex sha"
    by (auto simp: reserve_upload_idempotency_def validate_sha256_def res_simps split: option.splits)
  have "coerce_uuid uuid_of key = Some k"
    using k by (cases key) (auto simp: normalize_upload_idempotency_key_def split: option.splits)
  moreover have "case find_reservation k db of
       None \<Rightarrow> outcome = New \<and> db' = db\<lparr>owned_keys := insert k (owned_keys db),
         reservations := reservations db @ [\<lparr>rs_key = k, rs_source_sha256 = sha, rs_intent_digest = d,
           rs_source_intake_id = None\<rparr>]\<rparr>
     | Some r \<Rightarrow> outcome = settle_reservation k sha d r db \<and> db' = db"
    using assms k d s
    by (auto simp: reserve_upload_idempotency_def validate_sha256_def find_reservation_def Let_def
        split: option.splits)
  ultimately show ?thesis using d s that by blast
qed

lemma reserve_rows:
  assumes "reserve_upload_idempotency uuid_of key sha intent db = Inr (outcome, db')"
  shows "source_rows db' = source_rows db \<and> set (reservations db) \<subseteq> set (reservations db')"
  by (rule reserve_cases [OF assms]) (auto split: option.splits)

lemma reserve_ok:
  assumes ok: "intakes_ok db"
    and r: "reserve_upload_idempotency uuid_of key sha intent db = Inr (outcome, db')"
  shows "intakes_ok db'"
proof -
  obtain k d where c: "case find_reservation k db of
       None \<Rightarrow> outcome = New \<and> db' = db\<lparr>owned_keys := insert k (owned_keys db),
         reservations := reservations db @ [\<lparr>rs_key = k, rs_source_sha256 = sha, rs_intent_digest = d,
           rs_source_intake_id = None\<rparr>]\<rparr>
     | Some r \<Rightarrow> outcome = settle_reservation k sha d r db \<and> db' = db"
    using reserve_cases [OF r] by metis
  show ?thesis
  proof (cases "find_reservation k db")
    case None
    then have "k \<notin> rs_key ` set (reservations db)"
      by (auto simp: find_reservation_def find_None_iff)
    with None c ok show ?thesis by (fastforce simp: intakes_ok_def)
  next
    case (Some r)
    with c ok show ?thesis by simp
  qed
qed

lemma insert_intake_Inr:
  "insert_intake row db = Inr db' \<longleftrightarrow> \<not> violates_unique (source_rows db) row
     \<and> 0 < si_source_version row \<and> db' = db\<lparr>source_rows := source_rows db @ [row]\<rparr>"
  by (auto simp: insert_intake_def not_le)

lemma intakes_ok_insert:
  assumes ok: "intakes_ok db" and fresh: "\<not> violates_unique (source_rows db) row" and row: "row_ok row"
    and bound: "\<forall>k. si_upload_idempotency_key row = Some k \<longrightarrow> (\<exists>v \<in> set (reservations db). bound_by row k v)"
  shows "intakes_ok (db\<lparr>source_rows := source_rows db @ [row]\<rparr>)"
  using assms unfolding intakes_ok_def violates_unique_def
  by (auto simp: image_iff Ball_def eq_commute)

lemma bind_keeps_bound:
  assumes dis: "distinct (map rs_key (reservations db))"
    and unbound: "find_reservation k db = Some v" "rs_source_intake_id v = None"
    and "x \<in> set (reservations db)" "bound_by r j x"
  shows "\<exists>y \<in> set (reservations (bind_reservation k i db)). bound_by r j y"
proof -
  have v: "v \<in> set (reservations db)" "rs_key v = k"
    using unbound(1) by (auto simp: find_reservation_def dest: find_SomeD)
  have "rs_key x \<noteq> k"
  proof
    assume "rs_key x = k"
    then have "x = v" using dis v assms(4) by (metis inj_on_contraD distinct_map)
    with assms(5) unbound(2) show False by (simp add: bound_by_def)
  qed
  then show ?thesis using assms(4,5) by (force simp: bind_reservation_def)
qed

lemma create_keyed:
  assumes c: "create_source_companion uuid_of hash a new_id now db = Inr (i, db')"
    and row: "companion_row uuid_of hash a new_id now = Inr row" and k: "si_upload_idempotency_key row = Some k"
  obtains db1 v db2 where
    "reserve_upload_idempotency uuid_of (PUuid k) (si_source_sha256 row)
       (opt_str (si_intent_digest row)) db = Inr (New, db1)"
    "find_reservation k db1 = Some v" "rs_source_sha256 v = si_source_sha256 row"
    "Some (rs_intent_digest v) = si_intent_digest row" "rs_source_intake_id v = None"
    "insert_intake row db1 = Inr db2" "db' = bind_reservation k new_id db2"
proof -
  from c row k obtain db1 where res: "reserve_upload_idempotency uuid_of (PUuid k) (si_source_sha256 row)
       (opt_str (si_intent_digest row)) db = Inr (New, db1)"
    by (auto simp: create_source_companion_def res_simps split: if_splits)
  with c row k obtain v where v: "find_reservation k db1 = Some v"
    by (auto simp: create_source_companion_def split: option.splits)
  with c row k res show ?thesis using that
    by (auto simp: create_source_companion_def res_simps split: if_splits)
qed

lemma create_ok:
  assumes ok: "intakes_ok db"
    and c: "create_source_companion uuid_of hash a new_id now db = Inr (i, db')"
  shows "intakes_ok db'"
proof -
  obtain row where row: "companion_row uuid_of hash a new_id now = Inr row"
    using c by (auto simp: create_source_companion_def res_simps)
  show ?thesis
  proof (cases "si_upload_idempotency_key row")
    case None
    then show ?thesis
      using c row companion_row_ok intakes_ok_insert [OF ok, of row]
      by (auto simp: create_source_companion_def res_simps insert_intake_Inr)
  next
    case (Some k)
    obtain db1 v db2 where
      res: "reserve_upload_idempotency uuid_of (PUuid k) (si_source_sha256 row)
              (opt_str (si_intent_digest row)) db = Inr (New, db1)"
      and v: "find_reservation k db1 = Some v" "rs_source_sha256 v = si_source_sha256 row"
        "Some (rs_intent_digest v) = si_intent_digest row" "rs_source_intake_id v = None"
      and ins: "insert_intake row db1 = Inr db2" and db': "db' = bind_reservation k new_id db2"
      by (rule create_keyed [OF c row Some])
    have ok1: "intakes_ok db1" using reserve_ok [OF ok res] .
    have ro: "row_ok row" "si_id row = new_id"
      using companion_row_ok [OF row] ins by (auto simp: insert_intake_Inr)
    define db3 where "db3 = bind_reservation k new_id db1"
    have mem: "v \<in> set (reservations db1)" "rs_key v = k"
      using v(1) by (auto simp: find_reservation_def dest: find_SomeD)
    have ok3: "intakes_ok db3"
    proof -
      have "distinct (map rs_key (reservations db1))" using ok1 by (simp add: intakes_ok_def)
      moreover have "map rs_key (reservations db3) = map rs_key (reservations db1)"
        by (auto simp: db3_def bind_reservation_def)
      moreover have "source_rows db3 = source_rows db1" by (simp add: db3_def bind_reservation_def)
      ultimately show ?thesis
        using ok1 bind_keeps_bound [OF _ v(1,4), folded db3_def] unfolding intakes_ok_def
        by (metis db3_def)
    qed
    have "db' = db3\<lparr>source_rows := source_rows db3 @ [row]\<rparr>" "source_rows db3 = source_rows db1"
      using db' ins by (auto simp: db3_def bind_reservation_def insert_intake_Inr)
    moreover have "\<exists>x \<in> set (reservations db3). bound_by row k x"
    proof (rule rev_bexI [of "v\<lparr>rs_source_intake_id := Some new_id\<rparr>"])
      show "v\<lparr>rs_source_intake_id := Some new_id\<rparr> \<in> set (reservations db3)"
        using mem by (force simp: db3_def bind_reservation_def)
      show "bound_by row k (v\<lparr>rs_source_intake_id := Some new_id\<rparr>)"
        using mem v ro by (simp add: bound_by_def)
    qed
    ultimately show ?thesis
      using intakes_ok_insert [OF ok3, of row] ro ins Some by (auto simp: insert_intake_Inr)
  qed
qed


lemma transition_Inr:
  assumes ok: "intakes_ok db" and t: "transition a now db = Inr (v, db')"
  obtains cur state reason phase where "find_intake (tr_intake_id a) db = Some cur"
    "si_version cur = tr_expected_version a" "state \<in> source_intake_transitions (si_state cur)"
    "state = SI_Failed \<longrightarrow> reason \<noteq> None" "v = tr_expected_version a + 1"
    "db' = db\<lparr>source_rows := map (\<lambda>r. if si_id r = tr_intake_id a
         then transitioned state reason (tr_retryable a) phase now r else r) (source_rows db)\<rparr>"
proof -
  from t obtain state where st: "coerce_state (tr_state a) = Inr state"
    by (auto simp: transition_def res_simps split: if_splits)
  with t obtain cur where cur: "find_intake (tr_intake_id a) db = Some cur"
    by (auto simp: transition_def split: if_splits option.splits)
  from t st cur obtain reason phase where rp: "clean_optional_text (tr_reason_code a) = Inr reason"
      "clean_optional_text (tr_failure_phase a) = Inr phase"
    by (auto simp: transition_def Let_def res_simps split: if_splits)
  have
    p: "find_intake (tr_intake_id a) db = Some cur" "si_version cur = tr_expected_version a"
      "state \<in> source_intake_transitions (si_state cur)" "state = SI_Failed \<longrightarrow> reason \<noteq> None"
      "v = tr_expected_version a + 1"
    and db': "db' = db\<lparr>source_rows := map (\<lambda>r. if si_id r = tr_intake_id a
         \<and> si_version r = tr_expected_version a \<and> si_state r = si_state cur
         then transitioned state reason (tr_retryable a) phase now r else r) (source_rows db)\<rparr>"
    using t st cur rp by (auto simp: transition_def Let_def res_simps split: if_splits)
  have cur: "cur \<in> set (source_rows db)" "si_id cur = tr_intake_id a"
    using p(1) by (auto simp: find_intake_def dest: find_SomeD)
  have "r = cur" if "r \<in> set (source_rows db)" "si_id r = tr_intake_id a" for r
    using ok cur that unfolding intakes_ok_def by (metis distinct_map inj_onD)
  then have "db' = db\<lparr>source_rows := map (\<lambda>r. if si_id r = tr_intake_id a
       then transitioned state reason (tr_retryable a) phase now r else r) (source_rows db)\<rparr>"
    unfolding db' using p(2) by (intro arg_cong [where f = "\<lambda>f. db\<lparr>source_rows := f\<rparr>"] map_cong) auto
  with p that show ?thesis by blast
qed

lemma transitioned_simps [simp]:
  "si_id (transitioned s x y z n r) = si_id r" "si_version (transitioned s x y z n r) = si_version r + 1"
  "si_state (transitioned s x y z n r) = s" "source_identity (transitioned s x y z n r) = source_identity r"
  "si_upload_idempotency_key (transitioned s x y z n r) = si_upload_idempotency_key r"
  "bound_by (transitioned s x y z n r) k v = bound_by r k v"
  by (simp_all add: transitioned_def source_identity_def bound_by_def)

lemma row_ok_transitioned:
  "row_ok r \<Longrightarrow> (s = SI_Failed \<longrightarrow> x \<noteq> None) \<Longrightarrow> row_ok (transitioned s x y z n r)"
  by (simp add: row_ok_def transitioned_def)

lemma transition_ok:
  assumes ok: "intakes_ok db" and t: "transition a now db = Inr (v, db')"
  shows "intakes_ok db'"
proof -
  obtain cur state reason phase where cur: "find_intake (tr_intake_id a) db = Some cur"
      "si_version cur = tr_expected_version a" and "state \<in> source_intake_transitions (si_state cur)"
    and f: "state = SI_Failed \<longrightarrow> reason \<noteq> None" and "v = tr_expected_version a + 1"
    and db': "db' = db\<lparr>source_rows := map (\<lambda>r. if si_id r = tr_intake_id a
         then transitioned state reason (tr_retryable a) phase now r else r) (source_rows db)\<rparr>"
    by (rule transition_Inr [OF ok t])
  let ?g = "\<lambda>r. if si_id r = tr_intake_id a then transitioned state reason (tr_retryable a) phase now r else r"
  have "distinct (map si_id (map ?g (source_rows db)))"
    and "distinct (map source_identity (map ?g (source_rows db)))"
    using ok by (subst distinct_map_update; simp add: intakes_ok_def)+
  moreover have "list_all row_ok (map ?g (source_rows db))"
    using ok f by (auto simp: intakes_ok_def list_all_iff row_ok_transitioned)
  ultimately show ?thesis using ok unfolding db' intakes_ok_def by auto
qed

lemma intake_step_ok: "intake_step db db' \<Longrightarrow> intakes_ok db \<Longrightarrow> intakes_ok db'"
proof (induction rule: intake_step.induct)
  case step_reserve
  then show ?case using reserve_ok by blast
next
  case step_create
  then show ?case using create_ok by blast
next
  case step_transition
  then show ?case using transition_ok by blast
qed (simp_all add: intakes_ok_def)

lemma reachable_intakes_ok: "reachable_intake db \<Longrightarrow> intakes_ok db"
proof (induction rule: reachable_intake.induct)
  case reach_empty
  then show ?case by (simp add: intakes_ok_def)
qed (rule intake_step_ok)

subsection \<open>Versions\<close>

definition intake_version :: "intakedb \<Rightarrow> nat \<Rightarrow> int option" where
  "intake_version db i = map_option si_version (find_intake i db)"

definition advances :: "nat \<Rightarrow> int \<Rightarrow> intakedb \<Rightarrow> intakedb \<Rightarrow> bool" where
  "advances i v db db' \<longleftrightarrow> (\<exists>a now w. tr_intake_id a = i \<and> tr_expected_version a = v
     \<and> transition a now db = Inr (w, db'))"

subsection \<open>How a step changes a row\<close>

lemma map_update_row:
  assumes "distinct (map si_id rows)" "r \<in> set rows" "r' \<in> set (map g rows)" "si_id r' = si_id r"
    "\<And>x. si_id (g x) = si_id x"
  shows "r' = g r"
proof -
  from assms(3) obtain x where x: "x \<in> set rows" "r' = g x" by auto
  with assms(4,5) have "si_id x = si_id r" by simp
  moreover have "inj_on si_id (set rows)" using assms(1) by (simp add: distinct_map)
  ultimately have "x = r" using x(1) assms(2) by (meson inj_onD)
  with x show ?thesis by simp
qed

lemma rows_append:
  assumes "distinct (map si_id (rows @ new))" "r \<in> set rows" "r' \<in> set (rows @ new)" "si_id r' = si_id r"
  shows "r' = r"
proof -
  have "inj_on si_id (set (rows @ new))" using assms(1) by (simp only: distinct_map)
  moreover have "r \<in> set (rows @ new)" using assms(2) by simp
  ultimately show ?thesis using inj_onD [of si_id "set (rows @ new)" r' r] assms(3,4) by blast
qed

lemma create_rows:
  assumes c: "create_source_companion uuid_of hash a new_id now db = Inr (i, db')"
  shows "\<exists>row. source_rows db' = source_rows db @ [row]"
proof -
  obtain row where row: "companion_row uuid_of hash a new_id now = Inr row"
    using c by (auto simp: create_source_companion_def res_simps)
  show ?thesis
  proof (cases "si_upload_idempotency_key row")
    case None
    then show ?thesis
      using c row by (auto simp: create_source_companion_def res_simps insert_intake_Inr)
  next
    case (Some k)
    then show ?thesis
      by (rule create_keyed [OF c row])
         (auto simp: insert_intake_Inr bind_reservation_def dest!: reserve_rows)
  qed
qed

subsection \<open>The optimistic contract\<close>

lemma transition_version:
  assumes ok: "intakes_ok db" and t: "transition a now db = Inr (w, db')"
  shows "intake_version db (tr_intake_id a) = Some (tr_expected_version a)
    \<and> intake_version db' (tr_intake_id a) = Some (tr_expected_version a + 1)
    \<and> (\<forall>j. j \<noteq> tr_intake_id a \<longrightarrow> intake_version db' j = intake_version db j)"
proof -
  obtain cur state reason phase where cur: "find_intake (tr_intake_id a) db = Some cur"
      "si_version cur = tr_expected_version a" and "state \<in> source_intake_transitions (si_state cur)"
    and f: "state = SI_Failed \<longrightarrow> reason \<noteq> None" and "w = tr_expected_version a + 1"
    and db': "db' = db\<lparr>source_rows := map (\<lambda>r. if si_id r = tr_intake_id a
         then transitioned state reason (tr_retryable a) phase now r else r) (source_rows db)\<rparr>"
    by (rule transition_Inr [OF ok t])
  let ?g = "\<lambda>r. if si_id r = tr_intake_id a then transitioned state reason (tr_retryable a) phase now r else r"
  have fnd: "find_intake j db' = map_option ?g (find_intake j db)" for j
    unfolding db' find_intake_def by (simp add: find_map_key)
  have "si_id r = j" if "find_intake j db = Some r" for j r
    using that by (auto simp: find_intake_def dest: find_SomeD)
  with cur show ?thesis
    by (auto simp: intake_version_def fnd option.map_comp comp_def split: option.splits
        intro!: option.map_cong)
qed

lemma intake_step_grows:
  assumes ok: "intakes_ok db" and st: "intake_step db db'" and v: "intake_version db i = Some v"
  shows "\<exists>w. intake_version db' i = Some w \<and> v \<le> w"
  using st
proof cases
  case (step_reserve uuid_of key sha intent outcome)
  then have "intake_version db' i = intake_version db i"
    using reserve_rows by (simp add: intake_version_def find_intake_def)
  with v show ?thesis by simp
next
  case (step_create uuid_of hash a new_id now k)
  then obtain row where "source_rows db' = source_rows db @ [row]" using create_rows by blast
  with v have "intake_version db' i = Some v"
    by (auto simp: intake_version_def find_intake_def find_append_same)
  then show ?thesis by simp
next
  case (step_transition a now w)
  from transition_version [OF ok this] v show ?thesis
    by (cases "i = tr_intake_id a") auto
qed (use v in \<open>auto simp: intake_version_def find_intake_def\<close>)

interpretation intake: versioned_store intakes_ok intake_version advances intake_step
proof
  fix i v db db' assume ok: "intakes_ok db" and adv: "advances i v db db'"
  then show "intake_version db i = Some v \<and> intake_version db' i = Some (v + 1)"
    using transition_version [OF ok] by (auto simp: advances_def)
qed (use intake_step_ok intake_step_grows step_transition in \<open>auto simp: advances_def\<close>)

subsection \<open>A concrete run\<close>

definition demo_sha :: pystr where
  "demo_sha = replicate 64 97"

lemma demo_sha_hex [simp]: "is_sha256_hex demo_sha" "strip demo_sha = demo_sha"
  by (simp_all add: is_sha256_hex_def demo_sha_def is_lower_hex_def list_all_iff)
     (simp add: strip_def numeral_eq_Suc is_space_def)

definition demo_file :: document_file where
  "demo_file = \<lparr>f_id = 3, f_document_id = 2, f_version = 1, f_kind = Original, f_content_path = u ''p'',
     f_sha256 = demo_sha, f_mime = u ''text/csv'', f_source_filename = u ''a.csv'', f_source_file_id = None,
     f_source_version = None, f_page_number = None, f_ocr_text = None, f_text_provenance = None\<rparr>"

definition demo_companion :: companion_args where
  "demo_companion = \<lparr>ca_document_id = 2, ca_source_file = demo_file, ca_duplicate_of = None,
     ca_upload_key = PUuid 7, ca_intent_digest = PStr demo_sha, ca_registry_digest = PNone,
     ca_capabilities_digest = PNone, ca_policy_version = u ''v1'', ca_required_components = PList [],
     ca_intake_intent = PStr (u ''generic_file''), ca_detected_family = PNone, ca_detected_format = PNone,
     ca_canonical_mime = PNone, ca_detection_evidence = [], ca_state = Inl SI_Queued,
     ca_reason_code = PStr (u ''processing_queued''), ca_retryable = False, ca_failure_phase = PNone,
     ca_execution_profile = Inl Legacy_Compat, ca_sandbox_verified = False\<rparr>"

definition demo_intake :: source_intake where
  "demo_intake = \<lparr>si_id = 5, si_document_id = 2, si_source_file_id = 3, si_source_version = 1,
     si_source_sha256 = demo_sha, si_duplicate_of = None, si_detected_family = None,
     si_detected_format = None, si_canonical_mime = Some (u ''text/csv''), si_detection_evidence = [],
     si_policy_version = u ''v1'', si_registry_digest = None, si_capabilities_digest = None,
     si_requirements_digest = demo_sha, si_required_components = [], si_intake_intent = Generic_File,
     si_state = SI_Queued, si_reason_code = Some (u ''processing_queued''), si_retryable = False,
     si_failure_phase = None, si_execution_profile = Legacy_Compat, si_sandbox_verified = False,
     si_upload_idempotency_key = Some 7, si_intent_digest = Some demo_sha, si_version = 1,
     si_created_at = 0, si_updated_at = 0\<rparr>"

definition demo_intakes :: intakedb where
  "demo_intakes = \<lparr>source_rows = [demo_intake], reservations = [\<lparr>rs_key = 7, rs_source_sha256 = demo_sha,
     rs_intent_digest = demo_sha, rs_source_intake_id = Some 5\<rparr>], owned_keys = {7}, intake_jobs = []\<rparr>"

lemma demo_strips: "strip (u ''v1'') = u ''v1''" "strip (u ''processing_queued'') = u ''processing_queued''"
  "strip (u ''worker'') = u ''worker''" "strip (u ''processing_failed'') = u ''processing_failed''"
  by (simp_all add: strip_def u_def is_space_def)

lemma demo_row: "companion_row (\<lambda>_. None) (\<lambda>_. demo_sha) demo_companion 5 0 = Inr demo_intake"
  by (simp add: companion_row_def demo_companion_def demo_file_def normalize_upload_idempotency_key_def
      coerce_uuid_def validate_sha256_def intake_intent_of_def clean_text_def demo_strips coerce_state_def
      coerce_profile_def demo_intake_def)

lemma demo_created:
  "create_source_companion (\<lambda>_. None) (\<lambda>_. demo_sha) demo_companion 5 0
     \<lparr>source_rows = [], reservations = [], owned_keys = {}, intake_jobs = []\<rparr> = Inr (5, demo_intakes)"
  by (simp add: create_source_companion_def demo_row demo_intake_def reserve_upload_idempotency_def
      normalize_upload_idempotency_key_def coerce_uuid_def validate_sha256_def opt_str_def
      find_reservation_def insert_intake_def violates_unique_def bind_reservation_def demo_intakes_def)

lemma demo_intake_reachable: "reachable_intake demo_intakes"
  using reach_step [OF reach_empty step_create [OF demo_created]] .

definition demo_transition :: transition_args where
  "demo_transition = \<lparr>tr_intake_id = 5, tr_expected_version = 1, tr_state = Inr (u ''processing''),
     tr_actor = u ''worker'', tr_reason_code = PNone, tr_retryable = False, tr_failure_phase = PNone\<rparr>"

definition demo_processing :: intakedb where
  "demo_processing = demo_intakes\<lparr>source_rows := [transitioned SI_Processing None False None 9 demo_intake]\<rparr>"

lemma demo_transitioned: "transition demo_transition 9 demo_intakes = Inr (2, demo_processing)"
  by (simp add: transition_def demo_transition_def coerce_state_def state_value_def find_intake_def
      demo_intakes_def demo_intake_def source_intake_transitions_def clean_text_def demo_strips
      demo_processing_def)

subsection \<open>Properties\<close>

text \<open>C9. Over every sequence of repository calls, rollbacks and new sessions the intake tables stay
  well formed: one row per id and per exact source, a reason on every failed row, sandbox evidence
  exactly on sandboxed rows, and every uploaded row bound by the reservation of its key with the
  same content and intent.\<close>

theorem intake_invariant:
  assumes "reachable_intake db"
  shows "intakes_ok db"
  using assms by (rule reachable_intakes_ok)

theorem intake_invariant_witness: "intakes_ok demo_intakes"
  by (rule intake_invariant) (rule demo_intake_reachable)

text \<open>
  A repository call changes an existing row only along an edge of the transition table, and
  then it advances the version by exactly one and keeps the identity of the source.\<close>

lemma intake_rows_follow_the_edges:
  assumes "reachable_intake db" "intake_step db db'" "r \<in> set (source_rows db)"
    "r' \<in> set (source_rows db')" "si_id r' = si_id r"
  shows "r' = r \<or> si_state r' \<in> source_intake_transitions (si_state r) \<and> si_version r' = si_version r + 1
    \<and> source_identity r' = source_identity r \<and> si_intake_intent r' = si_intake_intent r"
proof -
  have ok: "intakes_ok db" "intakes_ok db'" using assms(1,2) reachable_intakes_ok intake_step_ok by blast+
  have d: "distinct (map si_id (source_rows db))" "distinct (map si_id (source_rows db'))"
    using ok by (simp_all add: intakes_ok_def)
  have same: "r' = r" if "source_rows db' = source_rows db @ new" for new
    using rows_append [of "source_rows db" new r r'] d(2) assms(3-5) that by simp
  from assms(2) show ?thesis
  proof cases
    case (step_reserve uuid_of key sha intent outcome)
    then show ?thesis using same [of "[]"] reserve_rows by simp
  next
    case step_create
    then show ?thesis using same create_rows by blast
  next
    case (step_transition a now v)
    obtain cur state reason phase where cur: "find_intake (tr_intake_id a) db = Some cur"
        "si_version cur = tr_expected_version a" and e: "state \<in> source_intake_transitions (si_state cur)"
      and f: "state = SI_Failed \<longrightarrow> reason \<noteq> None" and "v = tr_expected_version a + 1"
      and db': "db' = db\<lparr>source_rows := map (\<lambda>r. if si_id r = tr_intake_id a
           then transitioned state reason (tr_retryable a) phase now r else r) (source_rows db)\<rparr>"
      by (rule transition_Inr [OF ok(1) step_transition])
    define g where "g = (\<lambda>r. if si_id r = tr_intake_id a
      then transitioned state reason (tr_retryable a) phase now r else r)"
    have "r' \<in> set (map g (source_rows db))" using assms(4) unfolding db' g_def by simp
    then have "r' = g r" by (rule map_update_row [OF d(1) assms(3) _ assms(5)]) (simp add: g_def)
    then have r': "r' = (if si_id r = tr_intake_id a
        then transitioned state reason (tr_retryable a) phase now r else r)" by (simp add: g_def)
    have "cur = r" if "si_id r = tr_intake_id a"
      using cur find_unique [OF d(1) assms(3) that] by (simp add: find_intake_def)
    with r' e show ?thesis by (auto simp: transitioned_def source_identity_def)
  qed (use same [of "[]"] in simp_all)
qed

lemma intake_rows_follow_the_edges_witness:
  "transitioned SI_Processing None False None 9 demo_intake \<noteq> demo_intake
   \<and> SI_Processing \<in> source_intake_transitions (si_state demo_intake)"
  using intake_rows_follow_the_edges [OF demo_intake_reachable step_transition [OF demo_transitioned],
      of demo_intake "transitioned SI_Processing None False None 9 demo_intake"]
  by (simp add: demo_intakes_def demo_processing_def transitioned_def demo_intake_def)

text \<open>C26. Once an upload key has produced an intake, presenting the key again with the same content
  and intent replays that intake, presenting it with anything else is a conflict, and neither
  changes the tables: a key never yields a second intake.\<close>

theorem upload_key_is_exactly_once:
  assumes "reachable_intake db" "r \<in> set (source_rows db)" "si_upload_idempotency_key r = Some k"
    "reserve_upload_idempotency uuid_of (PUuid k) sha intent db = Inr (outcome, db')"
  shows "db' = db \<and> (outcome = Replay (r, replay_job r db) \<and> sha = si_source_sha256 r
       \<and> repo_optional_digest intent = Inr (si_intent_digest r)
     \<or> outcome = Conflict \<and> (sha \<noteq> si_source_sha256 r
       \<or> repo_optional_digest intent \<noteq> Inr (si_intent_digest r)))"
proof -
  have ok: "intakes_ok db" using assms(1) by (rule reachable_intakes_ok)
  obtain v where v: "v \<in> set (reservations db)" "bound_by r k v"
    using ok assms(2,3) unfolding intakes_ok_def by blast
  then have fr: "find_reservation k db = Some v"
    using ok find_unique [of rs_key "reservations db" v k]
    by (simp add: find_reservation_def intakes_ok_def bound_by_def)
  have fi: "find_intake (si_id r) db = Some r"
    using ok assms(2) find_unique [of si_id "source_rows db" r "si_id r"]
    by (simp add: find_intake_def intakes_ok_def)
  obtain k' d where kd: "coerce_uuid uuid_of (PUuid k) = Some k'" "repo_optional_digest intent = Inr (Some d)"
    and c: "case find_reservation k' db of
       None \<Rightarrow> outcome = New \<and> db' = db\<lparr>owned_keys := insert k' (owned_keys db),
         reservations := reservations db @ [\<lparr>rs_key = k', rs_source_sha256 = sha, rs_intent_digest = d,
           rs_source_intake_id = None\<rparr>]\<rparr>
     | Some r \<Rightarrow> outcome = settle_reservation k' sha d r db \<and> db' = db"
    by (rule reserve_cases [OF assms(4)])
  have "k' = k" using kd(1) by (simp add: coerce_uuid_def)
  with c fr have "outcome = settle_reservation k sha d v db" "db' = db" by simp_all
  moreover have b: "rs_source_intake_id v = Some (si_id r)" "rs_source_sha256 v = si_source_sha256 r"
    "si_intent_digest r = Some (rs_intent_digest v)"
    using v(2) by (auto simp: bound_by_def)
  ultimately show ?thesis
    using fi assms(3) kd(2) b by (auto simp: settle_reservation_def)
qed

theorem upload_key_is_exactly_once_witness:
  "reserve_upload_idempotency (\<lambda>_. None) (PUuid 7) demo_sha (PStr demo_sha) demo_intakes
     = Inr (Replay (demo_intake, None), demo_intakes)"
proof -
  obtain outcome db' where run: "reserve_upload_idempotency (\<lambda>_. None) (PUuid 7) demo_sha (PStr demo_sha)
      demo_intakes = Inr (outcome, db')"
    by (simp add: reserve_upload_idempotency_def normalize_upload_idempotency_key_def coerce_uuid_def
        validate_sha256_def find_reservation_def demo_intakes_def Let_def)
  have r: "demo_intake \<in> set (source_rows demo_intakes)" "si_upload_idempotency_key demo_intake = Some 7"
    "si_source_sha256 demo_intake = demo_sha" "si_intent_digest demo_intake = Some demo_sha"
    "replay_job demo_intake demo_intakes = None"
    by (simp_all add: demo_intakes_def demo_intake_def replay_job_def latest_job_def)
  show ?thesis using upload_key_is_exactly_once [OF demo_intake_reachable r(1,2) run] run r(3-5) by auto
qed

text \<open>
  A writer that read a version which another transition has consumed is refused, whatever
  repository calls, on this intake or on others, happened in between.\<close>

lemma stale_transition_is_refused:
  assumes "reachable_intake db" "advances i v db db1" "rtranclp intake_step db1 db2"
    "tr_intake_id a = i" "tr_expected_version a = v"
  shows "\<not> (\<exists>w db3. transition a now db2 = Inr (w, db3))"
  using intake.lost_update_is_refused [OF reachable_intakes_ok [OF assms(1)] assms(2,3)] assms(4,5)
  by (auto simp: advances_def)

lemma stale_transition_is_refused_witness:
  "\<not> (\<exists>w db3. transition (demo_transition\<lparr>tr_state := Inl SI_Failed\<rparr>) 10 demo_processing = Inr (w, db3))"
proof -
  have args: "tr_intake_id demo_transition = 5" "tr_expected_version demo_transition = 1"
    by (simp_all add: demo_transition_def)
  then have "advances 5 1 demo_intakes demo_processing"
    using demo_transitioned unfolding advances_def by blast
  from stale_transition_is_refused [OF demo_intake_reachable this rtranclp.rtrancl_refl] args
  show ?thesis by simp
qed

end
