(* ===== verification/Review_Lifecycle.thy ===== *)
theory Review_Lifecycle
  imports Source_Intake Py_Num
begin

text \<open>
  The review lifecycle of extractions (\<^verbatim>\<open>ExtractionRepo\<close>, \<^verbatim>\<open>VerifiedRepo.promote\<close> and their helpers in
  \<^verbatim>\<open>src/clerksan/db/repositories.py\<close>) and the predicate of active authority
  (\<^verbatim>\<open>src/clerksan/db/active_records.py\<close>). A payload is a JSON object; \<open>value_env\<close> supplies the
  parsing of ISO dates (a day number) and of decimal literals, and the clock of the database.
\<close>

datatype document_status = Uploaded | Normalized_Doc | Extracted_Doc | In_Review | Verified_Doc
  | Needs_Reprocess | Failed_Doc

datatype expense_kind = Retail | Electricity | Water_Expense | Gas_Expense | Telecom | Tax_Expense
  | Insurance | Rent | Subscription | Other_Expense

definition expense_kind_value :: "expense_kind \<Rightarrow> pystr" where
  "expense_kind_value k = u (case k of Retail \<Rightarrow> ''retail'' | Electricity \<Rightarrow> ''electricity''
     | Water_Expense \<Rightarrow> ''water'' | Gas_Expense \<Rightarrow> ''gas'' | Telecom \<Rightarrow> ''telecom'' | Tax_Expense \<Rightarrow> ''tax''
     | Insurance \<Rightarrow> ''insurance'' | Rent \<Rightarrow> ''rent'' | Subscription \<Rightarrow> ''subscription''
     | Other_Expense \<Rightarrow> ''other'')"

definition expense_kind_of :: "pystr \<Rightarrow> expense_kind option" where
  "expense_kind_of s = find (\<lambda>k. expense_kind_value k = s) [Retail, Electricity, Water_Expense,
     Gas_Expense, Telecom, Tax_Expense, Insurance, Rent, Subscription, Other_Expense]"

record document_row =
  d_id :: nat
  d_document_class :: document_class
  d_status :: document_status
  d_source_filename :: pystr
  d_files :: "document_file list"

record extraction =
  x_id :: nat
  x_document_id :: nat
  x_source_file_id :: nat
  x_source_version :: int
  x_batch_id :: "nat option"
  x_record_kind :: "record_kind option"
  x_financial_subtype :: "financial_subtype option"
  x_candidate_ordinal :: "int option"
  x_candidate_key :: "pystr option"
  x_source_locator :: "pystr option"
  x_row_fingerprint :: "pystr option"
  x_validation_issues :: "pystr list option"
  x_evidence_group_keys :: "pystr list option"
  x_payload :: "(pystr, pyval) dict"
  x_field_confidences :: pyval
  x_source_spans :: "(pystr, pystr) dict"
  x_model_name :: pystr
  x_prompt_version :: pystr
  x_status :: extraction_status
  x_version :: int
  x_reviewer :: "pystr option"
  x_rejection_reason :: "pystr option"
  x_reviewed_at :: "int option"
  x_created_at :: int

record verified_values =
  vv_transaction_date :: int
  vv_total_amount :: decimal_value
  vv_counterparty :: pystr
  vv_currency :: "pystr option"
  vv_category :: "pystr option"
  vv_expense_kind :: "expense_kind option"
  vv_due_date :: "int option"
  vv_registration_number :: "pystr option"
  vv_tax_8_amount :: "decimal_value option"
  vv_tax_10_amount :: "decimal_value option"

record verified =
  v_id :: nat
  v_document_id :: nat
  v_extracted_id :: nat
  v_reviewer :: pystr
  v_values :: verified_values

record batch_row =
  b_id :: nat
  b_document_id :: nat
  b_source_intake_id :: nat
  b_source_file_id :: nat
  b_source_version :: int
  b_source_sha256 :: pystr
  b_normalized_sha256 :: pystr
  b_structure_fingerprint :: pystr
  b_mapping_set :: "(nat \<times> int \<times> pystr) option"
  b_producer :: pystr
  b_producer_version :: pystr
  b_origin :: pystr
  b_intake_intent :: intake_intent
  b_producer_job_id :: "nat option"
  b_lifecycle :: batch_lifecycle
  b_version :: int
  b_candidate_count :: int
  b_reconciliation_counts :: "(pystr, int) dict"
  b_reconciliation_digest :: pystr
  b_activation_vector :: "pystr option"
  b_activated_by :: "pystr option"
  b_activated_at :: "int option"
  b_included_count :: "int option"
  b_excluded_count :: "int option"
  b_accepted_exclusions :: bool
  b_accepted_empty :: bool
  b_idempotency_key :: pystr
  b_updated_at :: int

record reviewdb =
  docs :: "document_row list"
  extractions :: "extraction list"
  verifieds :: "verified list"
  batches :: "batch_row list"

record value_env =
  ve_date :: "pyval \<Rightarrow> int option"
  ve_decimal :: "pyval \<Rightarrow> decimal_value option"

subsection \<open>From a payload to verified values\<close>

definition field_value :: "(pystr, pyval) dict \<Rightarrow> pystr \<Rightarrow> pyval" where
  "field_value payload field =
     (case dict_get payload field of
        None \<Rightarrow> PNone
      | Some (PDict d) \<Rightarrow> (case dict_get d (u ''value'') of Some v \<Rightarrow> v | None \<Rightarrow> PDict d)
      | Some v \<Rightarrow> v)"

definition as_date :: "value_env \<Rightarrow> pyval \<Rightarrow> int res" where
  "as_date env v = (case ve_date env v of
     Some d \<Rightarrow> Inr d | None \<Rightarrow> Inl (ValueError ''must be an ISO date''))"

definition as_optional_date :: "value_env \<Rightarrow> pyval \<Rightarrow> int option res" where
  "as_optional_date env v =
     (if v = PNone \<or> v = PStr [] then Inr None else rbind (as_date env v) (\<lambda>d. Inr (Some d)))"

definition as_decimal :: "value_env \<Rightarrow> pyval \<Rightarrow> bool \<Rightarrow> decimal_value option res" where
  "as_decimal env v required =
     (case v of
        PNone \<Rightarrow> if required then Inl (ValueError ''is required'') else Inr None
      | PBool b \<Rightarrow> Inl (ValueError ''must be a number'')
      | _ \<Rightarrow> (case ve_decimal env v of
          Some d \<Rightarrow> Inr (Some d) | None \<Rightarrow> Inl (ValueError ''must be a number'')))"

fun optional_text :: "pyval \<Rightarrow> pystr option res" where
  "optional_text PNone = Inr None"
| "optional_text (PStr s) = Inr (if strip s = [] then None else Some (strip s))"
| "optional_text _ = Inl (ValueError ''optional text fields must be strings'')"

fun as_expense_kind :: "pyval \<Rightarrow> expense_kind option res" where
  "as_expense_kind PNone = Inr None"
| "as_expense_kind (PStr s) =
     (if s = [] then Inr None
      else case expense_kind_of (strip s) of
        Some k \<Rightarrow> Inr (Some k) | None \<Rightarrow> Inl (ValueError ''unsupported expense_kind''))"
| "as_expense_kind _ = Inl (ValueError ''unsupported expense_kind'')"

definition correction_fields :: "pystr list" where
  "correction_fields = map u [''transaction_date'', ''total_amount'', ''counterparty'', ''currency'',
     ''category'', ''expense_category'', ''expense_kind'', ''due_date'', ''registration_number'',
     ''tax_8_amount'', ''tax_10_amount'']"

definition normalize_corrections :: "(pystr, pyval) dict \<Rightarrow> (pystr, pyval) dict res" where
  "normalize_corrections c =
     (case dict_get c (u ''expense_category'') of
        None \<Rightarrow> Inr c
      | Some v \<Rightarrow>
          if dict_get c (u ''category'') \<noteq> None then
            Inl (ValueError ''choose either category or expense_category, not both'')
          else Inr (dict_set (u ''category'') v (filter (\<lambda>kv. fst kv \<noteq> u ''expense_category'') c)))"

text \<open>\<open>chosen\<close> is the value after \<^verbatim>\<open>source.update(corrections)\<close>.\<close>

definition chosen ::
  "(pystr, pyval) dict \<Rightarrow> (pystr, pyval) dict \<Rightarrow> string \<Rightarrow> string \<Rightarrow> pyval" where
  "chosen payload corrections name field =
     (case dict_get corrections (u name) of Some v \<Rightarrow> v | None \<Rightarrow> field_value payload (u field))"

definition verified_values_of ::
  "value_env \<Rightarrow> (pystr, pyval) dict \<Rightarrow> (pystr, pyval) dict \<Rightarrow> verified_values res" where
  "verified_values_of env payload corrections =
     rbind (normalize_corrections corrections) (\<lambda>c.
     rbind (case chosen payload c ''counterparty'' ''counterparty'' of
              PStr s \<Rightarrow> Inr s | _ \<Rightarrow> Inl (ValueError ''counterparty is required'')) (\<lambda>cp.
     rbind (as_expense_kind (chosen payload c ''expense_kind'' ''expense_kind'')) (\<lambda>kind.
     rbind (as_date env (chosen payload c ''transaction_date'' ''transaction_date'')) (\<lambda>date.
     rbind (as_decimal env (chosen payload c ''total_amount'' ''total_amount'') True) (\<lambda>amount.
     rbind (clean_text cp) (\<lambda>counterparty.
     rbind (optional_text (chosen payload c ''currency'' ''currency'')) (\<lambda>currency.
     rbind (optional_text (chosen payload c ''category'' ''expense_category'')) (\<lambda>category.
     rbind (as_optional_date env (chosen payload c ''due_date'' ''due_date'')) (\<lambda>due.
     rbind (optional_text (chosen payload c ''registration_number'' ''registration_number'')) (\<lambda>reg.
     rbind (as_decimal env (chosen payload c ''tax_8_amount'' ''tax_8_amount'') False) (\<lambda>tax8.
     rbind (as_decimal env (chosen payload c ''tax_10_amount'' ''tax_10_amount'') False) (\<lambda>tax10.
     case amount of
       None \<Rightarrow> Inl (ValueError ''total_amount is required'')
     | Some amt \<Rightarrow>
         Inr \<lparr>vv_transaction_date = date, vv_total_amount = amt, vv_counterparty = counterparty,
              vv_currency = currency, vv_category = category, vv_expense_kind = kind,
              vv_due_date = due, vv_registration_number = reg, vv_tax_8_amount = tax8,
              vv_tax_10_amount = tax10\<rparr>))))))))))))"

text \<open>\<^verbatim>\<open>_extraction_source_spans\<close>: the quoted source of every field, by its dotted path.\<close>

definition child_path :: "pystr \<Rightarrow> pystr \<Rightarrow> pystr" where
  "child_path path key = (if path = [] then key else path @ [46] @ key)"

text \<open>The spans in the order in which the recursion meets them: the value's own, then those of its
  children, list items by index and dictionary entries by key, the three reserved keys excepted.\<close>

definition own_span :: "(pystr, pyval) dict \<Rightarrow> pystr \<Rightarrow> (pystr \<times> pystr) list" where
  "own_span d path = (case dict_get d (u ''source_span'') of
     Some (PStr s) \<Rightarrow> if s = [] then [] else [(path, s)] | _ \<Rightarrow> [])"

definition entry_spans :: "pystr \<Rightarrow> pystr \<times> (pystr \<Rightarrow> (pystr \<times> pystr) list) \<Rightarrow> (pystr \<times> pystr) list" where
  "entry_spans path kf = (if fst kf \<in> {u ''value'', u ''confidence'', u ''source_span''} then []
     else snd kf (child_path path (fst kf)))"

definition item_spans :: "pystr \<Rightarrow> nat \<times> (pystr \<Rightarrow> (pystr \<times> pystr) list) \<Rightarrow> (pystr \<times> pystr) list" where
  "item_spans path nf = snd nf (path @ [91] @ nat_str (fst nf) @ [93])"

primrec span_list :: "pyval \<Rightarrow> pystr \<Rightarrow> (pystr \<times> pystr) list" where
  "span_list (PDict d) = (\<lambda>path. own_span d path @ concat (map (entry_spans path) (map (map_prod id span_list) d)))"
| "span_list (PList vs) = (\<lambda>path. concat (map (item_spans path) (zip [0..<length vs] (map span_list vs))))"
| "span_list PNone = (\<lambda>path. [])"
| "span_list (PBool b) = (\<lambda>path. [])"
| "span_list (PInt i) = (\<lambda>path. [])"
| "span_list (PFloat r) = (\<lambda>path. [])"
| "span_list PNonFinite = (\<lambda>path. [])"
| "span_list (PStr s) = (\<lambda>path. [])"
| "span_list (PUuid n) = (\<lambda>path. [])"
| "span_list (PObject n) = (\<lambda>path. [])"

definition source_spans :: "pyval \<Rightarrow> pystr \<Rightarrow> (pystr, pystr) dict" where
  "source_spans v path = foldl (\<lambda>acc (p, s). dict_set p s acc) [] (span_list v path)"

subsection \<open>Lifecycle operations\<close>

definition find_doc :: "nat \<Rightarrow> reviewdb \<Rightarrow> document_row option" where
  "find_doc d db = find (\<lambda>r. d_id r = d) (docs db)"

definition find_extraction :: "nat \<Rightarrow> reviewdb \<Rightarrow> extraction option" where
  "find_extraction i db = find (\<lambda>r. x_id r = i) (extractions db)"

definition latest_original :: "document_file list \<Rightarrow> document_file option" where
  "latest_original files =
     (let originals = filter (\<lambda>f. f_kind f = Original) files
      in find (\<lambda>f. \<forall>g \<in> set originals. (f_version g, f_id g) \<le> (f_version f, f_id f)) originals)"

definition supersede :: "pystr \<Rightarrow> int \<Rightarrow> extraction \<Rightarrow> extraction" where
  "supersede reviewer now x = x\<lparr>x_status := Superseded, x_version := x_version x + 1,
     x_reviewer := Some reviewer, x_reviewed_at := Some now\<rparr>"

definition update_extractions :: "(extraction \<Rightarrow> bool) \<Rightarrow> (extraction \<Rightarrow> extraction) \<Rightarrow> reviewdb \<Rightarrow> reviewdb" where
  "update_extractions P f db = db\<lparr>extractions := map (\<lambda>x. if P x then f x else x) (extractions db)\<rparr>"

definition set_doc_status :: "nat \<Rightarrow> document_status \<Rightarrow> reviewdb \<Rightarrow> reviewdb" where
  "set_doc_status d s db = db\<lparr>docs := map (\<lambda>r. if d_id r = d then r\<lparr>d_status := s\<rparr> else r) (docs db)\<rparr>"

definition supersede_pending_extractions :: "nat \<Rightarrow> pystr \<Rightarrow> int \<Rightarrow> reviewdb \<Rightarrow> nat \<times> reviewdb" where
  "supersede_pending_extractions d reviewer now db =
     (let hits = (\<lambda>x. x_document_id x = d \<and> x_status x = Pending_Review)
      in (length (filter hits (extractions db)), update_extractions hits (supersede reviewer now) db))"

definition add_extraction ::
  "nat \<Rightarrow> pyval \<Rightarrow> pyval \<Rightarrow> pystr \<Rightarrow> pystr \<Rightarrow> pystr \<Rightarrow> int option \<Rightarrow> nat \<Rightarrow> int \<Rightarrow> reviewdb
     \<Rightarrow> (nat \<times> reviewdb) res" where
  "add_extraction d payload confidences model_name prompt_version actor source_version new_id now db =
     (case payload of
        PDict p \<Rightarrow>
          (case find_doc d db of
             None \<Rightarrow> Inl DocumentNotFoundError
           | Some doc \<Rightarrow>
               (case latest_original (d_files doc) of
                  None \<Rightarrow> Inl SourceVersionSupersededError
                | Some original \<Rightarrow>
                    if source_version \<noteq> None \<and> source_version \<noteq> Some (f_version original) then
                      Inl SourceVersionSupersededError
                    else rbind (clean_text actor) (\<lambda>_.
                      rbind (clean_text model_name) (\<lambda>m.
                      rbind (clean_text prompt_version) (\<lambda>pv.
                      let db1 = update_extractions
                            (\<lambda>x. x_document_id x = d \<and> x_status x = Pending_Review)
                            (supersede (strip actor) now) db;
                          row = \<lparr>x_id = new_id, x_document_id = d, x_source_file_id = f_id original,
                            x_source_version = f_version original, x_batch_id = None,
                            x_record_kind = None, x_financial_subtype = None, x_candidate_ordinal = None,
                            x_candidate_key = None, x_source_locator = None, x_row_fingerprint = None,
                            x_validation_issues = None, x_evidence_group_keys = None, x_payload = p, x_field_confidences = confidences,
                            x_source_spans = source_spans payload [], x_model_name = m,
                            x_prompt_version = pv, x_status = Pending_Review, x_version = 1,
                            x_reviewer = None, x_rejection_reason = None, x_reviewed_at = None,
                            x_created_at = now\<rparr>
                      in if \<exists>x \<in> set (extractions db). x_id x = new_id
                         then Inl IntegrityError
                         else Inr (new_id, set_doc_status d In_Review
                                (db1\<lparr>extractions := extractions db1 @ [row]\<rparr>)))))))
      | _ \<Rightarrow> Inl (TypeError ''payload must be a JSON object''))"

definition reject_extraction :: "nat \<Rightarrow> pystr \<Rightarrow> pystr \<Rightarrow> int \<Rightarrow> reviewdb \<Rightarrow> reviewdb res" where
  "reject_extraction i reason reviewer now db =
     rbind (clean_text reviewer) (\<lambda>rv.
     rbind (clean_text reason) (\<lambda>rs.
     case find_extraction i db of
       None \<Rightarrow> Inl StaleExtractionError
     | Some cand \<Rightarrow>
         (case find_doc (x_document_id cand) db of
            None \<Rightarrow> Inl DocumentNotFoundError
          | Some _ \<Rightarrow>
              let hits = (\<lambda>x. x_id x = i \<and> x_status x = Pending_Review)
              in if length (filter hits (extractions db)) \<noteq> 1 then Inl StaleExtractionError
                 else Inr (set_doc_status (x_document_id cand) Needs_Reprocess
                   (update_extractions hits (\<lambda>x. x\<lparr>x_status := Rejected, x_version := x_version x + 1,
                      x_reviewer := Some rv, x_rejection_reason := Some rs,
                      x_reviewed_at := Some now\<rparr>) db)))))"

definition approve_pending_extraction ::
  "nat \<Rightarrow> int \<Rightarrow> pystr \<Rightarrow> int \<Rightarrow> reviewdb \<Rightarrow> bool \<times> reviewdb" where
  "approve_pending_extraction i expected reviewer now db =
     (let hits = (\<lambda>x. x_id x = i \<and> x_status x = Pending_Review \<and> x_version x = expected)
      in (length (filter hits (extractions db)) = 1,
          update_extractions hits (\<lambda>x. x\<lparr>x_status := Approved, x_version := x_version x + 1,
            x_reviewer := Some reviewer, x_reviewed_at := Some now\<rparr>) db))"

definition as_review_error :: "'a res \<Rightarrow> 'a res" where
  "as_review_error r = (case r of Inl (ValueError m) \<Rightarrow> Inl (ReviewValidationError m) | _ \<Rightarrow> r)"

definition promote ::
  "value_env \<Rightarrow> nat \<Rightarrow> int \<Rightarrow> (pystr, pyval) dict \<Rightarrow> pystr \<Rightarrow> nat \<Rightarrow> int \<Rightarrow> reviewdb
     \<Rightarrow> (nat \<times> reviewdb) res" where
  "promote env i expected corrections reviewer new_id now db =
     (if expected < 1 then Inl (ReviewValidationError ''expected_version must be greater than zero'')
      else if \<not> (fst ` set corrections \<subseteq> set correction_fields) then
        Inl (ReviewValidationError ''unsupported correction fields'')
      else rbind (as_review_error (clean_text reviewer)) (\<lambda>rv.
      case find_extraction i db of
        None \<Rightarrow> Inl StaleExtractionError
      | Some cand \<Rightarrow>
          (case find_doc (x_document_id cand) db of
             None \<Rightarrow> Inl DocumentNotFoundError
           | Some _ \<Rightarrow>
               rbind (as_review_error (verified_values_of env (x_payload cand) corrections)) (\<lambda>vals.
               let (approved, db1) = approve_pending_extraction i expected rv now db
               in if \<not> approved then Inl StaleExtractionError
                  else
                    let db2 = update_extractions (\<lambda>x. x_document_id x = x_document_id cand \<and> x_id x \<noteq> i
                                \<and> x_status x = Approved) (supersede rv now) db1
                    in if \<exists>v \<in> set (verifieds db2). v_extracted_id v = i \<or> v_id v = new_id
                       then Inl StaleExtractionError
                       else Inr (new_id, set_doc_status (x_document_id cand) Verified_Doc
                              (db2\<lparr>verifieds := verifieds db2 @ [\<lparr>v_id = new_id,
                                 v_document_id = x_document_id cand, v_extracted_id = i,
                                 v_reviewer = rv, v_values = vals\<rparr>]\<rparr>))))))"

subsection \<open>Active authority\<close>

definition active_extraction_authority :: "reviewdb \<Rightarrow> extraction \<Rightarrow> bool" where
  "active_extraction_authority db x \<longleftrightarrow> x_status x = Approved \<and>
     (case x_batch_id x of
        None \<Rightarrow> True
      | Some b \<Rightarrow> x_record_kind x = Some Financial \<and>
          list_ex (\<lambda>row. b_id row = b \<and> b_document_id row = x_document_id x \<and> b_lifecycle row = B_Active)
            (batches db))"

definition active_verified :: "reviewdb \<Rightarrow> verified list" where
  "active_verified db = filter (\<lambda>v. list_ex (\<lambda>x. x_id x = v_extracted_id v
     \<and> x_document_id x = v_document_id v \<and> active_extraction_authority db x) (extractions db)) (verifieds db)"

end
