(* ===== verification/Review_Props.thy ===== *)
theory Review_Props
  imports Review_Lifecycle Optimistic
begin

text \<open>
  The review lifecycle over every sequence of repository calls: an extraction is pending once, is
  decided at most once, its payload never changes, and at most one verified record of a document is
  active. The lifecycle is the second instance of \<open>versioned_store\<close>.
\<close>

subsection \<open>How a row may change\<close>

definition lifecycle_edge :: "extraction_status \<Rightarrow> extraction_status \<Rightarrow> bool" where
  "lifecycle_edge s t \<longleftrightarrow> (s = Pending_Review \<and> t \<in> {Approved, Rejected, Superseded})
     \<or> (s = Approved \<and> t = Superseded)"

definition row_evolves :: "extraction \<Rightarrow> extraction \<Rightarrow> bool" where
  "row_evolves x y \<longleftrightarrow> x_id y = x_id x \<and> x_document_id y = x_document_id x \<and> x_payload y = x_payload x
     \<and> x_source_version y = x_source_version x \<and> x_batch_id y = x_batch_id x
     \<and> (y = x \<or> x_version y = x_version x + 1 \<and> lifecycle_edge (x_status x) (x_status y))"

lemma row_evolves_refl [simp]: "row_evolves x x"
  by (simp add: row_evolves_def)

lemma row_evolves_supersede:
  "x_status x \<in> {Pending_Review, Approved} \<Longrightarrow> row_evolves x (supersede r n x)"
  by (auto simp: row_evolves_def supersede_def lifecycle_edge_def)

text \<open>Every repository call maps the old rows and appends new ones.\<close>

definition evolves :: "reviewdb \<Rightarrow> reviewdb \<Rightarrow> (extraction \<Rightarrow> extraction) \<Rightarrow> extraction list \<Rightarrow> bool" where
  "evolves db db' g new \<longleftrightarrow> extractions db' = map g (extractions db) @ new
     \<and> (\<forall>x \<in> set (extractions db). row_evolves x (g x)) \<and> batches db' = batches db"

inductive review_step :: "reviewdb \<Rightarrow> reviewdb \<Rightarrow> bool" where
  step_document: "\<forall>r \<in> set (docs db). d_id r \<noteq> d_id doc \<Longrightarrow> review_step db (db\<lparr>docs := docs db @ [doc]\<rparr>)"
| step_add: "add_extraction d payload conf m pv actor sv new_id now db = Inr (i, db') \<Longrightarrow> review_step db db'"
| step_supersede: "supersede_pending_extractions d reviewer now db = (n, db') \<Longrightarrow> review_step db db'"
| step_reject: "reject_extraction i reason reviewer now db = Inr db' \<Longrightarrow> review_step db db'"
| step_promote: "promote env i v corrections reviewer new_id now db = Inr (k, db') \<Longrightarrow> review_step db db'"

inductive reachable_review :: "reviewdb \<Rightarrow> bool" where
  reach_empty: "reachable_review \<lparr>docs = [], extractions = [], verifieds = [], batches = []\<rparr>"
| reach_step: "reachable_review db \<Longrightarrow> review_step db db' \<Longrightarrow> reachable_review db'"

inductive_cases review_stepE: "review_step db db'"

definition unique_status :: "extraction_status \<Rightarrow> extraction list \<Rightarrow> bool" where
  "unique_status s rows \<longleftrightarrow> (\<forall>x \<in> set rows. \<forall>y \<in> set rows. x_document_id x = x_document_id y
     \<longrightarrow> x_status x = s \<longrightarrow> x_status y = s \<longrightarrow> x = y)"

definition verified_of :: "extraction list \<Rightarrow> verified \<Rightarrow> bool" where
  "verified_of rows v \<longleftrightarrow> (\<exists>x \<in> set rows. x_id x = v_extracted_id v \<and> x_document_id x = v_document_id v
     \<and> x_status x \<in> {Approved, Superseded})"

definition review_ok :: "reviewdb \<Rightarrow> bool" where
  "review_ok db \<longleftrightarrow> distinct (map x_id (extractions db)) \<and> distinct (map v_extracted_id (verifieds db))
     \<and> (\<forall>x \<in> set (extractions db). 1 \<le> x_version x \<and> x_batch_id x = None)
     \<and> unique_status Pending_Review (extractions db) \<and> unique_status Approved (extractions db)
     \<and> (\<forall>v \<in> set (verifieds db). verified_of (extractions db) v)
     \<and> (\<forall>x \<in> set (extractions db). x_status x = Approved \<longrightarrow> (\<exists>v \<in> set (verifieds db). v_extracted_id v = x_id x))"

subsection \<open>What each operation does\<close>

definition pending_of :: "nat \<Rightarrow> extraction \<Rightarrow> bool" where
  "pending_of d x \<longleftrightarrow> x_document_id x = d \<and> x_status x = Pending_Review"

definition retire :: "nat \<Rightarrow> pystr \<Rightarrow> int \<Rightarrow> extraction \<Rightarrow> extraction" where
  "retire d r n x = (if pending_of d x then supersede r n x else x)"

lemma add_extraction_Inr:
  assumes "add_extraction d payload conf m pv actor sv new_id now db = Inr (i, db')"
  obtains row where "x_id row = new_id" "x_document_id row = d" "x_status row = Pending_Review"
    "x_version row = 1" "x_batch_id row = None" "\<forall>x \<in> set (extractions db). x_id x \<noteq> new_id" "i = new_id"
    "extractions db' = map (retire d (strip actor) now) (extractions db) @ [row]"
    "verifieds db' = verifieds db" "batches db' = batches db"
  by (rule that [of "last (extractions db')"])
     (use assms in \<open>auto simp: add_extraction_def res_simps Let_def set_doc_status_def
        update_extractions_def pending_of_def retire_def [abs_def] split: pyval.splits\<close>)

lemma supersede_pending_Inr:
  assumes "supersede_pending_extractions d reviewer now db = (n, db')"
  shows "extractions db' = map (retire d reviewer now) (extractions db)
    \<and> verifieds db' = verifieds db \<and> batches db' = batches db"
  using assms by (auto simp: supersede_pending_extractions_def update_extractions_def Let_def pending_of_def retire_def [abs_def])

definition rejected_row :: "nat \<Rightarrow> pystr \<Rightarrow> pystr \<Rightarrow> int \<Rightarrow> extraction \<Rightarrow> extraction" where
  "rejected_row i rv rs now x = (if x_id x = i \<and> x_status x = Pending_Review
     then x\<lparr>x_status := Rejected, x_version := x_version x + 1,
       x_reviewer := Some rv, x_rejection_reason := Some rs, x_reviewed_at := Some now\<rparr> else x)"

lemma reject_extraction_Inr:
  assumes "reject_extraction i reason reviewer now db = Inr db'"
  shows "extractions db' = map (rejected_row i (strip reviewer) (strip reason) now) (extractions db)
    \<and> verifieds db' = verifieds db \<and> batches db' = batches db"
  using assms
  by (auto simp: reject_extraction_def clean_text_def res_simps Let_def set_doc_status_def
      update_extractions_def rejected_row_def [abs_def])

definition approved_row :: "pystr \<Rightarrow> int \<Rightarrow> extraction \<Rightarrow> extraction" where
  "approved_row rv now x = x\<lparr>x_status := Approved, x_version := x_version x + 1,
     x_reviewer := Some rv, x_reviewed_at := Some now\<rparr>"

definition promoted_row :: "nat \<Rightarrow> nat \<Rightarrow> pystr \<Rightarrow> int \<Rightarrow> extraction \<Rightarrow> extraction" where
  "promoted_row i d rv now x =
     (if x_id x = i then approved_row rv now x
      else if x_document_id x = d \<and> x_status x = Approved then supersede rv now x else x)"

lemma as_review_error_Inr: "as_review_error r = Inr x \<longleftrightarrow> r = Inr x"
  by (cases r) (auto simp: as_review_error_def split: exn.splits)

lemma singleton_hit:
  assumes "distinct (map f xs)" "length (filter (\<lambda>x. f x = k \<and> P x) xs) = 1" "y \<in> set xs" "f y = k"
  shows "P y"
proof -
  obtain z where "filter (\<lambda>x. f x = k \<and> P x) xs = [z]" using assms(2) by (auto simp: length_Suc_conv)
  then have z: "z \<in> set xs" "f z = k" "P z" by (auto simp: filter_eq_Cons_iff)
  then have "z = y" using assms(1,3,4) by (auto simp: distinct_map inj_on_def)
  with z show ?thesis by simp
qed

lemma review_ok_distinct: "review_ok db \<Longrightarrow> distinct (map x_id (extractions db))"
  by (simp add: review_ok_def)

lemma promote_Inr:
  assumes d: "distinct (map x_id (extractions db))"
    and p: "promote env i v corrections reviewer new_id now db = Inr (k, db')"
  obtains cand vals where "cand \<in> set (extractions db)" "x_id cand = i" "x_status cand = Pending_Review"
    "x_version cand = v" "verified_values_of env (x_payload cand) corrections = Inr vals"
    "extractions db' = map (promoted_row i (x_document_id cand) (strip reviewer) now) (extractions db)"
    "verifieds db' = verifieds db @ [\<lparr>v_id = new_id, v_document_id = x_document_id cand,
       v_extracted_id = i, v_reviewer = strip reviewer, v_values = vals\<rparr>]"
    "\<forall>w \<in> set (verifieds db). v_extracted_id w \<noteq> i" "batches db' = batches db"
proof -
  obtain cand where cand: "find_extraction i db = Some cand"
    using p by (auto simp: promote_def res_simps as_review_error_Inr)
  have mem: "cand \<in> set (extractions db)" "x_id cand = i"
    using cand by (auto simp: find_extraction_def dest: find_SomeD)
  let ?hits = "\<lambda>x. x_id x = i \<and> x_status x = Pending_Review \<and> x_version x = v"
  let ?d = "x_document_id cand"
  obtain vals where rv: "strip reviewer \<noteq> []"
    and vals: "verified_values_of env (x_payload cand) corrections = Inr vals"
    and one: "length (filter ?hits (extractions db)) = 1"
    and fresh: "\<forall>w \<in> set (verifieds db). v_extracted_id w \<noteq> i"
    and vs: "verifieds db' = verifieds db @ [\<lparr>v_id = new_id, v_document_id = ?d,
         v_extracted_id = i, v_reviewer = strip reviewer, v_values = vals\<rparr>]"
    and bs: "batches db' = batches db"
    and ex: "extractions db' = map (\<lambda>x. if x_document_id x = ?d \<and> x_id x \<noteq> i \<and> x_status x = Approved
          then supersede (strip reviewer) now x else x)
        (map (\<lambda>x. if ?hits x then approved_row (strip reviewer) now x else x) (extractions db))"
    using p cand
    by (auto simp: promote_def res_simps as_review_error_Inr clean_text_def Let_def
        approve_pending_extraction_def update_extractions_def set_doc_status_def approved_row_def)
  have hit: "x_status x = Pending_Review \<and> x_version x = v" if "x \<in> set (extractions db)" "x_id x = i" for x
    using singleton_hit [OF d one that] .
  have "extractions db' = map (promoted_row i ?d (strip reviewer) now) (extractions db)"
    unfolding ex map_map
    by (rule map_cong [OF refl]) (auto simp: promoted_row_def approved_row_def dest: hit)
  with mem hit vals fresh vs bs that show ?thesis by blast
qed


subsection \<open>The invariant\<close>

lemma lifecycle_edge_simps [simp]:
  "\<not> lifecycle_edge s Pending_Review" "lifecycle_edge s Approved \<longleftrightarrow> s = Pending_Review"
  by (auto simp: lifecycle_edge_def)

lemma row_evolves_pending: "row_evolves x y \<Longrightarrow> x_status y = Pending_Review \<Longrightarrow> y = x"
  by (auto simp: row_evolves_def)

lemma evolve_pending:
  assumes ev: "\<forall>x \<in> set rows. row_evolves x (g x)" and un: "unique_status Pending_Review rows"
  shows "unique_status Pending_Review (map g rows)"
proof -
  have "g x = x" if "x \<in> set rows" "x_status (g x) = Pending_Review" for x
    using ev that row_evolves_pending by blast
  then show ?thesis using un unfolding unique_status_def by (auto) (metis)
qed

lemma evolve_verified:
  assumes ev: "\<forall>x \<in> set rows. row_evolves x (g x)" and v: "verified_of rows v"
  shows "verified_of (map g rows @ new) v"
proof -
  obtain x where x: "x \<in> set rows" "x_id x = v_extracted_id v" "x_document_id x = v_document_id v"
    "x_status x \<in> {Approved, Superseded}" using v by (auto simp: verified_of_def)
  then have "row_evolves x (g x)" using ev by blast
  then have "x_id (g x) = x_id x" "x_document_id (g x) = x_document_id x" "x_status (g x) \<in> {Approved, Superseded}"
    using x(4) by (auto simp: row_evolves_def lifecycle_edge_def)
  with x show ?thesis unfolding verified_of_def by (intro bexI [of _ "g x"]) auto
qed

lemma evolve_ids: "\<forall>x \<in> set rows. row_evolves x (g x) \<Longrightarrow> map x_id (map g rows) = map x_id rows"
  by (auto simp: row_evolves_def)

lemma evolve_versions:
  "\<forall>x \<in> set rows. row_evolves x (g x) \<Longrightarrow> \<forall>x \<in> set rows. 1 \<le> x_version x \<and> x_batch_id x = None
    \<Longrightarrow> \<forall>x \<in> set (map g rows). 1 \<le> x_version x \<and> x_batch_id x = None"
  by (force simp: row_evolves_def)

text \<open>A step that approves nothing.\<close>

lemma evolve_without_approval:
  assumes ok: "review_ok db" and rows: "extractions db' = map g (extractions db)"
    and ev: "\<forall>x \<in> set (extractions db). row_evolves x (g x)"
    and no: "\<forall>x \<in> set (extractions db). x_status (g x) = Approved \<longrightarrow> g x = x"
    and vs: "verifieds db' = verifieds db"
  shows "review_ok db'"
proof -
  have "unique_status Approved (map g (extractions db))"
    using ok no unfolding review_ok_def unique_status_def by (auto) (metis)
  moreover have "\<forall>v \<in> set (verifieds db). verified_of (map g (extractions db)) v"
    using evolve_verified [OF ev, of _ "[]"] ok by (auto simp: review_ok_def)
  moreover have "\<forall>x \<in> set (map g (extractions db)). x_status x = Approved
      \<longrightarrow> (\<exists>v \<in> set (verifieds db). v_extracted_id v = x_id x)"
    using ok no by (auto simp: review_ok_def)
  moreover have "distinct (map x_id (map g (extractions db)))"
    unfolding evolve_ids [OF ev] using ok by (simp add: review_ok_def)
  ultimately show ?thesis
    using ok evolve_pending [OF ev] evolve_versions [OF ev] unfolding review_ok_def rows vs by blast
qed

lemma retire_evolves: "\<forall>x \<in> set rows. row_evolves x (retire d r n x)"
  by (simp add: retire_def pending_of_def row_evolves_supersede)

lemma unchanged_unless: "\<lbrakk>b \<Longrightarrow> f y \<noteq> c; f (if b then y else x) = c\<rbrakk> \<Longrightarrow> (if b then y else x) = x"
  by (cases b) simp_all

lemma retire_approves_nothing: "x_status (retire d r n x) = Approved \<Longrightarrow> retire d r n x = x"
  unfolding retire_def supersede_def by (erule unchanged_unless [rotated]) simp

lemma not_pending_retire: "\<not> pending_of d (retire d r n y)"
  by (simp add: retire_def) (simp add: pending_of_def supersede_def)

lemma no_pending_after: "x \<in> set (map (retire d r n) rows) \<Longrightarrow> \<not> pending_of d x"
  using not_pending_retire by (metis (no_types) imageE list.set_map)

lemma promoted_evolves:
  assumes "x_id x = i \<longrightarrow> x_status x = Pending_Review"
  shows "row_evolves x (promoted_row i d rv now x)"
  using assms by (auto simp: promoted_row_def row_evolves_supersede)
    (auto simp: row_evolves_def approved_row_def lifecycle_edge_def)

lemma review_ok_add:
  assumes ok: "review_ok db" and a: "add_extraction d payload conf m pv actor sv new_id now db = Inr (i, db')"
  shows "review_ok db'"
proof -
  obtain row where row: "x_id row = new_id" "x_document_id row = d" "x_status row = Pending_Review"
      "x_version row = 1" "x_batch_id row = None" and fresh: "\<forall>x \<in> set (extractions db). x_id x \<noteq> new_id"
    and "i = new_id"
    and ex: "extractions db' = map (retire d (strip actor) now) (extractions db) @ [row]"
    and vs: "verifieds db' = verifieds db" and "batches db' = batches db"
    by (rule add_extraction_Inr [OF a])
  define mid where "mid = db\<lparr>extractions := map (retire d (strip actor) now) (extractions db)\<rparr>"
  have mid: "review_ok mid"
    by (rule evolve_without_approval [OF ok _ retire_evolves])
       (use retire_approves_nothing in \<open>auto simp: mid_def\<close>)
  have none: "\<not> (x_document_id x = d \<and> x_status x = Pending_Review)" if "x \<in> set (extractions mid)" for x
    using no_pending_after [of x d "strip actor" now "extractions db"] that by (simp add: mid_def pending_of_def)
  have ids: "\<forall>x \<in> set (extractions mid). x_id x \<noteq> new_id"
    using fresh by (auto simp: mid_def retire_def supersede_def)
  have rows: "extractions db' = extractions mid @ [row]" "verifieds db' = verifieds mid"
    using ex vs by (simp_all add: mid_def)
  have "unique_status Pending_Review (extractions db')" "unique_status Approved (extractions db')"
    using mid none row unfolding review_ok_def unique_status_def rows by auto
  moreover have "\<forall>v \<in> set (verifieds db'). verified_of (extractions db') v"
    using mid unfolding review_ok_def rows verified_of_def by auto
  ultimately show ?thesis using mid ids row unfolding review_ok_def rows by (auto simp: image_iff)
qed

lemma review_ok_promote:
  assumes ok: "review_ok db" and p: "promote env i v corrections reviewer new_id now db = Inr (k, db')"
  shows "review_ok db'"
proof -
  obtain cand vals where cand: "cand \<in> set (extractions db)" "x_id cand = i" "x_status cand = Pending_Review"
      "x_version cand = v" and "verified_values_of env (x_payload cand) corrections = Inr vals"
    and ex: "extractions db' = map (promoted_row i (x_document_id cand) (strip reviewer) now) (extractions db)"
    and vs: "verifieds db' = verifieds db @ [\<lparr>v_id = new_id, v_document_id = x_document_id cand,
       v_extracted_id = i, v_reviewer = strip reviewer, v_values = vals\<rparr>]"
    and fresh: "\<forall>w \<in> set (verifieds db). v_extracted_id w \<noteq> i" and "batches db' = batches db"
    by (rule promote_Inr [OF review_ok_distinct [OF ok] p])
  let ?d = "x_document_id cand" and ?g = "promoted_row i (x_document_id cand) (strip reviewer) now"
  have only: "x = cand" if "x \<in> set (extractions db)" "x_id x = i" for x
    using ok cand that by (auto simp: review_ok_def distinct_map inj_on_def)
  have ev: "\<forall>x \<in> set (extractions db). row_evolves x (?g x)"
    using promoted_evolves only cand(3) by metis
  have appr: "x = cand \<or> x_document_id x \<noteq> ?d \<and> x_status x = Approved"
    if "x \<in> set (extractions db)" "x_status (?g x) = Approved" for x
    using that only by (auto simp: promoted_row_def supersede_def split: if_splits)
  have same: "?g x = x" if "x \<in> set (extractions db)" "x_document_id x \<noteq> ?d" for x
    using that only by (auto simp: promoted_row_def)
  have kept: "x_document_id (?g x) = x_document_id x" "x_id (?g x) = x_id x" for x
    by (simp_all add: promoted_row_def approved_row_def supersede_def)
  have uapp: "unique_status Approved (map ?g (extractions db))"
    unfolding unique_status_def
  proof (intro ballI impI)
    fix a b assume "a \<in> set (map ?g (extractions db))" "b \<in> set (map ?g (extractions db))"
      and h: "x_document_id a = x_document_id b" "x_status a = Approved" "x_status b = Approved"
    then obtain x y where xy: "x \<in> set (extractions db)" "y \<in> set (extractions db)" "a = ?g x" "b = ?g y" by auto
    have "x = y"
      using appr [OF xy(1)] appr [OF xy(2)] h xy ok kept
      unfolding review_ok_def unique_status_def by metis
    with xy show "a = b" by simp
  qed
  have ver: "verified_of (map ?g (extractions db)) w" if "w \<in> set (verifieds db')" for w
  proof (cases "w \<in> set (verifieds db)")
    case True
    then show ?thesis using evolve_verified [OF ev, of w "[]"] ok by (auto simp: review_ok_def)
  next
    case False
    then have w: "v_extracted_id w = i" "v_document_id w = ?d" using that vs by auto
    have "x_status (?g cand) = Approved" using cand(2) by (simp add: promoted_row_def approved_row_def)
    then show ?thesis unfolding verified_of_def using w cand(1,2) kept
      by (intro bexI [of _ "?g cand"]) auto
  qed
  have backed: "\<exists>w \<in> set (verifieds db'). v_extracted_id w = x_id a"
    if a: "a \<in> set (map ?g (extractions db))" "x_status a = Approved" for a
  proof -
    obtain x where x: "x \<in> set (extractions db)" "a = ?g x" using a(1) by auto
    show ?thesis
    proof (cases "x = cand")
      case True
      then show ?thesis using vs x kept cand(2) by auto
    next
      case False
      then have "x_status x = Approved" using appr x a(2) by blast
      then show ?thesis using ok x vs kept unfolding review_ok_def by auto
    qed
  qed
  have "distinct (map x_id (map ?g (extractions db)))"
    unfolding evolve_ids [OF ev] using ok by (simp add: review_ok_def)
  moreover have "distinct (map v_extracted_id (verifieds db'))"
    using ok fresh vs by (auto simp: review_ok_def)
  ultimately show ?thesis
    using ok uapp ver backed evolve_pending [OF ev] evolve_versions [OF ev]
    unfolding review_ok_def ex by blast
qed


lemma rejected_evolves: "\<forall>x \<in> set rows. row_evolves x (rejected_row i rv rs n x)"
  by (simp add: row_evolves_def rejected_row_def lifecycle_edge_def)

lemma rejected_approves_nothing:
  "x_status (rejected_row i rv rs n x) = Approved \<Longrightarrow> rejected_row i rv rs n x = x"
  unfolding rejected_row_def by (erule unchanged_unless [rotated]) simp

lemma review_ok_reject:
  assumes ok: "review_ok db" and j: "reject_extraction i reason reviewer now db = Inr db'"
  shows "review_ok db'"
  using evolve_without_approval [OF ok _ rejected_evolves] reject_extraction_Inr [OF j]
    rejected_approves_nothing by blast

lemma review_ok_supersede:
  assumes ok: "review_ok db" and sp: "supersede_pending_extractions d reviewer now db = (n, db')"
  shows "review_ok db'"
  using evolve_without_approval [OF ok _ retire_evolves] supersede_pending_Inr [OF sp]
    retire_approves_nothing by blast

lemma review_step_ok: "review_step db db' \<Longrightarrow> review_ok db \<Longrightarrow> review_ok db'"
proof (induction rule: review_step.induct)
  case (step_document db doc)
  then show ?case by (simp add: review_ok_def)
next
  case (step_add d payload conf m pv actor sv new_id now db i db')
  then show ?case using review_ok_add by blast
next
  case (step_supersede d reviewer now db n db')
  then show ?case using review_ok_supersede by blast
next
  case (step_reject i reason reviewer now db db')
  then show ?case using review_ok_reject by blast
next
  case (step_promote env i v corrections reviewer new_id now db k db')
  then show ?case using review_ok_promote by blast
qed

lemma reachable_review_ok: "reachable_review db \<Longrightarrow> review_ok db"
proof (induction rule: reachable_review.induct)
  case reach_empty
  then show ?case by (simp add: review_ok_def unique_status_def)
qed (rule review_step_ok)

subsection \<open>Rows persist and only evolve\<close>

lemma review_step_evolves:
  assumes d: "distinct (map x_id (extractions db))" and st: "review_step db db'"
  shows "\<exists>g new. evolves db db' g new"
  using st
proof cases
  case (step_document doc)
  then show ?thesis by (intro exI [of _ "\<lambda>x. x"] exI [of _ "[]"]) (simp add: evolves_def)
next
  case (step_add d payload conf m pv actor sv new_id now i)
  obtain row where "extractions db' = map (retire d (strip actor) now)
      (extractions db) @ [row]" "batches db' = batches db"
    by (rule add_extraction_Inr [OF step_add])
  then show ?thesis unfolding evolves_def using retire_evolves by blast
next
  case (step_supersede d reviewer now n)
  from supersede_pending_Inr [OF this] show ?thesis
    unfolding evolves_def using retire_evolves by (metis append_Nil2)
next
  case (step_reject i reason reviewer now)
  from reject_extraction_Inr [OF this] show ?thesis
    unfolding evolves_def using rejected_evolves by (metis append_Nil2)
next
  case (step_promote env i v corrections reviewer new_id now k)
  obtain cand where cand: "cand \<in> set (extractions db)" "x_id cand = i" "x_status cand = Pending_Review"
    and ex: "extractions db' = map (promoted_row i (x_document_id cand) (strip reviewer) now) (extractions db)"
    and bs: "batches db' = batches db"
    by (rule promote_Inr [OF d step_promote])
  have "x = cand" if "x \<in> set (extractions db)" "x_id x = i" for x
    using d cand that by (auto simp: distinct_map inj_on_def)
  then have "\<forall>x \<in> set (extractions db). row_evolves x (promoted_row i (x_document_id cand) (strip reviewer) now x)"
    using promoted_evolves cand(3) by metis
  with ex bs show ?thesis unfolding evolves_def by (metis append_Nil2)
qed


lemma evolves_find:
  assumes "evolves db db' g new" "find_extraction i db = Some x"
  shows "find_extraction i db' = Some (g x)"
proof -
  have "find (\<lambda>x. x_id x = i) (map g (extractions db)) = Some (g x)"
    using assms find_map_key [of "extractions db" x_id g i]
    by (simp add: evolves_def row_evolves_def find_extraction_def)
  then show ?thesis using assms(1) by (simp add: evolves_def find_extraction_def find_append_same)
qed

definition review_version :: "reviewdb \<Rightarrow> nat \<Rightarrow> int option" where
  "review_version db i = map_option x_version (find_extraction i db)"

definition promotes :: "nat \<Rightarrow> int \<Rightarrow> reviewdb \<Rightarrow> reviewdb \<Rightarrow> bool" where
  "promotes i v db db' \<longleftrightarrow> (\<exists>env corrections reviewer new_id now k.
     promote env i v corrections reviewer new_id now db = Inr (k, db'))"

lemma review_step_grows:
  assumes "review_ok db" "review_step db db'" "review_version db i = Some v"
  shows "\<exists>w. review_version db' i = Some w \<and> v \<le> w"
proof -
  obtain g new where ev: "evolves db db' g new" using review_step_evolves review_ok_distinct assms(1,2) by blast
  obtain x where x: "find_extraction i db = Some x" "v = x_version x"
    using assms(3) by (auto simp: review_version_def)
  have "row_evolves x (g x)"
    using ev x(1) by (auto simp: evolves_def find_extraction_def dest!: find_SomeD)
  then have "x_version x \<le> x_version (g x)" by (auto simp: row_evolves_def)
  with evolves_find [OF ev x(1)] x(2) show ?thesis by (auto simp: review_version_def)
qed

lemma promotes_version:
  assumes ok: "review_ok db" and p: "promotes i v db db'"
  shows "review_version db i = Some v \<and> review_version db' i = Some (v + 1)"
proof -
  obtain env corrections reviewer new_id now k where
    pr: "promote env i v corrections reviewer new_id now db = Inr (k, db')"
    using p by (auto simp: promotes_def)
  obtain cand where cand: "cand \<in> set (extractions db)" "x_id cand = i" "x_version cand = v"
    and ex: "extractions db' = map (promoted_row i (x_document_id cand) (strip reviewer) now) (extractions db)"
    by (rule promote_Inr [OF review_ok_distinct [OF ok] pr])
  have d: "distinct (map x_id (extractions db))" using ok by (simp add: review_ok_def)
  have fnd: "find_extraction i db = Some cand"
    using find_unique [OF d cand(1,2)] by (simp add: find_extraction_def)
  have "find_extraction i db' = Some (promoted_row i (x_document_id cand) (strip reviewer) now cand)"
    unfolding find_extraction_def ex
    using fnd [unfolded find_extraction_def]
    by (subst find_map_key) (auto simp: promoted_row_def approved_row_def supersede_def)
  with fnd cand show ?thesis by (simp add: review_version_def promoted_row_def approved_row_def)
qed

interpretation review: versioned_store review_ok review_version promotes review_step
  by unfold_locales (use review_step_ok review_step_grows promotes_version step_promote in
      \<open>auto simp: promotes_def\<close>)

lemma active_verified_Un:
  assumes ok: "review_ok db" and v: "v \<in> set (active_verified db)" "w \<in> set (active_verified db)"
    and doc: "v_document_id v = v_document_id w"
  shows "v = w"
proof -
  obtain x y where "x \<in> set (extractions db)" "x_id x = v_extracted_id v" "x_document_id x = v_document_id v"
    "x_status x = Approved" "y \<in> set (extractions db)" "x_id y = v_extracted_id w"
    "x_document_id y = v_document_id w" "x_status y = Approved"
    using v by (auto simp: active_verified_def list_ex_iff active_extraction_authority_def)
  then have "v_extracted_id v = v_extracted_id w"
    using ok doc unfolding review_ok_def unique_status_def by metis
  moreover have "v \<in> set (verifieds db)" "w \<in> set (verifieds db)" using v by (auto simp: active_verified_def)
  ultimately show ?thesis using ok by (auto simp: review_ok_def distinct_map inj_on_def)
qed

subsection \<open>A concrete review\<close>

definition demo_original :: document_file where
  "demo_original = \<lparr>f_id = 3, f_document_id = 2, f_version = 1, f_kind = Original, f_content_path = u ''p'',
     f_sha256 = u ''h'', f_mime = u ''application/pdf'', f_source_filename = u ''a.pdf'', f_source_file_id = None,
     f_source_version = None, f_page_number = None, f_ocr_text = None, f_text_provenance = None\<rparr>"

definition demo_doc :: document_row where
  "demo_doc = \<lparr>d_id = 2, d_document_class = Other_Class, d_status = Uploaded, d_source_filename = u ''a.pdf'', d_files = [demo_original]\<rparr>"

definition demo_payload :: "(pystr, pyval) dict" where
  "demo_payload = [(u ''transaction_date'', PStr (u ''2024-05-01'')),
     (u ''total_amount'', PDict [(u ''value'', PInt 1200), (u ''source_span'', PStr (u ''1,200''))]),
     (u ''counterparty'', PStr (u ''Acme''))]"

definition demo_values_env :: value_env where
  "demo_values_env = \<lparr>ve_date = (\<lambda>v. case v of PStr s \<Rightarrow> Some 739007 | _ \<Rightarrow> None),
     ve_decimal = (\<lambda>v. case v of PInt i \<Rightarrow> Some (Finite_Dec (of_int i)) | _ \<Rightarrow> None)\<rparr>"

definition demo_pending :: extraction where
  "demo_pending = \<lparr>x_id = 5, x_document_id = 2, x_source_file_id = 3, x_source_version = 1, x_batch_id = None,
     x_record_kind = None, x_financial_subtype = None, x_candidate_ordinal = None, x_candidate_key = None,
     x_source_locator = None, x_row_fingerprint = None, x_validation_issues = None, x_evidence_group_keys = None,
     x_payload = demo_payload, x_field_confidences = PDict [],
     x_source_spans = [(u ''total_amount'', u ''1,200'')], x_model_name = u ''m'', x_prompt_version = u ''p'',
     x_status = Pending_Review, x_version = 1, x_reviewer = None, x_rejection_reason = None,
     x_reviewed_at = None, x_created_at = 7\<rparr>"

definition demo_review :: reviewdb where
  "demo_review = \<lparr>docs = [demo_doc\<lparr>d_status := In_Review\<rparr>], extractions = [demo_pending],
     verifieds = [], batches = []\<rparr>"

lemma demo_text: "strip (u ''m'') = u ''m''" "strip (u ''p'') = u ''p''" "strip (u ''bob'') = u ''bob''"
  "strip (u ''Acme'') = u ''Acme''" "strip (u ''bad scan'') = u ''bad scan''"
  by (simp_all add: strip_def u_def is_space_def)

lemma demo_spans: "source_spans (PDict demo_payload) [] = [(u ''total_amount'', u ''1,200'')]"
  by (simp add: source_spans_def demo_payload_def child_path_def own_span_def entry_spans_def)

lemma demo_added:
  "add_extraction 2 (PDict demo_payload) (PDict []) (u ''m'') (u ''p'') (u ''bob'') None 5 7
     \<lparr>docs = [demo_doc], extractions = [], verifieds = [], batches = []\<rparr> = Inr (5, demo_review)"
  by (simp add: add_extraction_def find_doc_def latest_original_def demo_original_def
      clean_text_def demo_text update_extractions_def set_doc_status_def demo_review_def demo_pending_def
      demo_spans demo_doc_def Let_def)

lemma demo_review_reachable: "reachable_review demo_review"
proof -
  have "reachable_review \<lparr>docs = [demo_doc], extractions = [], verifieds = [], batches = []\<rparr>"
    using reach_step [OF reach_empty step_document, of demo_doc] by simp
  then show ?thesis using step_add [OF demo_added] by (rule reach_step)
qed

definition demo_verified_values :: verified_values where
  "demo_verified_values = \<lparr>vv_transaction_date = 739007, vv_total_amount = Finite_Dec 1200, vv_counterparty = u ''Acme'',
     vv_currency = None, vv_category = None, vv_expense_kind = Some Rent, vv_due_date = None,
     vv_registration_number = None, vv_tax_8_amount = None, vv_tax_10_amount = None\<rparr>"

definition demo_corrections :: "(pystr, pyval) dict" where
  "demo_corrections = [(u ''expense_kind'', PStr (u ''rent''))]"

lemma demo_values: "verified_values_of demo_values_env demo_payload demo_corrections = Inr demo_verified_values"
proof -
  have "strip (u ''rent'') = u ''rent''" by (simp add: strip_def u_def is_space_def)
  then have "as_expense_kind (PStr (u ''rent'')) = Inr (Some Rent)"
    by (simp add: expense_kind_of_def expense_kind_value_def)
  then show ?thesis
    by (simp add: verified_values_of_def normalize_corrections_def chosen_def field_value_def demo_payload_def
        demo_corrections_def as_date_def as_decimal_def as_optional_date_def demo_values_env_def
        clean_text_def demo_text demo_verified_values_def)
qed

lemma demo_promoted:
  "\<exists>db'. promote demo_values_env 5 1 demo_corrections (u ''bob'') 9 8 demo_review = Inr (9, db')"
  by (simp add: promote_def demo_corrections_def correction_fields_def clean_text_def demo_text
      as_review_error_def find_extraction_def find_doc_def demo_review_def demo_pending_def
      demo_values [unfolded demo_corrections_def] approve_pending_extraction_def update_extractions_def
      demo_doc_def Let_def)

subsection \<open>Properties\<close>



text \<open>C27. A repository call never removes an extraction and never alters its payload or its source;
  its status moves only along the lifecycle (pending to approved, rejected or superseded, approved
  to superseded), one version at a time.\<close>

theorem extractions_follow_the_lifecycle:
  assumes "reachable_review db" "review_step db db'" "find_extraction i db = Some x"
  shows "\<exists>y. find_extraction i db' = Some y \<and> row_evolves x y"
proof -
  obtain g new where ev: "evolves db db' g new"
    using review_step_evolves [OF review_ok_distinct [OF reachable_review_ok [OF assms(1)]] assms(2)] by blast
  have "row_evolves x (g x)"
    using ev assms(3) by (auto simp: evolves_def find_extraction_def dest!: find_SomeD)
  with evolves_find [OF ev assms(3)] show ?thesis by blast
qed

theorem extractions_follow_the_lifecycle_witness:
  "\<exists>db' y. promote demo_values_env 5 1 demo_corrections (u ''bob'') 9 8 demo_review = Inr (9, db')
     \<and> find_extraction 5 db' = Some y \<and> row_evolves demo_pending y"
proof -
  obtain db' where p: "promote demo_values_env 5 1 demo_corrections (u ''bob'') 9 8 demo_review = Inr (9, db')"
    using demo_promoted by blast
  have "find_extraction 5 demo_review = Some demo_pending"
    by (simp add: find_extraction_def demo_review_def demo_pending_def)
  from extractions_follow_the_lifecycle [OF demo_review_reachable step_promote [OF p] this] p
  show ?thesis by blast
qed

text \<open>
  At most one verified record of a document is active at any time, so a query over active
  records never counts a document twice.\<close>

lemma one_active_record_per_document:
  assumes "reachable_review db" "v \<in> set (active_verified db)" "w \<in> set (active_verified db)"
    "v_document_id v = v_document_id w"
  shows "v = w"
  using active_verified_Un [OF reachable_review_ok [OF assms(1)] assms(2-4)] .

lemma one_active_record_per_document_witness:
  "\<exists>db'. promote demo_values_env 5 1 demo_corrections (u ''bob'') 9 8 demo_review = Inr (9, db')
     \<and> card {v. v \<in> set (active_verified db') \<and> v_document_id v = 2} \<le> 1"
proof -
  obtain db' where p: "promote demo_values_env 5 1 demo_corrections (u ''bob'') 9 8 demo_review = Inr (9, db')"
    using demo_promoted by blast
  have "reachable_review db'" using reach_step [OF demo_review_reachable step_promote [OF p]] .
  from one_active_record_per_document [OF this]
  have "card {v. v \<in> set (active_verified db') \<and> v_document_id v = 2} \<le> Suc 0"
    by (subst card_le_Suc0_iff_eq) auto
  with p show ?thesis by auto
qed

text \<open>C28. An accepted approval was given for the version the reviewer saw while it was pending, and
  afterwards the active record of the document is exactly the new one, holding the values of that
  payload with the reviewer's corrections applied.\<close>

theorem promotion_installs_the_reviewed_values:
  assumes "reachable_review db" "promote env i v corrections reviewer new_id now db = Inr (k, db')"
  shows "\<exists>x vals rec. find_extraction i db = Some x \<and> x_status x = Pending_Review \<and> x_version x = v
    \<and> verified_values_of env (x_payload x) corrections = Inr vals \<and> v_values rec = vals
    \<and> v_reviewer rec = strip reviewer
    \<and> filter (\<lambda>r. v_document_id r = x_document_id x) (active_verified db') = [rec]"
proof -
  have ok: "review_ok db" "review_ok db'"
    using assms reachable_review_ok review_ok_promote by blast+
  obtain x vals where x: "x \<in> set (extractions db)" "x_id x = i" "x_status x = Pending_Review" "x_version x = v"
    and vals: "verified_values_of env (x_payload x) corrections = Inr vals"
    and ex: "extractions db' = map (promoted_row i (x_document_id x) (strip reviewer) now) (extractions db)"
    and vs: "verifieds db' = verifieds db @ [\<lparr>v_id = new_id, v_document_id = x_document_id x,
       v_extracted_id = i, v_reviewer = strip reviewer, v_values = vals\<rparr>]"
    by (rule promote_Inr [OF review_ok_distinct [OF ok(1)] assms(2)])
  define rec where "rec = \<lparr>v_id = new_id, v_document_id = x_document_id x,
       v_extracted_id = i, v_reviewer = strip reviewer, v_values = vals\<rparr>"
  let ?y = "promoted_row i (x_document_id x) (strip reviewer) now x"
  have y: "?y \<in> set (extractions db')" "x_id ?y = i" "x_document_id ?y = x_document_id x" "x_status ?y = Approved"
    "x_batch_id ?y = None"
    using x ok(1) unfolding ex review_ok_def by (auto simp: promoted_row_def approved_row_def)
  have mem: "rec \<in> set (active_verified db')"
    using y vs unfolding active_verified_def list_ex_iff
    by (auto simp: rec_def active_extraction_authority_def)
  have "filter (\<lambda>r. v_document_id r = x_document_id x) (active_verified db') = [rec]"
  proof (rule filter_singleton)
    show "distinct (active_verified db')"
      using ok(2) by (auto simp: review_ok_def active_verified_def distinct_map)
    show "rec \<in> set (active_verified db')" by (rule mem)
    fix r assume "r \<in> set (active_verified db')"
    then show "v_document_id r = x_document_id x \<longleftrightarrow> r = rec"
      using active_verified_Un [OF ok(2) _ mem, of r] by (auto simp: rec_def)
  qed
  moreover have "find_extraction i db = Some x"
    using ok(1) x find_unique [of x_id "extractions db" x i] by (simp add: find_extraction_def review_ok_def)
  ultimately show ?thesis using x vals by (intro exI [of _ x] exI [of _ vals] exI [of _ rec]) (simp add: rec_def)
qed

theorem promotion_installs_the_reviewed_values_witness:
  "\<exists>db' rec. promote demo_values_env 5 1 demo_corrections (u ''bob'') 9 8 demo_review = Inr (9, db')
     \<and> v_values rec = demo_verified_values
     \<and> filter (\<lambda>r. v_document_id r = 2) (active_verified db') = [rec]"
proof -
  obtain db' where p: "promote demo_values_env 5 1 demo_corrections (u ''bob'') 9 8 demo_review = Inr (9, db')"
    using demo_promoted by blast
  have "find_extraction 5 demo_review = Some demo_pending" "x_payload demo_pending = demo_payload"
    "x_document_id demo_pending = 2"
    by (simp_all add: find_extraction_def demo_review_def demo_pending_def)
  with promotion_installs_the_reviewed_values [OF demo_review_reachable p] demo_values p
  show ?thesis by auto
qed

text \<open>
  An approval of a version that was already approved is refused, whatever repository calls
  happened since.\<close>

lemma stale_promotion_is_refused:
  assumes "reachable_review db" "promote env i v corrections reviewer new_id now db = Inr (k, db1)"
    "rtranclp review_step db1 db2"
  shows "\<not> (\<exists>k' db3. promote env' i v corrections' reviewer' new_id' now' db2 = Inr (k', db3))"
proof -
  have "promotes i v db db1" using assms(2) unfolding promotes_def by blast
  from review.lost_update_is_refused [OF reachable_review_ok [OF assms(1)] this assms(3)]
  show ?thesis unfolding promotes_def by blast
qed

lemma stale_promotion_is_refused_witness:
  "\<exists>db'. promote demo_values_env 5 1 demo_corrections (u ''bob'') 9 8 demo_review = Inr (9, db')
     \<and> \<not> (\<exists>k db3. promote demo_values_env 5 1 [] (u ''bob'') 10 9 db' = Inr (k, db3))"
proof -
  obtain db' where p: "promote demo_values_env 5 1 demo_corrections (u ''bob'') 9 8 demo_review = Inr (9, db')"
    using demo_promoted by blast
  from stale_promotion_is_refused [OF demo_review_reachable p rtranclp.rtrancl_refl] p show ?thesis by blast
qed

end
