(* ===== verification/Activation.thy ===== *)
theory Activation
  imports Source_Intake Intake_Policy
begin

text \<open>
  Universal activation, \<^verbatim>\<open>src/clerksan/ingest/activation.py\<close>, over the worker capability leases that
  \<^verbatim>\<open>WorkerCapabilityLeaseRepo.refresh\<close> keeps (\<^verbatim>\<open>src/clerksan/db/repositories.py\<close>). Worker names are
  ordered by code points, the binary collation of the database.
\<close>

record worker_lease =
  wl_worker_id :: pystr
  wl_registry_digest :: pystr
  wl_capabilities_digest :: pystr
  wl_sandbox_verified :: bool
  wl_heartbeat_at :: int
  wl_expires_at :: int

definition refresh ::
  "pystr \<Rightarrow> pyval \<Rightarrow> pyval \<Rightarrow> bool \<Rightarrow> int \<Rightarrow> int \<Rightarrow> worker_lease list \<Rightarrow> worker_lease list res" where
  "refresh worker_id rdigest cdigest verified heartbeat_at expires_at leases =
     rbind (clean_text worker_id) (\<lambda>w.
     rbind (repo_optional_digest rdigest) (\<lambda>r.
     rbind (repo_optional_digest cdigest) (\<lambda>c.
     case (r, c) of
       (Some r', Some c') \<Rightarrow>
         if expires_at \<le> heartbeat_at then
           Inl (SourceIntakeValidationError ''capability lease must expire after its heartbeat'')
         else
           let row = \<lparr>wl_worker_id = w, wl_registry_digest = r', wl_capabilities_digest = c',
                 wl_sandbox_verified = verified, wl_heartbeat_at = heartbeat_at,
                 wl_expires_at = expires_at\<rparr>
           in Inr (if \<exists>l \<in> set leases. wl_worker_id l = w
                   then map (\<lambda>l. if wl_worker_id l = w then row else l) leases
                   else leases @ [row])
     | _ \<Rightarrow> Inl AssertionError)))"

record activation_status =
  as_ready :: bool
  as_reason_code :: "public_reason_code option"
  as_lease :: "worker_lease option"
  as_legacy_jobs_blocking :: bool

definition legacy_job_blocks :: "job \<Rightarrow> bool" where
  "legacy_job_blocks j \<longleftrightarrow> (j_status j = Queued \<or> j_status j = Running)
     \<and> (j_execution_profile j \<noteq> Universal_Sandboxed \<or> \<not> j_sandbox_verified j)"

definition lease_order :: "worker_lease \<Rightarrow> int \<times> pystr" where
  "lease_order l = (- wl_heartbeat_at l, wl_worker_id l)"

definition newest_lease :: "worker_lease list \<Rightarrow> worker_lease option" where
  "newest_lease ls = find (\<lambda>l. \<forall>k \<in> set ls. lease_order l \<le> lease_order k) ls"

definition evaluate_universal_activation ::
  "settings \<Rightarrow> registry \<Rightarrow> job list \<Rightarrow> worker_lease list \<Rightarrow> int \<Rightarrow> activation_status" where
  "evaluate_universal_activation st reg js leases now =
     (let status = (\<lambda>ready reason l blocking. \<lparr>as_ready = ready, as_reason_code = reason,
            as_lease = l, as_legacy_jobs_blocking = blocking\<rparr>)
      in if intake_mode st \<noteq> Universal then status True None None False
         else if \<not> sandbox_verified reg \<or> reg_process reg = [] then
           status False (Some Sandbox_Unavailable) None False
         else if list_ex legacy_job_blocks js then
           status False (Some Registry_Mismatch) None True
         else case newest_lease leases of
           None \<Rightarrow> status False (Some Worker_Capability_Stale) None False
         | Some l \<Rightarrow>
             if wl_expires_at l \<le> now then status False (Some Worker_Capability_Stale) (Some l) False
             else if \<not> wl_sandbox_verified l \<or> wl_registry_digest l \<noteq> reg_registry_digest reg
                  \<or> wl_capabilities_digest l \<noteq> reg_capabilities_digest reg then
               status False (Some Registry_Mismatch) (Some l) False
             else status True None (Some l) False)"

subsection \<open>Lemmas\<close>

lemma newest_lease_Some:
  assumes "newest_lease ls = Some l"
  shows "l \<in> set ls \<and> (\<forall>k \<in> set ls. wl_heartbeat_at k \<le> wl_heartbeat_at l)"
  using find_SomeD [OF assms [unfolded newest_lease_def]] by (auto simp: lease_order_def less_eq_prod_def)

lemma newest_lease_exists: "ls \<noteq> [] \<Longrightarrow> newest_lease ls \<noteq> None"
proof -
  assume "ls \<noteq> []"
  then obtain l where "l \<in> set ls" "\<forall>k \<in> set ls. lease_order l \<le> lease_order k"
    using arg_min_if_finite(1) [of "set ls" lease_order] arg_min_least [of "set ls" _ lease_order]
    by (metis finite_set list.set_intros(1) neq_Nil_conv empty_iff)
  then show ?thesis by (auto simp: newest_lease_def find_None_iff)
qed

definition leases_ok :: "worker_lease list \<Rightarrow> bool" where
  "leases_ok ls \<longleftrightarrow> distinct (map wl_worker_id ls) \<and> (\<forall>l \<in> set ls. wl_heartbeat_at l < wl_expires_at l
     \<and> is_sha256_hex (wl_registry_digest l) \<and> is_sha256_hex (wl_capabilities_digest l))"

lemma repo_optional_digest_Some: "repo_optional_digest v = Inr (Some d) \<Longrightarrow> is_sha256_hex d"
  by (cases v) (auto split: if_splits)

lemma build_activation_candidate_Inr:
  assumes "build_activation_candidate_registry digest st p = Inr r"
  shows "registry_wf r \<and> sandbox_verified r \<and> set legacy_required_process_formats \<subseteq> set (reg_process r)"
proof -
  obtain sb where sb: "mk_sandbox_evidence True (ap_backend p) (ap_evidence_digest p) = Inr sb"
    and legacy: "filter (\<lambda>f. f \<notin> set (sort (remdups (ap_capabilities p)))) legacy_required_process_formats = []"
    and mk: "mk_registry digest (sort (remdups (ap_capabilities p))) (settings_limits st)
         [(u ''intake_mode'', PStr (intake_mode_value Legacy)), (u ''safe_fallback_enabled'', PBool True),
          (u ''universal_activation_enabled'', PBool False), (u ''activation_candidate'', PBool True)]
         sb registry_schema 1 = Inr r"
    using assms by (auto simp: build_activation_candidate_registry_def Let_def res_simps split: if_splits)
  have "set (reg_process r) = set (ap_capabilities p)" "reg_sandbox r = sb"
    using mk_registry_process [OF mk] by auto
  moreover have "sb_verified sb"
    using sb by (auto simp: mk_sandbox_evidence_def split: if_splits)
  ultimately show ?thesis
    using mk_registry_wf [OF mk] legacy by (auto simp: sandbox_verified_def filter_empty_conv)
qed

subsection \<open>Properties\<close>


definition demo_universal :: settings where
  "demo_universal = \<lparr>intake_mode = Universal, job_lease_seconds = 60, job_max_attempts = 3,
     job_retry_base_seconds = 5, setting_value = (\<lambda>_. PInt 1)\<rparr>"

definition demo_reg :: registry where
  "demo_reg = \<lparr>reg_process = [u ''pdf''], reg_limits = [], reg_flags = [],
     reg_sandbox = \<lparr>sb_verified = True, sb_backend = Some (u ''b''), sb_evidence_digest = Some []\<rparr>,
     reg_schema = registry_schema, reg_version = 1, reg_registry_digest = u ''r'', reg_capabilities_digest = u ''c''\<rparr>"

definition demo_lease :: worker_lease where
  "demo_lease = \<lparr>wl_worker_id = u ''w'', wl_registry_digest = u ''r'', wl_capabilities_digest = u ''c'',
     wl_sandbox_verified = True, wl_heartbeat_at = 10, wl_expires_at = 20\<rparr>"


text \<open>
  A registry built for universal mode is canonical (sorted, distinct, well-formed keys and
  limits), carries verified sandbox evidence and advertises every format the legacy path accepts;
  one built for legacy mode advertises nothing.\<close>

lemma built_registries_are_sound:
  assumes "build_capability_registry digest st probe = Inr r"
  shows "registry_wf r \<and> (intake_mode st = Universal \<longrightarrow> sandbox_verified r
      \<and> set legacy_required_process_formats \<subseteq> set (reg_process r))
    \<and> (intake_mode st = Legacy \<longrightarrow> reg_process r = [] \<and> \<not> sandbox_verified r)"
proof (cases "intake_mode st")
  case Legacy
  then have mk: "mk_registry digest [] (settings_limits st)
      [(u ''intake_mode'', PStr (intake_mode_value Legacy)), (u ''safe_fallback_enabled'', PBool False),
       (u ''universal_activation_enabled'', PBool False)] phase_one_sandbox_evidence registry_schema 1 = Inr r"
    using assms by (simp add: build_capability_registry_def)
  show ?thesis
    using mk_registry_process [OF mk] mk_registry_wf [OF mk] Legacy
    by (simp add: sandbox_verified_def phase_one_sandbox_evidence_def)
next
  case Universal
  then obtain p cand where cand: "build_activation_candidate_registry digest st p = Inr cand"
    and mk: "mk_registry digest (reg_process cand) (settings_limits st)
        [(u ''intake_mode'', PStr (intake_mode_value Universal)), (u ''safe_fallback_enabled'', PBool True),
         (u ''universal_activation_enabled'', PBool True)] (reg_sandbox cand) registry_schema 1 = Inr r"
    using assms by (auto simp: build_capability_registry_def res_simps split: option.splits if_splits)
  have "set (reg_process r) = set (reg_process cand)" "reg_sandbox r = reg_sandbox cand"
    using mk_registry_process [OF mk] by simp_all
  then show ?thesis
    using build_activation_candidate_Inr [OF cand] mk_registry_wf [OF mk] Universal
    by (simp add: sandbox_verified_def)
qed

definition demo_legacy :: settings where
  "demo_legacy = demo_universal\<lparr>intake_mode := Legacy\<rparr>"

lemma built_registries_are_sound_witness:
  "\<exists>r. build_capability_registry (\<lambda>_. u ''d'') demo_legacy None = Inr r \<and> registry_wf r \<and> reg_process r = []"
proof -
  have "canonical_limits (settings_limits demo_legacy) = Inr (sort_key fst (settings_limits demo_legacy))"
    using canonical_entries_complete [of "settings_limits demo_legacy" "[]" limit_ok] capability_limit_fields_ok
    by (simp add: canonical_limits_def settings_limits_def demo_legacy_def demo_universal_def comp_def
        list_all_iff)
  then have "ok (build_capability_registry (\<lambda>_. u ''d'') demo_legacy None)"
    by (simp add: build_capability_registry_def mk_registry_def canonical_flags_def demo_legacy_def
        setting_key_def u_def is_lower_alnum_def is_ascii_digit_def)
  then obtain r where r: "build_capability_registry (\<lambda>_. u ''d'') demo_legacy None = Inr r"
    by (auto simp: ok_iff)
  then show ?thesis using built_registries_are_sound [OF r] by (simp add: demo_legacy_def)
qed

text \<open>
  A worker's heartbeat keeps one lease per worker, every lease with canonical digests and an
  expiry after its heartbeat, and afterwards that worker holds exactly the evidence it sent.\<close>

lemma refresh_keeps_one_lease_per_worker:
  assumes "leases_ok leases" "refresh w rd cd verified hb ex leases = Inr leases'"
  shows "leases_ok leases' \<and> (\<exists>l \<in> set leases'. wl_worker_id l = strip w \<and> wl_expires_at l = ex
      \<and> wl_heartbeat_at l = hb \<and> wl_sandbox_verified l = verified)
    \<and> (\<forall>l \<in> set leases. wl_worker_id l \<noteq> strip w \<longrightarrow> l \<in> set leases')"
proof -
  obtain r c where rc: "repo_optional_digest rd = Inr (Some r)" "repo_optional_digest cd = Inr (Some c)"
    and lt: "hb < ex"
    and res: "leases' = (let row = \<lparr>wl_worker_id = strip w, wl_registry_digest = r, wl_capabilities_digest = c,
        wl_sandbox_verified = verified, wl_heartbeat_at = hb, wl_expires_at = ex\<rparr>
      in if \<exists>l \<in> set leases. wl_worker_id l = strip w
         then map (\<lambda>l. if wl_worker_id l = strip w then row else l) leases else leases @ [row])"
    using assms(2)
    by (auto simp: refresh_def clean_text_def res_simps Let_def)
  have hex: "is_sha256_hex r" "is_sha256_hex c" using rc repo_optional_digest_Some by blast+
  define row where "row = \<lparr>wl_worker_id = strip w, wl_registry_digest = r, wl_capabilities_digest = c,
        wl_sandbox_verified = verified, wl_heartbeat_at = hb, wl_expires_at = ex\<rparr>"
  show ?thesis
  proof (cases "\<exists>l \<in> set leases. wl_worker_id l = strip w")
    case True
    then have l': "leases' = map (\<lambda>l. if wl_worker_id l = strip w then row else l) leases"
      using res by (simp add: row_def)
    have "map wl_worker_id leases' = map wl_worker_id leases" unfolding l' by (auto simp: row_def)
    then have "distinct (map wl_worker_id leases')" using assms(1) by (simp add: leases_ok_def)
    moreover have "\<forall>l \<in> set leases'. wl_heartbeat_at l < wl_expires_at l
        \<and> is_sha256_hex (wl_registry_digest l) \<and> is_sha256_hex (wl_capabilities_digest l)"
      using assms(1) hex lt unfolding leases_ok_def l' by (auto simp: row_def)
    ultimately have "leases_ok leases'" by (simp add: leases_ok_def)
    moreover have "row \<in> set leases'" using True unfolding l' by force
    ultimately show ?thesis unfolding l' by (auto simp: row_def intro!: bexI [of _ row])
  next
    case False
    then have "leases' = leases @ [row]" using res by (simp add: row_def)
    with False assms(1) hex lt show ?thesis by (auto simp: leases_ok_def row_def)
  qed
qed

lemma refresh_keeps_one_lease_per_worker_witness:
  "\<exists>ls. refresh (u '' w1 '') (PStr (replicate 64 97)) (PStr (replicate 64 98)) True 10 20 [] = Inr ls
     \<and> leases_ok ls \<and> (\<exists>l \<in> set ls. wl_worker_id l = u ''w1'')"
proof -
  have hex: "strip (replicate 64 97) = replicate 64 97" "strip (replicate 64 98) = replicate 64 98"
    "is_sha256_hex (replicate 64 97)" "is_sha256_hex (replicate 64 98)" "strip (u '' w1 '') = u ''w1''"
    by (rule strip_no_space, simp add: list_all_iff is_space_def)+
       (simp_all add: is_sha256_hex_def is_lower_hex_def is_ascii_digit_def list_all_iff strip_def is_space_def u_def)
  obtain ls where run: "refresh (u '' w1 '') (PStr (replicate 64 97)) (PStr (replicate 64 98)) True 10 20 [] = Inr ls"
    by (simp add: refresh_def clean_text_def hex Let_def)
  have "leases_ok []" by (simp add: leases_ok_def)
  from refresh_keeps_one_lease_per_worker [OF this run] run hex(5) show ?thesis by auto
qed

end
