(* ===== verification/Chunking.thy ===== *)
theory Chunking
  imports Ingest_Limits Py_Text
begin

text \<open>
  Heading-aware chunking for semantic retrieval, \<^verbatim>\<open>src/clerksan/search/chunking.py\<close>. The regular
  expressions of the module are small enough to be definitions of their own: a heading is one to
  six hashes followed by white space and at least one more character, a sentence ends after one of
  six punctuation marks. \<^verbatim>\<open>str.splitlines\<close> breaks at the line boundaries of the language.
\<close>

subsection \<open>Token estimate\<close>

definition is_cjk :: "nat \<Rightarrow> bool" where
  "is_cjk c \<longleftrightarrow> (12352 \<le> c \<and> c \<le> 12543) \<or> (13312 \<le> c \<and> c \<le> 19903) \<or> (19968 \<le> c \<and> c \<le> 40959)
     \<or> (65280 \<le> c \<and> c \<le> 65519)"

definition is_word :: "nat \<Rightarrow> bool" where
  "is_word c \<longleftrightarrow> is_ascii_letter c \<or> is_ascii_digit c \<or> c = 95"

function estimate_tokens :: "pystr \<Rightarrow> nat" where
  "estimate_tokens [] = 0"
| "estimate_tokens (c # cs) =
     (if is_space c then estimate_tokens cs
      else if is_cjk c then 1 + estimate_tokens cs
      else if is_word c then
        max 1 ((length (takeWhile is_word (c # cs)) + 3) div 4) + estimate_tokens (dropWhile is_word cs)
      else 1 + estimate_tokens cs)"
  by pat_completeness auto

termination estimate_tokens
  by (relation "measure length") (auto simp: le_imp_less_Suc length_dropWhile_le)

declare estimate_tokens.simps(2) [simp del]

subsection \<open>Sections\<close>

definition is_line_break :: "nat \<Rightarrow> bool" where
  "is_line_break c \<longleftrightarrow> (10 \<le> c \<and> c \<le> 13) \<or> (28 \<le> c \<and> c \<le> 30) \<or> c = 133 \<or> c = 8232 \<or> c = 8233"

fun splitlines :: "pystr \<Rightarrow> pystr \<Rightarrow> pystr list" where
  "splitlines [] cur = (if cur = [] then [] else [cur])"
| "splitlines (c # cs) cur =
     (if is_line_break c then
        cur # splitlines (if c = 13 \<and> starts [10] cs then drop 1 cs else cs) []
      else splitlines cs (cur @ [c]))"

definition heading :: "pystr \<Rightarrow> (nat \<times> pystr) option" where
  "heading line =
     (let hashes = takeWhile (\<lambda>c. c = 35) line; rest = dropWhile (\<lambda>c. c = 35) line
      in if 1 \<le> length hashes \<and> length hashes \<le> 6 \<and> 2 \<le> length rest \<and> is_space (hd rest)
         then Some (length hashes, strip rest) else None)"

definition nonblank :: "pystr \<Rightarrow> bool" where
  "nonblank s \<longleftrightarrow> strip s \<noteq> []"

definition section_of :: "pystr list \<Rightarrow> pystr list \<Rightarrow> (pystr \<times> pystr list) list" where
  "section_of path lines = (if list_ex nonblank lines then [(join (u '' > '') path, lines)] else [])"

fun sections_from :: "pystr list \<Rightarrow> pystr list \<Rightarrow> pystr list \<Rightarrow> (pystr \<times> pystr list) list" where
  "sections_from path lines [] = section_of path lines"
| "sections_from path lines (l # ls) =
     (case heading l of
        None \<Rightarrow> sections_from path (lines @ [l]) ls
      | Some (level, title) \<Rightarrow>
          section_of path lines @ sections_from (take (level - 1) path @ [title]) [] ls)"

definition sections :: "pystr \<Rightarrow> (pystr \<times> pystr list) list" where
  "sections body = sections_from [] [] (splitlines body [])"

subsection \<open>Blocks\<close>

definition is_table_line :: "pystr \<Rightarrow> bool" where
  "is_table_line line \<longleftrightarrow> (let s = strip line in starts [124] s \<and> 2 \<le> length (filter (\<lambda>c. c = 124) s))"

definition flush :: "pystr list \<Rightarrow> bool \<Rightarrow> (pystr \<times> bool) list" where
  "flush current is_table =
     (let text = strip (join [10] current) in if text = [] then [] else [(text, is_table)])"

fun blocks_from :: "pystr list \<Rightarrow> bool \<Rightarrow> pystr list \<Rightarrow> (pystr \<times> bool) list" where
  "blocks_from current is_table [] = flush current is_table"
| "blocks_from current is_table (l # ls) =
     (if \<not> nonblank l then flush current is_table @ blocks_from [] False ls
      else if current \<noteq> [] \<and> is_table_line l \<noteq> is_table then
        flush current is_table @ blocks_from [l] (is_table_line l) ls
      else blocks_from (current @ [l]) (is_table_line l) ls)"

definition paragraph_blocks :: "pystr list \<Rightarrow> (pystr \<times> bool) list" where
  "paragraph_blocks lines = blocks_from [] False lines"

subsection \<open>Splitting a long paragraph\<close>

definition is_sentence_end :: "nat \<Rightarrow> bool" where
  "is_sentence_end c \<longleftrightarrow> c \<in> {12290, 65281, 65311, 46, 33, 63}"

fun split_after :: "pystr \<Rightarrow> pystr \<Rightarrow> pystr list" where
  "split_after cur [] = [cur]"
| "split_after cur (c # cs) =
     (if is_sentence_end c then (cur @ [c]) # split_after [] cs else split_after (cur @ [c]) cs)"

definition split_sentences :: "pystr \<Rightarrow> pystr list" where
  "split_sentences text = filter (\<lambda>s. s \<noteq> []) (map strip (split_after [] text))"

fun hard_split_from :: "nat \<Rightarrow> pystr \<Rightarrow> pystr \<Rightarrow> pystr list" where
  "hard_split_from max_tokens current [] = (if nonblank current then [strip current] else [])"
| "hard_split_from max_tokens current (c # cs) =
     (if current \<noteq> [] \<and> max_tokens < estimate_tokens (current @ [c])
      then strip current # hard_split_from max_tokens [c] cs
      else hard_split_from max_tokens (current @ [c]) cs)"

definition hard_split :: "pystr \<Rightarrow> nat \<Rightarrow> pystr list" where
  "hard_split text max_tokens = hard_split_from max_tokens [] text"

definition joined :: "pystr list \<Rightarrow> pystr list" where
  "joined current = (if current = [] then [] else [join [32] current])"

fun pack_sentences :: "nat \<Rightarrow> pystr list \<Rightarrow> nat \<Rightarrow> pystr list \<Rightarrow> pystr list" where
  "pack_sentences max_tokens current n [] = joined current"
| "pack_sentences max_tokens current n (s # ss) =
     (let t = estimate_tokens s; sep = (if current = [] then 0 else 1) in
      if max_tokens < t then joined current @ hard_split s max_tokens @ pack_sentences max_tokens [] 0 ss
      else if current \<noteq> [] \<and> max_tokens < n + sep + t then
        join [32] current # pack_sentences max_tokens [s] (t + sep) ss
      else pack_sentences max_tokens (current @ [s]) (n + (t + sep)) ss)"

definition split_large_paragraph :: "pystr \<Rightarrow> nat \<Rightarrow> pystr list" where
  "split_large_paragraph text max_tokens =
     (let sentences = split_sentences text in
      if length sentences \<le> 1 then hard_split text max_tokens
      else pack_sentences max_tokens [] 0 sentences)"

subsection \<open>Chunks\<close>

record chunk =
  ch_seq :: nat
  ch_heading_path :: pystr
  ch_text :: pystr
  ch_token_count :: nat

definition make_chunk :: "pystr \<Rightarrow> pystr list \<Rightarrow> chunk res" where
  "make_chunk path parts =
     (let text = strip (join [10, 10] parts); n = estimate_tokens text in
      if text = [] \<or> n < 1 then Inl (ValueError ''chunk validation'')
      else Inr \<lparr>ch_seq = 0, ch_heading_path = path, ch_text = text, ch_token_count = n\<rparr>)"

fun block_pieces :: "nat \<Rightarrow> (pystr \<times> bool) list \<Rightarrow> pystr list res" where
  "block_pieces max_tokens [] = Inr []"
| "block_pieces max_tokens ((block, is_table) # bs) =
     (if estimate_tokens block \<le> max_tokens then
        rbind (block_pieces max_tokens bs) (\<lambda>ps. Inr (block # ps))
      else if is_table then Inl ChunkingError
      else rbind (block_pieces max_tokens bs) (\<lambda>ps. Inr (split_large_paragraph block max_tokens @ ps)))"

fun pack_pieces :: "nat \<Rightarrow> pystr \<Rightarrow> pystr list \<Rightarrow> nat \<Rightarrow> pystr list \<Rightarrow> chunk list res" where
  "pack_pieces max_tokens path current n [] =
     (if current = [] then Inr [] else rbind (make_chunk path current) (\<lambda>c. Inr [c]))"
| "pack_pieces max_tokens path current n (p # ps) =
     (let t = estimate_tokens p; sep = (if current = [] then 0 else 1) in
      if current \<noteq> [] \<and> max_tokens < n + sep + t then
        rbind (make_chunk path current) (\<lambda>c.
        rbind (pack_pieces max_tokens path [p] (t + sep) ps) (\<lambda>cs. Inr (c # cs)))
      else pack_pieces max_tokens path (current @ [p]) (n + (t + sep)) ps)"

definition chunk_section :: "nat \<Rightarrow> pystr \<times> pystr list \<Rightarrow> chunk list res" where
  "chunk_section max_tokens sec = (case sec of (path, lines) \<Rightarrow>
     rbind (block_pieces max_tokens (paragraph_blocks lines)) (\<lambda>pieces.
       pack_pieces max_tokens path [] 0 pieces))"

definition renumber :: "chunk list \<Rightarrow> chunk list" where
  "renumber cs = map (\<lambda>(i, c). c\<lparr>ch_seq := i\<rparr>) (zip [0..<length cs] cs)"

definition chunk_document :: "pystr \<Rightarrow> int \<Rightarrow> chunk list res" where
  "chunk_document body max_tokens =
     (if max_tokens < 1 then Inl (ValueError ''max_tokens must be greater than zero'')
      else rbind (rmap (chunk_section (nat max_tokens)) (sections body)) (\<lambda>css.
             Inr (renumber (concat css))))"

end
