(* ===== verification/Chunking_Props.thy ===== *)
theory Chunking_Props
  imports Chunking
begin

text \<open>
  Correctness of the chunker: every chunk fits the token budget, the chunks are numbered in order,
  no visible character outside the headings is lost, duplicated or moved, and an oversized table is
  the only reason for a failure. The token estimate and the visible text of a string share one
  contract, \<open>space_measure\<close>: white space carries no measure and separates.
\<close>

subsection \<open>Measures that white space separates\<close>

locale space_measure =
  fixes mu :: "pystr \<Rightarrow> 'm" and add :: "'m \<Rightarrow> 'm \<Rightarrow> 'm" and zero :: 'm
  assumes mu_Nil: "mu [] = zero"
    and mu_space: "is_space c \<Longrightarrow> mu (c # s) = mu s"
    and mu_sep: "is_space c \<Longrightarrow> mu (s @ c # t) = add (mu s) (mu t)"
    and add_zero: "add x zero = x"
begin

lemma mu_all_space: "list_all is_space s \<Longrightarrow> mu s = zero"
  by (induction s) (simp_all add: mu_Nil mu_space)

lemma mu_lspace: "list_all is_space w \<Longrightarrow> mu (w @ s) = mu s"
  by (induction w) (simp_all add: mu_space)

lemma mu_rspace: "list_all is_space w \<Longrightarrow> mu (s @ w) = mu s"
  by (cases w) (simp_all add: mu_sep mu_all_space add_zero)

lemma mu_strip: "mu (strip s) = mu s"
proof -
  define t where "t = dropWhile is_space s"
  have s: "s = takeWhile is_space s @ t" by (simp add: t_def)
  have t: "t = strip s @ rev (takeWhile is_space (rev t))"
    unfolding strip_def t_def [symmetric] by (metis rev_append rev_rev_ident takeWhile_dropWhile_id)
  have "mu t = mu (strip s)"
    by (subst t, rule mu_rspace) (auto simp: list_all_iff dest: set_takeWhileD)
  moreover have "mu s = mu t"
    by (subst s, rule mu_lspace) (auto simp: list_all_iff dest: set_takeWhileD)
  ultimately show ?thesis by simp
qed

lemma mu_join:
  assumes "is_space c" and "list_all is_space sep"
  shows "mu (join (c # sep) parts) = foldr add (map mu parts) zero"
proof (cases parts)
  case Nil
  then show ?thesis by (simp add: join_def mu_Nil)
next
  case (Cons p ps)
  have "mu (p @ concat (map (\<lambda>q. (c # sep) @ q) ps)) = foldr add (map mu (p # ps)) zero"
  proof (induction ps arbitrary: p)
    case Nil
    then show ?case by (simp add: add_zero)
  next
    case (Cons q qs)
    have "mu (p @ c # (sep @ (q @ concat (map (\<lambda>q. (c # sep) @ q) qs))))
        = add (mu p) (mu (q @ concat (map (\<lambda>q. (c # sep) @ q) qs)))"
      using assms mu_lspace by (simp add: mu_sep)
    with Cons.IH show ?case by simp
  qed
  then have "mu (join (c # sep) (p # ps)) = foldr add (map mu (p # ps)) zero"
    by (simp only: join_def list.case)
  with Cons show ?thesis by simp
qed

end

subsection \<open>The token estimate\<close>

lemma space_not_word: "is_space c \<Longrightarrow> \<not> is_word c"
  by (auto simp: is_space_def is_word_def is_ascii_letter_def is_ascii_digit_def)

lemma estimate_space [simp]: "is_space c \<Longrightarrow> estimate_tokens (c # s) = estimate_tokens s"
  by (simp add: estimate_tokens.simps(2))

lemma estimate_sep:
  "is_space c \<Longrightarrow> estimate_tokens (s @ c # t) = estimate_tokens s + estimate_tokens t"
proof (induction s rule: estimate_tokens.induct)
  case 1
  then show ?case by simp
next
  case (2 d ds)
  have "\<not> is_word c" using 2(5) by (rule space_not_word)
  then have take: "takeWhile is_word (ds @ c # t) = takeWhile is_word ds"
    and drop: "dropWhile is_word (ds @ c # t) = dropWhile is_word ds @ c # t"
    by (auto simp: takeWhile_append dropWhile_append takeWhile_eq_all_conv [THEN iffD2])
  show ?case using 2 take drop by (simp add: estimate_tokens.simps(2) [of d])
qed

interpretation tokens: space_measure estimate_tokens "(+)" 0
  by unfold_locales (simp_all add: estimate_sep)

lemma estimate_single: "estimate_tokens [c] \<le> Suc 0"
  by (simp add: estimate_tokens.simps(2))

lemma estimate_snoc: "estimate_tokens (s @ [c]) \<le> Suc (estimate_tokens s)"
proof (induction s rule: estimate_tokens.induct)
  case 1
  then show ?case by (simp add: estimate_tokens.simps(2))
next
  case (2 d ds)
  show ?case
  proof (cases "is_word d \<and> \<not> is_space d \<and> \<not> is_cjk d")
    case False
    then show ?thesis using 2 by (auto simp: estimate_tokens.simps(2) [of d])
  next
    case True
    show ?thesis
    proof (cases "list_all is_word ds")
      case False
      then have "takeWhile is_word (ds @ [c]) = takeWhile is_word ds"
        and "dropWhile is_word (ds @ [c]) = dropWhile is_word ds @ [c]"
        by (auto simp: list_all_iff takeWhile_append1 dropWhile_append1)
      then show ?thesis using 2(3) True by (simp add: estimate_tokens.simps(2) [of d])
    next
      case all: True
      then have "takeWhile is_word ds = ds" and "dropWhile is_word ds = []"
        by (auto simp: list_all_iff takeWhile_eq_all_conv)
      moreover have "takeWhile is_word (ds @ [c]) = ds @ (if is_word c then [c] else [])"
        and "dropWhile is_word (ds @ [c]) = (if is_word c then [] else [c])"
        using all by (auto simp: list_all_iff takeWhile_append2 dropWhile_append2)
      ultimately show ?thesis using True
        by (simp only: estimate_tokens.simps append_Cons takeWhile.simps if_True if_False length_append
            list.size) (auto simp: estimate_single)
    qed
  qed
qed

lemma estimate_pos: "strip s \<noteq> [] \<Longrightarrow> 1 \<le> estimate_tokens s"
proof -
  assume ne: "strip s \<noteq> []"
  then obtain c cs where "strip s = c # cs" by (cases "strip s") auto
  moreover then have "\<not> is_space c" using strip_hd [OF ne] by simp
  ultimately have "1 \<le> estimate_tokens (strip s)" by (simp add: estimate_tokens.simps(2))
  then show ?thesis by (simp add: tokens.mu_strip)
qed

subsection \<open>Visible text\<close>

definition visible :: "pystr \<Rightarrow> pystr" where
  "visible s = filter (\<lambda>c. \<not> is_space c) s"

definition visible_all :: "pystr list \<Rightarrow> pystr" where
  "visible_all ss = concat (map visible ss)"

lemma visible_simps [simp]:
  "visible [] = []" "visible (s @ t) = visible s @ visible t"
  "visible_all [] = []" "visible_all (s # ss) = visible s @ visible_all ss"
  "visible_all (ss @ ts) = visible_all ss @ visible_all ts"
  by (simp_all add: visible_def visible_all_def)

interpretation vis: space_measure visible "(@)" "[]"
  by unfold_locales (simp_all add: visible_def)

lemma visible_all_foldr: "foldr (@) (map visible ss) [] = visible_all ss"
  by (induction ss) simp_all

lemma is_space_seps [simp]: "is_space 10" "is_space 32"
  by (simp_all add: is_space_def)

lemma visible_join [simp]:
  "visible (join [10] ss) = visible_all ss" "visible (join [32] ss) = visible_all ss"
  "visible (join [10, 10] ss) = visible_all ss"
  by (simp_all add: vis.mu_join visible_all_foldr)

lemma visible_strip [simp]: "visible (strip s) = visible s"
  by (rule vis.mu_strip)

lemma visible_Nil_iff: "visible s = [] \<longleftrightarrow> strip s = []"
proof
  assume "visible s = []"
  then have "visible (strip s) = []" by simp
  then show "strip s = []" using strip_hd [of s]
    by (cases "strip s") (auto simp: visible_def)
qed (metis visible_strip visible_simps(1))

subsection \<open>Splitting loses no visible character\<close>

lemma visible_splitlines: "visible_all (splitlines s cur) = visible cur @ visible s"
proof (induction s cur rule: splitlines.induct)
  case (1 cur)
  then show ?case by simp
next
  case (2 c cs cur)
  show ?case
  proof (cases "is_line_break c")
    case True
    then have c: "visible (c # cs) = visible cs"
      by (intro vis.mu_space) (auto simp: is_line_break_def is_space_def)
    have "visible (if c = 13 \<and> starts [10] cs then drop 1 cs else cs) = visible cs"
      by (auto simp: vis.mu_space split: list.splits)
    with True c 2 show ?thesis by simp
  next
    case False
    with 2 show ?thesis by (simp add: visible_def)
  qed
qed

lemma visible_section_of: "concat (map (\<lambda>sec. visible_all (snd sec)) (section_of path lines)) = visible_all lines"
proof (cases "list_ex nonblank lines")
  case False
  then have "visible_all lines = []"
    by (auto simp: visible_all_def list_ex_iff nonblank_def visible_Nil_iff)
  with False show ?thesis by (simp add: section_of_def)
qed (simp add: section_of_def)

lemma visible_sections_from:
  "concat (map (\<lambda>sec. visible_all (snd sec)) (sections_from path lines ls))
   = visible_all lines @ visible_all (filter (\<lambda>l. heading l = None) ls)"
  by (induction path lines ls rule: sections_from.induct)
     (simp_all add: visible_section_of split: option.splits)

lemma visible_flush: "visible_all (map fst (flush current t)) = visible_all current"
  using visible_Nil_iff [of "join [10] current"] by (auto simp: flush_def Let_def)

lemma visible_blank: "\<not> nonblank l \<Longrightarrow> visible l = []"
  by (simp add: nonblank_def visible_Nil_iff)

lemma visible_blocks_from:
  "visible_all (map fst (blocks_from current t ls)) = visible_all current @ visible_all ls"
  by (induction current t ls rule: blocks_from.induct) (simp_all add: visible_flush visible_blank)

lemma visible_split_after: "visible_all (split_after cur s) = visible cur @ visible s"
  by (induction cur s rule: split_after.induct) (simp_all add: visible_def)

lemma visible_all_strip: "visible_all (filter (\<lambda>s. s \<noteq> []) (map strip ss)) = visible_all ss"
  by (induction ss) (simp_all add: visible_Nil_iff [symmetric])

lemma visible_sentences: "visible_all (split_sentences s) = visible s"
  by (simp add: split_sentences_def visible_all_strip visible_split_after)

lemma visible_hard_split: "visible_all (hard_split_from m cur s) = visible cur @ visible s"
  by (induction m cur s rule: hard_split_from.induct)
     (simp_all add: visible_blank, simp_all add: visible_def)

lemma visible_pack_sentences:
  "visible_all (pack_sentences m cur n ss) = visible_all cur @ visible_all ss"
  by (induction m cur n ss rule: pack_sentences.induct)
     (simp_all add: joined_def Let_def hard_split_def visible_hard_split)

lemma visible_split_large: "visible_all (split_large_paragraph s m) = visible s"
  by (simp add: split_large_paragraph_def Let_def hard_split_def visible_hard_split
      visible_pack_sentences visible_sentences)

subsection \<open>Pieces fit the budget\<close>

definition piece_ok :: "nat \<Rightarrow> pystr \<Rightarrow> bool" where
  "piece_ok m p \<longleftrightarrow> strip p \<noteq> [] \<and> estimate_tokens p \<le> m"

lemma piece_ok_strip [simp]: "piece_ok m (strip p) = piece_ok m p"
  by (simp add: piece_ok_def tokens.mu_strip)

lemma estimate_blank: "strip s = [] \<Longrightarrow> estimate_tokens s = 0"
  using tokens.mu_strip [of s] by simp

lemma estimate_join:
  "estimate_tokens (join [32] ps) = sum_list (map estimate_tokens ps)"
  "estimate_tokens (join [10, 10] ps) = sum_list (map estimate_tokens ps)"
  by (simp_all add: tokens.mu_join sum_list.eq_foldr)

lemma visible_all_Nil: "list_all (piece_ok m) ps \<Longrightarrow> visible_all ps = [] \<longleftrightarrow> ps = []"
  by (cases ps) (auto simp: piece_ok_def visible_Nil_iff)

lemma strip_join:
  assumes "list_all (piece_ok m) ps" and "ps \<noteq> []"
  shows "strip (join [32] ps) \<noteq> []" and "strip (join [10, 10] ps) \<noteq> []"
  using visible_all_Nil [OF assms(1)] assms(2) by (simp_all add: visible_Nil_iff [symmetric])

lemma hard_split_ok:
  "\<lbrakk>1 \<le> m; estimate_tokens cur \<le> m\<rbrakk> \<Longrightarrow> list_all (piece_ok m) (hard_split_from m cur s)"
proof (induction m cur s rule: hard_split_from.induct)
  case (1 m cur)
  then show ?case by (simp add: piece_ok_def nonblank_def tokens.mu_strip)
next
  case (2 m cur c cs)
  have one: "estimate_tokens [c] \<le> m" using estimate_single [of c] 2(3) by simp
  have "strip cur \<noteq> []" if "m < estimate_tokens (cur @ [c])"
    using that estimate_snoc [of cur c] estimate_blank [of cur] 2(3) by auto
  with 2 one show ?case by (auto simp: piece_ok_def tokens.mu_strip)
qed

lemma sentences_ok: "s \<in> set (split_sentences t) \<Longrightarrow> strip s \<noteq> []"
  by (auto simp: split_sentences_def)

lemma joined_ok:
  "\<lbrakk>list_all (piece_ok m) cur; sum_list (map estimate_tokens cur) \<le> m\<rbrakk>
   \<Longrightarrow> list_all (piece_ok m) (joined cur)"
  by (simp add: joined_def piece_ok_def [of _ "join [32] cur"] estimate_join strip_join)

lemma pack_sentences_ok:
  "\<lbrakk>1 \<le> m; list_all (piece_ok m) cur; sum_list (map estimate_tokens cur) \<le> m;
    sum_list (map estimate_tokens cur) \<le> n; \<forall>s \<in> set ss. strip s \<noteq> []\<rbrakk>
   \<Longrightarrow> list_all (piece_ok m) (pack_sentences m cur n ss)"
proof (induction m cur n ss rule: pack_sentences.induct)
  case (1 m cur n)
  then show ?case by (simp add: joined_ok)
next
  case (2 m cur n s ss)
  have j: "list_all (piece_ok m) (joined cur)" using 2 by (simp add: joined_ok)
  show ?case
  proof (cases "m < estimate_tokens s")
    case True
    then show ?thesis using 2 j by (simp add: hard_split_def hard_split_ok Let_def)
  next
    case False
    then have s: "piece_ok m s" using 2 by (simp add: piece_ok_def)
    show ?thesis
    proof (cases "cur \<noteq> [] \<and> m < n + 1 + estimate_tokens s")
      case True
      then show ?thesis using 2 j s \<open>\<not> m < _\<close> by (simp add: joined_def Let_def)
    next
      case fits: False
      then show ?thesis using 2 s \<open>\<not> m < _\<close> by (cases "cur = []") (simp_all add: Let_def)
    qed
  qed
qed

lemma split_large_ok: "1 \<le> m \<Longrightarrow> list_all (piece_ok m) (split_large_paragraph s m)"
  by (simp add: split_large_paragraph_def Let_def hard_split_def hard_split_ok pack_sentences_ok sentences_ok)

lemma flush_ok: "(b, t) \<in> set (flush cur it) \<Longrightarrow> strip b \<noteq> []"
  by (auto simp: flush_def Let_def split: if_splits)

lemma blocks_ok: "(b, t) \<in> set (blocks_from cur it ls) \<Longrightarrow> strip b \<noteq> []"
  by (induction cur it ls rule: blocks_from.induct) (auto dest: flush_ok split: if_splits)

subsection \<open>Chunks of a section\<close>

definition chunk_ok :: "nat \<Rightarrow> chunk \<Rightarrow> bool" where
  "chunk_ok m c \<longleftrightarrow> 1 \<le> ch_token_count c \<and> ch_token_count c \<le> m
     \<and> ch_token_count c = estimate_tokens (ch_text c)"

definition chunk_text :: "chunk list \<Rightarrow> pystr" where
  "chunk_text cs = visible_all (map ch_text cs)"

lemma make_chunk_ok:
  assumes "list_all (piece_ok m) parts" and "parts \<noteq> []"
    and "sum_list (map estimate_tokens parts) \<le> m"
  obtains c where "make_chunk path parts = Inr c" and "chunk_ok m c"
    and "visible (ch_text c) = visible_all parts"
proof -
  let ?t = "join [10, 10] parts"
  have "strip ?t \<noteq> []" using assms by (simp add: strip_join)
  then have "1 \<le> estimate_tokens (strip ?t)" using estimate_pos [of ?t] by (simp add: tokens.mu_strip)
  then have "make_chunk path parts = Inr \<lparr>ch_seq = 0, ch_heading_path = path, ch_text = strip ?t,
      ch_token_count = estimate_tokens (strip ?t)\<rparr>"
    using \<open>strip ?t \<noteq> []\<close> by (simp only: make_chunk_def Let_def) simp
  then show ?thesis
    by (rule that) (use \<open>1 \<le> _\<close> assms(3) in \<open>simp_all add: chunk_ok_def tokens.mu_strip estimate_join\<close>)
qed

lemma pack_pieces_ok:
  "\<lbrakk>list_all (piece_ok m) cur; sum_list (map estimate_tokens cur) \<le> m;
    sum_list (map estimate_tokens cur) \<le> n; list_all (piece_ok m) ps\<rbrakk>
   \<Longrightarrow> \<exists>cs. pack_pieces m path cur n ps = Inr cs \<and> list_all (chunk_ok m) cs
          \<and> chunk_text cs = visible_all cur @ visible_all ps"
proof (induction m path cur n ps rule: pack_pieces.induct)
  case (1 m path cur n)
  show ?case
  proof (cases "cur = []")
    case False
    obtain c where "make_chunk path cur = Inr c" "chunk_ok m c" "visible (ch_text c) = visible_all cur"
      using make_chunk_ok [OF 1(1) False 1(2)] .
    with False show ?thesis by (simp add: chunk_text_def)
  qed (simp add: chunk_text_def)
next
  case (2 m path cur n p ps)
  have p: "piece_ok m p" "estimate_tokens p \<le> m" using 2(6) by (simp_all add: piece_ok_def)
  show ?case
  proof (cases "cur \<noteq> [] \<and> m < n + 1 + estimate_tokens p")
    case True
    then obtain c where c: "make_chunk path cur = Inr c" "chunk_ok m c" "visible (ch_text c) = visible_all cur"
      using make_chunk_ok [OF 2(3) _ 2(4)] by metis
    obtain cs where "pack_pieces m path [p] (estimate_tokens p + 1) ps = Inr cs"
      "list_all (chunk_ok m) cs" "chunk_text cs = visible_all [p] @ visible_all ps"
      using 2(1) [OF refl refl] True c(1) p 2(6) by auto
    with True c show ?thesis by (simp add: chunk_text_def)
  next
    case False
    then show ?thesis using 2 p by (cases "cur = []") (simp_all add: Let_def)
  qed
qed

definition oversized_table :: "nat \<Rightarrow> pystr \<times> bool \<Rightarrow> bool" where
  "oversized_table m bt \<longleftrightarrow> snd bt \<and> m < estimate_tokens (fst bt)"

lemma block_pieces_error:
  "list_ex (oversized_table m) bs \<Longrightarrow> block_pieces m bs = Inl ChunkingError"
  by (induction m bs rule: block_pieces.induct) (auto simp: oversized_table_def)

lemma block_pieces_ok:
  "\<lbrakk>1 \<le> m; \<not> list_ex (oversized_table m) bs; \<forall>(b, t) \<in> set bs. strip b \<noteq> []\<rbrakk>
   \<Longrightarrow> \<exists>ps. block_pieces m bs = Inr ps \<and> list_all (piece_ok m) ps
          \<and> visible_all ps = visible_all (map fst bs)"
proof (induction m bs rule: block_pieces.induct)
  case (2 m b t bs)
  then obtain ps where "block_pieces m bs = Inr ps" "list_all (piece_ok m) ps"
    "visible_all ps = visible_all (map fst bs)"
    by (cases "estimate_tokens b \<le> m") (auto simp: oversized_table_def)
  with 2(3-5) show ?case
    using split_large_ok [of m b] visible_split_large [of b m]
    by (cases "estimate_tokens b \<le> m") (auto simp: oversized_table_def piece_ok_def [of m b])
qed simp

definition oversized_section :: "nat \<Rightarrow> pystr \<times> pystr list \<Rightarrow> bool" where
  "oversized_section m sec \<longleftrightarrow> list_ex (oversized_table m) (paragraph_blocks (snd sec))"

lemma chunk_section_error: "oversized_section m sec \<Longrightarrow> chunk_section m sec = Inl ChunkingError"
  by (cases sec) (simp add: oversized_section_def chunk_section_def block_pieces_error)

lemma chunk_section_ok:
  assumes "1 \<le> m" and "\<not> oversized_section m sec"
  obtains cs where "chunk_section m sec = Inr cs" and "list_all (chunk_ok m) cs"
    and "chunk_text cs = visible_all (snd sec)"
proof -
  obtain path ls where sec: "sec = (path, ls)" by (cases sec)
  obtain ps where ps: "block_pieces m (paragraph_blocks ls) = Inr ps" "list_all (piece_ok m) ps"
    "visible_all ps = visible_all (map fst (paragraph_blocks ls))"
    using block_pieces_ok [OF assms(1), of "paragraph_blocks ls"] assms(2)
    by (auto simp: sec oversized_section_def paragraph_blocks_def dest: blocks_ok)
  obtain cs where "pack_pieces m path [] 0 ps = Inr cs" "list_all (chunk_ok m) cs"
    "chunk_text cs = visible_all ps"
    using pack_pieces_ok [of m "[]" 0 ps path] ps(2) by auto
  with ps show ?thesis using that
    by (simp add: sec chunk_section_def paragraph_blocks_def visible_blocks_from)
qed

lemma chunk_sections_error:
  "\<lbrakk>1 \<le> m; list_ex (oversized_section m) secs\<rbrakk> \<Longrightarrow> rmap (chunk_section m) secs = Inl ChunkingError"
proof (induction secs)
  case (Cons sec secs)
  show ?case
  proof (cases "oversized_section m sec")
    case False
    obtain cs where "chunk_section m sec = Inr cs" by (rule chunk_section_ok [OF Cons.prems(1) False])
    with False Cons show ?thesis by simp
  qed (simp add: chunk_section_error)
qed simp

lemma chunk_sections_ok:
  "\<lbrakk>1 \<le> m; \<not> list_ex (oversized_section m) secs\<rbrakk>
   \<Longrightarrow> \<exists>css. rmap (chunk_section m) secs = Inr css \<and> list_all (chunk_ok m) (concat css)
          \<and> chunk_text (concat css) = concat (map (\<lambda>sec. visible_all (snd sec)) secs)"
proof (induction secs)
  case (Cons sec secs)
  then obtain css where "rmap (chunk_section m) secs = Inr css" "list_all (chunk_ok m) (concat css)"
    "chunk_text (concat css) = concat (map (\<lambda>sec. visible_all (snd sec)) secs)" by auto
  moreover obtain cs where "chunk_section m sec = Inr cs" "list_all (chunk_ok m) cs"
    "chunk_text cs = visible_all (snd sec)"
    using chunk_section_ok [of m sec] Cons.prems by auto
  ultimately show ?case by (simp add: chunk_text_def)
qed (simp add: chunk_text_def)

lemma renumber_text: "map ch_text (renumber cs) = map ch_text cs"
  and renumber_count: "map ch_token_count (renumber cs) = map ch_token_count cs"
  and renumber_seq: "map ch_seq (renumber cs) = [0..<length cs]"
  by (rule nth_equalityI; simp add: renumber_def)+

lemma renumber_ok: "list_all (chunk_ok m) (renumber cs) = list_all (chunk_ok m) cs"
  by (simp add: renumber_def chunk_ok_def list_all_length)

lemma length_renumber [simp]: "length (renumber cs) = length cs"
  by (simp add: renumber_def)

lemma chunk_document_cases:
  assumes "1 \<le> max_tokens"
  shows "if list_ex (oversized_section (nat max_tokens)) (sections body)
    then chunk_document body max_tokens = Inl ChunkingError
    else \<exists>cs. chunk_document body max_tokens = Inr (renumber cs) \<and> list_all (chunk_ok (nat max_tokens)) cs
           \<and> chunk_text cs = visible_all (filter (\<lambda>l. heading l = None) (splitlines body []))"
proof -
  have m: "1 \<le> nat max_tokens" using assms by simp
  show ?thesis
    using chunk_sections_error [OF m, of "sections body"] chunk_sections_ok [OF m, of "sections body"] assms
    by (cases "list_ex (oversized_section (nat max_tokens)) (sections body)")
       (auto 0 3 simp: chunk_document_def sections_def visible_sections_from)
qed

lemma chunk_document_Inr:
  assumes "chunk_document body max_tokens = Inr cs"
  shows "1 \<le> max_tokens" and "list_all (chunk_ok (nat max_tokens)) cs"
    and "map ch_seq cs = [0..<length cs]"
    and "chunk_text cs = visible_all (filter (\<lambda>l. heading l = None) (splitlines body []))"
proof -
  show 1: "1 \<le> max_tokens" using assms by (simp add: chunk_document_def split: if_splits)
  show "list_all (chunk_ok (nat max_tokens)) cs" and "map ch_seq cs = [0..<length cs]"
    and "chunk_text cs = visible_all (filter (\<lambda>l. heading l = None) (splitlines body []))"
    using chunk_document_cases [OF 1, of body] assms
    by (auto simp: renumber_ok renumber_seq chunk_text_def renumber_text split: if_splits)
qed

subsection \<open>The contract of \<open>chunk_document\<close>\<close>

text \<open>An example document: the heading \<open>A\<close> and the paragraph \<open>b c\<close>.\<close>

definition example_chunk :: chunk where
  "example_chunk = \<lparr>ch_seq = 0, ch_heading_path = [65], ch_text = [98, 32, 99], ch_token_count = 2\<rparr>"

lemma example_document: "chunk_document [35, 32, 65, 10, 98, 32, 99] 2 = Inr [example_chunk]"
  by (simp add: chunk_document_def sections_def is_line_break_def heading_def is_space_def strip_def
      section_of_def join_def nonblank_def chunk_section_def paragraph_blocks_def is_table_line_def
      flush_def estimate_tokens.simps is_cjk_def is_word_def is_ascii_letter_def is_ascii_digit_def
      make_chunk_def renumber_def example_chunk_def Let_def)

text \<open>
  C30. Every chunk the chunker returns costs between one token and the caller's budget, its stored
  count is the estimate of its own text, and the chunks are numbered 0, 1, 2, and so on.
\<close>

theorem chunks_fit_budget:
  assumes "chunk_document body max_tokens = Inr cs"
  shows "map ch_seq cs = [0..<length cs]
    \<and> (\<forall>c \<in> set cs. 1 \<le> ch_token_count c \<and> int (ch_token_count c) \<le> max_tokens
         \<and> ch_token_count c = estimate_tokens (ch_text c))"
  using chunk_document_Inr [OF assms] by (auto simp: list_all_iff chunk_ok_def)

theorem chunks_fit_budget_witness:
  "chunk_document [35, 32, 65, 10, 98, 32, 99] 2 = Inr [example_chunk] \<and> map ch_seq [example_chunk] = [0]
   \<and> int (ch_token_count example_chunk) \<le> 2
   \<and> ch_token_count example_chunk = estimate_tokens (ch_text example_chunk)"
  using chunks_fit_budget [OF example_document] by (simp add: example_document)

text \<open>
  C31. Chunking neither loses nor invents nor reorders text: the visible characters of the chunks,
  in order, are the visible characters of the lines of the body that are not headings.
\<close>

theorem chunks_preserve_text:
  assumes "chunk_document body max_tokens = Inr cs"
  shows "concat (map (\<lambda>c. visible (ch_text c)) cs)
    = concat (map visible (filter (\<lambda>l. heading l = None) (splitlines body [])))"
  using chunk_document_Inr(4) [OF assms] by (simp add: chunk_text_def visible_all_def comp_def)

theorem chunks_preserve_text_witness:
  "concat (map (\<lambda>c. visible (ch_text c)) [example_chunk])
   = concat (map visible (filter (\<lambda>l. heading l = None) (splitlines [35, 32, 65, 10, 98, 32, 99] [])))"
  by (rule chunks_preserve_text [OF example_document])

text \<open>
  C32. Chunking is total: a budget below one is a value error, a table that does not fit the budget
  is a chunking error, and everything else is chunked (in particular the bounds of the chunk class
  never fail).
\<close>

theorem chunking_fails_iff_table_too_large:
  "chunk_document body max_tokens = Inl e \<longleftrightarrow>
     (if max_tokens < 1 then e = ValueError ''max_tokens must be greater than zero''
      else e = ChunkingError \<and> list_ex (\<lambda>sec. list_ex (\<lambda>b. snd b \<and> max_tokens < int (estimate_tokens (fst b)))
             (paragraph_blocks (snd sec))) (sections body))"
proof (cases "max_tokens < 1")
  case True
  then show ?thesis by (auto simp: chunk_document_def)
next
  case False
  then have "(\<lambda>b. snd b \<and> max_tokens < int (estimate_tokens (fst b))) = oversized_table (nat max_tokens)"
    by (auto simp: oversized_table_def fun_eq_iff)
  then have "(\<lambda>sec. list_ex (\<lambda>b. snd b \<and> max_tokens < int (estimate_tokens (fst b))) (paragraph_blocks (snd sec)))
    = oversized_section (nat max_tokens)"
    by (simp add: oversized_section_def fun_eq_iff)
  with False show ?thesis using chunk_document_cases [of max_tokens body]
    by (cases "list_ex (oversized_section (nat max_tokens)) (sections body)") auto
qed

end
