(* ===== verification/Canonical.thy ===== *)
theory Canonical
  imports Py_Text "HOL-Library.List_Lexorder"
begin

text \<open>
  Canonical spellings, \<^verbatim>\<open>src/clerksan/ingest/normalized.py\<close>: the one JSON text used under structural
  and candidate digests, percent-encoded locators, and the validated preview manifest. Two parameters stand for
  code outside the repository: \<open>float_repr\<close> is \<^verbatim>\<open>float.__repr__\<close> on a finite float and \<open>sha256\<close> is
  \<^verbatim>\<open>hashlib.sha256(...).hexdigest()\<close>.
\<close>

subsection \<open>JSON text\<close>

primrec json_ok :: "pyval \<Rightarrow> bool" where
  "json_ok PNone = True"
| "json_ok (PBool b) = True"
| "json_ok (PInt i) = True"
| "json_ok (PFloat x) = True"
| "json_ok PNonFinite = False"
| "json_ok (PStr s) = True"
| "json_ok (PUuid n) = False"
| "json_ok (PObject n) = False"
| "json_ok (PList vs) = list_all id (map json_ok vs)"
| "json_ok (PDict d) = list_all snd (map (map_prod id json_ok) d)"

text \<open>\<^verbatim>\<open>sort_keys=True\<close>, at every level.\<close>

primrec sort_keys :: "pyval \<Rightarrow> pyval" where
  "sort_keys PNone = PNone"
| "sort_keys (PBool b) = PBool b"
| "sort_keys (PInt i) = PInt i"
| "sort_keys (PFloat x) = PFloat x"
| "sort_keys PNonFinite = PNonFinite"
| "sort_keys (PStr s) = PStr s"
| "sort_keys (PUuid n) = PUuid n"
| "sort_keys (PObject n) = PObject n"
| "sort_keys (PList vs) = PList (map sort_keys vs)"
| "sort_keys (PDict d) = PDict (sort_key fst (map (map_prod id sort_keys) d))"

text \<open>\<^verbatim>\<open>ensure_ascii=True\<close>: what is not printable ASCII is escaped, an astral character as a surrogate pair.\<close>

definition json_u :: "nat \<Rightarrow> pystr" where
  "json_u c = (if c < 65536 then hex4 c
     else hex4 (55296 + (c - 65536) div 1024) @ [92, 117] @ hex4 (56320 + (c - 65536) mod 1024))"

definition json_char :: "nat \<Rightarrow> pystr" where
  "json_char c =
     (if c = 34 then [92, 34] else if c = 92 then [92, 92] else if c = 10 then [92, 110]
      else if c = 13 then [92, 114] else if c = 9 then [92, 116] else if c = 12 then [92, 102]
      else if c = 8 then [92, 98]
      else if 32 \<le> c \<and> c \<le> 126 then [c]
      else [92, 117] @ json_u c)"

definition json_string :: "pystr \<Rightarrow> pystr" where
  "json_string s = 34 # concat (map json_char s) @ [34]"

definition json_entry :: "pystr \<times> pystr \<Rightarrow> pystr" where
  "json_entry kt = fst kt @ 58 # snd kt"

primrec dumps :: "(rat \<Rightarrow> pystr) \<Rightarrow> pyval \<Rightarrow> pystr" where
  "dumps float_repr PNone = u ''null''"
| "dumps float_repr (PBool b) = (if b then u ''true'' else u ''false'')"
| "dumps float_repr (PInt i) = int_str i"
| "dumps float_repr (PFloat x) = float_repr x"
| "dumps float_repr PNonFinite = []"
| "dumps float_repr (PStr s) = json_string s"
| "dumps float_repr (PUuid n) = []"
| "dumps float_repr (PObject n) = []"
| "dumps float_repr (PList vs) = 91 # join [44] (map (dumps float_repr) vs) @ [93]"
| "dumps float_repr (PDict d) =
     123 # join [44] (map json_entry (map (map_prod json_string (dumps float_repr)) d)) @ [125]"

definition canonical_json :: "(rat \<Rightarrow> pystr) \<Rightarrow> pyval \<Rightarrow> pystr res" where
  "canonical_json float_repr v =
     (if json_ok v then Inr (dumps float_repr (sort_keys v)) else Inl (ValueError ''value is not canonical JSON''))"

definition canonical_digest :: "(rat \<Rightarrow> pystr) \<Rightarrow> (pystr \<Rightarrow> pystr) \<Rightarrow> pyval \<Rightarrow> pystr res" where
  "canonical_digest float_repr sha256 v = rbind (canonical_json float_repr v) (\<lambda>t. Inr (sha256 t))"

subsection \<open>Locators\<close>

datatype loc_part = LStr pystr | LInt int

fun part_text :: "loc_part \<Rightarrow> pystr" where
  "part_text (LStr s) = s"
| "part_text (LInt i) = int_str i"

definition is_unreserved :: "nat \<Rightarrow> bool" where
  "is_unreserved b \<longleftrightarrow> (65 \<le> b \<and> b \<le> 90) \<or> (97 \<le> b \<and> b \<le> 122) \<or> is_ascii_digit b
     \<or> b = 95 \<or> b = 46 \<or> b = 45 \<or> b = 126"

definition quote_byte :: "nat \<Rightarrow> pystr" where
  "quote_byte b = (if is_unreserved b then [b] else [37, upper_hex_digit (b div 16), upper_hex_digit (b mod 16)])"

definition quote :: "pystr \<Rightarrow> pystr res" where
  "quote s = (case utf8_encode s of None \<Rightarrow> Inl (ValueError ''surrogates not allowed'')
     | Some bs \<Rightarrow> Inr (concat (map quote_byte bs)))"

definition is_kind_char :: "nat \<Rightarrow> bool" where
  "is_kind_char c \<longleftrightarrow> (97 \<le> c \<and> c \<le> 122) \<or> is_ascii_digit c \<or> c = 95 \<or> c = 45"

definition encode_part :: "loc_part \<Rightarrow> pystr res" where
  "encode_part p = (let text = part_text p in
     if text = [] then Inl (ValueError ''locator parts must not be blank'') else quote text)"

definition canonical_locator :: "(pystr \<Rightarrow> pystr) \<Rightarrow> pystr \<Rightarrow> loc_part list \<Rightarrow> pystr res" where
  "canonical_locator casefold kind parts =
     (let clean_kind = casefold (strip kind) in
      if clean_kind = [] \<or> \<not> list_all is_kind_char clean_kind
      then Inl (ValueError ''locator kind must be a nonblank lowercase token'')
      else rbind (rmap encode_part parts) (\<lambda>encoded. Inr (join [47] (clean_kind # encoded))))"

subsection \<open>The preview manifest\<close>

datatype preview_status = PREVIEW_READY | PREVIEW_UNAVAILABLE

record preview_page =
  pp_page_number :: int
  pp_sha256 :: pystr
  pp_mime :: pystr
  pp_width :: int
  pp_height :: int
  pp_byte_size :: int

record preview_manifest =
  pm_source_version :: int
  pm_source_sha256 :: pystr
  pm_page_count :: int
  pm_status :: preview_status
  pm_pages :: "preview_page list"
  pm_manifest_sha256 :: pystr
  pm_unavailable_reason :: "pystr option"

definition preview_page_ok :: "preview_page \<Rightarrow> bool" where
  "preview_page_ok p \<longleftrightarrow> 1 \<le> pp_page_number p \<and> is_sha256_hex (pp_sha256 p) \<and> pp_mime p = u ''image/png''
     \<and> 0 < pp_width p \<and> 0 < pp_height p \<and> 0 < pp_byte_size p"

definition complete_or_unavailable :: "preview_manifest \<Rightarrow> bool" where
  "complete_or_unavailable m \<longleftrightarrow>
     (case pm_status m of
        PREVIEW_READY \<Rightarrow> 1 \<le> pm_page_count m \<and> map pp_page_number (pm_pages m) = [1..pm_page_count m]
          \<and> pm_unavailable_reason m = None
      | PREVIEW_UNAVAILABLE \<Rightarrow> pm_pages m = []
          \<and> pm_unavailable_reason m \<noteq> None \<and> pm_unavailable_reason m \<noteq> Some [])"

definition mk_preview_manifest :: "preview_manifest \<Rightarrow> preview_manifest res" where
  "mk_preview_manifest m =
     (if 1 \<le> pm_source_version m \<and> is_sha256_hex (pm_source_sha256 m) \<and> 0 \<le> pm_page_count m
         \<and> list_all preview_page_ok (pm_pages m) \<and> is_sha256_hex (pm_manifest_sha256 m)
         \<and> complete_or_unavailable m
      then Inr m else Inl (ValueError ''preview manifest''))"

end
