(* ===== verification/Py_Date.thy ===== *)
theory Py_Date
  imports Py_Text
begin

text \<open>
  \<^verbatim>\<open>datetime.date\<close>: the proleptic Gregorian calendar of the standard library, ordered by year, month and
  day, with its day numbers and its ISO spelling.
\<close>

subsection \<open>Dates in calendar order\<close>

datatype date = Date (d_year: int) (d_month: int) (d_day: int)

instantiation date :: linorder
begin

definition less_eq_date :: "date \<Rightarrow> date \<Rightarrow> bool" where
  "less_eq_date a b \<longleftrightarrow> d_year a < d_year b \<or> (d_year a = d_year b \<and> (d_month a < d_month b
     \<or> (d_month a = d_month b \<and> d_day a \<le> d_day b)))"

definition less_date :: "date \<Rightarrow> date \<Rightarrow> bool" where
  "less_date a b \<longleftrightarrow> d_year a < d_year b \<or> (d_year a = d_year b \<and> (d_month a < d_month b
     \<or> (d_month a = d_month b \<and> d_day a < d_day b)))"

instance
  by standard (auto simp: less_eq_date_def less_date_def date.expand)

end

definition is_leap :: "int \<Rightarrow> bool" where
  "is_leap y \<longleftrightarrow> y mod 4 = 0 \<and> (y mod 100 \<noteq> 0 \<or> y mod 400 = 0)"

definition days_in_month :: "int \<Rightarrow> int \<Rightarrow> int" where
  "days_in_month y m = (if m = 2 then (if is_leap y then 29 else 28) else if m \<in> {4, 6, 9, 11} then 30 else 31)"

definition valid_date :: "date \<Rightarrow> bool" where
  "valid_date d \<longleftrightarrow> 1 \<le> d_year d \<and> d_year d \<le> 9999 \<and> 1 \<le> d_month d \<and> d_month d \<le> 12
     \<and> 1 \<le> d_day d \<and> d_day d \<le> days_in_month (d_year d) (d_month d)"

text \<open>\<^verbatim>\<open>datetime.date(y, m, d)\<close>\<close>

definition mk_date :: "int \<Rightarrow> int \<Rightarrow> int \<Rightarrow> date res" where
  "mk_date y m d = (if valid_date (Date y m d) then Inr (Date y m d) else Inl (ValueError ''date''))"

subsection \<open>Day numbers\<close>

definition days_before_year :: "int \<Rightarrow> int" where
  "days_before_year y = (let p = y - 1 in p * 365 + p div 4 - p div 100 + p div 400)"

definition days_before_month :: "int \<Rightarrow> int \<Rightarrow> int" where
  "days_before_month y m = sum_list (map (days_in_month y) [1..m - 1])"

definition toordinal :: "date \<Rightarrow> int" where
  "toordinal d = days_before_year (d_year d) + days_before_month (d_year d) (d_month d) + d_day d"

definition max_ordinal :: int where
  "max_ordinal = 3652059"

lemma div_step: "0 < k \<Longrightarrow> (y + 1) div k = y div k + (if (y + 1) mod k = 0 then 1 else 0)" for y k :: int
proof -
  assume "0 < k"
  have "y + 1 = k * ((y + 1) div k) + (y + 1) mod k" by simp
  show ?thesis
  proof (cases "(y + 1) mod k = 0")
    case True
    then obtain q where q: "y + 1 = k * q" by (auto simp: mod_eq_0_iff_dvd dvd_def)
    then have "y = k * (q - 1) + (k - 1)" by (simp add: algebra_simps)
    then have "y div k = q - 1" using \<open>0 < k\<close> by (simp add: div_pos_pos_trivial)
    with True q \<open>0 < k\<close> show ?thesis by simp
  next
    case False
    define q where "q = (y + 1) div k"
    define r where "r = (y + 1) mod k"
    have "y = k * q + (r - 1)" using \<open>y + 1 = _\<close> unfolding q_def r_def by linarith
    moreover have "0 \<le> r - 1" "r - 1 < k"
      using False \<open>0 < k\<close> pos_mod_sign [of k "y + 1"] pos_mod_bound [of k "y + 1"] unfolding r_def by linarith+
    ultimately have "y div k = q" using \<open>0 < k\<close> by (simp add: div_pos_pos_trivial)
    with False q_def show ?thesis by simp
  qed
qed

lemma days_before_year_Suc: "days_before_year (y + 1) = days_before_year y + (if is_leap y then 366 else 365)"
proof -
  define p4 p100 p400 where "p4 \<longleftrightarrow> y mod 4 = 0" and "p100 \<longleftrightarrow> y mod 100 = 0" and "p400 \<longleftrightarrow> y mod 400 = 0"
  have m: "p400 \<Longrightarrow> p100" "p100 \<Longrightarrow> p4"
    unfolding p4_def p100_def p400_def mod_eq_0_iff_dvd
    by (rule dvd_trans [of 100 400], simp_all) (rule dvd_trans [of 4 100], simp_all)
  define a where "a = (y - 1) div 4"
  define b where "b = (y - 1) div 100"
  define c where "c = (y - 1) div 400"
  have "y div 4 = a + (if p4 then 1 else 0)" "y div 100 = b + (if p100 then 1 else 0)"
    "y div 400 = c + (if p400 then 1 else 0)"
    using div_step [of 4 "y - 1"] div_step [of 100 "y - 1"] div_step [of 400 "y - 1"]
    by (simp_all only: a_def b_def c_def p4_def p100_def p400_def diff_add_cancel)
  moreover have "days_before_year (y + 1) = y * 365 + y div 4 - y div 100 + y div 400"
    "days_before_year y = (y - 1) * 365 + a - b + c"
    by (simp_all only: days_before_year_def Let_def a_def b_def c_def add_diff_cancel)
  moreover have "is_leap y \<longleftrightarrow> p4 \<and> (\<not> p100 \<or> p400)" by (simp add: is_leap_def p4_def p100_def p400_def)
  ultimately show ?thesis using m by (cases p4; cases p100; cases p400) simp_all
qed

lemma days_in_month_pos: "28 \<le> days_in_month y m" "days_in_month y m \<le> 31"
  by (auto simp: days_in_month_def)

lemma days_before_month_Suc:
  "1 \<le> m \<Longrightarrow> days_before_month y (m + 1) = days_before_month y m + days_in_month y m"
proof -
  assume "1 \<le> m"
  then have "[1..m] = [1..m - 1] @ [m]" using upto_rec2 [of 1 m] by simp
  then show ?thesis by (simp add: days_before_month_def)
qed

lemma days_before_month_13: "days_before_month y 13 = (if is_leap y then 366 else 365)"
proof -
  have "[1..12] = [1, 2, 3, 4, 5, 6, 7, 8, 9, 10, 11, 12 :: int]" by (simp add: upto_rec1)
  then show ?thesis by (simp add: days_before_month_def days_in_month_def)
qed

lemma days_before_month_mono:
  "1 \<le> m \<Longrightarrow> days_before_month y m + days_in_month y m \<le> days_before_month y (m + 1 + int k)"
proof (induction k)
  case 0
  then show ?case by (simp add: days_before_month_Suc)
next
  case (Suc k)
  have "days_before_month y (m + 1 + int k) \<le> days_before_month y (m + 1 + int k + 1)"
    using Suc.prems days_before_month_Suc [of "m + 1 + int k" y] days_in_month_pos(1) [of y "m + 1 + int k"] by simp
  with Suc show ?case by (simp add: algebra_simps)
qed

lemma month_step: "\<lbrakk>1 \<le> m; m < n\<rbrakk> \<Longrightarrow> days_before_month y m + days_in_month y m \<le> days_before_month y n"
  using days_before_month_mono [of m y "nat (n - m - 1)"] by simp

lemma days_before_year_mono: "days_before_year y + 365 \<le> days_before_year (y + 1 + int k)"
proof (induction k)
  case 0
  then show ?case by (simp add: days_before_year_Suc)
next
  case (Suc k)
  then show ?case using days_before_year_Suc [of "y + 1 + int k"] by (simp add: algebra_simps split: if_splits)
qed

lemma year_end: "y < z \<Longrightarrow> days_before_year y + days_before_month y 13 \<le> days_before_year z"
proof (cases "y + 1 = z")
  case True
  then show ?thesis using days_before_year_Suc [of y] by (auto simp: days_before_month_13)
next
  case False
  assume "y < z"
  with False have "days_before_year (y + 1) + 365 \<le> days_before_year z"
    using days_before_year_mono [of "y + 1" "nat (z - y - 2)"] by simp
  then show ?thesis using days_before_year_Suc [of y] by (auto simp: days_before_month_13 split: if_splits)
qed

lemma toordinal_less:
  assumes "valid_date a" and "valid_date b" and "a < b"
  shows "toordinal a < toordinal b"
proof -
  have a: "1 \<le> d_month a" "d_month a \<le> 12" "d_day a \<le> days_in_month (d_year a) (d_month a)"
    and b: "1 \<le> d_day b" "1 \<le> d_month b" using assms by (auto simp: valid_date_def)
  have in_month: "days_before_month (d_year a) (d_month a) + d_day a \<le> days_before_month (d_year a) n"
    if "d_month a < n" for n
    using month_step [OF a(1) that, of "d_year a"] a(3) by simp
  have start: "0 \<le> days_before_month (d_year b) (d_month b)"
    using days_in_month_pos(1) [of "d_year b"] by (auto simp: days_before_month_def intro!: sum_list_nonneg) (smt (verit))
  consider "d_year a < d_year b" | "d_year a = d_year b" "d_month a < d_month b"
    | "d_year a = d_year b" "d_month a = d_month b" "d_day a < d_day b"
    using assms(3) by (auto simp: less_date_def)
  then show ?thesis
  proof cases
    case 1
    then show ?thesis using in_month [of 13] a(2) year_end [OF 1] start b by (simp add: toordinal_def)
  next
    case 2
    then show ?thesis using in_month [of "d_month b"] b by (simp add: toordinal_def)
  qed (simp add: toordinal_def)
qed

lemma toordinal_le_iff:
  "\<lbrakk>valid_date a; valid_date b\<rbrakk> \<Longrightarrow> toordinal a \<le> toordinal b \<longleftrightarrow> a \<le> b"
  using toordinal_less [of a b] toordinal_less [of b a] by (cases a b rule: linorder_cases) auto

lemma toordinal_less_iff:
  "\<lbrakk>valid_date a; valid_date b\<rbrakk> \<Longrightarrow> toordinal a < toordinal b \<longleftrightarrow> a < b"
  using toordinal_le_iff [of b a] by (simp add: not_le [symmetric])

subsection \<open>ISO text\<close>

definition pad2 :: "int \<Rightarrow> pystr" where
  "pad2 n = [48 + nat (n div 10), 48 + nat (n mod 10)]"

definition pad4 :: "int \<Rightarrow> pystr" where
  "pad4 n = [48 + nat (n div 1000), 48 + nat (n div 100 mod 10), 48 + nat (n div 10 mod 10), 48 + nat (n mod 10)]"

definition isoformat :: "date \<Rightarrow> pystr" where
  "isoformat d = pad4 (d_year d) @ 45 # pad2 (d_month d) @ 45 # pad2 (d_day d)"

end
