(* ===== verification/Staging.thy ===== *)
theory Staging
  imports Canonical File_Type Py_Date Clerk_Models
begin

text \<open>
  Structural staging of normalized tables, \<^verbatim>\<open>src/clerksan/ingest/staging.py\<close>, over the document model of
  \<^verbatim>\<open>src/clerksan/ingest/normalized.py\<close>: typed cells, canonical headers, immutable row identities and the
  SQL projection of a document's rows. The environment \<open>py_env\<close> collects the tables of the Unicode
  database and of the C library that the code calls: case mappings, decimal digit values,
  \<^verbatim>\<open>float(text)\<close>, \<^verbatim>\<open>date.fromisoformat\<close>, \<^verbatim>\<open>repr(float)\<close> and SHA-256.
\<close>

record py_env =
  te_casefold :: "pystr \<Rightarrow> pystr"
  te_upper :: "pystr \<Rightarrow> pystr"
  te_digit :: "nat \<Rightarrow> nat option"
  te_float :: "pystr \<Rightarrow> pyval"
  te_fromisoformat :: "pystr \<Rightarrow> date option"
  te_float_repr :: "rat \<Rightarrow> pystr"
  te_sha256 :: "pystr \<Rightarrow> pystr"

definition env_digest :: "py_env \<Rightarrow> pyval \<Rightarrow> pystr res" where
  "env_digest env v = canonical_digest (te_float_repr env) (te_sha256 env) v"

definition env_locator :: "py_env \<Rightarrow> pystr \<Rightarrow> loc_part list \<Rightarrow> pystr res" where
  "env_locator env kind parts = canonical_locator (te_casefold env) kind parts"

subsection \<open>Normalized documents\<close>

record extracted_image =
  ei_sha256 :: pystr
  ei_content_path :: pystr
  ei_width :: "int option"
  ei_height :: "int option"
  ei_source_location :: "pystr option"

record extracted_table =
  et_header :: "pystr list"
  et_rows :: "pystr list list"
  et_source_location :: "pystr option"

record doc_metadata =
  dm_filename :: pystr
  dm_detected_type :: file_type
  dm_sha256 :: pystr
  dm_family :: "pystr option"
  dm_canonical_mime :: "pystr option"
  dm_charset :: "pystr option"
  dm_truncated :: bool
  dm_page_provenance :: "pystr list"
  dm_extra :: "(pystr, pyval) dict"

record normalized_document =
  nd_markdown_body :: pystr
  nd_metadata :: doc_metadata
  nd_images :: "extracted_image list"
  nd_tables :: "extracted_table list"
  nd_embeddable :: bool

definition mk_normalized_document :: "normalized_document \<Rightarrow> normalized_document res" where
  "mk_normalized_document d =
     (if \<not> list_all (\<lambda>i. ei_content_path i \<noteq> []) (nd_images d) then Inl (ValueError ''content_path must not be empty'')
      else if \<not> is_sha256_hex (dm_sha256 (nd_metadata d)) then Inl (ValueError ''sha256 must be a lowercase SHA-256 digest'')
      else Inr d)"

definition opt_str :: "pystr option \<Rightarrow> pyval" where
  "opt_str o' = (case o' of None \<Rightarrow> PNone | Some s \<Rightarrow> PStr s)"

definition opt_int :: "int option \<Rightarrow> pyval" where
  "opt_int o' = (case o' of None \<Rightarrow> PNone | Some i \<Rightarrow> PInt i)"

definition str_list :: "pystr list \<Rightarrow> pyval" where
  "str_list ss = PList (map PStr ss)"

text \<open>\<^verbatim>\<open>model_dump(mode="json")\<close>\<close>

definition dump_image :: "extracted_image \<Rightarrow> pyval" where
  "dump_image i = PDict [(u ''sha256'', PStr (ei_sha256 i)), (u ''content_path'', PStr (ei_content_path i)),
     (u ''width'', opt_int (ei_width i)), (u ''height'', opt_int (ei_height i)),
     (u ''source_location'', opt_str (ei_source_location i))]"

definition dump_table :: "extracted_table \<Rightarrow> pyval" where
  "dump_table t = PDict [(u ''header'', str_list (et_header t)), (u ''rows'', PList (map str_list (et_rows t))),
     (u ''source_location'', opt_str (et_source_location t))]"

definition dump_metadata :: "doc_metadata \<Rightarrow> pyval" where
  "dump_metadata m = PDict [(u ''filename'', PStr (dm_filename m)),
     (u ''detected_type'', PStr (file_type_value (dm_detected_type m))), (u ''sha256'', PStr (dm_sha256 m)),
     (u ''family'', opt_str (dm_family m)), (u ''canonical_mime'', opt_str (dm_canonical_mime m)),
     (u ''charset'', opt_str (dm_charset m)), (u ''truncated'', PBool (dm_truncated m)),
     (u ''page_provenance'', str_list (dm_page_provenance m)), (u ''extra'', PDict (dm_extra m))]"

definition dump_document :: "normalized_document \<Rightarrow> pyval" where
  "dump_document d = PDict [(u ''markdown_body'', PStr (nd_markdown_body d)),
     (u ''metadata'', dump_metadata (nd_metadata d)), (u ''images'', PList (map dump_image (nd_images d))),
     (u ''tables'', PList (map dump_table (nd_tables d))), (u ''embeddable'', PBool (nd_embeddable d))]"

subsection \<open>Typed cells\<close>

definition unsigned :: "pystr \<Rightarrow> pystr" where
  "unsigned s = (case s of c # cs \<Rightarrow> if c = 43 \<or> c = 45 then cs else s | [] \<Rightarrow> [])"

definition all_digits :: "py_env \<Rightarrow> pystr \<Rightarrow> bool" where
  "all_digits env s \<longleftrightarrow> list_all (\<lambda>c. te_digit env c \<noteq> None) s"

definition is_integer_text :: "py_env \<Rightarrow> pystr \<Rightarrow> bool" where
  "is_integer_text env s \<longleftrightarrow> unsigned s \<noteq> [] \<and> all_digits env (unsigned s)"

definition is_decimal_text :: "py_env \<Rightarrow> pystr \<Rightarrow> bool" where
  "is_decimal_text env s \<longleftrightarrow>
     (let t = unsigned s; a = takeWhile (\<lambda>c. c \<noteq> 46) t; b = dropWhile (\<lambda>c. c \<noteq> 46) t
      in b \<noteq> [] \<and> all_digits env a \<and> all_digits env (tl b) \<and> (a \<noteq> [] \<or> tl b \<noteq> []))"

text \<open>\<^verbatim>\<open>int(text)\<close> on a text of decimal digits, with the interpreter's limit of 4300 digits.\<close>

definition digits_int :: "py_env \<Rightarrow> pystr \<Rightarrow> nat" where
  "digits_int env s = foldl (\<lambda>n c. 10 * n + (case te_digit env c of Some d \<Rightarrow> d | None \<Rightarrow> 0)) 0 s"

definition py_int :: "py_env \<Rightarrow> pystr \<Rightarrow> int res" where
  "py_int env s =
     (if 4300 < length (unsigned s) then Inl (ValueError ''Exceeds the limit for integer string conversion'')
      else Inr (if starts [45] s then - int (digits_int env (unsigned s)) else int (digits_int env (unsigned s))))"

datatype cell_type = CT_Null | CT_Boolean | CT_Integer | CT_Number | CT_Date | CT_String

definition cell_type_value :: "cell_type \<Rightarrow> pystr" where
  "cell_type_value t = u (case t of CT_Null \<Rightarrow> ''null'' | CT_Boolean \<Rightarrow> ''boolean'' | CT_Integer \<Rightarrow> ''integer''
     | CT_Number \<Rightarrow> ''number'' | CT_Date \<Rightarrow> ''date'' | CT_String \<Rightarrow> ''string'')"

definition typed_cell :: "py_env \<Rightarrow> pystr \<Rightarrow> (pyval \<times> cell_type) res" where
  "typed_cell env raw =
     (let value = strip raw; folded = te_casefold env value in
      if value = [] then Inr (PNone, CT_Null)
      else if folded = u ''true'' \<or> folded = u ''false'' then Inr (PBool (folded = u ''true''), CT_Boolean)
      else if is_integer_text env value then rbind (py_int env value) (\<lambda>i. Inr (PInt i, CT_Integer))
      else if is_decimal_text env value then Inr (te_float env value, CT_Number)
      else if te_fromisoformat env value = None then Inr (PStr value, CT_String)
      else Inr (PStr value, CT_Date))"

subsection \<open>Headers and column types\<close>

definition column_name :: "nat \<Rightarrow> pystr" where
  "column_name n = u ''column_'' @ nat_str n"

definition header_base :: "nat \<Rightarrow> pystr \<Rightarrow> pystr" where
  "header_base n raw = (if strip raw = [] then column_name n else strip raw)"

fun headers_from :: "nat \<Rightarrow> (pystr, nat) dict \<Rightarrow> pystr list \<Rightarrow> pystr list" where
  "headers_from n used [] = []"
| "headers_from n used (raw # raws) =
     (let base = header_base n raw;
          k = (case dict_get used base of None \<Rightarrow> 0 | Some i \<Rightarrow> i) + 1
      in (if k = 1 then base else base @ u ''__'' @ nat_str k) # headers_from (n + 1) (dict_set base k used) raws)"

definition canonical_headers :: "pystr list \<Rightarrow> pystr list" where
  "canonical_headers headers = headers_from 1 [] headers"

datatype inferred_type = IT_Blank | IT_Of cell_type | IT_Mixed

definition inferred_type_value :: "inferred_type \<Rightarrow> pystr" where
  "inferred_type_value t = (case t of IT_Blank \<Rightarrow> u ''blank'' | IT_Of c \<Rightarrow> cell_type_value c | IT_Mixed \<Rightarrow> u ''mixed'')"

definition cell_at :: "nat \<Rightarrow> pystr list \<Rightarrow> pystr" where
  "cell_at i cells = (if i < length cells then cells ! i else [])"

definition column_type :: "cell_type list \<Rightarrow> inferred_type" where
  "column_type observed = (case remdups (filter (\<lambda>t. t \<noteq> CT_Null) observed) of
     [] \<Rightarrow> IT_Blank | [t] \<Rightarrow> IT_Of t | _ \<Rightarrow> IT_Mixed)"

definition infer_column_types :: "py_env \<Rightarrow> pystr list \<Rightarrow> pystr list list \<Rightarrow> inferred_type list res" where
  "infer_column_types env headers rows = rmap (\<lambda>i.
     rbind (rmap (\<lambda>cells. rbind (typed_cell env (cell_at i cells)) (\<lambda>(_, t). Inr t)) rows) (\<lambda>ts.
     Inr (column_type ts))) [0..<length headers]"

subsection \<open>The staged structure\<close>

record schema_descriptor =
  sd_source_file_id :: nat
  sd_source_version :: int
  sd_table_locator :: pystr
  sd_ordered_headers :: "pystr list"
  sd_inferred_types :: "inferred_type list"
  sd_row_count :: nat
  sd_schema_fingerprint :: pystr

record staged_row =
  sr_table_locator :: pystr
  sr_row_ordinal :: nat
  sr_row_locator :: pystr
  sr_cells :: "pystr list"
  sr_row_fingerprint :: pystr
  sr_blank :: bool

record staged_table =
  st_descriptor :: schema_descriptor
  st_rows :: "staged_row list"

record staged_structure =
  ss_tables :: "staged_table list"
  ss_normalized_sha256 :: pystr
  ss_structure_fingerprint :: pystr
  ss_residual_markdown :: "pystr option"
  ss_residual_locator :: "pystr option"
  ss_residual_fingerprint :: "pystr option"

definition ss_unit_count :: "staged_structure \<Rightarrow> nat" where
  "ss_unit_count s = sum_list (map (\<lambda>t. length (st_rows t)) (ss_tables s))
     + (if ss_residual_markdown s = None then 0 else 1)"

text \<open>\<^verbatim>\<open>as_record\<close>: a dictionary comprehension, so that a repeated header keeps its last cell.\<close>

fun record_from :: "nat \<Rightarrow> pystr list \<Rightarrow> pystr list \<Rightarrow> (pystr, pystr) dict \<Rightarrow> (pystr, pystr) dict" where
  "record_from i [] cells d = d"
| "record_from i (h # hs) cells d = record_from (i + 1) hs cells (dict_set h (cell_at i cells) d)"

definition as_record :: "staged_row \<Rightarrow> pystr list \<Rightarrow> (pystr, pystr) dict" where
  "as_record row headers = record_from 0 headers (sr_cells row) []"

definition table_part :: "nat \<Rightarrow> extracted_table \<Rightarrow> loc_part" where
  "table_part n t = (case et_source_location t of
     Some s \<Rightarrow> if s = [] then LInt (int n) else LStr s | None \<Rightarrow> LInt (int n))"

definition stage_row :: "py_env \<Rightarrow> pystr \<Rightarrow> nat \<times> pystr list \<Rightarrow> staged_row res" where
  "stage_row env locator nc = (case nc of (n, cells) \<Rightarrow>
     rbind (env_locator env (u ''row'') [LStr locator, LInt (int n)]) (\<lambda>row_locator.
     rbind (env_digest env (str_list cells)) (\<lambda>digest.
     Inr \<lparr>sr_table_locator = locator, sr_row_ordinal = n, sr_row_locator = row_locator, sr_cells = cells,
          sr_row_fingerprint = digest, sr_blank = \<not> list_ex (\<lambda>c. strip c \<noteq> []) cells\<rparr>)))"

definition enumerate1 :: "'a list \<Rightarrow> (nat \<times> 'a) list" where
  "enumerate1 xs = zip (map Suc [0..<length xs]) xs"

definition stage_table :: "py_env \<Rightarrow> nat \<Rightarrow> int \<Rightarrow> nat \<times> extracted_table \<Rightarrow> staged_table res" where
  "stage_table env file_id version nt = (case nt of (n, t) \<Rightarrow>
     rbind (env_locator env (u ''table'') [table_part n t]) (\<lambda>locator.
     let headers = canonical_headers (et_header t) in
     rbind (rmap (stage_row env locator) (enumerate1 (et_rows t))) (\<lambda>rows.
     rbind (infer_column_types env headers (map sr_cells rows)) (\<lambda>types.
     rbind (env_digest env (PDict [(u ''table_locator'', PStr locator), (u ''ordered_headers'', str_list headers),
         (u ''inferred_types'', str_list (map inferred_type_value types))])) (\<lambda>schema.
     Inr \<lparr>st_descriptor = \<lparr>sd_source_file_id = file_id, sd_source_version = version, sd_table_locator = locator,
            sd_ordered_headers = headers, sd_inferred_types = types, sd_row_count = length rows,
            sd_schema_fingerprint = schema\<rparr>, st_rows = rows\<rparr>)))))"

definition residual_of :: "normalized_document \<Rightarrow> 'a list \<Rightarrow> pystr option" where
  "residual_of d tables = (case dict_get (dm_extra (nd_metadata d)) (u ''residual_markdown'') of
     Some (PStr s) \<Rightarrow> if strip s \<noteq> [] \<and> tables \<noteq> [] then Some (strip s) else None
   | _ \<Rightarrow> None)"

definition fingerprint_payload :: "staged_table list \<Rightarrow> (pystr \<times> pystr) option \<Rightarrow> pyval" where
  "fingerprint_payload tables residual = PDict
     [(u ''tables'', PList (map (\<lambda>t. let d = st_descriptor t in PDict
         [(u ''table_locator'', PStr (sd_table_locator d)),
          (u ''schema_fingerprint'', PStr (sd_schema_fingerprint d)),
          (u ''row_count'', PInt (int (sd_row_count d)))]) tables)),
      (u ''residual'', case residual of None \<Rightarrow> PNone
         | Some (l, f) \<Rightarrow> PDict [(u ''locator'', PStr l), (u ''fingerprint'', PStr f)])]"

definition stage_residual :: "py_env \<Rightarrow> pystr option \<Rightarrow> (pystr \<times> pystr) option res" where
  "stage_residual env residual = (case residual of None \<Rightarrow> Inr None
     | Some md \<Rightarrow> rbind (env_locator env (u ''document'') [LStr (u ''residual'')]) (\<lambda>l.
         rbind (env_digest env (PStr md)) (\<lambda>f. Inr (Some (l, f)))))"

definition build_staged_structure ::
    "py_env \<Rightarrow> normalized_document \<Rightarrow> nat \<Rightarrow> int \<Rightarrow> staged_structure res" where
  "build_staged_structure env d file_id version =
     (if version < 1 then Inl (ValueError ''source_version must be greater than zero'')
      else rbind (rmap (stage_table env file_id version) (enumerate1 (nd_tables d))) (\<lambda>tables.
        let residual = residual_of d tables in
        rbind (stage_residual env residual) (\<lambda>res.
        rbind (env_digest env (dump_document d)) (\<lambda>normalized.
        rbind (env_digest env (fingerprint_payload tables res)) (\<lambda>structure.
        Inr \<lparr>ss_tables = tables, ss_normalized_sha256 = normalized, ss_structure_fingerprint = structure,
             ss_residual_markdown = residual, ss_residual_locator = map_option fst res,
             ss_residual_fingerprint = map_option snd res\<rparr>)))))"

subsection \<open>The SQL projection\<close>

record spreadsheet_row =
  sp_document_id :: nat
  sp_source_version :: int
  sp_source_location :: pystr
  sp_row_index :: nat
  sp_values :: "(pystr, pyval) dict"
  sp_value_types :: "(pystr, pystr) dict"

record doc_file =
  df_document_id :: nat
  df_kind :: file_kind
  df_version :: int

record staging_db =
  sg_files :: "doc_file list"
  sg_rows :: "spreadsheet_row list"

definition current_source_version :: "staging_db \<Rightarrow> nat \<Rightarrow> int option" where
  "current_source_version db doc =
     (case map df_version (filter (\<lambda>f. df_document_id f = doc \<and> df_kind f = Original) (sg_files db)) of
        [] \<Rightarrow> None | v # vs \<Rightarrow> Some (foldl max v vs))"

definition require_current_source :: "staging_db \<Rightarrow> nat \<Rightarrow> int \<Rightarrow> unit res" where
  "require_current_source db doc version =
     (if version < 1 then Inl (ValueError ''source_version must be greater than zero'')
      else if current_source_version db doc \<noteq> Some version then Inl StagedSourceVersionSupersededError
      else Inr ())"

fun row_cells :: "(pystr \<Rightarrow> (pyval \<times> cell_type) res) \<Rightarrow> nat \<Rightarrow> pystr list \<Rightarrow> pystr list
    \<Rightarrow> (pystr, pyval) dict \<Rightarrow> (pystr, pystr) dict \<Rightarrow> ((pystr, pyval) dict \<times> (pystr, pystr) dict) res" where
  "row_cells cell n [] cells vs ts = Inr (vs, ts)"
| "row_cells cell n (h # hs) cells vs ts =
     rbind (cell (cell_at (n - 1) cells)) (\<lambda>(v, t).
       row_cells cell (n + 1) hs cells (dict_set (header_base n h) v vs)
         (dict_set (header_base n h) (cell_type_value t) ts))"

definition sheet_row :: "(pystr \<Rightarrow> (pyval \<times> cell_type) res) \<Rightarrow> nat \<Rightarrow> int \<Rightarrow> pystr \<Rightarrow> pystr list
    \<Rightarrow> nat \<times> pystr list \<Rightarrow> spreadsheet_row res" where
  "sheet_row cell doc version location header nc = (case nc of (n, cells) \<Rightarrow>
     rbind (row_cells cell 1 header cells [] []) (\<lambda>(vs, ts).
     Inr \<lparr>sp_document_id = doc, sp_source_version = version, sp_source_location = location, sp_row_index = n,
          sp_values = vs, sp_value_types = ts\<rparr>))"

definition sheet_location :: "nat \<Rightarrow> extracted_table \<Rightarrow> pystr" where
  "sheet_location n t = (case et_source_location t of
     Some s \<Rightarrow> if s = [] then u ''table:'' @ nat_str n else s | None \<Rightarrow> u ''table:'' @ nat_str n)"

definition sheet_rows :: "(pystr \<Rightarrow> (pyval \<times> cell_type) res) \<Rightarrow> nat \<Rightarrow> int \<Rightarrow> extracted_table list
    \<Rightarrow> spreadsheet_row list res" where
  "sheet_rows cell doc version tables =
     rbind (rmap (\<lambda>(n, t). rmap (sheet_row cell doc version (sheet_location n t) (et_header t))
              (enumerate1 (et_rows t))) (enumerate1 tables)) (\<lambda>rss. Inr (concat rss))"

text \<open>The unique key of the table, checked when the session is flushed.\<close>

definition sheet_key :: "spreadsheet_row \<Rightarrow> nat \<times> int \<times> pystr \<times> nat" where
  "sheet_key r = (sp_document_id r, sp_source_version r, sp_source_location r, sp_row_index r)"

definition replace_rows :: "(pystr \<Rightarrow> (pyval \<times> cell_type) res) \<Rightarrow> staging_db \<Rightarrow> nat \<Rightarrow> int
    \<Rightarrow> extracted_table list \<Rightarrow> (staging_db \<times> nat) res" where
  "replace_rows cell db doc version tables =
     rbind (require_current_source db doc version) (\<lambda>_.
     let kept = filter (\<lambda>r. \<not> (sp_document_id r = doc \<and> sp_source_version r = version)) (sg_rows db) in
     rbind (sheet_rows cell doc version tables) (\<lambda>rows.
     if distinct (map sheet_key rows) then Inr (db\<lparr>sg_rows := kept @ rows\<rparr>, length rows)
     else Inl IntegrityError))"

definition stage_spreadsheet_rows :: "py_env \<Rightarrow> staging_db \<Rightarrow> nat \<Rightarrow> normalized_document \<Rightarrow> int
    \<Rightarrow> (staging_db \<times> nat) res" where
  "stage_spreadsheet_rows env db doc d version =
     (if dm_detected_type (nd_metadata d) \<noteq> XLSX then Inr (db, 0)
      else replace_rows (typed_cell env) db doc version (nd_tables d))"

definition stage_tabular_rows :: "staging_db \<Rightarrow> nat \<Rightarrow> int \<Rightarrow> extracted_table list \<Rightarrow> (staging_db \<times> nat) res" where
  "stage_tabular_rows db doc version tables =
     replace_rows (\<lambda>raw. Inr (PStr raw, CT_String)) db doc version tables"

end
