(* ===== verification/Records.thy ===== *)
theory Records
  imports Staging
begin

text \<open>
  Candidate drafts and structural reconciliation, \<^verbatim>\<open>src/clerksan/ingest/records.py\<close>. A frozen data class
  with a \<^verbatim>\<open>__post_init__\<close> is a record and a checked constructor.
\<close>

definition record_kind_value :: "record_kind \<Rightarrow> pystr" where
  "record_kind_value k = u (case k of Financial \<Rightarrow> ''financial'' | Generic_Document \<Rightarrow> ''generic_document'')"

definition financial_subtype_value :: "financial_subtype \<Rightarrow> pystr" where
  "financial_subtype_value s = u (case s of FS_Transaction \<Rightarrow> ''transaction'' | FS_Receipt \<Rightarrow> ''receipt''
     | FS_Invoice \<Rightarrow> ''invoice'' | FS_Bill \<Rightarrow> ''bill'' | FS_Recurring_Bill \<Rightarrow> ''recurring_bill''
     | FS_Quote \<Rightarrow> ''quote'' | FS_Other \<Rightarrow> ''other_financial'')"

text \<open>A financial record has a subtype, a generic one has none.\<close>

definition check_subtype :: "exn \<Rightarrow> exn \<Rightarrow> record_kind \<Rightarrow> financial_subtype option \<Rightarrow> unit res" where
  "check_subtype missing extra kind subtype =
     (if kind = Financial \<and> subtype = None then Inl missing
      else if kind = Generic_Document \<and> subtype \<noteq> None then Inl extra else Inr ())"

definition draft_digest :: "pystr \<Rightarrow> unit res" where
  "draft_digest v = require (is_sha256_hex v) (CandidateDraftError ''must be a lowercase SHA-256 digest'')"

subsection \<open>Drafts\<close>

record candidate_draft =
  cd_candidate_ordinal :: int
  cd_candidate_key :: pystr
  cd_record_kind :: record_kind
  cd_financial_subtype :: "financial_subtype option"
  cd_payload :: "(pystr, pyval) dict"
  cd_confidences :: "(pystr, rat) dict"
  cd_source_locator :: pystr
  cd_row_fingerprint :: pystr
  cd_validation_issues :: "pystr list"
  cd_evidence_group_keys :: "pystr list"

definition mk_candidate_draft :: "candidate_draft \<Rightarrow> candidate_draft res" where
  "mk_candidate_draft c =
     rbind (require (1 \<le> cd_candidate_ordinal c) (CandidateDraftError ''candidate ordinal must be positive'')) (\<lambda>_.
     rbind (draft_digest (cd_candidate_key c)) (\<lambda>_.
     rbind (draft_digest (cd_row_fingerprint c)) (\<lambda>_.
     rbind (require (strip (cd_source_locator c) \<noteq> []) (CandidateDraftError ''source locator must not be blank'')) (\<lambda>_.
     rbind (check_subtype (CandidateDraftError ''financial candidates require a subtype'')
              (CandidateDraftError ''generic candidates forbid a financial subtype'')
              (cd_record_kind c) (cd_financial_subtype c)) (\<lambda>_.
     rbind (require (list_all (\<lambda>i. strip i \<noteq> []) (cd_validation_issues c))
              (CandidateDraftError ''validation issues must not contain blanks'')) (\<lambda>_.
     Inr c))))))"

datatype disposition = Mapped_Candidate | Residual_Generic_Candidate | Explicit_Ignore | Blank | Parse_Error

definition candidate_disposition :: "disposition \<Rightarrow> bool" where
  "candidate_disposition d \<longleftrightarrow> d = Mapped_Candidate \<or> d = Residual_Generic_Candidate"

record unit_decision =
  ud_unit_id :: pystr
  ud_locator :: pystr
  ud_content_digest :: pystr
  ud_disposition :: disposition
  ud_candidate_key :: "pystr option"
  ud_reason :: "pystr option"

definition mk_unit_decision :: "unit_decision \<Rightarrow> unit_decision res" where
  "mk_unit_decision d =
     rbind (require (strip (ud_unit_id d) \<noteq> [] \<and> strip (ud_locator d) \<noteq> [])
              (CandidateDraftError ''structural unit identity must not be blank'')) (\<lambda>_.
     rbind (draft_digest (ud_content_digest d)) (\<lambda>_.
     rbind (if candidate_disposition (ud_disposition d)
            then (case ud_candidate_key d of
                None \<Rightarrow> Inl (CandidateDraftError ''candidate disposition requires candidate_key'')
              | Some k \<Rightarrow> draft_digest k)
            else require (ud_candidate_key d = None)
                (CandidateDraftError ''non-candidate disposition cannot bind a candidate'')) (\<lambda>_.
     rbind (require (ud_disposition d \<in> {Explicit_Ignore, Parse_Error} \<longrightarrow>
                (case ud_reason d of None \<Rightarrow> False | Some r \<Rightarrow> strip r \<noteq> []))
              (CandidateDraftError ''ignored/error structural units require a reason'')) (\<lambda>_.
     Inr d))))"

subsection \<open>The ledger\<close>

fun check_ledger :: "pystr list \<Rightarrow> (pystr \<times> pystr) list \<Rightarrow> pystr list \<Rightarrow> unit_decision list \<Rightarrow> unit res" where
  "check_ledger ids ranges keys [] = Inr ()"
| "check_ledger ids ranges keys (d # ds) =
     (if ud_unit_id d \<in> set ids then Inl (CandidateDraftError ''a structural unit is assigned more than once'')
      else if (ud_locator d, ud_content_digest d) \<in> set ranges
      then Inl (CandidateDraftError ''overlapping structural locator/digest assignment'')
      else (case ud_candidate_key d of
          None \<Rightarrow> check_ledger (ud_unit_id d # ids) ((ud_locator d, ud_content_digest d) # ranges) keys ds
        | Some k \<Rightarrow> if k \<in> set keys
            then Inl (CandidateDraftError ''a candidate cannot consume multiple structural units'')
            else check_ledger (ud_unit_id d # ids) ((ud_locator d, ud_content_digest d) # ranges) (k # keys) ds))"

definition mk_ledger :: "unit_decision list \<Rightarrow> unit_decision list res" where
  "mk_ledger ds = rbind (check_ledger [] [] [] ds) (\<lambda>_. Inr ds)"

definition reconciliation_count :: "unit_decision list \<Rightarrow> disposition \<Rightarrow> nat" where
  "reconciliation_count ds k = length (filter (\<lambda>d. ud_disposition d = k) ds)"

subsection \<open>Candidate keys\<close>

definition value_fingerprint :: "py_env \<Rightarrow> pyval \<Rightarrow> pystr res" where
  "value_fingerprint env v = (case env_digest env v of
     Inl _ \<Rightarrow> Inl (CandidateDraftError ''candidate value is not canonical JSON'') | Inr d \<Rightarrow> Inr d)"

record key_inputs =
  ki_source_sha256 :: pystr
  ki_source_locator :: pystr
  ki_candidate_ordinal :: int
  ki_normalized_item_hash :: pystr
  ki_record_kind :: record_kind
  ki_financial_subtype :: "financial_subtype option"
  ki_mapping_version :: int

definition key_payload :: "key_inputs \<Rightarrow> pyval" where
  "key_payload k = PDict
     [(u ''candidate_ordinal'', PInt (ki_candidate_ordinal k)),
      (u ''financial_subtype'', opt_str (map_option financial_subtype_value (ki_financial_subtype k))),
      (u ''mapping_version'', PInt (ki_mapping_version k)),
      (u ''normalized_item_hash'', PStr (ki_normalized_item_hash k)),
      (u ''record_kind'', PStr (record_kind_value (ki_record_kind k))),
      (u ''source_locator'', PStr (ki_source_locator k)),
      (u ''source_sha256'', PStr (ki_source_sha256 k))]"

definition build_candidate_key :: "py_env \<Rightarrow> key_inputs \<Rightarrow> pystr res" where
  "build_candidate_key env k =
     rbind (draft_digest (ki_source_sha256 k)) (\<lambda>_.
     rbind (draft_digest (ki_normalized_item_hash k)) (\<lambda>_.
     rbind (require (1 \<le> ki_candidate_ordinal k \<and> 1 \<le> ki_mapping_version k \<and> strip (ki_source_locator k) \<noteq> [])
              (CandidateDraftError ''candidate identity inputs must be positive and nonblank'')) (\<lambda>_.
     rbind (check_subtype (CandidateDraftError ''financial candidate identity requires subtype'')
              (CandidateDraftError ''generic candidate identity forbids subtype'')
              (ki_record_kind k) (ki_financial_subtype k)) (\<lambda>_.
     value_fingerprint env (key_payload k)))))"

end
