(* ===== verification/Schema_Mapping.thy ===== *)
theory Schema_Mapping
  imports Records Py_Num
begin

text \<open>
  Declarative schema mapping, \<^verbatim>\<open>src/clerksan/ingest/mapping.py\<close>: the validated contracts, the field
  parsers, the preview and the application of a mapping set to a staged structure. A decimal is a sign,
  a coefficient and an exponent; the signed operations round to the 28 digits of the default context
  (its exponent range, about a million digits, is not modelled).
\<close>

subsection \<open>Contracts\<close>

datatype field_parser = Raw_Parser | Date_Parser | Decimal_Parser | Currency_Parser

datatype date_style = Iso_Style | Ymd_Slash | Dmy_Slash | Mdy_Slash | Japanese_Style

datatype decimal_style = Dot_Style | Comma_Style

datatype sign_rule = Preserve_Sign | Negate_Sign | Absolute_Sign

definition max_mapping_fields :: nat where "max_mapping_fields = 64"
definition max_rule_sources :: nat where "max_rule_sources = 8"
definition max_null_markers :: nat where "max_null_markers = 32"
definition max_value_map_entries :: nat where "max_value_map_entries = 256"
definition max_mapping_string :: nat where "max_mapping_string = 2048"
definition max_mapping_set_entries :: nat where "max_mapping_set_entries = 256"
definition max_preview_rows :: nat where "max_preview_rows = 50"

record field_rule =
  fr_target_field :: pystr
  fr_source_columns :: "pystr list"
  fr_literal :: "pystr option"
  fr_separator :: pystr
  fr_trim :: bool
  fr_null_markers :: "pystr list"
  fr_value_map :: "(pystr \<times> pystr) list"
  fr_parser :: field_parser
  fr_date_style :: "date_style option"
  fr_decimal_style :: "decimal_style option"
  fr_sign_rule :: sign_rule
  fr_currency_aliases :: "(pystr \<times> pystr) list"

definition bounded_text :: "pystr \<Rightarrow> bool \<Rightarrow> unit res" where
  "bounded_text value allow_blank =
     require (\<not> ((\<not> allow_blank \<and> strip value = []) \<or> max_mapping_string < length value))
       (MappingValidationError ''is blank or too long'')"

definition mapping_digest :: "pystr \<Rightarrow> unit res" where
  "mapping_digest v = require (is_sha256_hex v) (MappingValidationError ''must be a lowercase SHA-256 digest'')"

fun validate_pairs :: "pystr list \<Rightarrow> (pystr \<times> pystr) list \<Rightarrow> unit res" where
  "validate_pairs keys [] = Inr ()"
| "validate_pairs keys ((k, v) # ps) =
     rbind (bounded_text k True) (\<lambda>_. rbind (bounded_text v True) (\<lambda>_.
     if k \<in> set keys then Inl (MappingValidationError ''keys must be unique'') else validate_pairs (k # keys) ps))"

fun checks :: "unit res list \<Rightarrow> unit res" where
  "checks [] = Inr ()"
| "checks (r # rs) = rbind r (\<lambda>_. checks rs)"

definition need :: "bool \<Rightarrow> string \<Rightarrow> unit res" where
  "need b msg = require b (MappingValidationError msg)"

definition mk_field_rule :: "field_rule \<Rightarrow> field_rule res" where
  "mk_field_rule r = rbind (checks
     ([bounded_text (fr_target_field r) False,
       need ((fr_source_columns r \<noteq> []) \<noteq> (fr_literal r \<noteq> None))
         ''field rule requires either source columns or one literal'',
       need (length (fr_source_columns r) \<le> max_rule_sources) ''field rule has too many source columns'']
      @ map (\<lambda>c. bounded_text c False) (fr_source_columns r)
      @ [case fr_literal r of None \<Rightarrow> Inr () | Some l \<Rightarrow> bounded_text l True,
         bounded_text (fr_separator r) True,
         need (length (fr_null_markers r) \<le> max_null_markers) ''field rule has too many null markers'',
         need (length (fr_value_map r) \<le> max_value_map_entries) ''field rule value map is too large'',
         need (length (fr_currency_aliases r) \<le> max_value_map_entries) ''currency alias map is too large'',
         validate_pairs [] (fr_value_map r),
         validate_pairs [] (fr_currency_aliases r),
         need (fr_parser r = Date_Parser \<longrightarrow> fr_date_style r \<noteq> None) ''date parser requires an explicit date style'',
         need (fr_parser r \<noteq> Date_Parser \<longrightarrow> fr_date_style r = None) ''date style is valid only for the date parser'',
         need (fr_parser r = Decimal_Parser \<longrightarrow> fr_decimal_style r \<noteq> None)
           ''decimal parser requires an explicit decimal style'',
         need (fr_parser r \<noteq> Decimal_Parser \<longrightarrow> fr_decimal_style r = None)
           ''decimal style is valid only for the decimal parser'',
         need (fr_parser r \<noteq> Decimal_Parser \<longrightarrow> fr_sign_rule r = Preserve_Sign)
           ''sign rules are valid only for decimal fields'',
         need (fr_parser r \<noteq> Currency_Parser \<longrightarrow> fr_currency_aliases r = [])
           ''currency aliases require the currency parser''])) (\<lambda>_. Inr r)"

record mapping_contract =
  mc_table_locator :: pystr
  mc_record_kind :: record_kind
  mc_financial_subtype :: "financial_subtype option"
  mc_schema_fingerprint :: pystr
  mc_field_rules :: "field_rule list"
  mc_required_fields :: "pystr list"
  mc_mapping_version :: int
  mc_mapping_id :: nat

definition mk_mapping_contract :: "mapping_contract \<Rightarrow> mapping_contract res" where
  "mk_mapping_contract m =
     (let targets = map fr_target_field (mc_field_rules m) in rbind (checks
     [bounded_text (mc_table_locator m) False,
      mapping_digest (mc_schema_fingerprint m),
      need (1 \<le> mc_mapping_version m) ''mapping_version must be positive'',
      need (mc_field_rules m \<noteq> [] \<and> length (mc_field_rules m) \<le> max_mapping_fields)
        ''mapping requires between 1 and 64 field rules'',
      need (distinct targets) ''mapping target fields must be unique'',
      need (length (mc_required_fields m) \<le> max_mapping_fields) ''mapping has too many required fields'',
      need (set (mc_required_fields m) \<subseteq> set targets) ''required fields must be mapped targets'',
      check_subtype (MappingValidationError ''financial mapping requires a subtype'')
        (MappingValidationError ''generic mapping forbids a financial subtype'')
        (mc_record_kind m) (mc_financial_subtype m)]) (\<lambda>_. Inr m))"

record set_entry =
  se_table_locator :: pystr
  se_schema_fingerprint :: pystr
  se_mapping :: "mapping_contract option"
  se_ignore_reason :: "pystr option"

definition mk_set_entry :: "set_entry \<Rightarrow> set_entry res" where
  "mk_set_entry e = rbind (checks
     [bounded_text (se_table_locator e) False,
      mapping_digest (se_schema_fingerprint e),
      need ((se_mapping e = None) \<noteq> (se_ignore_reason e = None))
        ''mapping-set entry requires a mapping or explicit ignore reason'',
      case se_ignore_reason e of None \<Rightarrow> Inr () | Some r \<Rightarrow> bounded_text r False,
      case se_mapping e of None \<Rightarrow> Inr ()
      | Some m \<Rightarrow> need (mc_table_locator m = se_table_locator e \<and> mc_schema_fingerprint m = se_schema_fingerprint e)
          ''mapping-set entry does not match mapping identity'']) (\<lambda>_. Inr e)"

record mapping_set =
  ms_source_file_id :: nat
  ms_source_version :: int
  ms_structure_fingerprint :: pystr
  ms_entries :: "set_entry list"
  ms_created_by :: pystr
  ms_version :: int

definition mk_mapping_set :: "mapping_set \<Rightarrow> mapping_set res" where
  "mk_mapping_set s = rbind (checks
     [need (1 \<le> ms_source_version s \<and> 1 \<le> ms_version s) ''mapping-set versions must be positive'',
      mapping_digest (ms_structure_fingerprint s),
      bounded_text (ms_created_by s) False,
      need (length (ms_entries s) \<le> max_mapping_set_entries) ''mapping set has too many entries'',
      need (distinct (map se_table_locator (ms_entries s))) ''mapping set repeats a table locator'']) (\<lambda>_. Inr s)"

subsection \<open>Digests of contracts\<close>

definition field_parser_value :: "field_parser \<Rightarrow> pystr" where
  "field_parser_value p = u (case p of Raw_Parser \<Rightarrow> ''raw'' | Date_Parser \<Rightarrow> ''date''
     | Decimal_Parser \<Rightarrow> ''decimal'' | Currency_Parser \<Rightarrow> ''currency'')"

definition date_style_value :: "date_style \<Rightarrow> pystr" where
  "date_style_value d = u (case d of Iso_Style \<Rightarrow> ''iso'' | Ymd_Slash \<Rightarrow> ''ymd_slash'' | Dmy_Slash \<Rightarrow> ''dmy_slash''
     | Mdy_Slash \<Rightarrow> ''mdy_slash'' | Japanese_Style \<Rightarrow> ''japanese'')"

definition decimal_style_value :: "decimal_style \<Rightarrow> pystr" where
  "decimal_style_value d = u (case d of Dot_Style \<Rightarrow> ''dot'' | Comma_Style \<Rightarrow> ''comma'')"

definition sign_rule_value :: "sign_rule \<Rightarrow> pystr" where
  "sign_rule_value r = u (case r of Preserve_Sign \<Rightarrow> ''preserve'' | Negate_Sign \<Rightarrow> ''negate''
     | Absolute_Sign \<Rightarrow> ''absolute'')"

definition pair_list :: "(pystr \<times> pystr) list \<Rightarrow> pyval" where
  "pair_list ps = PList (map (\<lambda>(k, v). str_list [k, v]) ps)"

definition rule_payload :: "field_rule \<Rightarrow> pyval" where
  "rule_payload r = PDict
     [(u ''target_field'', PStr (fr_target_field r)), (u ''source_columns'', str_list (fr_source_columns r)),
      (u ''literal'', opt_str (fr_literal r)), (u ''separator'', PStr (fr_separator r)),
      (u ''trim'', PBool (fr_trim r)), (u ''null_markers'', str_list (fr_null_markers r)),
      (u ''value_map'', pair_list (fr_value_map r)), (u ''parser'', PStr (field_parser_value (fr_parser r))),
      (u ''date_style'', opt_str (map_option date_style_value (fr_date_style r))),
      (u ''decimal_style'', opt_str (map_option decimal_style_value (fr_decimal_style r))),
      (u ''sign_rule'', PStr (sign_rule_value (fr_sign_rule r))),
      (u ''currency_aliases'', pair_list (fr_currency_aliases r))]"

definition mapping_payload :: "mapping_contract \<Rightarrow> pyval" where
  "mapping_payload m = PDict
     [(u ''mapping_id'', PStr (uuid_str (mc_mapping_id m))), (u ''mapping_version'', PInt (mc_mapping_version m)),
      (u ''table_locator'', PStr (mc_table_locator m)), (u ''schema_fingerprint'', PStr (mc_schema_fingerprint m)),
      (u ''record_kind'', PStr (record_kind_value (mc_record_kind m))),
      (u ''financial_subtype'', opt_str (map_option financial_subtype_value (mc_financial_subtype m))),
      (u ''required_fields'', str_list (mc_required_fields m)),
      (u ''field_rules'', PList (map rule_payload (mc_field_rules m)))]"

definition contract_digest :: "py_env \<Rightarrow> mapping_contract \<Rightarrow> pystr res" where
  "contract_digest env m = env_digest env (mapping_payload m)"

definition entry_payload :: "py_env \<Rightarrow> set_entry \<Rightarrow> pyval res" where
  "entry_payload env e =
     rbind (case se_mapping e of None \<Rightarrow> Inr None
            | Some m \<Rightarrow> rbind (contract_digest env m) (\<lambda>d. Inr (Some d))) (\<lambda>digest.
     Inr (PDict [(u ''table_locator'', PStr (se_table_locator e)),
       (u ''schema_fingerprint'', PStr (se_schema_fingerprint e)), (u ''mapping_digest'', opt_str digest),
       (u ''ignore_reason'', opt_str (se_ignore_reason e))]))"

definition set_digest :: "py_env \<Rightarrow> mapping_set \<Rightarrow> pystr res" where
  "set_digest env s = rbind (rmap (entry_payload env) (ms_entries s)) (\<lambda>entries.
     env_digest env (PDict
       [(u ''source_file_id'', PStr (uuid_str (ms_source_file_id s))),
        (u ''source_version'', PInt (ms_source_version s)),
        (u ''structure_fingerprint'', PStr (ms_structure_fingerprint s)), (u ''version'', PInt (ms_version s)),
        (u ''entries'', PList entries)]))"

subsection \<open>Dates\<close>

text \<open>The fields of \<^verbatim>\<open>strptime\<close>: \<^verbatim>\<open>%Y\<close>, \<^verbatim>\<open>%m\<close> and \<^verbatim>\<open>%d\<close>.\<close>

definition year_field :: "py_env \<Rightarrow> pystr \<Rightarrow> bool" where
  "year_field env s \<longleftrightarrow> length s = 4 \<and> all_digits env s"

definition month_field :: "pystr \<Rightarrow> bool" where
  "month_field s \<longleftrightarrow> s \<in> {[49, 48], [49, 49], [49, 50]}
     \<or> (case s of [a] \<Rightarrow> 49 \<le> a \<and> a \<le> 57 | [a, b] \<Rightarrow> a = 48 \<and> 49 \<le> b \<and> b \<le> 57 | _ \<Rightarrow> False)"

definition day_field :: "py_env \<Rightarrow> pystr \<Rightarrow> bool" where
  "day_field env s \<longleftrightarrow> (case s of [a] \<Rightarrow> 49 \<le> a \<and> a \<le> 57
     | [a, b] \<Rightarrow> (a = 51 \<and> (b = 48 \<or> b = 49)) \<or> ((a = 49 \<or> a = 50) \<and> te_digit env b \<noteq> None)
         \<or> ((a = 48 \<or> a = 32) \<and> 49 \<le> b \<and> b \<le> 57)
     | _ \<Rightarrow> False)"

definition field_int :: "py_env \<Rightarrow> pystr \<Rightarrow> int" where
  "field_int env s = int (digits_int env (strip s))"

definition invalid_date :: exn where
  "invalid_date = MappingValidationError ''invalid date''"

definition checked_date :: "int \<Rightarrow> int \<Rightarrow> int \<Rightarrow> date res" where
  "checked_date y m d = (case mk_date y m d of Inl _ \<Rightarrow> Inl invalid_date | Inr x \<Rightarrow> Inr x)"

definition strptime_date :: "py_env \<Rightarrow> pystr \<Rightarrow> pystr \<Rightarrow> pystr \<Rightarrow> date res" where
  "strptime_date env y m d =
     (if year_field env y \<and> month_field m \<and> day_field env d
      then checked_date (field_int env y) (field_int env m) (field_int env d) else Inl invalid_date)"

definition short_digits :: "py_env \<Rightarrow> pystr \<Rightarrow> bool" where
  "short_digits env s \<longleftrightarrow> 1 \<le> length s \<and> length s \<le> 2 \<and> all_digits env s"

definition japanese_date :: "py_env \<Rightarrow> pystr \<Rightarrow> date res" where
  "japanese_date env value =
     (let y = takeWhile (\<lambda>c. c \<noteq> 24180) value; r = drop 1 (dropWhile (\<lambda>c. c \<noteq> 24180) value);
          m = takeWhile (\<lambda>c. c \<noteq> 26376) r; r' = drop 1 (dropWhile (\<lambda>c. c \<noteq> 26376) r);
          d = takeWhile (\<lambda>c. c \<noteq> 26085) r'
      in if value = y @ [24180] @ m @ [26376] @ d @ [26085] \<and> year_field env y \<and> short_digits env m \<and> short_digits env d
         then checked_date (field_int env y) (field_int env m) (field_int env d) else Inl invalid_date)"

definition parse_date :: "py_env \<Rightarrow> pystr \<Rightarrow> date_style \<Rightarrow> date res" where
  "parse_date env value style = (case style of
     Iso_Style \<Rightarrow> (case te_fromisoformat env value of None \<Rightarrow> Inl invalid_date | Some d \<Rightarrow> Inr d)
   | Japanese_Style \<Rightarrow> japanese_date env value
   | Ymd_Slash \<Rightarrow> (case split_on 47 value of [y, m, d] \<Rightarrow> strptime_date env y m d | _ \<Rightarrow> Inl invalid_date)
   | Dmy_Slash \<Rightarrow> (case split_on 47 value of [d, m, y] \<Rightarrow> strptime_date env y m d | _ \<Rightarrow> Inl invalid_date)
   | Mdy_Slash \<Rightarrow> (case split_on 47 value of [m, d, y] \<Rightarrow> strptime_date env y m d | _ \<Rightarrow> Inl invalid_date))"

subsection \<open>Decimals\<close>

datatype decimal = Dec (dec_neg: bool) (dec_coeff: nat) (dec_exp: int)

definition decimal_normalized :: "pystr \<Rightarrow> decimal_style \<Rightarrow> pystr" where
  "decimal_normalized value style =
     (let compact = remove_char 32 value in
      case style of Dot_Style \<Rightarrow> remove_char 44 compact
      | Comma_Style \<Rightarrow> map (\<lambda>c. if c = 44 then 46 else c) (remove_char 46 compact))"

definition parse_decimal :: "py_env \<Rightarrow> pystr \<Rightarrow> decimal_style \<Rightarrow> decimal res" where
  "parse_decimal env value style =
     (let s = decimal_normalized value style; t = unsigned s;
          a = takeWhile (\<lambda>c. c \<noteq> 46) t; b = drop 1 (dropWhile (\<lambda>c. c \<noteq> 46) t)
      in if is_integer_text env s \<or> is_decimal_text env s
         then Inr (Dec (starts [45] s) (digits_int env (a @ b)) (- int (length b)))
         else Inl (MappingValidationError ''invalid decimal''))"

definition finish_decimal :: "decimal \<Rightarrow> decimal" where
  "finish_decimal d =
     (let k = length (nat_str (dec_coeff d)) - 28;
          q = nat (round_half_even (of_nat (dec_coeff d) / 10 ^ k))
      in if k = 0 then d
         else if q = 10 ^ 28 then Dec (dec_neg d) (10 ^ 27) (dec_exp d + int k + 1)
         else Dec (dec_neg d) q (dec_exp d + int k))"

definition dec_negate :: "decimal \<Rightarrow> decimal" where
  "dec_negate d = finish_decimal (Dec (if dec_coeff d = 0 then False else \<not> dec_neg d) (dec_coeff d) (dec_exp d))"

definition dec_absolute :: "decimal \<Rightarrow> decimal" where
  "dec_absolute d = finish_decimal (Dec False (dec_coeff d) (dec_exp d))"

text \<open>\<^verbatim>\<open>format(amount, "f")\<close>\<close>

definition format_f :: "decimal \<Rightarrow> pystr" where
  "format_f d = (if dec_neg d then [45] else []) @
     (if 0 \<le> dec_exp d then nat_str (dec_coeff d * 10 ^ nat (dec_exp d))
      else let n = nat (- dec_exp d); s = nat_str (dec_coeff d); p = replicate (n + 1 - length s) 48 @ s
           in take (length p - n) p @ 46 # drop (length p - n) p)"

subsection \<open>Applying rules\<close>

definition alias_table :: "py_env \<Rightarrow> (pystr \<times> pystr) list \<Rightarrow> (pystr, pystr) dict" where
  "alias_table env ps = foldl (\<lambda>d (k, v). dict_set (te_casefold env k) (te_upper env v) d) [] ps"

definition is_currency_code :: "pystr \<Rightarrow> bool" where
  "is_currency_code s \<longleftrightarrow> length s = 3 \<and> list_all (\<lambda>c. 65 \<le> c \<and> c \<le> 90) s"

definition columns_value :: "field_rule \<Rightarrow> (pystr, pystr) dict \<Rightarrow> pystr res" where
  "columns_value r record = rbind (rmap (\<lambda>c. case dict_get record c of None \<Rightarrow> Inl KeyError | Some s \<Rightarrow> Inr s)
     (fr_source_columns r)) (\<lambda>parts. Inr (join (fr_separator r) parts))"

definition parse_field :: "py_env \<Rightarrow> field_rule \<Rightarrow> pystr \<Rightarrow> pystr res" where
  "parse_field env r value = (case fr_parser r of
     Raw_Parser \<Rightarrow> Inr value
   | Date_Parser \<Rightarrow> (case fr_date_style r of None \<Rightarrow> Inl AssertionError
       | Some style \<Rightarrow> rbind (parse_date env value style) (\<lambda>d. Inr (isoformat d)))
   | Decimal_Parser \<Rightarrow> (case fr_decimal_style r of None \<Rightarrow> Inl AssertionError
       | Some style \<Rightarrow> rbind (parse_decimal env value style) (\<lambda>a.
           Inr (format_f (case fr_sign_rule r of Preserve_Sign \<Rightarrow> a | Negate_Sign \<Rightarrow> dec_negate a
             | Absolute_Sign \<Rightarrow> dec_absolute a))))
   | Currency_Parser \<Rightarrow>
       (let currency = (case dict_get (alias_table env (fr_currency_aliases r)) (te_casefold env value) of
              Some c \<Rightarrow> c | None \<Rightarrow> te_upper env value)
        in if is_currency_code currency then Inr currency
           else Inl (MappingValidationError ''invalid currency code'')))"

text \<open>\<^verbatim>\<open>dict(pairs)\<close>: the last pair of a key wins.\<close>

definition pairs_dict :: "(pystr \<times> pystr) list \<Rightarrow> (pystr, pystr) dict" where
  "pairs_dict ps = foldl (\<lambda>d (k, v). dict_set k v d) [] ps"

definition apply_field_rule :: "py_env \<Rightarrow> field_rule \<Rightarrow> (pystr, pystr) dict \<Rightarrow> pystr option res" where
  "apply_field_rule env r record =
     rbind (case fr_literal r of Some l \<Rightarrow> Inr l | None \<Rightarrow> columns_value r record) (\<lambda>raw.
     let value = (if fr_trim r then strip raw else raw) in
     if value \<in> set (fr_null_markers r) \<or> value = [] then Inr None
     else let mapped = (case dict_get (pairs_dict (fr_value_map r)) value of Some v \<Rightarrow> v | None \<Rightarrow> value)
          in rbind (parse_field env r mapped) (\<lambda>t. Inr (Some t)))"

type_synonym row_values = "(pystr, pystr option) dict"

fun apply_rules :: "py_env \<Rightarrow> (pystr, pystr) dict \<Rightarrow> field_rule list \<Rightarrow> row_values \<Rightarrow> pystr list
    \<Rightarrow> (row_values \<times> pystr list) res" where
  "apply_rules env record [] vals errs = Inr (vals, errs)"
| "apply_rules env record (r # rs) vals errs =
     (case apply_field_rule env r record of
        Inr v \<Rightarrow> apply_rules env record rs (dict_set (fr_target_field r) v vals) errs
      | Inl (MappingValidationError msg) \<Rightarrow>
          apply_rules env record rs (dict_set (fr_target_field r) None vals)
            (errs @ [fr_target_field r @ [58] @ u msg])
      | Inl e \<Rightarrow> Inl e)"

definition missing_value :: "row_values \<Rightarrow> pystr \<Rightarrow> bool" where
  "missing_value vals f \<longleftrightarrow> dict_get vals f \<in> {None, Some None, Some (Some [])}"

definition required_errors :: "row_values \<Rightarrow> pystr list \<Rightarrow> pystr list" where
  "required_errors vals required = map (\<lambda>f. f @ u '':required'') (filter (missing_value vals) required)"

fun dedup :: "pystr list \<Rightarrow> pystr list \<Rightarrow> pystr list" where
  "dedup seen [] = []"
| "dedup seen (x # xs) = (if x \<in> set seen then dedup seen xs else x # dedup (x # seen) xs)"

definition apply_row :: "py_env \<Rightarrow> mapping_contract \<Rightarrow> staged_table \<Rightarrow> staged_row
    \<Rightarrow> (row_values \<times> pystr list) res" where
  "apply_row env m t row =
     rbind (apply_rules env (as_record row (sd_ordered_headers (st_descriptor t))) (mc_field_rules m) [] [])
       (\<lambda>(vals, errs). Inr (vals, dedup [] (errs @ required_errors vals (mc_required_fields m))))"

definition validate_mapping_against_table :: "mapping_contract \<Rightarrow> staged_table \<Rightarrow> unit res" where
  "validate_mapping_against_table m t = (let d = st_descriptor t in checks
     [need (mc_table_locator m = sd_table_locator d) ''mapping is bound to a different table'',
      need (mc_schema_fingerprint m = sd_schema_fingerprint d) ''mapping is bound to a stale schema'',
      need (list_all (\<lambda>r. list_all (\<lambda>c. c \<in> set (sd_ordered_headers d)) (fr_source_columns r)) (mc_field_rules m))
        ''mapping refers to an unknown source column''])"

subsection \<open>Preview\<close>

text \<open>\<^verbatim>\<open>html.escape(value, quote=True)\<close>\<close>

definition escape_char :: "nat \<Rightarrow> pystr" where
  "escape_char c = (if c = 38 then u ''&amp;'' else if c = 60 then u ''&lt;'' else if c = 62 then u ''&gt;''
     else if c = 34 then u ''&quot;'' else if c = 39 then u ''&#x27;'' else [c])"

definition html_escape :: "pystr \<Rightarrow> pystr" where
  "html_escape s = concat (map escape_char s)"

definition escaped_values :: "row_values \<Rightarrow> row_values" where
  "escaped_values vals = map (\<lambda>(k, v). (k, map_option html_escape v)) vals"

record preview_row =
  pr_row_ordinal :: nat
  pr_source_locator :: pystr
  pr_values :: row_values
  pr_errors :: "pystr list"

record mapping_preview =
  mp_table_locator :: pystr
  mp_rows :: "preview_row list"
  mp_total_rows :: nat
  mp_valid_rows :: nat
  mp_error_rows :: nat
  mp_blank_rows :: nat
  mp_truncated :: bool

definition count_row :: "pystr list \<Rightarrow> mapping_preview \<Rightarrow> mapping_preview" where
  "count_row errs p = (if errs \<noteq> [] then p\<lparr>mp_error_rows := mp_error_rows p + 1\<rparr>
     else p\<lparr>mp_valid_rows := mp_valid_rows p + 1\<rparr>)"

definition show_row :: "nat \<Rightarrow> staged_row \<Rightarrow> row_values \<Rightarrow> pystr list \<Rightarrow> mapping_preview \<Rightarrow> mapping_preview" where
  "show_row limit row vals errs p = (if length (mp_rows p) < limit
     then p\<lparr>mp_rows := mp_rows p @ [\<lparr>pr_row_ordinal = sr_row_ordinal row,
       pr_source_locator = sr_row_locator row, pr_values = escaped_values vals, pr_errors = errs\<rparr>]\<rparr>
     else p)"

fun preview_rows :: "py_env \<Rightarrow> mapping_contract \<Rightarrow> staged_table \<Rightarrow> nat \<Rightarrow> staged_row list \<Rightarrow> mapping_preview
    \<Rightarrow> mapping_preview res" where
  "preview_rows env m t limit [] p = Inr p"
| "preview_rows env m t limit (row # rows) p =
     (if sr_blank row
      then preview_rows env m t limit rows (show_row limit row [] [] (p\<lparr>mp_blank_rows := mp_blank_rows p + 1\<rparr>))
      else rbind (apply_row env m t row) (\<lambda>(vals, errs).
        preview_rows env m t limit rows (show_row limit row vals errs (count_row errs p))))"

definition preview_mapping :: "py_env \<Rightarrow> mapping_contract \<Rightarrow> staged_table \<Rightarrow> int \<Rightarrow> mapping_preview res" where
  "preview_mapping env m t limit =
     (if limit < 1 \<or> int max_preview_rows < limit
      then Inl (MappingValidationError ''preview limit must be between 1 and 50'')
      else rbind (validate_mapping_against_table m t) (\<lambda>_.
        preview_rows env m t (nat limit) (st_rows t)
          \<lparr>mp_table_locator = mc_table_locator m, mp_rows = [], mp_total_rows = length (st_rows t),
           mp_valid_rows = 0, mp_error_rows = 0, mp_blank_rows = 0,
           mp_truncated = limit < int (length (st_rows t))\<rparr>))"

subsection \<open>Applying a mapping set\<close>

record mapping_application =
  ma_candidates :: "candidate_draft list"
  ma_ledger :: "unit_decision list"

record apply_state =
  as_candidates :: "candidate_draft list"
  as_decisions :: "unit_decision list"
  as_ordinal :: int

definition payload_value :: "pystr option \<Rightarrow> pyval" where
  "payload_value v = opt_str v"

definition row_decision :: "staged_row \<Rightarrow> disposition \<Rightarrow> pystr option \<Rightarrow> pystr option \<Rightarrow> unit_decision" where
  "row_decision row disp key reason = \<lparr>ud_unit_id = sr_row_locator row, ud_locator = sr_row_locator row,
     ud_content_digest = sr_row_fingerprint row, ud_disposition = disp, ud_candidate_key = key, ud_reason = reason\<rparr>"

definition apply_mapped_row :: "py_env \<Rightarrow> pystr \<Rightarrow> mapping_contract \<Rightarrow> staged_table \<Rightarrow> staged_row \<Rightarrow> apply_state
    \<Rightarrow> apply_state res" where
  "apply_mapped_row env sha m t row s =
     (if sr_blank row then rbind (mk_unit_decision (row_decision row Blank None None)) (\<lambda>d.
        Inr (s\<lparr>as_decisions := as_decisions s @ [d]\<rparr>))
      else let n = as_ordinal s + 1 in
        rbind (apply_row env m t row) (\<lambda>(vals, errs).
        rbind (build_candidate_key env \<lparr>ki_source_sha256 = sha, ki_source_locator = sr_row_locator row,
            ki_candidate_ordinal = n, ki_normalized_item_hash = sr_row_fingerprint row,
            ki_record_kind = mc_record_kind m, ki_financial_subtype = mc_financial_subtype m,
            ki_mapping_version = mc_mapping_version m\<rparr>) (\<lambda>key.
        rbind (mk_candidate_draft \<lparr>cd_candidate_ordinal = n, cd_candidate_key = key,
            cd_record_kind = mc_record_kind m, cd_financial_subtype = mc_financial_subtype m,
            cd_payload = map (\<lambda>(k, v). (k, payload_value v)) vals, cd_confidences = map (\<lambda>(k, v). (k, 1)) vals,
            cd_source_locator = sr_row_locator row, cd_row_fingerprint = sr_row_fingerprint row,
            cd_validation_issues = errs, cd_evidence_group_keys = []\<rparr>) (\<lambda>c.
        rbind (mk_unit_decision (row_decision row Mapped_Candidate (Some key) None)) (\<lambda>d.
        Inr \<lparr>as_candidates = as_candidates s @ [c], as_decisions = as_decisions s @ [d], as_ordinal = n\<rparr>)))))"

fun rfold :: "('a \<Rightarrow> 's \<Rightarrow> 's res) \<Rightarrow> 'a list \<Rightarrow> 's \<Rightarrow> 's res" where
  "rfold f [] s = Inr s"
| "rfold f (x # xs) s = rbind (f x s) (\<lambda>s'. rfold f xs s')"

definition ignore_row :: "pystr \<Rightarrow> staged_row \<Rightarrow> apply_state \<Rightarrow> apply_state res" where
  "ignore_row reason row s = rbind (mk_unit_decision (row_decision row Explicit_Ignore None (Some reason))) (\<lambda>d.
     Inr (s\<lparr>as_decisions := as_decisions s @ [d]\<rparr>))"

definition apply_table :: "py_env \<Rightarrow> pystr \<Rightarrow> mapping_set \<Rightarrow> staged_table \<Rightarrow> apply_state \<Rightarrow> apply_state res" where
  "apply_table env sha ms t s =
     (case find (\<lambda>e. se_table_locator e = sd_table_locator (st_descriptor t)) (rev (ms_entries ms)) of
        None \<Rightarrow> Inl KeyError
      | Some e \<Rightarrow>
          if se_schema_fingerprint e \<noteq> sd_schema_fingerprint (st_descriptor t)
          then Inl (MappingValidationError ''mapping set contains a stale schema fingerprint'')
          else (case se_mapping e of
              None \<Rightarrow> (case se_ignore_reason e of None \<Rightarrow> Inl AssertionError
                | Some reason \<Rightarrow> rfold (ignore_row reason) (st_rows t) s)
            | Some m \<Rightarrow> rbind (validate_mapping_against_table m t) (\<lambda>_.
                rfold (apply_mapped_row env sha m t) (st_rows t) s)))"

definition residual_draft :: "pystr \<Rightarrow> pystr \<Rightarrow> pystr \<Rightarrow> int \<Rightarrow> pystr \<Rightarrow> candidate_draft" where
  "residual_draft loc fp md n key = \<lparr>cd_candidate_ordinal = n, cd_candidate_key = key,
     cd_record_kind = Generic_Document, cd_financial_subtype = None,
     cd_payload = [(u ''content_markdown'', PStr md)], cd_confidences = [],
     cd_source_locator = loc, cd_row_fingerprint = fp, cd_validation_issues = [], cd_evidence_group_keys = []\<rparr>"

definition residual_decision :: "pystr \<Rightarrow> pystr \<Rightarrow> pystr \<Rightarrow> unit_decision" where
  "residual_decision loc fp key = \<lparr>ud_unit_id = loc, ud_locator = loc, ud_content_digest = fp,
     ud_disposition = Residual_Generic_Candidate, ud_candidate_key = Some key, ud_reason = None\<rparr>"

definition apply_residual :: "py_env \<Rightarrow> pystr \<Rightarrow> staged_structure \<Rightarrow> apply_state \<Rightarrow> apply_state res" where
  "apply_residual env sha staged s = (case ss_residual_markdown staged of None \<Rightarrow> Inr s
     | Some md \<Rightarrow> (case (ss_residual_locator staged, ss_residual_fingerprint staged) of
         (Some loc, Some fp) \<Rightarrow>
           (let n = as_ordinal s + 1 in
            rbind (build_candidate_key env \<lparr>ki_source_sha256 = sha, ki_source_locator = loc,
                ki_candidate_ordinal = n, ki_normalized_item_hash = fp, ki_record_kind = Generic_Document,
                ki_financial_subtype = None, ki_mapping_version = 1\<rparr>) (\<lambda>key.
            rbind (mk_candidate_draft (residual_draft loc fp md n key)) (\<lambda>c.
            rbind (mk_unit_decision (residual_decision loc fp key)) (\<lambda>d.
            Inr \<lparr>as_candidates = as_candidates s @ [c], as_decisions = as_decisions s @ [d], as_ordinal = n\<rparr>))))
       | _ \<Rightarrow> Inl (MappingValidationError ''residual structure identity is incomplete'')))"

definition apply_mapping_set :: "py_env \<Rightarrow> mapping_set \<Rightarrow> staged_structure \<Rightarrow> pystr \<Rightarrow> mapping_application res" where
  "apply_mapping_set env ms staged sha =
     rbind (checks
       [mapping_digest sha,
        need (ss_structure_fingerprint staged = ms_structure_fingerprint ms) ''mapping set is bound to stale structure'',
        need (set (map (\<lambda>t. sd_table_locator (st_descriptor t)) (ss_tables staged))
              = set (map se_table_locator (ms_entries ms)))
          ''mapping set must cover every discovered table exactly once'',
        need (list_all (\<lambda>t. sd_source_file_id (st_descriptor t) = ms_source_file_id ms
                \<and> sd_source_version (st_descriptor t) = ms_source_version ms) (ss_tables staged))
          ''mapping set is bound to a different source'']) (\<lambda>_.
     rbind (rfold (apply_table env sha ms) (ss_tables staged)
              \<lparr>as_candidates = [], as_decisions = [], as_ordinal = 0\<rparr>) (\<lambda>s.
     rbind (apply_residual env sha staged s) (\<lambda>s'.
     rbind (mk_ledger (as_decisions s')) (\<lambda>ledger.
     if length ledger \<noteq> ss_unit_count staged
     then Inl (MappingValidationError ''not every structural unit was reconciled'')
     else Inr \<lparr>ma_candidates = as_candidates s', ma_ledger = ledger\<rparr>))))"

end
