(* ===== verification/Canonical_Props.thy ===== *)
theory Canonical_Props
  imports Canonical
begin

text \<open>
  The canonical spellings are unambiguous: different data never share a JSON text, different part
  lists never share a locator. Both rest on the prefix-code contract of \<open>Py_Text\<close>, interpreted for
  JSON characters and for percent-encoded bytes.
\<close>

subsection \<open>Characters and strings\<close>

lemma json_u_prefix:
  assumes "is_scalar c" and "is_scalar d" and eq: "json_u c @ r = json_u d @ r'"
  shows "c = d \<and> r = r'"
proof -
  define hi where "hi n = 55296 + (n - 65536) div 1024" for n :: nat
  define lo where "lo n = 56320 + (n - 65536) mod 1024" for n :: nat
  have u: "json_u n = (if n < 65536 then hex4 n else hex4 (hi n) @ [92, 117] @ hex4 (lo n))" for n
    by (simp add: json_u_def hi_def lo_def)
  have hi: "55296 \<le> hi n" "hi n \<le> 57343" "hi n < 65536" if "is_scalar n" "\<not> n < 65536" for n
  proof -
    have "(n - 65536) div 1024 < 1024" using that by (auto simp: is_scalar_def div_less_iff_less_mult)
    then show "55296 \<le> hi n" "hi n \<le> 57343" "hi n < 65536" by (simp_all add: hi_def)
  qed
  have lo: "lo n < 65536" for n
  proof -
    have "(n - 65536) mod 1024 < 1024" by simp
    then show ?thesis unfolding lo_def by linarith
  qed
  have pair: "m = n" if "hi m = hi n" "lo m = lo n" "\<not> m < 65536" "\<not> n < 65536" for m n
    using that div_mod_eqI [of "m - 65536" 1024 "n - 65536"] by (simp add: hi_def lo_def)
  have no: "\<not> is_scalar (hi n)" if "is_scalar n" "\<not> n < 65536" for n
    using hi [OF that] by (simp add: is_scalar_def is_surrogate_def)
  show ?thesis
  proof (cases "c < 65536"; cases "d < 65536")
    assume "c < 65536" "d < 65536"
    then show ?thesis using eq hex4_inj [of c d r r'] by (simp add: u)
  next
    assume *: "c < 65536" "\<not> d < 65536"
    then have "c = hi d" using eq hex4_inj [of c "hi d"] hi [OF assms(2)] by (simp add: u)
    then show ?thesis using no [OF assms(2) *(2)] assms(1) by simp
  next
    assume *: "\<not> c < 65536" "d < 65536"
    then have "hi c = d" using eq hex4_inj [of "hi c" d] hi [OF assms(1)] by (simp add: u)
    then show ?thesis using no [OF assms(1) *(1)] assms(2) by simp
  next
    assume *: "\<not> c < 65536" "\<not> d < 65536"
    then have "hex4 (hi c) @ ([92, 117] @ hex4 (lo c) @ r) = hex4 (hi d) @ ([92, 117] @ hex4 (lo d) @ r')"
      using eq by (simp add: u)
    from hex4_inj [OF _ _ this] hi [OF assms(1)] hi [OF assms(2)] *
    have "hi c = hi d" "hex4 (lo c) @ r = hex4 (lo d) @ r'" by simp_all
    with hex4_inj [OF lo lo this(2)] pair * show ?thesis by simp
  qed
qed

definition json_short :: "nat \<Rightarrow> pystr option" where
  "json_short c = map_of [(34, [92, 34]), (92, [92, 92]), (10, [92, 110]), (13, [92, 114]), (9, [92, 116]),
     (12, [92, 102]), (8, [92, 98])] c"

lemma json_char_split:
  "json_char c = (case json_short c of Some e \<Rightarrow> e
     | None \<Rightarrow> if 32 \<le> c \<and> c \<le> 126 then [c] else [92, 117] @ json_u c)"
proof (cases "c \<in> {34, 92, 10, 13, 9, 12, 8}")
  case True
  then consider "c = 34" | "c = 92" | "c = 10" | "c = 13" | "c = 9" | "c = 12" | "c = 8" by auto
  then show ?thesis by cases (simp_all add: json_char_def json_short_def)
next
  case False
  then have "json_short c = None" by (simp add: json_short_def)
  with False show ?thesis by (simp add: json_char_def)
qed

lemma json_short_Some:
  "json_short c = Some e \<Longrightarrow> \<exists>x. e = [92, x] \<and> x \<noteq> 117"
  unfolding json_short_def by (drule map_of_SomeD, simp, elim disjE, simp_all)

lemma json_short_inj: "\<lbrakk>json_short c = Some e; json_short d = Some e\<rbrakk> \<Longrightarrow> c = d"
  unfolding json_short_def by (drule map_of_SomeD)+ auto

lemma json_short_None: "json_short c = None \<Longrightarrow> c \<noteq> 92 \<and> c \<noteq> 34"
  by (auto simp: json_short_def split: if_splits)

lemma json_char_prefix:
  assumes "is_scalar c" and "is_scalar d" and eq: "json_char c @ r = json_char d @ r'"
  shows "c = d \<and> r = r'"
proof (cases "json_short c"; cases "json_short d")
  fix e e' assume s: "json_short c = Some e" "json_short d = Some e'"
  then obtain x y where "e = [92, x]" "e' = [92, y]" using json_short_Some by blast
  then show ?thesis using eq s json_short_inj [OF s(1), of d] by (simp add: json_char_split)
next
  fix e assume s: "json_short c = Some e" "json_short d = None"
  then show ?thesis using eq json_short_Some [OF s(1)] json_short_None [OF s(2)]
    by (auto simp: json_char_split split: if_splits)
next
  fix e assume s: "json_short c = None" "json_short d = Some e"
  then show ?thesis using eq json_short_Some [OF s(2)] json_short_None [OF s(1)]
    by (auto simp: json_char_split split: if_splits)
next
  assume s: "json_short c = None" "json_short d = None"
  then show ?thesis using eq json_u_prefix [OF assms(1,2), of r r'] json_short_None [OF s(1)]
      json_short_None [OF s(2)]
    by (auto simp: json_char_split split: if_splits)
qed

lemma json_char_hd: "json_char c \<noteq> []" "hd (json_char c) \<noteq> 34"
  by (simp_all add: json_char_def)

interpretation json_chars: prefix_code json_char is_scalar
proof unfold_locales
  show "json_char x \<noteq> []" for x by (rule json_char_hd)
qed (rule json_char_prefix)

lemma json_string_prefix:
  assumes "list_all is_scalar s" and "list_all is_scalar t" and "json_string s @ r = json_string t @ r'"
  shows "s = t \<and> r = r'"
  using json_chars.enc_all_terminated [OF assms(1,2), of 34 r r'] json_char_hd assms(3)
  by (simp add: json_string_def json_chars.enc_all_def)

subsection \<open>Number tokens\<close>

definition is_num_char :: "nat \<Rightarrow> bool" where
  "is_num_char c \<longleftrightarrow> is_ascii_digit c \<or> c = 45 \<or> c = 43 \<or> c = 46 \<or> c = 101"

text \<open>What the language reference promises of the repr of a finite float: a number token that is
  not an integer token, different for different floats.\<close>

definition float_repr_ok :: "(rat \<Rightarrow> pystr) \<Rightarrow> bool" where
  "float_repr_ok float_repr \<longleftrightarrow> inj float_repr \<and> (\<forall>x. float_repr x \<noteq> [] \<and> list_all is_num_char (float_repr x)
     \<and> list_ex (\<lambda>c. c = 46 \<or> c = 101) (float_repr x))"

definition delim :: "pystr \<Rightarrow> bool" where
  "delim r \<longleftrightarrow> r = [] \<or> hd r \<in> {44, 93, 125}"

lemma delim_Cons [simp]: "delim (c # r) \<longleftrightarrow> c \<in> {44, 93, 125}"
  by (simp add: delim_def)

lemma token_prefix:
  assumes "list_all is_num_char a" "list_all is_num_char b" "delim r" "delim r'" "a @ r = b @ r'"
  shows "a = b \<and> r = r'"
proof -
  have run: "takeWhile is_num_char (a @ r) = a" if "list_all is_num_char a" "delim r" for a r
    using that by (cases r) (auto simp: list_all_iff is_num_char_def is_ascii_digit_def)
  have "a = b" using run [OF assms(1,3)] run [OF assms(2,4)] assms(5) by simp
  with assms(5) show ?thesis by simp
qed

lemma int_str_token: "list_all is_num_char (int_str i)" "int_str i \<noteq> []"
  "\<not> list_ex (\<lambda>c. c = 46 \<or> c = 101) (int_str i)"
  using nat_str_digits [of "nat i"] nat_str_digits [of "nat (- i)"]
  by (auto simp: int_str_def is_num_char_def is_ascii_digit_def list_all_iff list_ex_iff)

subsection \<open>Structured values\<close>

primrec json_wf :: "pyval \<Rightarrow> bool" where
  "json_wf PNone = True"
| "json_wf (PBool b) = True"
| "json_wf (PInt i) = True"
| "json_wf (PFloat x) = True"
| "json_wf PNonFinite = False"
| "json_wf (PStr s) = list_all is_scalar s"
| "json_wf (PUuid n) = False"
| "json_wf (PObject n) = False"
| "json_wf (PList vs) = list_all id (map json_wf vs)"
| "json_wf (PDict d) = (list_all snd (map (map_prod id json_wf) d) \<and> list_all (list_all is_scalar) (map fst d))"

lemma json_wf_PList [simp]: "json_wf (PList vs) \<longleftrightarrow> (\<forall>v \<in> set vs. json_wf v)"
  by (simp add: list_all_iff)

lemma json_wf_PDict [simp]:
  "json_wf (PDict d) \<longleftrightarrow> (\<forall>(k, v) \<in> set d. json_wf v \<and> list_all is_scalar k)"
  by (auto simp: list_all_iff)

declare json_wf.simps(9,10) [simp del]

fun value_kind :: "pyval \<Rightarrow> nat" where
  "value_kind PNone = 0"
| "value_kind (PBool b) = 1"
| "value_kind (PStr s) = 2"
| "value_kind (PList vs) = 3"
| "value_kind (PDict d) = 4"
| "value_kind _ = 5"

definition head_kind :: "nat \<Rightarrow> nat" where
  "head_kind c = (if c = 110 then 0 else if c = 116 \<or> c = 102 then 1 else if c = 34 then 2 else if c = 91 then 3
     else if c = 123 then 4 else if is_num_char c then 5 else 6)"

lemma head_kind_literals [simp]:
  "head_kind 110 = 0" "head_kind 116 = 1" "head_kind 102 = 1" "head_kind 34 = 2" "head_kind 91 = 3"
  "head_kind 123 = 4" "head_kind 44 = 6" "head_kind 93 = 6" "head_kind 125 = 6"
  by (simp_all add: head_kind_def is_num_char_def is_ascii_digit_def)

lemma value_kind_le: "value_kind v \<le> 5"
  by (cases v) simp_all

lemma head_kind_num: "is_num_char c \<Longrightarrow> head_kind c = 5"
  by (auto simp: head_kind_def is_num_char_def is_ascii_digit_def)

lemma token_head: "\<lbrakk>list_all is_num_char t; t \<noteq> []\<rbrakk> \<Longrightarrow> head_kind (hd t) = 5"
  by (cases t) (simp_all add: head_kind_num)

lemma dumps_head:
  assumes "float_repr_ok fr" and "json_wf v"
  shows "dumps fr v \<noteq> []" and "head_kind (hd (dumps fr v)) = value_kind v"
proof -
  have "dumps fr v \<noteq> [] \<and> head_kind (hd (dumps fr v)) = value_kind v"
    using assms int_str_token
    by (cases v) (auto simp: float_repr_ok_def token_head json_string_def py_simps)
  then show "dumps fr v \<noteq> []" and "head_kind (hd (dumps fr v)) = value_kind v" by simp_all
qed

text \<open>A list of self-delimiting items, separated by commas and closed by a bracket.\<close>

definition prefix_at :: "('e \<Rightarrow> pystr) \<Rightarrow> ('e \<Rightarrow> bool) \<Rightarrow> 'e \<Rightarrow> bool" where
  "prefix_at E okp x \<longleftrightarrow> (\<forall>w r r'. okp w \<longrightarrow> delim r \<longrightarrow> delim r' \<longrightarrow> E x @ r = E w @ r' \<longrightarrow> x = w \<and> r = r')"

lemma prefix_atD:
  "\<lbrakk>prefix_at E okp x; okp w; delim r; delim r'; E x @ r = E w @ r'\<rbrakk> \<Longrightarrow> x = w \<and> r = r'"
  by (simp add: prefix_at_def)

definition item_tail :: "('e \<Rightarrow> pystr) \<Rightarrow> 'e list \<Rightarrow> nat \<Rightarrow> pystr \<Rightarrow> pystr" where
  "item_tail E xs t r = concat (map (\<lambda>x. 44 # E x) xs) @ t # r"

lemma item_tail_simps [simp]:
  "item_tail E [] t r = t # r" "item_tail E (x # xs) t r = 44 # E x @ item_tail E xs t r"
  by (simp_all add: item_tail_def)

lemma delim_item_tail: "t \<in> {93, 125} \<Longrightarrow> delim (item_tail E xs t r)"
  by (cases xs) auto

lemma item_tail_prefix:
  "\<lbrakk>\<forall>x \<in> set xs. prefix_at E okp x; \<forall>y \<in> set ys. okp y; t \<in> {93, 125};
    item_tail E xs t r = item_tail E ys t r'\<rbrakk> \<Longrightarrow> xs = ys \<and> r = r'"
proof (induction xs arbitrary: ys)
  case Nil
  then show ?case by (cases ys) auto
next
  case (Cons x xs)
  then obtain y ys' where ys: "ys = y # ys'" by (cases ys) auto
  with Cons.prems have "E x @ item_tail E xs t r = E y @ item_tail E ys' t r'" by simp
  then have "x = y \<and> item_tail E xs t r = item_tail E ys' t r'"
    by (rule prefix_atD [where okp = okp, rotated 4]) (use Cons.prems ys delim_item_tail in auto)
  moreover from this have "xs = ys' \<and> r = r'" by (intro Cons.IH) (use Cons.prems ys in auto)
  ultimately show ?case using ys by simp
qed

lemma join_items: "join [44] (map E (x # xs)) @ t # r = E x @ item_tail E xs t r"
  by (simp add: join_def item_tail_def comp_def)

lemma items_prefix:
  assumes "\<forall>x \<in> set xs. prefix_at E okp x" and "\<forall>y \<in> set ys. okp y" and "t \<in> {93, 125}"
    and "\<And>x. okp x \<or> x \<in> set xs \<Longrightarrow> E x \<noteq> [] \<and> hd (E x) \<noteq> t"
    and eq: "join [44] (map E xs) @ t # r = join [44] (map E ys) @ t # r'"
  shows "xs = ys \<and> r = r'"
proof (cases xs; cases ys)
  fix y ys' assume *: "xs = []" "ys = y # ys'"
  then have "t # r = E y @ item_tail E ys' t r'" using eq by (simp only: join_items) simp
  with assms(2) assms(4) [of y] * show ?thesis by (cases "E y") auto
next
  fix x xs' assume *: "xs = x # xs'" "ys = []"
  then have "E x @ item_tail E xs' t r = t # r'" using eq by (simp only: join_items) simp
  with assms(4) [of x] * show ?thesis by (cases "E x") auto
next
  fix x xs' y ys' assume *: "xs = x # xs'" "ys = y # ys'"
  then have "E x @ item_tail E xs' t r = E y @ item_tail E ys' t r'" using eq by (simp only: join_items)
  then have "x = y \<and> item_tail E xs' t r = item_tail E ys' t r'"
    by (rule prefix_atD [where okp = okp, rotated 4]) (use assms(1-3) * delim_item_tail in auto)
  then show ?thesis using item_tail_prefix [of xs' E okp ys' t r r'] assms(1-3) * by simp
qed (use eq in simp)

definition entry_text :: "(rat \<Rightarrow> pystr) \<Rightarrow> pystr \<times> pyval \<Rightarrow> pystr" where
  "entry_text fr kv = json_string (fst kv) @ 58 # dumps fr (snd kv)"

definition entry_ok :: "pystr \<times> pyval \<Rightarrow> bool" where
  "entry_ok kv \<longleftrightarrow> json_wf (snd kv) \<and> list_all is_scalar (fst kv)"

lemma dumps_PDict: "dumps fr (PDict d) = 123 # join [44] (map (entry_text fr) d) @ [125]"
  by (simp add: entry_text_def [abs_def] json_entry_def comp_def)

lemma entry_prefix:
  assumes "prefix_at (dumps fr) json_wf (snd kv)" and "list_all is_scalar (fst kv)"
  shows "prefix_at (entry_text fr) entry_ok kv"
  unfolding prefix_at_def
proof (intro allI impI)
  fix w r r' assume w: "entry_ok w" and d: "delim r" "delim r'"
    and eq: "entry_text fr kv @ r = entry_text fr w @ r'"
  from eq have "json_string (fst kv) @ (58 # dumps fr (snd kv) @ r) = json_string (fst w) @ (58 # dumps fr (snd w) @ r')"
    by (simp add: entry_text_def)
  then have k: "fst kv = fst w" "dumps fr (snd kv) @ r = dumps fr (snd w) @ r'"
    using json_string_prefix [OF assms(2)] w by (auto simp: entry_ok_def)
  then have "snd kv = snd w \<and> r = r'" using prefix_atD [OF assms(1) _ d k(2)] w by (simp add: entry_ok_def)
  with k show "kv = w \<and> r = r'" by (simp add: prod_eq_iff)
qed

lemma dumps_kind_eq:
  assumes "float_repr_ok fr" and "json_wf v" and "json_wf w" and "dumps fr v @ r = dumps fr w @ r'"
  shows "value_kind v = value_kind w"
  using dumps_head [OF assms(1,2)] dumps_head [OF assms(1,3)] assms(4)
  by (cases "dumps fr v"; cases "dumps fr w") auto

lemma dumps_number_prefix:
  assumes fr: "float_repr_ok fr" and "value_kind v = 5" and "value_kind w = 5" and "json_wf v" and "json_wf w"
    and "delim r" and "delim r'" and "dumps fr v @ r = dumps fr w @ r'"
  shows "v = w \<and> r = r'"
proof -
  have tok: "list_all is_num_char (dumps fr x)" if "value_kind x = 5" "json_wf x" for x
    using that fr int_str_token(1) by (cases x) (auto simp: float_repr_ok_def)
  have "dumps fr v = dumps fr w \<and> r = r'"
    by (rule token_prefix [OF tok tok assms(6-8)]) (use assms in simp_all)
  moreover have "v = w" if "dumps fr v = dumps fr w"
    using that assms(2-5) fr int_str_token(3)
    by (cases v; cases w) (auto simp: float_repr_ok_def inj_eq, metis+)
  ultimately show ?thesis by simp
qed

lemma dumps_number_prefix_at:
  assumes fr: "float_repr_ok fr" and v: "value_kind v = 5" "json_wf v"
  shows "prefix_at (dumps fr) json_wf v"
  unfolding prefix_at_def
proof (intro allI impI)
  fix w r r' assume w: "json_wf w" "delim r" "delim r'" and eq: "dumps fr v @ r = dumps fr w @ r'"
  from dumps_kind_eq [OF fr v(2) w(1) eq] v(1) have "value_kind w = 5" by simp
  then show "v = w \<and> r = r'" by (rule dumps_number_prefix [OF fr v(1) _ v(2) w eq])
qed

lemma dumps_prefix:
  assumes fr: "float_repr_ok fr"
  shows "json_wf v \<Longrightarrow> prefix_at (dumps fr) json_wf v"
proof (induction v)
  case (PStr s)
  show ?case unfolding prefix_at_def
  proof (intro allI impI)
    fix w r r' assume w: "json_wf w" and eq: "dumps fr (PStr s) @ r = dumps fr w @ r'"
    from dumps_kind_eq [OF fr PStr w eq] obtain t where "w = PStr t" by (cases w) auto
    with eq w PStr json_string_prefix [of s t r r'] show "PStr s = w \<and> r = r'" by simp
  qed
next
  case (PList vs)
  then have items: "\<forall>x \<in> set vs. prefix_at (dumps fr) json_wf x" by simp
  have nd: "dumps fr x \<noteq> [] \<and> hd (dumps fr x) \<noteq> 93" if "json_wf x \<or> x \<in> set vs" for x
    using that PList.prems dumps_head [OF fr, of x] value_kind_le [of x] by auto
  show ?case unfolding prefix_at_def
  proof (intro allI impI)
    fix w r r' assume w: "json_wf w" and eq: "dumps fr (PList vs) @ r = dumps fr w @ r'"
    from dumps_kind_eq [OF fr PList.prems w eq] obtain ws where ws: "w = PList ws" by (cases w) auto
    have "vs = ws \<and> r = r'"
      by (rule items_prefix [OF items _ _ nd, of ws]) (use eq w ws in auto)
    with ws show "PList vs = w \<and> r = r'" by simp
  qed
next
  case (PDict d)
  then have items: "\<forall>kv \<in> set d. prefix_at (entry_text fr) entry_ok kv"
    by (fastforce intro!: entry_prefix)
  have nd: "entry_text fr kv \<noteq> [] \<and> hd (entry_text fr kv) \<noteq> 125" for kv
    by (simp add: entry_text_def json_string_def)
  show ?case unfolding prefix_at_def
  proof (intro allI impI)
    fix w r r' assume w: "json_wf w" and eq: "dumps fr (PDict d) @ r = dumps fr w @ r'"
    from dumps_kind_eq [OF fr PDict.prems w eq] obtain e where e: "w = PDict e" by (cases w) auto
    have "d = e \<and> r = r'"
      by (rule items_prefix [OF items _ _ nd, of e]) (use eq w e in \<open>auto simp: dumps_PDict entry_ok_def simp del: dumps.simps\<close>)
    with e show "PDict d = w \<and> r = r'" by simp
  qed
next
  case PNone
  show ?case unfolding prefix_at_def
  proof (intro allI impI)
    fix w r r' assume w: "json_wf w" and eq: "dumps fr PNone @ r = dumps fr w @ r'"
    from dumps_kind_eq [OF fr PNone w eq] show "PNone = w \<and> r = r'" using eq by (cases w) auto
  qed
next
  case (PBool b)
  show ?case unfolding prefix_at_def
  proof (intro allI impI)
    fix w r r' assume w: "json_wf w" and eq: "dumps fr (PBool b) @ r = dumps fr w @ r'"
    from dumps_kind_eq [OF fr PBool w eq] show "PBool b = w \<and> r = r'"
      using eq by (cases w) (auto simp: py_simps split: if_splits)
  qed
next
  case (PInt i)
  then show ?case by (intro dumps_number_prefix_at [OF fr]) simp_all
next
  case (PFloat x)
  then show ?case by (intro dumps_number_prefix_at [OF fr]) simp_all
qed simp_all

subsection \<open>Canonical JSON\<close>

lemma json_wf_ok: "json_wf v \<Longrightarrow> json_ok v"
  by (induction v) (auto simp: list_all_iff)

lemma json_wf_sort_keys: "json_wf v \<Longrightarrow> json_wf (sort_keys v)"
  by (induction v) auto

lemma dumps_inj:
  assumes "float_repr_ok fr" and "json_wf v" and "json_wf w" and "dumps fr v = dumps fr w"
  shows "v = w"
  using prefix_atD [OF dumps_prefix [OF assms(1,2)] assms(3), of "[]" "[]"] assms(4)
  by (simp add: delim_def)

text \<open>
  C33. The canonical JSON text identifies the data: for values made of JSON types and Unicode text, two
  values have the same canonical text exactly when they are equal after sorting the keys of every
  object, so a digest of the text never confuses two different values before hashing.
\<close>

theorem canonical_json_is_unambiguous:
  assumes "float_repr_ok float_repr" and "json_wf v" and "json_wf w"
  shows "canonical_json float_repr v = canonical_json float_repr w \<longleftrightarrow> sort_keys v = sort_keys w"
  using assms dumps_inj [OF assms(1) json_wf_sort_keys json_wf_sort_keys, of v w]
  by (auto simp: canonical_json_def json_wf_ok)

text \<open>An instance of the float parameter: numerator, point, denominator.\<close>

definition demo_repr :: "rat \<Rightarrow> pystr" where
  "demo_repr x = int_str (fst (quotient_of x)) @ 46 # int_str (snd (quotient_of x))"

lemma demo_repr_ok: "float_repr_ok demo_repr"
proof -
  have pt: "46 \<notin> set (int_str i)" for i
    using int_str_token(3) [of i] by (auto simp: list_ex_iff)
  have "x = y" if eq: "demo_repr x = demo_repr y" for x y
  proof -
    have "join [46] [int_str (fst (quotient_of x)), int_str (snd (quotient_of x))]
      = join [46] [int_str (fst (quotient_of y)), int_str (snd (quotient_of y))]"
      using eq by (simp add: demo_repr_def)
    from join_sep_inj [OF _ _ _ _ this] pt have "quotient_of x = quotient_of y" by (simp add: prod_eq_iff)
    then show ?thesis using quotient_of_inject_eq by blast
  qed
  then show ?thesis
    using int_str_token(1) by (auto simp: float_repr_ok_def inj_def demo_repr_def is_num_char_def [of 46])
qed

theorem canonical_json_is_unambiguous_witness:
  "canonical_json demo_repr (PDict [([98], PInt 2), ([97], PList [PNone])])
     = canonical_json demo_repr (PDict [([97], PList [PNone]), ([98], PInt 2)])
   \<and> canonical_json demo_repr (PDict [([97], PInt 2)]) \<noteq> canonical_json demo_repr (PDict [([97], PStr [50])])"
proof -
  have "json_wf (PDict [([98], PInt 2), ([97], PList [PNone])])" "json_wf (PDict [([97], PList [PNone]), ([98], PInt 2)])"
    "json_wf (PDict [([97], PInt 2)])" "json_wf (PDict [([97], PStr [50])])"
    by (simp_all add: is_scalar_def is_surrogate_def)
  from canonical_json_is_unambiguous [OF demo_repr_ok this(1,2)]
    canonical_json_is_unambiguous [OF demo_repr_ok this(3,4)]
  show ?thesis by simp
qed

subsection \<open>Locators\<close>

lemma quote_byte_prefix:
  assumes "b < 256" and "c < 256" and "quote_byte b @ r = quote_byte c @ r'"
  shows "b = c \<and> r = r'"
proof -
  have "\<not> is_unreserved 37" by (simp add: is_unreserved_def is_ascii_digit_def)
  moreover have "b div 16 < 16" "c div 16 < 16" using assms by (simp_all add: div_less_iff_less_mult)
  ultimately show ?thesis using assms(3)
    by (auto simp: quote_byte_def intro: div_mod_eqI [of _ 16] split: if_splits)
qed

lemma quote_byte_no_slash: "b < 256 \<Longrightarrow> 47 \<notin> set (quote_byte b)"
  by (auto simp: quote_byte_def upper_hex_digit_def is_unreserved_def is_ascii_digit_def split: if_splits)

interpretation quoted: prefix_code quote_byte "\<lambda>b. b < 256"
proof unfold_locales
  show "quote_byte b \<noteq> []" for b by (simp add: quote_byte_def)
qed (rule quote_byte_prefix)

lemma quote_Inr:
  assumes "quote s = Inr q"
  obtains bs where "utf8_encode s = Some bs" and "q = concat (map quote_byte bs)" and "list_all (\<lambda>b. b < 256) bs"
  using assms utf8_encode_bytes [of s] by (auto simp: quote_def split: option.splits)

lemma quote_inj:
  assumes "quote s = Inr q" and "quote t = Inr q"
  shows "s = t"
proof -
  obtain bs where bs: "utf8_encode s = Some bs" "q = concat (map quote_byte bs)" "list_all (\<lambda>b. b < 256) bs"
    by (rule quote_Inr [OF assms(1)])
  obtain cs where cs: "utf8_encode t = Some cs" "q = concat (map quote_byte cs)" "list_all (\<lambda>b. b < 256) cs"
    by (rule quote_Inr [OF assms(2)])
  have "bs = cs" using quoted.enc_all_inj [OF bs(3) cs(3)] bs(2) cs(2) by (simp add: quoted.enc_all_def)
  with bs(1) cs(1) show ?thesis by (auto intro: utf8_encode_inj)
qed

lemma quote_no_slash: "quote s = Inr q \<Longrightarrow> 47 \<notin> set q"
  by (erule quote_Inr) (auto simp: list_all_iff quote_byte_no_slash)

lemma encoded_parts:
  "\<lbrakk>rmap encode_part ps = Inr qs; q \<in> set qs\<rbrakk> \<Longrightarrow> 47 \<notin> set q"
  by (induction ps arbitrary: qs)
     (auto simp: res_simps encode_part_def Let_def quote_no_slash split: if_splits)

lemma encoded_parts_inj:
  "\<lbrakk>rmap encode_part ps = Inr qs; rmap encode_part ps' = Inr qs\<rbrakk> \<Longrightarrow> map part_text ps = map part_text ps'"
proof (induction ps arbitrary: ps' qs)
  case (Cons p ps)
  then show ?case
    by (cases ps') (auto simp: res_simps encode_part_def Let_def dest: quote_inj split: if_splits)
qed (use rmap_Inr_length in fastforce)

lemma canonical_locator_Inr:
  assumes "canonical_locator cf k ps = Inr l"
  obtains qs where "rmap encode_part ps = Inr qs" and "l = join [47] (cf (strip k) # qs)" and "47 \<notin> set (cf (strip k))"
proof -
  have "47 \<notin> set s" if "list_all is_kind_char s" for s
    using that by (auto simp: list_all_iff is_kind_char_def is_ascii_digit_def)
  with assms that show ?thesis by (auto simp: canonical_locator_def Let_def res_simps split: if_splits)
qed

lemma canonical_locator_inj:
  assumes "canonical_locator cf kind parts = Inr loc" and "canonical_locator cf kind' parts' = Inr loc"
  shows "cf (strip kind) = cf (strip kind') \<and> map part_text parts = map part_text parts'"
proof -
  obtain qs where qs: "rmap encode_part parts = Inr qs" "loc = join [47] (cf (strip kind) # qs)"
    "47 \<notin> set (cf (strip kind))" by (rule canonical_locator_Inr [OF assms(1)])
  obtain qs' where qs': "rmap encode_part parts' = Inr qs'" "loc = join [47] (cf (strip kind') # qs')"
    "47 \<notin> set (cf (strip kind'))" by (rule canonical_locator_Inr [OF assms(2)])
  have "cf (strip kind) # qs = cf (strip kind') # qs'"
    by (rule join_sep_inj [where c = 47])
       (use qs qs' encoded_parts [OF qs(1)] encoded_parts [OF qs'(1)] in auto)
  with encoded_parts_inj [OF qs(1), of parts'] qs'(1) show ?thesis by simp
qed

lemma rmap_encode_part_text:
  "map part_text ps = map part_text ps' \<Longrightarrow> rmap encode_part ps = rmap encode_part ps'"
proof (induction ps arbitrary: ps')
  case (Cons p ps)
  then obtain q qs where "ps' = q # qs" "part_text p = part_text q" "map part_text ps = map part_text qs" by auto
  with Cons.IH [of qs] show ?case by (simp add: encode_part_def)
qed simp

text \<open>
  A locator is unambiguous: two locators are equal exactly when they have the same kind and the same
  part texts, however the parts are spelled (slashes, percent signs and non-ASCII text included).
\<close>

lemma canonical_locator_is_unambiguous:
  assumes "canonical_locator casefold kind parts = Inr loc"
    and "canonical_locator casefold kind' parts' = Inr loc'"
  shows "loc = loc' \<longleftrightarrow> casefold (strip kind) = casefold (strip kind') \<and> map part_text parts = map part_text parts'"
proof
  assume "loc = loc'"
  with assms show "casefold (strip kind) = casefold (strip kind') \<and> map part_text parts = map part_text parts'"
    by (intro canonical_locator_inj) simp_all
next
  assume "casefold (strip kind) = casefold (strip kind') \<and> map part_text parts = map part_text parts'"
  then have "canonical_locator casefold kind parts = canonical_locator casefold kind' parts'"
    using rmap_encode_part_text [of parts parts'] by (simp add: canonical_locator_def Let_def)
  with assms show "loc = loc'" by simp
qed

lemma demo_locator:
  "canonical_locator id [114, 111, 119] [LStr [97, 47], LInt 2] = Inr [114, 111, 119, 47, 97, 37, 50, 70, 47, 50]"
  "canonical_locator id [114, 111, 119] [LStr [97], LInt 2] = Inr [114, 111, 119, 47, 97, 47, 50]"
  by (simp_all add: canonical_locator_def strip_def is_space_def is_kind_char_def is_ascii_digit_def
      encode_part_def quote_def utf8_encode_def is_scalar_def is_surrogate_def utf8_char_def quote_byte_def
      is_unreserved_def upper_hex_digit_def int_str_def nat_str.simps [of 2] Let_def)

lemma canonical_locator_is_unambiguous_witness:
  "canonical_locator id [114, 111, 119] [LStr [97, 47], LInt 2] \<noteq> canonical_locator id [114, 111, 119] [LStr [97], LInt 2]"
  using canonical_locator_is_unambiguous [OF demo_locator] by (simp only: demo_locator) simp

end
