(* ===== verification/Staging_Props.thy ===== *)
theory Staging_Props
  imports Staging Canonical_Props
begin

text \<open>
  Identities of staged rows and the SQL projection: row locators are unique, replacing a projection
  touches one source version only, and two headers can still collide.
\<close>

subsection \<open>Row identities\<close>

lemma env_locator_inj:
  assumes "env_locator env k [LStr a, LInt (int i)] = Inr l" and "env_locator env k [LStr b, LInt (int j)] = Inr l"
  shows "a = b \<and> i = j"
  using canonical_locator_inj [OF assms [unfolded env_locator_def]] by simp

definition row_key :: "staged_row \<Rightarrow> pystr \<times> nat" where
  "row_key r = (sr_table_locator r, sr_row_ordinal r)"

definition row_located :: "py_env \<Rightarrow> staged_row \<Rightarrow> bool" where
  "row_located env r \<longleftrightarrow> env_locator env (u ''row'') [LStr (sr_table_locator r), LInt (int (sr_row_ordinal r))] = Inr (sr_row_locator r)"

lemma stage_row_Inr:
  "stage_row env loc (n, cells) = Inr r \<Longrightarrow> row_located env r \<and> row_key r = (loc, n) \<and> sr_cells r = cells"
  by (auto simp: stage_row_def res_simps row_located_def row_key_def)

lemma stage_rows_keys:
  "rmap (stage_row env loc) nrows = Inr rows \<Longrightarrow>
     map row_key rows = map (\<lambda>(n, _). (loc, n)) nrows \<and> (\<forall>r \<in> set rows. row_located env r)"
proof (induction nrows arbitrary: rows)
  case (Cons x xs)
  then obtain r rs where "stage_row env loc x = Inr r" "rmap (stage_row env loc) xs = Inr rs" "rows = r # rs"
    by (auto simp: res_simps)
  with Cons.IH [of rs] stage_row_Inr [of env loc "fst x" "snd x" r] show ?case by (auto split: prod.splits)
qed simp

definition table_located :: "py_env \<Rightarrow> staged_table \<Rightarrow> bool" where
  "table_located env t \<longleftrightarrow> (\<forall>r \<in> set (st_rows t). row_located env r)
     \<and> map row_key (st_rows t) = map (\<lambda>n. (sd_table_locator (st_descriptor t), n)) (map Suc [0..<length (st_rows t)])"

lemma map_enumerate1: "map (\<lambda>(n, _). f n) (enumerate1 xs) = map f (map Suc [0..<length xs])"
proof -
  have "map (\<lambda>(n, _). f n) (enumerate1 xs) = map f (map fst (enumerate1 xs))" by (simp add: case_prod_unfold)
  then show ?thesis by (simp add: enumerate1_def)
qed

lemma length_enumerate1 [simp]: "length (enumerate1 xs) = length xs"
  by (simp add: enumerate1_def)

lemma stage_table_located:
  assumes "stage_table env f v (n, t) = Inr st"
  shows "table_located env st"
proof -
  obtain loc rows where rows: "rmap (stage_row env loc) (enumerate1 (et_rows t)) = Inr rows"
    and st: "st_rows st = rows" "sd_table_locator (st_descriptor st) = loc"
    using assms by (auto simp: stage_table_def Let_def res_simps)
  have "length rows = length (et_rows t)" using rmap_Inr_length [OF rows] by simp
  with stage_rows_keys [OF rows] st map_enumerate1 [of "Pair loc" "et_rows t"] show ?thesis
    by (simp add: table_located_def)
qed

lemma stage_tables_located:
  "rmap (stage_table env f v) nts = Inr sts \<Longrightarrow> \<forall>st \<in> set sts. table_located env st"
proof (induction nts arbitrary: sts)
  case (Cons x xs)
  then show ?case using stage_table_located [of env f v "fst x" "snd x"] by (auto simp: res_simps)
qed simp

lemma row_keys_distinct:
  "\<lbrakk>\<forall>t \<in> set ts. table_located env t; distinct (map (\<lambda>t. sd_table_locator (st_descriptor t)) ts)\<rbrakk>
   \<Longrightarrow> distinct (map row_key (concat (map st_rows ts)))"
proof (induction ts)
  case (Cons t ts)
  have fst_key: "fst k = sd_table_locator (st_descriptor t')" if "k \<in> set (map row_key (st_rows t'))" "table_located env t'" for k t'
  proof -
    have "map row_key (st_rows t') = map (\<lambda>n. (sd_table_locator (st_descriptor t'), n)) (map Suc [0..<length (st_rows t')])"
      using that(2) by (simp only: table_located_def)
    with that(1) show ?thesis by (simp only:) auto
  qed
  have "set (map row_key (st_rows t)) \<inter> set (map row_key (concat (map st_rows ts))) = {}"
  proof (rule ccontr)
    assume "\<not> ?thesis"
    then obtain k t' where "k \<in> set (map row_key (st_rows t))" "t' \<in> set ts" "k \<in> set (map row_key (st_rows t'))"
      by auto
    with fst_key [of k t] fst_key [of k t'] Cons.prems show False by (auto simp: image_iff)
  qed
  moreover have "distinct (map row_key (st_rows t))"
    using Cons.prems(1) by (simp add: table_located_def distinct_map inj_on_def)
  ultimately show ?case using Cons by simp
qed simp

text \<open>
  Staging gives every row an identity of its own: when the tables of a document have different
  locators, no two rows of the staged structure share a row locator.
\<close>

lemma staged_rows_have_unique_locators:
  assumes "build_staged_structure env d file_id version = Inr s"
    and "distinct (map (\<lambda>t. sd_table_locator (st_descriptor t)) (ss_tables s))"
  shows "distinct (map sr_row_locator (concat (map st_rows (ss_tables s))))"
proof -
  have "\<exists>nts. rmap (stage_table env file_id version) nts = Inr (ss_tables s)"
    using assms(1) by (auto simp: build_staged_structure_def Let_def res_simps split: if_splits)
  then have loc: "\<forall>t \<in> set (ss_tables s). table_located env t" using stage_tables_located by blast
  define rows where "rows = concat (map st_rows (ss_tables s))"
  have "distinct (map row_key rows)" unfolding rows_def by (rule row_keys_distinct [OF loc assms(2)])
  moreover have "row_key r = row_key r'" if "r \<in> set rows" "r' \<in> set rows" "sr_row_locator r = sr_row_locator r'" for r r'
  proof -
    have "row_located env r" "row_located env r'" using that loc by (auto simp: rows_def table_located_def)
    with that(3) have "sr_table_locator r = sr_table_locator r' \<and> sr_row_ordinal r = sr_row_ordinal r'"
      unfolding row_located_def by (intro env_locator_inj) simp_all
    then show ?thesis by (simp add: row_key_def)
  qed
  ultimately have "distinct rows" "inj_on sr_row_locator (set rows)"
    unfolding distinct_map by (blast, intro inj_onI) (metis inj_onD)
  then have "distinct (map sr_row_locator rows)" by (simp add: distinct_map)
  then show ?thesis by (simp add: rows_def)
qed

text \<open>An example environment and document: one table with two rows.\<close>

definition demo_digest :: pystr where
  "demo_digest = replicate 64 97"

definition demo_env :: py_env where
  "demo_env = \<lparr>te_casefold = id, te_upper = id, te_digit = (\<lambda>c. if is_ascii_digit c then Some (c - 48) else None),
     te_float = (\<lambda>_. PNonFinite), te_fromisoformat = (\<lambda>_. None), te_float_repr = (\<lambda>_. []),
     te_sha256 = (\<lambda>_. demo_digest)\<rparr>"

lemma demo_digest_hex: "is_sha256_hex demo_digest"
  by (simp add: is_sha256_hex_def demo_digest_def is_lower_hex_def is_ascii_digit_def list_all_iff)

definition demo_document :: normalized_document where
  "demo_document = \<lparr>nd_markdown_body = [], nd_metadata = \<lparr>dm_filename = [102], dm_detected_type = CSV,
      dm_sha256 = demo_digest, dm_family = None, dm_canonical_mime = None, dm_charset = None, dm_truncated = False,
      dm_page_provenance = [], dm_extra = []\<rparr>,
     nd_images = [], nd_tables = [\<lparr>et_header = [[65]], et_rows = [[[53]], [[54]]], et_source_location = Some [115]\<rparr>],
     nd_embeddable = False\<rparr>"

lemma demo_env_digest: "json_ok v \<Longrightarrow> env_digest demo_env v = Inr demo_digest"
  by (simp add: env_digest_def canonical_digest_def canonical_json_def demo_env_def)

lemma json_ok_str_list [simp]: "json_ok (str_list ss)"
  by (simp add: str_list_def list_all_iff)

lemma strip_table: "strip (u ''table'') = u ''table''" "strip (u ''row'') = u ''row''"
  by (simp_all add: strip_def py_simps is_space_def)

lemma kind_table: "list_all is_kind_char (u ''table'')" "list_all is_kind_char (u ''row'')"
  by (simp_all add: py_simps is_kind_char_def)

lemma demo_env_locator:
  "\<lbrakk>k = u ''table'' \<or> k = u ''row''; list_all (\<lambda>p. part_text p \<noteq> [] \<and> list_all is_scalar (part_text p)) ps\<rbrakk>
   \<Longrightarrow> \<exists>qs. rmap encode_part ps = Inr qs \<and> env_locator demo_env k ps = Inr (join [47] (k # qs))"
proof -
  have parts: "\<exists>qs. rmap encode_part ps = Inr qs"
    if "list_all (\<lambda>p. part_text p \<noteq> [] \<and> list_all is_scalar (part_text p)) ps" for ps
    using that by (induction ps) (auto simp: encode_part_def quote_def utf8_encode_def)
  assume "k = u ''table'' \<or> k = u ''row''" "list_all (\<lambda>p. part_text p \<noteq> [] \<and> list_all is_scalar (part_text p)) ps"
  with parts [of ps] strip_table kind_table show ?thesis
    by (auto simp: env_locator_def canonical_locator_def demo_env_def Let_def)
qed

lemma int_str_scalar: "int_str i \<noteq> [] \<and> list_all is_scalar (int_str i)"
  using int_str_token [of i]
  by (auto simp: list_all_iff is_num_char_def is_ascii_digit_def is_scalar_def is_surrogate_def)

lemma demo_typed: "typed_cell demo_env [53] = Inr (PInt 5, CT_Integer)" "typed_cell demo_env [54] = Inr (PInt 6, CT_Integer)"
  by (simp_all add: typed_cell_def strip_def is_space_def demo_env_def py_simps is_integer_text_def unsigned_def
      all_digits_def is_ascii_digit_def py_int_def digits_int_def Let_def)

lemma demo_staged:
  "\<exists>s. build_staged_structure demo_env demo_document 7 1 = Inr s \<and> length (ss_tables s) = 1
     \<and> length (concat (map st_rows (ss_tables s))) = 2"
proof -
  obtain q1 where t: "env_locator demo_env (u ''table'') [LStr [115]] = Inr (join [47] [u ''table'', q1])" "encode_part (LStr [115]) = Inr q1"
    using demo_env_locator [of "u ''table''" "[LStr [115]]"] by (auto simp: is_scalar_def is_surrogate_def res_simps)
  have q1: "q1 = [115]"
    using t(2) by (simp add: encode_part_def quote_def utf8_encode_def is_scalar_def is_surrogate_def utf8_char_def
        quote_byte_def is_unreserved_def)
  define loc where "loc = join [47] [u ''table'', [115]]"
  have t_loc: "env_locator demo_env (u ''table'') [LStr [115]] = Inr loc" using t(1) by (simp only: q1 loc_def)
  have loc: "loc \<noteq> []" "list_all is_scalar loc" by (simp_all add: loc_def py_simps is_scalar_def is_surrogate_def)
  have row: "\<exists>r. stage_row demo_env loc (n, cells) = Inr r \<and> sr_cells r = cells" for n cells
    using demo_env_locator [of "u ''row''" "[LStr loc, LInt (int n)]"] loc int_str_scalar [of "int n"]
    by (auto simp: stage_row_def demo_env_digest)
  obtain r1 where r1: "stage_row demo_env loc (1, [[53]]) = Inr r1" "sr_cells r1 = [[53]]" using row by blast
  obtain r2 where r2: "stage_row demo_env loc (2, [[54]]) = Inr r2" "sr_cells r2 = [[54]]" using row by blast
  have types: "infer_column_types demo_env [[65]] [[[53]], [[54]]] = Inr [IT_Of CT_Integer]"
    by (simp add: infer_column_types_def cell_at_def demo_typed column_type_def)
  have heads: "canonical_headers [[65]] = [[65]]"
    by (simp add: canonical_headers_def header_base_def strip_def is_space_def)
  have "\<exists>t. stage_table demo_env 7 1 (1, \<lparr>et_header = [[65]], et_rows = [[[53]], [[54]]], et_source_location = Some [115]\<rparr>) = Inr t
      \<and> st_rows t = [r1, r2]"
    using t_loc r1 r2 types heads
    by (simp add: stage_table_def table_part_def enumerate1_def demo_env_digest numeral_2_eq_2 Let_def)
  then obtain t where t: "stage_table demo_env 7 1 (1, \<lparr>et_header = [[65]], et_rows = [[[53]], [[54]]], et_source_location = Some [115]\<rparr>) = Inr t"
    "st_rows t = [r1, r2]" by blast
  show ?thesis
    using t by (simp add: build_staged_structure_def demo_document_def enumerate1_def residual_of_def
        stage_residual_def demo_env_digest dump_document_def dump_metadata_def dump_table_def opt_str_def
        fingerprint_payload_def list_all_iff Let_def)
qed

lemma staged_rows_have_unique_locators_witness:
  "\<exists>s. build_staged_structure demo_env demo_document 7 1 = Inr s
     \<and> length (concat (map st_rows (ss_tables s))) = 2
     \<and> distinct (map sr_row_locator (concat (map st_rows (ss_tables s))))"
proof -
  obtain s where s: "build_staged_structure demo_env demo_document 7 1 = Inr s" "length (ss_tables s) = 1"
    "length (concat (map st_rows (ss_tables s))) = 2" using demo_staged by blast
  then have "distinct (map (\<lambda>t. sd_table_locator (st_descriptor t)) (ss_tables s))"
    by (cases "ss_tables s") auto
  from staged_rows_have_unique_locators [OF s(1) this] s show ?thesis by blast
qed

subsection \<open>The SQL projection\<close>

lemma sheet_rows_scope:
  "sheet_rows cell doc v tables = Inr rows \<Longrightarrow> \<forall>r \<in> set rows. sp_document_id r = doc \<and> sp_source_version r = v"
proof -
  have one: "\<forall>r \<in> set rs. sp_document_id r = doc \<and> sp_source_version r = v"
    if "rmap (sheet_row cell doc v loc h) ncs = Inr rs" for loc h ncs rs
    using that by (induction ncs arbitrary: rs) (auto simp: res_simps sheet_row_def)
  have "\<forall>r \<in> set (concat rss). sp_document_id r = doc \<and> sp_source_version r = v"
    if "rmap (\<lambda>(n, t). rmap (sheet_row cell doc v (sheet_location n t) (et_header t)) (enumerate1 (et_rows t))) nts = Inr rss"
    for nts rss
    using that
  proof (induction nts arbitrary: rss)
    case (Cons nt nts)
    then obtain rs rss' where "rmap (sheet_row cell doc v (sheet_location (fst nt) (snd nt)) (et_header (snd nt)))
        (enumerate1 (et_rows (snd nt))) = Inr rs" "rss = rs # rss'"
      "rmap (\<lambda>(n, t). rmap (sheet_row cell doc v (sheet_location n t) (et_header t)) (enumerate1 (et_rows t))) nts = Inr rss'"
      by (auto simp: res_simps split: prod.splits)
    with one [of _ _ _ rs] Cons.IH [of rss'] show ?case by auto
  qed simp
  then show "sheet_rows cell doc v tables = Inr rows \<Longrightarrow> ?thesis"
    by (auto simp: sheet_rows_def res_simps)
qed

definition in_scope :: "nat \<Rightarrow> int \<Rightarrow> spreadsheet_row \<Rightarrow> bool" where
  "in_scope doc v r \<longleftrightarrow> sp_document_id r = doc \<and> sp_source_version r = v"

lemma replace_rows_Inr:
  assumes "replace_rows cell db doc v tables = Inr (db', n)"
  obtains rows where "sheet_rows cell doc v tables = Inr rows" and "n = length rows"
    and "db' = db\<lparr>sg_rows := filter (\<lambda>r. \<not> in_scope doc v r) (sg_rows db) @ rows\<rparr>"
    and "filter (in_scope doc v) rows = rows" and "filter (\<lambda>r. \<not> in_scope doc v r) rows = []"
    and "require_current_source db doc v = Inr ()" and "distinct (map sheet_key rows)"
proof -
  obtain rows where "sheet_rows cell doc v tables = Inr rows" "n = length rows"
    "db' = db\<lparr>sg_rows := filter (\<lambda>r. \<not> in_scope doc v r) (sg_rows db) @ rows\<rparr>"
    "require_current_source db doc v = Inr ()" "distinct (map sheet_key rows)"
    using assms by (auto simp: replace_rows_def res_simps in_scope_def Let_def split: if_splits)
  moreover then have "\<forall>r \<in> set rows. in_scope doc v r" using sheet_rows_scope by (auto simp: in_scope_def)
  ultimately show ?thesis by (intro that) (auto simp: filter_id_conv filter_empty_conv)
qed

lemma replace_rows_again:
  assumes "replace_rows cell db doc v tables = Inr (db', n)"
  shows "replace_rows cell db' doc v tables = Inr (db', n)"
proof -
  obtain rows where rows: "sheet_rows cell doc v tables = Inr rows" "n = length rows"
    "db' = db\<lparr>sg_rows := filter (\<lambda>r. \<not> in_scope doc v r) (sg_rows db) @ rows\<rparr>"
    "filter (\<lambda>r. \<not> in_scope doc v r) rows = []" "require_current_source db doc v = Inr ()" "distinct (map sheet_key rows)"
    by (rule replace_rows_Inr [OF assms])
  have "require_current_source db' doc v = require_current_source db doc v"
    by (simp add: rows(3) require_current_source_def current_source_version_def)
  with rows show ?thesis by (simp add: replace_rows_def in_scope_def Let_def)
qed

text \<open>
  Staging the rows of a source version replaces exactly that version's rows: rows of other documents and
  versions stay as they are, the stored rows of the version are the projection of the given tables, and
  staging the same tables again changes nothing.
\<close>

lemma staging_replaces_one_version:
  assumes "stage_tabular_rows db doc version tables = Inr (db', n)"
  shows "filter (\<lambda>r. \<not> in_scope doc version r) (sg_rows db') = filter (\<lambda>r. \<not> in_scope doc version r) (sg_rows db)
    \<and> length (filter (in_scope doc version) (sg_rows db')) = n
    \<and> sheet_rows (\<lambda>raw. Inr (PStr raw, CT_String)) doc version tables = Inr (filter (in_scope doc version) (sg_rows db'))
    \<and> stage_tabular_rows db' doc version tables = Inr (db', n)"
proof -
  obtain rows where rows: "sheet_rows (\<lambda>raw. Inr (PStr raw, CT_String)) doc version tables = Inr rows" "n = length rows"
    "db' = db\<lparr>sg_rows := filter (\<lambda>r. \<not> in_scope doc version r) (sg_rows db) @ rows\<rparr>"
    "filter (in_scope doc version) rows = rows" "filter (\<lambda>r. \<not> in_scope doc version r) rows = []"
    by (rule replace_rows_Inr [OF assms [unfolded stage_tabular_rows_def]])
  then show ?thesis
    using replace_rows_again [OF assms [unfolded stage_tabular_rows_def]] by (simp add: stage_tabular_rows_def)
qed

lemma demo_staged_rows:
  "stage_tabular_rows \<lparr>sg_files = [\<lparr>df_document_id = 4, df_kind = Original, df_version = 2\<rparr>], sg_rows = []\<rparr> 4 2 []
   = Inr (\<lparr>sg_files = [\<lparr>df_document_id = 4, df_kind = Original, df_version = 2\<rparr>], sg_rows = []\<rparr>, 0)"
  by (simp add: stage_tabular_rows_def replace_rows_def require_current_source_def current_source_version_def
      sheet_rows_def enumerate1_def)

lemma staging_replaces_one_version_witness:
  "\<exists>db n. stage_tabular_rows \<lparr>sg_files = [\<lparr>df_document_id = 4, df_kind = Original, df_version = 2\<rparr>], sg_rows = []\<rparr> 4 2 []
      = Inr (db, n) \<and> stage_tabular_rows db 4 2 [] = Inr (db, n)"
  using demo_staged_rows staging_replaces_one_version [OF demo_staged_rows] by blast

subsection \<open>Headers\<close>

text \<open>Numbering repeated headers does not make them unique: a third column that is already called like the numbered
  second one collides with it, and a row record then keeps one cell of the two.\<close>

lemma canonical_headers_can_collide:
  "canonical_headers [u ''a'', u ''a'', u ''a__2''] = [u ''a'', u ''a__2'', u ''a__2'']
   \<and> dict_get (record_from 0 [u ''a'', u ''a__2'', u ''a__2''] [[49], [50], [51]] []) (u ''a__2'') = Some [51]"
proof -
  have "strip (u ''a'') = u ''a''" "strip (u ''a__2'') = u ''a__2''"
    by (simp_all add: strip_def py_simps is_space_def)
  moreover have "nat_str 2 = u ''2''" by (simp add: nat_str.simps [of 2] py_simps)
  ultimately show ?thesis
    by (simp add: canonical_headers_def header_base_def Let_def cell_at_def numeral_2_eq_2 [symmetric])
       (simp add: py_simps)
qed

end
