(* ===== verification/Mapping_Props.thy ===== *)
theory Mapping_Props
  imports Schema_Mapping Staging_Props
begin

text \<open>
  What applying a mapping set guarantees. The specification \<open>spec_units\<close> lists, for a staged
  structure and a mapping set, every structural unit with the disposition it must get; the
  implementation with its running ordinal and its two growing lists refines it.
\<close>

subsection \<open>Specification\<close>

definition entry_of :: "mapping_set \<Rightarrow> staged_table \<Rightarrow> set_entry option" where
  "entry_of ms t = find (\<lambda>e. se_table_locator e = sd_table_locator (st_descriptor t)) (rev (ms_entries ms))"

definition row_disposition :: "set_entry option \<Rightarrow> staged_row \<Rightarrow> disposition" where
  "row_disposition e row = (case e of
     Some e' \<Rightarrow> if se_mapping e' = None then Explicit_Ignore else if sr_blank row then Blank else Mapped_Candidate
   | None \<Rightarrow> Parse_Error)"

type_synonym spec_unit = "pystr \<times> pystr \<times> disposition"

definition table_units :: "mapping_set \<Rightarrow> staged_table \<Rightarrow> spec_unit list" where
  "table_units ms t = map (\<lambda>r. (sr_row_locator r, sr_row_fingerprint r, row_disposition (entry_of ms t) r)) (st_rows t)"

definition residual_units :: "staged_structure \<Rightarrow> spec_unit list" where
  "residual_units staged = (if ss_residual_markdown staged = None then []
     else [(the (ss_residual_locator staged), the (ss_residual_fingerprint staged), Residual_Generic_Candidate)])"

definition spec_units :: "mapping_set \<Rightarrow> staged_structure \<Rightarrow> spec_unit list" where
  "spec_units ms staged = concat (map (table_units ms) (ss_tables staged)) @ residual_units staged"

definition unit_of :: "unit_decision \<Rightarrow> spec_unit" where
  "unit_of d = (ud_unit_id d, ud_content_digest d, ud_disposition d)"

text \<open>The candidates a list of decisions refers to.\<close>

definition bound_candidates :: "unit_decision list \<Rightarrow> (pystr \<times> pystr \<times> pystr) list" where
  "bound_candidates ds = concat (map (\<lambda>d. case ud_candidate_key d of
     Some k \<Rightarrow> [(ud_locator d, ud_content_digest d, k)] | None \<Rightarrow> []) ds)"

definition candidate_ref :: "candidate_draft \<Rightarrow> pystr \<times> pystr \<times> pystr" where
  "candidate_ref c = (cd_source_locator c, cd_row_fingerprint c, cd_candidate_key c)"

lemma bound_candidates_simps [simp]:
  "bound_candidates [] = []" "bound_candidates (ds @ ds') = bound_candidates ds @ bound_candidates ds'"
  by (simp_all add: bound_candidates_def)

subsection \<open>One step of the application\<close>

definition extends :: "apply_state \<Rightarrow> apply_state \<Rightarrow> spec_unit list \<Rightarrow> bool" where
  "extends s s' us \<longleftrightarrow> (\<exists>ds cs. as_decisions s' = as_decisions s @ ds \<and> as_candidates s' = as_candidates s @ cs
     \<and> map unit_of ds = us \<and> map candidate_ref cs = bound_candidates ds
     \<and> map cd_candidate_ordinal cs = [as_ordinal s + 1..as_ordinal s'] \<and> as_ordinal s \<le> as_ordinal s')"

lemma extends_refl: "extends s s []"
  by (simp add: extends_def)

lemma upto_glue: "\<lbrakk>i \<le> j; j \<le> k\<rbrakk> \<Longrightarrow> [i + 1..k] = [i + 1..j] @ [j + 1..k]" for i j k :: int
  using upto_split2 [of "i + 1" j k] by (cases "i = j") simp_all

lemma extends_trans: "\<lbrakk>extends s s' us; extends s' s'' vs\<rbrakk> \<Longrightarrow> extends s s'' (us @ vs)"
proof -
  assume "extends s s' us" "extends s' s'' vs"
  then obtain ds cs ds' cs' where
    1: "as_decisions s' = as_decisions s @ ds" "as_candidates s' = as_candidates s @ cs" "map unit_of ds = us"
      "map candidate_ref cs = bound_candidates ds"
      "map cd_candidate_ordinal cs = [as_ordinal s + 1..as_ordinal s']" "as_ordinal s \<le> as_ordinal s'"
    and 2: "as_decisions s'' = as_decisions s' @ ds'" "as_candidates s'' = as_candidates s' @ cs'" "map unit_of ds' = vs"
      "map candidate_ref cs' = bound_candidates ds'"
      "map cd_candidate_ordinal cs' = [as_ordinal s' + 1..as_ordinal s'']" "as_ordinal s' \<le> as_ordinal s''"
    unfolding extends_def by blast
  have "[as_ordinal s + 1..as_ordinal s''] = [as_ordinal s + 1..as_ordinal s'] @ [as_ordinal s' + 1..as_ordinal s'']"
    by (rule upto_glue [OF 1(6) 2(6)])
  with 1 2 show ?thesis
    unfolding extends_def by (intro exI [of _ "ds @ ds'"] exI [of _ "cs @ cs'"]) simp
qed

lemma mk_unit_decision_Inr: "mk_unit_decision d = Inr d' \<Longrightarrow> d' = d"
  by (auto simp: mk_unit_decision_def res_simps)

lemma mk_candidate_draft_Inr: "mk_candidate_draft c = Inr c' \<Longrightarrow> c' = c"
  by (auto simp: mk_candidate_draft_def res_simps)

lemma extends_decision:
  "\<lbrakk>ud_candidate_key d = None; as_decisions s' = as_decisions s @ [d]; as_candidates s' = as_candidates s;
    as_ordinal s' = as_ordinal s\<rbrakk> \<Longrightarrow> extends s s' [unit_of d]"
  unfolding extends_def by (intro exI [of _ "[d]"] exI [of _ "[]"]) (simp add: bound_candidates_def)

lemma extends_candidate:
  "\<lbrakk>ud_candidate_key d = Some k; candidate_ref c = (ud_locator d, ud_content_digest d, k);
    cd_candidate_ordinal c = as_ordinal s + 1; as_decisions s' = as_decisions s @ [d];
    as_candidates s' = as_candidates s @ [c]; as_ordinal s' = as_ordinal s + 1\<rbrakk> \<Longrightarrow> extends s s' [unit_of d]"
  unfolding extends_def by (intro exI [of _ "[d]"] exI [of _ "[c]"]) (simp add: bound_candidates_def)

lemma ignore_row_extends:
  assumes "ignore_row reason row s = Inr s'"
  shows "extends s s' [(sr_row_locator row, sr_row_fingerprint row, Explicit_Ignore)]"
proof -
  obtain d where "mk_unit_decision (row_decision row Explicit_Ignore None (Some reason)) = Inr d"
    and s': "s' = s\<lparr>as_decisions := as_decisions s @ [d]\<rparr>"
    using assms by (auto simp: ignore_row_def res_simps)
  then have d: "d = row_decision row Explicit_Ignore None (Some reason)" by (blast dest: mk_unit_decision_Inr)
  then have "extends s s' [unit_of d]" by (intro extends_decision) (simp_all add: s' row_decision_def)
  then show ?thesis by (simp add: d unit_of_def row_decision_def)
qed

lemma apply_mapped_row_blank:
  assumes "apply_mapped_row env sha m t row s = Inr s'" and "sr_blank row"
  shows "s' = s\<lparr>as_decisions := as_decisions s @ [row_decision row Blank None None]\<rparr>"
  using assms by (auto simp: apply_mapped_row_def res_simps dest: mk_unit_decision_Inr)

lemma apply_mapped_row_Inr:
  assumes "apply_mapped_row env sha m t row s = Inr s'" and "\<not> sr_blank row"
  obtains vals errs key c where "apply_row env m t row = Inr (vals, errs)"
    and "s' = \<lparr>as_candidates = as_candidates s @ [c],
           as_decisions = as_decisions s @ [row_decision row Mapped_Candidate (Some key) None],
           as_ordinal = as_ordinal s + 1\<rparr>"
    and "candidate_ref c = (sr_row_locator row, sr_row_fingerprint row, key)"
    and "cd_candidate_ordinal c = as_ordinal s + 1" and "cd_validation_issues c = errs"
  using assms
  by (auto simp: apply_mapped_row_def Let_def res_simps candidate_ref_def
      dest!: mk_unit_decision_Inr mk_candidate_draft_Inr)

lemma apply_mapped_row_extends:
  assumes "apply_mapped_row env sha m t row s = Inr s'"
  shows "extends s s' [(sr_row_locator row, sr_row_fingerprint row, if sr_blank row then Blank else Mapped_Candidate)]"
proof (cases "sr_blank row")
  case True
  then have "extends s s' [unit_of (row_decision row Blank None None)]"
    by (intro extends_decision) (simp_all add: apply_mapped_row_blank [OF assms] row_decision_def)
  with True show ?thesis by (simp add: unit_of_def row_decision_def)
next
  case False
  obtain key c where s': "s' = \<lparr>as_candidates = as_candidates s @ [c],
      as_decisions = as_decisions s @ [row_decision row Mapped_Candidate (Some key) None],
      as_ordinal = as_ordinal s + 1\<rparr>"
    and c: "candidate_ref c = (sr_row_locator row, sr_row_fingerprint row, key)" "cd_candidate_ordinal c = as_ordinal s + 1"
    by (rule apply_mapped_row_Inr [OF assms False])
  have "extends s s' [unit_of (row_decision row Mapped_Candidate (Some key) None)]"
    by (rule extends_candidate [of _ key c]) (simp_all add: s' c row_decision_def)
  with False show ?thesis by (simp add: unit_of_def row_decision_def)
qed

lemma rfold_extends:
  "\<lbrakk>rfold f xs s = Inr s'; \<And>x s s'. \<lbrakk>x \<in> set xs; f x s = Inr s'\<rbrakk> \<Longrightarrow> extends s s' (g x)\<rbrakk>
   \<Longrightarrow> extends s s' (concat (map g xs))"
proof (induction xs arbitrary: s)
  case Nil
  then show ?case by (simp add: extends_refl)
next
  case (Cons x xs)
  then obtain s1 where "f x s = Inr s1" "rfold f xs s1 = Inr s'" by (auto simp: res_simps)
  have "extends s s1 (g x)" by (rule Cons.prems(2)) (simp_all add: \<open>f x s = _\<close>)
  moreover have "extends s1 s' (concat (map g xs))"
    by (rule Cons.IH [OF \<open>rfold f xs s1 = _\<close>], rule Cons.prems(2)) simp_all
  ultimately show ?case by (auto intro: extends_trans)
qed

lemma apply_table_extends:
  assumes "apply_table env sha ms t s = Inr s'"
  shows "extends s s' (table_units ms t)"
proof -
  obtain e where e: "entry_of ms t = Some e" using assms
    by (cases "entry_of ms t") (auto simp: apply_table_def entry_of_def)
  show ?thesis
  proof (cases "se_mapping e")
    case None
    then obtain reason where "rfold (ignore_row reason) (st_rows t) s = Inr s'"
      using assms e by (auto simp: apply_table_def entry_of_def split: if_splits option.splits)
    from rfold_extends [OF this ignore_row_extends] None e show ?thesis
      by (simp add: table_units_def row_disposition_def map_concat concat_map_singleton comp_def)
  next
    case (Some m)
    then have "rfold (apply_mapped_row env sha m t) (st_rows t) s = Inr s'"
      using assms e by (auto simp: apply_table_def entry_of_def res_simps split: if_splits)
    from rfold_extends [OF this apply_mapped_row_extends] Some e show ?thesis
      by (simp add: table_units_def row_disposition_def concat_map_singleton comp_def)
  qed
qed

lemma apply_residual_extends:
  assumes "apply_residual env sha staged s = Inr s'"
  shows "extends s s' (residual_units staged)"
proof (cases "ss_residual_markdown staged")
  case None
  with assms show ?thesis by (simp add: apply_residual_def residual_units_def extends_refl)
next
  case (Some md)
  then obtain loc fp where lf: "ss_residual_locator staged = Some loc" "ss_residual_fingerprint staged = Some fp"
    using assms by (auto simp: apply_residual_def split: option.splits prod.splits)
  with Some assms obtain key where s': "s' = \<lparr>as_candidates = as_candidates s @ [residual_draft loc fp md (as_ordinal s + 1) key],
      as_decisions = as_decisions s @ [residual_decision loc fp key], as_ordinal = as_ordinal s + 1\<rparr>"
    by (auto simp: apply_residual_def Let_def res_simps dest!: mk_unit_decision_Inr mk_candidate_draft_Inr)
  have "extends s s' [unit_of (residual_decision loc fp key)]"
    by (rule extends_candidate [of _ key "residual_draft loc fp md (as_ordinal s + 1) key"])
       (simp_all add: s' residual_draft_def residual_decision_def candidate_ref_def)
  with Some lf show ?thesis by (simp add: residual_units_def unit_of_def residual_decision_def)
qed

subsection \<open>The whole application\<close>

definition decision_keys :: "unit_decision list \<Rightarrow> pystr list" where
  "decision_keys ds = concat (map (\<lambda>d. case ud_candidate_key d of Some k \<Rightarrow> [k] | None \<Rightarrow> []) ds)"

lemma decision_keys_bound: "decision_keys ds = map (snd \<circ> snd) (bound_candidates ds)"
  by (induction ds) (auto simp: decision_keys_def bound_candidates_def split: option.splits)

lemma check_ledger_Inr:
  "check_ledger ids ranges keys ds = Inr () \<Longrightarrow>
     distinct (map ud_unit_id ds) \<and> set (map ud_unit_id ds) \<inter> set ids = {}
     \<and> distinct (decision_keys ds) \<and> set (decision_keys ds) \<inter> set keys = {}"
proof (induction ids ranges keys ds rule: check_ledger.induct)
  case (2 ids ranges keys d ds)
  then show ?case by (cases "ud_candidate_key d") (auto simp: decision_keys_def split: if_splits)
qed (simp add: decision_keys_def)

lemma mk_ledger_Inr:
  "mk_ledger ds = Inr l \<Longrightarrow> l = ds \<and> distinct (map ud_unit_id ds) \<and> distinct (decision_keys ds)"
  using check_ledger_Inr [of "[]" "[]" "[]" ds] by (auto simp: mk_ledger_def res_simps)

lemma apply_mapping_set_Inr:
  assumes "apply_mapping_set env ms staged sha = Inr app"
  obtains s s' where "rfold (apply_table env sha ms) (ss_tables staged) \<lparr>as_candidates = [], as_decisions = [], as_ordinal = 0\<rparr> = Inr s"
    and "apply_residual env sha staged s = Inr s'" and "mk_ledger (as_decisions s') = Inr (as_decisions s')"
    and "app = \<lparr>ma_candidates = as_candidates s', ma_ledger = as_decisions s'\<rparr>"
    and "length (as_decisions s') = ss_unit_count staged"
  using assms by (auto simp: apply_mapping_set_def res_simps split: if_splits dest: mk_ledger_Inr)

text \<open>
  C15. Applying a mapping set refines the reconciliation specification: the ledger lists exactly the
  specified units with their dispositions, in order and without repetition, and the candidates are exactly
  the ones the ledger binds, numbered from one, each with a key of its own.
\<close>

theorem mapping_refines_reconciliation:
  assumes "apply_mapping_set env ms staged sha = Inr app"
  shows "map unit_of (ma_ledger app) = spec_units ms staged
    \<and> distinct (map fst (spec_units ms staged))
    \<and> map candidate_ref (ma_candidates app) = bound_candidates (ma_ledger app)
    \<and> map cd_candidate_ordinal (ma_candidates app) = [1..int (length (ma_candidates app))]
    \<and> distinct (map cd_candidate_key (ma_candidates app))"
proof -
  obtain s s' where fold: "rfold (apply_table env sha ms) (ss_tables staged) \<lparr>as_candidates = [], as_decisions = [], as_ordinal = 0\<rparr> = Inr s"
    and res: "apply_residual env sha staged s = Inr s'" and led: "mk_ledger (as_decisions s') = Inr (as_decisions s')"
    and app: "app = \<lparr>ma_candidates = as_candidates s', ma_ledger = as_decisions s'\<rparr>"
    by (rule apply_mapping_set_Inr [OF assms])
  have "extends \<lparr>as_candidates = [], as_decisions = [], as_ordinal = 0\<rparr> s' (spec_units ms staged)"
    unfolding spec_units_def
    by (rule extends_trans [OF rfold_extends [OF fold apply_table_extends] apply_residual_extends [OF res]])
  then have u: "map unit_of (ma_ledger app) = spec_units ms staged"
    and c: "map candidate_ref (ma_candidates app) = bound_candidates (ma_ledger app)"
    and n: "map cd_candidate_ordinal (ma_candidates app) = [1..as_ordinal s']" and le: "0 \<le> as_ordinal s'"
    by (auto simp: extends_def app)
  have len: "as_ordinal s' = int (length (ma_candidates app))"
    using arg_cong [OF n, of length] le by simp
  have "map fst (spec_units ms staged) = map ud_unit_id (as_decisions s')"
    by (simp add: u [symmetric] app unit_of_def)
  then have "distinct (map fst (spec_units ms staged))" using mk_ledger_Inr [OF led] by simp
  moreover have "map cd_candidate_key (ma_candidates app) = decision_keys (ma_ledger app)"
    unfolding decision_keys_bound c [symmetric] by (simp add: candidate_ref_def)
  ultimately show ?thesis using u c n len mk_ledger_Inr [OF led] by (simp add: app)
qed

text \<open>An example: one table with a mapped and a blank row.\<close>

definition demo_staged_row :: "nat \<Rightarrow> nat \<Rightarrow> bool \<Rightarrow> staged_row" where
  "demo_staged_row n loc b = \<lparr>sr_table_locator = [116], sr_row_ordinal = n, sr_row_locator = [loc],
     sr_cells = [if b then [] else [53]], sr_row_fingerprint = demo_digest, sr_blank = b\<rparr>"

definition demo_descriptor :: schema_descriptor where
  "demo_descriptor = \<lparr>sd_source_file_id = 7, sd_source_version = 1, sd_table_locator = [116],
     sd_ordered_headers = [[65]], sd_inferred_types = [IT_Of CT_Integer], sd_row_count = 2,
     sd_schema_fingerprint = demo_digest\<rparr>"

definition demo_table :: staged_table where
  "demo_table = \<lparr>st_descriptor = demo_descriptor, st_rows = [demo_staged_row 1 112 False, demo_staged_row 2 113 True]\<rparr>"

definition demo_structure :: staged_structure where
  "demo_structure = \<lparr>ss_tables = [demo_table], ss_normalized_sha256 = demo_digest, ss_structure_fingerprint = demo_digest,
     ss_residual_markdown = None, ss_residual_locator = None, ss_residual_fingerprint = None\<rparr>"

definition demo_rule :: field_rule where
  "demo_rule = \<lparr>fr_target_field = [97], fr_source_columns = [[65]], fr_literal = None, fr_separator = [32],
     fr_trim = True, fr_null_markers = [], fr_value_map = [], fr_parser = Raw_Parser, fr_date_style = None,
     fr_decimal_style = None, fr_sign_rule = Preserve_Sign, fr_currency_aliases = []\<rparr>"

definition demo_mapping :: mapping_contract where
  "demo_mapping = \<lparr>mc_table_locator = [116], mc_record_kind = Generic_Document, mc_financial_subtype = None,
     mc_schema_fingerprint = demo_digest, mc_field_rules = [demo_rule], mc_required_fields = [[97]],
     mc_mapping_version = 1, mc_mapping_id = 3\<rparr>"

definition demo_set :: mapping_set where
  "demo_set = \<lparr>ms_source_file_id = 7, ms_source_version = 1, ms_structure_fingerprint = demo_digest,
     ms_entries = [\<lparr>se_table_locator = [116], se_schema_fingerprint = demo_digest,
       se_mapping = Some demo_mapping, se_ignore_reason = None\<rparr>], ms_created_by = [120], ms_version = 1\<rparr>"

lemma demo_strip: "strip [112] = [112]" "strip [113] = [113]" "strip [53] = [53]"
  by (simp_all add: strip_def is_space_def)

lemma demo_apply_row: "apply_row demo_env demo_mapping demo_table (demo_staged_row 1 112 False) = Inr ([([97], Some [53])], [])"
  by (simp add: apply_row_def demo_table_def demo_mapping_def demo_rule_def demo_staged_row_def demo_descriptor_def
      as_record_def apply_field_rule_def columns_value_def parse_field_def cell_at_def demo_strip pairs_dict_def
      required_errors_def missing_value_def)

lemma demo_key: "build_candidate_key demo_env k = Inr demo_digest"
  if "is_sha256_hex (ki_source_sha256 k)" "is_sha256_hex (ki_normalized_item_hash k)" "1 \<le> ki_candidate_ordinal k"
    "1 \<le> ki_mapping_version k" "strip (ki_source_locator k) \<noteq> []" "ki_record_kind k = Generic_Document"
    "ki_financial_subtype k = None"
  using that by (simp add: build_candidate_key_def draft_digest_def check_subtype_def value_fingerprint_def
      env_digest_def canonical_digest_def canonical_json_def key_payload_def opt_str_def demo_env_def)

lemma demo_application:
  "\<exists>app. apply_mapping_set demo_env demo_set demo_structure demo_digest = Inr app"
proof -
  have row1: "\<exists>c. apply_mapped_row demo_env demo_digest demo_mapping demo_table (demo_staged_row 1 112 False) s
      = Inr \<lparr>as_candidates = as_candidates s @ [c],
          as_decisions = as_decisions s @ [row_decision (demo_staged_row 1 112 False) Mapped_Candidate (Some demo_digest) None],
          as_ordinal = as_ordinal s + 1\<rparr>" if "0 \<le> as_ordinal s" for s
    using that demo_apply_row
    by (simp add: apply_mapped_row_def demo_staged_row_def demo_key demo_digest_hex demo_mapping_def demo_strip
        mk_candidate_draft_def mk_unit_decision_def draft_digest_def check_subtype_def row_decision_def
        candidate_disposition_def Let_def)
  have row2: "apply_mapped_row demo_env demo_digest demo_mapping demo_table (demo_staged_row 2 113 True) s
      = Inr (s\<lparr>as_decisions := as_decisions s @ [row_decision (demo_staged_row 2 113 True) Blank None None]\<rparr>)" for s
    by (simp add: apply_mapped_row_def demo_staged_row_def demo_strip demo_digest_hex mk_unit_decision_def
        draft_digest_def row_decision_def candidate_disposition_def)
  obtain c where c: "apply_mapped_row demo_env demo_digest demo_mapping demo_table (demo_staged_row 1 112 False)
      \<lparr>as_candidates = [], as_decisions = [], as_ordinal = 0\<rparr> = Inr \<lparr>as_candidates = [c],
          as_decisions = [row_decision (demo_staged_row 1 112 False) Mapped_Candidate (Some demo_digest) None],
          as_ordinal = 1\<rparr>" using row1 [of "\<lparr>as_candidates = [], as_decisions = [], as_ordinal = 0\<rparr>"] by auto
  have "validate_mapping_against_table demo_mapping demo_table = Inr ()"
    by (simp add: validate_mapping_against_table_def demo_mapping_def demo_table_def demo_descriptor_def
        demo_rule_def need_def)
  then have "apply_table demo_env demo_digest demo_set demo_table \<lparr>as_candidates = [], as_decisions = [], as_ordinal = 0\<rparr>
      = rfold (apply_mapped_row demo_env demo_digest demo_mapping demo_table)
         [demo_staged_row 1 112 False, demo_staged_row 2 113 True] \<lparr>as_candidates = [], as_decisions = [], as_ordinal = 0\<rparr>"
    by (simp add: apply_table_def demo_set_def demo_table_def demo_descriptor_def)
  with c row2 show ?thesis
    by (simp add: apply_mapping_set_def demo_structure_def mapping_digest_def demo_digest_hex need_def demo_set_def
        apply_residual_def mk_ledger_def row_decision_def demo_staged_row_def ss_unit_count_def)
       (simp add: demo_table_def demo_descriptor_def)
qed

theorem mapping_refines_reconciliation_witness:
  "\<exists>app. apply_mapping_set demo_env demo_set demo_structure demo_digest = Inr app
     \<and> map unit_of (ma_ledger app) = [([112], demo_digest, Mapped_Candidate), ([113], demo_digest, Blank)]"
proof -
  obtain app where app: "apply_mapping_set demo_env demo_set demo_structure demo_digest = Inr app"
    using demo_application by blast
  moreover have "spec_units demo_set demo_structure = [([112], demo_digest, Mapped_Candidate), ([113], demo_digest, Blank)]"
    by (simp add: spec_units_def demo_structure_def table_units_def residual_units_def demo_table_def
        demo_staged_row_def row_disposition_def entry_of_def demo_set_def demo_descriptor_def)
  ultimately show ?thesis using mapping_refines_reconciliation [OF app] by auto
qed

subsection \<open>Preview and application agree\<close>

definition row_issues :: "py_env \<Rightarrow> mapping_contract \<Rightarrow> staged_table \<Rightarrow> staged_row \<Rightarrow> pystr list" where
  "row_issues env m t row = (case apply_row env m t row of Inr (vals, errs) \<Rightarrow> errs | Inl _ \<Rightarrow> [])"

definition data_issues :: "py_env \<Rightarrow> mapping_contract \<Rightarrow> staged_table \<Rightarrow> staged_row list \<Rightarrow> pystr list list" where
  "data_issues env m t rows = map (row_issues env m t) (filter (\<lambda>r. \<not> sr_blank r) rows)"

definition count_of :: "('a \<Rightarrow> bool) \<Rightarrow> 'a list \<Rightarrow> nat" where
  "count_of P xs = length (filter P xs)"

lemma show_row_counts [simp]:
  "mp_blank_rows (show_row l row v es p) = mp_blank_rows p" "mp_valid_rows (show_row l row v es p) = mp_valid_rows p"
  "mp_error_rows (show_row l row v es p) = mp_error_rows p"
  by (simp_all add: show_row_def)

lemma show_row_limit: "length (mp_rows p) \<le> l \<Longrightarrow> length (mp_rows (show_row l row v es p)) \<le> l"
  by (simp add: show_row_def)

lemma count_row_fields [simp]:
  "mp_blank_rows (count_row es p) = mp_blank_rows p" "mp_rows (count_row es p) = mp_rows p"
  "mp_valid_rows (count_row es p) = mp_valid_rows p + (if es = [] then 1 else 0)"
  "mp_error_rows (count_row es p) = mp_error_rows p + (if es = [] then 0 else 1)"
  by (simp_all add: count_row_def)

lemma preview_rows_counts:
  "preview_rows env m t limit rows p = Inr p' \<Longrightarrow>
     mp_blank_rows p' = mp_blank_rows p + count_of sr_blank rows
     \<and> mp_valid_rows p' = mp_valid_rows p + count_of (\<lambda>i. i = []) (data_issues env m t rows)
     \<and> mp_error_rows p' = mp_error_rows p + count_of (\<lambda>i. i \<noteq> []) (data_issues env m t rows)"
proof (induction rows arbitrary: p)
  case Nil
  then show ?case by (simp add: count_of_def data_issues_def)
next
  case (Cons row rows)
  show ?case
  proof (cases "sr_blank row")
    case True
    with Cons.prems Cons.IH show ?thesis by (fastforce simp: count_of_def data_issues_def)
  next
    case False
    then obtain vals errs where ar: "apply_row env m t row = Inr (vals, errs)"
      using Cons.prems by (auto simp: res_simps)
    with Cons.prems False have "preview_rows env m t limit rows (show_row limit row vals errs (count_row errs p)) = Inr p'"
      by simp
    from Cons.IH [OF this] False ar show ?thesis
      by (simp add: count_of_def data_issues_def row_issues_def)
  qed
qed

lemma preview_rows_limit:
  "\<lbrakk>preview_rows env m t limit rows p = Inr p'; length (mp_rows p) \<le> limit\<rbrakk> \<Longrightarrow> length (mp_rows p') \<le> limit"
proof (induction rows arbitrary: p)
  case (Cons row rows)
  show ?case
  proof (cases "sr_blank row")
    case True
    with Cons.prems have "preview_rows env m t limit rows
      (show_row limit row [] [] (p\<lparr>mp_blank_rows := mp_blank_rows p + 1\<rparr>)) = Inr p'" by simp
    then show ?thesis by (rule Cons.IH) (rule show_row_limit, simp add: Cons.prems)
  next
    case False
    with Cons.prems obtain vals errs where
      "preview_rows env m t limit rows (show_row limit row vals errs (count_row errs p)) = Inr p'"
      by (auto simp: res_simps)
    then show ?thesis by (rule Cons.IH) (rule show_row_limit, simp add: Cons.prems)
  qed
qed simp

lemma apply_rows_issues:
  "rfold (apply_mapped_row env sha m t) rows s = Inr s' \<Longrightarrow>
     \<exists>cs. as_candidates s' = as_candidates s @ cs \<and> map cd_validation_issues cs = data_issues env m t rows"
proof (induction rows arbitrary: s)
  case Nil
  then show ?case by (simp add: data_issues_def)
next
  case (Cons row rows)
  then obtain s1 where s1: "apply_mapped_row env sha m t row s = Inr s1" "rfold (apply_mapped_row env sha m t) rows s1 = Inr s'"
    by (auto simp: res_simps)
  from Cons.IH [OF s1(2)] obtain cs where cs: "as_candidates s' = as_candidates s1 @ cs"
    "map cd_validation_issues cs = data_issues env m t rows" by auto
  show ?case
  proof (cases "sr_blank row")
    case True
    with apply_mapped_row_blank [OF s1(1) True] cs show ?thesis by (simp add: data_issues_def)
  next
    case False
    obtain vals errs key c where "apply_row env m t row = Inr (vals, errs)"
      and c: "s1 = \<lparr>as_candidates = as_candidates s @ [c],
           as_decisions = as_decisions s @ [row_decision row Mapped_Candidate (Some key) None],
           as_ordinal = as_ordinal s + 1\<rparr>" "cd_validation_issues c = errs"
      by (rule apply_mapped_row_Inr [OF s1(1) False])
    with cs False show ?thesis
      by (intro exI [of _ "c # cs"]) (simp add: data_issues_def row_issues_def)
  qed
qed

text \<open>
  The preview of a mapping predicts its application: the numbers of valid and faulty rows it
  shows are the numbers of candidates without and with validation issues that applying the mapping to the same
  table produces, blank rows produce none, every row is counted once, and the preview shows at most as
  many rows as asked.
\<close>

lemma preview_predicts_application:
  assumes "preview_mapping env m t limit = Inr p"
    and "entry_of ms t = Some e" and "se_mapping e = Some m"
    and "apply_table env sha ms t s = Inr s'"
  shows "\<exists>cs. as_candidates s' = as_candidates s @ cs
    \<and> mp_valid_rows p = count_of (\<lambda>c. cd_validation_issues c = []) cs
    \<and> mp_error_rows p = count_of (\<lambda>c. cd_validation_issues c \<noteq> []) cs
    \<and> mp_valid_rows p + mp_error_rows p + mp_blank_rows p = length (st_rows t)
    \<and> int (length (mp_rows p)) \<le> limit"
proof -
  obtain p0 where rows: "preview_rows env m t (nat limit) (st_rows t) p0 = Inr p" and limit: "1 \<le> limit"
    and p0: "mp_valid_rows p0 = 0" "mp_error_rows p0 = 0" "mp_blank_rows p0 = 0" "mp_rows p0 = []"
    using assms(1) by (auto simp: preview_mapping_def res_simps split: if_splits)
  have "rfold (apply_mapped_row env sha m t) (st_rows t) s = Inr s'"
    using assms(2-4) by (auto simp: apply_table_def entry_of_def res_simps split: if_splits)
  from apply_rows_issues [OF this] obtain cs where cs: "as_candidates s' = as_candidates s @ cs"
    "map cd_validation_issues cs = data_issues env m t (st_rows t)" by auto
  have counts: "count_of P (data_issues env m t (st_rows t)) = count_of (\<lambda>c. P (cd_validation_issues c)) cs" for P
    by (simp add: cs(2) [symmetric] count_of_def filter_map comp_def)
  have split: "count_of P xs + count_of (\<lambda>x. \<not> P x) xs = length xs" for P and xs :: "'x list"
    unfolding count_of_def by (rule sum_length_filter_compl)
  have "length (data_issues env m t (st_rows t)) = count_of (\<lambda>r. \<not> sr_blank r) (st_rows t)"
    by (simp add: data_issues_def count_of_def)
  with preview_rows_counts [OF rows] p0 split [of "\<lambda>i. i = []" "data_issues env m t (st_rows t)"]
    split [of sr_blank "st_rows t"]
  have "mp_valid_rows p + mp_error_rows p + mp_blank_rows p = length (st_rows t)" by simp
  moreover have "int (length (mp_rows p)) \<le> limit" using preview_rows_limit [OF rows] p0(4) limit by simp
  ultimately show ?thesis using cs(1) preview_rows_counts [OF rows] p0 counts by auto
qed

lemma demo_previewed:
  "\<exists>p. preview_mapping demo_env demo_mapping demo_table 5 = Inr p"
  by (simp add: preview_mapping_def max_preview_rows_def validate_mapping_against_table_def need_def
      demo_apply_row [unfolded demo_table_def])
     (simp add: demo_table_def demo_mapping_def demo_descriptor_def demo_rule_def demo_staged_row_def
      demo_apply_row [unfolded demo_table_def demo_mapping_def demo_descriptor_def demo_rule_def demo_staged_row_def, simplified])

lemma demo_applied_table:
  "\<exists>s'. apply_table demo_env demo_digest demo_set demo_table \<lparr>as_candidates = [], as_decisions = [], as_ordinal = 0\<rparr> = Inr s'"
proof -
  obtain app where "apply_mapping_set demo_env demo_set demo_structure demo_digest = Inr app"
    using demo_application by blast
  then obtain s where "rfold (apply_table demo_env demo_digest demo_set) (ss_tables demo_structure)
      \<lparr>as_candidates = [], as_decisions = [], as_ordinal = 0\<rparr> = Inr s"
    by (rule apply_mapping_set_Inr)
  then show ?thesis by (auto simp: demo_structure_def res_simps)
qed

lemma preview_predicts_application_witness:
  "\<exists>p s'. preview_mapping demo_env demo_mapping demo_table 5 = Inr p
     \<and> apply_table demo_env demo_digest demo_set demo_table \<lparr>as_candidates = [], as_decisions = [], as_ordinal = 0\<rparr> = Inr s'
     \<and> mp_valid_rows p + mp_error_rows p + mp_blank_rows p = 2"
proof -
  obtain p where p: "preview_mapping demo_env demo_mapping demo_table 5 = Inr p" using demo_previewed by blast
  obtain s' where s': "apply_table demo_env demo_digest demo_set demo_table
      \<lparr>as_candidates = [], as_decisions = [], as_ordinal = 0\<rparr> = Inr s'" using demo_applied_table by blast
  have e: "entry_of demo_set demo_table = Some \<lparr>se_table_locator = [116], se_schema_fingerprint = demo_digest,
      se_mapping = Some demo_mapping, se_ignore_reason = None\<rparr>"
    by (simp add: entry_of_def demo_set_def demo_table_def demo_descriptor_def)
  have "length (st_rows demo_table) = 2" by (simp add: demo_table_def)
  with preview_predicts_application [OF p e _ s'] p s' show ?thesis by auto
qed

subsection \<open>Amounts keep their value\<close>

definition ascii_digits :: "py_env \<Rightarrow> bool" where
  "ascii_digits env \<longleftrightarrow> (\<forall>i < 10. te_digit env (48 + i) = Some i)"

lemma ascii_digitsD: "\<lbrakk>ascii_digits env; is_ascii_digit c\<rbrakk> \<Longrightarrow> te_digit env c = Some (c - 48)"
proof -
  assume env: "ascii_digits env" and c: "is_ascii_digit c"
  then have "c - 48 < 10" "48 + (c - 48) = c" by (auto simp: is_ascii_digit_def)
  with env show ?thesis unfolding ascii_digits_def by metis
qed

lemma all_digits_ascii: "\<lbrakk>ascii_digits env; list_all is_ascii_digit s\<rbrakk> \<Longrightarrow> all_digits env s"
  using ascii_digitsD by (fastforce simp: all_digits_def list_all_iff)

lemma digits_int_ascii: "\<lbrakk>ascii_digits env; list_all is_ascii_digit s\<rbrakk> \<Longrightarrow> digits_int env s = digits_value s"
proof (induction s rule: rev_induct)
  case (snoc c s)
  then show ?case by (simp add: digits_int_def digits_value_def ascii_digitsD)
qed (simp add: digits_int_def digits_value_def)

lemma digits_value_pad: "digits_value (replicate k 48 @ s) = digits_value s"
proof (induction k)
  case (Suc k)
  then show ?case by (simp add: digits_value_def)
qed simp

definition plain_text :: "pystr \<Rightarrow> pystr \<Rightarrow> pystr" where
  "plain_text a b = (if b = [] then a else a @ 46 # b)"

lemma parse_plain:
  assumes env: "ascii_digits env" and a: "a \<noteq> []" "list_all is_ascii_digit a" and b: "list_all is_ascii_digit b"
  shows "parse_decimal env ((if n then [45] else []) @ plain_text a b) Dot_Style
    = Inr (Dec n (digits_value (a @ b)) (- int (length b)))"
proof -
  let ?t = "plain_text a b"
  define s where "s = (if n then [45] else []) @ ?t"
  have digit: "c \<noteq> 32 \<and> c \<noteq> 44 \<and> c \<noteq> 45 \<and> c \<noteq> 43 \<and> c \<noteq> 46" if "c \<in> set a \<union> set b" for c
    using that a(2) b by (auto simp: list_all_iff is_ascii_digit_def)
  then have keep: "filter (\<lambda>x. x \<noteq> 32 \<and> x \<noteq> 44) a = a" "filter (\<lambda>x. x \<noteq> 32 \<and> x \<noteq> 44) b = b"
    by (auto simp: filter_id_conv)
  have norm: "decimal_normalized s Dot_Style = s"
    using keep by (simp add: s_def decimal_normalized_def plain_text_def remove_char_def)
  have hd: "hd ?t \<noteq> 45" "hd ?t \<noteq> 43" "?t \<noteq> []" using a(1) digit by (auto simp: plain_text_def hd_append)
  then have uns: "unsigned s = ?t"
    by (cases ?t) (auto simp: s_def unsigned_def)
  have neg: "starts [45] s = n" using hd by (cases ?t) (auto simp: s_def)
  have run: "dropWhile (\<lambda>c. c \<noteq> 46) (a @ r) = dropWhile (\<lambda>c. c \<noteq> 46) r"
    "takeWhile (\<lambda>c. c \<noteq> 46) (a @ r) = a @ takeWhile (\<lambda>c. c \<noteq> 46) r" for r
    by (rule dropWhile_append2 takeWhile_append2; simp add: digit)+
  have stop: "dropWhile (\<lambda>c. c \<noteq> 46) a = []" "takeWhile (\<lambda>c. c \<noteq> 46) a = a"
    using run [of "[]"] by (simp_all only: append_Nil2 dropWhile.simps takeWhile.simps)
  have split: "takeWhile (\<lambda>c. c \<noteq> 46) ?t = a" "drop 1 (dropWhile (\<lambda>c. c \<noteq> 46) ?t) = b"
    using run by (cases "b = []"; simp add: plain_text_def run stop)+
  have "is_integer_text env s \<or> is_decimal_text env s"
  proof (cases "b = []")
    case True
    then have "?t = a" by (simp add: plain_text_def)
    then show ?thesis using a all_digits_ascii [OF env a(2)] by (simp add: is_integer_text_def uns)
  next
    case False
    then have "dropWhile (\<lambda>c. c \<noteq> 46) ?t = 46 # b"
      by (simp add: plain_text_def run)
    with split(1) show ?thesis using a all_digits_ascii [OF env a(2)] all_digits_ascii [OF env b]
      False by (simp add: is_decimal_text_def uns Let_def) (simp add: plain_text_def)
  qed
  then show ?thesis
    using split digits_int_ascii [OF env, of "a @ b"] a b by (simp add: s_def [symmetric] parse_decimal_def norm uns neg Let_def del: starts_Cons)
qed

lemma format_f_plain:
  assumes "dec_exp d \<le> 0"
  obtains a b where "format_f d = (if dec_neg d then [45] else []) @ plain_text a b" and "a \<noteq> []"
    and "list_all is_ascii_digit a" and "list_all is_ascii_digit b" and "digits_value (a @ b) = dec_coeff d"
    and "- int (length b) = dec_exp d"
proof (cases "dec_exp d = 0")
  case True
  then show ?thesis
    using that [of "nat_str (dec_coeff d)" "[]"] nat_str_digits [of "dec_coeff d"]
    by (simp add: format_f_def plain_text_def)
next
  case False
  define n where "n = nat (- dec_exp d)"
  define p where "p = replicate (n + 1 - length (nat_str (dec_coeff d))) 48 @ nat_str (dec_coeff d)"
  have n: "n > 0" "int n = - dec_exp d" using False assms by (auto simp: n_def)
  have len: "n < length p" by (auto simp: p_def)
  have dig: "list_all is_ascii_digit p"
    using nat_str_digits [of "dec_coeff d"] by (auto simp: p_def list_all_iff is_ascii_digit_def)
  let ?a = "take (length p - n) p" and ?b = "drop (length p - n) p"
  have ab: "?a @ ?b = p" "?a \<noteq> []" "length ?b = n" "?b \<noteq> []" using n len by auto
  have f: "format_f d = (if dec_neg d then [45] else []) @ plain_text ?a ?b"
    unfolding format_f_def plain_text_def Let_def n_def [symmetric] p_def [symmetric] using n ab(4) by simp
  have dig': "list_all is_ascii_digit ?a" "list_all is_ascii_digit ?b"
    using dig ab(1) by (metis list_all_append)+
  have "digits_value (?a @ ?b) = dec_coeff d" unfolding ab(1) by (simp add: p_def digits_value_pad)
  moreover have "- int (length ?b) = dec_exp d" using n ab(3) by simp
  ultimately show ?thesis by (rule that [OF f ab(2) dig'])
qed

lemma parse_decimal_exp: "parse_decimal env v st = Inr d \<Longrightarrow> dec_exp d \<le> 0"
  by (auto simp: parse_decimal_def Let_def split: if_splits)

text \<open>
  The decimal text a mapping stores reads back as the amount that was parsed from the cell:
  no digit, sign or trailing zero is lost, whatever separators the cell used.
\<close>

lemma stored_amount_reads_back:
  assumes "ascii_digits env" and "parse_decimal env cell style = Inr amount"
  shows "parse_decimal env (format_f amount) Dot_Style = Inr amount"
proof -
  obtain a b where ab: "format_f amount = (if dec_neg amount then [45] else []) @ plain_text a b" "a \<noteq> []"
    "list_all is_ascii_digit a" "list_all is_ascii_digit b" "digits_value (a @ b) = dec_coeff amount"
    "- int (length b) = dec_exp amount"
    by (rule format_f_plain [OF parse_decimal_exp [OF assms(2)]])
  then show ?thesis using parse_plain [OF assms(1) ab(2-4), of "dec_neg amount"] by simp
qed

lemma demo_parsed: "parse_decimal demo_env [45, 49, 46, 48, 48, 48, 44, 53] Comma_Style = Inr (Dec True 10005 (- 1))"
  by (simp add: parse_decimal_def decimal_normalized_def remove_char_def unsigned_def is_decimal_text_def
      is_integer_text_def all_digits_def demo_env_def is_ascii_digit_def digits_int_def Let_def)

lemma stored_amount_reads_back_witness:
  "parse_decimal demo_env [45, 49, 46, 48, 48, 48, 44, 53] Comma_Style = Inr (Dec True 10005 (- 1))
   \<and> parse_decimal demo_env (format_f (Dec True 10005 (- 1))) Dot_Style = Inr (Dec True 10005 (- 1))"
proof -
  have "ascii_digits demo_env" by (simp add: ascii_digits_def demo_env_def is_ascii_digit_def)
  from stored_amount_reads_back [OF this demo_parsed] demo_parsed show ?thesis by simp
qed

end
