(* ===== verification/Csv_Text.thy ===== *)
theory Csv_Text
  imports Py_Text
begin

text \<open>
  \<^verbatim>\<open>csv.writer(..., lineterminator="\r\n")\<close> with its default dialect, and a reader of the same dialect as
  the reference against which the exports are read back.
\<close>

subsection \<open>Writing\<close>

definition csv_special :: "nat \<Rightarrow> bool" where
  "csv_special c \<longleftrightarrow> c = 44 \<or> c = 34 \<or> c = 13 \<or> c = 10"

definition double_quotes :: "pystr \<Rightarrow> pystr" where
  "double_quotes s = concat (map (\<lambda>c. if c = 34 then [34, 34] else [c]) s)"

definition csv_field :: "pystr \<Rightarrow> pystr" where
  "csv_field s = (if list_ex csv_special s then 34 # double_quotes s @ [34] else s)"

definition csv_row :: "pystr list \<Rightarrow> pystr" where
  "csv_row fs = (if fs = [[]] then [34, 34] else join [44] (map csv_field fs)) @ [13, 10]"

definition csv_text :: "pystr list list \<Rightarrow> pystr" where
  "csv_text rows = concat (map csv_row rows)"

subsection \<open>Reading\<close>

datatype csv_state = Row_Start | Field_Start | In_Field | In_Quoted | Quote_In_Quoted | After_CR

definition finished_row :: "csv_state \<Rightarrow> pystr list \<Rightarrow> pystr \<Rightarrow> pystr list" where
  "finished_row st r f = (if st = Row_Start \<or> st = After_CR then [] else r @ [f])"

definition csv_step :: "csv_state \<Rightarrow> pystr \<Rightarrow> pystr list \<Rightarrow> nat \<Rightarrow> csv_state \<times> pystr \<times> pystr list \<times> pystr list list" where
  "csv_step st f r c =
     (if st = In_Quoted then (if c = 34 then (Quote_In_Quoted, f, r, []) else (In_Quoted, f @ [c], r, []))
      else if st = Quote_In_Quoted \<and> c = 34 then (In_Quoted, f @ [34], r, [])
      else if st = After_CR \<and> c = 10 then (Row_Start, [], [], [])
      else if c = 44 then (Field_Start, [], r @ [f], [])
      else if c = 13 then (After_CR, [], [], [finished_row st r f])
      else if c = 10 then (Row_Start, [], [], [finished_row st r f])
      else if c = 34 \<and> st \<noteq> In_Field \<and> st \<noteq> Quote_In_Quoted then (In_Quoted, [], r, [])
      else (In_Field, f @ [c], r, []))"

fun csv_read :: "csv_state \<Rightarrow> pystr \<Rightarrow> pystr list \<Rightarrow> pystr \<Rightarrow> pystr list list" where
  "csv_read st f r [] = (if st = Row_Start \<or> st = After_CR then [] else [r @ [f]])"
| "csv_read st f r (c # cs) = (case csv_step st f r c of (st', f', r', out) \<Rightarrow> out @ csv_read st' f' r' cs)"

definition read_csv :: "pystr \<Rightarrow> pystr list list" where
  "read_csv text = csv_read Row_Start [] [] text"

subsection \<open>Reading back what was written\<close>

lemma read_plain:
  "\<not> list_ex csv_special s \<Longrightarrow> csv_read In_Field f r (s @ rest) = csv_read In_Field (f @ s) r rest"
  by (induction s arbitrary: f) (simp_all add: csv_step_def csv_special_def)

lemma read_quoted:
  "csv_read In_Quoted f r (double_quotes s @ 34 # rest) = csv_read Quote_In_Quoted (f @ s) r rest"
  by (induction s arbitrary: f) (simp_all add: csv_step_def double_quotes_def)

text \<open>A written field leaves the reader in a state that knows it, with the next character to come.\<close>

lemma read_field:
  assumes "st = Row_Start \<or> st = Field_Start"
  shows "\<exists>st'. csv_read st [] r (csv_field s @ rest) = csv_read st' s r rest
    \<and> (st' = In_Field \<or> st' = Quote_In_Quoted \<or> (s = [] \<and> st' = st))"
proof (cases "list_ex csv_special s")
  case True
  then have "csv_read st [] r (csv_field s @ rest) = csv_read Quote_In_Quoted s r rest"
    using assms read_quoted [of "[]" r s rest] by (auto simp: csv_field_def csv_step_def)
  then show ?thesis by blast
next
  case False
  show ?thesis
  proof (cases s)
    case Nil
    with False show ?thesis by (auto simp: csv_field_def)
  next
    case (Cons c cs)
    then have "csv_read st [] r (csv_field s @ rest) = csv_read In_Field s r rest"
      using assms False read_plain [of cs "[c]" r rest] by (auto simp: csv_field_def csv_step_def csv_special_def)
    then show ?thesis by blast
  qed
qed

lemma read_field_comma:
  assumes "st = Row_Start \<or> st = Field_Start"
  shows "csv_read st [] r (csv_field s @ 44 # rest) = csv_read Field_Start [] (r @ [s]) rest"
proof -
  obtain st' where "csv_read st [] r (csv_field s @ 44 # rest) = csv_read st' s r (44 # rest)"
    "st' = In_Field \<or> st' = Quote_In_Quoted \<or> (s = [] \<and> st' = st)" using read_field [OF assms] by blast
  then show ?thesis using assms by (auto simp: csv_step_def)
qed

lemma read_field_end:
  assumes "st = Field_Start \<or> (st = Row_Start \<and> s \<noteq> [])"
  shows "csv_read st [] r (csv_field s @ 13 # 10 # rest) = (r @ [s]) # csv_read Row_Start [] [] rest"
proof -
  obtain st' where "csv_read st [] r (csv_field s @ 13 # 10 # rest) = csv_read st' s r (13 # 10 # rest)"
    "st' = In_Field \<or> st' = Quote_In_Quoted \<or> (s = [] \<and> st' = st)" using read_field [of st] assms by blast
  then show ?thesis using assms by (auto simp: csv_step_def finished_row_def)
qed

lemma read_fields:
  "fs \<noteq> [] \<Longrightarrow> csv_read Field_Start [] r (join [44] (map csv_field fs) @ 13 # 10 # rest)
     = (r @ fs) # csv_read Row_Start [] [] rest"
proof (induction fs arbitrary: r rule: induct_list012)
  case (2 f)
  then show ?case by (simp add: read_field_end)
next
  case (3 f g fs)
  then show ?case by (simp add: read_field_comma)
qed simp

lemma read_row: "csv_read Row_Start [] [] (csv_row fs @ rest) = fs # csv_read Row_Start [] [] rest"
proof (cases fs rule: remdups_adj.cases)
  case 1
  then show ?thesis by (simp add: csv_row_def csv_step_def finished_row_def)
next
  case (2 f)
  show ?thesis
  proof (cases "f = []")
    case True
    with 2 show ?thesis by (simp add: csv_row_def csv_step_def finished_row_def)
  next
    case False
    with 2 show ?thesis by (simp add: csv_row_def read_field_end)
  qed
next
  case (3 f g fs')
  then show ?thesis using read_fields [of "g # fs'" "[f]" rest] by (simp add: csv_row_def read_field_comma)
qed

lemma read_csv_text: "read_csv (csv_text rows) = rows"
proof -
  have "csv_read Row_Start [] [] (csv_text rows @ []) = rows"
    by (induction rows) (simp_all add: csv_text_def read_row)
  then show ?thesis by (simp add: read_csv_def)
qed

end
