(* ===== verification/Accounting_Export.thy ===== *)
theory Accounting_Export
  imports Csv_Text Canonical Py_Date Py_Num Clerk_Models "HOL-Library.Product_Lexorder"
begin

text \<open>
  The accounting and audit exports, \<^verbatim>\<open>src/clerksan/export/accounting_csv.py\<close> and \<^verbatim>\<open>audit_csv.py\<close>. A query row
  is a record of dynamically typed cells; those whose \<^verbatim>\<open>str()\<close> depends on more than the model keeps carry that text. Parameters stand for \<^verbatim>\<open>UUID(text)\<close>, \<^verbatim>\<open>Decimal(text)\<close>,
  \<^verbatim>\<open>date.fromisoformat\<close>, \<^verbatim>\<open>str.upper\<close> and the Shift_JIS codec; UTF-8 is the definition of \<open>Py_Text\<close>.
  \<^verbatim>\<open>strftime("%Y")\<close> is the number without padding, as the C library of the target platform prints it.
\<close>

subsection \<open>Cells\<close>

datatype cell =
    C_None
  | C_Bool bool
  | C_Str pystr
  | C_Date date
  | C_Datetime date pystr
  | C_Decimal decimal_value pystr
  | C_Uuid nat
  | C_Other pystr

record export_env =
  xe_uuid :: "pystr \<Rightarrow> nat option"
  xe_decimal :: "pystr \<Rightarrow> decimal_value option"
  xe_isodate :: "pystr \<Rightarrow> date option"
  xe_upper :: "pystr \<Rightarrow> pystr"
  xe_shift_jis :: "pystr \<Rightarrow> nat list option"

record query_row =
  qr_id :: cell
  qr_document_id :: cell
  qr_transaction_date :: cell
  qr_total_amount :: cell
  qr_counterparty :: cell
  qr_category :: cell
  qr_currency :: cell
  qr_tax_8_amount :: cell
  qr_tax_10_amount :: cell
  qr_source_filename :: cell

record export_record =
  er_id :: nat
  er_document_id :: nat
  er_transaction_date :: date
  er_total_amount :: decimal_value
  er_counterparty :: pystr
  er_category :: "pystr option"
  er_currency :: "pystr option"
  er_tax_8_amount :: "decimal_value option"
  er_tax_10_amount :: "decimal_value option"
  er_source_filename :: pystr

definition cell_text :: "cell \<Rightarrow> pystr" where
  "cell_text c = (case c of C_None \<Rightarrow> u ''None'' | C_Bool b \<Rightarrow> (if b then u ''True'' else u ''False'')
     | C_Str s \<Rightarrow> s | C_Date d \<Rightarrow> isoformat d | C_Datetime d s \<Rightarrow> s | C_Decimal d s \<Rightarrow> s
     | C_Uuid n \<Rightarrow> uuid_str n | C_Other s \<Rightarrow> s)"

definition x_uuid :: "export_env \<Rightarrow> cell \<Rightarrow> nat res" where
  "x_uuid env c = (case c of C_Uuid n \<Rightarrow> Inr n
     | _ \<Rightarrow> (case xe_uuid env (cell_text c) of Some n \<Rightarrow> Inr n
         | None \<Rightarrow> Inl (AccountingExportError ''verified export rows require UUID id and document_id'')))"

definition x_date :: "export_env \<Rightarrow> cell \<Rightarrow> date res" where
  "x_date env c = (case c of C_Datetime d s \<Rightarrow> Inr d | C_Date d \<Rightarrow> Inr d
     | C_Str s \<Rightarrow> (case xe_isodate env s of Some d \<Rightarrow> Inr d
         | None \<Rightarrow> Inl (AccountingExportError ''must be an ISO date''))
     | _ \<Rightarrow> Inl (AccountingExportError ''is required''))"

definition x_decimal :: "export_env \<Rightarrow> cell \<Rightarrow> bool \<Rightarrow> decimal_value option res" where
  "x_decimal env c required = (case c of
     C_None \<Rightarrow> if required then Inl (AccountingExportError ''is required'') else Inr None
   | C_Bool b \<Rightarrow> Inl (AccountingExportError ''must be a decimal number'')
   | C_Decimal d s \<Rightarrow> Inr (Some d)
   | _ \<Rightarrow> (case xe_decimal env (cell_text c) of Some d \<Rightarrow> Inr (Some d)
       | None \<Rightarrow> Inl (AccountingExportError ''must be a decimal number'')))"

definition x_clean_text :: "cell \<Rightarrow> pystr res" where
  "x_clean_text c = (case c of
     C_Str s \<Rightarrow> if clean_spaces s = [] then Inl (AccountingExportError ''must not be empty'') else Inr (clean_spaces s)
   | _ \<Rightarrow> Inl (AccountingExportError ''is required''))"

definition x_optional_text :: "cell \<Rightarrow> pystr option res" where
  "x_optional_text c = (if c = C_None then Inr None else rbind (x_clean_text c) (\<lambda>s. Inr (Some s)))"

definition check_tax :: "decimal_value \<Rightarrow> decimal_value option \<Rightarrow> unit res" where
  "check_tax amt tax = (case tax of None \<Rightarrow> Inr ()
     | Some v \<Rightarrow> rbind (dv_less v (Finite_Dec 0)) (\<lambda>neg.
         if neg then Inl (AccountingExportError ''must not be negative'')
         else rbind (dv_less amt v) (\<lambda>big.
           if big then Inl (AccountingExportError ''cannot exceed total_amount'') else Inr ())))"

definition x_currency :: "export_env \<Rightarrow> cell \<Rightarrow> pystr option res" where
  "x_currency env c = (if c = C_None then Inr None
     else rbind (x_clean_text c) (\<lambda>s. if xe_upper env s = u ''JPY'' then Inr (Some (u ''JPY''))
       else Inl (AccountingExportError ''accounting CSV export currently supports JPY records only'')))"

definition from_row :: "export_env \<Rightarrow> query_row \<Rightarrow> export_record res" where
  "from_row env row =
     rbind (x_uuid env (qr_id row)) (\<lambda>rid.
     rbind (x_uuid env (qr_document_id row)) (\<lambda>did.
     rbind (x_date env (qr_transaction_date row)) (\<lambda>date.
     rbind (x_decimal env (qr_total_amount row) True) (\<lambda>amt_opt.
     case amt_opt of None \<Rightarrow> Inl (AccountingExportError ''is required'')
     | Some amt \<Rightarrow>
     rbind (dv_less (Finite_Dec 0) amt) (\<lambda>pos.
     if \<not> pos then Inl (AccountingExportError ''total_amount must be greater than zero'') else
     rbind (x_clean_text (qr_counterparty row)) (\<lambda>counterparty.
     rbind (x_currency env (qr_currency row)) (\<lambda>currency.
     rbind (x_decimal env (qr_tax_8_amount row) False) (\<lambda>tax8.
     rbind (x_decimal env (qr_tax_10_amount row) False) (\<lambda>tax10.
     rbind (check_tax amt tax8) (\<lambda>_.
     rbind (check_tax amt tax10) (\<lambda>_.
     rbind (x_optional_text (qr_category row)) (\<lambda>category.
     rbind (x_optional_text (qr_source_filename row)) (\<lambda>filename.
     Inr \<lparr>er_id = rid, er_document_id = did, er_transaction_date = date, er_total_amount = amt,
          er_counterparty = counterparty, er_category = category, er_currency = currency,
          er_tax_8_amount = tax8, er_tax_10_amount = tax10,
          er_source_filename = (case filename of None \<Rightarrow> [] | Some f \<Rightarrow> f)\<rparr>)))))))))))))"

subsection \<open>Journal rows\<close>

definition freee_header :: "pystr list" where
  "freee_header = [
    [91, 34920, 38988, 34892, 93], [26085, 20184], [20253, 31080, 30058, 21495], [27770, 31639, 25972, 29702,
    20181, 35379], [20511, 26041, 21208, 23450, 31185, 30446], [20511, 26041, 31185, 30446, 12467, 12540,
    12489], [20511, 26041, 35036, 21161, 31185, 30446], [20511, 26041, 21462, 24341, 20808], [20511, 26041,
    21462, 24341, 20808, 12467, 12540, 12489], [20511, 26041, 37096, 38272], [20511, 26041, 21697, 30446],
    [20511, 26041, 12513, 12514, 12479, 12464], [20511, 26041, 12475, 12464, 12513, 12531, 12488, 49], [20511,
    26041, 12475, 12464, 12513, 12531, 12488, 50], [20511, 26041, 12475, 12464, 12513, 12531, 12488, 51],
    [20511, 26041, 37329, 38989], [20511, 26041, 31246, 21306, 20998], [20511, 26041, 31246, 38989], [36024,
    26041, 21208, 23450, 31185, 30446], [36024, 26041, 31185, 30446, 12467, 12540, 12489], [36024, 26041,
    35036, 21161, 31185, 30446], [36024, 26041, 21462, 24341, 20808], [36024, 26041, 21462, 24341, 20808,
    12467, 12540, 12489], [36024, 26041, 37096, 38272], [36024, 26041, 21697, 30446], [36024, 26041, 12513,
    12514, 12479, 12464], [36024, 26041, 12475, 12464, 12513, 12531, 12488, 49], [36024, 26041, 12475, 12464,
    12513, 12531, 12488, 50], [36024, 26041, 12475, 12464, 12513, 12531, 12488, 51], [36024, 26041, 37329,
    38989], [36024, 26041, 31246, 21306, 20998], [36024, 26041, 31246, 38989], [25688, 35201]]"

definition payable_account :: pystr where
  "payable_account = [26410, 25173, 37329]"

definition not_taxable :: pystr where
  "not_taxable = [23550, 35937, 22806]"

definition detail_mark :: pystr where
  "detail_mark = [91, 26126, 32048, 34892, 93]"

definition miscellaneous :: pystr where
  "miscellaneous = [38609, 36027]"

definition account_by_category :: "(pystr \<times> pystr) list" where
  "account_by_category = [
    ([20250, 35696, 36027], [20250, 35696, 36027]), ([25509, 24453, 20132, 38555, 36027], [25509, 24453,
    20132, 38555, 36027]), ([28040, 32791, 21697, 36027], [28040, 32791, 21697, 36027]), ([26053, 36027,
    20132, 36890, 36027], [26053, 36027, 20132, 36890, 36027]), ([27700, 36947, 20809, 29105, 36027], [27700,
    36947, 20809, 29105, 36027]), ([36890, 20449, 36027], [36890, 20449, 36027]), ([31119, 21033, 21402,
    29983, 36027], [31119, 21033, 21402, 29983, 36027]), ([26032, 32862, 22259, 26360, 36027], [26032, 32862,
    22259, 26360, 36027]), ([22320, 20195, 23478, 36035], [22320, 20195, 23478, 36035]), ([31199, 31246,
    20844, 35506], [31199, 31246, 20844, 35506]), ([38609, 36027], [38609, 36027]), ([70, 111, 111, 100],
    [20250, 35696, 36027]), ([84, 114, 97, 110, 115, 112, 111, 114, 116, 97, 116, 105, 111, 110], [26053,
    36027, 20132, 36890, 36027]), ([69, 110, 116, 101, 114, 116, 97, 105, 110, 109, 101, 110, 116], [25509,
    24453, 20132, 38555, 36027]), ([85, 116, 105, 108, 105, 116, 105, 101, 115], [27700, 36947, 20809, 29105,
    36027]), ([72, 101, 97, 108, 116, 104, 99, 97, 114, 101], [31119, 21033, 21402, 29983, 36027]), ([67, 108,
    111, 116, 104, 105, 110, 103], [28040, 32791, 21697, 36027]), ([69, 108, 101, 99, 116, 114, 111, 110, 105,
    99, 115], [28040, 32791, 21697, 36027]), ([72, 111, 117, 115, 101, 104, 111, 108, 100], [28040, 32791,
    21697, 36027]), ([79, 102, 102, 105, 99, 101], [28040, 32791, 21697, 36027])]"

definition account_for_category :: "pystr option \<Rightarrow> pystr" where
  "account_for_category category = (case category of None \<Rightarrow> miscellaneous
     | Some c \<Rightarrow> (case map_of account_by_category (strip c) of Some a \<Rightarrow> a | None \<Rightarrow> miscellaneous))"

text \<open>The characters that a spreadsheet takes for the start of a formula.\<close>

definition formula_char :: "nat \<Rightarrow> bool" where
  "formula_char c \<longleftrightarrow> c = 61 \<or> c = 43 \<or> c = 45 \<or> c = 64"

definition safe_cell :: "pystr \<Rightarrow> pystr" where
  "safe_cell value = (let cleaned = clean_spaces value in
     case cleaned of c # _ \<Rightarrow> if formula_char c then 39 # cleaned else cleaned | [] \<Rightarrow> cleaned)"

definition summary_text :: "export_record \<Rightarrow> pystr" where
  "summary_text r = safe_cell (er_counterparty r @ u '' [Clerk-san:'' @ uuid_str (er_id r) @ u '']'')"

definition format_yen :: "decimal_value \<Rightarrow> pystr res" where
  "format_yen v = (case v of
     NaN_Dec \<Rightarrow> Inl (AccountingExportError ''must be a whole JPY amount'')
   | Infinite_Dec neg \<Rightarrow> if neg then Inl (AccountingExportError ''must be at least one JPY'')
       else Inl (OverflowError ''cannot convert Infinity to integer'')
   | Finite_Dec q \<Rightarrow> if q \<noteq> of_int \<lfloor>q\<rfloor> then Inl (AccountingExportError ''must be a whole JPY amount'')
       else if q < 1 then Inl (AccountingExportError ''must be at least one JPY'')
       else Inr (int_str \<lfloor>q\<rfloor>))"

text \<open>\<^verbatim>\<open>amount and amount > 0\<close>: a NaN is truthy, and comparing it raises.\<close>

definition positive_tax :: "decimal_value option \<Rightarrow> bool res" where
  "positive_tax t = (case t of None \<Rightarrow> Inr False
     | Some (Finite_Dec q) \<Rightarrow> Inr (0 < q)
     | Some d \<Rightarrow> dv_less (Finite_Dec 0) d)"

definition tax_category :: "int \<Rightarrow> pystr" where
  "tax_category rate = [35506, 23550, 20181, 20837] @ int_str rate @ [37]"

definition tax_treatment :: "export_record \<Rightarrow> (pystr \<times> pystr) res" where
  "tax_treatment r =
     rbind (positive_tax (er_tax_8_amount r)) (\<lambda>p8.
     rbind (positive_tax (er_tax_10_amount r)) (\<lambda>p10.
     if p8 \<and> p10 then Inl (AccountingExportError ''has both 8% and 10% tax amounts; split it before export'')
     else if p8 then rbind (format_yen (the (er_tax_8_amount r))) (\<lambda>a. Inr (tax_category 8, a))
     else if p10 then rbind (format_yen (the (er_tax_10_amount r))) (\<lambda>a. Inr (tax_category 10, a))
     else Inr (not_taxable, [])))"

definition slash_date :: "date \<Rightarrow> pystr" where
  "slash_date d = int_str (d_year d) @ 47 # pad2 (d_month d) @ 47 # pad2 (d_day d)"

definition ordered_records :: "export_record list \<Rightarrow> export_record list" where
  "ordered_records rs = sort_key (\<lambda>r. (er_transaction_date r, uuid_str (er_id r))) rs"

definition blank_cells :: "nat \<Rightarrow> pystr list" where
  "blank_cells n = replicate n []"

definition freee_row :: "nat \<times> export_record \<Rightarrow> pystr list res" where
  "freee_row nr = (case nr of (n, r) \<Rightarrow>
     rbind (tax_treatment r) (\<lambda>(category, tax).
     rbind (format_yen (er_total_amount r)) (\<lambda>amount.
     Inr ([detail_mark, slash_date (er_transaction_date r), nat_str n, [], account_for_category (er_category r), [], [],
           safe_cell (er_counterparty r)] @ blank_cells 7 @ [amount, category, tax, payable_account] @ blank_cells 10
          @ [amount, not_taxable, [], summary_text r]))))"

definition freee_rows :: "export_record list \<Rightarrow> pystr list list res" where
  "freee_rows rs = (let ordered = ordered_records rs in
     rmap freee_row (zip (map Suc [0..<length ordered]) ordered))"

definition render_freee :: "export_record list \<Rightarrow> nat list res" where
  "render_freee rs = rbind (freee_rows rs) (\<lambda>rows.
     case utf8_encode (csv_text (freee_header # rows)) of
       None \<Rightarrow> Inl (ValueError ''surrogates not allowed'') | Some bytes \<Rightarrow> Inr bytes)"

definition yayoi_row :: "export_record \<Rightarrow> pystr list res" where
  "yayoi_row r =
     rbind (tax_treatment r) (\<lambda>(category, tax).
     rbind (format_yen (er_total_amount r)) (\<lambda>amount.
     let row = [u ''2000'', [], [], slash_date (er_transaction_date r), account_for_category (er_category r), [], [],
          category, amount, tax, payable_account, [], [], not_taxable, amount, [], take 30 (summary_text r), [], [],
          u ''0'', [], [], u ''0'', u ''0'', u ''no'', take 15 (safe_cell (er_counterparty r)), []] in
     if length row \<noteq> 27 then Inl AssertionError else Inr row))"

definition yayoi_rows :: "export_record list \<Rightarrow> pystr list list res" where
  "yayoi_rows rs = rmap yayoi_row (ordered_records rs)"

definition render_yayoi :: "export_env \<Rightarrow> export_record list \<Rightarrow> nat list res" where
  "render_yayoi env rs = rbind (yayoi_rows rs) (\<lambda>rows.
     case xe_shift_jis env (csv_text rows) of
       None \<Rightarrow> Inl (AccountingExportError ''Yayoi Shift_JIS export cannot encode one or more verified fields'')
     | Some bytes \<Rightarrow> Inr bytes)"

text \<open>The query of verified rows in a date range is a parameter of the two exporters.\<close>

definition verified_export_records ::
    "export_env \<Rightarrow> (date \<Rightarrow> date \<Rightarrow> query_row list) \<Rightarrow> date \<Rightarrow> date \<Rightarrow> export_record list res" where
  "verified_export_records env range_query date_from date_to =
     (if date_to < date_from then Inl (AccountingExportError ''date_from must not be after date_to'')
      else rmap (from_row env) (range_query date_from date_to))"

definition export_freee ::
    "export_env \<Rightarrow> (date \<Rightarrow> date \<Rightarrow> query_row list) \<Rightarrow> date \<Rightarrow> date \<Rightarrow> nat list res" where
  "export_freee env range_query date_from date_to =
     rbind (verified_export_records env range_query date_from date_to) render_freee"

definition export_yayoi ::
    "export_env \<Rightarrow> (date \<Rightarrow> date \<Rightarrow> query_row list) \<Rightarrow> date \<Rightarrow> date \<Rightarrow> nat list res" where
  "export_yayoi env range_query date_from date_to =
     rbind (verified_export_records env range_query date_from date_to) (render_yayoi env)"

subsection \<open>Audit history\<close>

record audit_entry =
  ae_id :: int
  ae_at :: pystr
  ae_actor :: pystr
  ae_table_name :: pystr
  ae_row_pk :: pystr
  ae_action :: pystr
  ae_field :: pystr
  ae_old_value :: "pystr option"
  ae_new_value :: "pystr option"

definition audit_header :: "pystr list" where
  "audit_header = map u [''audit_id'', ''at'', ''actor'', ''table_name'', ''row_pk'', ''action'', ''field'',
     ''old_value'', ''new_value'']"

definition audit_row :: "audit_entry \<Rightarrow> pystr list" where
  "audit_row e = [int_str (ae_id e), ae_at e, safe_cell (ae_actor e), safe_cell (ae_table_name e),
     safe_cell (ae_row_pk e), safe_cell (ae_action e), safe_cell (ae_field e),
     safe_cell (case ae_old_value e of None \<Rightarrow> [] | Some v \<Rightarrow> v),
     safe_cell (case ae_new_value e of None \<Rightarrow> [] | Some v \<Rightarrow> v)]"

definition render_audit_csv :: "audit_entry list \<Rightarrow> nat list res" where
  "render_audit_csv es = (case utf8_encode (csv_text (audit_header # map audit_row es)) of
     None \<Rightarrow> Inl (ValueError ''surrogates not allowed'') | Some bytes \<Rightarrow> Inr bytes)"

end
