(* ===== verification/Accounting_Props.thy ===== *)
theory Accounting_Props
  imports Accounting_Export "HOL-Library.Multiset"
begin

text \<open>
  Properties of the exports: the freee file reads back as the journal rows, no cell that carries reviewed
  text starts a spreadsheet formula, both sides of every entry balance, and the Yayoi summary never holds the
  whole record reference.
\<close>

subsection \<open>Cells that a spreadsheet does not evaluate\<close>

definition inert :: "pystr \<Rightarrow> bool" where
  "inert s \<longleftrightarrow> s = [] \<or> \<not> formula_char (hd s)"

named_theorems inert_intros

lemma inert_Nil [inert_intros]: "inert []"
  by (simp add: inert_def)

lemma inert_Cons [inert_intros]: "\<not> formula_char c \<Longrightarrow> inert (c # s)"
  by (simp add: inert_def)

lemma inert_append [inert_intros]: "\<lbrakk>inert s; s \<noteq> []\<rbrakk> \<Longrightarrow> inert (s @ t)"
  by (simp add: inert_def)

lemma inert_take [inert_intros]: "inert s \<Longrightarrow> inert (take n s)"
  by (cases s; cases n) (simp_all add: inert_def)

lemma inert_safe_cell [inert_intros]: "inert (safe_cell s)"
  by (auto simp: safe_cell_def Let_def inert_def formula_char_def [of 39] split: list.split)

lemma inert_nat_str [inert_intros]: "inert (nat_str n)"
  using nat_str_digits [of n]
  by (cases "nat_str n") (auto simp: inert_def formula_char_def is_ascii_digit_def)

lemma inert_int_str: "0 \<le> i \<Longrightarrow> inert (int_str i)"
  by (simp add: int_str_def inert_nat_str)

lemma inert_account: "inert (account_for_category c)"
proof -
  have "list_all (\<lambda>ca. inert (snd ca)) account_by_category"
    by (simp add: account_by_category_def inert_def formula_char_def)
  moreover have "inert miscellaneous" by (simp add: miscellaneous_def inert_def formula_char_def)
  ultimately show ?thesis
    by (auto simp: account_for_category_def list_all_iff dest!: map_of_SomeD split: option.split)
qed

lemma inert_fixed [inert_intros]: "inert payable_account" "inert not_taxable" "inert detail_mark" "inert (tax_category r)"
  by (simp_all add: payable_account_def not_taxable_def detail_mark_def tax_category_def inert_def formula_char_def)

lemma inert_slash_date: "1 \<le> d_year d \<Longrightarrow> inert (slash_date d)"
  unfolding slash_date_def by (intro inert_append inert_int_str) (simp_all add: int_str_def)

subsection \<open>Amounts\<close>

lemma format_yen_Inr:
  "format_yen v = Inr a \<longleftrightarrow> (\<exists>n. 1 \<le> n \<and> v = Finite_Dec (of_int n) \<and> a = int_str n)"
proof
  assume "format_yen v = Inr a"
  then obtain q where "v = Finite_Dec q" "q = of_int \<lfloor>q\<rfloor>" "\<not> q < 1" "a = int_str \<lfloor>q\<rfloor>"
    by (auto simp: format_yen_def split: decimal_value.splits if_splits)
  then show "\<exists>n. 1 \<le> n \<and> v = Finite_Dec (of_int n) \<and> a = int_str n"
    by (intro exI [of _ "\<lfloor>q\<rfloor>"]) simp
qed (auto simp: format_yen_def)

lemma format_yen_inert: "format_yen v = Inr a \<Longrightarrow> inert a"
  by (auto simp: format_yen_Inr intro: inert_int_str)

lemma tax_treatment_inert:
  "tax_treatment r = Inr (category, tax) \<Longrightarrow> inert category \<and> inert tax"
  by (auto simp: tax_treatment_def res_simps format_yen_inert inert_intros split: if_splits)

lemma freee_row_Inr:
  "freee_row (n, r) = Inr row \<longleftrightarrow> (\<exists>category tax amount. tax_treatment r = Inr (category, tax)
     \<and> format_yen (er_total_amount r) = Inr amount
     \<and> row = [detail_mark, slash_date (er_transaction_date r), nat_str n, [], account_for_category (er_category r),
         [], [], safe_cell (er_counterparty r)] @ blank_cells 7 @ [amount, category, tax, payable_account]
         @ blank_cells 10 @ [amount, not_taxable, [], summary_text r])"
  by (auto simp: freee_row_def res_simps)

lemma yayoi_row_Inr:
  "yayoi_row r = Inr row \<longleftrightarrow> (\<exists>category tax amount. tax_treatment r = Inr (category, tax)
     \<and> format_yen (er_total_amount r) = Inr amount
     \<and> row = [u ''2000'', [], [], slash_date (er_transaction_date r), account_for_category (er_category r), [], [],
          category, amount, tax, payable_account, [], [], not_taxable, amount, [], take 30 (summary_text r), [], [],
          u ''0'', [], [], u ''0'', u ''0'', u ''no'', take 15 (safe_cell (er_counterparty r)), []])"
  by (auto simp: yayoi_row_def res_simps)

lemma inert_literals: "inert (u ''2000'')" "inert (u ''0'')" "inert (u ''no'')"
  by (simp_all add: inert_def formula_char_def py_simps)

lemmas row_cells_inert = inert_intros inert_account inert_slash_date inert_literals

lemma blank_cells_inert [simp]: "list_all inert (blank_cells n)"
  by (simp add: blank_cells_def list_all_iff inert_def)

lemma freee_row_shape:
  assumes "freee_row (n, r) = Inr f" "1 \<le> d_year (er_transaction_date r)"
  shows "list_all inert f \<and> length f = 33 \<and> format_yen (er_total_amount r) = Inr (f ! 15) \<and> f ! 29 = f ! 15"
  using assms tax_treatment_inert [of r] format_yen_inert [of "er_total_amount r"]
  by (auto simp: freee_row_Inr blank_cells_def numeral_eq_Suc summary_text_def row_cells_inert list_all_iff)

lemma yayoi_row_shape:
  assumes "yayoi_row r = Inr f" "1 \<le> d_year (er_transaction_date r)"
  shows "list_all inert f \<and> length f = 27 \<and> format_yen (er_total_amount r) = Inr (f ! 8) \<and> f ! 14 = f ! 8"
  using assms tax_treatment_inert [of r] format_yen_inert [of "er_total_amount r"]
  by (auto simp: yayoi_row_Inr summary_text_def row_cells_inert list_all_iff)

lemma rmap_Inr_iff:
  "rmap f xs = Inr ys \<longleftrightarrow> length ys = length xs \<and> (\<forall>i < length xs. f (xs ! i) = Inr (ys ! i))"
proof (induction xs arbitrary: ys)
  case (Cons x xs)
  then show ?case by (cases ys) (auto simp: res_simps nth_Cons split: nat.splits)
qed auto

lemma freee_rows_nth:
  assumes "freee_rows rs = Inr rows"
  shows "length rows = length rs"
    and "i < length rs \<Longrightarrow> freee_row (Suc i, ordered_records rs ! i) = Inr (rows ! i)"
  using assms by (auto simp: freee_rows_def Let_def rmap_Inr_iff ordered_records_def)

lemma ordered_records_props:
  "mset (ordered_records rs) = mset rs" "sorted (map er_transaction_date (ordered_records rs))"
proof -
  have "sorted (map (\<lambda>r. (er_transaction_date r, uuid_str (er_id r))) (ordered_records rs))"
    by (simp add: ordered_records_def)
  then show "sorted (map er_transaction_date (ordered_records rs))"
    unfolding sorted_map by (rule sorted_wrt_mono_rel [rotated]) (auto simp: less_eq_prod_def)
qed (simp add: ordered_records_def)

lemma set_ordered_records [simp]: "set (ordered_records rs) = set rs"
  by (simp add: ordered_records_def)

lemma infix_of_length: "infix_of p s \<Longrightarrow> length p \<le> length s"
  by (induction s) (auto simp: starts_def dest: arg_cong [of _ _ length])

lemma hex_text_length [simp]: "length (hex_text k n) = k"
  by (induction k arbitrary: n) simp_all

lemma uuid_str_length: "length (uuid_str n) = 36"
  by (simp add: uuid_str_def Let_def)

subsection \<open>Properties\<close>

text \<open>
  C34. The bytes of a freee export are the UTF-8 encoding of exactly one text, and reading that text as CSV
  gives the header and then one row per record: the rows are those of the records in order of their date, and
  the voucher numbers count from one.
\<close>

theorem freee_export_reads_back:
  assumes "render_freee rs = Inr bytes"
  shows "\<exists>text rows. (\<forall>t. utf8_encode t = Some bytes \<longleftrightarrow> t = text)
    \<and> read_csv text = freee_header # rows
    \<and> mset (ordered_records rs) = mset rs \<and> sorted (map er_transaction_date (ordered_records rs))
    \<and> length rows = length rs
    \<and> (\<forall>i < length rs. freee_row (Suc i, ordered_records rs ! i) = Inr (rows ! i) \<and> rows ! i ! 2 = nat_str (Suc i))"
proof -
  from assms obtain rows where rows: "freee_rows rs = Inr rows"
    and body: "utf8_encode (csv_text (freee_header # rows)) = Some bytes"
    by (auto simp: render_freee_def res_simps split: option.splits)
  have "utf8_encode t = Some bytes \<longleftrightarrow> t = csv_text (freee_header # rows)" for t
    using body utf8_encode_inj by blast
  moreover have "rows ! i ! 2 = nat_str (Suc i)" if "i < length rs" for i
    using freee_rows_nth(2) [OF rows that] by (auto simp: freee_row_Inr)
  ultimately show ?thesis
    using freee_rows_nth [OF rows] ordered_records_props [of rs] read_csv_text [of "freee_header # rows"]
    by (intro exI [of _ "csv_text (freee_header # rows)"] exI [of _ rows]) auto
qed

text \<open>
  C17. Every row of either journal has the width of its format (33 columns for freee, 27 for Yayoi), its debit
  and its credit amount are the same whole number of yen, at least one, and no cell of it starts with a
  character that a spreadsheet evaluates, whatever the reviewed counterparty and category are.
\<close>

theorem journal_rows_balance_and_are_inert:
  assumes "\<forall>r \<in> set rs. 1 \<le> d_year (er_transaction_date r)"
    and "freee_rows rs = Inr freee" and "yayoi_rows rs = Inr yayoi" and "i < length rs"
  shows "\<exists>amount. 1 \<le> amount \<and> er_total_amount (ordered_records rs ! i) = Finite_Dec (of_int amount)
    \<and> list_all inert (freee ! i) \<and> length (freee ! i) = 33
    \<and> freee ! i ! 15 = int_str amount \<and> freee ! i ! 29 = int_str amount
    \<and> list_all inert (yayoi ! i) \<and> length (yayoi ! i) = 27
    \<and> yayoi ! i ! 8 = int_str amount \<and> yayoi ! i ! 14 = int_str amount"
proof -
  define r where "r = ordered_records rs ! i"
  have "r \<in> set rs" using assms(4) set_ordered_records [of rs] nth_mem [of i "ordered_records rs"]
    by (simp add: r_def ordered_records_def)
  with assms(1) have year: "1 \<le> d_year (er_transaction_date r)" by blast
  from freee_rows_nth(2) [OF assms(2,4)] have f: "freee_row (Suc i, r) = Inr (freee ! i)" by (simp add: r_def)
  from assms(3,4) have y: "yayoi_row r = Inr (yayoi ! i)"
    by (auto simp: r_def yayoi_rows_def rmap_Inr_iff ordered_records_def)
  from freee_row_shape [OF f year] yayoi_row_shape [OF y year] show ?thesis
    by (fold r_def) (force simp: format_yen_Inr)
qed


subsection \<open>When the encoding succeeds\<close>

lemma double_quotes_scalar: "list_all is_scalar (double_quotes s) \<longleftrightarrow> list_all is_scalar s"
  by (auto simp: double_quotes_def list_all_iff is_scalar_def is_surrogate_def split: if_splits)

lemma join_all: "list_all P sep \<Longrightarrow> list_all (list_all P) ps \<Longrightarrow> list_all P (join sep ps)"
  by (induction ps rule: induct_list012) simp_all

lemma split_ws_chars: "w \<in> set (split_ws s) \<Longrightarrow> set w \<subseteq> set s"
proof (induction s rule: split_ws.induct)
  case (2 c s)
  then show ?case
    by (fastforce simp: split_ws.simps(2) [of c] dest: set_takeWhileD set_dropWhileD split: if_splits)
qed simp

lemma safe_cell_scalar:
  assumes "list_all is_scalar s"
  shows "list_all is_scalar (safe_cell s)"
proof -
  have "list_all (list_all is_scalar) (split_ws s)"
    using assms split_ws_chars [of _ s] by (fastforce simp: list_all_iff)
  then have "list_all is_scalar (clean_spaces s)"
    unfolding clean_spaces_def by (intro join_all) (simp_all add: is_scalar_def is_surrogate_def)
  moreover have "is_scalar 39" by (simp add: is_scalar_def is_surrogate_def)
  ultimately show ?thesis by (auto simp: safe_cell_def Let_def split: list.split)
qed

lemma csv_scalar:
  assumes "list_all (list_all (list_all is_scalar)) rows"
  shows "ok (case utf8_encode (csv_text rows) of None \<Rightarrow> Inl e | Some bytes \<Rightarrow> Inr bytes)"
proof -
  have chars: "is_scalar 10" "is_scalar 13" "is_scalar 34" "is_scalar 44"
    by (simp_all add: is_scalar_def is_surrogate_def)
  have "list_all is_scalar (csv_row fs)" if "list_all (list_all is_scalar) fs" for fs
  proof -
    have "list_all (list_all is_scalar) (map csv_field fs)"
      using that by (auto simp: list_all_iff csv_field_def chars) (metis double_quotes_scalar list_all_iff)
    then show ?thesis using join_all [of is_scalar "[44]"] by (auto simp: csv_row_def chars)
  qed
  with assms have "list_all is_scalar (csv_text rows)" by (auto simp: csv_text_def list_all_iff)
  then show ?thesis by (simp add: utf8_encode_def)
qed

subsection \<open>A concrete export\<close>

definition demo_record :: export_record where
  "demo_record = \<lparr>er_id = 1, er_document_id = 2, er_transaction_date = Date 2026 7 13,
     er_total_amount = Finite_Dec 1200, er_counterparty = u ''=SUM(1)'', er_category = None,
     er_currency = Some (u ''JPY''), er_tax_8_amount = None, er_tax_10_amount = Some (Finite_Dec 109),
     er_source_filename = []\<rparr>"

lemma demo_journal_ok: "ok (freee_rows [demo_record])" "ok (yayoi_rows [demo_record])" "ok (yayoi_row demo_record)"
  by (simp_all add: freee_rows_def yayoi_rows_def ordered_records_def freee_row_def yayoi_row_def demo_record_def
      tax_treatment_def positive_tax_def format_yen_def)

lemma demo_render_ok: "ok (render_freee [demo_record])"
proof -
  obtain row where row: "freee_row (1, demo_record) = Inr row" and rows: "freee_rows [demo_record] = Inr [row]"
    using demo_journal_ok(1) by (auto simp: ok_iff freee_rows_def ordered_records_def res_simps)
  have "list_all (list_all is_scalar) row"
    using row by (auto simp: freee_row_Inr demo_record_def tax_treatment_def positive_tax_def format_yen_def
        detail_mark_def slash_date_def int_str_def nat_str.simps pad2_def account_for_category_def miscellaneous_def
        payable_account_def not_taxable_def tax_category_def summary_text_def uuid_str_scalar list_all_iff [of _ "replicate _ _"]
        blank_cells_def is_scalar_def [of "numeral _"] is_surrogate_def [of "numeral _"] py_simps
        intro!: safe_cell_scalar)
  moreover have "list_all (list_all is_scalar) freee_header"
    by (simp add: freee_header_def is_scalar_def is_surrogate_def)
  ultimately have "list_all (list_all (list_all is_scalar)) [freee_header, row]" by simp
  with rows show ?thesis by (simp add: render_freee_def csv_scalar)
qed

theorem freee_export_reads_back_witness:
  "\<exists>bytes body rows. render_freee [demo_record] = Inr bytes \<and> utf8_encode body = Some bytes
     \<and> read_csv body = freee_header # rows \<and> length rows = 1 \<and> rows ! 0 ! 2 = u ''1''"
proof -
  obtain bytes where "render_freee [demo_record] = Inr bytes" using demo_render_ok by (auto simp: ok_iff)
  moreover from freee_export_reads_back [OF this] obtain body rows where
    "utf8_encode body = Some bytes" "read_csv body = freee_header # rows" "length rows = 1" "rows ! 0 ! 2 = nat_str 1"
    by auto
  ultimately show ?thesis by (auto simp: nat_str.simps py_simps)
qed

theorem journal_rows_balance_and_are_inert_witness:
  "\<exists>freee yayoi. freee_rows [demo_record] = Inr freee \<and> yayoi_rows [demo_record] = Inr yayoi
     \<and> list_all inert (freee ! 0) \<and> list_all inert (yayoi ! 0) \<and> freee ! 0 ! 15 = freee ! 0 ! 29"
proof -
  obtain freee yayoi where rows: "freee_rows [demo_record] = Inr freee" "yayoi_rows [demo_record] = Inr yayoi"
    using demo_journal_ok(1,2) by (auto simp: ok_iff)
  with journal_rows_balance_and_are_inert [OF _ rows, of 0] show ?thesis by (auto simp: demo_record_def)
qed


text \<open>The audit history quotes every column that carries recorded text.\<close>

lemma audit_rows_are_inert: "list_all inert (drop 2 (audit_row e)) \<and> length (audit_row e) = length audit_header"
  by (simp add: audit_row_def audit_header_def inert_intros)

lemma audit_export_reads_back:
  assumes "render_audit_csv es = Inr bytes" "utf8_encode body = Some bytes"
  shows "read_csv body = audit_header # map audit_row es"
proof -
  from assms(1) have "utf8_encode (csv_text (audit_header # map audit_row es)) = Some bytes"
    by (auto simp: render_audit_csv_def split: option.splits)
  with assms(2) have "body = csv_text (audit_header # map audit_row es)" using utf8_encode_inj by blast
  then show ?thesis using read_csv_text by simp
qed

end
