(* ===== verification/Bill_Analysis.thy ===== *)
theory Bill_Analysis
  imports Py_Date Py_Num Py_Text Clerk_Models "HOL-Library.Product_Lexorder" "HOL-Library.List_Lexorder"
begin

text \<open>
  Comparisons, anomaly signals and reminders for recurring bills: the pure parts of
  \<^verbatim>\<open>src/clerksan/bills/analysis.py\<close> and \<^verbatim>\<open>src/clerksan/bills/reminders.py\<close>. Decimals are finite, as the
  validated models require, and every arithmetic operation rounds once to the decimal context; the absolute
  value of a rounded number is exact.
\<close>

subsection \<open>Bill series\<close>

record bill_point =
  bp_issuer_id :: nat
  bp_billing_period :: date
  bp_amount :: rat
  bp_consumption_value :: "rat option"
  bp_consumption_unit :: "pystr option"

record reference_delta =
  rd_reference :: string
  rd_reference_period :: date
  rd_missing_reference :: bool
  rd_amount_delta :: "rat option"
  rd_consumption_delta :: "rat option"
  rd_unit_price_delta :: "rat option"

record period_delta =
  pd_billing_period :: date
  pd_amount :: rat
  pd_consumption :: "rat option"
  pd_consumption_unit :: "pystr option"
  pd_unit_price :: "rat option"
  pd_month_over_month :: reference_delta
  pd_year_over_year :: reference_delta

datatype metric = M_Amount | M_Consumption | M_Unit_Price

record anomaly_flag =
  af_billing_period :: date
  af_metric :: metric
  af_value :: rat
  af_median :: rat
  af_mad :: rat
  af_robust_z :: "rat option"
  af_explanation :: pystr

definition empty_text :: "pystr option \<Rightarrow> bool" where
  "empty_text t \<longleftrightarrow> t = None \<or> t = Some []"

definition check_point :: "bill_point \<Rightarrow> unit res" where
  "check_point p =
     rbind (require (d_day (bp_billing_period p) = 1) (ValueError ''billing_period must be the first day of its month'')) (\<lambda>_.
     rbind (require (\<not> (bp_consumption_value p = None \<and> bp_consumption_unit p \<noteq> None))
              (ValueError ''consumption_unit requires consumption_value'')) (\<lambda>_.
     require (\<not> (bp_consumption_value p \<noteq> None \<and> empty_text (bp_consumption_unit p)))
       (ValueError ''consumption_value requires consumption_unit'')))"

definition ordered_unique_points :: "bill_point list \<Rightarrow> bill_point list res" where
  "ordered_unique_points points =
     (let ordered = sort_key bp_billing_period points in
      if \<not> distinct (map bp_billing_period ordered) then
        Inl (ValueError ''a bill series cannot contain duplicate billing periods'')
      else rbind (rmap check_point ordered) (\<lambda>_. Inr ordered))"

definition shift_month :: "date \<Rightarrow> int \<Rightarrow> date res" where
  "shift_month d months = (let month_index = d_year d * 12 + d_month d - 1 + months
     in mk_date (month_index div 12) (month_index mod 12 + 1) 1)"

definition same_consumption_unit :: "bill_point \<Rightarrow> bill_point \<Rightarrow> bool" where
  "same_consumption_unit l r \<longleftrightarrow> bp_consumption_value l \<noteq> None \<and> bp_consumption_value r \<noteq> None
     \<and> \<not> empty_text (bp_consumption_unit l) \<and> bp_consumption_unit l = bp_consumption_unit r"

definition unit_price :: "bill_point \<Rightarrow> rat option" where
  "unit_price p = (case bp_consumption_value p of None \<Rightarrow> None
     | Some c \<Rightarrow> if c = 0 then None else Some (dec_round (bp_amount p / c)))"

definition opt_minus :: "rat option \<Rightarrow> rat option \<Rightarrow> rat option" where
  "opt_minus a b = (case (a, b) of (Some x, Some y) \<Rightarrow> Some (dec_round (x - y)) | _ \<Rightarrow> None)"

definition reference_delta_of :: "bill_point \<Rightarrow> bill_point option \<Rightarrow> string \<Rightarrow> date \<Rightarrow> reference_delta" where
  "reference_delta_of p ref name expected =
     (case ref of
        None \<Rightarrow> \<lparr>rd_reference = name, rd_reference_period = expected, rd_missing_reference = True,
          rd_amount_delta = None, rd_consumption_delta = None, rd_unit_price_delta = None\<rparr>
      | Some r \<Rightarrow>
          let comparable = same_consumption_unit p r in
          \<lparr>rd_reference = name, rd_reference_period = expected, rd_missing_reference = False,
            rd_amount_delta = Some (dec_round (bp_amount p - bp_amount r)),
            rd_consumption_delta = (if comparable then opt_minus (bp_consumption_value p) (bp_consumption_value r) else None),
            rd_unit_price_delta = (if comparable then opt_minus (unit_price p) (unit_price r) else None)\<rparr>)"

definition point_of_period :: "bill_point list \<Rightarrow> date \<Rightarrow> bill_point option" where
  "point_of_period ordered d = map_of (rev (map (\<lambda>p. (bp_billing_period p, p)) ordered)) d"

definition period_delta_of :: "bill_point list \<Rightarrow> bill_point \<Rightarrow> period_delta res" where
  "period_delta_of ordered p =
     rbind (shift_month (bp_billing_period p) (- 1)) (\<lambda>prev.
     rbind (shift_month (bp_billing_period p) (- 12)) (\<lambda>year.
     Inr \<lparr>pd_billing_period = bp_billing_period p, pd_amount = bp_amount p, pd_consumption = bp_consumption_value p,
       pd_consumption_unit = bp_consumption_unit p, pd_unit_price = unit_price p,
       pd_month_over_month = reference_delta_of p (point_of_period ordered prev) ''previous_month'' prev,
       pd_year_over_year = reference_delta_of p (point_of_period ordered year) ''same_month_last_year'' year\<rparr>))"

text \<open>\<^verbatim>\<open>ordered[-months:]\<close> for \<open>months \<ge> 1\<close>.\<close>

definition last_items :: "nat \<Rightarrow> 'a list \<Rightarrow> 'a list" where
  "last_items n xs = drop (length xs - n) xs"

definition compare_points :: "bill_point list \<Rightarrow> int option \<Rightarrow> period_delta list res" where
  "compare_points points months =
     (if (case months of None \<Rightarrow> False | Some m \<Rightarrow> m < 1) then Inl (ValueError ''months must be greater than zero'')
      else rbind (ordered_unique_points points) (\<lambda>ordered.
        rmap (period_delta_of ordered) (case months of None \<Rightarrow> ordered | Some m \<Rightarrow> last_items (nat m) ordered)))"

subsection \<open>Anomaly signals\<close>

definition median :: "rat list \<Rightarrow> rat res" where
  "median vs =
     (if vs = [] then Inl (ValueError ''median requires at least one value'')
      else let ordered = sort vs; midpoint = length ordered div 2 in
        Inr (if odd (length ordered) then ordered ! midpoint
             else dec_round (dec_round (ordered ! (midpoint - 1) + ordered ! midpoint) / 2)))"

definition metric_label :: "metric \<Rightarrow> pystr option \<Rightarrow> pystr" where
  "metric_label m unit = (let suffix = (if empty_text unit then [] else u '' ('' @ the unit @ u '')'') in
     case m of M_Amount \<Rightarrow> u ''bill amount'' | M_Consumption \<Rightarrow> u ''consumption'' @ suffix
     | M_Unit_Price \<Rightarrow> u ''unit price'' @ suffix)"

definition explanation :: "metric \<Rightarrow> pystr option \<Rightarrow> bool \<Rightarrow> pystr" where
  "explanation m unit zero_variation = metric_label m unit @
     (if zero_variation then u '' differs from a six-or-more-period baseline with zero variation''
      else u '' exceeds the issuer'' @ [39] @ u ''s trailing median/MAD threshold'')"

definition metric_anomaly ::
    "date \<Rightarrow> metric \<Rightarrow> rat \<Rightarrow> rat list \<Rightarrow> rat \<Rightarrow> pystr option \<Rightarrow> anomaly_flag option res" where
  "metric_anomaly period m v history threshold unit =
     rbind (median history) (\<lambda>med.
     rbind (median (map (\<lambda>x. \<bar>dec_round (x - med)\<bar>) history)) (\<lambda>mad.
     let difference = \<bar>dec_round (v - med)\<bar> in
     if mad = 0 then
       (if difference = 0 then Inr None
        else Inr (Some \<lparr>af_billing_period = period, af_metric = m, af_value = v, af_median = med, af_mad = mad,
          af_robust_z = None, af_explanation = explanation m unit True\<rparr>))
     else let robust_z = dec_round (dec_round (6745 / 10000 * difference) / mad) in
       if robust_z \<le> threshold then Inr None
       else Inr (Some \<lparr>af_billing_period = period, af_metric = m, af_value = v, af_median = med, af_mad = mad,
          af_robust_z = Some robust_z, af_explanation = explanation m unit False\<rparr>)))"

definition point_anomaly :: "bill_point \<Rightarrow> bill_point list \<Rightarrow> rat \<Rightarrow> anomaly_flag option res" where
  "point_anomaly p history threshold =
     (let same = filter (same_consumption_unit p) history;
          consumptions = List.map_filter bp_consumption_value same;
          units = List.map_filter unit_price same;
          period = bp_billing_period p;
          amount_flag = metric_anomaly period M_Amount (bp_amount p) (map bp_amount history) threshold None in
      case bp_consumption_value p of
        Some c \<Rightarrow>
          if 6 \<le> length same then
            rbind (metric_anomaly period M_Consumption c consumptions threshold (bp_consumption_unit p)) (\<lambda>f.
            if f \<noteq> None then Inr f
            else case unit_price p of
              Some price \<Rightarrow>
                if 6 \<le> length units then
                  rbind (metric_anomaly period M_Unit_Price price units threshold (bp_consumption_unit p)) (\<lambda>g.
                  if g \<noteq> None then Inr g else amount_flag)
                else amount_flag
            | None \<Rightarrow> amount_flag)
          else amount_flag
      | None \<Rightarrow> amount_flag)"

text \<open>One pass over the ordered series with the points before the current one.\<close>

fun flag_loop :: "nat \<Rightarrow> rat \<Rightarrow> bill_point list \<Rightarrow> bill_point list \<Rightarrow> anomaly_flag list res" where
  "flag_loop window threshold past [] = Inr []"
| "flag_loop window threshold past (p # ps) =
     (let history = last_items window past in
      rbind (if length history < 6 then Inr None else point_anomaly p history threshold) (\<lambda>f.
      rbind (flag_loop window threshold (past @ [p]) ps) (\<lambda>fs.
      Inr (case f of None \<Rightarrow> fs | Some flag \<Rightarrow> flag # fs))))"

definition flag_anomalies_for_points :: "bill_point list \<Rightarrow> int \<Rightarrow> rat \<Rightarrow> anomaly_flag list res" where
  "flag_anomalies_for_points points window threshold =
     (if window < 6 then Inl (ValueError ''window must be at least six'')
      else if threshold \<le> 0 then Inl (ValueError ''robust_z_threshold must be greater than zero'')
      else rbind (ordered_unique_points points) (\<lambda>ordered. flag_loop (nat window) threshold [] ordered))"

end
