(* ===== verification/Recurring.thy ===== *)
theory Recurring
  imports Py_Date Py_Num Clerk_Models
begin

text \<open>
  Recurring-bill normalization, \<^verbatim>\<open>src/clerksan/extract/recurring.py\<close>. Parameters stand for Unicode
  normalization and case folding, the decimal digits of the regular expressions, \<^verbatim>\<open>date.fromisoformat\<close>,
  \<^verbatim>\<open>Decimal(str(value).replace(",", ""))\<close> and the schema validation of \<^verbatim>\<open>RecurringBillExtraction\<close>.
\<close>

record bill_extraction =
  be_issuer_name :: "pystr option"
  be_issuer_kind :: "pystr option"
  be_billing_period :: "pystr option"
  be_due_date :: "date option"
  be_consumption_value :: pyval
  be_consumption_unit :: "pystr option"

record recurring_env =
  re_nfkc :: "pystr \<Rightarrow> pystr"
  re_casefold :: "pystr \<Rightarrow> pystr"
  re_digit :: "nat \<Rightarrow> nat option"
  re_isodate :: "pystr \<Rightarrow> date option"
  re_decimal :: "pyval \<Rightarrow> decimal_value option"
  re_validate :: "(pystr, pyval) dict \<Rightarrow> bill_extraction option"

record normalized_bill =
  nb_issuer_name :: pystr
  nb_issuer_kind :: issuer_kind
  nb_billing_period :: date
  nb_due_date :: "date option"
  nb_consumption_value :: "decimal_value option"
  nb_consumption_unit :: "pystr option"

datatype date_input = DI_None | DI_Date date | DI_Datetime date | DI_Text pystr | DI_Other

definition bill_correction_fields :: "pystr list" where
  "bill_correction_fields = map u [''issuer_name'', ''issuer_kind'', ''billing_period'', ''due_date'',
     ''consumption_value'', ''consumption_unit'']"

definition bill_projection_correction_fields :: "pystr list" where
  "bill_projection_correction_fields = filter (\<lambda>f. f \<noteq> u ''due_date'') bill_correction_fields"

subsection \<open>Issuers\<close>

definition tepco :: pystr where "tepco = [26481, 20140, 38651, 21147]"
definition tokyo_gas :: pystr where "tokyo_gas = [26481, 20140, 12460, 12473]"

definition mentions :: "pystr list \<Rightarrow> pystr \<Rightarrow> bool" where
  "mentions terms folded \<longleftrightarrow> list_ex (\<lambda>t. infix_of t folded) terms"

definition normalize_issuer :: "recurring_env \<Rightarrow> pystr \<Rightarrow> (pystr \<times> issuer_kind) res" where
  "normalize_issuer env raw =
     (let clean = clean_spaces (re_nfkc env raw); folded = re_casefold env clean in
      if clean = [] then Inl (RecurringBillNormalizationError ''issuer_name is required'')
      else if mentions [tepco, u ''tepco''] folded then Inr (tepco, Electric)
      else if mentions [tokyo_gas, u ''tokyo gas''] folded then Inr (tokyo_gas, Gas)
      else if mentions [[38651, 21147], u ''electricity'', [38651, 27671]] folded then Inr (clean, Electric)
      else if mentions [[12460, 12473], u ''gas''] folded then Inr (clean, Gas)
      else if mentions [[27700, 36947], u ''water''] folded then Inr (clean, Water)
      else if mentions [[22269, 27665, 20581, 24247, 20445, 38522], [22269, 20445], u ''nhi''] folded then Inr (clean, Nhi)
      else if mentions [[31246], u ''tax'', [20303, 27665, 31246], [22266, 23450, 36039, 29987]] folded then Inr (clean, Tax)
      else Inr (clean, Other_Issuer))"

subsection \<open>Period and date labels\<close>

text \<open>Between \<open>lo\<close> and \<open>hi\<close> digits, as many as there are, with their value and the rest.\<close>

definition digit_run :: "recurring_env \<Rightarrow> nat \<Rightarrow> pystr \<Rightarrow> pystr" where
  "digit_run env hi s = take hi (takeWhile (\<lambda>c. re_digit env c \<noteq> None) s)"

definition match_digits :: "recurring_env \<Rightarrow> nat \<Rightarrow> nat \<Rightarrow> pystr \<Rightarrow> (int \<times> pystr) option" where
  "match_digits env lo hi s = (let ds = digit_run env hi s in
     if length ds < lo then None
     else Some (foldl (\<lambda>a c. 10 * a + int (the (re_digit env c))) 0 ds, drop (length ds) s))"

definition match_sep :: "nat list \<Rightarrow> pystr \<Rightarrow> pystr option" where
  "match_sep seps s = (case lstrip s of c # rest \<Rightarrow> if c \<in> set seps then Some (lstrip rest) else None | [] \<Rightarrow> None)"

definition opt_char :: "nat \<Rightarrow> pystr \<Rightarrow> pystr" where
  "opt_char c s = (case s of d # rest \<Rightarrow> if d = c then rest else s | [] \<Rightarrow> s)"

definition year_seps :: "nat list" where "year_seps = [24180, 45, 46, 47]"
definition month_seps :: "nat list" where "month_seps = [26376, 45, 46, 47]"

definition match_month_end :: "recurring_env \<Rightarrow> pystr \<Rightarrow> int option" where
  "match_month_end env s = (case match_digits env 1 2 s of None \<Rightarrow> None
     | Some (m, rest) \<Rightarrow> if opt_char 20998 (opt_char 26376 rest) = [] then Some m else None)"

definition gregorian_period :: "recurring_env \<Rightarrow> pystr \<Rightarrow> (int \<times> int) option" where
  "gregorian_period env s =
     Option.bind (match_digits env 4 4 s) (\<lambda>(y, r1).
     Option.bind (match_sep year_seps r1) (\<lambda>r2.
     Option.bind (match_month_end env r2) (\<lambda>m. Some (y, m))))"

definition reiwa_prefix :: "pystr \<Rightarrow> pystr option" where
  "reiwa_prefix s = (if starts [20196, 21644] s then Some (lstrip (drop 2 s))
     else case s of c # rest \<Rightarrow> if c = 82 \<or> c = 114 then Some (lstrip rest) else None | [] \<Rightarrow> None)"

definition reiwa_period :: "recurring_env \<Rightarrow> pystr \<Rightarrow> (int \<times> int) option" where
  "reiwa_period env s =
     Option.bind (reiwa_prefix s) (\<lambda>r0.
     Option.bind (match_digits env 1 2 r0) (\<lambda>(y, r1).
     Option.bind (match_sep year_seps r1) (\<lambda>r2.
     Option.bind (match_month_end env r2) (\<lambda>m. Some (y, m)))))"

definition match_day_end :: "recurring_env \<Rightarrow> pystr \<Rightarrow> int option" where
  "match_day_end env s = (case match_digits env 1 2 s of None \<Rightarrow> None
     | Some (d, rest) \<Rightarrow> if opt_char 26085 rest = [] then Some d else None)"

definition gregorian_date :: "recurring_env \<Rightarrow> pystr \<Rightarrow> (int \<times> int \<times> int) option" where
  "gregorian_date env s =
     Option.bind (match_digits env 4 4 s) (\<lambda>(y, r1).
     Option.bind (match_sep year_seps r1) (\<lambda>r2.
     Option.bind (match_digits env 1 2 r2) (\<lambda>(m, r3).
     Option.bind (match_sep month_seps r3) (\<lambda>r4.
     Option.bind (match_day_end env r4) (\<lambda>d. Some (y, m, d))))))"

text \<open>The Reiwa pattern allows no space between the month and its separator.\<close>

definition match_tight_sep :: "nat list \<Rightarrow> pystr \<Rightarrow> pystr option" where
  "match_tight_sep seps s = (case s of c # rest \<Rightarrow> if c \<in> set seps then Some (lstrip rest) else None | [] \<Rightarrow> None)"

definition reiwa_date :: "recurring_env \<Rightarrow> pystr \<Rightarrow> (int \<times> int \<times> int) option" where
  "reiwa_date env s =
     Option.bind (reiwa_prefix s) (\<lambda>r0.
     Option.bind (match_digits env 1 2 r0) (\<lambda>(y, r1).
     Option.bind (match_sep year_seps r1) (\<lambda>r2.
     Option.bind (match_digits env 1 2 r2) (\<lambda>(m, r3).
     Option.bind (match_tight_sep month_seps r3) (\<lambda>r4.
     Option.bind (match_day_end env r4) (\<lambda>d. Some (y, m, d)))))))"

definition reiwa_year :: "int \<Rightarrow> int res" where
  "reiwa_year y = (if y < 1 then Inl (RecurringBillNormalizationError ''Reiwa year must be positive'') else Inr (2018 + y))"

definition bill_date :: "int \<Rightarrow> int \<Rightarrow> int \<Rightarrow> date res" where
  "bill_date y m d = (case mk_date y m d of Inr x \<Rightarrow> Inr x | Inl e \<Rightarrow> Inl (RecurringBillNormalizationError ''invalid date''))"

definition first_of_month :: "int \<Rightarrow> int \<Rightarrow> date res" where
  "first_of_month y m = bill_date y m 1"

definition normalize_billing_period :: "recurring_env \<Rightarrow> date_input \<Rightarrow> date res" where
  "normalize_billing_period env v = (case v of
     DI_Datetime d \<Rightarrow> mk_date (d_year d) (d_month d) 1
   | DI_Date d \<Rightarrow> mk_date (d_year d) (d_month d) 1
   | DI_Text s \<Rightarrow>
       (let raw = strip (re_nfkc env s) in
        case re_isodate env raw of Some d \<Rightarrow> mk_date (d_year d) (d_month d) 1
        | None \<Rightarrow>
       (case gregorian_period env raw of Some (y, m) \<Rightarrow> first_of_month y m
        | None \<Rightarrow>
       (case reiwa_period env raw of Some (y, m) \<Rightarrow> rbind (reiwa_year y) (\<lambda>y'. first_of_month y' m)
        | None \<Rightarrow> Inl (RecurringBillNormalizationError ''unsupported billing_period''))))
   | _ \<Rightarrow> Inl (RecurringBillNormalizationError ''billing_period is required''))"

definition normalize_due_date :: "recurring_env \<Rightarrow> date_input \<Rightarrow> date option res" where
  "normalize_due_date env v = (case v of
     DI_None \<Rightarrow> Inr None
   | DI_Datetime d \<Rightarrow> Inr (Some d)
   | DI_Date d \<Rightarrow> Inr (Some d)
   | DI_Other \<Rightarrow> Inl (RecurringBillNormalizationError ''due_date must be a date or null'')
   | DI_Text s \<Rightarrow>
       (let raw = strip (re_nfkc env s) in
        if raw = [] then Inr None
        else case re_isodate env raw of Some d \<Rightarrow> Inr (Some d)
        | None \<Rightarrow>
       (case gregorian_date env raw of Some (y, m, d) \<Rightarrow> rbind (bill_date y m d) (\<lambda>x. Inr (Some x))
        | None \<Rightarrow>
       (case reiwa_date env raw of
          Some (y, m, d) \<Rightarrow> rbind (reiwa_year y) (\<lambda>y'. rbind (bill_date y' m d) (\<lambda>x. Inr (Some x)))
        | None \<Rightarrow> Inl (RecurringBillNormalizationError ''unsupported due_date'')))))"

subsection \<open>The payload\<close>

definition required_text :: "pystr option \<Rightarrow> pystr res" where
  "required_text v = (case v of Some s \<Rightarrow> if strip s = [] then Inl (RecurringBillNormalizationError ''is required'') else Inr (strip s)
     | None \<Rightarrow> Inl (RecurringBillNormalizationError ''is required''))"

definition unit_aliases :: "(pystr \<times> pystr) list" where
  "unit_aliases = [(u ''kwh'', u ''kWh''), (u ''kw/h'', u ''kWh''), (u ''m3'', [109, 179]), (u ''m^3'', [109, 179])]"

definition normalize_consumption ::
    "recurring_env \<Rightarrow> pyval \<Rightarrow> pystr option \<Rightarrow> (decimal_value option \<times> pystr option) res" where
  "normalize_consumption env v unit = (case v of
     PNone \<Rightarrow> if unit = None \<or> unit = Some [] then Inr (None, None)
       else Inl (RecurringBillNormalizationError ''consumption_unit requires consumption_value'')
   | PBool b \<Rightarrow> Inl (RecurringBillNormalizationError ''consumption_value must be numeric'')
   | _ \<Rightarrow> (case re_decimal env v of
       None \<Rightarrow> Inl (RecurringBillNormalizationError ''consumption_value must be numeric'')
     | Some d \<Rightarrow> rbind (dv_less (Finite_Dec 0) d) (\<lambda>positive.
         if \<not> positive then Inl (RecurringBillNormalizationError ''consumption_value must be greater than zero'')
         else case unit of
           None \<Rightarrow> Inl (RecurringBillNormalizationError ''consumption_value requires consumption_unit'')
         | Some s \<Rightarrow> if strip s = [] then Inl (RecurringBillNormalizationError ''consumption_value requires consumption_unit'')
             else let normalized = strip (re_nfkc env s) in
               Inr (Some d, Some (case map_of unit_aliases (re_casefold env normalized) of Some a \<Rightarrow> a | None \<Rightarrow> normalized)))))"

definition corrected_field :: "pyval option \<Rightarrow> pyval \<Rightarrow> pyval" where
  "corrected_field existing v =
     (let confidence = (case existing of Some (PDict d) \<Rightarrow> (case dict_get d (u ''confidence'') of Some c \<Rightarrow> c | None \<Rightarrow> PFloat 1)
        | _ \<Rightarrow> PFloat 1)
      in PDict [(u ''value'', v), (u ''confidence'', confidence), (u ''source_span'', PStr (u ''review correction''))])"

definition project_corrections :: "(pystr, pyval) dict \<Rightarrow> (pystr, pyval) dict \<Rightarrow> (pystr, pyval) dict" where
  "project_corrections payload corrections =
     foldl (\<lambda>p (f, v). if f \<in> set bill_correction_fields then dict_set f (corrected_field (dict_get p f) v) p else p)
       payload corrections"

definition date_input_of :: "pyval \<Rightarrow> date_input" where
  "date_input_of v = (case v of PNone \<Rightarrow> DI_None | PStr s \<Rightarrow> DI_Text s | _ \<Rightarrow> DI_Other)"

definition project_due_date :: "recurring_env \<Rightarrow> (pystr, pyval) dict \<Rightarrow> (pystr, pyval) dict res" where
  "project_due_date env p = (case dict_get p (u ''due_date'') of
     Some (PDict d) \<Rightarrow>
       (case dict_get d (u ''value'') of
          Some v \<Rightarrow> if v = PNone then Inr p
            else rbind (normalize_due_date env (date_input_of v)) (\<lambda>due.
              Inr (dict_set (u ''due_date'') (PDict (dict_set (u ''value'')
                (case due of Some x \<Rightarrow> PStr (isoformat x) | None \<Rightarrow> PNone) d)) p))
        | None \<Rightarrow> Inr p)
   | _ \<Rightarrow> Inr p)"

definition chosen_kind :: "pystr option \<Rightarrow> issuer_kind \<Rightarrow> issuer_kind res" where
  "chosen_kind raw inferred = rbind
     (case raw of None \<Rightarrow> Inr inferred
      | Some s \<Rightarrow> if s = [] then Inr inferred else
          (case issuer_kind_of s of Some k \<Rightarrow> Inr k
           | None \<Rightarrow> Inl (RecurringBillNormalizationError ''unsupported issuer_kind'')))
     (\<lambda>k. Inr (if k = Other_Issuer then inferred else k))"

definition normalize_recurring_bill_payload ::
    "recurring_env \<Rightarrow> (pystr, pyval) dict \<Rightarrow> (pystr, pyval) dict \<Rightarrow> normalized_bill res" where
  "normalize_recurring_bill_payload env payload corrections =
     rbind (project_due_date env (project_corrections payload corrections)) (\<lambda>projected.
     case re_validate env projected of
       None \<Rightarrow> Inl (RecurringBillNormalizationError ''recurring-bill payload is invalid'')
     | Some x \<Rightarrow>
         rbind (required_text (be_issuer_name x)) (\<lambda>raw.
         rbind (normalize_issuer env raw) (\<lambda>(canonical, inferred).
         rbind (chosen_kind (be_issuer_kind x) inferred) (\<lambda>kind.
         rbind (normalize_consumption env (be_consumption_value x) (be_consumption_unit x)) (\<lambda>(c, unit).
         rbind (required_text (be_billing_period x)) (\<lambda>label.
         rbind (normalize_billing_period env (DI_Text label)) (\<lambda>period.
         rbind (normalize_due_date env (case be_due_date x of None \<Rightarrow> DI_None | Some d \<Rightarrow> DI_Date d)) (\<lambda>due.
         Inr \<lparr>nb_issuer_name = canonical, nb_issuer_kind = kind, nb_billing_period = period, nb_due_date = due,
              nb_consumption_value = c, nb_consumption_unit = unit\<rparr>))))))))"

end
