(* ===== verification/Bill_Service.thy ===== *)
theory Bill_Service
  imports Bill_Analysis Recurring Review_Lifecycle "HOL-Library.Option_ord"
begin

text \<open>
  Recurring bills over the reviewed records: \<^verbatim>\<open>src/clerksan/bills/service.py\<close>, the queries of
  \<^verbatim>\<open>bills/analysis.py\<close> and \<^verbatim>\<open>bills/reminders.py\<close>. The tables are those of the review lifecycle with issuers
  and bills beside them; an exception leaves them unchanged. The parameters of \<open>bill_env\<close> are
  \<^verbatim>\<open>Decimal(str(value))\<close> and the check constraint on the stored amount.
\<close>

subsection \<open>Tables\<close>

record issuer =
  is_id :: nat
  is_name :: pystr
  is_kind :: issuer_kind

record bill =
  rb_id :: nat
  rb_issuer_id :: nat
  rb_document_id :: nat
  rb_verified_record_id :: nat
  rb_billing_period :: date
  rb_amount :: decimal_value
  rb_due_date :: "date option"
  rb_payment_status :: payment_status
  rb_consumption_value :: "decimal_value option"
  rb_consumption_unit :: "pystr option"
  rb_paid_at :: "int option"
  rb_reviewer :: "pystr option"
  rb_review_corrections :: "(pystr, pyval) dict"
  rb_superseded_at :: "int option"

record billdb =
  bd_review :: reviewdb
  bd_issuers :: "issuer list"
  bd_bills :: "bill list"

record bill_env =
  bl_decimal :: "pystr \<Rightarrow> decimal_value option"
  bl_amount_ok :: "decimal_value \<Rightarrow> bool"

datatype consumption_arg = No_Consumption | Bool_Consumption | Decimal_Consumption decimal_value | Text_Consumption pystr

record bill_args =
  ba_verified_record_id :: nat
  ba_issuer_name :: pystr
  ba_issuer_kind :: pystr
  ba_billing_period :: date
  ba_due_date :: "date option"
  ba_consumption_value :: consumption_arg
  ba_consumption_unit :: "pystr option"
  ba_reviewer :: "pystr option"
  ba_review_corrections :: "(pystr, pyval) dict"

subsection \<open>Recording a verified bill\<close>

definition checked_consumption :: "bill_env \<Rightarrow> consumption_arg \<Rightarrow> pystr option \<Rightarrow> decimal_value option res" where
  "checked_consumption env c unit =
     (if c = No_Consumption then
        (if unit \<noteq> None then Inl (BillValidationError ''consumption_unit requires consumption_value'') else Inr None)
      else rbind (case c of
          Decimal_Consumption d \<Rightarrow> Inr d
        | Text_Consumption s \<Rightarrow> (case bl_decimal env s of Some d \<Rightarrow> Inr d
            | None \<Rightarrow> Inl (BillValidationError ''consumption_value must be a number''))
        | _ \<Rightarrow> Inl (BillValidationError ''consumption_value must be a number'')) (\<lambda>d.
      rbind (dv_less (Finite_Dec 0) d) (\<lambda>positive.
      if \<not> positive then Inl (BillValidationError ''consumption_value must be greater than zero'')
      else if empty_text unit \<or> strip (the unit) = [] then
        Inl (BillValidationError ''consumption_value requires consumption_unit'')
      else Inr (Some d))))"

definition find_verified :: "nat \<Rightarrow> billdb \<Rightarrow> verified option" where
  "find_verified i db = find (\<lambda>v. v_id v = i) (verifieds (bd_review db))"

definition bill_of_verified :: "nat \<Rightarrow> billdb \<Rightarrow> bill option" where
  "bill_of_verified i db = find (\<lambda>b. rb_verified_record_id b = i) (bd_bills db)"

definition period_owner :: "nat \<Rightarrow> date \<Rightarrow> billdb \<Rightarrow> bill option" where
  "period_owner i period db = find (\<lambda>b. rb_issuer_id b = i \<and> rb_billing_period b = period \<and> rb_superseded_at b = None) (bd_bills db)"

definition owner_status :: "bill \<Rightarrow> billdb \<Rightarrow> extraction_status option" where
  "owner_status b db = (case find_verified (rb_verified_record_id b) db of None \<Rightarrow> None
     | Some v \<Rightarrow> map_option x_status (find (\<lambda>x. x_id x = v_extracted_id v \<and> x_document_id x = v_document_id v)
         (extractions (bd_review db))))"

definition get_issuer :: "pystr \<Rightarrow> issuer_kind \<Rightarrow> nat \<Rightarrow> billdb \<Rightarrow> (issuer \<times> billdb) res" where
  "get_issuer name kind new_id db = (case find (\<lambda>i. is_name i = name) (bd_issuers db) of
     None \<Rightarrow> if \<exists>i \<in> set (bd_issuers db). is_id i = new_id then Inl IntegrityError
       else let i = \<lparr>is_id = new_id, is_name = name, is_kind = kind\<rparr> in Inr (i, db\<lparr>bd_issuers := bd_issuers db @ [i]\<rparr>)
   | Some i \<Rightarrow> if is_kind i \<noteq> kind then Inl (BillValidationError ''issuer is already classified'') else Inr (i, db))"

definition update_bills :: "(bill \<Rightarrow> bool) \<Rightarrow> (bill \<Rightarrow> bill) \<Rightarrow> billdb \<Rightarrow> billdb" where
  "update_bills P f db = db\<lparr>bd_bills := map (\<lambda>b. if P b then f b else b) (bd_bills db)\<rparr>"

definition release_period :: "issuer \<Rightarrow> date \<Rightarrow> nat \<Rightarrow> int \<Rightarrow> billdb \<Rightarrow> billdb res" where
  "release_period i period doc now db = (case period_owner (is_id i) period db of
     None \<Rightarrow> Inr db
   | Some b \<Rightarrow> if rb_document_id b = doc \<and> owner_status b db = Some Superseded
       then Inr (update_bills (\<lambda>r. rb_id r = rb_id b) (\<lambda>r. r\<lparr>rb_superseded_at := Some now\<rparr>) db)
       else Inl BillConflictError)"

definition insert_bill :: "bill_env \<Rightarrow> bill \<Rightarrow> billdb \<Rightarrow> billdb res" where
  "insert_bill env b db =
     (if \<not> bl_amount_ok env (rb_amount b)
        \<or> (\<exists>r \<in> set (bd_bills db). rb_id r = rb_id b \<or> rb_verified_record_id r = rb_verified_record_id b
          \<or> (rb_superseded_at r = None \<and> rb_superseded_at b = None
             \<and> rb_issuer_id r = rb_issuer_id b \<and> rb_billing_period r = rb_billing_period b))
      then Inl IntegrityError else Inr (db\<lparr>bd_bills := bd_bills db @ [b]\<rparr>))"

definition record_verified_bill :: "bill_env \<Rightarrow> bill_args \<Rightarrow> nat \<Rightarrow> nat \<Rightarrow> int \<Rightarrow> billdb \<Rightarrow> (bill \<times> billdb) res" where
  "record_verified_bill env a new_id new_issuer now db =
     (let clean_name = strip (ba_issuer_name a) in
      rbind (require (clean_name \<noteq> []) (BillValidationError ''issuer_name must not be empty'')) (\<lambda>_.
      rbind (require (d_day (ba_billing_period a) = 1) (BillValidationError ''billing_period must be the first day of its month'')) (\<lambda>_.
      rbind (checked_consumption env (ba_consumption_value a) (ba_consumption_unit a)) (\<lambda>consumption.
      case issuer_kind_of (ba_issuer_kind a) of
        None \<Rightarrow> Inl (BillValidationError ''unsupported issuer_kind'')
      | Some kind \<Rightarrow>
      (case find_verified (ba_verified_record_id a) db of
        None \<Rightarrow> Inl (BillValidationError ''verified_record_id does not refer to a verified record'')
      | Some v \<Rightarrow>
      (case bill_of_verified (ba_verified_record_id a) db of
        Some existing \<Rightarrow> Inr (existing, db)
      | None \<Rightarrow>
      rbind (require (fst ` set (ba_review_corrections a) \<subseteq> set bill_correction_fields)
        (BillValidationError ''unsupported recurring-bill correction fields'')) (\<lambda>_.
      let cleaned_reviewer = map_option strip (ba_reviewer a) in
      rbind (require (cleaned_reviewer \<noteq> Some []) (BillValidationError ''reviewer must not be empty'')) (\<lambda>_.
      rbind (get_issuer clean_name kind new_issuer db) (\<lambda>(i, db1).
      rbind (release_period i (ba_billing_period a) (v_document_id v) now db1) (\<lambda>db2.
      let b = \<lparr>rb_id = new_id, rb_issuer_id = is_id i, rb_document_id = v_document_id v,
            rb_verified_record_id = v_id v, rb_billing_period = ba_billing_period a,
            rb_amount = vv_total_amount (v_values v), rb_due_date = ba_due_date a, rb_payment_status = Unpaid,
            rb_consumption_value = consumption,
            rb_consumption_unit = (if empty_text (ba_consumption_unit a) then None else map_option strip (ba_consumption_unit a)),
            rb_paid_at = None, rb_reviewer = cleaned_reviewer, rb_review_corrections = ba_review_corrections a,
            rb_superseded_at = None\<rparr> in
      rbind (insert_bill env b db2) (\<lambda>db3. Inr (b, db3))))))))))))"

subsection \<open>Queries\<close>

definition authoritative_bill :: "billdb \<Rightarrow> bill \<Rightarrow> bool" where
  "authoritative_bill db b \<longleftrightarrow> rb_superseded_at b = None
     \<and> list_ex (\<lambda>v. v_id v = rb_verified_record_id b) (active_verified (bd_review db))"

definition bill_rows :: "billdb \<Rightarrow> (bill \<times> issuer) list" where
  "bill_rows db = concat (map (\<lambda>b. map (Pair b) (filter (\<lambda>i. is_id i = rb_issuer_id b) (bd_issuers db)))
     (filter (authoritative_bill db) (bd_bills db)))"

record bill_view =
  bv_id :: nat
  bv_issuer_id :: nat
  bv_issuer :: pystr
  bv_issuer_kind :: issuer_kind
  bv_billing_period :: date
  bv_amount :: decimal_value
  bv_due_date :: "date option"
  bv_payment_status :: payment_status
  bv_consumption_value :: "decimal_value option"
  bv_consumption_unit :: "pystr option"

definition bill_view_of :: "bill \<times> issuer \<Rightarrow> bill_view" where
  "bill_view_of bi = (case bi of (b, i) \<Rightarrow> \<lparr>bv_id = rb_id b, bv_issuer_id = rb_issuer_id b, bv_issuer = is_name i,
     bv_issuer_kind = is_kind i, bv_billing_period = rb_billing_period b, bv_amount = rb_amount b,
     bv_due_date = rb_due_date b, bv_payment_status = rb_payment_status b,
     bv_consumption_value = rb_consumption_value b, bv_consumption_unit = rb_consumption_unit b\<rparr>)"

definition list_bills :: "billdb \<Rightarrow> nat option \<Rightarrow> bill_view list" where
  "list_bills db issuer_id = map bill_view_of (rev (sort_key (\<lambda>(b, i). (rb_billing_period b, rb_id b))
     (filter (\<lambda>(b, i). issuer_id = None \<or> issuer_id = Some (rb_issuer_id b)) (bill_rows db))))"

definition positive_decimal :: "decimal_value \<Rightarrow> rat res" where
  "positive_decimal d = (case d of Finite_Dec q \<Rightarrow> if 0 < q then Inr q else Inl (ValueError ''greater_than'')
     | _ \<Rightarrow> Inl (ValueError ''finite_number''))"

definition bill_point_of :: "bill \<Rightarrow> bill_point res" where
  "bill_point_of b = rbind (positive_decimal (rb_amount b)) (\<lambda>amount.
     rbind (case rb_consumption_value b of None \<Rightarrow> Inr None | Some c \<Rightarrow> rbind (positive_decimal c) (\<lambda>q. Inr (Some q))) (\<lambda>c.
     Inr \<lparr>bp_issuer_id = rb_issuer_id b, bp_billing_period = rb_billing_period b, bp_amount = amount,
       bp_consumption_value = c, bp_consumption_unit = rb_consumption_unit b\<rparr>))"

definition issuer_points :: "billdb \<Rightarrow> nat \<Rightarrow> bill_point list res" where
  "issuer_points db issuer_id = rmap bill_point_of (sort_key (\<lambda>b. (rb_billing_period b, rb_id b))
     (filter (\<lambda>b. rb_issuer_id b = issuer_id \<and> authoritative_bill db b) (bd_bills db)))"

definition compare_periods :: "billdb \<Rightarrow> nat \<Rightarrow> int \<Rightarrow> period_delta list res" where
  "compare_periods db issuer_id months = rbind (issuer_points db issuer_id) (\<lambda>ps. compare_points ps (Some months))"

definition flag_anomalies :: "billdb \<Rightarrow> nat \<Rightarrow> int \<Rightarrow> rat \<Rightarrow> anomaly_flag list res" where
  "flag_anomalies db issuer_id window threshold =
     rbind (issuer_points db issuer_id) (\<lambda>ps. flag_anomalies_for_points ps window threshold)"

subsection \<open>Reminders\<close>

datatype reminder_bucket = Upcoming | Overdue_Bucket

record reminder_item =
  ri_id :: nat
  ri_issuer_id :: nat
  ri_issuer :: pystr
  ri_issuer_kind :: issuer_kind
  ri_billing_period :: date
  ri_amount :: decimal_value
  ri_due_date :: date
  ri_days_left :: int
  ri_payment_status :: payment_status

text \<open>\<^verbatim>\<open>as_of + timedelta(days=days)\<close> as a day number.\<close>

definition add_days :: "date \<Rightarrow> int \<Rightarrow> int res" where
  "add_days d days = (if max_ordinal < toordinal d + days then Inl (OverflowError ''date value out of range'')
     else Inr (toordinal d + days))"

definition bucket_of :: "date \<Rightarrow> int \<Rightarrow> bill_view \<Rightarrow> (reminder_bucket \<times> reminder_item) option" where
  "bucket_of as_of last_day b = (case bv_due_date b of None \<Rightarrow> None
     | Some due \<Rightarrow> if bv_payment_status b = Paid then None
       else let item = (\<lambda>status. \<lparr>ri_id = bv_id b, ri_issuer_id = bv_issuer_id b, ri_issuer = bv_issuer b,
              ri_issuer_kind = bv_issuer_kind b, ri_billing_period = bv_billing_period b, ri_amount = bv_amount b,
              ri_due_date = due, ri_days_left = toordinal due - toordinal as_of, ri_payment_status = status\<rparr>) in
         if due < as_of then Some (Overdue_Bucket, item Overdue)
         else if toordinal due \<le> last_day then Some (Upcoming, item Unpaid)
         else None)"

definition bucket_items :: "reminder_bucket \<Rightarrow> date \<Rightarrow> int \<Rightarrow> bill_view list \<Rightarrow> reminder_item list" where
  "bucket_items k as_of last_day bills = sort_key (\<lambda>i. (ri_due_date i, ri_issuer i, uuid_str (ri_id i)))
     (map snd (filter (\<lambda>x. fst x = k) (List.map_filter (bucket_of as_of last_day) bills)))"

definition bucket_reminders :: "bill_view list \<Rightarrow> date \<Rightarrow> int \<Rightarrow> (reminder_item list \<times> reminder_item list) res" where
  "bucket_reminders bills as_of days_ahead =
     (if days_ahead < 0 then Inl (ValueError ''days_ahead must not be negative'')
      else rbind (add_days as_of days_ahead) (\<lambda>last_day.
        Inr (bucket_items Upcoming as_of last_day bills, bucket_items Overdue_Bucket as_of last_day bills)))"

definition list_reminders :: "billdb \<Rightarrow> int \<Rightarrow> date \<Rightarrow> (reminder_item list \<times> reminder_item list) res" where
  "list_reminders db days_ahead current_date =
     (if days_ahead < 0 then Inl (ValueError ''days_ahead must not be negative'')
      else rbind (add_days current_date days_ahead) (\<lambda>last_day.
        let rows = sort_key (\<lambda>(b, i). (rb_due_date b, is_name i, rb_id b))
              (filter (\<lambda>(b, i). rb_payment_status b \<noteq> Paid
                 \<and> (case rb_due_date b of None \<Rightarrow> False | Some due \<Rightarrow> toordinal due \<le> last_day)) (bill_rows db))
        in bucket_reminders (map bill_view_of rows) current_date days_ahead))"

subsection \<open>Payment\<close>

definition mark_paid :: "nat \<Rightarrow> pystr \<Rightarrow> (int \<times> bool) option \<Rightarrow> int \<Rightarrow> billdb \<Rightarrow> (bill \<times> billdb) res" where
  "mark_paid bill_id actor paid_at now db =
     (let (completed_at, aware) = (case paid_at of None \<Rightarrow> (now, True) | Some p \<Rightarrow> p);
          cleaned_actor = strip actor;
          hit = (\<lambda>r. rb_id r = bill_id) in
      rbind (require aware (ValueError ''paid_at must include a timezone'')) (\<lambda>_.
      rbind (require (cleaned_actor \<noteq> []) (ValueError ''actor must not be empty'')) (\<lambda>_.
      case find (\<lambda>b. hit b \<and> authoritative_bill db b) (bd_bills db) of
        None \<Rightarrow> Inl BillNotFoundError
      | Some b \<Rightarrow>
          if rb_payment_status b = Paid then
            (if rb_paid_at b = None then
               let f = (\<lambda>r. r\<lparr>rb_paid_at := Some completed_at, rb_reviewer := Some cleaned_actor\<rparr>)
               in Inr (f b, update_bills hit f db)
             else Inr (b, db))
          else let f = (\<lambda>r. r\<lparr>rb_payment_status := Paid, rb_paid_at := Some completed_at, rb_reviewer := Some cleaned_actor\<rparr>)
            in Inr (f b, update_bills hit f db))))"

end
