(* ===== verification/Bill_Props.thy ===== *)
theory Bill_Props
  imports Bill_Service Review_Props "HOL-Library.Multiset"
begin

text \<open>
  Properties of recurring bills: the tables stay well formed over every interleaving of reviews, recordings and
  payments, recording and paying are safe to retry, anomaly signals look only backwards, and the reminders are
  exactly the unpaid bills in range.
\<close>

subsection \<open>Series\<close>

lemma ordered_unique_points_Inr:
  "ordered_unique_points ps = Inr qs \<longleftrightarrow> qs = sort_key bp_billing_period ps \<and> distinct (map bp_billing_period ps)
     \<and> (\<forall>p \<in> set ps. check_point p = Inr ())"
proof -
  have sorted_distinct: "distinct (map bp_billing_period (sort_key bp_billing_period ps))
      \<longleftrightarrow> distinct (map bp_billing_period ps)"
    by (metis mset_eq_imp_distinct_iff mset_map mset_sort)
  have "(\<exists>us. rmap check_point xs = Inr us) \<longleftrightarrow> (\<forall>p \<in> set xs. check_point p = Inr ())" for xs
    by (induction xs) (auto simp: res_simps)
  from this [of "sort_key bp_billing_period ps"] sorted_distinct show ?thesis
    by (auto simp: ordered_unique_points_def Let_def res_simps)
qed

lemma sort_key_snoc_max:
  fixes f :: "'a \<Rightarrow> 'b :: linorder"
  assumes "\<forall>x \<in> set xs. f x < f p"
  shows "sort_key f (xs @ [p]) = sort_key f xs @ [p]"
proof (rule properties_for_sort_key)
  have same: "sorted (map f (filter (\<lambda>x. f k = f x) ys))" for k ys by (induction ys) auto
  show "mset (sort_key f xs @ [p]) = mset (xs @ [p])" by simp
  show "sorted (map f (sort_key f xs @ [p]))" using assms by (auto simp: sorted_append intro: less_imp_le)
  fix k
  assume "k \<in> set (sort_key f xs @ [p])"
  show "filter (\<lambda>x. f k = f x) (sort_key f xs @ [p]) = filter (\<lambda>x. f k = f x) (xs @ [p])"
    using sort_key_id_if_sorted [of f "filter (\<lambda>x. f k = f x) xs"] by (simp add: filter_sort same)
qed

subsection \<open>Signals look only backwards\<close>

lemma median_total: "vs \<noteq> [] \<Longrightarrow> \<exists>m. median vs = Inr m"
  by (simp add: median_def Let_def)

lemma metric_anomaly_total:
  assumes "history \<noteq> []"
  shows "\<exists>r. metric_anomaly period m v history t unit = Inr r
    \<and> (\<forall>f. r = Some f \<longrightarrow> af_billing_period f = period)"
proof -
  obtain med where med: "median history = Inr med" using median_total [OF assms] by blast
  obtain mad where "median (map (\<lambda>x. \<bar>dec_round (x - med)\<bar>) history) = Inr mad" using median_total assms by blast
  with med show ?thesis by (auto simp: metric_anomaly_def Let_def)
qed

lemma map_filter_total: "\<forall>x \<in> set xs. f x \<noteq> None \<Longrightarrow> length (List.map_filter f xs) = length xs"
  by (induction xs) (auto simp: List.map_filter_def)

lemma point_anomaly_total:
  assumes "history \<noteq> []"
  shows "\<exists>r. point_anomaly p history t = Inr r \<and> (\<forall>f. r = Some f \<longrightarrow> af_billing_period f = bp_billing_period p)"
proof -
  let ?same = "filter (same_consumption_unit p) history"
  have n: "length (List.map_filter bp_consumption_value ?same) = length ?same"
    by (rule map_filter_total) (auto simp: same_consumption_unit_def)
  obtain a where amount: "metric_anomaly (bp_billing_period p) M_Amount (bp_amount p) (map bp_amount history) t None = Inr a"
      "\<forall>f. a = Some f \<longrightarrow> af_billing_period f = bp_billing_period p"
    using metric_anomaly_total [of "map bp_amount history"] assms by force
  show ?thesis
  proof (cases "\<exists>c. bp_consumption_value p = Some c \<and> 6 \<le> length ?same")
    case False
    with amount show ?thesis by (auto simp: point_anomaly_def Let_def split: option.splits)
  next
    case True
    then obtain c where c: "bp_consumption_value p = Some c" "6 \<le> length ?same" by blast
    with n obtain f where f: "metric_anomaly (bp_billing_period p) M_Consumption c
        (List.map_filter bp_consumption_value ?same) t (bp_consumption_unit p) = Inr f"
      "\<forall>g. f = Some g \<longrightarrow> af_billing_period g = bp_billing_period p"
      using metric_anomaly_total [of "List.map_filter bp_consumption_value ?same"] by (metis list.size(3) not_numeral_le_zero)
    have units: "\<exists>r. metric_anomaly (bp_billing_period p) M_Unit_Price price us t (bp_consumption_unit p) = Inr r
      \<and> (\<forall>f. r = Some f \<longrightarrow> af_billing_period f = bp_billing_period p)" if "6 \<le> length us" for price us
      using metric_anomaly_total [of us] that by (metis list.size(3) not_numeral_le_zero)
    show ?thesis
    proof (cases "\<exists>price. unit_price p = Some price \<and> 6 \<le> length (List.map_filter unit_price ?same)")
      case False
      with c f amount show ?thesis by (cases f; cases "unit_price p") (simp_all add: point_anomaly_def Let_def)
    next
      case True
      then obtain price where price: "unit_price p = Some price" "6 \<le> length (List.map_filter unit_price ?same)" by blast
      from units [OF this(2), of price] obtain g where
        g: "metric_anomaly (bp_billing_period p) M_Unit_Price price (List.map_filter unit_price ?same) t (bp_consumption_unit p) = Inr g"
        and period: "\<forall>h. g = Some h \<longrightarrow> af_billing_period h = bp_billing_period p" by blast
      have "point_anomaly p history t = Inr (if f \<noteq> None then f else if g \<noteq> None then g else a)"
        unfolding point_anomaly_def Let_def using c price f(1) g amount(1) by simp
      with f(2) amount(2) period show ?thesis by simp
    qed
  qed
qed

lemma flag_loop_total: "\<exists>fs. flag_loop w t past ps = Inr fs"
proof (induction ps arbitrary: past)
  case (Cons p ps)
  have "\<exists>r. (if length (last_items w past) < 6 then Inr None else point_anomaly p (last_items w past) t) = Inr r"
    using point_anomaly_total [of "last_items w past" p t] by (cases "last_items w past = []") auto
  with Cons [of "past @ [p]"] show ?case by (auto simp: Let_def)
qed simp

lemma flag_loop_snoc:
  "flag_loop w t past ps = Inr fs \<Longrightarrow>
   \<exists>new. flag_loop w t past (ps @ [p]) = Inr (fs @ new) \<and> length new \<le> 1
     \<and> (\<forall>f \<in> set new. af_billing_period f = bp_billing_period p) \<and> (length past + length ps < 6 \<longrightarrow> new = [])"
proof (induction ps arbitrary: past fs)
  case Nil
  have "\<exists>r. (if length (last_items w past) < 6 then Inr None else point_anomaly p (last_items w past) t) = Inr r
      \<and> (\<forall>f. r = Some f \<longrightarrow> af_billing_period f = bp_billing_period p) \<and> (length past < 6 \<longrightarrow> r = None)"
    using point_anomaly_total [of "last_items w past" p t] by (cases "last_items w past = []") (auto simp: last_items_def)
  then obtain r where "(if length (last_items w past) < 6 then Inr None else point_anomaly p (last_items w past) t) = Inr r"
    "\<forall>f. r = Some f \<longrightarrow> af_billing_period f = bp_billing_period p" "length past < 6 \<longrightarrow> r = None" by blast
  with Nil show ?case by (cases r) (simp_all add: Let_def del: if_split)
next
  case (Cons q ps)
  then obtain r gs where r: "(if length (last_items w past) < 6 then Inr None else point_anomaly q (last_items w past) t) = Inr r"
    and gs: "flag_loop w t (past @ [q]) ps = Inr gs" and fs: "fs = (case r of None \<Rightarrow> gs | Some f \<Rightarrow> f # gs)"
    by (auto simp: res_simps Let_def)
  from Cons.IH [OF gs] obtain new where new: "flag_loop w t (past @ [q]) (ps @ [p]) = Inr (gs @ new)" "length new \<le> 1"
    "\<forall>f \<in> set new. af_billing_period f = bp_billing_period p" "length past + length (q # ps) < 6 \<longrightarrow> new = []" by auto
  then have "flag_loop w t past ((q # ps) @ [p]) = Inr (fs @ new)"
    using r fs by (simp add: Let_def split: option.split del: if_split)
  with new show ?case by blast
qed

text \<open>
  A bill that is later than the whole series never changes the signals raised before it: the signals of
  the longer series are those of the shorter one followed by at most one signal for the new period, and by none
  while the series has fewer than six earlier bills.
\<close>

lemma anomaly_signals_are_causal:
  assumes "flag_anomalies_for_points ps w t = Inr fs" and "\<forall>q \<in> set ps. bp_billing_period q < bp_billing_period p"
    and "check_point p = Inr ()"
  shows "\<exists>new. flag_anomalies_for_points (ps @ [p]) w t = Inr (fs @ new) \<and> length new \<le> 1
    \<and> (\<forall>f \<in> set new. af_billing_period f = bp_billing_period p) \<and> (length ps < 6 \<longrightarrow> new = [])"
proof -
  from assms(1) have w: "\<not> w < 6" "\<not> t \<le> 0"
    and ps: "ordered_unique_points ps = Inr (sort_key bp_billing_period ps)"
    and fs: "flag_loop (nat w) t [] (sort_key bp_billing_period ps) = Inr fs"
    by (auto simp: flag_anomalies_for_points_def res_simps ordered_unique_points_Inr split: if_splits)
  from ps assms(2,3) have "ordered_unique_points (ps @ [p]) = Inr (sort_key bp_billing_period ps @ [p])"
    unfolding ordered_unique_points_Inr using sort_key_snoc_max [OF assms(2)] by auto
  with w flag_loop_snoc [OF fs, of p] show ?thesis by (simp add: flag_anomalies_for_points_def)
qed

subsection \<open>Well-formed bill tables\<close>

inductive bill_step :: "billdb \<Rightarrow> billdb \<Rightarrow> bool" where
  bill_review: "review_step (bd_review db) r \<Longrightarrow> bill_step db (db\<lparr>bd_review := r\<rparr>)"
| bill_record: "record_verified_bill env a new_id new_issuer now db = Inr (b, db') \<Longrightarrow> bill_step db db'"
| bill_pay: "mark_paid i actor paid_at now db = Inr (b, db') \<Longrightarrow> bill_step db db'"

inductive reachable_bills :: "billdb \<Rightarrow> bool" where
  bills_empty: "reachable_bills \<lparr>bd_review = \<lparr>docs = [], extractions = [], verifieds = [], batches = []\<rparr>,
     bd_issuers = [], bd_bills = []\<rparr>"
| bills_step: "reachable_bills db \<Longrightarrow> bill_step db db' \<Longrightarrow> reachable_bills db'"

definition bill_sound :: "billdb \<Rightarrow> bill \<Rightarrow> bool" where
  "bill_sound db b \<longleftrightarrow> d_day (rb_billing_period b) = 1 \<and> rb_issuer_id b \<in> is_id ` set (bd_issuers db)
     \<and> (\<exists>v \<in> set (verifieds (bd_review db)). v_id v = rb_verified_record_id b \<and> v_document_id v = rb_document_id b
          \<and> vv_total_amount (v_values v) = rb_amount b)
     \<and> (rb_payment_status b = Paid \<longleftrightarrow> rb_paid_at b \<noteq> None) \<and> rb_payment_status b \<noteq> Overdue"

definition one_active_bill :: "bill list \<Rightarrow> bool" where
  "one_active_bill bs \<longleftrightarrow> (\<forall>a \<in> set bs. \<forall>b \<in> set bs. rb_superseded_at a = None \<longrightarrow> rb_superseded_at b = None
     \<longrightarrow> rb_issuer_id a = rb_issuer_id b \<longrightarrow> rb_billing_period a = rb_billing_period b \<longrightarrow> a = b)"

definition bills_ok :: "billdb \<Rightarrow> bool" where
  "bills_ok db \<longleftrightarrow> distinct (map is_id (bd_issuers db)) \<and> distinct (map is_name (bd_issuers db))
     \<and> distinct (map rb_id (bd_bills db)) \<and> distinct (map rb_verified_record_id (bd_bills db))
     \<and> one_active_bill (bd_bills db) \<and> (\<forall>b \<in> set (bd_bills db). bill_sound db b)"

lemma review_step_verifieds: "review_step db db' \<Longrightarrow> set (verifieds db) \<subseteq> set (verifieds db')"
  by (erule review_stepE)
    (auto simp: add_extraction_def supersede_pending_extractions_def reject_extraction_def promote_def
      approve_pending_extraction_def set_doc_status_def update_extractions_def Let_def res_simps
      split: pyval.splits option.splits if_splits)

lemma bill_sound_mono:
  assumes "set (verifieds (bd_review db)) \<subseteq> set (verifieds (bd_review db'))"
    and "set (bd_issuers db) \<subseteq> set (bd_issuers db')" and "bill_sound db b"
  shows "bill_sound db' b"
  using assms unfolding bill_sound_def by blast

text \<open>A change of bills that keeps their identity, period and source.\<close>

definition keeps_bill :: "(bill \<Rightarrow> bill) \<Rightarrow> bill \<Rightarrow> bool" where
  "keeps_bill f b \<longleftrightarrow> rb_id (f b) = rb_id b \<and> rb_issuer_id (f b) = rb_issuer_id b \<and> rb_document_id (f b) = rb_document_id b
     \<and> rb_verified_record_id (f b) = rb_verified_record_id b \<and> rb_billing_period (f b) = rb_billing_period b
     \<and> rb_amount (f b) = rb_amount b \<and> (rb_superseded_at (f b) = None \<longrightarrow> rb_superseded_at b = None)"

lemma update_bills_ok:
  assumes "bills_ok db" and "\<And>b. keeps_bill f b" and "\<And>b. bill_sound db b \<Longrightarrow> bill_sound db (f b)"
  shows "bills_ok (update_bills P f db)"
proof -
  have same: "rb_id \<circ> (\<lambda>b. if P b then f b else b) = rb_id"
    "rb_verified_record_id \<circ> (\<lambda>b. if P b then f b else b) = rb_verified_record_id"
    using assms(2) by (auto simp: keeps_bill_def)
  have "one_active_bill (map (\<lambda>b. if P b then f b else b) (bd_bills db))"
    using assms(1,2) by (fastforce simp: bills_ok_def one_active_bill_def keeps_bill_def)
  moreover have "bill_sound (update_bills P f db) b = bill_sound db b" for b
    by (simp add: bill_sound_def update_bills_def)
  ultimately show ?thesis using assms(1,3) same by (auto simp: bills_ok_def update_bills_def)
qed

lemma record_verified_bill_cases:
  assumes "record_verified_bill env a new_id new_issuer now db = Inr (b, db')"
  obtains (existing) "bill_of_verified (ba_verified_record_id a) db = Some b" "db' = db"
  | (fresh) v kind i db1 db2 where "bill_of_verified (ba_verified_record_id a) db = None"
      "find_verified (ba_verified_record_id a) db = Some v"
      "get_issuer (strip (ba_issuer_name a)) kind new_issuer db = Inr (i, db1)"
      "release_period i (ba_billing_period a) (v_document_id v) now db1 = Inr db2"
      "insert_bill env b db2 = Inr db'" "d_day (rb_billing_period b) = 1" "rb_issuer_id b = is_id i"
      "rb_billing_period b = ba_billing_period a"
      "rb_document_id b = v_document_id v" "rb_verified_record_id b = v_id v" "rb_amount b = vv_total_amount (v_values v)"
      "rb_payment_status b = Unpaid" "rb_paid_at b = None" "rb_superseded_at b = None"
proof -
  from assms obtain c where c: "checked_consumption env (ba_consumption_value a) (ba_consumption_unit a) = Inr c"
    by (auto simp: record_verified_bill_def Let_def res_simps)
  from assms c obtain kind where kind: "issuer_kind_of (ba_issuer_kind a) = Some kind"
    by (cases "issuer_kind_of (ba_issuer_kind a)") (auto simp: record_verified_bill_def Let_def res_simps)
  from assms c kind obtain v where v: "find_verified (ba_verified_record_id a) db = Some v"
    by (cases "find_verified (ba_verified_record_id a) db") (auto simp: record_verified_bill_def Let_def res_simps)
  show thesis
  proof (cases "bill_of_verified (ba_verified_record_id a) db")
    case (Some e)
    with assms c kind v have "b = e" "db' = db" by (simp_all add: record_verified_bill_def Let_def res_simps)
    with Some show ?thesis by (intro that(1)) simp_all
  next
    case None
    with assms c kind v obtain i db1 db2 where "get_issuer (strip (ba_issuer_name a)) kind new_issuer db = Inr (i, db1)"
      "release_period i (ba_billing_period a) (v_document_id v) now db1 = Inr db2" "insert_bill env b db2 = Inr db'"
      "d_day (rb_billing_period b) = 1" "rb_issuer_id b = is_id i" "rb_billing_period b = ba_billing_period a"
      "rb_document_id b = v_document_id v" "rb_verified_record_id b = v_id v" "rb_amount b = vv_total_amount (v_values v)"
      "rb_payment_status b = Unpaid" "rb_paid_at b = None" "rb_superseded_at b = None"
      by (auto simp: record_verified_bill_def Let_def res_simps)
    then show ?thesis by (rule that(2) [OF None v])
  qed
qed

lemma get_issuer_ok:
  assumes "get_issuer name kind new_issuer db = Inr (i, db1)" "bills_ok db"
  shows "bills_ok db1 \<and> i \<in> set (bd_issuers db1) \<and> bd_bills db1 = bd_bills db \<and> bd_review db1 = bd_review db"
proof -
  from assms(1) have db1: "bd_bills db1 = bd_bills db" "bd_review db1 = bd_review db" "i \<in> set (bd_issuers db1)"
      "set (bd_issuers db) \<subseteq> set (bd_issuers db1)"
      "distinct (map is_id (bd_issuers db)) \<Longrightarrow> distinct (map is_id (bd_issuers db1))"
      "distinct (map is_name (bd_issuers db)) \<Longrightarrow> distinct (map is_name (bd_issuers db1))"
    by (auto simp: get_issuer_def Let_def image_iff find_None_iff dest: find_SomeD split: option.splits if_splits)
  then show ?thesis using assms(2) bill_sound_mono [of db db1] by (auto simp: bills_ok_def)
qed

lemma release_period_ok:
  assumes "release_period i period doc now db = Inr db2" "bills_ok db"
  shows "bills_ok db2 \<and> bd_issuers db2 = bd_issuers db \<and> bd_review db2 = bd_review db"
proof (cases "period_owner (is_id i) period db")
  case (Some b)
  with assms(1) have "db2 = update_bills (\<lambda>r. rb_id r = rb_id b) (\<lambda>r. r\<lparr>rb_superseded_at := Some now\<rparr>) db"
    by (simp add: release_period_def split: if_splits)
  with assms(2) show ?thesis
    by (auto intro!: update_bills_ok simp: keeps_bill_def bill_sound_def) (simp_all add: update_bills_def)
qed (use assms in \<open>simp add: release_period_def\<close>)

lemma insert_bill_ok:
  assumes "insert_bill env b db = Inr db'" "bills_ok db" "bill_sound db b"
  shows "bills_ok db'"
proof -
  from assms(1) have db': "db' = db\<lparr>bd_bills := bd_bills db @ [b]\<rparr>"
    and fresh: "\<forall>r \<in> set (bd_bills db). rb_id r \<noteq> rb_id b \<and> rb_verified_record_id r \<noteq> rb_verified_record_id b
      \<and> \<not> (rb_superseded_at r = None \<and> rb_superseded_at b = None \<and> rb_issuer_id r = rb_issuer_id b
        \<and> rb_billing_period r = rb_billing_period b)"
    by (auto simp: insert_bill_def split: if_splits)
  have "bill_sound db' r = bill_sound db r" for r by (simp add: bill_sound_def db')
  with assms(2,3) fresh show ?thesis
    by (fastforce simp: bills_ok_def one_active_bill_def db' image_iff)
qed

lemma record_verified_bill_ok:
  assumes "record_verified_bill env a new_id new_issuer now db = Inr (b, db')" "bills_ok db"
  shows "bills_ok db' \<and> bd_review db' = bd_review db"
  using assms(1)
proof (cases rule: record_verified_bill_cases)
  case (fresh v kind i db1 db2)
  from get_issuer_ok [OF fresh(3) assms(2)] have 1: "bills_ok db1" "i \<in> set (bd_issuers db1)" "bd_review db1 = bd_review db" by auto
  from release_period_ok [OF fresh(4) 1(1)] have 2: "bills_ok db2" "bd_issuers db2 = bd_issuers db1" "bd_review db2 = bd_review db"
    using 1(3) by auto
  from fresh(2) have "v \<in> set (verifieds (bd_review db))" by (auto simp: find_verified_def dest: find_SomeD)
  with fresh 1 2 have "bill_sound db2 b" by (auto simp: bill_sound_def)
  from insert_bill_ok [OF fresh(5) 2(1) this] show ?thesis
    using 2(3) fresh(5) by (auto simp: insert_bill_def split: if_splits)
qed (use assms in simp)

definition settle :: "int \<Rightarrow> pystr \<Rightarrow> bill \<Rightarrow> bill" where
  "settle t actor b = b\<lparr>rb_payment_status := Paid, rb_paid_at := Some t, rb_reviewer := Some (strip actor)\<rparr>"

lemma mark_paid_cases:
  assumes "mark_paid i actor paid_at now db = Inr (b, db')"
  obtains (paid) "find (\<lambda>b. rb_id b = i \<and> authoritative_bill db b) (bd_bills db) = Some b" "strip actor \<noteq> []"
      "rb_payment_status b = Paid" "rb_paid_at b \<noteq> None" "db' = db"
  | (repair) b0 where "find (\<lambda>b. rb_id b = i \<and> authoritative_bill db b) (bd_bills db) = Some b0"
      "rb_payment_status b0 = Paid" "rb_paid_at b0 = None"
  | (pay) b0 t where "find (\<lambda>b. rb_id b = i \<and> authoritative_bill db b) (bd_bills db) = Some b0" "strip actor \<noteq> []"
      "rb_payment_status b0 \<noteq> Paid" "b = settle t actor b0" "db' = update_bills (\<lambda>r. rb_id r = i) (settle t actor) db"
proof -
  obtain t aware where t: "(case paid_at of None \<Rightarrow> (now, True) | Some p \<Rightarrow> p) = (t, aware)"
    by (cases "case paid_at of None \<Rightarrow> (now, True) | Some p \<Rightarrow> p")
  have settle: "(\<lambda>r. r\<lparr>rb_payment_status := Paid, rb_paid_at := Some t, rb_reviewer := Some (strip actor)\<rparr>) = settle t actor"
    by (simp add: settle_def fun_eq_iff)
  from assms t show thesis using that
    by (auto simp: mark_paid_def Let_def res_simps settle split: option.splits if_splits)
qed

lemma mark_paid_ok:
  assumes "mark_paid i actor paid_at now db = Inr (b, db')" "bills_ok db"
  shows "bills_ok db'"
  using assms(1)
proof (cases rule: mark_paid_cases)
  case (repair b0)
  then have "b0 \<in> set (bd_bills db)" by (auto dest: find_SomeD)
  with repair assms(2) have False by (auto simp: bills_ok_def bill_sound_def)
  then show ?thesis ..
next
  case (pay b0 t)
  with assms(2) show ?thesis by (auto intro!: update_bills_ok simp: keeps_bill_def bill_sound_def settle_def)
qed (use assms in simp)

lemma bill_step_ok: "bill_step db db' \<Longrightarrow> bills_ok db \<Longrightarrow> bills_ok db'"
proof (induction rule: bill_step.induct)
  case (bill_review db r)
  then show ?case using bill_sound_mono [of db "db\<lparr>bd_review := r\<rparr>"] review_step_verifieds [of "bd_review db" r]
    by (auto simp: bills_ok_def)
qed (auto dest: record_verified_bill_ok mark_paid_ok)

lemma reachable_bills_ok: "reachable_bills db \<Longrightarrow> bills_ok db"
proof (induction rule: reachable_bills.induct)
  case bills_empty
  then show ?case by (simp add: bills_ok_def one_active_bill_def)
qed (rule bill_step_ok)

subsection \<open>Retries\<close>

lemma record_verified_bill_again:
  assumes "record_verified_bill env a n m t db = Inr (b, db')" "bill_of_verified (ba_verified_record_id a) db2 = Some b"
    "bd_review db2 = bd_review db"
  shows "record_verified_bill env a n2 m2 t2 db2 = Inr (b, db2)"
proof -
  have same: "find_verified i db2 = find_verified i db" for i using assms(3) by (simp add: find_verified_def)
  from assms(1) obtain c where c: "strip (ba_issuer_name a) \<noteq> []" "d_day (ba_billing_period a) = 1"
      "checked_consumption env (ba_consumption_value a) (ba_consumption_unit a) = Inr c"
    by (auto simp: record_verified_bill_def Let_def res_simps)
  from assms(1) c obtain kind where kind: "issuer_kind_of (ba_issuer_kind a) = Some kind"
    by (cases "issuer_kind_of (ba_issuer_kind a)") (auto simp: record_verified_bill_def Let_def res_simps)
  from assms(1) c kind obtain v where "find_verified (ba_verified_record_id a) db = Some v"
    by (cases "find_verified (ba_verified_record_id a) db") (auto simp: record_verified_bill_def Let_def res_simps)
  with c kind assms(2) show ?thesis by (simp add: record_verified_bill_def Let_def same)
qed

lemma insert_bill_new: "insert_bill env b db = Inr db' \<Longrightarrow> b \<in> set (bd_bills db')"
  by (auto simp: insert_bill_def split: if_splits)

lemma recorded_bill_is_found:
  assumes "record_verified_bill env a n m t db = Inr (b, db')" "bills_ok db"
  shows "bill_of_verified (ba_verified_record_id a) db' = Some b"
  using assms(1)
proof (cases rule: record_verified_bill_cases)
  case (fresh v kind i db1 db2)
  have "distinct (map rb_verified_record_id (bd_bills db'))"
    using record_verified_bill_ok [OF assms] by (simp add: bills_ok_def)
  moreover have "v_id v = ba_verified_record_id a" using fresh(2) by (auto simp: find_verified_def dest: find_SomeD)
  ultimately show ?thesis
    unfolding bill_of_verified_def using fresh insert_bill_new [OF fresh(5)] by (intro find_unique) simp_all
qed simp

lemma find_settled:
  assumes "find (\<lambda>b. rb_id b = i \<and> authoritative_bill db b) bs = Some b0"
  shows "find (\<lambda>b. rb_id b = i \<and> authoritative_bill (db\<lparr>bd_bills := xs\<rparr>) b)
    (map (\<lambda>b. if rb_id b = i then settle t actor b else b) bs) = Some (settle t actor b0)"
proof -
  have "authoritative_bill (db\<lparr>bd_bills := xs\<rparr>) (settle t actor b) = authoritative_bill db b"
    "authoritative_bill (db\<lparr>bd_bills := xs\<rparr>) b = authoritative_bill db b" "rb_id (settle t actor b) = rb_id b" for b
    by (simp_all add: authoritative_bill_def settle_def)
  then show ?thesis using assms by (induction bs) (auto split: if_splits)
qed

lemma mark_paid_again:
  assumes "mark_paid i actor paid_at t db = Inr (b, db')" "strip actor2 \<noteq> []" "bills_ok db"
  shows "mark_paid i actor2 (Some (t2, True)) t3 db' = Inr (b, db') \<and> rb_payment_status b = Paid"
  using assms(1)
proof (cases rule: mark_paid_cases)
  case paid
  with assms(2) show ?thesis by (auto simp: mark_paid_def Let_def)
next
  case (repair b0)
  with assms(3) have False by (auto simp: bills_ok_def bill_sound_def dest!: find_SomeD)
  then show ?thesis ..
next
  case (pay b0 t')
  have "find (\<lambda>b. rb_id b = i \<and> authoritative_bill db' b) (bd_bills db') = Some b"
    using pay by (simp add: update_bills_def find_settled)
  with assms(2) pay show ?thesis by (simp add: mark_paid_def Let_def settle_def)
qed

text \<open>
  C37. Recording a reviewed bill and marking it paid are safe to retry: repeating a successful request, even with
  new identifiers, another clock and another actor, returns the same bill and changes no table, so the first
  recording and the first payment time stand.
\<close>

theorem bill_requests_are_retry_safe:
  assumes "reachable_bills db"
  shows "(record_verified_bill env a n m t db = Inr (b, db') \<longrightarrow> record_verified_bill env a n2 m2 t2 db' = Inr (b, db'))
    \<and> (mark_paid i actor paid_at t db = Inr (b, db') \<longrightarrow> strip actor2 \<noteq> []
        \<longrightarrow> mark_paid i actor2 (Some (t2, True)) t3 db' = Inr (b, db') \<and> rb_payment_status b = Paid)"
proof (intro conjI impI)
  have ok: "bills_ok db" using assms by (rule reachable_bills_ok)
  show "record_verified_bill env a n2 m2 t2 db' = Inr (b, db')" if "record_verified_bill env a n m t db = Inr (b, db')"
    using record_verified_bill_again [OF that recorded_bill_is_found [OF that ok]] record_verified_bill_ok [OF that ok] by blast
  show "mark_paid i actor2 (Some (t2, True)) t3 db' = Inr (b, db')" "rb_payment_status b = Paid"
    if "mark_paid i actor paid_at t db = Inr (b, db')" "strip actor2 \<noteq> []"
    using mark_paid_again [OF that ok] by simp_all
qed

subsection \<open>Reminders\<close>

definition days_until :: "date \<Rightarrow> bill \<times> issuer \<Rightarrow> int" where
  "days_until as_of bi = toordinal (the (rb_due_date (fst bi))) - toordinal as_of"

definition open_bill :: "bill \<times> issuer \<Rightarrow> bool" where
  "open_bill bi \<longleftrightarrow> rb_payment_status (fst bi) \<noteq> Paid \<and> rb_due_date (fst bi) \<noteq> None"

definition reminder :: "date \<Rightarrow> payment_status \<Rightarrow> bill \<times> issuer \<Rightarrow> reminder_item" where
  "reminder as_of status bi = (case bi of (b, i) \<Rightarrow> \<lparr>ri_id = rb_id b, ri_issuer_id = rb_issuer_id b, ri_issuer = is_name i,
     ri_issuer_kind = is_kind i, ri_billing_period = rb_billing_period b, ri_amount = rb_amount b,
     ri_due_date = the (rb_due_date b), ri_days_left = days_until as_of bi, ri_payment_status = status\<rparr>)"

definition due_valid :: "bill \<times> issuer \<Rightarrow> bool" where
  "due_valid bi \<longleftrightarrow> (\<forall>due. rb_due_date (fst bi) = Some due \<longrightarrow> valid_date due)"

lemma bucket_of_row:
  assumes "valid_date as_of" "due_valid bi"
  shows "bucket_of as_of (toordinal as_of + n) (bill_view_of bi) =
    (if \<not> open_bill bi then None
     else if days_until as_of bi < 0 then Some (Overdue_Bucket, reminder as_of Overdue bi)
     else if days_until as_of bi \<le> n then Some (Upcoming, reminder as_of Unpaid bi) else None)"
proof (cases bi)
  case (Pair b i)
  show ?thesis
  proof (cases "rb_due_date b")
    case (Some due)
    with assms Pair have "valid_date due" by (simp add: due_valid_def)
    from toordinal_less_iff [OF this assms(1)] Some Pair show ?thesis
      by (simp add: bucket_of_def bill_view_of_def open_bill_def days_until_def reminder_def Let_def)
  qed (use Pair in \<open>simp add: bucket_of_def bill_view_of_def open_bill_def\<close>)
qed

lemma bucket_rows:
  assumes "valid_date as_of" "\<forall>bi \<in> set rows. due_valid bi"
  shows "map snd (filter (\<lambda>x. fst x = Upcoming) (List.map_filter (bucket_of as_of (toordinal as_of + n)) (map bill_view_of rows)))
      = map (reminder as_of Unpaid) (filter (\<lambda>bi. open_bill bi \<and> 0 \<le> days_until as_of bi \<and> days_until as_of bi \<le> n) rows)"
    and "map snd (filter (\<lambda>x. fst x = Overdue_Bucket) (List.map_filter (bucket_of as_of (toordinal as_of + n)) (map bill_view_of rows)))
      = map (reminder as_of Overdue) (filter (\<lambda>bi. open_bill bi \<and> days_until as_of bi < 0) rows)"
  using assms(2) by (induction rows) (auto simp: List.map_filter_simps bucket_of_row [OF assms(1)])

lemma sorted_reminders: "sorted (map ri_due_date (bucket_items k as_of last_day views))"
proof -
  have "sorted (map (\<lambda>i. (ri_due_date i, ri_issuer i, uuid_str (ri_id i))) (bucket_items k as_of last_day views))"
    by (simp add: bucket_items_def)
  then show ?thesis unfolding sorted_map by (rule sorted_wrt_mono_rel [rotated]) (auto simp: less_eq_prod_def)
qed

text \<open>
  C38. The reminders are exactly the open bills with reviewed authority: a bill that is unpaid and has a due date
  appears once, among the overdue bills when it was due before the reference date and among the upcoming bills when
  it is due within the requested number of days, with the signed number of days left; nothing else appears and both
  lists are in order of their due date. The filter of the database query removes none of them.
\<close>

theorem reminders_are_exact:
  assumes "list_reminders db n as_of = Inr (up, over)" "valid_date as_of" "\<forall>bi \<in> set (bill_rows db). due_valid bi"
  shows "mset up = mset (map (reminder as_of Unpaid)
        (filter (\<lambda>bi. open_bill bi \<and> 0 \<le> days_until as_of bi \<and> days_until as_of bi \<le> n) (bill_rows db)))
    \<and> mset over = mset (map (reminder as_of Overdue) (filter (\<lambda>bi. open_bill bi \<and> days_until as_of bi < 0) (bill_rows db)))
    \<and> sorted (map ri_due_date up) \<and> sorted (map ri_due_date over)"
proof -
  define pre :: "bill \<times> issuer \<Rightarrow> bool" where "pre = (\<lambda>(b, i). rb_payment_status b \<noteq> Paid
     \<and> (case rb_due_date b of None \<Rightarrow> False | Some due \<Rightarrow> toordinal due \<le> toordinal as_of + n))"
  define rows where "rows = sort_key (\<lambda>(b, i). (rb_due_date b, is_name i, rb_id b)) (filter pre (bill_rows db))"
  from assms(1) have n: "0 \<le> n"
    and up: "up = bucket_items Upcoming as_of (toordinal as_of + n) (map bill_view_of rows)"
    and over: "over = bucket_items Overdue_Bucket as_of (toordinal as_of + n) (map bill_view_of rows)"
    by (auto simp: list_reminders_def bucket_reminders_def add_days_def res_simps Let_def rows_def pre_def split: if_splits)
  have valid: "\<forall>bi \<in> set rows. due_valid bi" using assms(3) by (simp add: rows_def)
  have mrows: "mset rows = mset (filter pre (bill_rows db))" by (simp add: rows_def)
  have pre: "open_bill bi \<and> days_until as_of bi \<le> n \<longrightarrow> pre bi" for bi :: "bill \<times> issuer"
    by (auto simp: pre_def open_bill_def days_until_def split: prod.splits)
  have keep: "mset (filter Q rows) = mset (filter Q (bill_rows db))"
    if "\<And>bi. Q bi \<Longrightarrow> pre bi" for Q :: "bill \<times> issuer \<Rightarrow> bool"
  proof -
    have "filter Q (filter pre (bill_rows db)) = filter Q (bill_rows db)" using that by (auto intro: filter_cong)
    then show ?thesis using mrows by (metis mset_filter)
  qed
  have "sorted (map ri_due_date up)" "sorted (map ri_due_date over)" by (simp_all add: up over sorted_reminders)
  then show ?thesis
    using keep [of "\<lambda>bi. open_bill bi \<and> 0 \<le> days_until as_of bi \<and> days_until as_of bi \<le> n"]
      keep [of "\<lambda>bi. open_bill bi \<and> days_until as_of bi < 0"] pre n
    by (simp add: up over) (simp add: bucket_items_def bucket_rows [OF assms(2) valid])
qed

subsection \<open>Constraints and findings\<close>

lemma checked_consumption_error: "checked_consumption env c unit \<noteq> Inl IntegrityError"
proof -
  have "dv_less (Finite_Dec 0) d \<noteq> Inl IntegrityError" for d by (cases d) simp_all
  then show ?thesis by (auto simp: checked_consumption_def res_simps split: consumption_arg.splits option.splits if_splits)
qed

lemma released_period_is_free:
  assumes "release_period i period doc now db = Inr db2" "bills_ok db"
    and "r \<in> set (bd_bills db2)" "rb_superseded_at r = None" "rb_issuer_id r = is_id i"
  shows "rb_billing_period r \<noteq> period"
proof (cases "period_owner (is_id i) period db")
  case None
  with assms(1) have "db2 = db" by (simp add: release_period_def)
  with None assms(3-5) show ?thesis by (auto simp: period_owner_def find_None_iff)
next
  case (Some b)
  with assms(1) have db2: "db2 = update_bills (\<lambda>r. rb_id r = rb_id b) (\<lambda>r. r\<lparr>rb_superseded_at := Some now\<rparr>) db"
    by (simp add: release_period_def split: if_splits)
  with assms(3,4) have r: "r \<in> set (bd_bills db)" "rb_id r \<noteq> rb_id b"
    by (auto simp: update_bills_def split: if_splits)
  from Some have "b \<in> set (bd_bills db)" "rb_issuer_id b = is_id i" "rb_billing_period b = period" "rb_superseded_at b = None"
    by (auto simp: period_owner_def dest: find_SomeD)
  with r assms(2,4,5) show ?thesis by (auto simp: bills_ok_def one_active_bill_def)
qed

lemma release_period_bills:
  "release_period i period doc now db = Inr db2 \<Longrightarrow> map rb_id (bd_bills db2) = map rb_id (bd_bills db)
    \<and> map rb_verified_record_id (bd_bills db2) = map rb_verified_record_id (bd_bills db)"
  by (auto simp: release_period_def update_bills_def split: option.splits if_splits)

lemma insert_bill_after_release:
  assumes "bills_ok db" "release_period i period doc now db = Inr db2" "bl_amount_ok env (rb_amount b)"
    and "rb_id b \<notin> rb_id ` set (bd_bills db)" "rb_verified_record_id b \<notin> rb_verified_record_id ` set (bd_bills db)"
    and "rb_issuer_id b = is_id i" "rb_billing_period b = period"
  shows "insert_bill env b db2 = Inr (db2\<lparr>bd_bills := bd_bills db2 @ [b]\<rparr>)"
proof -
  have "rb_id b \<notin> set (map rb_id (bd_bills db2))" "rb_verified_record_id b \<notin> set (map rb_verified_record_id (bd_bills db2))"
    using release_period_bills [OF assms(2)] assms(4,5) by simp_all
  then have "rb_id r \<noteq> rb_id b \<and> rb_verified_record_id r \<noteq> rb_verified_record_id b
      \<and> \<not> (rb_superseded_at r = None \<and> rb_issuer_id r = rb_issuer_id b \<and> rb_billing_period r = rb_billing_period b)"
    if "r \<in> set (bd_bills db2)" for r
    using released_period_is_free [OF assms(2,1) that] imageI [OF that, of rb_id]
      imageI [OF that, of rb_verified_record_id] assms(6,7) by auto
  then have "\<not> (\<exists>r \<in> set (bd_bills db2). rb_id r = rb_id b \<or> rb_verified_record_id r = rb_verified_record_id b
      \<or> (rb_superseded_at r = None \<and> rb_superseded_at b = None \<and> rb_issuer_id r = rb_issuer_id b
        \<and> rb_billing_period r = rb_billing_period b))" by blast
  then show ?thesis using assms(3) by (simp add: insert_bill_def)
qed

text \<open>
  With fresh identifiers and amounts that the database accepts, recording a bill never runs into a database
  constraint: the checks of the service leave no duplicate for the unique indexes to refuse.
\<close>

lemma recording_never_violates_constraints:
  assumes "reachable_bills db" and "\<forall>b \<in> set (bd_bills db). rb_id b \<noteq> new_id"
    and "\<forall>i \<in> set (bd_issuers db). is_id i \<noteq> new_issuer"
    and "\<forall>v \<in> set (verifieds (bd_review db)). bl_amount_ok env (vv_total_amount (v_values v))"
  shows "record_verified_bill env a new_id new_issuer now db \<noteq> Inl IntegrityError"
proof
  assume bad: "record_verified_bill env a new_id new_issuer now db = Inl IntegrityError"
  have ok: "bills_ok db" using assms(1) by (rule reachable_bills_ok)
  from bad checked_consumption_error obtain c where c: "strip (ba_issuer_name a) \<noteq> []" "d_day (ba_billing_period a) = 1"
      "checked_consumption env (ba_consumption_value a) (ba_consumption_unit a) = Inr c"
    by (auto simp: record_verified_bill_def Let_def res_simps)
  from bad c obtain kind where kind: "issuer_kind_of (ba_issuer_kind a) = Some kind"
    by (cases "issuer_kind_of (ba_issuer_kind a)") (auto simp: record_verified_bill_def Let_def res_simps)
  from bad c kind obtain v where v: "find_verified (ba_verified_record_id a) db = Some v"
    by (cases "find_verified (ba_verified_record_id a) db") (auto simp: record_verified_bill_def Let_def res_simps)
  have fresh: "bill_of_verified (ba_verified_record_id a) db = None"
    using bad c kind v by (cases "bill_of_verified (ba_verified_record_id a) db") (auto simp: record_verified_bill_def Let_def)
  have in_table: "v \<in> set (verifieds (bd_review db))" "v_id v = ba_verified_record_id a"
    using v by (auto simp: find_verified_def dest: find_SomeD)
  from fresh in_table(2) have free: "v_id v \<notin> rb_verified_record_id ` set (bd_bills db)"
    by (auto simp: bill_of_verified_def find_None_iff)
  have issuer: "get_issuer n k new_issuer db \<noteq> Inl IntegrityError" for n k
    using assms(3) by (auto simp: get_issuer_def Let_def split: option.splits if_splits)
  have release: "release_period i p d now db1 \<noteq> Inl IntegrityError" for i p d db1
    by (auto simp: release_period_def split: option.splits if_splits)
  from bad c kind v fresh issuer release obtain i db1 db2 b where i: "get_issuer (strip (ba_issuer_name a)) kind new_issuer db = Inr (i, db1)"
    and r: "release_period i (ba_billing_period a) (v_document_id v) now db1 = Inr db2"
    and b: "insert_bill env b db2 = Inl IntegrityError" "rb_id b = new_id" "rb_verified_record_id b = v_id v" "rb_issuer_id b = is_id i"
      "rb_billing_period b = ba_billing_period a" "rb_amount b = vv_total_amount (v_values v)"
    by (auto simp: record_verified_bill_def Let_def res_simps)
  from get_issuer_ok [OF i ok] have db1: "bills_ok db1" "bd_bills db1 = bd_bills db" by auto
  have "rb_id b \<notin> rb_id ` set (bd_bills db1)" using b(2) assms(2) db1(2) by auto
  then show False
    using insert_bill_after_release [OF db1(1) r, of env b] b free assms(4) in_table db1(2) by auto
qed

text \<open>
  C36. Over every interleaving of reviews, recordings and payments the bill tables stay well formed: names of
  issuers are unique, a verified record has at most one bill, an issuer has at most one bill that is not superseded
  for a period, and every bill starts a month, belongs to a stored issuer, carries document and amount of a stored
  verified record, and has a payment time exactly when it is paid; the overdue state is never stored.
\<close>

theorem bill_invariant:
  assumes "reachable_bills db"
  shows "bills_ok db"
  using assms by (rule reachable_bills_ok)

text \<open>A replacement bill starts unpaid, whatever the payment state of the bill it replaces.\<close>

lemma recorded_bill_starts_unpaid:
  assumes "record_verified_bill env a n m t db = Inr (b, db')" "bill_of_verified (ba_verified_record_id a) db = None"
  shows "rb_payment_status b = Unpaid \<and> rb_paid_at b = None"
  using assms(1) by (cases rule: record_verified_bill_cases) (simp_all add: assms(2))

text \<open>A period is claimed by any bill that was not superseded, even one without reviewed authority.\<close>

lemma claimed_period_is_refused:
  assumes "period_owner (is_id i) period db = Some b" "rb_document_id b \<noteq> doc"
  shows "release_period i period doc now db = Inl BillConflictError"
  using assms by (simp add: release_period_def)

subsection \<open>A concrete series\<close>

definition demo_approved :: reviewdb where
  "demo_approved = \<lparr>docs = [demo_doc\<lparr>d_status := Verified_Doc\<rparr>],
     extractions = [demo_pending\<lparr>x_status := Approved, x_version := 2, x_reviewer := Some (u ''bob''), x_reviewed_at := Some 8\<rparr>],
     verifieds = [\<lparr>v_id = 9, v_document_id = 2, v_extracted_id = 5, v_reviewer = u ''bob'', v_values = demo_verified_values\<rparr>],
     batches = []\<rparr>"

lemma demo_approval: "promote demo_values_env 5 1 demo_corrections (u ''bob'') 9 8 demo_review = Inr (9, demo_approved)"
  by (simp add: promote_def demo_corrections_def correction_fields_def clean_text_def demo_text
      as_review_error_def find_extraction_def find_doc_def demo_review_def demo_pending_def
      demo_values [unfolded demo_corrections_def] approve_pending_extraction_def update_extractions_def
      demo_doc_def Let_def set_doc_status_def demo_approved_def)

definition demo_reviewed :: billdb where
  "demo_reviewed = \<lparr>bd_review = demo_approved, bd_issuers = [], bd_bills = []\<rparr>"

definition demo_bill_env :: bill_env where
  "demo_bill_env = \<lparr>bl_decimal = (\<lambda>s. None), bl_amount_ok = (\<lambda>d. case d of Finite_Dec q \<Rightarrow> 0 < q | _ \<Rightarrow> False)\<rparr>"

definition demo_bill_args :: bill_args where
  "demo_bill_args = \<lparr>ba_verified_record_id = 9, ba_issuer_name = u ''Acme'', ba_issuer_kind = u ''gas'',
     ba_billing_period = Date 2024 5 1, ba_due_date = Some (Date 2024 5 31), ba_consumption_value = No_Consumption,
     ba_consumption_unit = None, ba_reviewer = Some (u ''bob''), ba_review_corrections = []\<rparr>"

definition demo_bill :: bill where
  "demo_bill = \<lparr>rb_id = 20, rb_issuer_id = 30, rb_document_id = 2, rb_verified_record_id = 9,
     rb_billing_period = Date 2024 5 1, rb_amount = Finite_Dec 1200, rb_due_date = Some (Date 2024 5 31),
     rb_payment_status = Unpaid, rb_consumption_value = None, rb_consumption_unit = None, rb_paid_at = None,
     rb_reviewer = Some (u ''bob''), rb_review_corrections = [], rb_superseded_at = None\<rparr>"

definition demo_billed :: billdb where
  "demo_billed = demo_reviewed\<lparr>bd_issuers := [\<lparr>is_id = 30, is_name = u ''Acme'', is_kind = Gas\<rparr>], bd_bills := [demo_bill]\<rparr>"

lemma demo_recorded: "record_verified_bill demo_bill_env demo_bill_args 20 30 50 demo_reviewed = Inr (demo_bill, demo_billed)"
proof -
  have "issuer_kind_of (u ''gas'') = Some Gas" by (simp add: issuer_kind_of_def issuer_kind_value_def)
  then show ?thesis
    by (simp add: record_verified_bill_def demo_bill_args_def demo_text checked_consumption_def find_verified_def
        demo_reviewed_def demo_approved_def bill_of_verified_def get_issuer_def release_period_def period_owner_def
        insert_bill_def demo_bill_env_def demo_verified_values_def demo_bill_def demo_billed_def empty_text_def Let_def)
qed

lemma bill_reviews: "rtranclp review_step (bd_review db) r \<Longrightarrow> reachable_bills db \<Longrightarrow> reachable_bills (db\<lparr>bd_review := r\<rparr>)"
proof (induction rule: rtranclp_induct)
  case (step r1 r2)
  then have "reachable_bills (db\<lparr>bd_review := r1\<rparr>)" by blast
  from bills_step [OF this bill_review] step.hyps(2) show ?case by simp
qed simp

lemma demo_reviewed_reachable: "reachable_bills demo_reviewed"
proof -
  have "rtranclp review_step \<lparr>docs = [], extractions = [], verifieds = [], batches = []\<rparr> demo_approved"
    using step_document [of "\<lparr>docs = [], extractions = [], verifieds = [], batches = []\<rparr>" demo_doc]
      step_add [OF demo_added] step_promote [OF demo_approval]
    by (simp add: converse_rtranclp_into_rtranclp)
  from bill_reviews [OF _ bills_empty, simplified, OF this] show ?thesis by (simp add: demo_reviewed_def)
qed

lemma demo_billed_reachable: "reachable_bills demo_billed"
  using bills_step [OF demo_reviewed_reachable bill_record [OF demo_recorded]] .

theorem bill_invariant_witness: "bills_ok demo_billed \<and> bd_bills demo_billed = [demo_bill]"
  using bill_invariant [OF demo_billed_reachable] by (simp add: demo_billed_def)

lemma demo_authoritative: "authoritative_bill demo_billed demo_bill"
  by (simp add: authoritative_bill_def active_verified_def demo_billed_def demo_bill_def demo_reviewed_def demo_approved_def
      demo_pending_def active_extraction_authority_def)

theorem bill_requests_are_retry_safe_witness:
  "record_verified_bill demo_bill_env demo_bill_args 21 31 51 demo_billed = Inr (demo_bill, demo_billed)
    \<and> (\<exists>b db'. mark_paid 20 (u ''bob'') None 60 demo_billed = Inr (b, db')
        \<and> mark_paid 20 (u ''m'') (Some (61, True)) 62 db' = Inr (b, db'))"
proof -
  have "\<exists>b db'. mark_paid 20 (u ''bob'') None 60 demo_billed = Inr (b, db')"
    using demo_authoritative by (simp add: mark_paid_def demo_text demo_billed_def demo_bill_def Let_def)
  then obtain b db' where paid: "mark_paid 20 (u ''bob'') None 60 demo_billed = Inr (b, db')" by blast
  have "mark_paid 20 (u ''m'') (Some (61, True)) 62 db' = Inr (b, db')"
    using bill_requests_are_retry_safe [OF demo_billed_reachable] paid by (simp add: demo_text)
  with paid show ?thesis
    using bill_requests_are_retry_safe [OF demo_reviewed_reachable] demo_recorded by blast
qed

lemma recording_never_violates_constraints_witness:
  "record_verified_bill demo_bill_env demo_bill_args 21 31 51 demo_billed \<noteq> Inl IntegrityError"
  by (rule recording_never_violates_constraints [OF demo_billed_reachable])
    (simp_all add: demo_billed_def demo_reviewed_def demo_approved_def demo_bill_def demo_bill_env_def demo_verified_values_def)

theorem reminders_are_exact_witness:
  "\<exists>up over. list_reminders demo_billed 30 (Date 2024 5 10) = Inr (up, over) \<and> mset up = mset (map (reminder (Date 2024 5 10) Unpaid)
     (filter (\<lambda>bi. open_bill bi \<and> 0 \<le> days_until (Date 2024 5 10) bi \<and> days_until (Date 2024 5 10) bi \<le> 30) (bill_rows demo_billed)))"
proof -
  have "bill_rows demo_billed = [(demo_bill, \<lparr>is_id = 30, is_name = u ''Acme'', is_kind = Gas\<rparr>)]"
    using demo_authoritative by (simp add: bill_rows_def demo_billed_def demo_bill_def)
  then have valid: "\<forall>bi \<in> set (bill_rows demo_billed). due_valid bi"
    by (simp add: due_valid_def demo_bill_def valid_date_def days_in_month_def)
  have "add_days (Date 2024 5 10) 30 = Inr (toordinal (Date 2024 5 10) + 30)"
    by (simp add: add_days_def toordinal_def days_before_year_def days_before_month_def max_ordinal_def days_in_month_def upto.simps)
  then have "\<exists>up over. list_reminders demo_billed 30 (Date 2024 5 10) = Inr (up, over)"
    by (simp add: list_reminders_def bucket_reminders_def Let_def)
  then obtain up over where l: "list_reminders demo_billed 30 (Date 2024 5 10) = Inr (up, over)" by blast
  from reminders_are_exact [OF l _ valid] l show ?thesis
    by (auto simp: valid_date_def days_in_month_def)
qed

definition demo_point :: "int \<Rightarrow> bill_point" where
  "demo_point m = \<lparr>bp_issuer_id = 30, bp_billing_period = Date 2024 m 1, bp_amount = 100, bp_consumption_value = None,
     bp_consumption_unit = None\<rparr>"

lemma anomaly_signals_are_causal_witness:
  "\<exists>new. flag_anomalies_for_points ([demo_point 1] @ [demo_point 2]) 12 3 = Inr ([] @ new) \<and> length new \<le> 1"
proof -
  have f: "flag_anomalies_for_points [demo_point 1] 12 3 = Inr []"
    by (simp add: flag_anomalies_for_points_def ordered_unique_points_def check_point_def demo_point_def last_items_def Let_def)
  show ?thesis
    using anomaly_signals_are_causal [OF f, of "demo_point 2"]
    by (auto simp: demo_point_def check_point_def less_date_def less_eq_date_def)
qed

end
