(* ===== verification/Batch_Store.thy ===== *)
theory Batch_Store
  imports Bill_Service Schema_Mapping
begin

text \<open>
  Candidate cohorts: \<^verbatim>\<open>MappingSourceRepo\<close> and \<^verbatim>\<open>ExtractionBatchRepo\<close> of \<^verbatim>\<open>src/clerksan/db/repositories.py\<close>. The
  tables are those of reviews and bills together with source intakes, reviewer decisions and search chunks. A
  cohort is inserted with all its candidates or not at all; identifiers come from arguments, and a clash with a
  stored identifier or unique index is an \<open>IntegrityError\<close>.
\<close>

subsection \<open>Tables\<close>

datatype decision_action = Include | Exclude

record review_decision =
  dc_id :: nat
  dc_batch_id :: nat
  dc_extraction_id :: nat
  dc_revision :: int
  dc_expected_version :: int
  dc_supersedes :: "nat option"
  dc_action :: decision_action
  dc_corrected_payload :: "(pystr, pyval) dict option"
  dc_corrected_subtype :: "financial_subtype option"
  dc_exclusion_reason :: "pystr option"
  dc_actor :: pystr

record chunk_row =
  ck_id :: nat
  ck_batch_id :: "nat option"
  ck_extraction_id :: "nat option"
  ck_seq :: int
  ck_heading_path :: pyval
  ck_text :: pystr
  ck_embedding :: "rat list"
  ck_embed_model :: pystr
  ck_embed_model_digest :: "pystr option"
  ck_token_count :: int

record batchdb =
  bt_bills :: billdb
  bt_intakes :: "source_intake list"
  bt_decisions :: "review_decision list"
  bt_chunks :: "chunk_row list"

definition bt_review :: "batchdb \<Rightarrow> reviewdb" where
  "bt_review db = bd_review (bt_bills db)"

definition on_review :: "(reviewdb \<Rightarrow> reviewdb) \<Rightarrow> batchdb \<Rightarrow> batchdb" where
  "on_review f db = db\<lparr>bt_bills := (bt_bills db)\<lparr>bd_review := f (bt_review db)\<rparr>\<rparr>"

definition find_batch :: "nat \<Rightarrow> batchdb \<Rightarrow> batch_row option" where
  "find_batch i db = find (\<lambda>b. b_id b = i) (batches (bt_review db))"

definition candidates_of :: "nat \<Rightarrow> batchdb \<Rightarrow> extraction list" where
  "candidates_of i db = sort_key x_id (filter (\<lambda>x. x_batch_id x = Some i) (extractions (bt_review db)))"

definition find_source_intake :: "nat \<Rightarrow> batchdb \<Rightarrow> source_intake option" where
  "find_source_intake i db = find (\<lambda>r. si_id r = i) (bt_intakes db)"

subsection \<open>The exact current source\<close>

record exact_source =
  es_intake_id :: nat
  es_document_id :: nat
  es_source_file_id :: nat
  es_source_version :: int
  es_source_sha256 :: pystr
  es_intake_intent :: intake_intent

definition exact_source_of :: "source_intake \<Rightarrow> nat \<Rightarrow> document_file \<Rightarrow> exact_source" where
  "exact_source_of intake doc current = \<lparr>es_intake_id = si_id intake, es_document_id = doc, es_source_file_id = f_id current,
     es_source_version = f_version current, es_source_sha256 = f_sha256 current, es_intake_intent = si_intake_intent intake\<rparr>"

definition require_current :: "batchdb \<Rightarrow> nat \<Rightarrow> nat \<Rightarrow> nat \<Rightarrow> int \<Rightarrow> pystr \<Rightarrow> exact_source res" where
  "require_current db doc intake_id file_id version sha =
     rbind (validate_sha256 sha) (\<lambda>_.
     rbind (require (1 \<le> version) (MappingConflictError ''stale_source'')) (\<lambda>_.
     case find_doc doc (bt_review db) of
       None \<Rightarrow> Inl DocumentNotFoundError
     | Some d \<Rightarrow>
         (case (latest_original (d_files d), find (\<lambda>r. si_id r = intake_id \<and> si_document_id r = doc) (bt_intakes db)) of
            (Some current, Some intake) \<Rightarrow>
              if f_id current \<noteq> file_id \<or> f_version current \<noteq> version \<or> f_sha256 current \<noteq> sha
                \<or> si_source_file_id intake \<noteq> file_id \<or> si_source_version intake \<noteq> version \<or> si_source_sha256 intake \<noteq> sha
              then Inl (MappingConflictError ''stale_source'')
              else Inr (exact_source_of intake doc current)
          | _ \<Rightarrow> Inl (MappingConflictError ''stale_source''))))"

definition current_source :: "batchdb \<Rightarrow> nat \<Rightarrow> exact_source res" where
  "current_source db doc = (case find_doc doc (bt_review db) of
       None \<Rightarrow> Inl DocumentNotFoundError
     | Some d \<Rightarrow> (case latest_original (d_files d) of
         None \<Rightarrow> Inl (MappingConflictError ''mapping_not_ready'')
       | Some current \<Rightarrow>
           (case find (\<lambda>r. si_document_id r = doc \<and> si_source_file_id r = f_id current
               \<and> si_source_version r = f_version current \<and> si_source_sha256 r = f_sha256 current) (bt_intakes db) of
              None \<Rightarrow> Inl (MappingConflictError ''mapping_not_ready'')
            | Some intake \<Rightarrow> Inr (exact_source_of intake doc current))))"

definition bounded_mapping_text :: "pystr \<Rightarrow> nat \<Rightarrow> pystr res" where
  "bounded_mapping_text v limit = rbind (clean_text v) (\<lambda>c.
     if limit < length c then Inl (MappingValidationError ''is too long'') else Inr c)"

subsection \<open>Reconciliation digests\<close>

definition disposition_value :: "disposition \<Rightarrow> pystr" where
  "disposition_value d = u (case d of Mapped_Candidate \<Rightarrow> ''mapped_candidate''
     | Residual_Generic_Candidate \<Rightarrow> ''residual_generic_candidate'' | Explicit_Ignore \<Rightarrow> ''explicit_ignore''
     | Blank \<Rightarrow> ''blank'' | Parse_Error \<Rightarrow> ''parse_error'')"

definition reconciliation_counts :: "unit_decision list \<Rightarrow> (pystr, int) dict" where
  "reconciliation_counts ds = map (\<lambda>k. (disposition_value k, int (reconciliation_count ds k)))
     [Mapped_Candidate, Residual_Generic_Candidate, Explicit_Ignore, Blank, Parse_Error]"

definition unit_payload :: "unit_decision \<Rightarrow> pyval" where
  "unit_payload d = PDict [(u ''unit_id'', PStr (ud_unit_id d)), (u ''locator'', PStr (ud_locator d)),
     (u ''content_digest'', PStr (ud_content_digest d)), (u ''disposition'', PStr (disposition_value (ud_disposition d))),
     (u ''candidate_key'', opt_str (ud_candidate_key d)), (u ''reason'', opt_str (ud_reason d))]"

definition ledger_digest :: "py_env \<Rightarrow> unit_decision list \<Rightarrow> pystr res" where
  "ledger_digest env ds = env_digest env (PDict
     [(u ''counts'', PDict (map (\<lambda>(k, n). (k, PInt n)) (reconciliation_counts ds))),
      (u ''decisions'', PList (map unit_payload ds))])"

definition draft_payload :: "candidate_draft \<Rightarrow> pyval" where
  "draft_payload c = PDict [(u ''candidate_ordinal'', PInt (cd_candidate_ordinal c)), (u ''candidate_key'', PStr (cd_candidate_key c)),
     (u ''record_kind'', PStr (record_kind_value (cd_record_kind c))),
     (u ''financial_subtype'', opt_str (map_option financial_subtype_value (cd_financial_subtype c))),
     (u ''payload'', PDict (cd_payload c)), (u ''confidences'', PDict (map (\<lambda>(k, r). (k, PFloat r)) (cd_confidences c))),
     (u ''source_locator'', PStr (cd_source_locator c)), (u ''row_fingerprint'', PStr (cd_row_fingerprint c)),
     (u ''validation_issues'', str_list (cd_validation_issues c)),
     (u ''evidence_group_keys'', str_list (cd_evidence_group_keys c))]"

definition candidate_reconciliation_digest :: "py_env \<Rightarrow> candidate_draft list \<Rightarrow> unit_decision list \<Rightarrow> pystr res" where
  "candidate_reconciliation_digest env cs ds = rbind (ledger_digest env ds) (\<lambda>ledger.
     env_digest env (PDict [(u ''ledger_digest'', PStr ledger), (u ''candidates'', PList (map draft_payload cs))]))"

subsection \<open>Inserting a cohort\<close>

record batch_args =
  bc_document_id :: nat
  bc_source_intake_id :: nat
  bc_source_file_id :: nat
  bc_source_version :: int
  bc_source_sha256 :: pystr
  bc_normalized_sha256 :: pystr
  bc_structure_fingerprint :: pystr
  bc_candidates :: "candidate_draft list"
  bc_ledger :: "unit_decision list"
  bc_producer :: pystr
  bc_producer_version :: pystr
  bc_origin :: pystr
  bc_idempotency_key :: pystr
  bc_producer_job_id :: "nat option"

record mapping_set_snapshot =
  mp_id :: nat
  mp_source_intake_id :: nat
  mp_document_id :: nat
  mp_source_file_id :: nat
  mp_source_version :: int
  mp_source_sha256 :: pystr
  mp_structure_fingerprint :: pystr
  mp_set_digest :: pystr
  mp_version :: int

definition mapping_identity :: "mapping_set_snapshot option \<Rightarrow> (nat \<times> int \<times> pystr) option" where
  "mapping_identity s = map_option (\<lambda>m. (mp_id m, mp_version m, mp_set_digest m)) s"

definition new_batch :: "batch_args \<Rightarrow> exact_source \<Rightarrow> mapping_set_snapshot option \<Rightarrow> pystr \<Rightarrow> nat \<Rightarrow> int \<Rightarrow> batch_row" where
  "new_batch a source mapping digest new_id now =
     \<lparr>b_id = new_id, b_document_id = bc_document_id a, b_source_intake_id = es_intake_id source,
      b_source_file_id = es_source_file_id source, b_source_version = es_source_version source,
      b_source_sha256 = es_source_sha256 source, b_normalized_sha256 = bc_normalized_sha256 a,
      b_structure_fingerprint = bc_structure_fingerprint a, b_mapping_set = mapping_identity mapping,
      b_producer = strip (bc_producer a), b_producer_version = strip (bc_producer_version a),
      b_origin = strip (bc_origin a), b_intake_intent = es_intake_intent source, b_producer_job_id = bc_producer_job_id a,
      b_lifecycle = B_Open, b_version = 1, b_candidate_count = int (length (bc_candidates a)),
      b_reconciliation_counts = reconciliation_counts (bc_ledger a), b_reconciliation_digest = digest,
      b_activation_vector = None, b_activated_by = None, b_activated_at = None, b_included_count = None,
      b_excluded_count = None, b_accepted_exclusions = False, b_accepted_empty = False,
      b_idempotency_key = strip (bc_idempotency_key a), b_updated_at = now\<rparr>"

definition candidate_spans :: "candidate_draft \<Rightarrow> mapping_set_snapshot option \<Rightarrow> (pystr, pystr) dict" where
  "candidate_spans c mapping = [(u ''source_locator'', cd_source_locator c), (u ''row_fingerprint'', cd_row_fingerprint c)]
     @ (case mapping of None \<Rightarrow> [] | Some m \<Rightarrow>
          [(u ''mapping_set_id'', uuid_str (mp_id m)), (u ''mapping_set_digest'', mp_set_digest m)])"

definition candidate_row :: "batch_args \<Rightarrow> exact_source \<Rightarrow> mapping_set_snapshot option \<Rightarrow> nat \<Rightarrow> int \<Rightarrow> nat \<times> candidate_draft \<Rightarrow> extraction" where
  "candidate_row a source mapping batch now ic = (case ic of (i, c) \<Rightarrow>
     \<lparr>x_id = i, x_document_id = bc_document_id a, x_source_file_id = es_source_file_id source,
      x_source_version = es_source_version source, x_batch_id = Some batch, x_record_kind = Some (cd_record_kind c),
      x_financial_subtype = cd_financial_subtype c, x_candidate_ordinal = Some (cd_candidate_ordinal c),
      x_candidate_key = Some (cd_candidate_key c), x_source_locator = Some (cd_source_locator c),
      x_row_fingerprint = Some (cd_row_fingerprint c), x_validation_issues = Some (cd_validation_issues c),
      x_evidence_group_keys = Some (cd_evidence_group_keys c), x_payload = cd_payload c,
      x_field_confidences = PDict (map (\<lambda>(k, r). (k, PFloat r)) (cd_confidences c)),
      x_source_spans = candidate_spans c mapping, x_model_name = strip (bc_producer a),
      x_prompt_version = strip (bc_producer_version a), x_status = Pending_Review, x_version = 1, x_reviewer = None,
      x_rejection_reason = None, x_reviewed_at = None, x_created_at = now\<rparr>)"

text \<open>The unique indexes and the subtype shape that the insertion must respect.\<close>

definition cohort_fits :: "batchdb \<Rightarrow> batch_row \<Rightarrow> extraction list \<Rightarrow> bool" where
  "cohort_fits db b rows \<longleftrightarrow>
     list_all (\<lambda>r. b_id r \<noteq> b_id b \<and> \<not> (b_source_intake_id r = b_source_intake_id b \<and> b_idempotency_key r = b_idempotency_key b))
       (batches (bt_review db))
     \<and> list_all (\<lambda>x. x_id x \<notin> x_id ` set (extractions (bt_review db))) rows \<and> distinct (map x_id rows)
     \<and> distinct (map x_candidate_ordinal rows) \<and> distinct (map x_candidate_key rows)
     \<and> list_all (\<lambda>x. x_record_kind x = Some Financial \<longleftrightarrow> x_financial_subtype x \<noteq> None) rows"

definition insert_cohort :: "batch_row \<Rightarrow> extraction list \<Rightarrow> batchdb \<Rightarrow> batchdb res" where
  "insert_cohort b rows db = (if \<not> cohort_fits db b rows then Inl IntegrityError
     else Inr (on_review (\<lambda>r. r\<lparr>batches := batches r @ [b], extractions := extractions r @ rows\<rparr>) db))"

definition same_replay :: "batch_args \<Rightarrow> mapping_set_snapshot option \<Rightarrow> pystr \<Rightarrow> batch_row \<Rightarrow> bool" where
  "same_replay a mapping digest b \<longleftrightarrow> b_normalized_sha256 b = bc_normalized_sha256 a
     \<and> b_structure_fingerprint b = bc_structure_fingerprint a \<and> b_mapping_set b = mapping_identity mapping
     \<and> b_candidate_count b = int (length (bc_candidates a)) \<and> b_reconciliation_digest b = digest
     \<and> b_producer b = strip (bc_producer a) \<and> b_producer_version b = strip (bc_producer_version a)
     \<and> b_origin b = strip (bc_origin a) \<and> b_producer_job_id b = bc_producer_job_id a"

definition batch_replay :: "batchdb \<Rightarrow> exact_source \<Rightarrow> batch_args \<Rightarrow> batch_row option" where
  "batch_replay db source a = find (\<lambda>b. b_source_intake_id b = es_intake_id source
     \<and> b_idempotency_key b = strip (bc_idempotency_key a)) (batches (bt_review db))"

definition update_intake :: "nat \<Rightarrow> (source_intake \<Rightarrow> source_intake) \<Rightarrow> batchdb \<Rightarrow> batchdb" where
  "update_intake i f db = db\<lparr>bt_intakes := map (\<lambda>r. if si_id r = i then f r else r) (bt_intakes db)\<rparr>"

definition settle_intake :: "source_intake_state \<Rightarrow> int \<Rightarrow> int \<Rightarrow> source_intake \<Rightarrow> source_intake" where
  "settle_intake from_state steps now r = (if si_state r = from_state
     then r\<lparr>si_state := SI_Processed, si_reason_code := None, si_retryable := False, si_failure_phase := None,
       si_version := si_version r + steps, si_updated_at := now\<rparr> else r)"

definition clear_failure :: "int \<Rightarrow> source_intake \<Rightarrow> source_intake" where
  "clear_failure now r = r\<lparr>si_reason_code := None, si_retryable := False, si_failure_phase := None, si_updated_at := now\<rparr>"

definition check_producer :: "batch_args \<Rightarrow> unit res" where
  "check_producer a =
     rbind (bounded_mapping_text (bc_producer a) 255) (\<lambda>_.
     rbind (bounded_mapping_text (bc_producer_version a) 255) (\<lambda>_.
     rbind (bounded_mapping_text (bc_origin a) 64) (\<lambda>_.
     rbind (bounded_mapping_text (bc_idempotency_key a) 255) (\<lambda>_. Inr ()))))"

definition check_candidate_count :: "batch_args \<Rightarrow> unit res" where
  "check_candidate_count a = require (length (bc_candidates a) = reconciliation_count (bc_ledger a) Mapped_Candidate
       + reconciliation_count (bc_ledger a) Residual_Generic_Candidate)
     (MappingValidationError ''candidate count does not match structural reconciliation'')"

definition cohort_rows :: "batch_args \<Rightarrow> exact_source \<Rightarrow> mapping_set_snapshot option \<Rightarrow> nat \<Rightarrow> (nat \<Rightarrow> nat) \<Rightarrow> int \<Rightarrow> extraction list" where
  "cohort_rows a source mapping batch ids now =
     map (candidate_row a source mapping batch now) (zip (map ids [0..<length (bc_candidates a)]) (bc_candidates a))"

definition add_candidate_batch :: "py_env \<Rightarrow> batch_args \<Rightarrow> nat \<Rightarrow> (nat \<Rightarrow> nat) \<Rightarrow> int \<Rightarrow> batchdb \<Rightarrow> (batch_row \<times> bool \<times> batchdb) res" where
  "add_candidate_batch env a new_id ids now db =
     rbind (validate_sha256 (bc_normalized_sha256 a)) (\<lambda>_.
     rbind (validate_sha256 (bc_structure_fingerprint a)) (\<lambda>_.
     rbind (require_current db (bc_document_id a) (bc_source_intake_id a) (bc_source_file_id a) (bc_source_version a)
       (bc_source_sha256 a)) (\<lambda>source.
     rbind (check_producer a) (\<lambda>_.
     rbind (check_candidate_count a) (\<lambda>_.
     rbind (require (map cd_candidate_ordinal (bc_candidates a) = map int [1..<Suc (length (bc_candidates a))])
       (MappingValidationError ''candidate ordinals must be contiguous and one-based'')) (\<lambda>_.
     rbind (candidate_reconciliation_digest env (bc_candidates a) (bc_ledger a)) (\<lambda>digest.
     case batch_replay db source a of
       Some b \<Rightarrow> if same_replay a None digest b then Inr (b, True, db)
         else Inl (MappingConflictError ''batch_idempotency_conflict'')
     | None \<Rightarrow>
     (case find_source_intake (es_intake_id source) db of
       None \<Rightarrow> Inl (MappingConflictError ''stale_source'')
     | Some intake \<Rightarrow>
         if si_state intake \<noteq> SI_Processing \<and> si_state intake \<noteq> SI_Processed
         then Inl (MappingConflictError ''candidate_batch_not_ready'')
         else let b = new_batch a source None digest new_id now in
           rbind (insert_cohort b (cohort_rows a source None new_id ids now) db) (\<lambda>db1.
           Inr (b, False, update_intake (si_id intake) (settle_intake SI_Processing 1 now) db1))))))))))"

definition bound_to_source :: "batch_args \<Rightarrow> exact_source \<Rightarrow> mapping_set_snapshot \<Rightarrow> bool" where
  "bound_to_source a source m \<longleftrightarrow> mp_source_intake_id m = es_intake_id source \<and> mp_document_id m = bc_document_id a
     \<and> mp_source_file_id m = es_source_file_id source \<and> mp_source_version m = es_source_version source
     \<and> mp_source_sha256 m = es_source_sha256 source \<and> mp_structure_fingerprint m = bc_structure_fingerprint a"

definition add_mapping_batch ::
    "py_env \<Rightarrow> batch_args \<Rightarrow> mapping_set_snapshot \<Rightarrow> nat \<Rightarrow> (nat \<Rightarrow> nat) \<Rightarrow> int \<Rightarrow> batchdb \<Rightarrow> (batch_row \<times> bool \<times> batchdb) res" where
  "add_mapping_batch env a m new_id ids now db =
     rbind (validate_sha256 (bc_normalized_sha256 a)) (\<lambda>_.
     rbind (validate_sha256 (bc_structure_fingerprint a)) (\<lambda>_.
     rbind (require_current db (bc_document_id a) (bc_source_intake_id a) (bc_source_file_id a) (bc_source_version a)
       (bc_source_sha256 a)) (\<lambda>source.
     rbind (require (bound_to_source a source m) (MappingConflictError ''stale_mapping_set_source'')) (\<lambda>_.
     rbind (check_producer a) (\<lambda>_.
     rbind (check_candidate_count a) (\<lambda>_.
     rbind (ledger_digest env (bc_ledger a)) (\<lambda>digest.
     case batch_replay db source a of
       Some b \<Rightarrow> if same_replay a (Some m) digest b then Inr (b, True, db)
         else Inl (MappingConflictError ''batch_idempotency_conflict'')
     | None \<Rightarrow>
     (case find_source_intake (es_intake_id source) db of
       None \<Rightarrow> Inl (MappingConflictError ''stale_source'')
     | Some intake \<Rightarrow>
         if si_state intake \<noteq> SI_Needs_Mapping \<and> si_state intake \<noteq> SI_Processed
         then Inl (MappingConflictError ''mapping_not_ready'')
         else let b = new_batch a source (Some m) digest new_id now in
           rbind (insert_cohort b (cohort_rows a source (Some m) new_id ids now) db) (\<lambda>db1.
           Inr (b, False, update_intake (si_id intake) (\<lambda>r. settle_intake SI_Needs_Mapping 2 now (clear_failure now r)) db1))))))))))"

end
