(* ===== verification/Batch_Review.thy ===== *)
theory Batch_Review
  imports Batch_Store
begin

text \<open>
  Review of candidate cohorts, \<^verbatim>\<open>ReviewBatchRepo\<close> of \<^verbatim>\<open>src/clerksan/db/repositories.py\<close>: validated decision
  revisions, their order, versions and effect on the cohort. The environment collects the parameters of the
  components used: canonical digests, date and decimal parsing of reviewed values, bill normalization, the bill constraints, \<^verbatim>\<open>str(Decimal)\<close>, UUID parsing and
  \<^verbatim>\<open>datetime.isoformat\<close>.
\<close>

record batch_env =
  ev_py :: py_env
  ev_values :: value_env
  ev_recurring :: recurring_env
  ev_bill :: bill_env
  ev_decimal_str :: "decimal_value \<Rightarrow> pystr"
  ev_uuid :: "pystr \<Rightarrow> nat option"
  ev_timestamp :: "int \<Rightarrow> pystr"

abbreviation invalid_decision :: exn where
  "invalid_decision \<equiv> ReviewBatchValidationError ''invalid_review_decision''"

subsection \<open>Decision drafts\<close>

record decision_draft =
  dd_extraction_id :: nat
  dd_expected_version :: int
  dd_expected_revision :: int
  dd_action :: pyval
  dd_corrected_payload :: pyval
  dd_corrected_subtype :: pyval
  dd_exclusion_reason :: pyval

datatype draft_input = Draft decision_draft | Mapping_Draft "(pystr, pyval) dict" | Other_Draft

record decision =
  de_extraction_id :: nat
  de_expected_version :: int
  de_expected_revision :: int
  de_action :: decision_action
  de_corrections :: "(pystr, pyval) dict option"
  de_subtype :: "financial_subtype option"
  de_reason :: "pystr option"

definition max_review_decisions :: nat where "max_review_decisions = 100"
definition max_review_request_bytes :: nat where "max_review_request_bytes = 262144"
definition max_corrected_payload_bytes :: nat where "max_corrected_payload_bytes = 65536"
definition max_correction_depth :: nat where "max_correction_depth = 12"
definition max_correction_string :: nat where "max_correction_string = 8192"

definition bounded_review_text :: "pyval \<Rightarrow> nat \<Rightarrow> pystr res" where
  "bounded_review_text v limit = (case v of
     PStr s \<Rightarrow> let c = strip s in
       if c = [] \<or> 0 \<in> set c \<or> limit < length c then Inl invalid_decision else Inr c
   | _ \<Rightarrow> Inl invalid_decision)"

text \<open>Whether a correction tree is within its bounds, as a function of the nesting depth.\<close>

definition key_fits :: "pystr \<Rightarrow> bool" where
  "key_fits k \<longleftrightarrow> k \<noteq> [] \<and> length k \<le> 255 \<and> 0 \<notin> set k"

primrec correction_tree :: "pyval \<Rightarrow> nat \<Rightarrow> bool" where
  "correction_tree (PDict d) = (\<lambda>depth. depth \<le> max_correction_depth
     \<and> list_all (\<lambda>(k, f). key_fits k \<and> f (Suc depth)) (map (map_prod id correction_tree) d))"
| "correction_tree (PList vs) = (\<lambda>depth. depth \<le> max_correction_depth \<and> length vs \<le> 1000
     \<and> list_all (\<lambda>f. f (Suc depth)) (map correction_tree vs))"
| "correction_tree (PStr s) = (\<lambda>depth. depth \<le> max_correction_depth \<and> length s \<le> max_correction_string \<and> 0 \<notin> set s)"
| "correction_tree PNone = (\<lambda>depth. depth \<le> max_correction_depth)"
| "correction_tree (PBool b) = (\<lambda>depth. depth \<le> max_correction_depth)"
| "correction_tree (PInt i) = (\<lambda>depth. depth \<le> max_correction_depth)"
| "correction_tree (PFloat r) = (\<lambda>depth. depth \<le> max_correction_depth)"
| "correction_tree PNonFinite = (\<lambda>depth. depth \<le> max_correction_depth)"
| "correction_tree (PUuid n) = (\<lambda>depth. False)"
| "correction_tree (PObject n) = (\<lambda>depth. False)"

definition decision_action_value :: "decision_action \<Rightarrow> pystr" where
  "decision_action_value a = u (case a of Include \<Rightarrow> ''include'' | Exclude \<Rightarrow> ''exclude'')"

definition decision_action_of :: "pyval \<Rightarrow> decision_action option" where
  "decision_action_of v = find (\<lambda>a. PStr (decision_action_value a) = v) [Include, Exclude]"

definition financial_subtype_of :: "pyval \<Rightarrow> financial_subtype option" where
  "financial_subtype_of v = find (\<lambda>s. PStr (financial_subtype_value s) = v)
     [FS_Transaction, FS_Receipt, FS_Invoice, FS_Bill, FS_Recurring_Bill, FS_Quote, FS_Other]"

definition get_or_none :: "(pystr, pyval) dict \<Rightarrow> string \<Rightarrow> pyval" where
  "get_or_none d k = (case dict_get d (u k) of Some v \<Rightarrow> v | None \<Rightarrow> PNone)"

definition allowed_decision_fields :: "pystr list" where
  "allowed_decision_fields = map u [''extraction_id'', ''expected_extraction_version'', ''expected_decision_revision'',
     ''action'', ''corrected_payload'', ''corrections'', ''corrected_financial_subtype'', ''exclusion_reason'']"

definition mapping_draft :: "batch_env \<Rightarrow> (pystr, pyval) dict \<Rightarrow> decision_draft res" where
  "mapping_draft env d =
     (if \<not> fst ` set d \<subseteq> set allowed_decision_fields then Inl invalid_decision
      else if dict_get d (u ''corrected_payload'') \<noteq> None \<and> dict_get d (u ''corrections'') \<noteq> None then Inl invalid_decision
      else case (case dict_get d (u ''extraction_id'') of Some (PUuid n) \<Rightarrow> Some n | Some (PStr s) \<Rightarrow> ev_uuid env s | _ \<Rightarrow> None,
          dict_get d (u ''expected_extraction_version''), dict_get d (u ''expected_decision_revision''), dict_get d (u ''action'')) of
        (Some i, Some (PInt v), Some (PInt r), Some a) \<Rightarrow>
          Inr \<lparr>dd_extraction_id = i, dd_expected_version = v, dd_expected_revision = r, dd_action = a,
            dd_corrected_payload = (case dict_get d (u ''corrected_payload'') of Some p \<Rightarrow> p | None \<Rightarrow> get_or_none d ''corrections''),
            dd_corrected_subtype = get_or_none d ''corrected_financial_subtype'',
            dd_exclusion_reason = get_or_none d ''exclusion_reason''\<rparr>
      | _ \<Rightarrow> Inl invalid_decision)"

definition checked_corrections :: "batch_env \<Rightarrow> pyval \<Rightarrow> (pystr, pyval) dict option res" where
  "checked_corrections env v = (case v of
     PNone \<Rightarrow> Inr None
   | PDict d \<Rightarrow>
       if \<not> correction_tree v 0 then Inl invalid_decision
       else (case canonical_json (te_float_repr (ev_py env)) v of
           Inl _ \<Rightarrow> Inl invalid_decision
         | Inr text \<Rightarrow> if max_corrected_payload_bytes < length text then Inl invalid_decision else Inr (Some d))
   | _ \<Rightarrow> Inl invalid_decision)"

definition normalize_review_decision :: "batch_env \<Rightarrow> draft_input \<Rightarrow> decision res" where
  "normalize_review_decision env x =
     rbind (case x of Draft d \<Rightarrow> Inr d | Mapping_Draft m \<Rightarrow> mapping_draft env m | Other_Draft \<Rightarrow> Inl invalid_decision) (\<lambda>d.
     rbind (require (1 \<le> dd_expected_version d) invalid_decision) (\<lambda>_.
     rbind (require (0 \<le> dd_expected_revision d) invalid_decision) (\<lambda>_.
     case decision_action_of (dd_action d) of
       None \<Rightarrow> Inl invalid_decision
     | Some action \<Rightarrow>
     rbind (if dd_corrected_subtype d = PNone then Inr None
            else case financial_subtype_of (dd_corrected_subtype d) of None \<Rightarrow> Inl invalid_decision | Some s \<Rightarrow> Inr (Some s)) (\<lambda>subtype.
     rbind (checked_corrections env (dd_corrected_payload d)) (\<lambda>corrections.
     rbind (case dd_exclusion_reason d of PNone \<Rightarrow> Inr None
            | v \<Rightarrow> rbind (bounded_review_text v 2048) (\<lambda>s. Inr (Some s))) (\<lambda>reason.
     Inr \<lparr>de_extraction_id = dd_extraction_id d, de_expected_version = dd_expected_version d,
          de_expected_revision = dd_expected_revision d, de_action = action, de_corrections = corrections,
          de_subtype = subtype, de_reason = reason\<rparr>))))))"

subsection \<open>Decisions on a candidate\<close>

definition as_decision_error :: "'a res \<Rightarrow> 'a res" where
  "as_decision_error r = (case r of Inl (ValueError m) \<Rightarrow> Inl invalid_decision
     | Inl (RecurringBillNormalizationError m) \<Rightarrow> Inl invalid_decision | _ \<Rightarrow> r)"

definition record_corrections :: "(pystr, pyval) dict \<Rightarrow> (pystr, pyval) dict" where
  "record_corrections c = filter (\<lambda>kv. fst kv \<notin> set bill_projection_correction_fields) c"

definition validate_financial :: "batch_env \<Rightarrow> extraction \<Rightarrow> (pystr, pyval) dict \<Rightarrow> financial_subtype option \<Rightarrow> unit res" where
  "validate_financial env x c corrected =
     rbind (require (fst ` set c \<subseteq> set correction_fields \<union> set bill_correction_fields) invalid_decision) (\<lambda>_.
     case (if corrected \<noteq> None then corrected else x_financial_subtype x) of
       None \<Rightarrow> Inl invalid_decision
     | Some subtype \<Rightarrow>
     rbind (require (subtype = FS_Recurring_Bill \<or> fst ` set c \<inter> set bill_projection_correction_fields = {}) invalid_decision) (\<lambda>_.
     as_decision_error (rbind (verified_values_of (ev_values env) (x_payload x) (record_corrections c)) (\<lambda>vals.
       if subtype = FS_Recurring_Bill then
         rbind (dv_less (Finite_Dec 0) (vv_total_amount vals)) (\<lambda>positive.
         if \<not> positive then Inl (ValueError ''recurring-bill total_amount must be greater than zero'')
         else rbind (normalize_recurring_bill_payload (ev_recurring env) (x_payload x) c) (\<lambda>_. Inr ()))
       else Inr ()))))"

definition validate_review_decision :: "batch_env \<Rightarrow> extraction \<Rightarrow> decision \<Rightarrow> unit res" where
  "validate_review_decision env x d =
     (if de_action d = Exclude then
        rbind (require (de_corrections d = None \<and> de_subtype d = None) invalid_decision) (\<lambda>_.
        require (case de_reason d of None \<Rightarrow> False | Some s \<Rightarrow> strip s \<noteq> []) invalid_decision)
      else if de_reason d \<noteq> None then Inl invalid_decision
      else case x_record_kind x of
        Some Generic_Document \<Rightarrow> require (de_corrections d = None \<and> de_subtype d = None) invalid_decision
      | Some Financial \<Rightarrow> validate_financial env x (case de_corrections d of None \<Rightarrow> [] | Some c \<Rightarrow> c) (de_subtype d)
      | None \<Rightarrow> Inl invalid_decision)"

text \<open>The latest decision of a candidate: the one with the highest revision.\<close>

definition decisions_on :: "nat \<Rightarrow> nat \<Rightarrow> batchdb \<Rightarrow> review_decision list" where
  "decisions_on batch x db = filter (\<lambda>d. dc_batch_id d = batch \<and> dc_extraction_id d = x) (bt_decisions db)"

definition latest_decision :: "nat \<Rightarrow> batchdb \<Rightarrow> nat \<Rightarrow> review_decision option" where
  "latest_decision batch db x = (case sort_key (\<lambda>d. (dc_revision d, dc_id d)) (decisions_on batch x db) of
     [] \<Rightarrow> None | ds \<Rightarrow> Some (last ds))"

definition current_revision :: "review_decision option \<Rightarrow> int" where
  "current_revision d = (case d of None \<Rightarrow> 0 | Some r \<Rightarrow> dc_revision r)"

definition require_mutable_batch :: "batch_row \<Rightarrow> int \<Rightarrow> unit res" where
  "require_mutable_batch b expected = require (b_version b = expected \<and> b_lifecycle b \<in> {B_Open, B_Ready_To_Activate})
     (ReviewBatchConflictError ''The review batch changed after it was displayed.'')"

definition revise :: "batch_env \<Rightarrow> batchdb \<Rightarrow> nat \<Rightarrow> pystr \<Rightarrow> nat \<times> decision \<Rightarrow> review_decision res" where
  "revise env db batch actor nd = (case nd of (new_id, d) \<Rightarrow>
     (case find (\<lambda>x. x_id x = de_extraction_id d) (candidates_of batch db) of
        None \<Rightarrow> Inl (ReviewBatchConflictError ''One or more candidates no longer belong to this batch.'')
      | Some x \<Rightarrow>
          let prior = latest_decision batch db (x_id x); revision = current_revision prior in
          rbind (require (x_status x = Pending_Review \<and> x_version x = de_expected_version d \<and> revision = de_expected_revision d)
            (ReviewBatchConflictError ''A candidate or decision revision changed after it was displayed.'')) (\<lambda>_.
          rbind (validate_review_decision env x d) (\<lambda>_.
          Inr \<lparr>dc_id = new_id, dc_batch_id = batch, dc_extraction_id = x_id x, dc_revision = revision + 1,
               dc_expected_version = x_version x, dc_supersedes = map_option dc_id prior, dc_action = de_action d,
               dc_corrected_payload = de_corrections d, dc_corrected_subtype = de_subtype d,
               dc_exclusion_reason = map_option strip (de_reason d), dc_actor = actor\<rparr>))))"

definition decision_evidence :: "decision \<Rightarrow> pyval" where
  "decision_evidence d = PDict [(u ''extraction_id'', PStr (uuid_str (de_extraction_id d))),
     (u ''expected_extraction_version'', PInt (de_expected_version d)),
     (u ''expected_decision_revision'', PInt (de_expected_revision d)),
     (u ''action'', PStr (decision_action_value (de_action d))),
     (u ''corrections'', (case de_corrections d of None \<Rightarrow> PNone | Some c \<Rightarrow> PDict c)),
     (u ''corrected_financial_subtype'', opt_str (map_option financial_subtype_value (de_subtype d))),
     (u ''exclusion_reason'', opt_str (de_reason d))]"

definition update_batch :: "nat \<Rightarrow> (batch_row \<Rightarrow> batch_row) \<Rightarrow> batchdb \<Rightarrow> batchdb" where
  "update_batch i f = on_review (\<lambda>r. r\<lparr>batches := map (\<lambda>b. if b_id b = i then f b else b) (batches r)\<rparr>)"

definition decided_candidates :: "nat \<Rightarrow> batchdb \<Rightarrow> nat" where
  "decided_candidates batch db = card (dc_extraction_id ` set (filter (\<lambda>d. dc_batch_id d = batch) (bt_decisions db)))"

definition check_missing :: "nat list \<Rightarrow> nat \<Rightarrow> batchdb \<Rightarrow> unit res" where
  "check_missing ids batch db = require (list_all (\<lambda>i. list_ex (\<lambda>x. x_id x = i) (candidates_of batch db)) ids)
     (ReviewBatchConflictError ''One or more candidates no longer belong to this batch.'')"

definition checked_request :: "batch_env \<Rightarrow> int \<Rightarrow> draft_input list \<Rightarrow> pyval \<Rightarrow> (pystr \<times> decision list) res" where
  "checked_request env expected drafts actor =
     rbind (bounded_review_text actor 255) (\<lambda>cleaned_actor.
     rbind (require (1 \<le> expected) invalid_decision) (\<lambda>_.
     rbind (require (1 \<le> length drafts \<and> length drafts \<le> max_review_decisions) invalid_decision) (\<lambda>_.
     rbind (rmap (normalize_review_decision env) drafts) (\<lambda>ds.
     rbind (canonical_json (te_float_repr (ev_py env)) (PDict [(u ''expected_batch_version'', PInt expected),
         (u ''actor'', PStr cleaned_actor), (u ''decisions'', PList (map decision_evidence ds))])) (\<lambda>evidence.
     rbind (require (length evidence \<le> max_review_request_bytes) invalid_decision) (\<lambda>_.
     rbind (require (distinct (map de_extraction_id ds)) invalid_decision) (\<lambda>_.
     Inr (cleaned_actor, ds))))))))"

definition apply_decisions ::
    "batch_env \<Rightarrow> nat \<Rightarrow> int \<Rightarrow> draft_input list \<Rightarrow> pyval \<Rightarrow> (nat \<Rightarrow> nat) \<Rightarrow> int \<Rightarrow> batchdb \<Rightarrow> (review_decision list \<times> batchdb) res" where
  "apply_decisions env batch_id expected drafts actor ids now db =
     rbind (checked_request env expected drafts actor) (\<lambda>(cleaned_actor, ds).
     case find_batch batch_id db of
       None \<Rightarrow> Inl ReviewBatchNotFoundError
     | Some b \<Rightarrow>
     rbind (require_mutable_batch b expected) (\<lambda>_.
     rbind (check_missing (map de_extraction_id ds) batch_id db) (\<lambda>_.
     rbind (rmap (revise env db batch_id cleaned_actor) (zip (map ids [0..<length ds]) ds)) (\<lambda>revisions.
     let newly = length (filter (\<lambda>r. dc_revision r = 1) revisions);
         ready = (int (length (candidates_of batch_id db)) = b_candidate_count b
           \<and> int (decided_candidates batch_id db + newly) = b_candidate_count b) in
     if (\<exists>r \<in> set revisions. dc_id r \<in> dc_id ` set (bt_decisions db)) \<or> \<not> distinct (map dc_id revisions)
     then Inl (ReviewBatchConflictError ''The batch changed while its decisions were being appended.'')
     else Inr (revisions, update_batch batch_id (\<lambda>r. r\<lparr>b_lifecycle := (if ready then B_Ready_To_Activate else B_Open),
         b_version := b_version r + 1, b_updated_at := now\<rparr>) (db\<lparr>bt_decisions := bt_decisions db @ revisions\<rparr>))))))"

end
