(* ===== verification/Batch_Activation.thy ===== *)
theory Batch_Activation
  imports Batch_Review
begin

text \<open>
  Activation of a reviewed cohort, the second half of \<^verbatim>\<open>ReviewBatchRepo\<close> in \<^verbatim>\<open>src/clerksan/db/repositories.py\<close>: the
  state of every candidate, recurring-bill conflicts, the preview with the digest of the complete decision
  vector, the atomic switch of a cohort, its rejection and the guard of reprocessing. Fresh identifiers are functions
  of the candidate they are for; an error is its code with the candidate it concerns.
\<close>

type_synonym activation_error = "nat option \<times> string"

record candidate_activation =
  ca_candidate :: extraction
  ca_decision :: "review_decision option"
  ca_values :: "verified_values option"
  ca_subtype :: "financial_subtype option"
  ca_projection :: "normalized_bill option"
  ca_prior_bill :: "bill option"
  ca_correction_sha256 :: pystr
  ca_reason_sha256 :: pystr
  ca_search_sha256 :: pystr
  ca_recurring_sha256 :: pystr
  ca_errors :: "activation_error list"

subsection \<open>The state of one candidate\<close>

definition recurring_preview_version :: pystr where
  "recurring_preview_version = u ''recurring-normalizer-v1''"

definition recurring_projection_payload :: "batch_env \<Rightarrow> normalized_bill \<Rightarrow> pyval" where
  "recurring_projection_payload env p = PDict [(u ''version'', PStr recurring_preview_version),
     (u ''issuer_name'', PStr (nb_issuer_name p)), (u ''issuer_kind'', PStr (issuer_kind_value (nb_issuer_kind p))),
     (u ''billing_period'', PStr (isoformat (nb_billing_period p))),
     (u ''due_date'', opt_str (map_option isoformat (nb_due_date p))),
     (u ''consumption_value'', opt_str (map_option (ev_decimal_str env) (nb_consumption_value p))),
     (u ''consumption_unit'', opt_str (nb_consumption_unit p))]"

definition chunk_payload :: "batch_env \<Rightarrow> chunk_row \<Rightarrow> pyval res" where
  "chunk_payload env c = rbind (env_digest (ev_py env) (PList (map PFloat (ck_embedding c)))) (\<lambda>embedding.
     Inr (PDict [(u ''id'', PStr (uuid_str (ck_id c))), (u ''seq'', PInt (ck_seq c)), (u ''heading_path'', ck_heading_path c),
       (u ''text_sha256'', PStr (te_sha256 (ev_py env) (ck_text c))), (u ''embedding_sha256'', PStr embedding),
       (u ''embed_model'', PStr (ck_embed_model c)), (u ''embed_model_digest'', opt_str (ck_embed_model_digest c)),
       (u ''token_count'', PInt (ck_token_count c))]))"

definition search_manifest_digest :: "batch_env \<Rightarrow> chunk_row list \<Rightarrow> pystr res" where
  "search_manifest_digest env chunks = rbind (rmap (chunk_payload env) chunks) (\<lambda>ps. env_digest (ev_py env) (PList ps))"

definition chunks_of :: "nat \<Rightarrow> nat \<Rightarrow> batchdb \<Rightarrow> chunk_row list" where
  "chunks_of batch x db = sort_key (\<lambda>c. (ck_seq c, ck_id c))
     (filter (\<lambda>c. ck_batch_id c = Some batch \<and> ck_extraction_id c = Some x) (bt_chunks db))"

definition lineage_complete :: "extraction \<Rightarrow> bool" where
  "lineage_complete x \<longleftrightarrow> x_batch_id x \<noteq> None \<and> x_candidate_ordinal x \<noteq> None \<and> x_candidate_key x \<noteq> None
     \<and> x_record_kind x \<noteq> None \<and> x_source_locator x \<noteq> None \<and> x_row_fingerprint x \<noteq> None"

definition staged_draft :: "extraction \<Rightarrow> review_decision \<Rightarrow> decision" where
  "staged_draft x d = \<lparr>de_extraction_id = x_id x, de_expected_version = x_version x,
     de_expected_revision = max 0 (dc_revision d - 1), de_action = dc_action d,
     de_corrections = dc_corrected_payload d, de_subtype = dc_corrected_subtype d, de_reason = None\<rparr>"

text \<open>The projections of an included candidate: values, effective subtype and recurring bill.\<close>

definition included_projection ::
    "batch_env \<Rightarrow> extraction \<Rightarrow> review_decision \<Rightarrow> (verified_values option \<times> financial_subtype option \<times> normalized_bill option) res" where
  "included_projection env x d =
     (let c = (case dc_corrected_payload d of None \<Rightarrow> [] | Some c \<Rightarrow> c) in
      rbind (validate_review_decision env x (staged_draft x d)) (\<lambda>_.
      if x_record_kind x \<noteq> Some Financial then Inr (None, x_financial_subtype x, None)
      else let subtype = (if dc_corrected_subtype d \<noteq> None then dc_corrected_subtype d else x_financial_subtype x) in
        rbind (verified_values_of (ev_values env) (x_payload x) (record_corrections c)) (\<lambda>vals.
        if subtype = Some FS_Recurring_Bill then
          rbind (normalize_recurring_bill_payload (ev_recurring env) (x_payload x) c) (\<lambda>p. Inr (Some vals, subtype, Some p))
        else Inr (Some vals, subtype, None))))"

definition candidate_projection :: "batch_env \<Rightarrow> extraction \<Rightarrow> review_decision option \<Rightarrow> chunk_row list
    \<Rightarrow> (verified_values option \<times> financial_subtype option \<times> normalized_bill option \<times> string list) res" where
  "candidate_projection env x decision chunks = (case decision of
     None \<Rightarrow> Inr (None, x_financial_subtype x, None, [''decision_missing''])
   | Some d \<Rightarrow>
       if dc_expected_version d \<noteq> x_version x then Inr (None, x_financial_subtype x, None, [''decision_version_stale''])
       else if dc_action d = Exclude then Inr (None, x_financial_subtype x, None, [])
       else let missing = (if x_payload x \<noteq> [] \<and> chunks = [] then [''candidate_search_chunks_missing''] else []) in
         (case included_projection env x d of
            Inr (vals, subtype, p) \<Rightarrow> Inr (vals, subtype, p, missing)
          | Inl (ReviewBatchValidationError code) \<Rightarrow> Inr (None, x_financial_subtype x, None, code # missing)
          | Inl e \<Rightarrow> Inl e))"

definition candidate_activation_of ::
    "batch_env \<Rightarrow> extraction \<Rightarrow> review_decision option \<Rightarrow> chunk_row list \<Rightarrow> candidate_activation res" where
  "candidate_activation_of env x decision chunks =
     rbind (env_digest (ev_py env) (case Option.bind decision dc_corrected_payload of None \<Rightarrow> PNone | Some c \<Rightarrow> PDict c)) (\<lambda>correction.
     rbind (env_digest (ev_py env) (opt_str (Option.bind decision dc_exclusion_reason))) (\<lambda>reason.
     rbind (candidate_projection env x decision chunks) (\<lambda>(vals, subtype, p, codes).
     rbind (env_digest (ev_py env) (case p of
         None \<Rightarrow> PDict [(u ''version'', PStr recurring_preview_version), (u ''state'', PStr (u ''not_applicable''))]
       | Some b \<Rightarrow> recurring_projection_payload env b)) (\<lambda>recurring.
     rbind (search_manifest_digest env chunks) (\<lambda>search.
     Inr \<lparr>ca_candidate = x, ca_decision = decision, ca_values = vals, ca_subtype = subtype, ca_projection = p,
       ca_prior_bill = None, ca_correction_sha256 = correction, ca_reason_sha256 = reason, ca_search_sha256 = search,
       ca_recurring_sha256 = recurring,
       ca_errors = map (Pair (Some (x_id x))) ((if lineage_complete x then [] else [''candidate_lineage_invalid''])
         @ (if x_status x = Pending_Review then [] else [''candidate_not_pending'']) @ codes)\<rparr>)))))"

subsection \<open>Recurring conflicts\<close>

definition is_recurring :: "candidate_activation \<Rightarrow> bool" where
  "is_recurring c \<longleftrightarrow> ca_projection c \<noteq> None \<and> ca_errors c = []"

definition period_key :: "normalized_bill \<Rightarrow> pystr \<times> date" where
  "period_key p = (nb_issuer_name p, nb_billing_period p)"

definition claims :: "pystr \<times> date \<Rightarrow> candidate_activation list \<Rightarrow> candidate_activation list" where
  "claims key cs = filter (\<lambda>c. is_recurring c \<and> map_option period_key (ca_projection c) = Some key) cs"

definition add_error :: "string \<Rightarrow> candidate_activation \<Rightarrow> candidate_activation" where
  "add_error code c = c\<lparr>ca_errors := ca_errors c @ [(Some (x_id (ca_candidate c)), code)]\<rparr>"

definition recurring_conflict :: string where "recurring_conflict = ''recurring_projection_conflict''"

text \<open>The bill in force for an issuer name and a period. A dictionary comprehension keeps the last.\<close>

definition owner_of :: "billdb \<Rightarrow> pystr \<times> date \<Rightarrow> bill option" where
  "owner_of db key = (case filter (\<lambda>b. rb_superseded_at b = None \<and> rb_billing_period b = snd key
       \<and> map_option is_name (find (\<lambda>i. is_id i = rb_issuer_id b) (bd_issuers db)) = Some (fst key)) (bd_bills db) of
     [] \<Rightarrow> None | bs \<Rightarrow> Some (last bs))"

definition last_issuer :: "billdb \<Rightarrow> pystr \<Rightarrow> issuer option" where
  "last_issuer db name = find (\<lambda>i. is_name i = name) (rev (bd_issuers db))"

definition attach_owner :: "billdb \<Rightarrow> nat \<Rightarrow> nat list \<Rightarrow> normalized_bill \<Rightarrow> candidate_activation \<Rightarrow> candidate_activation" where
  "attach_owner db doc prior_ids p c =
     (case last_issuer db (nb_issuer_name p) of
        Some i \<Rightarrow> if is_kind i \<noteq> nb_issuer_kind p then add_error recurring_conflict c
          else (case owner_of db (period_key p) of
            None \<Rightarrow> c
          | Some b \<Rightarrow>
              if rb_document_id b \<noteq> doc \<or> (case find_verified (rb_verified_record_id b) db of
                   None \<Rightarrow> True | Some v \<Rightarrow> v_extracted_id v \<notin> set prior_ids)
              then add_error recurring_conflict c else c\<lparr>ca_prior_bill := Some b\<rparr>)
      | None \<Rightarrow> c)"

definition attach_recurring_conflicts :: "billdb \<Rightarrow> nat \<Rightarrow> nat list \<Rightarrow> candidate_activation list \<Rightarrow> candidate_activation list" where
  "attach_recurring_conflicts db doc prior_ids cs = map (\<lambda>c.
     (case ca_projection c of
        Some p \<Rightarrow> if ca_errors c \<noteq> [] then c
          else attach_owner db doc prior_ids p (if 1 < length (claims (period_key p) cs) then add_error recurring_conflict c else c)
      | None \<Rightarrow> c)) cs"

subsection \<open>The preview and its digest\<close>

record activation_preview =
  ap_batch :: batch_row
  ap_total_count :: nat
  ap_pending_count :: nat
  ap_included_count :: nat
  ap_excluded_count :: nat
  ap_candidate_count_matches :: bool
  ap_source_is_current :: bool
  ap_requires_accept_exclusions :: bool
  ap_requires_accept_empty :: bool
  ap_ready_for_activation :: bool
  ap_vector_sha256 :: pystr
  ap_errors :: "activation_error list"

definition payment_status_value :: "payment_status \<Rightarrow> pystr" where
  "payment_status_value s = u (case s of Paid \<Rightarrow> ''paid'' | Unpaid \<Rightarrow> ''unpaid'' | Overdue \<Rightarrow> ''overdue'')"

definition batch_payload :: "batch_row \<Rightarrow> pyval" where
  "batch_payload b = PDict [(u ''id'', PStr (uuid_str (b_id b))), (u ''version'', PInt (b_version b)),
     (u ''document_id'', PStr (uuid_str (b_document_id b))), (u ''source_intake_id'', PStr (uuid_str (b_source_intake_id b))),
     (u ''source_file_id'', PStr (uuid_str (b_source_file_id b))), (u ''source_version'', PInt (b_source_version b)),
     (u ''source_sha256'', PStr (b_source_sha256 b)), (u ''candidate_count'', PInt (b_candidate_count b)),
     (u ''reconciliation_digest'', PStr (b_reconciliation_digest b))]"

definition authority_payload :: "batch_row option \<Rightarrow> extraction list \<Rightarrow> pyval" where
  "authority_payload prior_active prior_approved = PDict [
     (u ''active_batch'', (case prior_active of None \<Rightarrow> PNone
       | Some b \<Rightarrow> PDict [(u ''id'', PStr (uuid_str (b_id b))), (u ''version'', PInt (b_version b))])),
     (u ''approved_children'', PList (map (\<lambda>x. PDict [(u ''extraction_id'', PStr (uuid_str (x_id x))),
       (u ''extraction_version'', PInt (x_version x))]) (sort_key (\<lambda>x. uuid_str (x_id x)) prior_approved)))]"

definition candidate_payload :: "(int \<Rightarrow> pystr) \<Rightarrow> candidate_activation \<Rightarrow> pyval" where
  "candidate_payload stamp c = (let x = ca_candidate c; d = ca_decision c; b = ca_prior_bill c in
     PDict [(u ''extraction_id'', PStr (uuid_str (x_id x))), (u ''extraction_version'', PInt (x_version x)),
       (u ''decision_id'', opt_str (map_option (uuid_str \<circ> dc_id) d)),
       (u ''decision_revision'', PInt (current_revision d)),
       (u ''action'', PStr (case d of None \<Rightarrow> u ''pending'' | Some r \<Rightarrow> decision_action_value (dc_action r))),
       (u ''record_kind'', opt_str (map_option record_kind_value (x_record_kind x))),
       (u ''source_financial_subtype'', opt_str (map_option financial_subtype_value (x_financial_subtype x))),
       (u ''effective_financial_subtype'', opt_str (map_option financial_subtype_value (ca_subtype c))),
       (u ''correction_sha256'', PStr (ca_correction_sha256 c)), (u ''reason_sha256'', PStr (ca_reason_sha256 c)),
       (u ''search_manifest_sha256'', PStr (ca_search_sha256 c)),
       (u ''recurring_preview_version'', PStr recurring_preview_version),
       (u ''recurring_preview_sha256'', PStr (ca_recurring_sha256 c)),
       (u ''prior_recurring_projection_id'', opt_str (map_option (uuid_str \<circ> rb_id) b)),
       (u ''prior_payment_status'', opt_str (map_option (payment_status_value \<circ> rb_payment_status) b)),
       (u ''prior_paid_at'', opt_str (map_option stamp (Option.bind b rb_paid_at)))])"

definition activation_vector :: "batch_env \<Rightarrow> batch_row \<Rightarrow> batch_row option \<Rightarrow> extraction list \<Rightarrow> candidate_activation list \<Rightarrow> pyval" where
  "activation_vector env b prior_active prior_approved cs = PDict [(u ''batch'', batch_payload b),
     (u ''prior_authority'', authority_payload prior_active prior_approved),
     (u ''candidates'', PList (map (candidate_payload (ev_timestamp env))
       (sort_key (\<lambda>c. uuid_str (x_id (ca_candidate c))) cs)))]"

definition count_or :: "batch_row \<Rightarrow> string \<Rightarrow> int" where
  "count_or b k = (case dict_get (b_reconciliation_counts b) (u k) of Some n \<Rightarrow> n | None \<Rightarrow> -1)"

definition has_action :: "decision_action \<Rightarrow> candidate_activation \<Rightarrow> bool" where
  "has_action a c \<longleftrightarrow> map_option dc_action (ca_decision c) = Some a"

definition preview_errors :: "batch_row \<Rightarrow> extraction list \<Rightarrow> candidate_activation list \<Rightarrow> bool \<Rightarrow> activation_error list" where
  "preview_errors b candidates cs source_is_current =
     (if b_lifecycle b \<in> {B_Open, B_Ready_To_Activate} then [] else [(None, ''batch_not_reviewable'')])
     @ (if source_is_current then [] else [(None, ''stale_source'')])
     @ (if int (length candidates) = b_candidate_count b
           \<and> count_or b ''mapped_candidate'' + count_or b ''residual_generic_candidate'' = b_candidate_count b
        then [] else [(None, ''candidate_reconciliation_mismatch'')])
     @ concat (map ca_errors cs)"

definition activation_preview_from_state :: "batch_env \<Rightarrow> batch_row \<Rightarrow> extraction list \<Rightarrow> candidate_activation list
    \<Rightarrow> batch_row option \<Rightarrow> extraction list \<Rightarrow> bool \<Rightarrow> activation_preview res" where
  "activation_preview_from_state env b candidates cs prior_active prior_approved source_is_current =
     (let errors = preview_errors b candidates cs source_is_current;
          pending = length (filter (\<lambda>c. ca_decision c = None) cs);
          included = length (filter (has_action Include) cs);
          excluded = length (filter (has_action Exclude) cs) in
      rbind (env_digest (ev_py env) (activation_vector env b prior_active prior_approved cs)) (\<lambda>digest.
      Inr \<lparr>ap_batch = b, ap_total_count = length candidates, ap_pending_count = pending, ap_included_count = included,
        ap_excluded_count = excluded, ap_candidate_count_matches = (int (length candidates) = b_candidate_count b),
        ap_source_is_current = source_is_current, ap_requires_accept_exclusions = (0 < excluded),
        ap_requires_accept_empty = (candidates = []),
        ap_ready_for_activation = (errors = [] \<and> pending = 0 \<and> included + excluded = length candidates),
        ap_vector_sha256 = digest, ap_errors = errors\<rparr>))"

record activation_state =
  st_batch :: batch_row
  st_document :: document_row
  st_prior_active :: "batch_row option"
  st_prior_approved :: "extraction list"
  st_prior_bills :: "bill list"
  st_candidates :: "extraction list"
  st_states :: "candidate_activation list"
  st_preview :: activation_preview

definition source_matches :: "batch_row \<Rightarrow> document_file option \<Rightarrow> source_intake option \<Rightarrow> bool" where
  "source_matches b current intake = (case (current, intake) of
     (Some f, Some i) \<Rightarrow> f_id f = b_source_file_id b \<and> f_version f = b_source_version b \<and> f_sha256 f = b_source_sha256 b
       \<and> si_document_id i = b_document_id b \<and> si_source_file_id i = b_source_file_id b
       \<and> si_source_version i = b_source_version b \<and> si_source_sha256 i = b_source_sha256 b \<and> si_state i = SI_Processed
   | _ \<Rightarrow> False)"

definition prior_active_of :: "batch_row \<Rightarrow> batchdb \<Rightarrow> batch_row option" where
  "prior_active_of b db = find (\<lambda>r. b_document_id r = b_document_id b \<and> b_id r \<noteq> b_id b \<and> b_lifecycle r = B_Active)
     (batches (bt_review db))"

definition prior_approved_of :: "batch_row \<Rightarrow> batchdb \<Rightarrow> extraction list" where
  "prior_approved_of b db = filter (\<lambda>x. x_document_id x = b_document_id b \<and> x_batch_id x = None \<and> x_status x = Approved)
       (extractions (bt_review db))
     @ (case prior_active_of b db of None \<Rightarrow> [] | Some p \<Rightarrow>
          filter (\<lambda>x. x_batch_id x = Some (b_id p) \<and> x_status x = Approved) (extractions (bt_review db)))"

definition prior_bills_of :: "extraction list \<Rightarrow> billdb \<Rightarrow> bill list" where
  "prior_bills_of prior db = filter (\<lambda>r. rb_superseded_at r = None
     \<and> (case find_verified (rb_verified_record_id r) db of None \<Rightarrow> False | Some v \<Rightarrow> v_extracted_id v \<in> x_id ` set prior)) (bd_bills db)"

definition load_activation_state :: "batch_env \<Rightarrow> nat \<Rightarrow> batchdb \<Rightarrow> activation_state res" where
  "load_activation_state env batch_id db = (case find_batch batch_id db of
     None \<Rightarrow> Inl ReviewBatchNotFoundError
   | Some b \<Rightarrow> (case find_doc (b_document_id b) (bt_review db) of
       None \<Rightarrow> Inl ReviewBatchNotFoundError
     | Some doc \<Rightarrow>
         let candidates = candidates_of batch_id db; prior = prior_approved_of b db;
             current = source_matches b (latest_original (d_files doc)) (find_source_intake (b_source_intake_id b) db) in
         rbind (rmap (\<lambda>x. candidate_activation_of env x (latest_decision batch_id db (x_id x)) (chunks_of batch_id (x_id x) db))
           candidates) (\<lambda>cs0.
         let cs = attach_recurring_conflicts (bt_bills db) (b_document_id b) (map x_id prior) cs0 in
         rbind (activation_preview_from_state env b candidates cs (prior_active_of b db) prior current) (\<lambda>preview.
         Inr \<lparr>st_batch = b, st_document = doc, st_prior_active = prior_active_of b db, st_prior_approved = prior,
           st_prior_bills = prior_bills_of prior (bt_bills db), st_candidates = candidates, st_states = cs,
           st_preview = preview\<rparr>))))"

definition activation_preview_of :: "batch_env \<Rightarrow> nat \<Rightarrow> batchdb \<Rightarrow> activation_preview res" where
  "activation_preview_of env batch_id db = rbind (load_activation_state env batch_id db) (\<lambda>st. Inr (st_preview st))"

subsection \<open>The switch of a cohort\<close>

abbreviation invalid_activation :: exn where
  "invalid_activation \<equiv> ReviewBatchValidationError ''invalid_review_activation''"

record fresh_ids =
  fr_verified :: "nat \<Rightarrow> nat"
  fr_bill :: "nat \<Rightarrow> nat"
  fr_issuer :: "nat \<Rightarrow> nat"
  fr_bill_now :: "nat \<Rightarrow> int"

definition on_bills :: "(billdb \<Rightarrow> billdb) \<Rightarrow> batchdb \<Rightarrow> batchdb" where
  "on_bills f db = db\<lparr>bt_bills := f (bt_bills db)\<rparr>"

definition retire_prior :: "activation_state \<Rightarrow> pystr \<Rightarrow> int \<Rightarrow> batchdb \<Rightarrow> batchdb" where
  "retire_prior st actor now db =
     (let db1 = on_review (update_extractions (\<lambda>x. x_id x \<in> x_id ` set (st_prior_approved st)) (supersede actor now)) db;
          db2 = on_bills (update_bills (\<lambda>r. rb_id r \<in> rb_id ` set (st_prior_bills st) \<and> rb_superseded_at r = None)
            (\<lambda>r. r\<lparr>rb_superseded_at := Some now\<rparr>)) db1 in
      case st_prior_active st of None \<Rightarrow> db2
      | Some p \<Rightarrow> update_batch (b_id p) (\<lambda>r. r\<lparr>b_lifecycle := B_Superseded, b_version := b_version r + 1, b_updated_at := now\<rparr>) db2)"

definition included_states :: "activation_state \<Rightarrow> candidate_activation list" where
  "included_states st = filter (has_action Include) (st_states st)"

definition excluded_states :: "activation_state \<Rightarrow> candidate_activation list" where
  "excluded_states st = filter (has_action Exclude) (st_states st)"

definition include_row :: "pystr \<Rightarrow> int \<Rightarrow> extraction \<Rightarrow> extraction" where
  "include_row actor now x = x\<lparr>x_status := Approved, x_version := x_version x + 1, x_reviewer := Some actor,
     x_rejection_reason := None, x_reviewed_at := Some now\<rparr>"

definition exclude_row :: "pystr \<Rightarrow> int \<Rightarrow> pystr option \<Rightarrow> extraction \<Rightarrow> extraction" where
  "exclude_row actor now reason x = x\<lparr>x_status := Superseded, x_version := x_version x + 1, x_reviewer := Some actor,
     x_rejection_reason := reason, x_reviewed_at := Some now\<rparr>"

definition settle_row :: "activation_state \<Rightarrow> pystr \<Rightarrow> int \<Rightarrow> extraction \<Rightarrow> extraction" where
  "settle_row st actor now x = (case find (\<lambda>c. x_id (ca_candidate c) = x_id x) (st_states st) of
     None \<Rightarrow> x
   | Some c \<Rightarrow> (case ca_decision c of
       None \<Rightarrow> x
     | Some d \<Rightarrow> if dc_action d = Include then include_row actor now x
         else exclude_row actor now (dc_exclusion_reason d) x))"

definition activated_batch :: "activation_state \<Rightarrow> pystr \<Rightarrow> int \<Rightarrow> batch_row \<Rightarrow> batch_row" where
  "activated_batch st actor now b = b\<lparr>b_lifecycle := B_Active, b_version := b_version b + 1,
     b_activation_vector := Some (ap_vector_sha256 (st_preview st)), b_activated_by := Some actor, b_activated_at := Some now,
     b_included_count := Some (int (length (included_states st))), b_excluded_count := Some (int (length (excluded_states st))),
     b_accepted_exclusions := (excluded_states st \<noteq> []), b_accepted_empty := (st_candidates st = []), b_updated_at := now\<rparr>"

text \<open>The partial unique index on active batches is checked when the cohort is published.\<close>

definition publish_cohort :: "activation_state \<Rightarrow> pystr \<Rightarrow> int \<Rightarrow> batchdb \<Rightarrow> batchdb res" where
  "publish_cohort st actor now db =
     (if list_ex (\<lambda>r. b_document_id r = b_document_id (st_batch st) \<and> b_id r \<noteq> b_id (st_batch st) \<and> b_lifecycle r = B_Active)
          (batches (bt_review db)) then Inl IntegrityError
      else Inr (update_batch (b_id (st_batch st)) (activated_batch st actor now)
        (on_review (\<lambda>r. set_doc_status (d_id (st_document st)) Verified_Doc
           (r\<lparr>extractions := map (settle_row st actor now) (extractions r)\<rparr>)) db)))"

definition insert_verified :: "verified \<Rightarrow> batchdb \<Rightarrow> batchdb res" where
  "insert_verified v db =
     (if \<exists>r \<in> set (verifieds (bt_review db)). v_id r = v_id v \<or> v_extracted_id r = v_extracted_id v then Inl IntegrityError
      else Inr (on_review (\<lambda>r. r\<lparr>verifieds := verifieds r @ [v]\<rparr>) db))"

definition verified_row :: "activation_state \<Rightarrow> pystr \<Rightarrow> fresh_ids \<Rightarrow> candidate_activation \<Rightarrow> verified_values \<Rightarrow> verified" where
  "verified_row st actor fr c vals = \<lparr>v_id = fr_verified fr (x_id (ca_candidate c)), v_document_id = b_document_id (st_batch st),
     v_extracted_id = x_id (ca_candidate c), v_reviewer = actor, v_values = vals\<rparr>"

fun insert_verified_rows :: "activation_state \<Rightarrow> pystr \<Rightarrow> fresh_ids \<Rightarrow> candidate_activation list \<Rightarrow> batchdb \<Rightarrow> batchdb res" where
  "insert_verified_rows st actor fr [] db = Inr db"
| "insert_verified_rows st actor fr (c # cs) db = (case ca_values c of
     None \<Rightarrow> Inl (ReviewBatchValidationError ''invalid_review_reconciliation'')
   | Some vals \<Rightarrow> rbind (insert_verified (verified_row st actor fr c vals) db) (insert_verified_rows st actor fr cs))"

definition projection_args :: "pystr \<Rightarrow> fresh_ids \<Rightarrow> candidate_activation \<Rightarrow> normalized_bill \<Rightarrow> bill_args" where
  "projection_args actor fr c p = \<lparr>ba_verified_record_id = fr_verified fr (x_id (ca_candidate c)),
     ba_issuer_name = nb_issuer_name p, ba_issuer_kind = issuer_kind_value (nb_issuer_kind p),
     ba_billing_period = nb_billing_period p, ba_due_date = nb_due_date p,
     ba_consumption_value = (case nb_consumption_value p of None \<Rightarrow> No_Consumption | Some d \<Rightarrow> Decimal_Consumption d),
     ba_consumption_unit = nb_consumption_unit p, ba_reviewer = Some actor,
     ba_review_corrections = map (\<lambda>k. (k, PBool True)) (filter (\<lambda>k. dict_get
       (case Option.bind (ca_decision c) dc_corrected_payload of None \<Rightarrow> [] | Some d \<Rightarrow> d) k \<noteq> None) bill_correction_fields)\<rparr>"

definition copy_payment :: "bill option \<Rightarrow> bill \<Rightarrow> billdb \<Rightarrow> billdb" where
  "copy_payment prior b db = (case prior of None \<Rightarrow> db
     | Some p \<Rightarrow> update_bills (\<lambda>r. rb_id r = rb_id b)
         (\<lambda>r. r\<lparr>rb_payment_status := rb_payment_status p, rb_paid_at := rb_paid_at p\<rparr>) db)"

fun record_projections :: "bill_env \<Rightarrow> pystr \<Rightarrow> fresh_ids \<Rightarrow> candidate_activation list \<Rightarrow> billdb \<Rightarrow> billdb res" where
  "record_projections env actor fr [] db = Inr db"
| "record_projections env actor fr (c # cs) db = (case ca_projection c of
     None \<Rightarrow> record_projections env actor fr cs db
   | Some p \<Rightarrow> rbind (record_verified_bill env (projection_args actor fr c p) (fr_bill fr (x_id (ca_candidate c)))
         (fr_issuer fr (x_id (ca_candidate c))) (fr_bill_now fr (x_id (ca_candidate c))) db) (\<lambda>(b, db1).
       record_projections env actor fr cs (copy_payment (ca_prior_bill c) b db1)))"

definition financial_items :: "activation_state \<Rightarrow> candidate_activation list" where
  "financial_items st = filter (\<lambda>c. x_record_kind (ca_candidate c) = Some Financial) (included_states st)"

definition switch_cohort :: "batch_env \<Rightarrow> activation_state \<Rightarrow> pystr \<Rightarrow> fresh_ids \<Rightarrow> int \<Rightarrow> batchdb \<Rightarrow> batchdb res" where
  "switch_cohort env st actor fr now db =
     rbind (publish_cohort st actor now (retire_prior st actor now db)) (\<lambda>db1.
     rbind (insert_verified_rows st actor fr (financial_items st) db1) (\<lambda>db2.
     rbind (record_projections (ev_bill env) actor fr (financial_items st) (bt_bills db2)) (\<lambda>bills.
     Inr (db2\<lparr>bt_bills := bills\<rparr>))))"

definition as_activation_error :: "'a res \<Rightarrow> 'a res" where
  "as_activation_error r = (case r of
     Inl BillConflictError \<Rightarrow> Inl (ReviewBatchValidationError ''recurring_projection_conflict'')
   | Inl (BillValidationError m) \<Rightarrow> Inl (ReviewBatchValidationError ''recurring_projection_conflict'')
   | Inl IntegrityError \<Rightarrow> Inl (ReviewBatchConflictError ''The batch changed while its cohort was being activated.'')
   | _ \<Rightarrow> r)"

record activation_result =
  ar_batch_id :: nat
  ar_document_id :: nat
  ar_batch_version :: int
  ar_lifecycle :: batch_lifecycle
  ar_vector_sha256 :: pystr
  ar_included_count :: nat
  ar_excluded_count :: nat
  ar_accepted_exclusions :: bool
  ar_accepted_empty :: bool
  ar_verified_by_extraction :: "(nat \<times> nat) list"

definition activation_result_of :: "activation_state \<Rightarrow> fresh_ids \<Rightarrow> activation_result" where
  "activation_result_of st fr = \<lparr>ar_batch_id = b_id (st_batch st), ar_document_id = b_document_id (st_batch st),
     ar_batch_version = b_version (st_batch st) + 1, ar_lifecycle = B_Active,
     ar_vector_sha256 = ap_vector_sha256 (st_preview st), ar_included_count = length (included_states st),
     ar_excluded_count = length (excluded_states st), ar_accepted_exclusions = (excluded_states st \<noteq> []),
     ar_accepted_empty = (st_candidates st = []),
     ar_verified_by_extraction = map (\<lambda>c. (x_id (ca_candidate c), fr_verified fr (x_id (ca_candidate c)))) (financial_items st)\<rparr>"

definition check_consents :: "activation_preview \<Rightarrow> bool \<Rightarrow> bool \<Rightarrow> unit res" where
  "check_consents p accept_exclusions accept_empty =
     require ((ap_requires_accept_exclusions p \<longrightarrow> accept_exclusions) \<and> (ap_requires_accept_empty p \<longrightarrow> accept_empty))
       (ReviewBatchValidationError ''activation_consent_required'')"

definition activate ::
    "batch_env \<Rightarrow> nat \<Rightarrow> int \<Rightarrow> pystr \<Rightarrow> pyval \<Rightarrow> bool \<Rightarrow> bool \<Rightarrow> fresh_ids \<Rightarrow> int \<Rightarrow> batchdb \<Rightarrow> (activation_result \<times> batchdb) res" where
  "activate env batch_id expected vector actor accept_exclusions accept_empty fr now db =
     rbind (bounded_review_text actor 255) (\<lambda>cleaned_actor.
     rbind (require (1 \<le> expected) invalid_activation) (\<lambda>_.
     rbind (require (is_sha256_hex vector) invalid_activation) (\<lambda>_.
     rbind (load_activation_state env batch_id db) (\<lambda>st.
     rbind (require_mutable_batch (st_batch st) expected) (\<lambda>_.
     rbind (require (ap_source_is_current (st_preview st))
       (ReviewBatchConflictError ''The source changed after the activation preview was displayed.'')) (\<lambda>_.
     rbind (require (vector = ap_vector_sha256 (st_preview st))
       (ReviewBatchConflictError ''The candidate decision vector changed after it was displayed.'')) (\<lambda>_.
     rbind (require (ap_errors (st_preview st) = []) (ReviewBatchValidationError ''invalid_review_reconciliation'')) (\<lambda>_.
     rbind (check_consents (st_preview st) accept_exclusions accept_empty) (\<lambda>_.
     rbind (as_activation_error (switch_cohort env st cleaned_actor fr now db)) (\<lambda>db'.
     Inr (activation_result_of st fr, db')))))))))))"

subsection \<open>Rejection and reprocessing\<close>

abbreviation invalid_rejection :: exn where
  "invalid_rejection \<equiv> ReviewBatchValidationError ''invalid_review_rejection''"

definition reject_row :: "pystr \<Rightarrow> pystr \<Rightarrow> int \<Rightarrow> extraction \<Rightarrow> extraction" where
  "reject_row actor reason now x = x\<lparr>x_status := Rejected, x_version := x_version x + 1, x_reviewer := Some actor,
     x_rejection_reason := Some reason, x_reviewed_at := Some now\<rparr>"

definition reject_cohort :: "activation_state \<Rightarrow> pystr \<Rightarrow> pystr \<Rightarrow> int \<Rightarrow> batchdb \<Rightarrow> batchdb" where
  "reject_cohort st actor reason now db =
     update_batch (b_id (st_batch st)) (\<lambda>r. r\<lparr>b_lifecycle := B_Rejected, b_version := b_version r + 1, b_updated_at := now\<rparr>)
       (on_review (\<lambda>r. set_doc_status (d_id (st_document st))
          (if st_prior_active st \<noteq> None \<or> st_prior_approved st \<noteq> [] then Verified_Doc else Needs_Reprocess)
          (update_extractions (\<lambda>x. x_id x \<in> x_id ` set (st_candidates st)) (reject_row actor reason now) r)) db)"

definition reject_batch :: "batch_env \<Rightarrow> nat \<Rightarrow> int \<Rightarrow> pyval \<Rightarrow> pyval \<Rightarrow> int \<Rightarrow> batchdb \<Rightarrow> (batch_row \<times> batchdb) res" where
  "reject_batch env batch_id expected actor reason now db =
     rbind (bounded_review_text actor 255) (\<lambda>cleaned_actor.
     rbind (bounded_review_text reason 2048) (\<lambda>cleaned_reason.
     rbind (require (1 \<le> expected) invalid_rejection) (\<lambda>_.
     rbind (load_activation_state env batch_id db) (\<lambda>st.
     rbind (require_mutable_batch (st_batch st) expected) (\<lambda>_.
     rbind (require (ap_source_is_current (st_preview st))
       (ReviewBatchConflictError ''The source changed before the batch could be rejected.'')) (\<lambda>_.
     rbind (require (list_all (\<lambda>x. x_status x = Pending_Review) (st_candidates st))
       (ReviewBatchConflictError ''One or more batch candidates are no longer pending review.'')) (\<lambda>_.
     Inr ((st_batch st)\<lparr>b_lifecycle := B_Rejected, b_version := b_version (st_batch st) + 1, b_updated_at := now\<rparr>,
       reject_cohort st cleaned_actor cleaned_reason now db))))))))"

definition lock_reprocess_intake :: "nat \<Rightarrow> int \<Rightarrow> batchdb \<Rightarrow> source_intake res" where
  "lock_reprocess_intake batch_id expected db =
     rbind (require (1 \<le> expected) invalid_rejection) (\<lambda>_.
     case find_batch batch_id db of
       None \<Rightarrow> Inl ReviewBatchNotFoundError
     | Some b \<Rightarrow>
         rbind (require_mutable_batch b expected) (\<lambda>_.
         let intake = find_source_intake (b_source_intake_id b) db;
             current = Option.bind (find_doc (b_document_id b) (bt_review db)) (\<lambda>d. latest_original (d_files d)) in
         if source_matches b current intake then Inr (the intake)
         else Inl (ReviewBatchConflictError ''The exact source changed before reprocessing could be planned.'')))"

end
