(* ===== verification/Batch_Inv.thy ===== *)
theory Batch_Inv
  imports Batch_Activation Bill_Props
begin

text \<open>
  Well-formed cohorts over every history of repository calls: candidate batches, reviewer decisions, activations and
  rejections interleaved with the single-extraction review, recurring bills and any change of intakes and chunks.
\<close>

subsection \<open>Histories\<close>

inductive batch_step :: "batchdb \<Rightarrow> batchdb \<Rightarrow> bool" where
  batch_bills: "bill_step (bt_bills db) bills \<Longrightarrow> batch_step db (db\<lparr>bt_bills := bills\<rparr>)"
| batch_context: "batch_step db (db\<lparr>bt_intakes := ins, bt_chunks := cks\<rparr>)"
| batch_candidates: "add_candidate_batch env a new_id ids now db = Inr (b, replay, db') \<Longrightarrow> batch_step db db'"
| batch_mapping: "add_mapping_batch env a m new_id ids now db = Inr (b, replay, db') \<Longrightarrow> batch_step db db'"
| batch_decide: "apply_decisions benv i expected drafts actor ids now db = Inr (ds, db') \<Longrightarrow> batch_step db db'"
| batch_activate: "activate benv i expected vector actor ex em fr now db = Inr (r, db') \<Longrightarrow> batch_step db db'"
| batch_reject: "reject_batch benv i expected actor reason now db = Inr (b, db') \<Longrightarrow> batch_step db db'"

inductive reachable_batches :: "batchdb \<Rightarrow> bool" where
  batches_empty: "reachable_batches \<lparr>bt_bills = \<lparr>bd_review = \<lparr>docs = [], extractions = [], verifieds = [], batches = []\<rparr>,
     bd_issuers = [], bd_bills = []\<rparr>, bt_intakes = [], bt_decisions = [], bt_chunks = []\<rparr>"
| batches_step: "reachable_batches db \<Longrightarrow> batch_step db db' \<Longrightarrow> reachable_batches db'"

subsection \<open>The invariant\<close>

definition one_active_batch :: "batch_row list \<Rightarrow> bool" where
  "one_active_batch bs \<longleftrightarrow> (\<forall>a \<in> set bs. \<forall>b \<in> set bs. b_lifecycle a = B_Active \<longrightarrow> b_lifecycle b = B_Active
     \<longrightarrow> b_document_id a = b_document_id b \<longrightarrow> a = b)"

definition members :: "nat \<Rightarrow> extraction list \<Rightarrow> extraction list" where
  "members i xs = filter (\<lambda>x. x_batch_id x = Some i) xs"

definition batch_sound :: "extraction list \<Rightarrow> batch_row \<Rightarrow> bool" where
  "batch_sound xs b \<longleftrightarrow> 1 \<le> b_version b \<and> int (length (members (b_id b) xs)) = b_candidate_count b
     \<and> (b_lifecycle b = B_Active \<longrightarrow> b_activation_vector b \<noteq> None \<and> b_activated_by b \<noteq> None
          \<and> (\<exists>i e. b_included_count b = Some i \<and> b_excluded_count b = Some e \<and> i + e = b_candidate_count b
               \<and> (0 < e \<longrightarrow> b_accepted_exclusions b) \<and> (i + e = 0 \<longrightarrow> b_accepted_empty b)))"

definition belongs :: "batch_row list \<Rightarrow> extraction \<Rightarrow> bool" where
  "belongs bs x \<longleftrightarrow> (\<forall>i. x_batch_id x = Some i \<longrightarrow> (\<exists>b \<in> set bs. b_id b = i \<and> b_document_id b = x_document_id x))"

definition cohorts_ok :: "reviewdb \<Rightarrow> bool" where
  "cohorts_ok r \<longleftrightarrow> distinct (map x_id (extractions r)) \<and> distinct (map v_extracted_id (verifieds r))
     \<and> distinct (map b_id (batches r)) \<and> one_active_batch (batches r)
     \<and> (\<forall>b \<in> set (batches r). batch_sound (extractions r) b) \<and> (\<forall>x \<in> set (extractions r). belongs (batches r) x)"

text \<open>The decisions on a candidate are numbered without a gap in the order in which they were taken, and each
  names the one before it.\<close>

definition on_candidate :: "nat \<Rightarrow> nat \<Rightarrow> review_decision list \<Rightarrow> review_decision list" where
  "on_candidate i x ds = filter (\<lambda>d. dc_batch_id d = i \<and> dc_extraction_id d = x) ds"

fun revision_chain :: "int \<Rightarrow> nat option \<Rightarrow> review_decision list \<Rightarrow> bool" where
  "revision_chain n prior [] \<longleftrightarrow> True"
| "revision_chain n prior (d # ds) \<longleftrightarrow> dc_revision d = n + 1 \<and> dc_supersedes d = prior \<and> revision_chain (n + 1) (Some (dc_id d)) ds"

definition decisions_ok :: "review_decision list \<Rightarrow> bool" where
  "decisions_ok ds \<longleftrightarrow> distinct (map dc_id ds) \<and> (\<forall>i x. revision_chain 0 None (on_candidate i x ds))"

definition batches_ok :: "batchdb \<Rightarrow> bool" where
  "batches_ok db \<longleftrightarrow> bills_ok (bt_bills db) \<and> cohorts_ok (bt_review db) \<and> decisions_ok (bt_decisions db)"

subsection \<open>Rows that keep their place\<close>

definition row_kept :: "extraction \<Rightarrow> extraction \<Rightarrow> bool" where
  "row_kept x y \<longleftrightarrow> x_id y = x_id x \<and> x_document_id y = x_document_id x \<and> x_batch_id y = x_batch_id x"

definition batch_kept :: "batch_row \<Rightarrow> batch_row \<Rightarrow> bool" where
  "batch_kept b c \<longleftrightarrow> b_id c = b_id b \<and> b_document_id c = b_document_id b \<and> b_candidate_count c = b_candidate_count b
     \<and> (c = b \<or> b_version c = b_version b + 1)"

lemma kept_refl [simp]: "row_kept x x" "batch_kept b b"
  by (simp_all add: row_kept_def batch_kept_def)

lemma kept_if [simp]: "row_kept x (if c then y else x) \<longleftrightarrow> (c \<longrightarrow> row_kept x y)"
    "batch_kept b (if c then d else b) \<longleftrightarrow> (c \<longrightarrow> batch_kept b d)"
  by simp_all

lemma members_simps [simp]: "members i [] = []" "members i (xs @ ys) = members i xs @ members i ys"
  by (simp_all add: members_def)

lemma members_kept:
  assumes "\<forall>x \<in> set xs. row_kept x (g x)"
  shows "members i (map g xs) = map g (members i xs)"
  using assms by (induction xs) (auto simp: members_def row_kept_def)

lemma candidates_of_members: "candidates_of i db = sort_key x_id (members i (extractions (bt_review db)))"
  by (simp add: candidates_of_def members_def)

lemma cohorts_kept:
  assumes ok: "cohorts_ok r"
    and xs: "extractions r' = map g (extractions r) @ new" "\<forall>x \<in> set (extractions r). row_kept x (g x)"
      "\<forall>x \<in> set new. x_batch_id x = None" "distinct (map x_id (extractions r'))"
    and vs: "distinct (map v_extracted_id (verifieds r'))"
    and bs: "batches r' = map h (batches r)" "\<forall>b \<in> set (batches r). batch_kept b (h b)" "one_active_batch (batches r')"
      "\<forall>b \<in> set (batches r). b_lifecycle (h b) = B_Active \<longrightarrow> h b = b \<or> batch_sound (extractions r') (h b)"
  shows "cohorts_ok r'"
proof -
  have "map b_id (batches r') = map b_id (batches r)"
    using bs(1,2) by (auto simp: batch_kept_def)
  then have ids: "distinct (map b_id (batches r'))" using ok by (simp add: cohorts_ok_def)
  have members: "length (members i (extractions r')) = length (members i (extractions r))" for i
    unfolding xs(1) members_simps members_kept [OF xs(2)] using xs(3) by (simp add: members_def filter_False)
  have sound: "batch_sound (extractions r') (h b)" if b: "b \<in> set (batches r)" for b
  proof -
    have "batch_sound (extractions r) b" "batch_kept b (h b)" using ok bs(2) b by (auto simp: cohorts_ok_def)
    then show ?thesis using bs(4) b members by (cases "b_lifecycle (h b) = B_Active") (auto simp: batch_sound_def batch_kept_def)
  qed
  have "belongs (batches r') (g x)" if x: "x \<in> set (extractions r)" for x
  proof -
    have "belongs (batches r) x" "row_kept x (g x)" using ok xs(2) x by (auto simp: cohorts_ok_def)
    then show ?thesis unfolding belongs_def bs(1) using bs(2) by (fastforce simp: row_kept_def batch_kept_def)
  qed
  moreover have "belongs (batches r') x" if "x \<in> set new" for x using xs(3) that by (simp add: belongs_def)
  ultimately show ?thesis
    unfolding cohorts_ok_def using xs(4) vs ids bs(3) sound by (auto simp: xs(1) bs(1))
qed

lemma review_step_rows:
  assumes d: "distinct (map x_id (extractions r))" "distinct (map v_extracted_id (verifieds r))" and st: "review_step r r'"
  shows "\<exists>g new. extractions r' = map g (extractions r) @ new \<and> (\<forall>x \<in> set (extractions r). row_kept x (g x))
    \<and> (\<forall>x \<in> set new. x_batch_id x = None) \<and> distinct (map x_id (extractions r'))
    \<and> distinct (map v_extracted_id (verifieds r')) \<and> batches r' = batches r"
proof -
  obtain g new where ev: "evolves r r' g new" using review_step_evolves [OF d(1) st] by blast
  have g: "extractions r' = map g (extractions r) @ new" "\<forall>x \<in> set (extractions r). row_kept x (g x)" "batches r' = batches r"
    using ev by (auto simp: evolves_def row_evolves_def row_kept_def)
  have same: "map x_id (map g (extractions r)) = map x_id (extractions r)" using g(2) by (auto simp: row_kept_def)
  have ids: "map x_id (extractions r') = map x_id (extractions r) @ map x_id new" using g(1) same by simp
  have stays: "new = []" if "extractions r' = map f (extractions r)" for f
    using arg_cong [OF that, of length] g(1) by simp
  from st have "(\<forall>x \<in> set new. x_batch_id x = None) \<and> distinct (map x_id (extractions r'))
    \<and> distinct (map v_extracted_id (verifieds r'))"
  proof cases
    case (step_add d' payload conf m pv actor sv new_id now i)
    obtain row where row: "x_id row = new_id" "x_batch_id row = None" "\<forall>x \<in> set (extractions r). x_id x \<noteq> new_id"
        "extractions r' = map (retire d' (strip actor) now) (extractions r) @ [row]" "verifieds r' = verifieds r"
      by (rule add_extraction_Inr [OF step_add])
    have "new = [row]" using trans [OF sym [OF g(1)] row(4)] by simp
    with row(1,2,3,5) d ids show ?thesis by auto
  next
    case (step_supersede d' reviewer now n)
    from supersede_pending_Inr [OF this] stays have "new = []" "verifieds r' = verifieds r" by blast+
    with d ids show ?thesis by simp
  next
    case (step_reject i reason reviewer now)
    from reject_extraction_Inr [OF this] stays have "new = []" "verifieds r' = verifieds r" by blast+
    with d ids show ?thesis by simp
  next
    case (step_promote env i v corrections reviewer new_id now k)
    obtain cand vals where "cand \<in> set (extractions r)" and x: "extractions r' = map (promoted_row i (x_document_id cand) (strip reviewer) now) (extractions r)"
      and vs: "verifieds r' = verifieds r @ [\<lparr>v_id = new_id, v_document_id = x_document_id cand,
         v_extracted_id = i, v_reviewer = strip reviewer, v_values = vals\<rparr>]"
      "\<forall>w \<in> set (verifieds r). v_extracted_id w \<noteq> i"
      by (rule promote_Inr [OF d(1) step_promote])
    from vs d ids stays [OF x] show ?thesis by auto
  next
    case (step_document doc)
    then have "new = []" using stays [of id] by simp
    with d ids step_document show ?thesis by simp
  qed
  with g show ?thesis by blast
qed

subsection \<open>Each call keeps the invariant\<close>

lemma update_batch_review:
  "bt_review (update_batch i f db) = (bt_review db)\<lparr>batches := map (\<lambda>b. if b_id b = i then f b else b) (batches (bt_review db))\<rparr>"
  "bt_decisions (update_batch i f db) = bt_decisions db"
  "bd_bills (bt_bills (update_batch i f db)) = bd_bills (bt_bills db)"
  "bd_issuers (bt_bills (update_batch i f db)) = bd_issuers (bt_bills db)"
  by (simp_all add: update_batch_def on_review_def bt_review_def)

lemma bt_review_frame [simp]:
  "bt_review (db\<lparr>bt_decisions := ds\<rparr>) = bt_review db" "bt_review (db\<lparr>bt_intakes := ins\<rparr>) = bt_review db"
  "bt_review (db\<lparr>bt_chunks := cks\<rparr>) = bt_review db" "bt_review (db\<lparr>bt_bills := bills\<rparr>) = bd_review bills"
  by (simp_all add: bt_review_def)

lemma on_review_simps [simp]:
  "bt_review (on_review f db) = f (bt_review db)" "bt_decisions (on_review f db) = bt_decisions db"
  "bd_bills (bt_bills (on_review f db)) = bd_bills (bt_bills db)" "bd_issuers (bt_bills (on_review f db)) = bd_issuers (bt_bills db)"
  "bt_intakes (on_review f db) = bt_intakes db"
  by (simp_all add: on_review_def bt_review_def)

lemma bills_ok_mono:
  assumes "bills_ok d" and "set (verifieds (bd_review d)) \<subseteq> set (verifieds (bd_review d'))"
    and "bd_bills d' = bd_bills d" "bd_issuers d' = bd_issuers d"
  shows "bills_ok d'"
  using assms bill_sound_mono [of d d'] by (auto simp: bills_ok_def)

lemma bills_ok_review:
  assumes "bills_ok (bt_bills db)" and "set (verifieds (bt_review db)) \<subseteq> set (verifieds (bt_review db'))"
    and "bd_bills (bt_bills db') = bd_bills (bt_bills db)" "bd_issuers (bt_bills db') = bd_issuers (bt_bills db)"
  shows "bills_ok (bt_bills db')"
  using assms bills_ok_mono [of "bt_bills db" "bt_bills db'"] by (simp add: bt_review_def)

lemma on_candidate_append: "on_candidate i x (ds @ es) = on_candidate i x ds @ on_candidate i x es"
  by (simp add: on_candidate_def)

lemma linear_append:
  "revision_chain n p (ds @ es) \<longleftrightarrow> revision_chain n p ds \<and> revision_chain (n + int (length ds)) (if ds = [] then p else Some (dc_id (last ds))) es"
  by (induction ds arbitrary: n p) (auto simp: algebra_simps)

lemma linear_revisions: "revision_chain n p ds \<Longrightarrow> map dc_revision ds = map (\<lambda>k. n + 1 + int k) [0..<length ds]"
proof (induction ds arbitrary: n p)
  case (Cons d ds)
  then have "dc_revision d = n + 1" "map dc_revision ds = map (\<lambda>k. n + 1 + 1 + int k) [0..<length ds]" by auto
  moreover have "[0..<length (d # ds)] = 0 # map Suc [0..<length ds]"
    unfolding map_Suc_upt by (simp add: upt_conv_Cons del: upt_Suc)
  ultimately show ?case by (simp add: comp_def add.assoc del: upt_Suc)
qed simp

lemma sort_key_sorted: "sorted_wrt (<) (map f xs) \<Longrightarrow> sort_key f xs = xs" for f :: "'a \<Rightarrow> 'b :: linorder"
  using strict_sorted_iff sort_key_id_if_sorted by blast

lemma latest_linear:
  assumes "revision_chain 0 None (on_candidate i x (bt_decisions db))"
  shows "latest_decision i db x = (if on_candidate i x (bt_decisions db) = [] then None else Some (last (on_candidate i x (bt_decisions db))))"
    and "current_revision (latest_decision i db x) = int (length (on_candidate i x (bt_decisions db)))"
proof -
  let ?ds = "on_candidate i x (bt_decisions db)"
  have revs: "map dc_revision ?ds = map (\<lambda>k. 1 + int k) [0..<length ?ds]" using linear_revisions [OF assms] by simp
  have "sorted_wrt (<) (map dc_revision ?ds)" unfolding revs by (simp add: sorted_wrt_map sorted_wrt_upt)
  then have "sorted_wrt (<) (map (\<lambda>d. (dc_revision d, dc_id d)) ?ds)"
    unfolding sorted_wrt_map by (rule sorted_wrt_mono_rel [rotated]) (auto simp: less_prod_def)
  then have "sort_key (\<lambda>d. (dc_revision d, dc_id d)) ?ds = ?ds" by (rule sort_key_sorted)
  then show latest: "latest_decision i db x = (if ?ds = [] then None else Some (last ?ds))"
    by (auto simp: latest_decision_def decisions_on_def on_candidate_def split: list.splits)
  have "dc_revision (last ?ds) = int (length ?ds)" if "?ds \<noteq> []"
    using that arg_cong [OF revs, of last] by (cases "length ?ds") (simp_all add: last_map)
  with latest show "current_revision (latest_decision i db x) = int (length ?ds)" by (auto simp: current_revision_def)
qed

lemma cohorts_insert:
  assumes ok: "cohorts_ok (bt_review db)" and ins: "insert_cohort b rows db = Inr db'"
    and rows: "\<forall>x \<in> set rows. x_batch_id x = Some (b_id b) \<and> x_document_id x = b_document_id b"
    and b: "int (length rows) = b_candidate_count b" "b_lifecycle b = B_Open" "b_version b = 1"
  shows "cohorts_ok (bt_review db') \<and> bt_decisions db' = bt_decisions db
    \<and> bills_ok (bt_bills db') = bills_ok (bt_bills db)"
proof -
  let ?r = "bt_review db"
  from ins have fits: "cohort_fits db b rows"
    and db': "db' = on_review (\<lambda>r. r\<lparr>batches := batches r @ [b], extractions := extractions r @ rows\<rparr>) db"
    by (auto simp: insert_cohort_def split: if_splits)
  have fresh: "b_id b \<notin> b_id ` set (batches ?r)" "x_id ` set rows \<inter> x_id ` set (extractions ?r) = {}" "distinct (map x_id rows)"
    using fits by (auto simp: cohort_fits_def list_all_iff)
  have "x_batch_id x \<noteq> Some (b_id b)" if "x \<in> set (extractions ?r)" for x
  proof
    assume "x_batch_id x = Some (b_id b)"
    with ok that obtain c where "c \<in> set (batches ?r)" "b_id c = b_id b"
      unfolding cohorts_ok_def belongs_def by blast
    with fresh(1) show False by (metis imageI)
  qed
  then have old: "members (b_id b) (extractions ?r) = []" by (simp add: members_def filter_empty_conv)
  have new: "members (b_id b) rows = rows" "\<And>i. i \<noteq> b_id b \<Longrightarrow> members i rows = []"
    using rows by (auto simp: members_def filter_empty_conv)
  have sound: "batch_sound (extractions ?r @ rows) c" if "c \<in> set (batches ?r) \<or> c = b" for c
  proof (cases "c = b")
    case True
    then show ?thesis using old new(1) b by (simp add: batch_sound_def)
  next
    case False
    with that have c: "c \<in> set (batches ?r)" by simp
    then have "b_id c \<noteq> b_id b" using fresh(1) by (metis imageI)
    with c ok new(2) show ?thesis by (auto simp: cohorts_ok_def batch_sound_def)
  qed
  have "belongs (batches ?r @ [b]) x" if "x \<in> set (extractions ?r) \<or> x \<in> set rows" for x
    using that ok rows by (fastforce simp: cohorts_ok_def belongs_def)
  moreover have "one_active_batch (batches ?r @ [b])" using ok b(2) by (auto simp: cohorts_ok_def one_active_batch_def)
  ultimately have "cohorts_ok (?r\<lparr>batches := batches ?r @ [b], extractions := extractions ?r @ rows\<rparr>)"
    using ok fresh sound by (auto simp: cohorts_ok_def)
  moreover have "bills_ok (bt_bills db') = bills_ok (bt_bills db)"
    by (simp add: db' bills_ok_def bill_sound_def on_review_def bt_review_def)
  ultimately show ?thesis by (simp add: db')
qed

lemma cohort_rows_place:
  "\<forall>x \<in> set (cohort_rows a source m i ids now). x_batch_id x = Some i \<and> x_document_id x = bc_document_id a"
  "length (cohort_rows a source m i ids now) = length (bc_candidates a)"
  by (auto simp: cohort_rows_def candidate_row_def)

lemma cohort_insertion_ok:
  assumes ok: "batches_ok db"
    and ins: "insert_cohort (new_batch a source m digest new_id now) (cohort_rows a source m new_id ids now) db = Inr db1"
  shows "batches_ok (update_intake i f db1)"
proof -
  from ok have "cohorts_ok (bt_review db)" by (simp add: batches_ok_def)
  from cohorts_insert [OF this ins] have "cohorts_ok (bt_review db1) \<and> bt_decisions db1 = bt_decisions db
      \<and> bills_ok (bt_bills db1) = bills_ok (bt_bills db)"
    using cohort_rows_place [of a source m new_id ids now] by (simp add: new_batch_def)
  with ok show ?thesis by (simp add: batches_ok_def update_intake_def bt_review_def)
qed

lemma add_candidate_batch_ok:
  assumes "add_candidate_batch env a new_id ids now db = Inr (b, replay, db')" "batches_ok db"
  shows "batches_ok db'"
proof -
  from assms(1) consider "db' = db"
    | source digest k db1 where "insert_cohort (new_batch a source None digest new_id now)
        (cohort_rows a source None new_id ids now) db = Inr db1" "db' = update_intake k (settle_intake SI_Processing 1 now) db1"
    by (auto simp: add_candidate_batch_def Let_def res_simps split: option.splits if_splits)
  then show ?thesis using assms(2) cohort_insertion_ok by cases auto
qed

lemma add_mapping_batch_ok:
  assumes "add_mapping_batch env a m new_id ids now db = Inr (b, replay, db')" "batches_ok db"
  shows "batches_ok db'"
proof -
  from assms(1) consider "db' = db"
    | source digest k db1 where "insert_cohort (new_batch a source (Some m) digest new_id now)
        (cohort_rows a source (Some m) new_id ids now) db = Inr db1"
        "db' = update_intake k (\<lambda>r. settle_intake SI_Needs_Mapping 2 now (clear_failure now r)) db1"
    by (auto simp: add_mapping_batch_def Let_def res_simps split: option.splits if_splits)
  then show ?thesis using assms(2) cohort_insertion_ok by cases auto
qed

subsection \<open>Decisions\<close>

lemma filter_distinct_key:
  "distinct (map f xs) \<Longrightarrow> filter (\<lambda>x. f x = k) xs = [] \<or> (\<exists>x \<in> set xs. f x = k \<and> filter (\<lambda>x. f x = k) xs = [x])"
proof (induction xs)
  case (Cons x xs)
  then show ?case by (cases "f x = k") (auto simp: filter_empty_conv image_iff)
qed simp

lemma revise_Inr:
  assumes "revise env db i actor (k, d) = Inr r"
  shows "dc_id r = k \<and> dc_batch_id r = i \<and> dc_extraction_id r = de_extraction_id d
    \<and> dc_revision r = current_revision (latest_decision i db (dc_extraction_id r)) + 1
    \<and> dc_supersedes r = map_option dc_id (latest_decision i db (dc_extraction_id r)) \<and> dc_action r = de_action d"
  using assms by (auto simp: revise_def Let_def res_simps split: option.splits dest!: find_SomeD)

lemma revisions_Inr:
  assumes "rmap (revise env db i actor) (zip ks ds) = Inr rs" "length ks = length ds"
  shows "map dc_extraction_id rs = map de_extraction_id ds \<and> (\<forall>r \<in> set rs. dc_batch_id r = i
    \<and> dc_revision r = current_revision (latest_decision i db (dc_extraction_id r)) + 1
    \<and> dc_supersedes r = map_option dc_id (latest_decision i db (dc_extraction_id r)))"
  using assms(2,1)
proof (induction ks ds arbitrary: rs rule: list_induct2)
  case (Cons k ks d ds)
  then obtain r rs' where "revise env db i actor (k, d) = Inr r" "rmap (revise env db i actor) (zip ks ds) = Inr rs'" "rs = r # rs'"
    by (auto simp: res_simps)
  with Cons.IH revise_Inr show ?case by fastforce
qed simp

lemma decisions_append:
  assumes ok: "decisions_ok (bt_decisions db)" and rs: "\<forall>r \<in> set rs. dc_batch_id r = i
      \<and> dc_revision r = current_revision (latest_decision i db (dc_extraction_id r)) + 1
      \<and> dc_supersedes r = map_option dc_id (latest_decision i db (dc_extraction_id r))"
    and d: "distinct (map dc_extraction_id rs)" "distinct (map dc_id rs)" "\<forall>r \<in> set rs. dc_id r \<notin> dc_id ` set (bt_decisions db)"
  shows "decisions_ok (bt_decisions db @ rs)"
proof -
  have "revision_chain 0 None (on_candidate j x (bt_decisions db @ rs))" for j x
  proof -
    let ?old = "on_candidate j x (bt_decisions db)"
    have old: "revision_chain 0 None ?old" using ok by (simp add: decisions_ok_def)
    show ?thesis
    proof (cases "on_candidate j x rs")
      case Nil
      with old show ?thesis by (simp add: on_candidate_append)
    next
      case (Cons r more)
      then have mem: "r \<in> set rs" "dc_batch_id r = j" "dc_extraction_id r = x"
        unfolding on_candidate_def filter_eq_Cons_iff by auto
      then have "i = j" using rs by auto
      have "on_candidate j x rs = filter (\<lambda>r. dc_extraction_id r = x) rs"
        unfolding on_candidate_def using rs \<open>i = j\<close> by (auto intro: filter_cong)
      with filter_distinct_key [OF d(1), of x] Cons have "on_candidate j x rs = [r]" by auto
      with old latest_linear [OF old] rs mem \<open>i = j\<close> show ?thesis by (auto simp: on_candidate_append linear_append)
    qed
  qed
  moreover from d(3) have "\<forall>k \<in> dc_id ` set rs. k \<notin> dc_id ` set (bt_decisions db)" by (simp only: ball_simps)
  then have "dc_id ` set (bt_decisions db) \<inter> dc_id ` set rs = {}" by (meson disjoint_iff)
  ultimately show ?thesis using ok d(2) by (simp add: decisions_ok_def)
qed

lemma update_batch_cohorts:
  assumes ok: "cohorts_ok r" and f: "\<And>b. b_id b = i \<Longrightarrow> batch_kept b (f b)" "\<And>b. b_lifecycle (f b) \<noteq> B_Active"
    and g: "\<And>x. row_kept x (g x)"
  shows "cohorts_ok (r\<lparr>batches := map (\<lambda>b. if b_id b = i then f b else b) (batches r), extractions := map g (extractions r)\<rparr>)"
proof (rule cohorts_kept [OF ok, where g = g and new = "[]" and h = "\<lambda>b. if b_id b = i then f b else b"])
  have "x_id \<circ> g = x_id" using g by (auto simp: row_kept_def)
  with ok show "distinct (map x_id (extractions (r\<lparr>batches := map (\<lambda>b. if b_id b = i then f b else b) (batches r),
      extractions := map g (extractions r)\<rparr>)))" by (simp add: cohorts_ok_def)
  show "one_active_batch (batches (r\<lparr>batches := map (\<lambda>b. if b_id b = i then f b else b) (batches r),
      extractions := map g (extractions r)\<rparr>))"
    using ok f by (auto simp: cohorts_ok_def one_active_batch_def)
qed (use ok f g in \<open>auto simp: cohorts_ok_def\<close>)

lemma apply_decisions_Inr:
  assumes "apply_decisions env i expected drafts actor ids now db = Inr (rs, db')"
  obtains b lc where "find_batch i db = Some b" "b_version b = expected" "b_lifecycle b \<in> {B_Open, B_Ready_To_Activate}"
    "lc \<in> {B_Open, B_Ready_To_Activate}" "distinct (map dc_extraction_id rs)" "distinct (map dc_id rs)"
    "\<forall>r \<in> set rs. dc_id r \<notin> dc_id ` set (bt_decisions db)"
    "\<forall>r \<in> set rs. dc_batch_id r = i
      \<and> dc_revision r = current_revision (latest_decision i db (dc_extraction_id r)) + 1
      \<and> dc_supersedes r = map_option dc_id (latest_decision i db (dc_extraction_id r))"
    "db' = update_batch i (\<lambda>r. r\<lparr>b_lifecycle := lc, b_version := b_version r + 1, b_updated_at := now\<rparr>)
      (db\<lparr>bt_decisions := bt_decisions db @ rs\<rparr>)"
proof -
  from assms obtain cleaned ds where ds: "checked_request env expected drafts actor = Inr (cleaned, ds)"
    by (auto simp: apply_decisions_def res_simps)
  then have dist: "distinct (map de_extraction_id ds)" by (auto simp: checked_request_def res_simps)
  from assms ds obtain b where b: "find_batch i db = Some b" by (auto simp: apply_decisions_def split: option.splits)
  let ?n = "length (filter (\<lambda>r. dc_revision r = 1) rs)"
  define ready where "ready \<longleftrightarrow> int (length (candidates_of i db)) = b_candidate_count b
    \<and> int (decided_candidates i db + ?n) = b_candidate_count b"
  from assms ds b have rs: "rmap (revise env db i cleaned) (zip (map ids [0..<length ds]) ds) = Inr rs"
    and mut: "b_version b = expected" "b_lifecycle b \<in> {B_Open, B_Ready_To_Activate}"
    and fresh: "\<forall>r \<in> set rs. dc_id r \<notin> dc_id ` set (bt_decisions db)" "distinct (map dc_id rs)"
    and db': "db' = update_batch i (\<lambda>r. r\<lparr>b_lifecycle := (if ready then B_Ready_To_Activate else B_Open),
      b_version := b_version r + 1, b_updated_at := now\<rparr>) (db\<lparr>bt_decisions := bt_decisions db @ rs\<rparr>)"
    by (auto simp: apply_decisions_def require_mutable_batch_def res_simps Let_def ready_def split: if_splits)
  from revisions_Inr [OF rs] dist have "distinct (map dc_extraction_id rs)" by simp
  from that [OF b mut _ this fresh(2,1) _ db'] revisions_Inr [OF rs] show thesis by simp
qed

lemma apply_decisions_ok:
  assumes "apply_decisions env i expected drafts actor ids now db = Inr (rs, db')" "batches_ok db"
  shows "batches_ok db'"
  using assms(1)
proof (rule apply_decisions_Inr)
  fix b lc
  assume lc: "lc \<in> {B_Open, B_Ready_To_Activate}" and d: "distinct (map dc_extraction_id rs)" "distinct (map dc_id rs)"
      "\<forall>r \<in> set rs. dc_id r \<notin> dc_id ` set (bt_decisions db)"
    and rs: "\<forall>r \<in> set rs. dc_batch_id r = i
      \<and> dc_revision r = current_revision (latest_decision i db (dc_extraction_id r)) + 1
      \<and> dc_supersedes r = map_option dc_id (latest_decision i db (dc_extraction_id r))"
    and db': "db' = update_batch i (\<lambda>r. r\<lparr>b_lifecycle := lc, b_version := b_version r + 1, b_updated_at := now\<rparr>)
      (db\<lparr>bt_decisions := bt_decisions db @ rs\<rparr>)"
  have "decisions_ok (bt_decisions db')" using decisions_append [OF _ rs d] assms(2) by (simp add: batches_ok_def db' update_batch_review)
  moreover have "cohorts_ok (bt_review db')"
    using update_batch_cohorts [of "bt_review db" i "\<lambda>r. r\<lparr>b_lifecycle := lc, b_version := b_version r + 1, b_updated_at := now\<rparr>" id]
      assms(2) lc by (auto simp: batches_ok_def db' update_batch_review batch_kept_def)
  moreover have "bills_ok (bt_bills db')"
    by (rule bills_ok_review [of db]) (use assms(2) in \<open>simp_all add: batches_ok_def db' update_batch_review\<close>)
  ultimately show ?thesis by (simp add: batches_ok_def)
qed

subsection \<open>The loaded state\<close>

lemma add_error_simps [simp]:
  "ca_candidate (add_error e c) = ca_candidate c" "ca_decision (add_error e c) = ca_decision c"
  "ca_values (add_error e c) = ca_values c" "ca_projection (add_error e c) = ca_projection c"
  "ca_prior_bill (add_error e c) = ca_prior_bill c" "ca_errors (add_error e c) \<noteq> []"
  by (simp_all add: add_error_def)

definition same_core :: "candidate_activation \<Rightarrow> candidate_activation \<Rightarrow> bool" where
  "same_core c e \<longleftrightarrow> ca_candidate e = ca_candidate c \<and> ca_decision e = ca_decision c \<and> ca_values e = ca_values c
     \<and> ca_projection e = ca_projection c \<and> (ca_errors e = [] \<longrightarrow> ca_errors c = [])"

lemma attach_owner_core:
  "same_core c (attach_owner db doc ids p c)"
  "ca_prior_bill (attach_owner db doc ids p c) \<noteq> ca_prior_bill c \<Longrightarrow>
     \<exists>b. ca_prior_bill (attach_owner db doc ids p c) = Some b \<and> owner_of db (period_key p) = Some b"
  by (auto simp: attach_owner_def same_core_def split: option.splits)

lemma attach_core:
  assumes "e \<in> set (attach_recurring_conflicts db doc ids cs)" "\<forall>c \<in> set cs. ca_prior_bill c = None"
  shows "\<exists>c \<in> set cs. same_core c e \<and> (\<forall>b. ca_prior_bill e = Some b \<longrightarrow> b \<in> set (bd_bills db))"
proof -
  have owner: "b \<in> set (bd_bills db)" if "owner_of db k = Some b" for k b
  proof -
    from that have "b \<in> set (filter (\<lambda>b. rb_superseded_at b = None \<and> rb_billing_period b = snd k
       \<and> map_option is_name (find (\<lambda>i. is_id i = rb_issuer_id b) (bd_issuers db)) = Some (fst k)) (bd_bills db))"
      unfolding owner_of_def by (auto split: list.splits simp del: set_filter intro: last_in_set)
    then show ?thesis by simp
  qed
  from assms(1) obtain c where c: "c \<in> set cs" and e: "e = (case ca_projection c of
        Some p \<Rightarrow> if ca_errors c \<noteq> [] then c
          else attach_owner db doc ids p (if 1 < length (claims (period_key p) cs) then add_error recurring_conflict c else c)
      | None \<Rightarrow> c)" by (auto simp: attach_recurring_conflicts_def)
  show ?thesis
  proof (cases "\<exists>p. ca_projection c = Some p \<and> ca_errors c = []")
    case False
    then have "e = c" using e by (auto split: option.splits)
    then show ?thesis using c assms(2) by (auto simp: same_core_def)
  next
    case True
    then obtain p where p: "ca_projection c = Some p" "ca_errors c = []" by blast
    define c1 where "c1 = (if 1 < length (claims (period_key p) cs) then add_error recurring_conflict c else c)"
    have "e = attach_owner db doc ids p c1" "same_core c c1" "ca_prior_bill c1 = None"
      using e p c assms(2) by (auto simp: c1_def same_core_def)
    then show ?thesis using attach_owner_core [where c = c1 and db = db and doc = doc and ids = ids and p = p] owner [of "period_key p"] c
      by (intro bexI [of _ c]) (auto simp: same_core_def)
  qed
qed

lemma attach_lists:
  "map ca_candidate (attach_recurring_conflicts db doc ids cs) = map ca_candidate cs"
  "map ca_decision (attach_recurring_conflicts db doc ids cs) = map ca_decision cs"
  using attach_owner_core(1) by (auto simp: attach_recurring_conflicts_def same_core_def split: option.splits)

lemma candidate_activation_Inr:
  assumes "candidate_activation_of env x d chunks = Inr c"
  shows "ca_candidate c = x \<and> ca_decision c = d \<and> ca_prior_bill c = None"
  using assms by (auto simp: candidate_activation_of_def res_simps)

lemma rmap_candidates:
  assumes "rmap (\<lambda>x. candidate_activation_of env x (d x) (k x)) xs = Inr cs"
  shows "map ca_candidate cs = xs \<and> map ca_decision cs = map d xs
    \<and> (\<forall>c \<in> set cs. ca_prior_bill c = None \<and> candidate_activation_of env (ca_candidate c) (d (ca_candidate c)) (k (ca_candidate c)) = Inr c)"
  using assms
proof (induction xs arbitrary: cs)
  case (Cons x xs)
  then obtain c cs' where "candidate_activation_of env x (d x) (k x) = Inr c" "cs = c # cs'"
      "rmap (\<lambda>x. candidate_activation_of env x (d x) (k x)) xs = Inr cs'" by (auto simp: res_simps)
  with Cons.IH candidate_activation_Inr show ?case by fastforce
qed simp

lemma load_activation_state_Inr:
  assumes "load_activation_state env i db = Inr st"
  obtains cs0 where "find_batch i db = Some (st_batch st)" "find_doc (b_document_id (st_batch st)) (bt_review db) = Some (st_document st)"
    "st_candidates st = candidates_of i db" "map ca_candidate (st_states st) = candidates_of i db"
    "map ca_decision (st_states st) = map (\<lambda>x. latest_decision i db (x_id x)) (candidates_of i db)"
    "st_prior_active st = prior_active_of (st_batch st) db" "st_prior_approved st = prior_approved_of (st_batch st) db"
    "st_prior_bills st = prior_bills_of (st_prior_approved st) (bt_bills db)"
    "ap_errors (st_preview st) = preview_errors (st_batch st) (st_candidates st) (st_states st) (ap_source_is_current (st_preview st))"
    "\<forall>e \<in> set (st_states st). (\<forall>b. ca_prior_bill e = Some b \<longrightarrow> b \<in> set (bd_bills (bt_bills db)))
       \<and> (\<exists>c \<in> set cs0. same_core c e)"
    "\<forall>c \<in> set cs0. candidate_activation_of env (ca_candidate c) (latest_decision i db (x_id (ca_candidate c)))
       (chunks_of i (x_id (ca_candidate c)) db) = Inr c"
    "env_digest (ev_py env) (activation_vector env (st_batch st) (st_prior_active st) (st_prior_approved st) (st_states st))
       = Inr (ap_vector_sha256 (st_preview st))"
    "ap_requires_accept_exclusions (st_preview st) = (0 < length (excluded_states st))"
    "ap_requires_accept_empty (st_preview st) = (st_candidates st = [])"
proof -
  from assms obtain b doc where b: "find_batch i db = Some b" "find_doc (b_document_id b) (bt_review db) = Some doc"
    by (auto simp: load_activation_state_def split: option.splits)
  let ?xs = "candidates_of i db" and ?prior = "prior_approved_of b db"
  let ?current = "source_matches b (latest_original (d_files doc)) (find_source_intake (b_source_intake_id b) db)"
  from assms b obtain cs0 preview where cs0: "rmap (\<lambda>x. candidate_activation_of env x (latest_decision i db (x_id x))
        (chunks_of i (x_id x) db)) ?xs = Inr cs0"
    and preview: "activation_preview_from_state env b ?xs (attach_recurring_conflicts (bt_bills db) (b_document_id b)
        (map x_id ?prior) cs0) (prior_active_of b db) ?prior ?current = Inr preview"
    and st: "st = \<lparr>st_batch = b, st_document = doc, st_prior_active = prior_active_of b db, st_prior_approved = ?prior,
       st_prior_bills = prior_bills_of ?prior (bt_bills db), st_candidates = ?xs,
       st_states = attach_recurring_conflicts (bt_bills db) (b_document_id b) (map x_id ?prior) cs0, st_preview = preview\<rparr>"
    by (auto simp: load_activation_state_def Let_def res_simps)
  note cs = rmap_candidates [OF cs0]
  show thesis
    by (rule that [of cs0])
      (use b cs preview st attach_lists attach_core [of _ "bt_bills db" "b_document_id b" "map x_id ?prior" cs0] in
        \<open>auto simp: activation_preview_from_state_def res_simps Let_def excluded_states_def\<close>)
qed

subsection \<open>The switch\<close>

lemma insert_verified_Inr:
  assumes "insert_verified v db = Inr db'"
  shows "db' = on_review (\<lambda>r. r\<lparr>verifieds := verifieds r @ [v]\<rparr>) db"
    and "distinct (map v_extracted_id (verifieds (bt_review db))) \<Longrightarrow> distinct (map v_extracted_id (verifieds (bt_review db')))"
proof -
  from assms show db': "db' = on_review (\<lambda>r. r\<lparr>verifieds := verifieds r @ [v]\<rparr>) db"
    by (auto simp: insert_verified_def split: if_splits)
  from assms have "\<forall>r \<in> set (verifieds (bt_review db)). v_extracted_id r \<noteq> v_extracted_id v"
    by (auto simp: insert_verified_def split: if_splits)
  then show "distinct (map v_extracted_id (verifieds (bt_review db))) \<Longrightarrow> distinct (map v_extracted_id (verifieds (bt_review db')))"
    by (auto simp: db')
qed

lemma insert_verified_rows_Inr:
  assumes "insert_verified_rows st actor fr cs db = Inr db'"
  shows "(\<forall>c \<in> set cs. ca_values c \<noteq> None)
    \<and> bt_review db' = (bt_review db)\<lparr>verifieds := verifieds (bt_review db) @ map (\<lambda>c. verified_row st actor fr c (the (ca_values c))) cs\<rparr>
    \<and> bt_decisions db' = bt_decisions db \<and> bd_bills (bt_bills db') = bd_bills (bt_bills db)
    \<and> bd_issuers (bt_bills db') = bd_issuers (bt_bills db)"
  using assms
proof (induction cs arbitrary: db)
  case (Cons c cs)
  from Cons.prems obtain vals db1 where c: "ca_values c = Some vals"
      "insert_verified (verified_row st actor fr c vals) db = Inr db1" "insert_verified_rows st actor fr cs db1 = Inr db'"
    by (auto simp: res_simps)
  with Cons.IH [OF c(3)] insert_verified_Inr(1) [OF c(2)] show ?case by simp
qed simp

lemma insert_verified_rows_distinct:
  assumes "insert_verified_rows st actor fr cs db = Inr db'" "distinct (map v_extracted_id (verifieds (bt_review db)))"
  shows "distinct (map v_extracted_id (verifieds (bt_review db')))"
  using assms
proof (induction cs arbitrary: db)
  case (Cons c cs)
  from Cons.prems(1) obtain vals db1 where "insert_verified (verified_row st actor fr c vals) db = Inr db1"
      "insert_verified_rows st actor fr cs db1 = Inr db'" by (auto simp: res_simps)
  with Cons.IH insert_verified_Inr(2) Cons.prems(2) show ?case by blast
qed simp

definition payment_sound :: "bill \<Rightarrow> bool" where
  "payment_sound b \<longleftrightarrow> (rb_payment_status b = Paid \<longleftrightarrow> rb_paid_at b \<noteq> None) \<and> rb_payment_status b \<noteq> Overdue"

lemma copy_payment_ok:
  assumes "bills_ok db" "\<forall>p. prior = Some p \<longrightarrow> payment_sound p"
  shows "bills_ok (copy_payment prior b db) \<and> bd_review (copy_payment prior b db) = bd_review db"
proof (cases prior)
  case (Some p)
  have "bills_ok (update_bills (\<lambda>r. rb_id r = rb_id b) (\<lambda>r. r\<lparr>rb_payment_status := rb_payment_status p, rb_paid_at := rb_paid_at p\<rparr>) db)"
    by (rule update_bills_ok) (use assms Some in \<open>auto simp: keeps_bill_def bill_sound_def payment_sound_def\<close>)
  with Some show ?thesis by (simp add: copy_payment_def update_bills_def)
qed (use assms in \<open>simp add: copy_payment_def\<close>)

lemma record_projections_ok:
  assumes "record_projections env actor fr cs db = Inr db'" "bills_ok db"
    "\<forall>c \<in> set cs. \<forall>p. ca_prior_bill c = Some p \<longrightarrow> payment_sound p"
  shows "bills_ok db' \<and> bd_review db' = bd_review db"
  using assms
proof (induction cs arbitrary: db)
  case (Cons c cs)
  show ?case
  proof (cases "ca_projection c")
    case (Some p)
    with Cons.prems(1) obtain b db1 where b: "record_verified_bill env (projection_args actor fr c p) (fr_bill fr (x_id (ca_candidate c)))
         (fr_issuer fr (x_id (ca_candidate c))) (fr_bill_now fr (x_id (ca_candidate c))) db = Inr (b, db1)"
      "record_projections env actor fr cs (copy_payment (ca_prior_bill c) b db1) = Inr db'" by (auto simp: res_simps)
    have 1: "bills_ok db1" "bd_review db1 = bd_review db" using record_verified_bill_ok [OF b(1) Cons.prems(2)] by auto
    with copy_payment_ok [OF 1(1), of "ca_prior_bill c" b] Cons.prems(3) Cons.IH [OF b(2)] show ?thesis by simp
  qed (use Cons in simp)
qed simp

definition retired :: "activation_state \<Rightarrow> pystr \<Rightarrow> int \<Rightarrow> extraction \<Rightarrow> extraction" where
  "retired st actor now x = (if x_id x \<in> x_id ` set (st_prior_approved st) then supersede actor now x else x)"

definition retired_batch :: "activation_state \<Rightarrow> int \<Rightarrow> batch_row \<Rightarrow> batch_row" where
  "retired_batch st now b = (case st_prior_active st of None \<Rightarrow> b
     | Some p \<Rightarrow> if b_id b = b_id p then b\<lparr>b_lifecycle := B_Superseded, b_version := b_version b + 1, b_updated_at := now\<rparr> else b)"

definition switched_batch :: "activation_state \<Rightarrow> pystr \<Rightarrow> int \<Rightarrow> batch_row \<Rightarrow> batch_row" where
  "switched_batch st actor now b =
     (if b_id b = b_id (st_batch st) then activated_batch st actor now (retired_batch st now b) else retired_batch st now b)"

lemma on_bills_simps [simp]:
  "bt_review (on_bills (update_bills P f) db) = bt_review db" "bt_decisions (on_bills g db) = bt_decisions db"
  "bt_bills (on_bills g db) = g (bt_bills db)"
  by (simp_all add: on_bills_def bt_review_def update_bills_def)

definition retired_bills :: "activation_state \<Rightarrow> int \<Rightarrow> billdb \<Rightarrow> billdb" where
  "retired_bills st now = update_bills (\<lambda>r. rb_id r \<in> rb_id ` set (st_prior_bills st) \<and> rb_superseded_at r = None)
     (\<lambda>r. r\<lparr>rb_superseded_at := Some now\<rparr>)"

lemma retire_prior_review:
  "bt_review (retire_prior st actor now db) = (bt_review db)\<lparr>extractions := map (retired st actor now) (extractions (bt_review db)),
     batches := map (retired_batch st now) (batches (bt_review db))\<rparr>"
  "bt_decisions (retire_prior st actor now db) = bt_decisions db"
  "bd_issuers (bt_bills (retire_prior st actor now db)) = bd_issuers (bt_bills db)"
  "bd_bills (bt_bills (retire_prior st actor now db)) = bd_bills (retired_bills st now (bt_bills db))"
  by (cases "st_prior_active st"; simp add: retire_prior_def Let_def update_batch_review update_extractions_def
      retired_def [abs_def] retired_batch_def [abs_def] retired_bills_def update_bills_def)+

lemma retire_prior_bills:
  assumes "bills_ok (bt_bills db)"
  shows "bills_ok (bt_bills (retire_prior st actor now db))"
proof (rule bills_ok_mono)
  show "bills_ok (retired_bills st now (bt_bills db))"
    unfolding retired_bills_def by (rule update_bills_ok [OF assms]) (auto simp: keeps_bill_def bill_sound_def)
  have "verifieds (bt_review (retire_prior st actor now db)) = verifieds (bt_review db)" by (simp add: retire_prior_review)
  then show "set (verifieds (bd_review (retired_bills st now (bt_bills db))))
      \<subseteq> set (verifieds (bd_review (bt_bills (retire_prior st actor now db))))"
    by (simp add: retired_bills_def update_bills_def bt_review_def)
qed (simp_all add: retire_prior_review retired_bills_def update_bills_def)

lemma retired_batch_kept [simp]:
  "b_document_id (retired_batch st now r) = b_document_id r" "b_id (retired_batch st now r) = b_id r"
  by (simp_all add: retired_batch_def split: option.split)

lemma retired_batch_active: "b_lifecycle (retired_batch st now r) = B_Active \<Longrightarrow> retired_batch st now r = r"
  by (cases "st_prior_active st"; cases "b_id r = b_id (the (st_prior_active st))") (simp_all add: retired_batch_def)

lemma switch_cohort_Inr:
  assumes "switch_cohort env st actor fr now db = Inr db'" "bills_ok (bt_bills db)"
    and priors: "\<forall>c \<in> set (st_states st). \<forall>p. ca_prior_bill c = Some p \<longrightarrow> p \<in> set (bd_bills (bt_bills db))"
  shows "extractions (bt_review db') = map (settle_row st actor now \<circ> retired st actor now) (extractions (bt_review db))"
    and "batches (bt_review db') = map (switched_batch st actor now) (batches (bt_review db))"
    and "verifieds (bt_review db') = verifieds (bt_review db)
      @ map (\<lambda>c. verified_row st actor fr c (the (ca_values c))) (financial_items st)"
    and "\<forall>c \<in> set (financial_items st). ca_values c \<noteq> None"
    and "distinct (map v_extracted_id (verifieds (bt_review db))) \<Longrightarrow> distinct (map v_extracted_id (verifieds (bt_review db')))"
    and "bt_decisions db' = bt_decisions db"
    and "bills_ok (bt_bills db')"
    and "\<forall>r \<in> set (batches (bt_review db)). b_document_id r = b_document_id (st_batch st) \<longrightarrow> b_id r \<noteq> b_id (st_batch st)
      \<longrightarrow> b_lifecycle (retired_batch st now r) \<noteq> B_Active"
proof -
  let ?db0 = "retire_prior st actor now db"
  from assms(1) obtain db1 db2 bills where db1: "publish_cohort st actor now ?db0 = Inr db1"
    and db2: "insert_verified_rows st actor fr (financial_items st) db1 = Inr db2"
    and bills: "record_projections (ev_bill env) actor fr (financial_items st) (bt_bills db2) = Inr bills"
    and db': "db' = db2\<lparr>bt_bills := bills\<rparr>" by (auto simp: switch_cohort_def res_simps)
  from db1 have pub: "db1 = update_batch (b_id (st_batch st)) (activated_batch st actor now)
        (on_review (\<lambda>r. set_doc_status (d_id (st_document st)) Verified_Doc
           (r\<lparr>extractions := map (settle_row st actor now) (extractions r)\<rparr>)) ?db0)"
    and idx: "\<not> list_ex (\<lambda>r. b_document_id r = b_document_id (st_batch st) \<and> b_id r \<noteq> b_id (st_batch st) \<and> b_lifecycle r = B_Active)
          (batches (bt_review ?db0))" by (auto simp: publish_cohort_def split: if_splits)
  note rows = insert_verified_rows_Inr [OF db2]
  have b1: "bills_ok (bt_bills db1)"
    by (rule bills_ok_review [OF retire_prior_bills [OF assms(2)]])
      (auto simp: pub update_batch_review set_doc_status_def)
  have b2: "bills_ok (bt_bills db2)" by (rule bills_ok_review [OF b1]) (use rows in auto)
  have sound: "\<forall>c \<in> set (financial_items st). \<forall>p. ca_prior_bill c = Some p \<longrightarrow> payment_sound p"
    using priors assms(2) by (auto simp: financial_items_def included_states_def bills_ok_def bill_sound_def payment_sound_def)
  note r = record_projections_ok [OF bills b2 sound]
  have review: "bt_review db' = bt_review db2" using r by (simp add: db' bt_review_def)
  show "extractions (bt_review db') = map (settle_row st actor now \<circ> retired st actor now) (extractions (bt_review db))"
    "verifieds (bt_review db') = verifieds (bt_review db) @ map (\<lambda>c. verified_row st actor fr c (the (ca_values c))) (financial_items st)"
    using rows by (simp_all add: review pub update_batch_review set_doc_status_def retire_prior_review)
  show "batches (bt_review db') = map (switched_batch st actor now) (batches (bt_review db))"
    using rows by (simp add: review pub update_batch_review set_doc_status_def retire_prior_review switched_batch_def [abs_def] comp_def)
  show "\<forall>c \<in> set (financial_items st). ca_values c \<noteq> None" using rows by blast
  show "distinct (map v_extracted_id (verifieds (bt_review db'))) " if "distinct (map v_extracted_id (verifieds (bt_review db)))"
    unfolding review by (rule insert_verified_rows_distinct [OF db2])
      (use that in \<open>simp add: pub update_batch_review set_doc_status_def retire_prior_review\<close>)
  show "bt_decisions db' = bt_decisions db" using rows by (simp add: db' pub update_batch_review retire_prior_review)
  show "bills_ok (bt_bills db')" using r by (simp add: db')
  show "\<forall>r \<in> set (batches (bt_review db)). b_document_id r = b_document_id (st_batch st) \<longrightarrow> b_id r \<noteq> b_id (st_batch st)
      \<longrightarrow> b_lifecycle (retired_batch st now r) \<noteq> B_Active"
    using idx by (auto simp: retire_prior_review list_ex_iff)
qed

lemma find_batch_mem: "find_batch i db = Some b \<Longrightarrow> b \<in> set (batches (bt_review db)) \<and> b_id b = i"
  by (auto simp: find_batch_def dest: find_SomeD)

lemma activate_Inr:
  assumes "activate env i expected vector actor ex em fr now db = Inr (res, db')"
  obtains st who where "load_activation_state env i db = Inr st" "b_version (st_batch st) = expected"
    "b_lifecycle (st_batch st) \<in> {B_Open, B_Ready_To_Activate}" "ap_source_is_current (st_preview st)"
    "vector = ap_vector_sha256 (st_preview st)" "ap_errors (st_preview st) = []"
    "0 < length (excluded_states st) \<Longrightarrow> ex" "st_candidates st = [] \<Longrightarrow> em"
    "switch_cohort env st who fr now db = Inr db'" "res = activation_result_of st fr"
proof -
  from assms obtain st who where st: "load_activation_state env i db = Inr st" "require_mutable_batch (st_batch st) expected = Inr ()"
      "ap_source_is_current (st_preview st)" "vector = ap_vector_sha256 (st_preview st)" "ap_errors (st_preview st) = []"
      "check_consents (st_preview st) ex em = Inr ()" "as_activation_error (switch_cohort env st who fr now db) = Inr db'"
      "res = activation_result_of st fr"
    by (auto simp: activate_def res_simps)
  have "switch_cohort env st who fr now db = Inr db'"
    using st(7) by (auto simp: as_activation_error_def split: sum.splits exn.splits)
  moreover have "(0 < length (excluded_states st) \<longrightarrow> ex) \<and> (st_candidates st = [] \<longrightarrow> em)"
    by (rule load_activation_state_Inr [OF st(1)]) (use st(6) in \<open>simp add: check_consents_def res_simps\<close>)
  ultimately show thesis
    using that [OF st(1)] st by (simp add: require_mutable_batch_def res_simps)
qed

lemma decided_split:
  assumes "\<forall>c \<in> set cs. ca_decision c \<noteq> None"
  shows "length (filter (has_action Include) cs) + length (filter (has_action Exclude) cs) = length cs"
  using assms
proof (induction cs)
  case (Cons c cs)
  then obtain d where "ca_decision c = Some d" by auto
  with Cons show ?case by (cases "dc_action d") (auto simp: has_action_def)
qed simp

lemma candidate_errors:
  assumes "candidate_activation_of env x d chunks = Inr c" "ca_errors c = []"
  obtains r where "d = Some r" "dc_expected_version r = x_version x" "x_status x = Pending_Review" "lineage_complete x"
    "dc_action r = Include \<longrightarrow> (\<exists>subtype p. included_projection env x r = Inr (ca_values c, subtype, p))"
proof -
  from assms obtain vals subtype p codes where proj: "candidate_projection env x d chunks = Inr (vals, subtype, p, codes)"
    and c: "ca_values c = vals" "codes = []" "x_status x = Pending_Review" "lineage_complete x"
    by (auto simp: candidate_activation_of_def res_simps split: if_splits)
  from proj c(2) obtain r where r: "d = Some r" "dc_expected_version r = x_version x"
    by (cases d) (auto simp: candidate_projection_def split: if_splits)
  moreover have "dc_action r = Include \<longrightarrow> (\<exists>subtype p. included_projection env x r = Inr (ca_values c, subtype, p))"
    using proj c(1,2) r by (auto simp: candidate_projection_def Let_def split: if_splits sum.splits exn.splits)
  ultimately show thesis using that c(3,4) by blast
qed

lemma settled_kept: "row_kept x (settle_row st actor now (retired st actor now x))"
proof -
  have "row_kept y (settle_row st actor now y)" "row_kept x (retired st actor now x)" for y
    by (auto simp: settle_row_def row_kept_def include_row_def exclude_row_def retired_def supersede_def split: option.splits)
  then show ?thesis by (auto simp: row_kept_def)
qed

lemma settled_distinct:
  "distinct (map x_id xs) \<Longrightarrow> distinct (map (x_id \<circ> (settle_row st actor now \<circ> retired st actor now)) xs)"
proof -
  have "x_id \<circ> (settle_row st actor now \<circ> retired st actor now) = x_id" using settled_kept by (auto simp: row_kept_def)
  then show "distinct (map x_id xs) \<Longrightarrow> ?thesis" by simp
qed

lemma no_preview_errors:
  assumes "load_activation_state env i db = Inr st" "ap_errors (st_preview st) = []"
  shows "\<forall>c \<in> set (st_states st). ca_errors c = []" "int (length (st_candidates st)) = b_candidate_count (st_batch st)"
    "\<forall>c \<in> set (st_states st). ca_decision c \<noteq> None" "length (st_states st) = length (st_candidates st)"
proof -
  obtain cs0 where err: "ap_errors (st_preview st) = preview_errors (st_batch st) (st_candidates st) (st_states st) (ap_source_is_current (st_preview st))"
    and core: "\<forall>e \<in> set (st_states st). \<exists>c \<in> set cs0. same_core c e"
    and act: "\<forall>c \<in> set cs0. candidate_activation_of env (ca_candidate c) (latest_decision i db (x_id (ca_candidate c)))
       (chunks_of i (x_id (ca_candidate c)) db) = Inr c"
    and xs: "map ca_candidate (st_states st) = st_candidates st"
    by (rule load_activation_state_Inr [OF assms(1)], rule that) auto
  show none: "\<forall>c \<in> set (st_states st). ca_errors c = []" "int (length (st_candidates st)) = b_candidate_count (st_batch st)"
    using err assms(2) by (auto simp: preview_errors_def split: if_splits)
  show "length (st_states st) = length (st_candidates st)" using arg_cong [OF xs, of length] by simp
  show "\<forall>c \<in> set (st_states st). ca_decision c \<noteq> None"
  proof
    fix e
    assume e: "e \<in> set (st_states st)"
    with core none(1) obtain c where "c \<in> set cs0" "same_core c e" "ca_errors c = []" by (auto simp: same_core_def)
    with act candidate_errors [of env "ca_candidate c" "latest_decision i db (x_id (ca_candidate c))" "chunks_of i (x_id (ca_candidate c)) db" c]
      candidate_activation_Inr show "ca_decision e \<noteq> None" by (metis option.discI same_core_def)
  qed
qed

lemma prior_active_Some:
  "prior_active_of b db = Some p \<Longrightarrow> p \<in> set (batches (bt_review db)) \<and> b_document_id p = b_document_id b
     \<and> b_id p \<noteq> b_id b \<and> b_lifecycle p = B_Active"
  by (auto simp: prior_active_of_def dest: find_SomeD)

lemma switched_one_active:
  assumes ok: "one_active_batch bs" and "distinct (map b_id bs)" and "b \<in> set bs" and b: "b_id b = b_id (st_batch st)"
      "b_document_id b = b_document_id (st_batch st)"
    and rest: "\<forall>r \<in> set bs. b_document_id r = b_document_id (st_batch st) \<longrightarrow> b_id r \<noteq> b_id (st_batch st)
      \<longrightarrow> b_lifecycle (retired_batch st now r) \<noteq> B_Active"
  shows "one_active_batch (map (switched_batch st actor now) bs)"
proof -
  let ?h = "switched_batch st actor now"
  have unique: "c = b" if "c \<in> set bs" "b_id c = b_id b" for c
    using assms(2,3) that by (metis distinct_map inj_on_def)
  have doc: "b_document_id (?h c) = b_document_id c" for c by (simp add: switched_batch_def activated_batch_def)
  have kept: "b_lifecycle c = B_Active" if c: "c \<in> set bs" "c \<noteq> b" "b_lifecycle (?h c) = B_Active" for c
  proof -
    have "b_id c \<noteq> b_id (st_batch st)" using unique c(1,2) b(1) by metis
    with c(3) have "b_lifecycle (retired_batch st now c) = B_Active" by (simp add: switched_batch_def)
    with retired_batch_active show ?thesis by metis
  qed
  have "?h c = ?h d" if c: "c \<in> set bs" and d: "d \<in> set bs" and "b_lifecycle (?h c) = B_Active" "b_lifecycle (?h d) = B_Active"
    "b_document_id c = b_document_id d" for c d
  proof -
    have other: "e = b" if "e \<in> set bs" "b_document_id e = b_document_id b" "b_lifecycle (?h e) = B_Active" for e
      using that rest b unique by (auto simp: switched_batch_def split: if_splits)
    show ?thesis
    proof (cases "c = b \<or> d = b")
      case True
      with other c d that show ?thesis by auto
    next
      case False
      with kept that have "b_lifecycle c = B_Active" "b_lifecycle d = B_Active" by blast+
      with ok c d that have "c = d" unfolding one_active_batch_def by blast
      then show ?thesis by simp
    qed
  qed
  then show ?thesis by (auto simp: one_active_batch_def doc)
qed

lemma retired_self:
  assumes "load_activation_state env i db = Inr st" "b_id c = b_id (st_batch st)"
  shows "retired_batch st now c = c"
proof -
  have "st_prior_active st = prior_active_of (st_batch st) db"
    by (rule load_activation_state_Inr [OF assms(1)]) simp
  then show ?thesis using assms(2) prior_active_Some [of "st_batch st" db]
    by (cases "prior_active_of (st_batch st) db") (simp_all add: retired_batch_def)
qed

lemma switched_kept:
  assumes "load_activation_state env i db = Inr st"
  shows "batch_kept c (switched_batch st who now c)"
proof (cases "b_id c = b_id (st_batch st)")
  case True
  with retired_self [OF assms True] show ?thesis by (simp add: batch_kept_def switched_batch_def activated_batch_def)
next
  case False
  then show ?thesis by (cases "st_prior_active st") (simp_all add: batch_kept_def switched_batch_def retired_batch_def)
qed

lemma activated_sound:
  assumes "batch_sound xs c" "length (members (b_id c) ys) = length (members (b_id c) xs)"
    "length (included_states st) + length (excluded_states st) = length (st_candidates st)"
    "int (length (st_candidates st)) = b_candidate_count c"
  shows "batch_sound ys (activated_batch st who now c)"
proof -
  have "int (length (included_states st)) + int (length (excluded_states st)) = b_candidate_count c"
    using assms(3,4) by linarith
  moreover have "st_candidates st = []" if "b_candidate_count c = 0" using assms(4) that by simp
  ultimately show ?thesis using assms(1,2) by (simp add: batch_sound_def activated_batch_def)
qed

lemma activate_ok:
  assumes "activate env i expected vector actor ex em fr now db = Inr (res, db')" and ok: "batches_ok db"
  shows "batches_ok db'"
proof -
  obtain st who where st: "load_activation_state env i db = Inr st" "ap_errors (st_preview st) = []"
      "switch_cohort env st who fr now db = Inr db'"
    by (rule activate_Inr [OF assms(1)], rule that) auto
  obtain cs0 where b: "find_batch i db = Some (st_batch st)" and prior: "st_prior_active st = prior_active_of (st_batch st) db"
    and bills: "\<forall>e \<in> set (st_states st). \<forall>b. ca_prior_bill e = Some b \<longrightarrow> b \<in> set (bd_bills (bt_bills db))"
    and cands: "st_candidates st = candidates_of i db"
    by (rule load_activation_state_Inr [OF st(1)], rule that) auto
  note none = no_preview_errors [OF st(1,2)]
  note co = ok [unfolded batches_ok_def] and mem = find_batch_mem [OF b]
  note sw = switch_cohort_Inr [OF st(3) co [THEN conjunct1] bills]
  let ?r = "bt_review db" and ?h = "switched_batch st who now"
  have self: "retired_batch st now c = c" if "b_id c = b_id (st_batch st)" for c
    using retired_self [OF st(1) that] .
  have kept: "batch_kept c (?h c)" for c using switched_kept [OF st(1)] .
  have one: "one_active_batch (batches (bt_review db'))"
    unfolding sw(2)
    by (rule switched_one_active [where b = "st_batch st"]) (use co mem sw(8) in \<open>auto simp: cohorts_ok_def\<close>)
  have sound: "?h c = c \<or> batch_sound (extractions (bt_review db')) (?h c)" if c: "c \<in> set (batches ?r)" "b_lifecycle (?h c) = B_Active" for c
  proof (cases "b_id c = b_id (st_batch st)")
    case True
    then have "c = st_batch st" using co mem c(1) by (metis cohorts_ok_def distinct_map inj_on_def)
    moreover have "batch_sound (extractions ?r) c" using co c(1) by (simp add: cohorts_ok_def)
    moreover have "length (members (b_id c) (extractions (bt_review db'))) = length (members (b_id c) (extractions ?r))"
      using members_kept [of "extractions ?r" "settle_row st who now \<circ> retired st who now"] settled_kept
      by (simp add: sw(1))
    moreover have "length (included_states st) + length (excluded_states st) = length (st_candidates st)"
      using decided_split [OF none(3)] none(4) by (simp add: included_states_def excluded_states_def)
    ultimately have "batch_sound (extractions (bt_review db')) (activated_batch st who now c)"
      using none(2) by (intro activated_sound) simp_all
    with True show ?thesis by (simp add: switched_batch_def self)
  next
    case False
    with c(2) retired_batch_active [of st now c] show ?thesis by (simp add: switched_batch_def)
  qed
  have "cohorts_ok (bt_review db')"
  proof (rule cohorts_kept [where r = ?r and g = "settle_row st who now \<circ> retired st who now" and new = "[]" and h = ?h])
    show "distinct (map x_id (extractions (bt_review db')))" using co settled_distinct by (simp add: sw(1) cohorts_ok_def)
    show "distinct (map v_extracted_id (verifieds (bt_review db')))" using co by (intro sw(5)) (simp add: cohorts_ok_def)
  qed (use co sw(1,2) kept settled_kept one sound in \<open>simp_all\<close>)
  with sw(6,7) co show ?thesis by (simp add: batches_ok_def)
qed

subsection \<open>Rejection and the other calls\<close>

lemma reject_batch_Inr:
  assumes "reject_batch env i expected actor reason now db = Inr (b, db')"
  obtains st who why where "load_activation_state env i db = Inr st" "b_version (st_batch st) = expected"
    "b_lifecycle (st_batch st) \<in> {B_Open, B_Ready_To_Activate}"
    "\<forall>x \<in> set (st_candidates st). x_status x = Pending_Review" "db' = reject_cohort st who why now db"
  using assms by (auto simp: reject_batch_def res_simps require_mutable_batch_def list_all_iff)

lemma reject_cohort_review:
  "extractions (bt_review (reject_cohort st who why now db)) = map (\<lambda>x. if x_id x \<in> x_id ` set (st_candidates st)
     then reject_row who why now x else x) (extractions (bt_review db))"
  "batches (bt_review (reject_cohort st who why now db)) = map (\<lambda>b. if b_id b = b_id (st_batch st)
     then b\<lparr>b_lifecycle := B_Rejected, b_version := b_version b + 1, b_updated_at := now\<rparr> else b) (batches (bt_review db))"
  "verifieds (bt_review (reject_cohort st who why now db)) = verifieds (bt_review db)"
  "bt_decisions (reject_cohort st who why now db) = bt_decisions db"
  "bd_bills (bt_bills (reject_cohort st who why now db)) = bd_bills (bt_bills db)"
  "bd_issuers (bt_bills (reject_cohort st who why now db)) = bd_issuers (bt_bills db)"
  by (simp_all add: reject_cohort_def update_batch_review set_doc_status_def update_extractions_def)

lemma one_active_map:
  assumes "one_active_batch bs" "\<And>b. b \<in> set bs \<Longrightarrow> b_lifecycle (h b) = B_Active \<Longrightarrow> h b = b"
  shows "one_active_batch (map h bs)"
  unfolding one_active_batch_def
proof (clarsimp)
  fix a b
  assume ab: "a \<in> set bs" "b \<in> set bs" "b_lifecycle (h a) = B_Active" "b_lifecycle (h b) = B_Active"
    "b_document_id (h a) = b_document_id (h b)"
  then have "h a = a" "h b = b" using assms(2) by blast+
  with ab assms(1) show "h a = h b" unfolding one_active_batch_def by metis
qed

lemma reject_cohort_ok:
  assumes "batches_ok db"
  shows "batches_ok (reject_cohort st who why now db)"
proof -
  let ?r = "bt_review db" and ?db' = "reject_cohort st who why now db"
  let ?g = "\<lambda>x. if x_id x \<in> x_id ` set (st_candidates st) then reject_row who why now x else x"
  let ?h = "\<lambda>b. if b_id b = b_id (st_batch st) then b\<lparr>b_lifecycle := B_Rejected, b_version := b_version b + 1, b_updated_at := now\<rparr> else b"
  have co: "cohorts_ok ?r" using assms by (simp add: batches_ok_def)
  have ids: "x_id \<circ> ?g = x_id" by (simp add: fun_eq_iff reject_row_def)
  have kept: "row_kept x (?g x)" "batch_kept b (?h b)" for x b by (simp_all add: row_kept_def reject_row_def batch_kept_def)
  have "cohorts_ok (bt_review ?db')"
  proof (rule cohorts_kept [OF co, where g = ?g and new = "[]" and h = ?h])
    show "distinct (map x_id (extractions (bt_review ?db')))" using co ids by (simp add: reject_cohort_review cohorts_ok_def)
    show "distinct (map v_extracted_id (verifieds (bt_review ?db')))" using co by (simp add: reject_cohort_review cohorts_ok_def)
    show "one_active_batch (batches (bt_review ?db'))" unfolding reject_cohort_review
      by (rule one_active_map) (use co in \<open>auto simp: cohorts_ok_def\<close>)
  qed (use kept in \<open>simp_all add: reject_cohort_review\<close>)
  moreover have "bills_ok (bt_bills ?db')"
    by (rule bills_ok_review [of db]) (use assms in \<open>simp_all add: batches_ok_def reject_cohort_review\<close>)
  ultimately show ?thesis using assms by (simp add: batches_ok_def reject_cohort_review)
qed

lemma mark_paid_review: "mark_paid i actor paid_at now db = Inr (b, db') \<Longrightarrow> bd_review db' = bd_review db"
  by (auto simp: mark_paid_def Let_def res_simps update_bills_def split: option.splits if_splits)

lemma bill_step_review: "bill_step db db' \<Longrightarrow> bills_ok db \<Longrightarrow> review_step (bd_review db) (bd_review db') \<or> bd_review db' = bd_review db"
  by (induction rule: bill_step.induct) (auto dest: record_verified_bill_ok mark_paid_review)

lemma cohorts_review_step:
  assumes "cohorts_ok r" "review_step r r'"
  shows "cohorts_ok r'"
proof -
  have "distinct (map x_id (extractions r))" "distinct (map v_extracted_id (verifieds r))"
    using assms(1) by (simp_all add: cohorts_ok_def)
  from review_step_rows [OF this assms(2)] obtain g new where "extractions r' = map g (extractions r) @ new"
      "\<forall>x \<in> set (extractions r). row_kept x (g x)" "\<forall>x \<in> set new. x_batch_id x = None" "distinct (map x_id (extractions r'))"
      "distinct (map v_extracted_id (verifieds r'))" "batches r' = batches r" by blast
  moreover have "one_active_batch (batches r)" using assms(1) by (simp add: cohorts_ok_def)
  ultimately show ?thesis using cohorts_kept [OF assms(1), where g = g and new = new and h = id] by simp
qed

lemma batch_step_ok: "batch_step db db' \<Longrightarrow> batches_ok db \<Longrightarrow> batches_ok db'"
proof (induction rule: batch_step.induct)
  case (batch_bills db bills)
  then have "cohorts_ok (bd_review bills)"
    using bill_step_review [OF batch_bills(1)] cohorts_review_step by (auto simp: batches_ok_def bt_review_def)
  with batch_bills bill_step_ok show ?case by (auto simp: batches_ok_def)
next
  case (batch_reject benv i expected actor reason now db b db')
  then show ?case using reject_cohort_ok reject_batch_Inr by metis
qed (auto simp: batches_ok_def [of "_ \<lparr>bt_intakes := _, bt_chunks := _\<rparr>"] batches_ok_def [of db for db]
      dest: add_candidate_batch_ok add_mapping_batch_ok apply_decisions_ok activate_ok)

lemma reachable_batches_ok: "reachable_batches db \<Longrightarrow> batches_ok db"
proof (induction rule: reachable_batches.induct)
  case batches_empty
  then show ?case
    by (simp add: batches_ok_def bills_ok_def one_active_bill_def cohorts_ok_def bt_review_def one_active_batch_def
        decisions_ok_def on_candidate_def)
qed (rule batch_step_ok)

end
