(* ===== verification/Batch_Props.thy ===== *)
theory Batch_Props
  imports Batch_Inv
begin

text \<open>
  Properties of cohort review: activation makes exactly the included financial candidates authoritative, no other
  call of the cohort review moves authority, and version-checked writes are refused once someone else has written.
\<close>

subsection \<open>The candidates of an accepted activation\<close>

lemma included_values:
  assumes "included_projection env x d = Inr (vals, subtype, p)" "x_record_kind x = Some Financial"
  shows "\<exists>v. vals = Some v \<and> verified_values_of (ev_values env) (x_payload x)
    (record_corrections (case dc_corrected_payload d of None \<Rightarrow> [] | Some c \<Rightarrow> c)) = Inr v"
  using assms by (auto simp: included_projection_def Let_def res_simps split: if_splits)

lemma activated_state:
  assumes st: "load_activation_state env i db = Inr st" "ap_errors (st_preview st) = []" and c: "c \<in> set (st_states st)"
  obtains d where "ca_decision c = Some d" "latest_decision i db (x_id (ca_candidate c)) = Some d"
    "ca_candidate c \<in> set (candidates_of i db)" "x_status (ca_candidate c) = Pending_Review"
    "dc_action d = Include \<Longrightarrow> x_record_kind (ca_candidate c) = Some Financial \<Longrightarrow> \<exists>v. ca_values c = Some v
       \<and> verified_values_of (ev_values env) (x_payload (ca_candidate c))
           (record_corrections (case dc_corrected_payload d of None \<Rightarrow> [] | Some k \<Rightarrow> k)) = Inr v"
proof -
  obtain cs0 where core: "\<forall>e \<in> set (st_states st). \<exists>c \<in> set cs0. same_core c e"
    and act: "\<forall>c \<in> set cs0. candidate_activation_of env (ca_candidate c) (latest_decision i db (x_id (ca_candidate c)))
       (chunks_of i (x_id (ca_candidate c)) db) = Inr c"
    and xs: "map ca_candidate (st_states st) = candidates_of i db"
    by (rule load_activation_state_Inr [OF st(1)], rule that) auto
  from core c no_preview_errors(1) [OF st] obtain e where e: "e \<in> set cs0" "same_core e c" "ca_errors e = []"
    by (auto simp: same_core_def)
  let ?x = "ca_candidate e"
  have run: "candidate_activation_of env ?x (latest_decision i db (x_id ?x)) (chunks_of i (x_id ?x) db) = Inr e"
    using act e(1) by blast
  from run e(3) obtain d where d: "latest_decision i db (x_id ?x) = Some d" "x_status ?x = Pending_Review"
      "dc_action d = Include \<longrightarrow> (\<exists>subtype p. included_projection env ?x d = Inr (ca_values e, subtype, p))"
    by (rule candidate_errors) auto
  have same: "ca_candidate c = ?x" "ca_decision c = ca_decision e" "ca_values c = ca_values e" using e(2) by (auto simp: same_core_def)
  have "ca_candidate c \<in> set (candidates_of i db)" using xs c by (metis image_eqI set_map)
  with d same candidate_activation_Inr [OF run] included_values show thesis by (intro that) auto
qed

lemma find_state:
  assumes "distinct (map (x_id \<circ> ca_candidate) cs)" "c \<in> set cs"
  shows "find (\<lambda>e. x_id (ca_candidate e) = x_id (ca_candidate c)) cs = Some c"
  using assms find_unique [of "x_id \<circ> ca_candidate" cs c "x_id (ca_candidate c)"] by simp

definition included_values_of :: "batch_env \<Rightarrow> nat \<Rightarrow> batchdb \<Rightarrow> (nat \<times> verified_values) set" where
  "included_values_of env i db = {(x_id x, vals) | x d vals. x \<in> set (candidates_of i db)
     \<and> latest_decision i db (x_id x) = Some d \<and> dc_action d = Include \<and> x_record_kind x = Some Financial
     \<and> verified_values_of (ev_values env) (x_payload x)
         (record_corrections (case dc_corrected_payload d of None \<Rightarrow> [] | Some c \<Rightarrow> c)) = Inr vals}"

definition authoritative_values :: "reviewdb \<Rightarrow> nat \<Rightarrow> (nat \<times> verified_values) set" where
  "authoritative_values r doc = {(v_extracted_id v, v_values v) | v. v \<in> set (active_verified r) \<and> v_document_id v = doc}"

lemma active_verified_iff:
  "v \<in> set (active_verified r) \<longleftrightarrow> v \<in> set (verifieds r) \<and> (\<exists>x \<in> set (extractions r). x_id x = v_extracted_id v
     \<and> x_document_id x = v_document_id v \<and> active_extraction_authority r x)"
  by (auto simp: active_verified_def list_ex_iff)

text \<open>What an accepted activation leaves in the tables.\<close>

definition activation_by :: "batch_env \<Rightarrow> nat \<Rightarrow> fresh_ids \<Rightarrow> int \<Rightarrow> batchdb \<Rightarrow> batchdb \<Rightarrow> activation_state \<Rightarrow> pystr \<Rightarrow> bool" where
  "activation_by env i fr now db db' st who \<longleftrightarrow> load_activation_state env i db = Inr st \<and> ap_errors (st_preview st) = []
     \<and> find_batch i db = Some (st_batch st) \<and> b_id (st_batch st) = i \<and> distinct (map (x_id \<circ> ca_candidate) (st_states st))
     \<and> set (map ca_candidate (st_states st)) = {x \<in> set (extractions (bt_review db)). x_batch_id x = Some i}
     \<and> st_prior_approved st = prior_approved_of (st_batch st) db
     \<and> extractions (bt_review db') = map (settle_row st who now \<circ> retired st who now) (extractions (bt_review db))
     \<and> batches (bt_review db') = map (switched_batch st who now) (batches (bt_review db))
     \<and> verifieds (bt_review db') = verifieds (bt_review db)
         @ map (\<lambda>c. verified_row st who fr c (the (ca_values c))) (financial_items st)
     \<and> (\<forall>r \<in> set (batches (bt_review db)). b_document_id r = b_document_id (st_batch st) \<longrightarrow> b_id r \<noteq> i
         \<longrightarrow> b_lifecycle (retired_batch st now r) \<noteq> B_Active)"

lemma distinct_candidates:
  assumes "distinct (map x_id (extractions (bt_review db)))"
  shows "distinct (map x_id (candidates_of i db))"
proof -
  have "distinct (map x_id (filter (\<lambda>x. x_batch_id x = Some i) (extractions (bt_review db))))"
    using assms by (rule distinct_map_filter)
  then show ?thesis unfolding candidates_of_def by (metis mset_eq_imp_distinct_iff mset_map mset_sort)
qed

lemma activation_effect:
  assumes "activate env i expected vector actor ex em fr now db = Inr (res, db')" "batches_ok db"
  obtains st who where "activation_by env i fr now db db' st who" "res = activation_result_of st fr"
proof -
  obtain st who where st: "load_activation_state env i db = Inr st" "ap_errors (st_preview st) = []"
      "switch_cohort env st who fr now db = Inr db'" "res = activation_result_of st fr"
    by (rule activate_Inr [OF assms(1)], rule that) auto
  obtain cs0 where b: "find_batch i db = Some (st_batch st)" and xs: "map ca_candidate (st_states st) = candidates_of i db"
    and prior: "st_prior_approved st = prior_approved_of (st_batch st) db"
    and bills: "\<forall>e \<in> set (st_states st). \<forall>b. ca_prior_bill e = Some b \<longrightarrow> b \<in> set (bd_bills (bt_bills db))"
    by (rule load_activation_state_Inr [OF st(1)], rule that) auto
  have "distinct (map x_id (candidates_of i db))"
    using assms(2) by (intro distinct_candidates) (simp add: batches_ok_def cohorts_ok_def)
  then have d: "distinct (map (x_id \<circ> ca_candidate) (st_states st))" using xs by (metis map_map)
  have set: "set (map ca_candidate (st_states st)) = {x \<in> set (extractions (bt_review db)). x_batch_id x = Some i}"
    unfolding xs by (auto simp: candidates_of_def)
  have "bills_ok (bt_bills db)" using assms(2) by (simp add: batches_ok_def)
  note sw = switch_cohort_Inr [OF st(3) this bills]
  have id: "b_id (st_batch st) = i" using find_batch_mem [OF b] ..
  have "activation_by env i fr now db db' st who"
    unfolding activation_by_def using st(1,2) b id d set prior sw(1,2,3) sw(8) [unfolded id] by (intro conjI)
  from that [OF this st(4)] show thesis .
qed

lemma settle_candidate:
  assumes "distinct (map (x_id \<circ> ca_candidate) (st_states st))" "c \<in> set (st_states st)" "ca_decision c = Some d"
  shows "settle_row st who now (ca_candidate c) = (if dc_action d = Include then include_row who now (ca_candidate c)
    else exclude_row who now (dc_exclusion_reason d) (ca_candidate c))"
  using find_state [OF assms(1,2)] assms(3) by (simp add: settle_row_def)

lemma settle_other:
  assumes "x_id x \<notin> (x_id \<circ> ca_candidate) ` set (st_states st)"
  shows "settle_row st who now x = x"
proof -
  have "find (\<lambda>c. x_id (ca_candidate c) = x_id x) (st_states st) = None"
    using assms by (auto simp: find_None_iff image_iff)
  then show ?thesis by (simp add: settle_row_def)
qed

lemma active_in_switched:
  assumes "list_ex (\<lambda>row. b_id row = j \<and> b_document_id row = doc \<and> b_lifecycle row = B_Active) (map (switched_batch st who now) bs)"
    and "\<forall>r \<in> set bs. b_document_id r = doc \<longrightarrow> b_id r \<noteq> b_id (st_batch st) \<longrightarrow> b_lifecycle (retired_batch st now r) \<noteq> B_Active"
  shows "j = b_id (st_batch st)"
proof -
  from assms(1) obtain r where r: "r \<in> set bs" "b_id (switched_batch st who now r) = j"
      "b_document_id (switched_batch st who now r) = doc" "b_lifecycle (switched_batch st who now r) = B_Active"
    by (auto simp: list_ex_iff)
  show ?thesis
  proof (cases "b_id r = b_id (st_batch st)")
    case True
    with r(2) show ?thesis by (simp add: switched_batch_def activated_batch_def)
  next
    case False
    with r assms(2) show ?thesis by (simp add: switched_batch_def)
  qed
qed

lemma settled_fields [simp]:
  "x_id (settle_row st who now x) = x_id x" "x_document_id (settle_row st who now x) = x_document_id x"
  "x_batch_id (settle_row st who now x) = x_batch_id x" "x_record_kind (settle_row st who now x) = x_record_kind x"
  "x_id (retired st who now x) = x_id x" "x_document_id (retired st who now x) = x_document_id x"
  "x_batch_id (retired st who now x) = x_batch_id x" "x_record_kind (retired st who now x) = x_record_kind x"
  by (simp_all add: settle_row_def include_row_def exclude_row_def retired_def supersede_def split: option.split)

lemma same_row:
  assumes "distinct (map x_id (extractions r))" "x \<in> set (extractions r)" "y \<in> set (extractions r)" "x_id x = x_id y"
  shows "x = y"
  using assms by (metis distinct_map inj_on_def)

text \<open>Only members of the activated cohort keep authority over its document.\<close>

lemma authority_is_member:
  assumes a: "activation_by env i fr now db db' st who" and dist: "distinct (map x_id (extractions (bt_review db)))"
    and x: "x \<in> set (extractions (bt_review db))" "x_document_id x = b_document_id (st_batch st)"
    and auth: "active_extraction_authority (bt_review db') (settle_row st who now (retired st who now x))"
  shows "x_batch_id x = Some i"
proof (rule ccontr)
  note a = a [unfolded activation_by_def]
  assume other: "x_batch_id x \<noteq> Some i"
  have unhit: "x_id x \<notin> (x_id \<circ> ca_candidate) ` set (st_states st)"
  proof
    assume "x_id x \<in> (x_id \<circ> ca_candidate) ` set (st_states st)"
    then obtain c where c: "c \<in> set (st_states st)" "x_id (ca_candidate c) = x_id x" by auto
    then have "ca_candidate c \<in> set (extractions (bt_review db))" "x_batch_id (ca_candidate c) = Some i" using a by auto
    with same_row [OF dist _ x(1) c(2)] other show False by simp
  qed
  then have y: "settle_row st who now (retired st who now x) = retired st who now x" by (simp add: settle_other)
  then have "x_status (retired st who now x) = Approved" using auth by (simp add: active_extraction_authority_def)
  then have "x_id x \<notin> x_id ` set (st_prior_approved st)"
    by (cases "x_id x \<in> x_id ` set (st_prior_approved st)") (simp_all add: retired_def supersede_def)
  then have raw: "retired st who now x = x" "x \<notin> set (st_prior_approved st)" by (simp add: retired_def, blast)
  with auth y have auth: "active_extraction_authority (bt_review db') x" by metis
  then have app: "x_status x = Approved" by (simp add: active_extraction_authority_def)
  show False
  proof (cases "x_batch_id x")
    case None
    with app x raw(2) a show False by (simp add: prior_approved_of_def)
  next
    case (Some j)
    with auth x(2) a have "list_ex (\<lambda>row. b_id row = j \<and> b_document_id row = b_document_id (st_batch st) \<and> b_lifecycle row = B_Active)
        (map (switched_batch st who now) (batches (bt_review db)))"
      by (simp add: active_extraction_authority_def)
    from active_in_switched [OF this] a have "j = i" by simp
    with Some other show False by simp
  qed
qed

lemma prior_not_pending:
  assumes "distinct (map x_id (extractions (bt_review db)))" "st_prior_approved st = prior_approved_of (st_batch st) db"
    "x \<in> set (extractions (bt_review db))" "x_status x = Pending_Review"
  shows "retired st who now x = x"
proof -
  have "y \<in> set (extractions (bt_review db)) \<and> x_status y = Approved" if "y \<in> set (st_prior_approved st)" for y
    using that assms(2) by (auto simp: prior_approved_of_def split: option.splits)
  with assms same_row have "x_id x \<notin> x_id ` set (st_prior_approved st)" by (metis extraction_status.distinct(1) imageE)
  then show ?thesis by (simp add: retired_def)
qed

lemma included_state:
  assumes a: "activation_by env i fr now db db' st who" and ok: "batches_ok db" and c: "c \<in> set (st_states st)"
    and d: "ca_decision c = Some d" "dc_action d = Include" and fin: "x_record_kind (ca_candidate c) = Some Financial"
  obtains w where "verified_row st who fr c w \<in> set (verifieds (bt_review db'))"
    "verified_values_of (ev_values env) (x_payload (ca_candidate c))
       (record_corrections (case dc_corrected_payload d of None \<Rightarrow> [] | Some k \<Rightarrow> k)) = Inr w"
proof -
  note a = a [unfolded activation_by_def]
  from a have "load_activation_state env i db = Inr st" "ap_errors (st_preview st) = []" by simp_all
  from activated_state [OF this c] d fin obtain w where w: "ca_values c = Some w"
      "verified_values_of (ev_values env) (x_payload (ca_candidate c))
         (record_corrections (case dc_corrected_payload d of None \<Rightarrow> [] | Some k \<Rightarrow> k)) = Inr w" by (metis option.inject)
  have "c \<in> set (financial_items st)" using c d fin by (simp add: financial_items_def included_states_def has_action_def)
  with a w(1) have "verified_row st who fr c w \<in> set (verifieds (bt_review db'))" by force
  from that [OF this w(2)] show thesis .
qed

lemma activation_authority:
  assumes act: "activate env i expected vector actor ex em fr now db = Inr (res, db')" and ok: "batches_ok db"
    and b: "find_batch i db = Some b"
    and v: "v \<in> set (active_verified (bt_review db'))" "v_document_id v = b_document_id b"
  shows "(v_extracted_id v, v_values v) \<in> included_values_of env i db"
proof -
  obtain st who where eff: "activation_by env i fr now db db' st who" by (rule activation_effect [OF act ok])
  note a = eff [unfolded activation_by_def]
  have dist: "distinct (map x_id (extractions (bt_review db)))" using ok by (simp add: batches_ok_def cohorts_ok_def)
  from v(1) a obtain x where x: "x \<in> set (extractions (bt_review db))" and v_in: "v \<in> set (verifieds (bt_review db'))"
    and id: "x_id x = v_extracted_id v" "x_document_id x = v_document_id v"
    and auth: "active_extraction_authority (bt_review db') (settle_row st who now (retired st who now x))"
    unfolding active_verified_iff by auto
  have member: "x_batch_id x = Some i" using authority_is_member [OF eff dist x _ auth] id v(2) a b by simp
  have fin: "x_record_kind x = Some Financial" using auth member by (simp add: active_extraction_authority_def)
  have "x \<in> set (map ca_candidate (st_states st))" using a x member by simp
  then obtain c where c: "c \<in> set (st_states st)" "ca_candidate c = x" by auto
  from a have "load_activation_state env i db = Inr st" "ap_errors (st_preview st) = []" by simp_all
  from activated_state [OF this c(1)] c(2) obtain r where r: "ca_decision c = Some r" "latest_decision i db (x_id x) = Some r"
      "x \<in> set (candidates_of i db)" "x_status x = Pending_Review" by metis
  have "retired st who now x = x" using prior_not_pending dist a x r(4) by blast
  then have status: "x_status (settle_row st who now x) = Approved" using auth by (simp add: active_extraction_authority_def)
  have "dc_action r = Include"
    using settle_candidate [of st c r who now] a c r(1) status
    by (cases "dc_action r") (auto simp: exclude_row_def)
  note inc = this
  obtain w where w: "verified_row st who fr c w \<in> set (verifieds (bt_review db'))"
      "verified_values_of (ev_values env) (x_payload (ca_candidate c))
         (record_corrections (case dc_corrected_payload r of None \<Rightarrow> [] | Some k \<Rightarrow> k)) = Inr w"
    by (rule included_state [OF eff ok c(1) r(1) inc]) (use fin c(2) in simp)
  have "distinct (map v_extracted_id (verifieds (bt_review db')))"
    using activate_ok [OF act ok] by (simp add: batches_ok_def cohorts_ok_def)
  moreover have "v_extracted_id v = v_extracted_id (verified_row st who fr c w)" using id(1) c(2) by (simp add: verified_row_def)
  ultimately have "v = verified_row st who fr c w" using w(1) v_in by (metis distinct_map inj_on_def)
  then show ?thesis using r inc fin w(2) c(2) by (auto simp: included_values_of_def verified_row_def)
qed

lemma activation_installs:
  assumes act: "activate env i expected vector actor ex em fr now db = Inr (res, db')" and ok: "batches_ok db"
    and b: "find_batch i db = Some b" and v: "(k, w) \<in> included_values_of env i db"
  shows "(k, w) \<in> authoritative_values (bt_review db') (b_document_id b)"
proof -
  obtain st who where eff: "activation_by env i fr now db db' st who" by (rule activation_effect [OF act ok])
  note a = eff [unfolded activation_by_def]
  have dist: "distinct (map x_id (extractions (bt_review db)))" using ok by (simp add: batches_ok_def cohorts_ok_def)
  from v obtain x d where x: "x \<in> set (candidates_of i db)" "k = x_id x" and d: "latest_decision i db (x_id x) = Some d" "dc_action d = Include"
    and fin: "x_record_kind x = Some Financial"
    and w: "verified_values_of (ev_values env) (x_payload x)
       (record_corrections (case dc_corrected_payload d of None \<Rightarrow> [] | Some c \<Rightarrow> c)) = Inr w"
    by (auto simp: included_values_of_def)
  then have mem: "x \<in> set (extractions (bt_review db))" "x_batch_id x = Some i" by (auto simp: candidates_of_def)
  then have "x \<in> set (map ca_candidate (st_states st))" using a by simp
  then obtain c where c: "c \<in> set (st_states st)" "ca_candidate c = x" by auto
  from a have "load_activation_state env i db = Inr st" "ap_errors (st_preview st) = []" by simp_all
  from activated_state [OF this c(1)] c(2) d(1) have r: "ca_decision c = Some d" "x_status x = Pending_Review" by (metis option.inject)+
  obtain w' where w': "verified_row st who fr c w' \<in> set (verifieds (bt_review db'))"
      "verified_values_of (ev_values env) (x_payload (ca_candidate c))
         (record_corrections (case dc_corrected_payload d of None \<Rightarrow> [] | Some k \<Rightarrow> k)) = Inr w'"
    by (rule included_state [OF eff ok c(1) r(1) d(2)]) (use fin c(2) in simp)
  then have row: "verified_row st who fr c w \<in> set (verifieds (bt_review db'))" using w c(2) by simp
  have "retired st who now x = x" using prior_not_pending dist a mem(1) r(2) by blast
  moreover have "settle_row st who now x = include_row who now x" using settle_candidate [of st c d who now] a c r(1) d(2) by simp
  ultimately have y: "include_row who now x \<in> set (extractions (bt_review db'))" using a mem(1) by force
  have sb: "st_batch st = b" "b \<in> set (batches (bt_review db))" "b_id b = i" using a b find_batch_mem [OF b] by auto
  have doc: "x_document_id x = b_document_id b"
  proof -
    from ok mem obtain b' where "b' \<in> set (batches (bt_review db))" "b_id b' = i" "b_document_id b' = x_document_id x"
      unfolding batches_ok_def cohorts_ok_def belongs_def by blast
    moreover have "distinct (map b_id (batches (bt_review db)))" using ok by (simp add: batches_ok_def cohorts_ok_def)
    ultimately show ?thesis using sb by (metis distinct_map inj_on_def)
  qed
  have "switched_batch st who now b \<in> set (batches (bt_review db'))" using a sb by simp
  moreover have "b_id (switched_batch st who now b) = i" "b_document_id (switched_batch st who now b) = b_document_id b"
    "b_lifecycle (switched_batch st who now b) = B_Active"
    using sb by (simp_all add: switched_batch_def activated_batch_def)
  ultimately have "active_extraction_authority (bt_review db') (include_row who now x)"
    using mem(2) fin doc by (auto simp: active_extraction_authority_def include_row_def list_ex_iff)
  with y row c(2) doc sb(1) have "verified_row st who fr c w \<in> set (active_verified (bt_review db'))"
    unfolding active_verified_iff by (auto simp: verified_row_def include_row_def intro!: bexI [of _ "include_row who now x"])
  then show ?thesis using x(2) c(2) sb(1) by (force simp: authoritative_values_def verified_row_def)
qed

subsection \<open>Calls that move no authority\<close>

definition active_batch :: "reviewdb \<Rightarrow> nat \<Rightarrow> nat \<Rightarrow> bool" where
  "active_batch r i doc \<longleftrightarrow> (\<exists>b \<in> set (batches r). b_id b = i \<and> b_document_id b = doc \<and> b_lifecycle b = B_Active)"

definition same_authority :: "extraction \<Rightarrow> extraction \<Rightarrow> bool" where
  "same_authority x y \<longleftrightarrow> row_kept x y \<and> x_record_kind y = x_record_kind x \<and> (x_status y = Approved \<longleftrightarrow> x_status x = Approved)"

lemma authority_active_batch:
  "active_extraction_authority r x \<longleftrightarrow> x_status x = Approved \<and> (\<forall>i. x_batch_id x = Some i \<longrightarrow>
     x_record_kind x = Some Financial \<and> active_batch r i (x_document_id x))"
  by (auto simp: active_extraction_authority_def active_batch_def list_ex_iff split: option.splits)

lemma active_verified_frame:
  assumes "verifieds r' = verifieds r" "extractions r' = map g (extractions r) @ new"
    "\<forall>x \<in> set (extractions r). same_authority x (g x)" "\<forall>x \<in> set new. x_status x \<noteq> Approved"
    "\<And>i doc. active_batch r' i doc = active_batch r i doc"
  shows "active_verified r' = active_verified r"
proof -
  have "active_extraction_authority r' (g x) = active_extraction_authority r x" if "x \<in> set (extractions r)" for x
    using assms(3,5) that by (auto simp: authority_active_batch same_authority_def row_kept_def)
  moreover have "\<not> active_extraction_authority r' x" if "x \<in> set new" for x
    using assms(4) that by (simp add: authority_active_batch)
  moreover have "x_id (g x) = x_id x" "x_document_id (g x) = x_document_id x" if "x \<in> set (extractions r)" for x
    using assms(3) that by (simp_all add: same_authority_def row_kept_def)
  ultimately have "list_ex (\<lambda>x. x_id x = v_extracted_id v \<and> x_document_id x = v_document_id v \<and> active_extraction_authority r' x)
      (map g (extractions r) @ new)
    = list_ex (\<lambda>x. x_id x = v_extracted_id v \<and> x_document_id x = v_document_id v \<and> active_extraction_authority r x) (extractions r)" for v :: verified
    by (auto simp: list_ex_iff bex_Un)
  then show ?thesis unfolding active_verified_def assms(1,2) by (simp only:)
qed

lemma active_batch_map:
  assumes "batches r' = map h (batches r)" "\<forall>b \<in> set (batches r). b_id (h b) = b_id b \<and> b_document_id (h b) = b_document_id b
      \<and> (b_lifecycle (h b) = B_Active \<longleftrightarrow> b_lifecycle b = B_Active)"
  shows "active_batch r' i doc = active_batch r i doc"
  using assms by (auto simp: active_batch_def)

lemma insert_cohort_authority:
  assumes "insert_cohort (new_batch a source m digest new_id now) (cohort_rows a source m new_id ids now) db = Inr db1"
  shows "active_verified (bt_review (update_intake k f db1)) = active_verified (bt_review db)"
proof (rule active_verified_frame [where g = id and new = "cohort_rows a source m new_id ids now"])
  from assms have db1: "db1 = on_review (\<lambda>r. r\<lparr>batches := batches r @ [new_batch a source m digest new_id now],
      extractions := extractions r @ cohort_rows a source m new_id ids now\<rparr>) db"
    by (auto simp: insert_cohort_def split: if_splits)
  have r: "bt_review (update_intake k f d) = bt_review d" for d by (simp add: update_intake_def)
  show "extractions (bt_review (update_intake k f db1)) = map id (extractions (bt_review db)) @ cohort_rows a source m new_id ids now"
    "verifieds (bt_review (update_intake k f db1)) = verifieds (bt_review db)"
    "active_batch (bt_review (update_intake k f db1)) i doc = active_batch (bt_review db) i doc" for i doc
    by (auto simp: r db1 active_batch_def new_batch_def)
qed (auto simp: same_authority_def cohort_rows_def candidate_row_def)

lemma add_batch_authority:
  "add_candidate_batch env a new_id ids now db = Inr (b, replay, db') \<Longrightarrow> active_verified (bt_review db') = active_verified (bt_review db)"
  "add_mapping_batch env a m new_id ids now db = Inr (b, replay, db') \<Longrightarrow> active_verified (bt_review db') = active_verified (bt_review db)"
  by (auto simp: add_candidate_batch_def add_mapping_batch_def Let_def res_simps insert_cohort_authority split: option.splits if_splits)

lemma open_batch_frame:
  assumes "batches_ok db" "find_batch i db = Some b" "b_lifecycle b \<noteq> B_Active" "c \<in> set (batches (bt_review db))" "b_id c = i"
  shows "b_lifecycle c \<noteq> B_Active"
proof -
  have "distinct (map b_id (batches (bt_review db)))" using assms(1) by (simp add: batches_ok_def cohorts_ok_def)
  then have "c = b" using assms(4,5) find_batch_mem [OF assms(2)] by (metis distinct_map inj_on_def)
  then show ?thesis using assms(3) by simp
qed

lemma apply_decisions_authority:
  assumes "apply_decisions env i expected drafts actor ids now db = Inr (rs, db')" "batches_ok db"
  shows "active_verified (bt_review db') = active_verified (bt_review db)"
  using assms(1)
proof (rule apply_decisions_Inr)
  fix b lc
  assume b: "find_batch i db = Some b" "b_lifecycle b \<in> {B_Open, B_Ready_To_Activate}" and lc: "lc \<in> {B_Open, B_Ready_To_Activate}"
    and db': "db' = update_batch i (\<lambda>r. r\<lparr>b_lifecycle := lc, b_version := b_version r + 1, b_updated_at := now\<rparr>)
      (db\<lparr>bt_decisions := bt_decisions db @ rs\<rparr>)"
  have "b_lifecycle b \<noteq> B_Active" "lc \<noteq> B_Active" using b(2) lc by auto
  then have "active_batch (bt_review db') j doc = active_batch (bt_review db) j doc" for j doc
    using open_batch_frame [OF assms(2) b(1)] by (intro active_batch_map [where h = "\<lambda>b. if b_id b = i
      then b\<lparr>b_lifecycle := lc, b_version := b_version b + 1, b_updated_at := now\<rparr> else b"]) (auto simp: db' update_batch_review)
  then show ?thesis
    by (intro active_verified_frame [where g = id and new = "[]"]) (auto simp: db' update_batch_review same_authority_def)
qed

lemma reject_batch_authority:
  assumes "reject_batch env i expected actor reason now db = Inr (b, db')" "batches_ok db"
  shows "active_verified (bt_review db') = active_verified (bt_review db)"
  using assms(1)
proof (rule reject_batch_Inr)
  fix st who why
  assume st: "load_activation_state env i db = Inr st" "b_lifecycle (st_batch st) \<in> {B_Open, B_Ready_To_Activate}"
    and pend: "\<forall>x \<in> set (st_candidates st). x_status x = Pending_Review" and db': "db' = reject_cohort st who why now db"
  have b: "find_batch i db = Some (st_batch st)" and cands: "st_candidates st = candidates_of i db"
    by (rule load_activation_state_Inr [OF st(1)], simp)+
  have id: "b_id (st_batch st) = i" using find_batch_mem [OF b] ..
  have "b_lifecycle (st_batch st) \<noteq> B_Active" using st(2) by auto
  then have "active_batch (bt_review db') j doc = active_batch (bt_review db) j doc" for j doc
    using open_batch_frame [OF assms(2) b] by (intro active_batch_map [where h = "\<lambda>b. if b_id b = i
      then b\<lparr>b_lifecycle := B_Rejected, b_version := b_version b + 1, b_updated_at := now\<rparr> else b"])
      (auto simp: db' reject_cohort_review id)
  moreover have "x_status x = Pending_Review" if x: "x \<in> set (extractions (bt_review db))" "x_id x \<in> x_id ` set (st_candidates st)" for x
  proof -
    from x(2) obtain y where y: "y \<in> set (st_candidates st)" "x_id x = x_id y" by auto
    have "distinct (map x_id (extractions (bt_review db)))" using assms(2) by (simp add: batches_ok_def cohorts_ok_def)
    moreover have "y \<in> set (extractions (bt_review db))" using y(1) by (auto simp: cands candidates_of_def)
    ultimately have "x = y" using same_row x(1) y(2) by blast
    with pend y(1) show ?thesis by simp
  qed
  ultimately show ?thesis
    by (intro active_verified_frame [where g = "\<lambda>x. if x_id x \<in> x_id ` set (st_candidates st) then reject_row who why now x else x"
        and new = "[]"]) (auto simp: db' reject_cohort_review same_authority_def row_kept_def reject_row_def)
qed

subsection \<open>Version-checked writes\<close>

definition batch_version :: "batchdb \<Rightarrow> nat \<Rightarrow> int option" where
  "batch_version db i = map_option b_version (find_batch i db)"

text \<open>A write to a batch by someone who read version \<open>v\<close> of it: decisions, activation or rejection.\<close>

definition writes_batch :: "nat \<Rightarrow> int \<Rightarrow> batchdb \<Rightarrow> batchdb \<Rightarrow> bool" where
  "writes_batch i v db db' \<longleftrightarrow>
     (\<exists>env drafts actor ids now ds. apply_decisions env i v drafts actor ids now db = Inr (ds, db'))
   \<or> (\<exists>env vector actor ex em fr now r. activate env i v vector actor ex em fr now db = Inr (r, db'))
   \<or> (\<exists>env actor reason now b. reject_batch env i v actor reason now db = Inr (b, db'))"

lemma writes_batchI:
  "apply_decisions env i v drafts actor ids now db = Inr (ds, db') \<Longrightarrow> writes_batch i v db db'"
  "activate env i v vector actor ex em fr now db = Inr (r, db') \<Longrightarrow> writes_batch i v db db'"
  "reject_batch env i v actor reason now db = Inr (b, db') \<Longrightarrow> writes_batch i v db db'"
  unfolding writes_batch_def by blast+

definition batches_evolve :: "batchdb \<Rightarrow> batchdb \<Rightarrow> (batch_row \<Rightarrow> batch_row) \<Rightarrow> batch_row list \<Rightarrow> bool" where
  "batches_evolve db db' h new \<longleftrightarrow> batches (bt_review db') = map h (batches (bt_review db)) @ new
     \<and> (\<forall>b \<in> set (batches (bt_review db)). batch_kept b (h b))"

lemma find_batch_evolve:
  assumes "batches_evolve db db' h new" "find_batch i db = Some b"
  shows "find_batch i db' = Some (h b)"
proof -
  have "find (\<lambda>b. b_id b = i) (map h (batches (bt_review db))) = Some (h b)"
    using assms find_map_key [of "batches (bt_review db)" b_id h i]
    by (simp add: batches_evolve_def batch_kept_def find_batch_def)
  then show ?thesis using assms(1) by (simp add: batches_evolve_def find_batch_def find_append_same)
qed

lemma cohort_evolves:
  assumes "insert_cohort b rows db = Inr db1"
  shows "batches_evolve db (update_intake k f db1) id [b]"
  using assms by (auto simp: insert_cohort_def batches_evolve_def update_intake_def split: if_splits)

lemma add_batch_evolves:
  "add_candidate_batch env a new_id ids now db = Inr (b, replay, db') \<Longrightarrow> \<exists>h new. batches_evolve db db' h new"
  "add_mapping_batch env a m new_id ids now db = Inr (b, replay, db') \<Longrightarrow> \<exists>h new. batches_evolve db db' h new"
proof -
  have "batches_evolve db db id []" by (simp add: batches_evolve_def)
  then show "add_candidate_batch env a new_id ids now db = Inr (b, replay, db') \<Longrightarrow> \<exists>h new. batches_evolve db db' h new"
    "add_mapping_batch env a m new_id ids now db = Inr (b, replay, db') \<Longrightarrow> \<exists>h new. batches_evolve db db' h new"
    by (auto simp: add_candidate_batch_def add_mapping_batch_def Let_def res_simps split: option.splits if_splits dest!: cohort_evolves)
qed

lemma update_batch_evolves:
  assumes "\<And>b. batch_kept b (f b)" "batches (bt_review db0) = batches (bt_review db)"
  shows "batches_evolve db (update_batch i f db0) (\<lambda>b. if b_id b = i then f b else b) []"
  using assms by (simp add: batches_evolve_def update_batch_review)

text \<open>Each of the three writes happens at the version it was given and moves that batch one version on.\<close>

lemma write_evolves:
  assumes "writes_batch i v db db'" "batches_ok db"
  shows "\<exists>h b. batches_evolve db db' h [] \<and> find_batch i db = Some b \<and> b_version b = v \<and> b_version (h b) = v + 1"
  using assms(1) unfolding writes_batch_def
proof (elim disjE exE)
  fix env drafts actor ids now ds
  assume "apply_decisions env i v drafts actor ids now db = Inr (ds, db')"
  then show ?thesis
  proof (rule apply_decisions_Inr)
    fix b lc
    assume b: "find_batch i db = Some b" "b_version b = v"
      and db': "db' = update_batch i (\<lambda>r. r\<lparr>b_lifecycle := lc, b_version := b_version r + 1, b_updated_at := now\<rparr>)
        (db\<lparr>bt_decisions := bt_decisions db @ ds\<rparr>)"
    have "batches_evolve db db' (\<lambda>b. if b_id b = i then b\<lparr>b_lifecycle := lc, b_version := b_version b + 1, b_updated_at := now\<rparr> else b) []"
      unfolding db' by (rule update_batch_evolves) (simp_all add: batch_kept_def)
    with b find_batch_mem [OF b(1)] show ?thesis by (intro exI conjI) (assumption | simp)+
  qed
next
  fix env vector actor ex em fr now r
  assume act: "activate env i v vector actor ex em fr now db = Inr (r, db')"
  obtain st where ver: "b_version (st_batch st) = v" and ld: "load_activation_state env i db = Inr st"
    by (rule activate_Inr [OF act], rule that) auto
  obtain st' who where "activation_by env i fr now db db' st' who" by (rule activation_effect [OF act assms(2)])
  then have a: "load_activation_state env i db = Inr st'" "find_batch i db = Some (st_batch st')" "b_id (st_batch st') = i"
      "batches (bt_review db') = map (switched_batch st' who now) (batches (bt_review db))" by (auto simp: activation_by_def)
  have "st' = st" using a(1) ld by simp
  have "batches_evolve db db' (switched_batch st' who now) []"
    using a(4) switched_kept [OF a(1)] by (simp add: batches_evolve_def)
  moreover have "b_version (switched_batch st' who now (st_batch st')) = v + 1"
    using ver \<open>st' = st\<close> retired_self [OF a(1) refl] by (simp add: switched_batch_def activated_batch_def)
  ultimately show ?thesis using a(2) ver \<open>st' = st\<close> by blast
next
  fix env actor reason now b
  assume "reject_batch env i v actor reason now db = Inr (b, db')"
  then show ?thesis
  proof (rule reject_batch_Inr)
    fix st who why
    assume st: "load_activation_state env i db = Inr st" "b_version (st_batch st) = v" and db': "db' = reject_cohort st who why now db"
    have b: "find_batch i db = Some (st_batch st)" by (rule load_activation_state_Inr [OF st(1)])
    have id: "b_id (st_batch st) = i" using find_batch_mem [OF b] ..
    let ?h = "\<lambda>b. if b_id b = i then b\<lparr>b_lifecycle := B_Rejected, b_version := b_version b + 1, b_updated_at := now\<rparr> else b"
    have "batches_evolve db db' ?h []" by (simp add: batches_evolve_def db' reject_cohort_review id batch_kept_def)
    moreover have "b_version (?h (st_batch st)) = v + 1" using st(2) id by simp
    ultimately show ?thesis using b st(2) by blast
  qed
qed

lemma batch_step_evolves:
  assumes "batch_step db db'" "batches_ok db"
  shows "\<exists>h new. batches_evolve db db' h new"
  using assms
proof (induction rule: batch_step.induct)
  case (batch_bills db bills)
  have "cohorts_ok (bt_review db)" using batch_bills(2) by (simp add: batches_ok_def)
  then have "batches (bd_review bills) = batches (bt_review db)"
    using bill_step_review [OF batch_bills(1)] batch_bills(2) review_step_rows [of "bt_review db" "bd_review bills"]
    by (auto simp: batches_ok_def cohorts_ok_def bt_review_def)
  then have "batches_evolve db (db\<lparr>bt_bills := bills\<rparr>) id []" by (simp add: batches_evolve_def)
  then show ?case by blast
next
  case (batch_context db cks ins)
  have "batches_evolve db (db\<lparr>bt_intakes := ins, bt_chunks := cks\<rparr>) id []" by (simp add: batches_evolve_def bt_review_def)
  then show ?case by blast
qed (blast intro: add_batch_evolves dest: writes_batchI write_evolves)+

lemma batch_version_grows:
  assumes "batches_ok db" "batch_step db db'" "batch_version db i = Some v"
  shows "\<exists>w. batch_version db' i = Some w \<and> v \<le> w"
proof -
  obtain h new where ev: "batches_evolve db db' h new" using batch_step_evolves assms(1,2) by blast
  obtain b where b: "find_batch i db = Some b" "v = b_version b" using assms(3) by (auto simp: batch_version_def)
  have "batch_kept b (h b)" using ev find_batch_mem [OF b(1)] by (simp add: batches_evolve_def)
  then have "b_version b \<le> b_version (h b)" by (auto simp: batch_kept_def)
  with find_batch_evolve [OF ev b(1)] b(2) show ?thesis by (simp add: batch_version_def)
qed

lemma writes_batch_version:
  assumes "batches_ok db" "writes_batch i v db db'"
  shows "batch_version db i = Some v \<and> batch_version db' i = Some (v + 1)"
  using write_evolves [OF assms(2,1)] find_batch_evolve by (force simp: batch_version_def)

lemma writes_batch_step: "writes_batch i v db db' \<Longrightarrow> batch_step db db'"
  unfolding writes_batch_def by (elim disjE exE) (rule batch_decide batch_activate batch_reject, assumption)+

interpretation cohort: versioned_store batches_ok batch_version writes_batch batch_step
  by unfold_locales (use batch_step_ok batch_version_grows writes_batch_version writes_batch_step in \<open>blast+\<close>)

end
