(* ===== verification/Batch_Vector.thy ===== *)
theory Batch_Vector
  imports Batch_Props Canonical_Props
begin

text \<open>
  What the digest of an activation preview pins down. The vector is canonical JSON, so a digest without a collision on
  the two vectors in question identifies the batch, the authority it replaces and every decision.
\<close>

lemma sorted_entries_get:
  assumes "distinct (map fst d)"
  shows "map_of (sort_key fst (map (map_prod id f) d)) k = map_option f (map_of d k)"
proof -
  let ?e = "map (map_prod id f) d"
  have "distinct (map fst ?e)" using assms by (simp add: comp_def)
  moreover have "distinct (map fst (sort_key fst ?e))"
    using calculation by (metis mset_eq_imp_distinct_iff mset_map mset_sort)
  moreover have "set (sort_key fst ?e) = set ?e" by simp
  ultimately have "map_of (sort_key fst ?e) = map_of ?e" using map_of_inject_set by blast
  moreover have "map_of ?e k = map_option f (map_of d k)" by (induction d) auto
  ultimately show ?thesis by simp
qed

lemma sort_keys_get:
  assumes "sort_keys (PDict d) = sort_keys (PDict e)" "distinct (map fst d)" "distinct (map fst e)"
  shows "map_option sort_keys (map_of d k) = map_option sort_keys (map_of e k)"
  using assms sorted_entries_get [OF assms(2), of sort_keys k] sorted_entries_get [OF assms(3), of sort_keys k] by simp

lemma opt_str_canonical [simp]: "sort_keys (opt_str o') = opt_str o'" "opt_str o' = opt_str p' \<longleftrightarrow> o' = p'"
  by (auto simp: opt_str_def split: option.splits)

definition vector_of :: "batch_env \<Rightarrow> activation_state \<Rightarrow> pyval" where
  "vector_of env st = activation_vector env (st_batch st) (st_prior_active st) (st_prior_approved st) (st_states st)"

definition collision_free :: "py_env \<Rightarrow> pyval \<Rightarrow> pyval \<Rightarrow> bool" where
  "collision_free env v w \<longleftrightarrow> (te_sha256 env (dumps (te_float_repr env) (sort_keys v)) = te_sha256 env (dumps (te_float_repr env) (sort_keys w))
     \<longrightarrow> dumps (te_float_repr env) (sort_keys v) = dumps (te_float_repr env) (sort_keys w))"

lemma digest_identifies:
  assumes "env_digest env v = Inr h" "env_digest env w = Inr h" "float_repr_ok (te_float_repr env)" "json_wf v" "json_wf w"
    "collision_free env v w"
  shows "sort_keys v = sort_keys w"
proof -
  have "te_sha256 env (dumps (te_float_repr env) (sort_keys v)) = te_sha256 env (dumps (te_float_repr env) (sort_keys w))"
    using assms(1,2,4,5) by (simp add: env_digest_def canonical_digest_def canonical_json_def json_wf_ok)
  with assms(6) have "dumps (te_float_repr env) (sort_keys v) = dumps (te_float_repr env) (sort_keys w)" by (simp add: collision_free_def)
  with dumps_inj [OF assms(3) json_wf_sort_keys [OF assms(4)] json_wf_sort_keys [OF assms(5)]] show ?thesis .
qed

text \<open>What a reviewer is shown of one candidate, of the batch and of the authority it replaces.\<close>

record candidate_view =
  vw_extraction :: pystr
  vw_version :: int
  vw_decision :: "pystr option"
  vw_revision :: int
  vw_action :: pystr
  vw_subtype :: "pystr option"
  vw_digests :: "pystr \<times> pystr \<times> pystr \<times> pystr"
  vw_prior_bill :: "pystr option \<times> pystr option"

definition candidate_view_of :: "candidate_activation \<Rightarrow> candidate_view" where
  "candidate_view_of c = \<lparr>vw_extraction = uuid_str (x_id (ca_candidate c)), vw_version = x_version (ca_candidate c),
     vw_decision = map_option (uuid_str \<circ> dc_id) (ca_decision c), vw_revision = current_revision (ca_decision c),
     vw_action = (case ca_decision c of None \<Rightarrow> u ''pending'' | Some r \<Rightarrow> decision_action_value (dc_action r)),
     vw_subtype = map_option financial_subtype_value (ca_subtype c),
     vw_digests = (ca_correction_sha256 c, ca_reason_sha256 c, ca_search_sha256 c, ca_recurring_sha256 c),
     vw_prior_bill = (map_option (uuid_str \<circ> rb_id) (ca_prior_bill c),
       map_option (payment_status_value \<circ> rb_payment_status) (ca_prior_bill c))\<rparr>"

definition batch_view_of :: "activation_state \<Rightarrow> pystr \<times> int \<times> pystr \<times> int \<times> pystr" where
  "batch_view_of st = (let b = st_batch st in
     (uuid_str (b_id b), b_version b, b_source_sha256 b, b_candidate_count b, b_reconciliation_digest b))"

definition authority_view_of :: "activation_state \<Rightarrow> (pystr \<times> int) option \<times> (pystr \<times> int) list" where
  "authority_view_of st = (map_option (\<lambda>b. (uuid_str (b_id b), b_version b)) (st_prior_active st),
     map (\<lambda>x. (uuid_str (x_id x), x_version x)) (sort_key (\<lambda>x. uuid_str (x_id x)) (st_prior_approved st)))"

definition candidates_view_of :: "activation_state \<Rightarrow> candidate_view list" where
  "candidates_view_of st = map candidate_view_of (sort_key (\<lambda>c. uuid_str (x_id (ca_candidate c))) (st_states st))"

lemma candidate_view_eq:
  assumes "sort_keys (candidate_payload stamp c) = sort_keys (candidate_payload stamp e)"
  shows "candidate_view_of c = candidate_view_of e"
proof -
  have get: "map_option sort_keys (map_of d k) = map_option sort_keys (map_of d' k)"
    if "candidate_payload stamp c = PDict d" "candidate_payload stamp e = PDict d'" "distinct (map fst d)" "distinct (map fst d')" for d d' k
    using assms sort_keys_get [OF _ that(3,4), of k] that(1,2) by simp
  note get = get [OF candidate_payload_def [unfolded Let_def] candidate_payload_def [unfolded Let_def]]
  show ?thesis
    using get [of "u ''extraction_id''"] get [of "u ''extraction_version''"] get [of "u ''decision_id''"]
      get [of "u ''decision_revision''"] get [of "u ''action''"] get [of "u ''effective_financial_subtype''"]
      get [of "u ''correction_sha256''"] get [of "u ''reason_sha256''"] get [of "u ''search_manifest_sha256''"]
      get [of "u ''recurring_preview_sha256''"] get [of "u ''prior_recurring_projection_id''"] get [of "u ''prior_payment_status''"]
    by (simp add: candidate_view_of_def)
qed

lemma batch_view_eq:
  assumes "sort_keys (batch_payload (st_batch s)) = sort_keys (batch_payload (st_batch t))"
  shows "batch_view_of s = batch_view_of t"
proof -
  note get = sort_keys_get [OF assms [unfolded batch_payload_def]]
  show ?thesis
    using get [of "u ''id''"] get [of "u ''version''"] get [of "u ''source_sha256''"] get [of "u ''candidate_count''"]
      get [of "u ''reconciliation_digest''"]
    by (simp add: batch_view_of_def Let_def)
qed

lemma pair_payload_eq:
  assumes "sort_keys (PDict [(k, PStr a), (l, PInt v)]) = sort_keys (PDict [(k, PStr b), (l, PInt w)])" "k \<noteq> l"
  shows "a = b \<and> v = w"
proof -
  note get = sort_keys_get [OF assms(1)]
  from get [of k] get [of l] assms(2) show ?thesis by simp
qed

lemma pair_payloads_eq:
  assumes "map (\<lambda>x. sort_keys (PDict [(k, PStr (f x)), (l, PInt (g x))])) xs = map (\<lambda>x. sort_keys (PDict [(k, PStr (f x)), (l, PInt (g x))])) ys"
    and "k \<noteq> l"
  shows "map (\<lambda>x. (f x, g x)) xs = map (\<lambda>x. (f x, g x)) ys"
proof (rule nth_equalityI)
  show "length (map (\<lambda>x. (f x, g x)) xs) = length (map (\<lambda>x. (f x, g x)) ys)" using arg_cong [OF assms(1), of length] by simp
  fix n
  assume n: "n < length (map (\<lambda>x. (f x, g x)) xs)"
  with arg_cong [OF assms(1), of length] have "sort_keys (PDict [(k, PStr (f (xs ! n))), (l, PInt (g (xs ! n)))])
      = sort_keys (PDict [(k, PStr (f (ys ! n))), (l, PInt (g (ys ! n)))])"
    using arg_cong [OF assms(1), of "\<lambda>zs. zs ! n"] by (simp del: sort_keys.simps)
  from pair_payload_eq [OF this assms(2)] n arg_cong [OF assms(1), of length]
  show "map (\<lambda>x. (f x, g x)) xs ! n = map (\<lambda>x. (f x, g x)) ys ! n" by simp
qed

lemma dict_not_none: "sort_keys (PDict d) \<noteq> PNone" "PNone \<noteq> sort_keys (PDict d)"
  by simp_all

lemma authority_view_eq:
  assumes "sort_keys (authority_payload (st_prior_active s) (st_prior_approved s)) = sort_keys (authority_payload (st_prior_active t) (st_prior_approved t))"
  shows "authority_view_of s = authority_view_of t"
proof -
  have ne: "u ''extraction_id'' \<noteq> u ''extraction_version''" "u ''id'' \<noteq> u ''version''" by simp_all
  note get = sort_keys_get [OF assms [unfolded authority_payload_def]]
  have "map_option (\<lambda>b. (uuid_str (b_id b), b_version b)) (st_prior_active s) = map_option (\<lambda>b. (uuid_str (b_id b), b_version b)) (st_prior_active t)"
    using get [of "u ''active_batch''"] pair_payload_eq [OF _ ne(2)]
    by (cases "st_prior_active s"; cases "st_prior_active t") (auto simp: dict_not_none simp del: sort_keys.simps(10))
  moreover have "map (\<lambda>x. (uuid_str (x_id x), x_version x)) (sort_key (\<lambda>x. uuid_str (x_id x)) (st_prior_approved s))
      = map (\<lambda>x. (uuid_str (x_id x), x_version x)) (sort_key (\<lambda>x. uuid_str (x_id x)) (st_prior_approved t))"
    by (rule pair_payloads_eq [OF _ ne(1)])
      (use get [of "u ''approved_children''"] in \<open>simp add: comp_def del: sort_keys.simps(10)\<close>)
  ultimately show ?thesis by (simp add: authority_view_of_def)
qed

lemma candidates_view_eq:
  assumes "map (\<lambda>c. sort_keys (candidate_payload stamp c)) cs = map (\<lambda>c. sort_keys (candidate_payload stamp c)) es"
  shows "map candidate_view_of cs = map candidate_view_of es"
proof (rule nth_equalityI)
  show "length (map candidate_view_of cs) = length (map candidate_view_of es)" using arg_cong [OF assms, of length] by simp
  fix n
  assume "n < length (map candidate_view_of cs)"
  then have n: "n < length cs" "n < length es" using arg_cong [OF assms, of length] by simp_all
  then have "sort_keys (candidate_payload stamp (cs ! n)) = sort_keys (candidate_payload stamp (es ! n))"
    using arg_cong [OF assms, of "\<lambda>zs. zs ! n"] by simp
  from candidate_view_eq [OF this] n show "map candidate_view_of cs ! n = map candidate_view_of es ! n" by simp
qed

lemma vector_identifies:
  assumes "sort_keys (vector_of env s) = sort_keys (vector_of env t)"
  shows "batch_view_of s = batch_view_of t \<and> authority_view_of s = authority_view_of t \<and> candidates_view_of s = candidates_view_of t"
proof -
  note get = sort_keys_get [OF assms [unfolded vector_of_def activation_vector_def]]
  have "sort_keys (batch_payload (st_batch s)) = sort_keys (batch_payload (st_batch t))"
    "sort_keys (authority_payload (st_prior_active s) (st_prior_approved s)) = sort_keys (authority_payload (st_prior_active t) (st_prior_approved t))"
    using get [of "u ''batch''"] get [of "u ''prior_authority''"] by simp_all
  moreover have "candidates_view_of s = candidates_view_of t"
    unfolding candidates_view_of_def
    by (rule candidates_view_eq [where stamp = "ev_timestamp env"]) (use get [of "u ''candidates''"] in \<open>simp add: comp_def\<close>)
  ultimately show ?thesis using batch_view_eq authority_view_eq by blast
qed

lemma preview_digest:
  assumes "load_activation_state env i db = Inr st"
  shows "env_digest (ev_py env) (vector_of env st) = Inr (ap_vector_sha256 (st_preview st))"
  unfolding vector_of_def by (rule load_activation_state_Inr [OF assms])

end
