(* ===== verification/Batch_Demo.thy ===== *)
theory Batch_Demo
  imports Batch_Vector Staging_Props
begin

text \<open>
  A cohort of one receipt, from the stored source to its activation, evaluated call by call. It instantiates every
  parameter of the cohort review and is the concrete history on which its properties are applied.
\<close>

definition receipt_env :: batch_env where
  "receipt_env = \<lparr>ev_py = demo_env\<lparr>te_float_repr := demo_repr\<rparr>, ev_values = demo_values_env,
     ev_recurring = \<lparr>re_nfkc = id, re_casefold = id, re_digit = (\<lambda>_. None), re_isodate = (\<lambda>_. None),
       re_decimal = (\<lambda>_. None), re_validate = (\<lambda>_. None)\<rparr>,
     ev_bill = \<lparr>bl_decimal = (\<lambda>_. None), bl_amount_ok = (\<lambda>_. True)\<rparr>, ev_decimal_str = (\<lambda>_. []),
     ev_uuid = (\<lambda>_. None), ev_timestamp = (\<lambda>_. [])\<rparr>"

lemma receipt_fields: "te_float_repr (ev_py receipt_env) = demo_repr" "ev_values receipt_env = demo_values_env"
  by (simp_all add: receipt_env_def)

lemma receipt_digest: "json_ok v \<Longrightarrow> env_digest (ev_py receipt_env) v = Inr demo_digest"
  by (simp add: env_digest_def canonical_digest_def canonical_json_def receipt_env_def demo_env_def)

definition receipt_file :: document_file where
  "receipt_file = demo_original\<lparr>f_sha256 := demo_digest\<rparr>"

definition receipt_intake :: source_intake where
  "receipt_intake = \<lparr>si_id = 4, si_document_id = 2, si_source_file_id = 3, si_source_version = 1, si_source_sha256 = demo_digest,
     si_duplicate_of = None, si_detected_family = None, si_detected_format = None, si_canonical_mime = None,
     si_detection_evidence = [], si_policy_version = u ''p'', si_registry_digest = None, si_capabilities_digest = None,
     si_requirements_digest = demo_digest, si_required_components = [], si_intake_intent = Generic_File, si_state = SI_Processing,
     si_reason_code = None, si_retryable = False, si_failure_phase = None, si_execution_profile = Universal_Sandboxed,
     si_sandbox_verified = False, si_upload_idempotency_key = None, si_intent_digest = None, si_version = 1,
     si_created_at = 1, si_updated_at = 1\<rparr>"

definition receipt_tables :: "extraction list \<Rightarrow> batch_row list \<Rightarrow> source_intake \<Rightarrow> review_decision list \<Rightarrow> chunk_row list \<Rightarrow> batchdb" where
  "receipt_tables xs bs intake ds cs = \<lparr>bt_bills = \<lparr>bd_review = \<lparr>docs = [\<lparr>d_id = 2, d_document_class = Other_Class, d_status = Uploaded, d_source_filename = u ''a.pdf'', d_files = [receipt_file]\<rparr>],
      extractions = xs, verifieds = [], batches = bs\<rparr>, bd_issuers = [], bd_bills = []\<rparr>, bt_intakes = [intake],
     bt_decisions = ds, bt_chunks = cs\<rparr>"

definition receipt_draft :: candidate_draft where
  "receipt_draft = \<lparr>cd_candidate_ordinal = 1, cd_candidate_key = u ''k'', cd_record_kind = Financial,
     cd_financial_subtype = Some FS_Receipt, cd_payload = demo_payload, cd_confidences = [], cd_source_locator = u ''l'',
     cd_row_fingerprint = demo_digest, cd_validation_issues = [], cd_evidence_group_keys = []\<rparr>"

definition receipt_args :: batch_args where
  "receipt_args = \<lparr>bc_document_id = 2, bc_source_intake_id = 4, bc_source_file_id = 3, bc_source_version = 1,
     bc_source_sha256 = demo_digest, bc_normalized_sha256 = demo_digest, bc_structure_fingerprint = demo_digest,
     bc_candidates = [receipt_draft], bc_ledger = [\<lparr>ud_unit_id = u ''d'', ud_locator = u ''l'', ud_content_digest = demo_digest,
       ud_disposition = Mapped_Candidate, ud_candidate_key = Some (u ''k''), ud_reason = None\<rparr>],
     bc_producer = u ''m'', bc_producer_version = u ''p'', bc_origin = u ''m'', bc_idempotency_key = u ''p'',
     bc_producer_job_id = None\<rparr>"

definition receipt_source :: exact_source where
  "receipt_source = exact_source_of receipt_intake 2 receipt_file"

definition receipt_batch :: batch_row where
  "receipt_batch = new_batch receipt_args receipt_source None demo_digest 6 10"

definition receipt_row :: extraction where
  "receipt_row = candidate_row receipt_args receipt_source None 6 10 (5, receipt_draft)"

lemma receipt_current:
  "require_current (receipt_tables xs bs receipt_intake ds cs) 2 4 3 1 demo_digest = Inr receipt_source"
  by (simp add: require_current_def validate_sha256_def demo_digest_hex receipt_tables_def bt_review_def find_doc_def
      latest_original_def receipt_file_def demo_original_def receipt_intake_def receipt_source_def)

lemma receipt_added:
  "\<exists>intake. si_state intake = SI_Processed \<and> si_id intake = 4 \<and> si_document_id intake = 2 \<and> si_source_file_id intake = 3
     \<and> si_source_version intake = 1 \<and> si_source_sha256 intake = demo_digest
     \<and> add_candidate_batch (ev_py receipt_env) receipt_args 6 (\<lambda>_. 5) 10 (receipt_tables [] [] receipt_intake [] [])
       = Inr (receipt_batch, False, receipt_tables [receipt_row] [receipt_batch] intake [] [])"
proof -
  have digest: "candidate_reconciliation_digest (ev_py receipt_env) (bc_candidates receipt_args) (bc_ledger receipt_args) = Inr demo_digest"
    by (simp add: candidate_reconciliation_digest_def ledger_digest_def receipt_digest receipt_args_def receipt_draft_def
        draft_payload_def unit_payload_def opt_str_def str_list_def reconciliation_counts_def demo_payload_def)
  have checks: "check_producer receipt_args = Inr ()" "check_candidate_count receipt_args = Inr ()"
    by (simp_all add: check_producer_def bounded_mapping_text_def clean_text_def receipt_args_def demo_text check_candidate_count_def
        reconciliation_count_def)
  have rows: "cohort_rows receipt_args receipt_source None 6 (\<lambda>_. 5) 10 = [receipt_row]"
    by (simp add: cohort_rows_def receipt_row_def receipt_args_def)
  have ins: "insert_cohort receipt_batch [receipt_row] (receipt_tables [] [] receipt_intake [] [])
      = Inr (receipt_tables [receipt_row] [receipt_batch] receipt_intake [] [])"
    by (simp add: insert_cohort_def cohort_fits_def receipt_tables_def bt_review_def on_review_def receipt_row_def candidate_row_def
        receipt_draft_def)
  let ?db = "receipt_tables [] [] receipt_intake [] []"
  have args: "bc_document_id receipt_args = 2" "bc_source_intake_id receipt_args = 4" "bc_source_file_id receipt_args = 3"
      "bc_source_version receipt_args = 1" "bc_source_sha256 receipt_args = demo_digest"
      "bc_normalized_sha256 receipt_args = demo_digest" "bc_structure_fingerprint receipt_args = demo_digest"
      "map cd_candidate_ordinal (bc_candidates receipt_args) = map int [1..<Suc (length (bc_candidates receipt_args))]"
    by (simp_all add: receipt_args_def receipt_draft_def)
  have found: "batch_replay ?db receipt_source receipt_args = None" "find_source_intake (es_intake_id receipt_source) ?db = Some receipt_intake"
      "si_state receipt_intake = SI_Processing"
    by (simp_all add: batch_replay_def find_source_intake_def receipt_tables_def bt_review_def receipt_source_def exact_source_of_def
        receipt_intake_def)
  let ?intake = "settle_intake SI_Processing 1 10 receipt_intake"
  have settled: "update_intake (si_id receipt_intake) (settle_intake SI_Processing 1 10)
      (receipt_tables [receipt_row] [receipt_batch] receipt_intake [] []) = receipt_tables [receipt_row] [receipt_batch] ?intake [] []"
    by (simp add: update_intake_def receipt_tables_def)
  have "add_candidate_batch (ev_py receipt_env) receipt_args 6 (\<lambda>_. 5) 10 ?db
      = Inr (receipt_batch, False, receipt_tables [receipt_row] [receipt_batch] ?intake [] [])"
    unfolding add_candidate_batch_def args(1-7) Let_def
    by (simp add: validate_sha256_def demo_digest_hex receipt_current args(8) digest checks rows ins found settled
        receipt_batch_def [symmetric] del: upt_Suc)
  then show ?thesis by (intro exI [of _ ?intake]) (simp add: settle_intake_def receipt_intake_def)
qed

subsection \<open>The decision\<close>

definition receipt_request :: decision_draft where
  "receipt_request = \<lparr>dd_extraction_id = 5, dd_expected_version = 1, dd_expected_revision = 0,
     dd_action = PStr (u ''include''), dd_corrected_payload = PDict demo_corrections, dd_corrected_subtype = PNone,
     dd_exclusion_reason = PNone\<rparr>"

definition receipt_choice :: review_decision where
  "receipt_choice = \<lparr>dc_id = 8, dc_batch_id = 6, dc_extraction_id = 5, dc_revision = 1, dc_expected_version = 1,
     dc_supersedes = None, dc_action = Include, dc_corrected_payload = Some demo_corrections, dc_corrected_subtype = None,
     dc_exclusion_reason = None, dc_actor = u ''bob''\<rparr>"

definition receipt_decision :: decision where
  "receipt_decision = \<lparr>de_extraction_id = 5, de_expected_version = 1, de_expected_revision = 0, de_action = Include,
     de_corrections = Some demo_corrections, de_subtype = None, de_reason = None\<rparr>"

lemma receipt_row_fields [simp]:
  "x_id receipt_row = 5" "x_batch_id receipt_row = Some 6" "x_status receipt_row = Pending_Review" "x_version receipt_row = 1"
  "x_record_kind receipt_row = Some Financial" "x_financial_subtype receipt_row = Some FS_Receipt" "x_payload receipt_row = demo_payload"
  "x_document_id receipt_row = 2" "lineage_complete receipt_row"
  by (simp_all add: receipt_row_def candidate_row_def receipt_draft_def receipt_args_def lineage_complete_def)

lemma receipt_batch_fields [simp]:
  "b_id receipt_batch = 6" "b_document_id receipt_batch = 2" "b_version receipt_batch = 1" "b_lifecycle receipt_batch = B_Open"
  "b_candidate_count receipt_batch = 1" "b_source_intake_id receipt_batch = 4" "b_source_file_id receipt_batch = 3"
  "b_source_version receipt_batch = 1" "b_source_sha256 receipt_batch = demo_digest"
  "count_or receipt_batch ''mapped_candidate'' = 1" "count_or receipt_batch ''residual_generic_candidate'' = 0"
  by (simp_all add: receipt_batch_def new_batch_def receipt_args_def receipt_source_def exact_source_of_def receipt_file_def
      demo_original_def receipt_intake_def count_or_def reconciliation_counts_def disposition_value_def reconciliation_count_def)

lemma receipt_values:
  "verified_values_of demo_values_env demo_payload (record_corrections demo_corrections) = Inr demo_verified_values"
proof -
  have "record_corrections demo_corrections = demo_corrections"
    by (simp add: record_corrections_def demo_corrections_def bill_projection_correction_fields_def bill_correction_fields_def)
  then show ?thesis by (simp add: demo_values)
qed

lemma receipt_valid:
  assumes "de_action d = Include" "de_reason d = None" "de_corrections d = Some demo_corrections" "de_subtype d = None"
  shows "validate_review_decision receipt_env receipt_row d = Inr ()"
proof -
  have env: "ev_values receipt_env = demo_values_env" by (simp add: receipt_env_def)
  have "validate_financial receipt_env receipt_row demo_corrections None = Inr ()"
    unfolding validate_financial_def env
    by (simp add: receipt_values as_decision_error_def)
      (simp add: demo_corrections_def correction_fields_def bill_projection_correction_fields_def bill_correction_fields_def)
  with assms show ?thesis by (simp add: validate_review_decision_def)
qed

lemma receipt_checked: "checked_request receipt_env 1 [Draft receipt_request] (PStr (u ''bob'')) = Inr (u ''bob'', [receipt_decision])"
proof -
  have json: "canonical_json fr v = Inr (dumps fr (sort_keys v))" if "json_ok v" for fr v using that by (simp add: canonical_json_def)
  have "length (dumps demo_repr (sort_keys (PDict demo_corrections))) = 23"
    by (simp add: demo_corrections_def json_string_def json_entry_def u_def json_char_def)
  moreover have "correction_tree (PDict demo_corrections) 0" "json_ok (PDict demo_corrections)"
    by (simp_all add: demo_corrections_def key_fits_def max_correction_depth_def max_correction_string_def u_def)
  ultimately have "checked_corrections receipt_env (PDict demo_corrections) = Inr (Some demo_corrections)"
    by (simp add: checked_corrections_def receipt_env_def json max_corrected_payload_bytes_def
        del: correction_tree.simps dumps.simps sort_keys.simps json_ok.simps)
  moreover have "decision_action_of (PStr (u ''include'')) = Some Include"
    by (simp add: decision_action_of_def decision_action_value_def)
  ultimately have norm: "normalize_review_decision receipt_env (Draft receipt_request) = Inr receipt_decision"
    by (simp add: normalize_review_decision_def receipt_request_def receipt_decision_def)
  have hex: "hex_text (Suc n) 5 = hex_text n 0 @ [53]" "hex_text n 0 = replicate n 48" for n
    by (simp add: hex_digit_def) (induction n; simp add: hex_digit_def replicate_append_same [symmetric])
  have uuid: "hex_text 32 5 = replicate 31 48 @ [53]" using hex(1) [of 31] hex(2) by simp
  have nats: "nat_str 0 = [48]" "nat_str (Suc 0) = [49]" by (simp_all add: nat_str.simps)
  have "length (dumps demo_repr (sort_keys (PDict [(u ''expected_batch_version'', PInt 1),
         (u ''actor'', PStr (u ''bob'')), (u ''decisions'', PList [decision_evidence receipt_decision])]))) \<le> 1000"
    by (simp add: decision_evidence_def receipt_decision_def demo_corrections_def json_string_def json_entry_def u_def json_char_def
       opt_str_def decision_action_value_def uuid_str_def Let_def int_str_def uuid nats)
  then have small: "length (dumps demo_repr (sort_keys (PDict [(u ''expected_batch_version'', PInt 1),
         (u ''actor'', PStr (u ''bob'')), (u ''decisions'', PList [decision_evidence receipt_decision])]))) \<le> max_review_request_bytes"
    by (simp add: max_review_request_bytes_def)
  have "json_ok (decision_evidence receipt_decision)"
    by (simp add: decision_evidence_def receipt_decision_def demo_corrections_def opt_str_def)
  moreover have "bounded_review_text (PStr (u ''bob'')) 255 = Inr (u ''bob'')"
    by (simp add: bounded_review_text_def demo_text) (simp add: u_def)
  ultimately show ?thesis using small
    by (simp add: checked_request_def norm json max_review_decisions_def receipt_fields del: dumps.simps sort_keys.simps)
qed

lemma receipt_candidates: "candidates_of 6 (receipt_tables [receipt_row] bs intake ds cs) = [receipt_row]"
  by (simp add: candidates_of_def receipt_tables_def bt_review_def)

lemma receipt_decided:
  "apply_decisions receipt_env 6 1 [Draft receipt_request] (PStr (u ''bob'')) (\<lambda>_. 8) 11
     (receipt_tables [receipt_row] [receipt_batch] intake [] [])
   = Inr ([receipt_choice], receipt_tables [receipt_row]
       [receipt_batch\<lparr>b_lifecycle := B_Ready_To_Activate, b_version := 2, b_updated_at := 11\<rparr>] intake [receipt_choice] [])"
proof -
  let ?db = "receipt_tables [receipt_row] [receipt_batch] intake [] []"
  have tables: "find_batch 6 ?db = Some receipt_batch" "bt_decisions ?db = []" "latest_decision 6 ?db 5 = None"
    by (simp_all add: find_batch_def receipt_tables_def bt_review_def latest_decision_def decisions_on_def)
  have "validate_review_decision receipt_env receipt_row receipt_decision = Inr ()"
    by (rule receipt_valid) (simp_all add: receipt_decision_def)
  then have "revise receipt_env ?db 6 (u ''bob'') (8, receipt_decision) = Inr receipt_choice"
    by (simp add: revise_def receipt_candidates tables current_revision_def Let_def receipt_choice_def) (simp add: receipt_decision_def)
  moreover have "check_missing [5] 6 ?db = Inr ()" by (simp add: check_missing_def receipt_candidates)
  moreover have "de_extraction_id receipt_decision = 5" by (simp add: receipt_decision_def)
  moreover have "dc_revision receipt_choice = 1" by (simp add: receipt_choice_def)
  ultimately show ?thesis
    by (simp add: apply_decisions_def receipt_checked tables require_mutable_batch_def receipt_candidates decided_candidates_def Let_def)
      (simp add: update_batch_def on_review_def bt_review_def receipt_tables_def)
qed

subsection \<open>The activation\<close>

definition receipt_chunk :: chunk_row where
  "receipt_chunk = \<lparr>ck_id = 9, ck_batch_id = Some 6, ck_extraction_id = Some 5, ck_seq = 0, ck_heading_path = PList [],
     ck_text = u ''Acme'', ck_embedding = [], ck_embed_model = u ''m'', ck_embed_model_digest = None, ck_token_count = 1\<rparr>"

definition ready_batch :: batch_row where
  "ready_batch = receipt_batch\<lparr>b_lifecycle := B_Ready_To_Activate, b_version := 2, b_updated_at := 11\<rparr>"

definition receipt_ready :: "source_intake \<Rightarrow> batchdb" where
  "receipt_ready intake = receipt_tables [receipt_row] [ready_batch] intake [receipt_choice] [receipt_chunk]"

definition receipt_state :: candidate_activation where
  "receipt_state = \<lparr>ca_candidate = receipt_row, ca_decision = Some receipt_choice, ca_values = Some demo_verified_values,
     ca_subtype = Some FS_Receipt, ca_projection = None, ca_prior_bill = None, ca_correction_sha256 = demo_digest,
     ca_reason_sha256 = demo_digest, ca_search_sha256 = demo_digest, ca_recurring_sha256 = demo_digest, ca_errors = []\<rparr>"

definition receipt_intake_ok :: "source_intake \<Rightarrow> bool" where
  "receipt_intake_ok i \<longleftrightarrow> si_state i = SI_Processed \<and> si_id i = 4 \<and> si_document_id i = 2 \<and> si_source_file_id i = 3
     \<and> si_source_version i = 1 \<and> si_source_sha256 i = demo_digest"

lemma receipt_candidate_state:
  "candidate_activation_of receipt_env receipt_row (Some receipt_choice) [receipt_chunk] = Inr receipt_state"
proof -
  have choice: "dc_action receipt_choice = Include" "dc_corrected_payload receipt_choice = Some demo_corrections"
      "dc_corrected_subtype receipt_choice = None" "dc_expected_version receipt_choice = 1" "dc_exclusion_reason receipt_choice = None"
    by (simp_all add: receipt_choice_def)
  have "validate_review_decision receipt_env receipt_row (staged_draft receipt_row receipt_choice) = Inr ()"
    by (rule receipt_valid) (simp_all add: staged_draft_def choice)
  then have "included_projection receipt_env receipt_row receipt_choice = Inr (Some demo_verified_values, Some FS_Receipt, None)"
    by (simp add: included_projection_def choice receipt_fields receipt_values Let_def)
  then have proj: "candidate_projection receipt_env receipt_row (Some receipt_choice) [receipt_chunk]
      = Inr (Some demo_verified_values, Some FS_Receipt, None, [])"
    by (simp add: candidate_projection_def choice)
  have search: "search_manifest_digest receipt_env [receipt_chunk] = Inr demo_digest"
    by (simp add: search_manifest_digest_def chunk_payload_def receipt_digest receipt_chunk_def opt_str_def)
  have "json_ok (PDict demo_corrections)" by (simp add: demo_corrections_def)
  then show ?thesis
    by (simp add: candidate_activation_of_def choice proj search receipt_digest opt_str_def receipt_state_def del: json_ok.simps(10))
      (simp add: receipt_digest)
qed

lemma receipt_loaded:
  assumes "receipt_intake_ok intake"
  shows "\<exists>st. load_activation_state receipt_env 6 (receipt_ready intake) = Inr st \<and> st_states st = [receipt_state]
    \<and> ap_errors (st_preview st) = [] \<and> ap_vector_sha256 (st_preview st) = demo_digest \<and> ap_source_is_current (st_preview st)
    \<and> st_batch st = ready_batch \<and> st_candidates st = [receipt_row] \<and> st_prior_active st = None
    \<and> st_prior_approved st = [] \<and> st_prior_bills st = [] \<and> d_id (st_document st) = 2
    \<and> \<not> ap_requires_accept_exclusions (st_preview st) \<and> \<not> ap_requires_accept_empty (st_preview st)"
proof -
  let ?db = "receipt_ready intake"
  have batch: "b_id ready_batch = 6" "b_document_id ready_batch = 2" "b_source_intake_id ready_batch = 4"
      "b_source_file_id ready_batch = 3" "b_source_version ready_batch = 1" "b_source_sha256 ready_batch = demo_digest"
      "b_lifecycle ready_batch = B_Ready_To_Activate" "b_candidate_count ready_batch = 1"
      "count_or ready_batch k = count_or receipt_batch k" for k
    by (simp_all add: ready_batch_def count_or_def)
  have rows: "find_batch 6 ?db = Some ready_batch" "candidates_of 6 ?db = [receipt_row]"
      "prior_active_of ready_batch ?db = None" "prior_approved_of ready_batch ?db = []"
      "latest_decision 6 ?db 5 = Some receipt_choice" "chunks_of 6 5 ?db = [receipt_chunk]"
    by (simp_all add: receipt_ready_def find_batch_def candidates_of_def receipt_tables_def bt_review_def prior_active_of_def
        prior_approved_of_def batch latest_decision_def decisions_on_def receipt_choice_def chunks_of_def receipt_chunk_def)
  have doc: "find_doc 2 (bt_review ?db) = Some \<lparr>d_id = 2, d_document_class = Other_Class, d_status = Uploaded, d_source_filename = u ''a.pdf'', d_files = [receipt_file]\<rparr>"
    by (simp add: receipt_ready_def receipt_tables_def bt_review_def find_doc_def)
  have src: "source_matches ready_batch (latest_original [receipt_file]) (find_source_intake 4 ?db)"
    using assms by (simp add: source_matches_def latest_original_def receipt_file_def demo_original_def find_source_intake_def
        receipt_ready_def receipt_tables_def receipt_intake_ok_def batch)
  have attach: "attach_recurring_conflicts (bt_bills ?db) 2 [] [receipt_state] = [receipt_state]"
    by (simp add: attach_recurring_conflicts_def receipt_state_def)
  have acts: "has_action Include receipt_state" "\<not> has_action Exclude receipt_state" "ca_errors receipt_state = []" "ca_decision receipt_state \<noteq> None"
    by (simp_all add: has_action_def receipt_state_def receipt_choice_def)
  have "json_ok (activation_vector receipt_env ready_batch None [] [receipt_state])"
    by (simp add: activation_vector_def batch_payload_def authority_payload_def candidate_payload_def Let_def opt_str_def
        receipt_state_def)
  from receipt_digest [OF this] have preview: "\<exists>p. activation_preview_from_state receipt_env ready_batch [receipt_row] [receipt_state] None [] True = Inr p
      \<and> ap_errors p = [] \<and> ap_vector_sha256 p = demo_digest \<and> ap_source_is_current p
      \<and> \<not> ap_requires_accept_exclusions p \<and> \<not> ap_requires_accept_empty p"
    by (simp add: activation_preview_from_state_def preview_errors_def batch acts Let_def)
  then obtain p where p: "activation_preview_from_state receipt_env ready_batch [receipt_row] [receipt_state] None [] True = Inr p"
      "ap_errors p = []" "ap_vector_sha256 p = demo_digest" "ap_source_is_current p"
      "\<not> ap_requires_accept_exclusions p" "\<not> ap_requires_accept_empty p" by blast
  show ?thesis
    by (simp add: load_activation_state_def rows batch doc src receipt_candidate_state attach p Let_def prior_bills_of_def)
      (simp add: prior_bills_of_def receipt_ready_def receipt_tables_def)
qed

definition receipt_ids :: fresh_ids where
  "receipt_ids = \<lparr>fr_verified = (\<lambda>_. 20), fr_bill = (\<lambda>_. 21), fr_issuer = (\<lambda>_. 22), fr_bill_now = (\<lambda>_. 12)\<rparr>"

lemma receipt_activated:
  assumes "receipt_intake_ok intake"
  shows "\<exists>res db'. activate receipt_env 6 2 demo_digest (PStr (u ''bob'')) False False receipt_ids 12 (receipt_ready intake) = Inr (res, db')"
proof -
  obtain st where st: "load_activation_state receipt_env 6 (receipt_ready intake) = Inr st" "st_states st = [receipt_state]"
      "ap_errors (st_preview st) = []" "ap_vector_sha256 (st_preview st) = demo_digest" "ap_source_is_current (st_preview st)"
      "st_batch st = ready_batch" "st_candidates st = [receipt_row]" "st_prior_active st = None" "st_prior_approved st = []"
      "st_prior_bills st = []" "d_id (st_document st) = 2"
      "\<not> ap_requires_accept_exclusions (st_preview st)" "\<not> ap_requires_accept_empty (st_preview st)"
    using receipt_loaded [OF assms] by blast
  have actor: "bounded_review_text (PStr (u ''bob'')) 255 = Inr (u ''bob'')"
    by (simp add: bounded_review_text_def demo_text) (simp add: u_def)
  have batch: "b_id ready_batch = 6" "b_version ready_batch = 2" "b_lifecycle ready_batch = B_Ready_To_Activate"
    by (simp_all add: ready_batch_def)
  have none: "verifieds (bt_review (retire_prior st a 12 (receipt_ready intake))) = []"
      "batches (bt_review (retire_prior st a 12 (receipt_ready intake))) = [ready_batch]" for a
    unfolding retire_prior_review by (simp_all add: st retired_batch_def receipt_ready_def receipt_tables_def bt_review_def)
  have items: "financial_items st = [receipt_state]" and fields: "ca_values receipt_state = Some demo_verified_values" "ca_projection receipt_state = None"
    by (simp_all add: financial_items_def included_states_def st has_action_def receipt_state_def receipt_choice_def)
  have "\<exists>db'. switch_cohort receipt_env st (u ''bob'') receipt_ids 12 (receipt_ready intake) = Inr db'"
    by (simp add: switch_cohort_def publish_cohort_def none st batch items fields insert_verified_def update_batch_review
        set_doc_status_def)
  then show ?thesis
    using st actor batch by (auto simp: activate_def demo_digest_hex require_mutable_batch_def check_consents_def as_activation_error_def)
qed

lemma receipt_reachable: "\<exists>intake. receipt_intake_ok intake \<and> reachable_batches (receipt_ready intake)"
proof -
  let ?doc = "\<lparr>d_id = 2, d_document_class = Other_Class, d_status = Uploaded, d_source_filename = u ''a.pdf'', d_files = [receipt_file]\<rparr>"
  let ?empty = "\<lparr>bt_bills = \<lparr>bd_review = \<lparr>docs = [], extractions = [], verifieds = [], batches = []\<rparr>,
     bd_issuers = [], bd_bills = []\<rparr>, bt_intakes = [], bt_decisions = [], bt_chunks = []\<rparr>"
  have "bill_step (bt_bills ?empty) ((bt_bills ?empty)\<lparr>bd_review := (bd_review (bt_bills ?empty))\<lparr>docs := [?doc]\<rparr>\<rparr>)"
    using bill_review [OF step_document, of "bt_bills ?empty" ?doc] by simp
  from batches_step [OF batches_empty batch_bills [OF this]]
  have "reachable_batches \<lparr>bt_bills = \<lparr>bd_review = \<lparr>docs = [?doc], extractions = [], verifieds = [], batches = []\<rparr>,
     bd_issuers = [], bd_bills = []\<rparr>, bt_intakes = [], bt_decisions = [], bt_chunks = []\<rparr>" by simp
  from batches_step [OF this batch_context [where ins = "[receipt_intake]" and cks = "[]"]]
  have start: "reachable_batches (receipt_tables [] [] receipt_intake [] [])" by (simp add: receipt_tables_def)
  obtain intake where intake: "receipt_intake_ok intake" and added: "add_candidate_batch (ev_py receipt_env) receipt_args 6 (\<lambda>_. 5) 10
      (receipt_tables [] [] receipt_intake [] []) = Inr (receipt_batch, False, receipt_tables [receipt_row] [receipt_batch] intake [] [])"
    using receipt_added unfolding receipt_intake_ok_def by blast
  from batches_step [OF batches_step [OF start batch_candidates [OF added]] batch_decide [OF receipt_decided]]
  have "reachable_batches (receipt_tables [receipt_row] [ready_batch] intake [receipt_choice] [])" by (simp add: ready_batch_def)
  from batches_step [OF this batch_context [where ins = "[intake]" and cks = "[receipt_chunk]"]]
  have "reachable_batches (receipt_ready intake)" by (simp add: receipt_ready_def receipt_tables_def)
  with intake show ?thesis by blast
qed

lemma receipt_history:
  obtains intake res db' where "reachable_batches (receipt_ready intake)" "receipt_intake_ok intake"
    "activate receipt_env 6 2 demo_digest (PStr (u ''bob'')) False False receipt_ids 12 (receipt_ready intake) = Inr (res, db')"
  using receipt_reachable receipt_activated by blast

end
