(* ===== verification/Batch_Theorems.thy ===== *)
theory Batch_Theorems
  imports Batch_Demo
begin

text \<open>
  The properties of candidate cohorts and their review, each applied to the history of one receipt.
\<close>

text \<open>
  C2. Over every history of candidate batches, decisions, activations, rejections, single-extraction reviews and
  bills, the tables stay well formed: a document has at most one active batch, a batch has exactly the candidates it was
  created with and they belong to its document, an active batch accounts for every candidate with the consents it
  needed, and the decisions on a candidate form one unbroken chain of revisions.
\<close>

theorem cohort_invariant:
  assumes "reachable_batches db"
  shows "batches_ok db"
  using assms by (rule reachable_batches_ok)

theorem cohort_invariant_witness:
  "\<exists>intake. receipt_intake_ok intake \<and> batches_ok (receipt_ready intake)"
  using receipt_reachable cohort_invariant by blast

text \<open>
  C3. An accepted activation makes exactly the reviewed cohort authoritative: afterwards the active verified records
  of the document are the financial candidates whose latest decision is to include them, with the values of their
  payload after that decision's corrections. Whatever was active before is active no more.
\<close>

theorem activation_installs_exactly_the_cohort:
  assumes "reachable_batches db" "activate env i expected vector actor ex em fr now db = Inr (res, db')"
    "find_batch i db = Some b"
  shows "authoritative_values (bt_review db') (b_document_id b) = included_values_of env i db"
proof -
  note ok = reachable_batches_ok [OF assms(1)]
  have "(k, w) \<in> included_values_of env i db" if "(k, w) \<in> authoritative_values (bt_review db') (b_document_id b)" for k w
    using that activation_authority [OF assms(2) ok assms(3)] by (auto simp: authoritative_values_def)
  moreover have "(k, w) \<in> authoritative_values (bt_review db') (b_document_id b)" if "(k, w) \<in> included_values_of env i db" for k w
    using activation_installs [OF assms(2) ok assms(3) that] .
  ultimately show ?thesis by auto
qed

theorem activation_installs_exactly_the_cohort_witness:
  "\<exists>intake res db'. activate receipt_env 6 2 demo_digest (PStr (u ''bob'')) False False receipt_ids 12 (receipt_ready intake) = Inr (res, db')
     \<and> authoritative_values (bt_review db') 2 = {(5, demo_verified_values)}"
proof (rule receipt_history)
  fix intake res db'
  assume h: "reachable_batches (receipt_ready intake)" "receipt_intake_ok intake"
    "activate receipt_env 6 2 demo_digest (PStr (u ''bob'')) False False receipt_ids 12 (receipt_ready intake) = Inr (res, db')"
  have b: "find_batch 6 (receipt_ready intake) = Some ready_batch" "b_document_id ready_batch = 2"
    by (simp_all add: receipt_ready_def receipt_tables_def find_batch_def bt_review_def ready_batch_def)
  have "latest_decision 6 (receipt_ready intake) 5 = Some receipt_choice"
    by (simp add: receipt_ready_def receipt_tables_def latest_decision_def decisions_on_def receipt_choice_def)
  moreover have "candidates_of 6 (receipt_ready intake) = [receipt_row]" by (simp add: receipt_ready_def receipt_candidates)
  moreover have "dc_action receipt_choice = Include" "dc_corrected_payload receipt_choice = Some demo_corrections"
    by (simp_all add: receipt_choice_def)
  ultimately have "included_values_of receipt_env 6 (receipt_ready intake) = {(5, demo_verified_values)}"
    by (auto simp: included_values_of_def receipt_fields receipt_values)
  with activation_installs_exactly_the_cohort [OF h(1,3) b(1)] b(2) h(3) show ?thesis by auto
qed

text \<open>
  C12. Proposing, deciding and rejecting never touch authority: adding a candidate batch, with or without a mapping,
  recording decisions and rejecting a batch leave the active verified records exactly as they were.
\<close>

theorem only_activation_moves_authority:
  assumes "reachable_batches db"
    and "add_candidate_batch penv a new_id ids now db = Inr (b, replay, db')
      \<or> add_mapping_batch penv a m new_id ids now db = Inr (b, replay, db')
      \<or> apply_decisions env i v drafts actor ids now db = Inr (ds, db')
      \<or> reject_batch env i v actor reason now db = Inr (b, db')"
  shows "active_verified (bt_review db') = active_verified (bt_review db)"
  using assms(2) reachable_batches_ok [OF assms(1)] add_batch_authority apply_decisions_authority reject_batch_authority by metis

theorem only_activation_moves_authority_witness:
  "\<exists>intake b db'. reject_batch receipt_env 6 2 (PStr (u ''bob'')) (PStr (u ''bad scan'')) 12 (receipt_ready intake) = Inr (b, db')
     \<and> active_verified (bt_review db') = active_verified (bt_review (receipt_ready intake))"
proof (rule receipt_history)
  fix intake res db'
  assume h: "reachable_batches (receipt_ready intake)" "receipt_intake_ok intake"
  obtain st where st: "load_activation_state receipt_env 6 (receipt_ready intake) = Inr st" "ap_source_is_current (st_preview st)"
      "st_batch st = ready_batch" "st_candidates st = [receipt_row]"
    using receipt_loaded [OF h(2)] by blast
  have "bounded_review_text (PStr (u ''bob'')) 255 = Inr (u ''bob'')" "bounded_review_text (PStr (u ''bad scan'')) 2048 = Inr (u ''bad scan'')"
    by (simp_all add: bounded_review_text_def demo_text) (simp_all add: u_def)
  moreover have "b_version ready_batch = 2" "b_lifecycle ready_batch = B_Ready_To_Activate" by (simp_all add: ready_batch_def)
  ultimately have "\<exists>b db'. reject_batch receipt_env 6 2 (PStr (u ''bob'')) (PStr (u ''bad scan'')) 12 (receipt_ready intake) = Inr (b, db')"
    using st by (simp add: reject_batch_def require_mutable_batch_def)
  then obtain b db' where r: "reject_batch receipt_env 6 2 (PStr (u ''bob'')) (PStr (u ''bad scan'')) 12 (receipt_ready intake) = Inr (b, db')"
    by blast
  from only_activation_moves_authority [OF h(1) disjI2 [OF disjI2 [OF disjI2 [OF r]]]] r show ?thesis by blast
qed

text \<open>
  C13. Two reviewers cannot both act on the same version of a batch: once one of them has recorded decisions,
  activated or rejected it, and whatever happened since, every such request still carrying that version is refused.
\<close>

theorem stale_batch_write_is_refused:
  assumes "reachable_batches db" "writes_batch i v db db1" "rtranclp batch_step db1 db2"
  shows "\<not> writes_batch i v db2 db3"
  using cohort.lost_update_is_refused [OF reachable_batches_ok [OF assms(1)] assms(2,3)] .

theorem stale_batch_write_is_refused_witness:
  "\<exists>intake res db'. activate receipt_env 6 2 demo_digest (PStr (u ''bob'')) False False receipt_ids 12 (receipt_ready intake) = Inr (res, db')
     \<and> \<not> writes_batch 6 2 db' db'"
proof (rule receipt_history)
  fix intake res db'
  assume h: "reachable_batches (receipt_ready intake)"
    "activate receipt_env 6 2 demo_digest (PStr (u ''bob'')) False False receipt_ids 12 (receipt_ready intake) = Inr (res, db')"
  from stale_batch_write_is_refused [OF h(1) writes_batchI(2) [OF h(2)] rtranclp.rtrancl_refl] h(2) show ?thesis by blast
qed

text \<open>
  C11. What is activated is what was previewed: if an activation is accepted with the digest of a preview, however
  much later, then the batch, its version and source, the authority it replaces and, candidate by candidate, the
  version, decision, action, subtype, corrections, search text and prior bill are those the preview was computed from,
  provided SHA-256 does not collide on the two vectors and their texts are Unicode.
\<close>

theorem activation_is_what_was_previewed:
  assumes "load_activation_state env i db = Inr seen"
    and "activate env j v (ap_vector_sha256 (st_preview seen)) actor ex em fr now db2 = Inr (res, db')"
    and "load_activation_state env j db2 = Inr st"
    and "float_repr_ok (te_float_repr (ev_py env))" "json_wf (vector_of env seen)" "json_wf (vector_of env st)"
      "collision_free (ev_py env) (vector_of env seen) (vector_of env st)"
  shows "batch_view_of seen = batch_view_of st \<and> authority_view_of seen = authority_view_of st
    \<and> candidates_view_of seen = candidates_view_of st"
proof -
  have "ap_vector_sha256 (st_preview seen) = ap_vector_sha256 (st_preview st)"
    by (rule activate_Inr [OF assms(2)]) (use assms(3) in simp)
  with preview_digest [OF assms(3)] have "env_digest (ev_py env) (vector_of env st) = Inr (ap_vector_sha256 (st_preview seen))" by simp
  from vector_identifies [OF digest_identifies [OF preview_digest [OF assms(1)] this assms(4-7)]] show ?thesis .
qed

lemma receipt_vector_wf:
  assumes "st_states st = [receipt_state]" "st_batch st = ready_batch" "st_prior_active st = None" "st_prior_approved st = []"
  shows "json_wf (vector_of receipt_env st)"
proof -
  have hex: "list_all is_scalar demo_digest" by (simp add: demo_digest_def list_all_iff is_scalar_def is_surrogate_def)
  show ?thesis
    by (simp add: vector_of_def assms activation_vector_def batch_payload_def authority_payload_def candidate_payload_def Let_def
        opt_str_def receipt_state_def ascii_scalar hex uuid_str_scalar ready_batch_def receipt_choice_def recurring_preview_version_def
        record_kind_value_def financial_subtype_value_def decision_action_value_def)
      (simp add: receipt_batch_def new_batch_def hex)
qed

theorem activation_is_what_was_previewed_witness:
  "\<exists>intake later seen st res db'. later \<noteq> intake \<and> load_activation_state receipt_env 6 (receipt_ready intake) = Inr seen
     \<and> activate receipt_env 6 2 (ap_vector_sha256 (st_preview seen)) (PStr (u ''bob'')) False False receipt_ids 12 (receipt_ready later) = Inr (res, db')
     \<and> load_activation_state receipt_env 6 (receipt_ready later) = Inr st \<and> candidates_view_of seen = candidates_view_of st"
proof (rule receipt_history)
  fix intake res0 db0
  assume intake: "receipt_intake_ok intake"
  define later where "later = intake\<lparr>si_updated_at := si_updated_at intake + 1\<rparr>"
  have "si_updated_at later \<noteq> si_updated_at intake" by (simp add: later_def)
  then have ne: "later \<noteq> intake" by auto
  have later: "receipt_intake_ok later" using intake by (simp add: later_def receipt_intake_ok_def)
  obtain seen where seen: "load_activation_state receipt_env 6 (receipt_ready intake) = Inr seen" "st_states seen = [receipt_state]"
      "ap_vector_sha256 (st_preview seen) = demo_digest" "st_batch seen = ready_batch" "st_prior_active seen = None" "st_prior_approved seen = []"
    using receipt_loaded [OF intake] by blast
  obtain st where st: "load_activation_state receipt_env 6 (receipt_ready later) = Inr st" "st_states st = [receipt_state]"
      "st_batch st = ready_batch" "st_prior_active st = None" "st_prior_approved st = []"
    using receipt_loaded [OF later] by blast
  obtain res db' where act: "activate receipt_env 6 2 (ap_vector_sha256 (st_preview seen)) (PStr (u ''bob'')) False False receipt_ids 12
      (receipt_ready later) = Inr (res, db')"
    using receipt_activated [OF later] seen(3) by auto
  have "collision_free (ev_py receipt_env) (vector_of receipt_env seen) (vector_of receipt_env st)"
    using seen st by (simp add: collision_free_def vector_of_def)
  from activation_is_what_was_previewed [OF seen(1) act st(1) _ receipt_vector_wf receipt_vector_wf this] seen st
  have "candidates_view_of seen = candidates_view_of st" by (simp add: receipt_fields demo_repr_ok)
  with ne seen(1) act st(1) show ?thesis by blast
qed

end
