(* ===== verification/Document_Repo.thy ===== *)
theory Document_Repo
  imports Review_Lifecycle
begin

text \<open>
  \<^verbatim>\<open>DocumentRepo\<close> of \<^verbatim>\<open>src/clerksan/db/repositories.py\<close>: creating a document with its original,
  appending a replacement original, recording derivatives, changing the status, and preparing a
  reprocess or a retry of failed derivatives. The state extends the job table with the review
  tables, the upload reservations and the rows derived from the current source; source intakes
  are written through the operations of the source intake repository on \<open>intake_view\<close>. A savepoint
  that is rolled back leaves the state it was opened on. Identifiers the code draws with
  \<^verbatim>\<open>uuid4\<close> and clock readings are arguments.
\<close>

record docdb = jobdb +
  dr_review :: reviewdb
  dr_reservations :: "reservation list"
  dr_owned_keys :: "nat set"
  dr_chunks :: "(nat \<times> nat) list"
  dr_spreadsheet_rows :: "(nat \<times> nat) list"
  dr_embedded_media :: "(nat \<times> nat) list"

definition intake_view :: "docdb \<Rightarrow> intakedb" where
  "intake_view db = \<lparr>source_rows = intakes db, reservations = dr_reservations db,
     owned_keys = dr_owned_keys db, intake_jobs = jobs db\<rparr>"

definition put_intakes :: "intakedb \<Rightarrow> docdb \<Rightarrow> docdb" where
  "put_intakes v db = db\<lparr>intakes := source_rows v, dr_reservations := reservations v,
     dr_owned_keys := owned_keys v\<rparr>"

definition locked_document :: "nat \<Rightarrow> docdb \<Rightarrow> document_row res" where
  "locked_document i db =
     (case find_doc i (dr_review db) of None \<Rightarrow> Inl DocumentNotFoundError | Some d \<Rightarrow> Inr d)"

definition document_jobs :: "nat \<Rightarrow> docdb \<Rightarrow> job list" where
  "document_jobs i db = sort_key j_created_at (filter (\<lambda>j. j_document_id j = i) (jobs db))"

definition update_doc :: "nat \<Rightarrow> (document_row \<Rightarrow> document_row) \<Rightarrow> docdb \<Rightarrow> docdb" where
  "update_doc i f db = db\<lparr>dr_review := (dr_review db)
     \<lparr>docs := map (\<lambda>d. if d_id d = i then f d else d) (docs (dr_review db))\<rparr>\<rparr>"

definition next_file_version :: "document_file list \<Rightarrow> int" where
  "next_file_version files = Max (set (0 # map f_version files)) + 1"

definition all_files :: "docdb \<Rightarrow> document_file list" where
  "all_files db = concat (map d_files (docs (dr_review db)))"

text \<open>\<^verbatim>\<open>SourceIntakeRepo.get_for_source\<close>.\<close>

definition get_for_source :: "nat \<Rightarrow> nat \<Rightarrow> int \<Rightarrow> docdb \<Rightarrow> source_intake option" where
  "get_for_source doc file version db = find (\<lambda>r. si_document_id r = doc \<and> si_source_file_id r = file
     \<and> si_source_version r = version) (intakes db)"

subsection \<open>Status and derivatives\<close>

definition set_status :: "nat \<Rightarrow> document_status \<Rightarrow> int option \<Rightarrow> docdb \<Rightarrow> docdb res" where
  "set_status i status source_version db =
     rbind (locked_document i db) (\<lambda>d.
     rbind (case source_version of
         None \<Rightarrow> Inr ()
       | Some v \<Rightarrow> (case latest_original (d_files d) of
             None \<Rightarrow> Inl SourceVersionSupersededError
           | Some original \<Rightarrow> require (f_version original = v) SourceVersionSupersededError)) (\<lambda>_.
     Inr (update_doc i (\<lambda>d. d\<lparr>d_status := status\<rparr>) db)))"

record artifact_args =
  aa_kind :: file_kind
  aa_content_path :: pystr
  aa_sha256 :: pystr
  aa_mime :: pystr
  aa_source_file_id :: nat
  aa_source_version :: int
  aa_ocr_text :: "pystr option"
  aa_text_provenance :: "pystr option"
  aa_page_number :: "int option"

definition preview_manifest_mime :: pystr where
  "preview_manifest_mime = u ''application/vnd.clerksan.preview-manifest+json''"

text \<open>The unique keys of \<^verbatim>\<open>document_files\<close> an inserted derivative can violate.\<close>

definition artifact_conflicts :: "docdb \<Rightarrow> document_file \<Rightarrow> bool" where
  "artifact_conflicts db f \<longleftrightarrow> (\<exists>g \<in> set (all_files db). f_id g = f_id f
     \<or> (f_document_id g = f_document_id f \<and> f_version g = f_version f)
     \<or> (f_kind g = Page_Render \<and> f_kind f = Page_Render \<and> f_source_file_id g = f_source_file_id f
          \<and> f_source_version g = f_source_version f \<and> f_page_number g = f_page_number f)
     \<or> (f_mime g = preview_manifest_mime \<and> f_mime f = preview_manifest_mime
          \<and> f_source_file_id g = f_source_file_id f \<and> f_source_version g = f_source_version f))"

definition check_page_number :: "file_kind \<Rightarrow> int option \<Rightarrow> unit res" where
  "check_page_number kind page =
     (if kind = Page_Render then
        (case page of
           None \<Rightarrow> Inl (ValueError ''page_render artifacts require a positive page_number'')
         | Some n \<Rightarrow> require (0 < n) (ValueError ''page_render artifacts require a positive page_number''))
      else require (page = None) (ValueError ''page_number is valid only for page_render artifacts''))"

definition add_artifact :: "nat \<Rightarrow> artifact_args \<Rightarrow> nat \<Rightarrow> docdb \<Rightarrow> (nat \<times> docdb) res" where
  "add_artifact i a new_file db =
     rbind (locked_document i db) (\<lambda>d.
     rbind (require (aa_kind a \<noteq> Original)
       (ValueError ''add_artifact accepts derivative file kinds only'')) (\<lambda>_.
     case latest_original (d_files d) of
       None \<Rightarrow> Inl SourceVersionSupersededError
     | Some original \<Rightarrow>
         if f_version original \<noteq> aa_source_version a then Inl SourceVersionSupersededError
         else if f_id original \<noteq> aa_source_file_id a then Inl SourceVersionSupersededError
         else
         rbind (check_page_number (aa_kind a) (aa_page_number a)) (\<lambda>_.
         rbind (validate_sha256 (aa_sha256 a)) (\<lambda>_.
         rbind (clean_text (aa_content_path a)) (\<lambda>path.
         rbind (clean_text (aa_mime a)) (\<lambda>mime.
         let f = \<lparr>f_id = new_file, f_document_id = i, f_version = next_file_version (d_files d),
               f_kind = aa_kind a, f_content_path = path, f_sha256 = aa_sha256 a, f_mime = mime,
               f_source_filename = f_source_filename original, f_source_file_id = Some (f_id original),
               f_source_version = Some (f_version original), f_page_number = aa_page_number a,
               f_ocr_text = aa_ocr_text a, f_text_provenance = aa_text_provenance a\<rparr>
         in if artifact_conflicts db f then Inl IntegrityError
            else Inr (new_file, update_doc i (\<lambda>d. d\<lparr>d_files := d_files d @ [f]\<rparr>) db)))))))"

subsection \<open>Uploads\<close>

record raw_args =
  ra_filename :: pystr
  ra_content_path :: pystr
  ra_sha256 :: pystr
  ra_mime :: pystr
  ra_doc_class :: document_class
  ra_duplicate_of :: "nat option"
  ra_upload_key :: pyval
  ra_intent_digest :: pyval
  ra_registry_digest :: pyval
  ra_capabilities_digest :: pyval
  ra_policy_version :: pystr
  ra_required_components :: pyval
  ra_intake_intent :: pyval
  ra_detected_family :: pyval
  ra_detected_format :: pyval
  ra_detection_evidence :: "pyval list"
  ra_intake_state :: "source_intake_state + pystr"
  ra_reason_code :: pyval
  ra_retryable :: bool
  ra_execution_profile :: "execution_profile + pystr"
  ra_sandbox_verified :: bool

definition original_file :: "nat \<Rightarrow> nat \<Rightarrow> int \<Rightarrow> pystr \<Rightarrow> pystr \<Rightarrow> pystr \<Rightarrow> pystr \<Rightarrow> document_file" where
  "original_file file doc version path sha mime filename =
     \<lparr>f_id = file, f_document_id = doc, f_version = version, f_kind = Original, f_content_path = path,
      f_sha256 = sha, f_mime = mime, f_source_filename = filename, f_source_file_id = None,
      f_source_version = None, f_page_number = None, f_ocr_text = None, f_text_provenance = None\<rparr>"

definition companion_args_of ::
  "raw_args \<Rightarrow> nat \<Rightarrow> document_file \<Rightarrow> nat option \<Rightarrow> intake_intent \<Rightarrow> pystr \<Rightarrow> companion_args" where
  "companion_args_of a doc file key intent mime =
     \<lparr>ca_document_id = doc, ca_source_file = file, ca_duplicate_of = ra_duplicate_of a,
      ca_upload_key = (case key of None \<Rightarrow> PNone | Some k \<Rightarrow> PUuid k),
      ca_intent_digest = ra_intent_digest a, ca_registry_digest = ra_registry_digest a,
      ca_capabilities_digest = ra_capabilities_digest a, ca_policy_version = ra_policy_version a,
      ca_required_components = ra_required_components a,
      ca_intake_intent = PStr (intake_intent_value intent), ca_detected_family = ra_detected_family a,
      ca_detected_format = ra_detected_format a, ca_canonical_mime = PStr mime,
      ca_detection_evidence = ra_detection_evidence a, ca_state = ra_intake_state a,
      ca_reason_code = ra_reason_code a, ca_retryable = ra_retryable a, ca_failure_phase = PNone,
      ca_execution_profile = ra_execution_profile a, ca_sandbox_verified = ra_sandbox_verified a\<rparr>"

definition on_intakes :: "(intakedb \<Rightarrow> ('a \<times> intakedb) res) \<Rightarrow> docdb \<Rightarrow> ('a \<times> docdb) res" where
  "on_intakes f db = rbind (f (intake_view db)) (\<lambda>(x, v). Inr (x, put_intakes v db))"

definition reserve :: "uuid_parser \<Rightarrow> nat \<Rightarrow> pystr \<Rightarrow> pyval \<Rightarrow> docdb \<Rightarrow> (upload_outcome \<times> docdb) res" where
  "reserve uuid_of k sha intent = on_intakes (reserve_upload_idempotency uuid_of (PUuid k) sha intent)"

text \<open>The savepoint of \<^verbatim>\<open>create_with_raw\<close>: the document, its original, then the source intake.\<close>

definition insert_document ::
  "uuid_parser \<Rightarrow> (pystr list \<Rightarrow> pystr) \<Rightarrow> raw_args \<Rightarrow> pystr \<Rightarrow> pystr \<Rightarrow> pystr \<Rightarrow> nat option \<Rightarrow> intake_intent
     \<Rightarrow> nat \<Rightarrow> nat \<Rightarrow> nat \<Rightarrow> int \<Rightarrow> docdb \<Rightarrow> docdb res" where
  "insert_document uuid_of hash a filename path mime key intent new_doc new_file new_intake now db =
     (let original = original_file new_file new_doc 1 path (ra_sha256 a) mime filename;
          d = \<lparr>d_id = new_doc, d_document_class = ra_doc_class a, d_status = Uploaded,
               d_source_filename = filename, d_files = [original]\<rparr>
      in if new_doc \<in> set (documents db) \<or> new_file \<in> f_id ` set (all_files db) then Inl IntegrityError
      else rbind (on_intakes (create_source_companion uuid_of hash
               (companion_args_of a new_doc original key intent mime) new_intake now)
             (db\<lparr>documents := documents db @ [new_doc],
                 dr_review := (dr_review db)\<lparr>docs := docs (dr_review db) @ [d]\<rparr>\<rparr>)) (\<lambda>(_, db'). Inr db'))"

definition replay_or ::
  "upload_outcome \<Rightarrow> (source_intake \<Rightarrow> 'a res) \<Rightarrow> 'a res \<Rightarrow> 'a res" where
  "replay_or outcome replayed fresh = (case outcome of
     Replay (row, _) \<Rightarrow> replayed row
   | Conflict \<Rightarrow> Inl UploadIdempotencyConflictError
   | New \<Rightarrow> fresh)"

definition create_with_raw ::
  "uuid_parser \<Rightarrow> (pystr list \<Rightarrow> pystr) \<Rightarrow> raw_args \<Rightarrow> nat \<Rightarrow> nat \<Rightarrow> nat \<Rightarrow> int \<Rightarrow> docdb
     \<Rightarrow> (nat \<times> docdb) res" where
  "create_with_raw uuid_of hash a new_doc new_file new_intake now db =
     rbind (clean_text (ra_filename a)) (\<lambda>filename.
     rbind (clean_text (ra_content_path a)) (\<lambda>path.
     rbind (clean_text (ra_mime a)) (\<lambda>mime.
     rbind (validate_sha256 (ra_sha256 a)) (\<lambda>_.
     rbind (repo_intake_intent (ra_intake_intent a)) (\<lambda>intent.
     rbind (normalize_upload_idempotency_key uuid_of (ra_upload_key a)) (\<lambda>key.
     let attempt = (\<lambda>db. insert_document uuid_of hash a filename path mime key intent
                       new_doc new_file new_intake now db)
     in case key of
       None \<Rightarrow>
         if ra_intent_digest a \<noteq> PNone then
           Inl (SourceIntakeValidationError ''upload_idempotency_key is required with intent_digest'')
         else rbind (attempt db) (\<lambda>db'. Inr (new_doc, db'))
     | Some k \<Rightarrow>
         if ra_intent_digest a = PNone then
           Inl (SourceIntakeValidationError ''intent_digest is required with upload_idempotency_key'')
         else rbind (reserve uuid_of k (ra_sha256 a) (ra_intent_digest a) db) (\<lambda>(outcome, db1).
           replay_or outcome (\<lambda>row. Inr (si_document_id row, db1))
             (case attempt db1 of
                Inr db2 \<Rightarrow> Inr (new_doc, db2)
              | Inl e \<Rightarrow>
                  if e = IntegrityError then
                    rbind (reserve uuid_of k (ra_sha256 a) (ra_intent_digest a) db1) (\<lambda>(outcome', db2).
                      replay_or outcome' (\<lambda>row. Inr (si_document_id row, db2)) (Inl IntegrityError))
                  else Inl e))))))))"

record raw_source_version =
  rv_version :: int
  rv_sha256 :: pystr
  rv_intake_intent :: intake_intent

definition resolve_append_intent :: "document_row \<Rightarrow> intake_intent option \<Rightarrow> docdb \<Rightarrow> intake_intent" where
  "resolve_append_intent d requested db =
     (case requested of
        Some i \<Rightarrow> i
      | None \<Rightarrow> (case latest_original (d_files d) of
          None \<Rightarrow> Legacy_Unspecified
        | Some f \<Rightarrow> (case get_for_source (d_id d) (f_id f) (f_version f) db of
            None \<Rightarrow> Legacy_Unspecified
          | Some r \<Rightarrow> si_intake_intent r)))"

definition requested_intent :: "pyval \<Rightarrow> intake_intent option res" where
  "requested_intent v = (if v = PNone then Inr None else rbind (repo_intake_intent v) (\<lambda>i. Inr (Some i)))"

definition resolve_append_intake_intent :: "nat \<Rightarrow> pyval \<Rightarrow> docdb \<Rightarrow> intake_intent res" where
  "resolve_append_intake_intent i requested db =
     rbind (requested_intent requested) (\<lambda>req.
     rbind (locked_document i db) (\<lambda>d. Inr (resolve_append_intent d req db)))"

text \<open>The savepoint of \<^verbatim>\<open>append_raw_source\<close>: pending extractions are superseded, the rows derived from
  the old source removed, the new original recorded and its intake created.\<close>

definition replace_source ::
  "uuid_parser \<Rightarrow> (pystr list \<Rightarrow> pystr) \<Rightarrow> raw_args \<Rightarrow> document_file \<Rightarrow> pystr \<Rightarrow> pystr \<Rightarrow> nat option
     \<Rightarrow> intake_intent \<Rightarrow> nat \<Rightarrow> int \<Rightarrow> docdb \<Rightarrow> docdb res" where
  "replace_source uuid_of hash a original actor mime key intent new_intake now db =
     (let i = f_document_id original;
          db1 = db\<lparr>dr_review := snd (supersede_pending_extractions i actor now (dr_review db)),
                   dr_chunks := filter (\<lambda>c. snd c \<noteq> i) (dr_chunks db),
                   dr_spreadsheet_rows := filter (\<lambda>c. snd c \<noteq> i) (dr_spreadsheet_rows db),
                   dr_embedded_media := filter (\<lambda>c. snd c \<noteq> i) (dr_embedded_media db)\<rparr>;
          db2 = update_doc i (\<lambda>d. d\<lparr>d_files := d_files d @ [original],
                   d_source_filename := f_source_filename original, d_status := Needs_Reprocess\<rparr>) db1
      in if f_id original \<in> f_id ` set (all_files db) then Inl IntegrityError
      else rbind (on_intakes (create_source_companion uuid_of hash
               (companion_args_of a i original key intent mime) new_intake now) db2) (\<lambda>(_, db'). Inr db'))"

definition append_original ::
  "uuid_parser \<Rightarrow> (pystr list \<Rightarrow> pystr) \<Rightarrow> document_row \<Rightarrow> raw_args \<Rightarrow> pystr \<Rightarrow> pystr \<Rightarrow> pystr \<Rightarrow> pystr \<Rightarrow> nat option
     \<Rightarrow> intake_intent \<Rightarrow> nat \<Rightarrow> nat \<Rightarrow> int \<Rightarrow> docdb \<Rightarrow> (raw_source_version \<times> docdb) res" where
  "append_original uuid_of hash d a filename path mime actor key intent new_file new_intake now db =
     (if \<exists>f \<in> set (d_files d). f_kind f = Original \<and> f_sha256 f = ra_sha256 a then
        Inl (RawSourceVersionError ''this document already retains that file checksum'')
      else
        let original = original_file new_file (d_id d) (next_file_version (d_files d)) path (ra_sha256 a) mime filename
        in case replace_source uuid_of hash a original actor mime key intent new_intake now db of
             Inr db' \<Rightarrow> Inr (\<lparr>rv_version = f_version original, rv_sha256 = ra_sha256 a,
                           rv_intake_intent = intent\<rparr>, db')
           | Inl e \<Rightarrow> Inl (if e = IntegrityError then RawSourceVersionError
               ''the document changed before this source version could be appended; retry'' else e))"

definition append_raw_source ::
  "uuid_parser \<Rightarrow> (pystr list \<Rightarrow> pystr) \<Rightarrow> nat \<Rightarrow> raw_args \<Rightarrow> pystr \<Rightarrow> nat \<Rightarrow> nat \<Rightarrow> int \<Rightarrow> docdb
     \<Rightarrow> (raw_source_version \<times> docdb) res" where
  "append_raw_source uuid_of hash i a actor new_file new_intake now db =
     rbind (clean_text (ra_filename a)) (\<lambda>filename.
     rbind (clean_text (ra_content_path a)) (\<lambda>path.
     rbind (clean_text (ra_mime a)) (\<lambda>mime.
     rbind (validate_sha256 (ra_sha256 a)) (\<lambda>_.
     rbind (clean_text actor) (\<lambda>actor'.
     rbind (requested_intent (ra_intake_intent a)) (\<lambda>requested.
     rbind (normalize_upload_idempotency_key uuid_of (ra_upload_key a)) (\<lambda>key.
     rbind (require (\<not> (key = None \<and> ra_intent_digest a \<noteq> PNone))
       (SourceIntakeValidationError ''upload_idempotency_key is required with intent_digest'')) (\<lambda>_.
     rbind (locked_document i db) (\<lambda>d.
     let intent = resolve_append_intent d requested db;
         append = append_original uuid_of hash d a filename path mime actor' key intent new_file new_intake now
     in case key of
       None \<Rightarrow> append db
     | Some k \<Rightarrow>
         if ra_intent_digest a = PNone then
           Inl (SourceIntakeValidationError ''intent_digest is required with upload_idempotency_key'')
         else rbind (reserve uuid_of k (ra_sha256 a) (ra_intent_digest a) db) (\<lambda>(outcome, db1).
           replay_or outcome (\<lambda>row.
             if si_document_id row \<noteq> i then Inl UploadIdempotencyConflictError
             else Inr (\<lparr>rv_version = si_source_version row, rv_sha256 = si_source_sha256 row,
                        rv_intake_intent = si_intake_intent row\<rparr>, db1))
             (append db1)))))))))))"

end
