(* ===== verification/Document_Reprocess.thy ===== *)
theory Document_Reprocess
  imports Document_Repo
begin

text \<open>
  The recovery operations of \<^verbatim>\<open>DocumentRepo\<close>: \<^verbatim>\<open>prepare_reprocess\<close>, \<^verbatim>\<open>lock_current_reprocess_intake\<close> and
  \<^verbatim>\<open>retry_current_derivatives\<close>, with the helpers that order extractions and jobs, and the error a
  document shows for its current source.
\<close>

definition latest_by :: "('a \<Rightarrow> 'k :: linorder) \<Rightarrow> 'a list \<Rightarrow> 'a option" where
  "latest_by key xs = find (\<lambda>x. \<forall>y \<in> set xs. key y \<le> key x) xs"

definition extraction_order :: "extraction \<Rightarrow> int \<times> int \<times> nat" where
  "extraction_order x = (x_created_at x, x_version x, x_id x)"

definition latest_extraction_for_source ::
  "extraction list \<Rightarrow> extraction_status \<Rightarrow> int \<Rightarrow> extraction option" where
  "latest_extraction_for_source records status version =
     latest_by extraction_order (filter (\<lambda>x. x_status x = status \<and> x_source_version x = version) records)"

definition document_extractions :: "nat \<Rightarrow> docdb \<Rightarrow> extraction list" where
  "document_extractions i db =
     sort_key x_created_at (filter (\<lambda>x. x_document_id x = i) (extractions (dr_review db)))"

definition current_source_process_jobs :: "job list \<Rightarrow> int \<Rightarrow> job list" where
  "current_source_process_jobs js version = sort_key job_order
     (filter (\<lambda>j. j_job_type j = u ''process_document'' \<and> job_source_version j = Some version) js)"

definition failed_reprocess_key :: "int \<Rightarrow> nat \<Rightarrow> pystr" where
  "failed_reprocess_key version job = u ''reprocess:'' @ int_str version @ u '':failure:'' @ uuid_str job"

definition extraction_reprocess_key :: "int \<Rightarrow> extraction \<Rightarrow> pystr" where
  "extraction_reprocess_key version x =
     u ''reprocess:'' @ int_str version @ u '':'' @ uuid_str (x_id x) @ u '':'' @ int_str (x_version x)"

definition intake_reprocess_key :: "source_intake \<Rightarrow> int \<Rightarrow> pystr" where
  "intake_reprocess_key r version = u ''reprocess:intake:'' @ uuid_str (si_id r) @ u '':source:''
     @ int_str version @ u '':attempt:'' @ int_str (si_version r)"

record reprocess_target =
  rp_original_version :: int
  rp_original_sha256 :: pystr
  rp_idempotency_key :: pystr
  rp_lifecycle_id :: "nat option"
  rp_lifecycle_version :: "int option"
  rp_intake_intent :: intake_intent

text \<open>
  The choice of the lifecycle record or of the key that makes one reprocess request idempotent:
  the extraction to reprocess and the key taken from a job or from the intake. The source reads
  \<^verbatim>\<open>reversed(current_source_jobs)\<close>, so the newest active or dead job is taken.
\<close>

definition active_job :: "job list \<Rightarrow> job option" where
  "active_job js = find (\<lambda>j. j_status j \<in> {Queued, Running}) (rev js)"

definition dead_job :: "job list \<Rightarrow> job option" where
  "dead_job js = find (\<lambda>j. j_status j = Dead) (rev js)"

definition job_reprocess_key :: "job list \<Rightarrow> int \<Rightarrow> pystr option" where
  "job_reprocess_key js version = (case active_job js of
     Some j \<Rightarrow> Some (j_idempotency_key j)
   | None \<Rightarrow> map_option (\<lambda>j. failed_reprocess_key version (j_id j)) (dead_job js))"

definition reprocess_choice ::
  "document_status \<Rightarrow> source_intake \<Rightarrow> extraction option \<Rightarrow> extraction option \<Rightarrow> job list \<Rightarrow> int
     \<Rightarrow> extraction option \<times> pystr option" where
  "reprocess_choice status intake approved rejected js version =
     (if status = Needs_Reprocess then
        (let x = (case rejected of Some r \<Rightarrow> Some r | None \<Rightarrow> approved)
         in (x, if x = None then job_reprocess_key js version else None))
      else if status = Verified_Doc then (approved, None)
      else if status = Failed_Doc then (None, job_reprocess_key js version)
      else if si_state intake = SI_Stored_Unprocessed then (None, Some (intake_reprocess_key intake version))
      else (None, None))"

definition current_original_intake :: "nat \<Rightarrow> docdb \<Rightarrow> (document_row \<times> document_file \<times> source_intake) res" where
  "current_original_intake i db =
     rbind (locked_document i db) (\<lambda>d.
     case latest_original (d_files d) of
       None \<Rightarrow> Inl (ReprocessStateError ''document has no preserved original to reprocess'')
     | Some original \<Rightarrow> (case get_for_source (d_id d) (f_id original) (f_version original) db of
         None \<Rightarrow> Inl (SourceIntakeValidationError
           ''current original is missing its required source intake companion'')
       | Some intake \<Rightarrow> Inr (d, original, intake)))"

definition requeue_args :: "source_intake \<Rightarrow> pystr \<Rightarrow> transition_args" where
  "requeue_args r actor = \<lparr>tr_intake_id = si_id r, tr_expected_version = si_version r,
     tr_state = Inl SI_Queued, tr_actor = actor, tr_reason_code = PStr (u ''processing_queued''),
     tr_retryable = False, tr_failure_phase = PNone\<rparr>"

definition prepare_reprocess ::
  "nat \<Rightarrow> pystr \<Rightarrow> int \<Rightarrow> docdb \<Rightarrow> (reprocess_target \<times> docdb) res" where
  "prepare_reprocess i actor now db =
     rbind (clean_text actor) (\<lambda>actor'.
     rbind (current_original_intake i db) (\<lambda>(d, original, intake).
     let version = f_version original;
         records = document_extractions i db;
         js = current_source_process_jobs (document_jobs i db) version;
         (x, key) = reprocess_choice (d_status d) intake
           (latest_extraction_for_source records Approved version)
           (latest_extraction_for_source records Rejected version) js version
     in case (case x of Some r \<Rightarrow> Some (extraction_reprocess_key version r) | None \<Rightarrow> key) of
          None \<Rightarrow> Inl (ReprocessStateError ''reprocess is not available for this document'')
        | Some k \<Rightarrow>
            let db1 = update_doc i (\<lambda>d. d\<lparr>d_status := Needs_Reprocess\<rparr>) db;
                target = \<lparr>rp_original_version = version, rp_original_sha256 = f_sha256 original,
                  rp_idempotency_key = k, rp_lifecycle_id = map_option x_id x,
                  rp_lifecycle_version = map_option x_version x, rp_intake_intent = si_intake_intent intake\<rparr>
            in if si_state intake = SI_Queued then Inr (target, db1)
               else rbind (on_intakes (transition (requeue_args intake actor') now) db1)
                      (\<lambda>(_, db2). Inr (target, db2))))"

definition lock_current_reprocess_intake ::
  "nat \<Rightarrow> nat option \<Rightarrow> int option \<Rightarrow> docdb \<Rightarrow> source_intake res" where
  "lock_current_reprocess_intake i expected_id expected_version db =
     rbind (current_original_intake i db) (\<lambda>(d, original, intake).
     if expected_id \<noteq> None \<and> expected_id \<noteq> Some (si_id intake) then Inl StaleSourceIntakeError
     else if expected_version \<noteq> None \<and> expected_version \<noteq> Some (si_version intake) then
       Inl StaleSourceIntakeError
     else Inr intake)"

subsection \<open>Failed derivatives\<close>

type_synonym derivative_target = "pystr \<times> int \<times> pystr"

definition payload_text :: "job \<Rightarrow> pystr \<Rightarrow> pystr option" where
  "payload_text j field = (case dict_get (j_payload j) field of Some (PStr s) \<Rightarrow> Some s | _ \<Rightarrow> None)"

definition derivative_job_target :: "job \<Rightarrow> derivative_target option" where
  "derivative_job_target j =
     (if j_job_type j \<notin> {u ''index_document'', u ''process_embedded_media''} then None
      else let field = (if j_job_type j = u ''index_document'' then u ''normalized_sha256'' else u ''media_sha256'')
        in case (job_source_version j, payload_text j field) of
             (Some v, Some c) \<Rightarrow> if is_sha256_hex c then Some (j_job_type j, v, c) else None
           | _ \<Rightarrow> None)"

text \<open>A Python dictionary of lists, grown with \<^verbatim>\<open>setdefault(target, []).append(job)\<close>.\<close>

fun group_append :: "'k \<Rightarrow> 'v \<Rightarrow> ('k \<times> 'v list) list \<Rightarrow> ('k \<times> 'v list) list" where
  "group_append k v [] = [(k, [v])]"
| "group_append k v ((k', vs) # rest) =
     (if k = k' then (k', vs @ [v]) # rest else (k', vs) # group_append k v rest)"

definition current_source_derivative_jobs ::
  "job list \<Rightarrow> int \<Rightarrow> (derivative_target \<times> job list) list" where
  "current_source_derivative_jobs js version = foldl (\<lambda>g j. case derivative_job_target j of
       Some t \<Rightarrow> if fst (snd t) = version then group_append t j g else g
     | None \<Rightarrow> g) [] js"

definition recovery_key :: "job \<Rightarrow> pystr" where
  "recovery_key j = u ''recovery:'' @ uuid_str (j_id j)"

definition latest_derivative_recovery_leaf :: "job list \<Rightarrow> job list \<Rightarrow> job option" where
  "latest_derivative_recovery_leaf terminals js =
     (let leaves = filter (\<lambda>j. recovery_key j \<notin> j_idempotency_key ` set js) terminals
      in latest_by job_order (if leaves = [] then terminals else leaves))"

text \<open>
  The job of one group that gets a successor: none when a job of the group is queued, running or
  done, when nothing of it is terminal, or when the successor exists already.
\<close>

definition failed_derivative :: "job list \<Rightarrow> job list \<Rightarrow> job option" where
  "failed_derivative all js =
     (if \<exists>j \<in> set js. j_status j \<in> {Queued, Running, Done} then None
      else case latest_derivative_recovery_leaf (filter (\<lambda>j. j_status j \<in> {Dead, Failed}) js) js of
        None \<Rightarrow> None
      | Some f \<Rightarrow> if \<exists>j \<in> set all. j_idempotency_key j = recovery_key f then None else Some f)"

definition recovery_args :: "job \<Rightarrow> enqueue_args" where
  "recovery_args f = \<lparr>ea_job_type = PStr (j_job_type f), ea_payload = PDict (j_payload f),
     ea_idempotency_key = PStr (recovery_key f), ea_settings = None,
     ea_registry_digest = opt_str (j_registry_digest f),
     ea_capabilities_digest = opt_str (j_capabilities_digest f), ea_requirements_digest = PNone,
     ea_required_components = PList (map PStr (j_required_components f)),
     ea_intake_intent = PStr (intake_intent_value (j_intake_intent f)), ea_registry = None\<rparr>"

text \<open>\<open>draw n\<close> is the identifier the \<open>n\<close>-th call of \<open>enqueue\<close> draws.\<close>

fun queue_recoveries ::
  "(job \<Rightarrow> nat \<Rightarrow> docdb \<Rightarrow> (nat option \<times> docdb) res) \<Rightarrow> job list \<Rightarrow> (derivative_target \<times> job list) list \<Rightarrow> nat
     \<Rightarrow> docdb \<Rightarrow> (nat list \<times> docdb) res" where
  "queue_recoveries enq all [] n db = Inr ([], db)"
| "queue_recoveries enq all ((t, js) # groups) n db =
     (case failed_derivative all js of
        None \<Rightarrow> queue_recoveries enq all groups n db
      | Some f \<Rightarrow>
          rbind (enq f n db) (\<lambda>(r, db1).
          rbind (queue_recoveries enq all groups (Suc n) db1) (\<lambda>(ids, db2).
          Inr (case r of Some k \<Rightarrow> k # ids | None \<Rightarrow> ids, db2))))"

definition retry_current_derivatives ::
  "(pyval \<Rightarrow> pystr) \<Rightarrow> (pystr list \<Rightarrow> pystr) \<Rightarrow> uuid_parser \<Rightarrow> dialect \<Rightarrow> (nat \<Rightarrow> nat) \<Rightarrow> int \<Rightarrow> nat \<Rightarrow> docdb
     \<Rightarrow> ((int \<times> nat list) \<times> docdb) res" where
  "retry_current_derivatives digest hash uuid_of dia draw now i db =
     rbind (locked_document i db) (\<lambda>d.
     case latest_original (d_files d) of
       None \<Rightarrow> Inl (ReprocessStateError ''document has no preserved original for derivative retry'')
     | Some original \<Rightarrow>
         rbind (queue_recoveries
             (\<lambda>f n db. enqueue digest hash uuid_of dia (draw n) now db (recovery_args f))
             (document_jobs i db)
             (current_source_derivative_jobs (document_jobs i db) (f_version original)) 0 db) (\<lambda>(ids, db').
         Inr ((f_version original, ids), db')))"

text \<open>\<^verbatim>\<open>_current_source_processing_error\<close>: the unresolved terminal error a document displays.\<close>

definition current_source_processing_error :: "document_row \<Rightarrow> job list \<Rightarrow> pystr option" where
  "current_source_processing_error d js =
     (case latest_original (d_files d) of
        None \<Rightarrow> None
      | Some original \<Rightarrow>
          let current = current_source_process_jobs js (f_version original);
              unresolved = filter (\<lambda>g. \<not> (\<exists>j \<in> set (snd g). j_status j \<in> {Queued, Running, Done}))
                (current_source_derivative_jobs js (f_version original));
              failures = filter (\<lambda>j. j_status j \<in> {Dead, Failed})
                (List.map_filter (\<lambda>g. latest_by job_order (snd g)) unresolved)
          in if current \<noteq> [] \<and> j_status (last current) \<in> {Dead, Failed} then j_last_error (last current)
             else map_option (\<lambda>j. j_job_type j @ u '': '' @
                 (case j_last_error j of
                    Some e \<Rightarrow> if e = [] then u ''background derivative failed without an error message'' else e
                  | None \<Rightarrow> u ''background derivative failed without an error message''))
               (latest_by job_order failures))"

end
