(* ===== verification/Document_Inv.thy ===== *)
theory Document_Inv
  imports Document_Reprocess Source_Intake_Props
begin

text \<open>
  The invariant of the document tables: every original of every document has the source intake
  that names it exactly, versions of a document's files never repeat, every derivative is bound
  to an original of its own document, and the intake tables are well formed. Every operation of
  the document repository keeps it.
\<close>

named_theorems doc_simps

lemma intake_view_simps [simp]:
  "source_rows (intake_view db) = intakes db" "reservations (intake_view db) = dr_reservations db"
  "owned_keys (intake_view db) = dr_owned_keys db" "intake_jobs (intake_view db) = jobs db"
  by (simp_all add: intake_view_def)

lemma put_intakes_simps [simp]:
  "jobs (put_intakes v db) = jobs db" "intakes (put_intakes v db) = source_rows v"
  "documents (put_intakes v db) = documents db" "dr_review (put_intakes v db) = dr_review db"
  "dr_chunks (put_intakes v db) = dr_chunks db"
  "dr_spreadsheet_rows (put_intakes v db) = dr_spreadsheet_rows db"
  "dr_embedded_media (put_intakes v db) = dr_embedded_media db"
  by (simp_all add: put_intakes_def)

lemma intake_view_put: "intake_view (put_intakes v db) = v\<lparr>intake_jobs := jobs db\<rparr>"
  by (simp add: intake_view_def put_intakes_def)

lemma update_doc_simps [simp]:
  "jobs (update_doc i f db) = jobs db" "intakes (update_doc i f db) = intakes db"
  "documents (update_doc i f db) = documents db" "intake_view (update_doc i f db) = intake_view db"
  "docs (dr_review (update_doc i f db)) = map (\<lambda>d. if d_id d = i then f d else d) (docs (dr_review db))"
  "extractions (dr_review (update_doc i f db)) = extractions (dr_review db)"
  "verifieds (dr_review (update_doc i f db)) = verifieds (dr_review db)"
  "dr_chunks (update_doc i f db) = dr_chunks db"
  "dr_spreadsheet_rows (update_doc i f db) = dr_spreadsheet_rows db"
  "dr_embedded_media (update_doc i f db) = dr_embedded_media db"
  by (simp_all add: update_doc_def intake_view_def)

lemma locked_document_Inr:
  "locked_document i db = Inr d \<longleftrightarrow> find_doc i (dr_review db) = Some d"
  by (auto simp: locked_document_def split: option.splits)

lemma replay_or_Inr [res_simps]:
  "replay_or outcome replayed fresh = Inr y \<longleftrightarrow>
     (\<exists>row j. outcome = Replay (row, j) \<and> replayed row = Inr y) \<or> (outcome = New \<and> fresh = Inr y)"
  by (auto simp: replay_or_def split: upload_outcome.splits)

lemma find_doc_mem: "find_doc i r = Some d \<Longrightarrow> d \<in> set (docs r) \<and> d_id d = i"
  by (auto simp: find_doc_def dest: find_SomeD)

lemma latest_original_mem:
  assumes "latest_original files = Some f"
  shows "f \<in> set files" and "f_kind f = Original"
    and "\<forall>g \<in> set files. f_kind g = Original \<longrightarrow> f_version g \<le> f_version f"
proof -
  have "f \<in> set (filter (\<lambda>f. f_kind f = Original) files)" and
    m: "\<forall>g \<in> set (filter (\<lambda>f. f_kind f = Original) files). (f_version g, f_id g) \<le> (f_version f, f_id f)"
    using assms by (auto simp: latest_original_def Let_def dest: find_SomeD)
  then show "f \<in> set files" and "f_kind f = Original" by auto
  show "\<forall>g \<in> set files. f_kind g = Original \<longrightarrow> f_version g \<le> f_version f"
    using m by (auto simp: less_eq_prod_simp)
qed

subsection \<open>The invariant\<close>

type_synonym identity = "nat \<times> nat \<times> int \<times> pystr"

definition bound_artifact :: "document_file list \<Rightarrow> document_file \<Rightarrow> bool" where
  "bound_artifact files f \<longleftrightarrow> (\<exists>g \<in> set files. f_kind g = Original \<and> f_source_file_id f = Some (f_id g)
     \<and> f_source_version f = Some (f_version g) \<and> f_version g < f_version f)"

definition doc_ok :: "document_row \<Rightarrow> bool" where
  "doc_ok d \<longleftrightarrow> distinct (map f_version (d_files d))
     \<and> (\<forall>f \<in> set (d_files d). f_document_id f = d_id d \<and> 1 \<le> f_version f
          \<and> (f_kind f \<noteq> Original \<longrightarrow> bound_artifact (d_files d) f))
     \<and> distinct (map f_sha256 (filter (\<lambda>f. f_kind f = Original) (d_files d)))"

text \<open>The identities of the originals of a document; the intakes are exactly those of all documents.\<close>

definition doc_identities :: "document_row \<Rightarrow> identity set" where
  "doc_identities d = (\<lambda>f. (d_id d, f_id f, f_version f, f_sha256 f)) ` {f \<in> set (d_files d). f_kind f = Original}"

definition intake_identities :: "docdb \<Rightarrow> identity set" where
  "intake_identities db = source_identity ` set (intakes db)"

definition sources_ok :: "docdb \<Rightarrow> bool" where
  "sources_ok db \<longleftrightarrow> distinct (map d_id (docs (dr_review db)))
     \<and> documents db = map d_id (docs (dr_review db)) \<and> intakes_ok (intake_view db)
     \<and> (\<forall>d \<in> set (docs (dr_review db)). doc_ok d)
     \<and> intake_identities db = \<Union> (doc_identities ` set (docs (dr_review db)))"

lemma next_version_fresh:
  "f \<in> set files \<Longrightarrow> f_version f < next_file_version files" "1 \<le> next_file_version files"
  by (auto simp: next_file_version_def intro: le_less_trans [OF Max_ge])

lemma doc_ok_append:
  assumes "doc_ok d" and "f_version f = next_file_version (d_files d)" and "f_document_id f = d_id d"
    and "f_kind f = Original \<longrightarrow> (\<forall>g \<in> set (d_files d). f_kind g = Original \<longrightarrow> f_sha256 g \<noteq> f_sha256 f)"
    and "f_kind f \<noteq> Original \<longrightarrow> bound_artifact (d_files d) f"
    and "d_id d' = d_id d" and "d_files d' = d_files d @ [f]"
  shows "doc_ok d'"
proof -
  have "bound_artifact (d_files d @ [f]) g" if "bound_artifact (d_files d) g" for g
    using that by (auto simp: bound_artifact_def)
  moreover have "f_version f \<notin> f_version ` set (d_files d)"
    using assms(2) next_version_fresh(1) by fastforce
  ultimately show ?thesis using assms next_version_fresh(2) [of "d_files d"]
    by (auto simp: doc_ok_def)
qed

lemma doc_ok_same: "doc_ok d \<Longrightarrow> d_id d' = d_id d \<Longrightarrow> d_files d' = d_files d \<Longrightarrow> doc_ok d'"
  by (simp add: doc_ok_def)

lemma doc_identities_append:
  "d_id d' = d_id d \<Longrightarrow> d_files d' = d_files d @ [f] \<Longrightarrow> doc_identities d' = doc_identities d
     \<union> (if f_kind f = Original then {(d_id d, f_id f, f_version f, f_sha256 f)} else {})"
  by (auto simp: doc_identities_def)

lemma doc_status_row [simp]:
  "doc_identities (d\<lparr>d_status := st\<rparr>) = doc_identities d" "doc_ok (d\<lparr>d_status := st\<rparr>) = doc_ok d"
  by (simp_all add: doc_identities_def doc_ok_def)

lemma doc_identities_same: "d_id d' = d_id d \<Longrightarrow> d_files d' = d_files d \<Longrightarrow> doc_identities d' = doc_identities d"
  by (simp add: doc_identities_def)

text \<open>A write that rewrites one document row and adds the identities of its new originals.\<close>

lemma sources_okI:
  assumes "sources_ok db" and "intakes_ok (intake_view db')"
    and N: "intake_identities db' = intake_identities db \<union> N"
    and "documents db' = documents db"
    and D: "docs (dr_review db') = map (\<lambda>d. if d_id d = i then f d else d) (docs (dr_review db))"
    and f: "\<And>d. d_id (f d) = d_id d"
    and row: "\<And>d. d \<in> set (docs (dr_review db)) \<Longrightarrow> d_id d = i
           \<Longrightarrow> doc_ok (f d) \<and> doc_identities (f d) = doc_identities d \<union> N"
    and some: "N \<noteq> {} \<Longrightarrow> \<exists>d \<in> set (docs (dr_review db)). d_id d = i"
  shows "sources_ok db'"
proof -
  have ids: "map d_id (docs (dr_review db')) = map d_id (docs (dr_review db))"
    unfolding D using f by simp
  have "\<Union> (doc_identities ` set (docs (dr_review db'))) = \<Union> (doc_identities ` set (docs (dr_review db))) \<union> N"
    unfolding D using row some by (auto split: if_splits)
  moreover have "\<forall>d \<in> set (docs (dr_review db')). doc_ok d"
    unfolding D using row assms(1) by (auto simp: sources_ok_def)
  ultimately show ?thesis using assms(1,2,4) N ids by (simp add: sources_ok_def)
qed

lemma unchanged_docs:
  assumes "sources_ok db" and "intakes_ok (intake_view db')"
    and "intake_identities db' = intake_identities db"
    and "documents db' = documents db" and "docs (dr_review db') = docs (dr_review db)"
  shows "sources_ok db'"
  using assms by (simp add: sources_ok_def)

subsection \<open>Source intakes written by the repository\<close>

lemma intakes_ok_jobs [simp]: "intakes_ok (v\<lparr>intake_jobs := js\<rparr>) = intakes_ok v"
  by (simp add: intakes_ok_def bound_by_def)

lemma on_intakes_Inr:
  assumes "on_intakes f db = Inr (x, db')"
  obtains v where "f (intake_view db) = Inr (x, v)" "db' = put_intakes v db"
  using assms by (auto simp: on_intakes_def res_simps)

lemma companion_row_identity:
  assumes "companion_row uuid_of hash a new_id now = Inr row"
  shows "source_identity row = (ca_document_id a, f_id (ca_source_file a), f_version (ca_source_file a),
      f_sha256 (ca_source_file a))"
    and "repo_intake_intent (ca_intake_intent a) = Inr (si_intake_intent row)" and "si_id row = new_id"
  using assms by (auto simp: companion_row_def source_identity_def res_simps)

lemma create_appends:
  assumes "create_source_companion uuid_of hash a new_id now v = Inr (i, v')"
  obtains row where "companion_row uuid_of hash a new_id now = Inr row"
    "source_rows v' = source_rows v @ [row]"
proof -
  from assms obtain row where row: "companion_row uuid_of hash a new_id now = Inr row"
    by (auto simp: create_source_companion_def res_simps)
  have "source_rows v' = source_rows v @ [row]"
  proof (cases "si_upload_idempotency_key row")
    case None
    then show ?thesis using assms row
      by (auto simp: create_source_companion_def res_simps insert_intake_Inr)
  next
    case (Some k)
    obtain v1 w v2 where res: "reserve_upload_idempotency uuid_of (PUuid k) (si_source_sha256 row)
          (opt_str (si_intent_digest row)) v = Inr (New, v1)"
      and ins: "insert_intake row v1 = Inr v2" and v': "v' = bind_reservation k new_id v2"
      by (rule create_keyed [OF assms row Some]) blast
    show ?thesis using reserve_rows [OF res] ins v' by (auto simp: insert_intake_Inr bind_reservation_def)
  qed
  with row that show ?thesis by blast
qed

lemma companion_written:
  assumes "intakes_ok (intake_view db)"
    and "on_intakes (create_source_companion uuid_of hash a new_id now) db = Inr (n, db')"
  obtains row v where "companion_row uuid_of hash a new_id now = Inr row" "db' = put_intakes v db"
    "source_rows v = intakes db @ [row]" "intakes_ok v"
proof -
  obtain v where c: "create_source_companion uuid_of hash a new_id now (intake_view db) = Inr (n, v)"
    and db': "db' = put_intakes v db" by (rule on_intakes_Inr [OF assms(2)])
  obtain row where "companion_row uuid_of hash a new_id now = Inr row" "source_rows v = intakes db @ [row]"
    by (rule create_appends [OF c]) simp
  with db' create_ok [OF assms(1) c] that show ?thesis by blast
qed

lemma transition_written:
  assumes "intakes_ok (intake_view db)" and "on_intakes (transition a now) db = Inr (n, db')"
  obtains v where "db' = put_intakes v db" "intakes_ok v" "transition a now (intake_view db) = Inr (n, v)"
    "map source_identity (source_rows v) = map source_identity (intakes db)"
proof -
  obtain v where t: "transition a now (intake_view db) = Inr (n, v)" and db': "db' = put_intakes v db"
    by (rule on_intakes_Inr [OF assms(2)])
  have "map source_identity (source_rows v) = map source_identity (intakes db)"
    by (rule transition_Inr [OF assms(1) t]) simp
  with t db' transition_ok [OF assms(1) t] that show ?thesis by blast
qed

lemma reserve_written:
  assumes "intakes_ok (intake_view db)" and "reserve uuid_of k sha intent db = Inr (outcome, db')"
  shows "intakes_ok (intake_view db') \<and> intakes db' = intakes db \<and> jobs db' = jobs db
    \<and> documents db' = documents db \<and> dr_review db' = dr_review db \<and> dr_chunks db' = dr_chunks db
    \<and> dr_spreadsheet_rows db' = dr_spreadsheet_rows db \<and> dr_embedded_media db' = dr_embedded_media db"
proof -
  obtain v where r: "reserve_upload_idempotency uuid_of (PUuid k) sha intent (intake_view db) = Inr (outcome, v)"
    and db': "db' = put_intakes v db"
    using assms(2) unfolding reserve_def by (rule on_intakes_Inr)
  show ?thesis
    using reserve_ok [OF assms(1) r] reserve_rows [OF r] by (simp add: db' intake_view_put)
qed

lemma reserve_sources_ok:
  "sources_ok db \<Longrightarrow> reserve uuid_of k sha intent db = Inr (outcome, db') \<Longrightarrow> sources_ok db'"
  using reserve_written [of db uuid_of k sha intent outcome db'] unchanged_docs [of db db']
  by (simp add: sources_ok_def intake_identities_def)

subsection \<open>Every operation keeps the invariant\<close>

lemma set_status_Inr:
  assumes "set_status i status version db = Inr db'"
  shows "db' = update_doc i (\<lambda>d. d\<lparr>d_status := status\<rparr>) db"
  using assms by (auto simp: set_status_def res_simps)

lemma status_sources_ok: "sources_ok db \<Longrightarrow> sources_ok (update_doc i (\<lambda>d. d\<lparr>d_status := s\<rparr>) db)"
  by (rule sources_okI [where f = "\<lambda>d. d\<lparr>d_status := s\<rparr>" and i = i and N = "{}"])
     (auto simp: sources_ok_def intake_identities_def)

lemma set_status_sources_ok:
  "sources_ok db \<Longrightarrow> set_status i status version db = Inr db' \<Longrightarrow> sources_ok db'"
  using set_status_Inr status_sources_ok by blast

lemma add_artifact_Inr:
  assumes "add_artifact i a new_file db = Inr (n, db')"
  obtains d original f where "find_doc i (dr_review db) = Some d" "latest_original (d_files d) = Some original"
    "f_version original = aa_source_version a" "f_id original = aa_source_file_id a" "f_kind f \<noteq> Original"
    "f_version f = next_file_version (d_files d)" "f_document_id f = i"
    "f_source_file_id f = Some (f_id original)" "f_source_version f = Some (f_version original)"
    "db' = update_doc i (\<lambda>d. d\<lparr>d_files := d_files d @ [f]\<rparr>) db"
proof -
  from assms obtain d where d: "find_doc i (dr_review db) = Some d" and k: "aa_kind a \<noteq> Original"
    by (auto simp: add_artifact_def res_simps locked_document_Inr)
  with assms obtain original where o: "latest_original (d_files d) = Some original"
    by (auto simp: add_artifact_def res_simps locked_document_Inr split: option.splits)
  let ?f = "\<lambda>path mime. \<lparr>f_id = new_file, f_document_id = i, f_version = next_file_version (d_files d),
    f_kind = aa_kind a, f_content_path = path, f_sha256 = aa_sha256 a, f_mime = mime,
    f_source_filename = f_source_filename original, f_source_file_id = Some (f_id original),
    f_source_version = Some (f_version original), f_page_number = aa_page_number a,
    f_ocr_text = aa_ocr_text a, f_text_provenance = aa_text_provenance a\<rparr>"
  from assms d o obtain path mime where
    "f_version original = aa_source_version a" "f_id original = aa_source_file_id a"
    "db' = update_doc i (\<lambda>d. d\<lparr>d_files := d_files d @ [?f path mime]\<rparr>) db"
    by (auto simp: add_artifact_def res_simps locked_document_Inr Let_def split: if_splits)
  with d o k show thesis by (intro that [of d original "?f path mime"]) simp_all
qed

lemma add_artifact_sources_ok:
  assumes ok: "sources_ok db" and "add_artifact i a new_file db = Inr (n, db')"
  shows "sources_ok db'"
proof -
  obtain d original f where d: "find_doc i (dr_review db) = Some d"
    and o: "latest_original (d_files d) = Some original" and k: "f_kind f \<noteq> Original"
    and f: "f_version f = next_file_version (d_files d)" "f_document_id f = i"
      "f_source_file_id f = Some (f_id original)" "f_source_version f = Some (f_version original)"
    and db': "db' = update_doc i (\<lambda>d. d\<lparr>d_files := d_files d @ [f]\<rparr>) db"
    by (rule add_artifact_Inr [OF assms(2)])
  note mem = find_doc_mem [OF d] latest_original_mem [OF o]
  have b: "bound_artifact (d_files d) f"
    using mem f next_version_fresh(1) [OF mem(2)] by (auto simp: bound_artifact_def)
  show ?thesis
  proof (rule sources_okI [OF ok, where i = i and f = "\<lambda>d. d\<lparr>d_files := d_files d @ [f]\<rparr>" and N = "{}"])
    fix e assume e: "e \<in> set (docs (dr_review db))" "d_id e = i"
    then have "e = d" using mem(1) ok unfolding sources_ok_def by (metis distinct_map inj_onD)
    moreover have "doc_ok d" using ok mem(1) by (simp add: sources_ok_def)
    ultimately show "doc_ok (e\<lparr>d_files := d_files e @ [f]\<rparr>)
        \<and> doc_identities (e\<lparr>d_files := d_files e @ [f]\<rparr>) = doc_identities e \<union> {}"
      using k f b e by (auto simp: doc_identities_append [of _ d f] intro!: doc_ok_append [of d f])
  qed (use ok in \<open>auto simp: db' sources_ok_def intake_identities_def\<close>)
qed

lemma original_file_simps [simp]:
  "f_id (original_file file doc v path sha mime name) = file" "f_document_id (original_file file doc v path sha mime name) = doc"
  "f_version (original_file file doc v path sha mime name) = v" "f_sha256 (original_file file doc v path sha mime name) = sha"
  "f_kind (original_file file doc v path sha mime name) = Original"
  by (simp_all add: original_file_def)

lemma insert_document_sources_ok:
  assumes ok: "sources_ok db"
    and "insert_document uuid_of hash a filename path mime key intent new_doc new_file new_intake now db = Inr db'"
  shows "sources_ok db'"
proof -
  let ?o = "original_file new_file new_doc 1 path (ra_sha256 a) mime filename"
  let ?d = "\<lparr>d_id = new_doc, d_document_class = ra_doc_class a, d_status = Uploaded,
     d_source_filename = filename, d_files = [?o]\<rparr>"
  let ?db1 = "db\<lparr>documents := documents db @ [new_doc],
     dr_review := (dr_review db)\<lparr>docs := docs (dr_review db) @ [?d]\<rparr>\<rparr>"
  from assms(2) obtain n where fresh: "new_doc \<notin> set (documents db)"
    and c: "on_intakes (create_source_companion uuid_of hash
      (companion_args_of a new_doc ?o key intent mime) new_intake now) ?db1 = Inr (n, db')"
    by (auto simp: insert_document_def Let_def res_simps split: if_splits)
  have iv: "intake_view ?db1 = intake_view db" by (simp add: intake_view_def)
  have "intakes_ok (intake_view ?db1)" unfolding iv using ok by (simp add: sources_ok_def)
  from this c obtain row v where row: "companion_row uuid_of hash
      (companion_args_of a new_doc ?o key intent mime) new_intake now = Inr row"
    and db': "db' = put_intakes v ?db1" and rows: "source_rows v = intakes db @ [row]" and v: "intakes_ok v"
    by (rule companion_written) simp
  have id: "source_identity row = (new_doc, new_file, 1, ra_sha256 a)"
    using companion_row_identity(1) [OF row] by (simp add: companion_args_of_def original_file_def)
  have "doc_ok ?d" by (simp add: doc_ok_def original_file_def)
  moreover have "doc_identities ?d = {source_identity row}"
    by (auto simp: doc_identities_def id)
  moreover have "new_doc \<notin> d_id ` set (docs (dr_review db))" using ok fresh by (simp add: sources_ok_def)
  ultimately show ?thesis using ok v
    unfolding sources_ok_def db' intake_view_put intake_identities_def put_intakes_simps rows
    by simp
qed

lemma create_with_raw_Inr:
  assumes c: "create_with_raw uuid_of hash a new_doc new_file new_intake now db = Inr (n, db')"
  obtains (plain) filename path mime intent where
      "insert_document uuid_of hash a filename path mime None intent new_doc new_file new_intake now db = Inr db'"
  | (reserved) k outcome db1 filename path mime intent where
      "reserve uuid_of k (ra_sha256 a) (ra_intent_digest a) db = Inr (outcome, db1)"
      "db' = db1 \<or> (\<exists>o'. reserve uuid_of k (ra_sha256 a) (ra_intent_digest a) db1 = Inr (o', db'))
       \<or> insert_document uuid_of hash a filename path mime (Some k) intent new_doc new_file new_intake now db1 = Inr db'"
proof -
  from c obtain filename path mime intent key where key: "normalize_upload_idempotency_key uuid_of (ra_upload_key a) = Inr key"
    and names: "clean_text (ra_filename a) = Inr filename" "clean_text (ra_content_path a) = Inr path"
      "clean_text (ra_mime a) = Inr mime" "repo_intake_intent (ra_intake_intent a) = Inr intent"
    by (auto simp: create_with_raw_def res_simps)
  let ?ins = "insert_document uuid_of hash a filename path mime key intent new_doc new_file new_intake now"
  show thesis
  proof (cases key)
    case None
    then show thesis using c key names plain
      by (auto simp: create_with_raw_def res_simps split: if_splits)
  next
    case (Some k)
    with c key names obtain outcome db1 where r: "reserve uuid_of k (ra_sha256 a) (ra_intent_digest a) db = Inr (outcome, db1)"
      and rest: "replay_or outcome (\<lambda>row. Inr (si_document_id row, db1))
        (case ?ins db1 of Inr db2 \<Rightarrow> Inr (new_doc, db2)
         | Inl e \<Rightarrow> if e = IntegrityError then
             rbind (reserve uuid_of k (ra_sha256 a) (ra_intent_digest a) db1) (\<lambda>(outcome', db2).
               replay_or outcome' (\<lambda>row. Inr (si_document_id row, db2)) (Inl IntegrityError))
           else Inl e) = Inr (n, db')"
      by (auto simp: create_with_raw_def res_simps split: if_splits)
    from rest have "db' = db1 \<or> (\<exists>o'. reserve uuid_of k (ra_sha256 a) (ra_intent_digest a) db1 = Inr (o', db'))
        \<or> ?ins db1 = Inr db'"
      by (cases "?ins db1") (auto simp: res_simps split: if_splits)
    with r Some show thesis using reserved by blast
  qed
qed

lemma create_with_raw_sources_ok:
  assumes ok: "sources_ok db"
    and "create_with_raw uuid_of hash a new_doc new_file new_intake now db = Inr (n, db')"
  shows "sources_ok db'"
  using assms(2)
proof (cases rule: create_with_raw_Inr)
  case plain
  then show ?thesis using insert_document_sources_ok [OF ok] by blast
next
  case (reserved k outcome db1)
  have "sources_ok db1" using reserve_sources_ok [OF ok reserved(1)] .
  with reserved(2) show ?thesis
    by (elim disjE exE) (simp, (blast intro: insert_document_sources_ok reserve_sources_ok)+)
qed

subsection \<open>Replacing a source\<close>

text \<open>What a replacement leaves: the whole effect of the savepoint on every table.\<close>

definition replaced_row :: "document_file \<Rightarrow> document_row \<Rightarrow> document_row" where
  "replaced_row f d = d\<lparr>d_files := d_files d @ [f], d_source_filename := f_source_filename f,
     d_status := Needs_Reprocess\<rparr>"

definition source_replaced ::
  "document_file \<Rightarrow> intake_intent \<Rightarrow> pystr \<Rightarrow> int \<Rightarrow> docdb \<Rightarrow> docdb \<Rightarrow> bool" where
  "source_replaced f intent actor now db db' \<longleftrightarrow> (let i = f_document_id f in
     docs (dr_review db') = map (\<lambda>d. if d_id d = i then replaced_row f d else d) (docs (dr_review db))
     \<and> extractions (dr_review db')
         = extractions (snd (supersede_pending_extractions i actor now (dr_review db)))
     \<and> verifieds (dr_review db') = verifieds (dr_review db)
     \<and> dr_chunks db' = filter (\<lambda>c. snd c \<noteq> i) (dr_chunks db)
     \<and> dr_spreadsheet_rows db' = filter (\<lambda>c. snd c \<noteq> i) (dr_spreadsheet_rows db)
     \<and> dr_embedded_media db' = filter (\<lambda>c. snd c \<noteq> i) (dr_embedded_media db)
     \<and> jobs db' = jobs db \<and> documents db' = documents db \<and> intakes_ok (intake_view db')
     \<and> (\<exists>row. intakes db' = intakes db @ [row] \<and> si_intake_intent row = intent
          \<and> source_identity row = (i, f_id f, f_version f, f_sha256 f)))"

lemma intake_intent_read [simp]: "repo_intake_intent (PStr (intake_intent_value i)) = Inr j \<longleftrightarrow> j = i"
  by (cases i; cases j) (simp_all add: intake_intent_of_def intake_intent_value_def)

lemma supersede_docs [simp]:
  "docs (snd (supersede_pending_extractions i actor now r)) = docs r"
  "verifieds (snd (supersede_pending_extractions i actor now r)) = verifieds r"
  by (simp_all add: supersede_pending_extractions_def update_extractions_def Let_def)

lemma replace_source_Inr:
  assumes "intakes_ok (intake_view db)"
    and "replace_source uuid_of hash a f actor mime key intent new_intake now db = Inr db'"
  shows "source_replaced f intent actor now db db'"
proof -
  let ?i = "f_document_id f"
  let ?db1 = "db\<lparr>dr_review := snd (supersede_pending_extractions ?i actor now (dr_review db)),
     dr_chunks := filter (\<lambda>c. snd c \<noteq> ?i) (dr_chunks db),
     dr_spreadsheet_rows := filter (\<lambda>c. snd c \<noteq> ?i) (dr_spreadsheet_rows db),
     dr_embedded_media := filter (\<lambda>c. snd c \<noteq> ?i) (dr_embedded_media db)\<rparr>"
  let ?db2 = "update_doc ?i (replaced_row f) ?db1"
  from assms(2) obtain n where c: "on_intakes (create_source_companion uuid_of hash
      (companion_args_of a ?i f key intent mime) new_intake now) ?db2 = Inr (n, db')"
    by (auto simp: replace_source_def Let_def res_simps replaced_row_def [abs_def] split: if_splits)
  have iv: "intake_view ?db2 = intake_view db" by (simp add: intake_view_def update_doc_def)
  have "intakes_ok (intake_view ?db2)" unfolding iv by (rule assms(1))
  from this c obtain row v where row: "companion_row uuid_of hash
      (companion_args_of a ?i f key intent mime) new_intake now = Inr row"
    and db': "db' = put_intakes v ?db2" and rows: "source_rows v = intakes db @ [row]" and v: "intakes_ok v"
    by (rule companion_written) simp
  have "source_identity row = (?i, f_id f, f_version f, f_sha256 f)" "si_intake_intent row = intent"
    using companion_row_identity(1,2) [OF row] by (simp_all add: companion_args_of_def)
  with rows v show ?thesis by (simp add: source_replaced_def Let_def db' intake_view_put)
qed

lemma source_replaced_sources_ok:
  assumes ok: "sources_ok db" and r: "source_replaced f intent actor now db db'"
    and d: "find_doc (f_document_id f) (dr_review db) = Some d" and k: "f_kind f = Original"
    and v: "f_version f = next_file_version (d_files d)"
    and sha: "\<forall>g \<in> set (d_files d). f_kind g = Original \<longrightarrow> f_sha256 g \<noteq> f_sha256 f"
  shows "sources_ok db'"
proof (rule sources_okI [OF ok, where i = "f_document_id f" and f = "replaced_row f"
      and N = "{(f_document_id f, f_id f, f_version f, f_sha256 f)}"])
  note mem = find_doc_mem [OF d]
  fix e assume e: "e \<in> set (docs (dr_review db))" "d_id e = f_document_id f"
  then have ed: "e = d" using mem ok unfolding sources_ok_def by (metis distinct_map inj_onD)
  have "doc_ok d" using ok mem by (simp add: sources_ok_def)
  then have "doc_ok (replaced_row f d)"
    by (rule doc_ok_append [of d f]) (use k v sha e in \<open>auto simp: ed replaced_row_def\<close>)
  then show "doc_ok (replaced_row f e) \<and> doc_identities (replaced_row f e)
      = doc_identities e \<union> {(f_document_id f, f_id f, f_version f, f_sha256 f)}"
    using k e by (simp add: ed doc_identities_append [of _ d f] replaced_row_def)
qed (use r find_doc_mem [OF d] in \<open>auto simp: source_replaced_def Let_def replaced_row_def intake_identities_def\<close>)

lemma append_original_Inr:
  assumes "intakes_ok (intake_view db)"
    and "append_original uuid_of hash d a filename path mime actor key intent new_file new_intake now db = Inr (rv, db')"
  obtains f where "f_document_id f = d_id d" "f_kind f = Original"
    "f_version f = next_file_version (d_files d)" "f_sha256 f = ra_sha256 a"
    "\<forall>g \<in> set (d_files d). f_kind g = Original \<longrightarrow> f_sha256 g \<noteq> f_sha256 f"
    "rv = \<lparr>rv_version = f_version f, rv_sha256 = f_sha256 f, rv_intake_intent = intent\<rparr>"
    "source_replaced f intent actor now db db'"
proof -
  let ?f = "original_file new_file (d_id d) (next_file_version (d_files d)) path (ra_sha256 a) mime filename"
  from assms(2) have n: "\<forall>g \<in> set (d_files d). f_kind g = Original \<longrightarrow> f_sha256 g \<noteq> ra_sha256 a"
    and r: "replace_source uuid_of hash a ?f actor mime key intent new_intake now db = Inr db'"
    and rv: "rv = \<lparr>rv_version = f_version ?f, rv_sha256 = ra_sha256 a, rv_intake_intent = intent\<rparr>"
    by (auto simp: append_original_def Let_def split: if_splits sum.splits)
  show thesis
    using that [of ?f] n rv replace_source_Inr [OF assms(1) r] by (simp add: original_file_def)
qed

lemma settle_replay:
  assumes "reserve uuid_of k sha intent db = Inr (Replay (row, j), db')"
  shows "row \<in> set (intakes db) \<and> si_upload_idempotency_key row = Some k"
proof -
  obtain v where r: "reserve_upload_idempotency uuid_of (PUuid k) sha intent (intake_view db) = Inr (Replay (row, j), v)"
    using assms unfolding reserve_def by (rule on_intakes_Inr)
  show ?thesis
    by (rule reserve_cases [OF r])
       (auto simp: coerce_uuid_def settle_reservation_def find_intake_def dest: find_SomeD split: option.splits if_splits)
qed

text \<open>Outcomes of an append: the replay of an upload already recorded, or a new source.\<close>

lemma append_raw_source_Inr:
  assumes ok: "sources_ok db"
    and a: "append_raw_source uuid_of hash i a actor new_file new_intake now db = Inr (rv, db')"
  obtains (replay) row where "row \<in> set (intakes db)" "si_document_id row = i"
      "rv = \<lparr>rv_version = si_source_version row, rv_sha256 = si_source_sha256 row,
         rv_intake_intent = si_intake_intent row\<rparr>"
      "dr_review db' = dr_review db" "intakes db' = intakes db" "jobs db' = jobs db"
      "dr_chunks db' = dr_chunks db" "sources_ok db'"
  | (fresh) d f where "find_doc i (dr_review db) = Some d" "f_document_id f = i" "f_kind f = Original"
      "f_version f = next_file_version (d_files d)"
      "\<forall>g \<in> set (d_files d). f_kind g = Original \<longrightarrow> f_sha256 g \<noteq> f_sha256 f"
      "rv_version rv = f_version f" "rv_sha256 rv = f_sha256 f"
      "source_replaced f (rv_intake_intent rv) (strip actor) now db db'"
proof -
  from a obtain filename path mime requested key d where
    args: "clean_text (ra_filename a) = Inr filename" "clean_text (ra_content_path a) = Inr path"
      "clean_text (ra_mime a) = Inr mime" "requested_intent (ra_intake_intent a) = Inr requested"
      "normalize_upload_idempotency_key uuid_of (ra_upload_key a) = Inr key"
      "clean_text actor = Inr (strip actor)" "validate_sha256 (ra_sha256 a) = Inr ()"
    and d: "find_doc i (dr_review db) = Some d"
    by (auto simp: append_raw_source_def res_simps locked_document_Inr clean_text_def split: if_splits)
  have io: "intakes_ok (intake_view db)" using ok by (simp add: sources_ok_def)
  have di: "d_id d = i" using find_doc_mem [OF d] by simp
  define intent where "intent = resolve_append_intent d requested db"
  define app where "app = append_original uuid_of hash d a filename path mime (strip actor) key intent new_file new_intake now"
  show thesis
  proof (cases key)
    case None
    with a args d have "app db = Inr (rv, db')"
      by (auto simp: append_raw_source_def locked_document_Inr [THEN iffD2] Let_def app_def intent_def res_simps split: if_splits)
    with io show thesis unfolding app_def by (rule append_original_Inr) (rule fresh [OF d]; simp add: di)
  next
    case (Some k)
    with a args d obtain outcome db1 where
      r: "reserve uuid_of k (ra_sha256 a) (ra_intent_digest a) db = Inr (outcome, db1)"
      and o: "replay_or outcome (\<lambda>row. if si_document_id row \<noteq> i then Inl UploadIdempotencyConflictError
          else Inr (\<lparr>rv_version = si_source_version row, rv_sha256 = si_source_sha256 row,
                     rv_intake_intent = si_intake_intent row\<rparr>, db1)) (app db1) = Inr (rv, db')"
      by (auto simp: append_raw_source_def locked_document_Inr [THEN iffD2] Let_def app_def intent_def
          res_simps(1) split: if_splits)
    note w = reserve_written [OF io r]
    from o consider row j where "outcome = Replay (row, j)" "si_document_id row = i" "db' = db1"
        "rv = \<lparr>rv_version = si_source_version row, rv_sha256 = si_source_sha256 row,
                     rv_intake_intent = si_intake_intent row\<rparr>"
      | "app db1 = Inr (rv, db')"
      by (auto simp: res_simps split: if_splits)
    then show thesis
    proof cases
      case 1
      then show thesis
        using settle_replay [of uuid_of k] r w reserve_sources_ok [OF ok r] by (intro replay [of row]) auto
    next
      case 2
      have "intakes_ok (intake_view db1)" using w by blast
      from this 2 [unfolded app_def] obtain f where f: "f_document_id f = i" "f_kind f = Original"
        "f_version f = next_file_version (d_files d)"
        "\<forall>g \<in> set (d_files d). f_kind g = Original \<longrightarrow> f_sha256 g \<noteq> f_sha256 f"
        "rv = \<lparr>rv_version = f_version f, rv_sha256 = f_sha256 f, rv_intake_intent = intent\<rparr>"
        "source_replaced f intent (strip actor) now db1 db'"
        by (rule append_original_Inr) (simp only: di)
      then have "source_replaced f intent (strip actor) now db db'" by (simp add: source_replaced_def w)
      with f show thesis by (intro fresh [OF d, of f]) simp_all
    qed
  qed
qed

lemma append_sources_ok:
  assumes "sources_ok db"
    and "append_raw_source uuid_of hash i a actor new_file new_intake now db = Inr (rv, db')"
  shows "sources_ok db'"
  using assms
proof (cases rule: append_raw_source_Inr)
  case (fresh d f)
  then show ?thesis using source_replaced_sources_ok [OF assms(1), of f _ _ _ db' d] by simp
qed

subsection \<open>Recovery\<close>

lemma current_original_intake_Inr:
  "current_original_intake i db = Inr (d, f, r) \<longleftrightarrow> find_doc i (dr_review db) = Some d
     \<and> latest_original (d_files d) = Some f \<and> get_for_source (d_id d) (f_id f) (f_version f) db = Some r"
  by (auto simp: current_original_intake_def res_simps locked_document_Inr split: option.splits)

lemma original_has_intake:
  assumes "sources_ok db" and "find_doc i (dr_review db) = Some d" and "latest_original (d_files d) = Some f"
  shows "\<exists>r. current_original_intake i db = Inr (d, f, r)"
proof -
  have "(d_id d, f_id f, f_version f, f_sha256 f) \<in> doc_identities d"
    using latest_original_mem(1,2) [OF assms(3)] by (simp add: doc_identities_def)
  then have "(d_id d, f_id f, f_version f, f_sha256 f) \<in> source_identity ` set (intakes db)"
    using assms(1) find_doc_mem [OF assms(2)] by (auto simp: sources_ok_def intake_identities_def)
  then have "get_for_source (d_id d) (f_id f) (f_version f) db \<noteq> None"
    by (auto simp: get_for_source_def find_None_iff source_identity_def)
  with assms(2,3) show ?thesis by (auto simp: current_original_intake_Inr)
qed

lemma prepare_reprocess_Inr:
  assumes "prepare_reprocess i actor now db = Inr (t, db')"
  obtains d f r where "current_original_intake i db = Inr (d, f, r)"
    "if si_state r = SI_Queued then db' = update_doc i (\<lambda>d. d\<lparr>d_status := Needs_Reprocess\<rparr>) db
     else \<exists>n. on_intakes (transition (requeue_args r (strip actor)) now)
            (update_doc i (\<lambda>d. d\<lparr>d_status := Needs_Reprocess\<rparr>) db) = Inr (n, db')"
proof -
  from assms obtain d f r where c: "current_original_intake i db = Inr (d, f, r)"
    and "clean_text actor = Inr (strip actor)"
    by (auto simp: prepare_reprocess_def res_simps clean_text_def split: if_splits)
  with assms show thesis
    by (intro that [OF c]) (auto simp: prepare_reprocess_def Let_def res_simps split: prod.splits option.splits)
qed

lemma transition_sources_ok:
  assumes "sources_ok db" and "on_intakes (transition a now) db = Inr (n, db')"
  shows "sources_ok db'"
proof -
  have "intakes_ok (intake_view db)" using assms(1) by (simp add: sources_ok_def)
  from this assms(2) obtain v where "db' = put_intakes v db" "intakes_ok v"
    "map source_identity (source_rows v) = map source_identity (intakes db)"
    by (rule transition_written)
  then show ?thesis
    by (intro unchanged_docs [OF assms(1)]) (simp_all add: intake_view_put intake_identities_def flip: set_map)
qed

lemma prepare_sources_ok:
  assumes "sources_ok db" and "prepare_reprocess i actor now db = Inr (t, db')"
  shows "sources_ok db'"
  by (rule prepare_reprocess_Inr [OF assms(2)])
     (use transition_sources_ok [OF status_sources_ok [OF assms(1)]] status_sources_ok [OF assms(1)]
       in \<open>auto split: if_splits\<close>)

lemma enqueue_frame:
  assumes "enqueue digest hash uuid_of dia new_id now db a = Inr (r, db')"
  shows "db' = db\<lparr>jobs := jobs db'\<rparr> \<and> (\<exists>js. jobs db' = jobs db @ js)"
  using assms by (auto simp: enqueue_def res_simps split: if_splits)

lemma queue_recoveries_frame:
  assumes "queue_recoveries (\<lambda>f n db. enqueue digest hash uuid_of dia (draw n) now db (recovery_args f)) all gs n db
    = Inr (ids, db')"
  shows "db' = db\<lparr>jobs := jobs db'\<rparr> \<and> (\<exists>js. jobs db' = jobs db @ js)"
  using assms
proof (induction gs arbitrary: n db ids)
  case Nil
  then show ?case by simp
next
  case (Cons g gs)
  obtain t js where g: "g = (t, js)" by (cases g)
  show ?case
  proof (cases "failed_derivative all js")
    case None
    with Cons g show ?thesis by simp
  next
    case (Some f)
    with Cons.prems g obtain r db1 ids' where
      e: "enqueue digest hash uuid_of dia (draw n) now db (recovery_args f) = Inr (r, db1)"
      and q: "queue_recoveries (\<lambda>f n db. enqueue digest hash uuid_of dia (draw n) now db (recovery_args f))
        all gs (Suc n) db1 = Inr (ids', db')"
      by (auto simp: res_simps)
    from enqueue_frame [OF e] obtain js1 where 1: "db1 = db\<lparr>jobs := jobs db @ js1\<rparr>" by auto
    from Cons.IH [OF q] obtain js2 where "db' = db1\<lparr>jobs := jobs db1 @ js2\<rparr>" by auto
    with 1 show ?thesis by simp
  qed
qed

lemma retry_frame:
  assumes "retry_current_derivatives digest hash uuid_of dia draw now i db = Inr (x, db')"
  shows "db' = db\<lparr>jobs := jobs db'\<rparr> \<and> (\<exists>js. jobs db' = jobs db @ js)"
proof -
  from assms obtain f :: document_file and ids where "queue_recoveries
      (\<lambda>f n db. enqueue digest hash uuid_of dia (draw n) now db (recovery_args f))
      (document_jobs i db) (current_source_derivative_jobs (document_jobs i db) (f_version f)) 0 db = Inr (ids, db')"
    by (auto simp: retry_current_derivatives_def res_simps split: option.splits)
  then show ?thesis by (rule queue_recoveries_frame)
qed

lemma jobs_sources_ok [simp]: "sources_ok (db\<lparr>jobs := js\<rparr>) = sources_ok db"
proof -
  have v: "intake_view (db\<lparr>jobs := js\<rparr>) = (intake_view db)\<lparr>intake_jobs := js\<rparr>" by (simp add: intake_view_def)
  show ?thesis unfolding sources_ok_def v intakes_ok_jobs by (simp add: intake_identities_def)
qed

subsection \<open>Reachable tables\<close>

text \<open>
  One call of the document repository, a transition of a source intake, any change of the job table,
  or any change of the review tables that keeps the identifiers and files of the documents.
\<close>

inductive doc_step ::
  "(pyval \<Rightarrow> pystr) \<Rightarrow> (pystr list \<Rightarrow> pystr) \<Rightarrow> uuid_parser \<Rightarrow> docdb \<Rightarrow> docdb \<Rightarrow> bool"
  for digest hash uuid_of where
  create_doc: "create_with_raw uuid_of hash a new_doc new_file new_intake now db = Inr (i, db')
    \<Longrightarrow> doc_step digest hash uuid_of db db'"
| append_doc: "append_raw_source uuid_of hash i a actor new_file new_intake now db = Inr (rv, db')
    \<Longrightarrow> doc_step digest hash uuid_of db db'"
| artifact_doc: "add_artifact i aa new_file db = Inr (n, db') \<Longrightarrow> doc_step digest hash uuid_of db db'"
| status_doc: "set_status i s version db = Inr db' \<Longrightarrow> doc_step digest hash uuid_of db db'"
| reprocess_doc: "prepare_reprocess i actor now db = Inr (t, db') \<Longrightarrow> doc_step digest hash uuid_of db db'"
| retry_doc: "retry_current_derivatives digest hash uuid_of dia draw now i db = Inr (x, db')
    \<Longrightarrow> doc_step digest hash uuid_of db db'"
| intake_doc: "on_intakes (transition tr now) db = Inr (n, db') \<Longrightarrow> doc_step digest hash uuid_of db db'"
| jobs_doc: "doc_step digest hash uuid_of db (db\<lparr>jobs := js\<rparr>)"
| review_doc: "map d_id (docs r) = map d_id (docs (dr_review db))
    \<Longrightarrow> map d_files (docs r) = map d_files (docs (dr_review db))
    \<Longrightarrow> doc_step digest hash uuid_of db (db\<lparr>dr_review := r\<rparr>)"

inductive reachable_docs ::
  "(pyval \<Rightarrow> pystr) \<Rightarrow> (pystr list \<Rightarrow> pystr) \<Rightarrow> uuid_parser \<Rightarrow> docdb \<Rightarrow> bool"
  for digest hash uuid_of where
  no_docs: "docs (dr_review db) = [] \<Longrightarrow> documents db = [] \<Longrightarrow> intakes db = [] \<Longrightarrow> dr_reservations db = []
    \<Longrightarrow> reachable_docs digest hash uuid_of db"
| doc_steps: "reachable_docs digest hash uuid_of db \<Longrightarrow> doc_step digest hash uuid_of db db'
    \<Longrightarrow> reachable_docs digest hash uuid_of db'"

lemma review_sources_ok:
  assumes ok: "sources_ok db" and ids: "map d_id (docs r) = map d_id (docs (dr_review db))"
    and files: "map d_files (docs r) = map d_files (docs (dr_review db))"
  shows "sources_ok (db\<lparr>dr_review := r\<rparr>)"
proof -
  let ?e = "\<lambda>n. docs (dr_review db) ! n"
  have len: "length (docs r) = length (docs (dr_review db))" using arg_cong [OF ids, of length] by simp
  have nth: "d_id (docs r ! n) = d_id (?e n)" "d_files (docs r ! n) = d_files (?e n)" if "n < length (docs r)" for n
    using arg_cong [OF ids, of "\<lambda>l. l ! n"] arg_cong [OF files, of "\<lambda>l. l ! n"] that len by simp_all
  have "doc_ok d" if "d \<in> set (docs r)" for d
  proof -
    from that obtain n where n: "n < length (docs r)" "d = docs r ! n" by (auto simp: in_set_conv_nth)
    moreover have "doc_ok (?e n)" using ok n len by (simp add: sources_ok_def)
    ultimately show ?thesis using doc_ok_same [of "?e n" d] nth by simp
  qed
  moreover have "map doc_identities (docs r) = map doc_identities (docs (dr_review db))"
    using len nth doc_identities_same [of "docs r ! n" "?e n" for n] by (intro nth_equalityI) simp_all
  then have "doc_identities ` set (docs r) = doc_identities ` set (docs (dr_review db))"
    by (metis list.set_map)
  moreover have iv: "intake_view (db\<lparr>dr_review := r\<rparr>) = intake_view db" by (simp add: intake_view_def)
  ultimately show ?thesis unfolding sources_ok_def iv using ok ids by (simp add: sources_ok_def intake_identities_def)
qed

lemma doc_step_sources_ok:
  assumes "doc_step digest hash uuid_of db db'" and "sources_ok db"
  shows "sources_ok db'"
  using assms(1)
proof cases
  case retry_doc
  then show ?thesis using retry_frame assms(2) by (metis jobs_sources_ok)
next
  case create_doc
  then show ?thesis using create_with_raw_sources_ok [OF assms(2)] by blast
next
  case append_doc
  then show ?thesis using append_sources_ok [OF assms(2)] by blast
next
  case artifact_doc
  then show ?thesis using add_artifact_sources_ok [OF assms(2)] by blast
next
  case status_doc
  then show ?thesis using set_status_sources_ok [OF assms(2)] by blast
next
  case reprocess_doc
  then show ?thesis using prepare_sources_ok [OF assms(2)] by blast
next
  case intake_doc
  then show ?thesis using transition_sources_ok [OF assms(2)] by blast
next
  case jobs_doc
  then show ?thesis using assms(2) by simp
next
  case review_doc
  then show ?thesis using review_sources_ok [OF assms(2)] by blast
qed

lemma reachable_sources_ok: "reachable_docs digest hash uuid_of db \<Longrightarrow> sources_ok db"
  by (induction rule: reachable_docs.induct)
     (simp add: sources_ok_def intakes_ok_def intake_identities_def, blast intro: doc_step_sources_ok)

end
