(* ===== verification/Worker.thy ===== *)
theory Worker
  imports Document_Inv Job_Lease
begin

text \<open>
  The worker (\<^verbatim>\<open>src/clerksan/ingest/worker.py\<close>): its claim of a job with the callback on buried jobs, the
  transactions that execute a claimed job, and the record of a failure. It composes the job queue, the
  source intake repository and the document repository over one state. Each definition is one
  transaction, or the sequence of transactions of one job with no other writer in between; a
  transaction that raises leaves the state it started from. \<open>now\<close> is the clock of the call.

  A handler is a parameter \<open>run\<close> (\<open>run h payload\<close> is the transaction of handler number \<open>h\<close>), as is
  \<open>describe\<close>, the text of an exception with its class name. Heartbeats only renew the lease, which is
  \<open>renew_lease\<close> of the queue; cancellation, signals and polling are not modelled.
\<close>

definition rebuild_job_type :: pystr where
  "rebuild_job_type = u ''rebuild_format_derivatives''"

definition lease_expired_error :: pystr where
  "lease_expired_error = u ''lease expired after final attempt''"

definition job_optional_uuid :: "uuid_parser \<Rightarrow> (pystr, pyval) dict \<Rightarrow> pystr \<Rightarrow> nat option res" where
  "job_optional_uuid uuid_of payload field =
     (case dict_get payload field of
        None \<Rightarrow> Inr None
      | Some v \<Rightarrow>
          if v = PNone then Inr None
          else (case coerce_uuid uuid_of v of
             None \<Rightarrow> Inl (ValueError ''payload field must be a UUID'')
           | Some n \<Rightarrow> Inr (Some n)))"

definition source_intake_for_job :: "uuid_parser \<Rightarrow> job \<Rightarrow> int \<Rightarrow> docdb \<Rightarrow> source_intake option res" where
  "source_intake_for_job uuid_of j version db =
     rbind (job_optional_uuid uuid_of (j_payload j) (u ''source_file_id'')) (\<lambda>fid.
     rbind (job_optional_uuid uuid_of (j_payload j) (u ''source_intake_id'')) (\<lambda>sid.
     case find (\<lambda>r. si_document_id r = j_document_id j \<and> si_source_version r = version
         \<and> opt_match fid (si_source_file_id r) \<and> opt_match sid (si_id r)) (intakes db) of
       None \<Rightarrow> Inr None
     | Some r \<Rightarrow>
         if si_intake_intent r \<noteq> j_intake_intent j then
           Inl (SourceIntakeValidationError ''process job intake intent does not match its persisted source intake'')
         else Inr (Some r)))"

subsection \<open>Terminal failures\<close>

definition failed_args :: "source_intake \<Rightarrow> transition_args" where
  "failed_args r = \<lparr>tr_intake_id = si_id r, tr_expected_version = si_version r, tr_state = Inl SI_Failed,
     tr_actor = u ''worker'', tr_reason_code = PStr (u ''processing_failed''), tr_retryable = True,
     tr_failure_phase = PStr (u ''legacy_job'')\<rparr>"

definition names_source :: "job \<Rightarrow> bool" where
  "names_source j \<longleftrightarrow> (\<exists>field \<in> {u ''source_file_id'', u ''source_intake_id''}.
     dict_get (j_payload j) field \<notin> {None, Some PNone})"

fun lost_race :: "exn \<Rightarrow> bool" where
  "lost_race (SourceIntakeValidationError _) = True"
| "lost_race StaleSourceIntakeError = True"
| "lost_race _ = False"

definition mark_source_intake_failed :: "uuid_parser \<Rightarrow> int \<Rightarrow> job \<Rightarrow> int \<Rightarrow> docdb \<Rightarrow> docdb res" where
  "mark_source_intake_failed uuid_of now j version db =
     rbind (source_intake_for_job uuid_of j version db) (\<lambda>x.
     case x of
       None \<Rightarrow>
         if names_source j then
           Inl (LookupError ''terminal process job exact source identity does not match an intake'')
         else Inr db
     | Some r \<Rightarrow>
         if si_state r = SI_Failed then Inr db
         else (case on_intakes (transition (failed_args r) now) db of
             Inr (_, db') \<Rightarrow> Inr db'
           | Inl e \<Rightarrow> if lost_race e then Inr db else Inl e))"

definition requeued :: "int \<Rightarrow> job \<Rightarrow> job" where
  "requeued now j = j\<lparr>j_status := Queued, j_attempts := 0, j_available_at := now - usec 1,
     j_last_error := None, j_updated_at := now\<rparr>"

definition mark_terminal_processing_failure :: "uuid_parser \<Rightarrow> int \<Rightarrow> job \<Rightarrow> docdb \<Rightarrow> docdb res" where
  "mark_terminal_processing_failure uuid_of now j db =
     (if j_job_type j = rebuild_job_type \<and> j_status j = Dead \<and> j_last_error j = Some lease_expired_error then
        Inr (update_job (requeued now) (j_id j) db)
      else if j_job_type j \<noteq> u ''process_document'' \<or> j_status j \<noteq> Dead then Inr db
      else case job_source_version j of
        None \<Rightarrow> Inr db
      | Some version \<Rightarrow>
          rbind (mark_source_intake_failed uuid_of now j version db) (\<lambda>db1.
          case set_status (j_document_id j) Failed_Doc (Some version) db1 of
            Inr db2 \<Rightarrow> Inr db2
          | Inl e \<Rightarrow> if e = SourceVersionSupersededError then Inr db1 else Inl e))"

subsection \<open>Claiming and executing\<close>

definition worker_claim ::
  "(pyval \<Rightarrow> pystr) \<Rightarrow> (pystr list \<Rightarrow> pystr) \<Rightarrow> uuid_parser \<Rightarrow> dialect \<Rightarrow> (nat \<Rightarrow> bool) \<Rightarrow> settings \<Rightarrow> registry
     \<Rightarrow> bool \<Rightarrow> pystr \<Rightarrow> pystr \<Rightarrow> int \<Rightarrow> docdb \<Rightarrow> (job option \<times> docdb) res" where
  "worker_claim digest hash uuid_of dia locked st reg models_ready owner worker_id now db =
     claim_next digest hash dia locked st (Some reg) models_ready (Some owner) worker_id
       (mark_terminal_processing_failure uuid_of now) now db"

definition processing_args :: "source_intake \<Rightarrow> transition_args" where
  "processing_args r = \<lparr>tr_intake_id = si_id r, tr_expected_version = si_version r, tr_state = Inl SI_Processing,
     tr_actor = u ''worker'', tr_reason_code = PStr (u ''processing_queued''), tr_retryable = False,
     tr_failure_phase = PNone\<rparr>"

definition mark_claimed_source_processing :: "uuid_parser \<Rightarrow> int \<Rightarrow> job \<Rightarrow> docdb \<Rightarrow> docdb res" where
  "mark_claimed_source_processing uuid_of now j db =
     (if j_job_type j \<noteq> u ''process_document'' then Inr db
      else case job_source_version j of
        None \<Rightarrow> Inr db
      | Some version \<Rightarrow>
          rbind (source_intake_for_job uuid_of j version db) (\<lambda>x.
          case x of
            None \<Rightarrow> Inl (LookupError ''process job has no exact source intake for its source version'')
          | Some r \<Rightarrow>
              if si_state r = SI_Processing then Inr db
              else if si_state r \<noteq> SI_Queued then
                Inl (SourceIntakeValidationError ''process job requires an explicitly requeued source intake'')
              else rbind (on_intakes (transition (processing_args r) now) db) (\<lambda>(_, db'). Inr db')))"

definition record_failure :: "uuid_parser \<Rightarrow> settings \<Rightarrow> pystr \<Rightarrow> pystr \<Rightarrow> int \<Rightarrow> nat \<Rightarrow> docdb \<Rightarrow> docdb res" where
  "record_failure uuid_of st owner e now i db =
     (case rbind (retry_or_bury st (Some owner) e now i db) (\<lambda>db1.
          case find (\<lambda>j. j_id j = i) (jobs db1) of
            None \<Rightarrow> Inr db1
          | Some j \<Rightarrow> mark_terminal_processing_failure uuid_of now j db1) of
        Inr db' \<Rightarrow> Inr db'
      | Inl x \<Rightarrow> if x = JobLeaseLostError then Inr db else Inl x)"

definition execution_profile_value :: "execution_profile \<Rightarrow> pystr" where
  "execution_profile_value p = (case p of Legacy_Compat \<Rightarrow> u ''legacy_compat'' | Universal_Sandboxed \<Rightarrow> u ''universal_sandboxed'')"

definition handler_payload :: "pystr \<Rightarrow> job \<Rightarrow> (pystr, pyval) dict" where
  "handler_payload owner j = foldl (\<lambda>p (k, v). dict_set k v p) (j_payload j)
     [(u ''_capabilities_digest'', opt_str (j_capabilities_digest j)),
      (u ''_execution_profile'', PStr (execution_profile_value (j_execution_profile j))),
      (u ''_job_id'', PStr (uuid_str (j_id j))), (u ''_job_attempt'', PInt (j_attempts j)),
      (u ''_lease_owner'', PStr owner), (u ''_registry_digest'', opt_str (j_registry_digest j)),
      (u ''_required_components'', PList (map PStr (j_required_components j))),
      (u ''_requirements_digest'', PStr (j_requirements_digest j)),
      (u ''_sandbox_verified'', PBool (j_sandbox_verified j)),
      (u ''_intake_intent'', PStr (intake_intent_value (j_intake_intent j))),
      (u ''intake_intent'', PStr (intake_intent_value (j_intake_intent j)))]"

definition execute_claimed ::
  "uuid_parser \<Rightarrow> settings \<Rightarrow> (pystr, nat) dict \<Rightarrow> (nat \<Rightarrow> (pystr, pyval) dict \<Rightarrow> docdb \<Rightarrow> docdb res)
     \<Rightarrow> (exn \<Rightarrow> pystr) \<Rightarrow> pystr \<Rightarrow> int \<Rightarrow> job \<Rightarrow> docdb \<Rightarrow> docdb res" where
  "execute_claimed uuid_of st handlers run describe owner now j db =
     (let failed = (\<lambda>e db. record_failure uuid_of st owner (describe e) now (j_id j) db) in
      if job_pipeline_completed (j_payload j) then mark_done (Some owner) now (j_id j) db
      else case get_handler (j_job_type j) handlers of
        Inl e \<Rightarrow> failed e db
      | Inr h \<Rightarrow>
          (case mark_claimed_source_processing uuid_of now j db of
             Inl e \<Rightarrow> failed e db
           | Inr db1 \<Rightarrow>
               (case run h (handler_payload owner j) db1 of
                  Inl e \<Rightarrow> failed e db1
                | Inr db2 \<Rightarrow>
                    (case mark_done (Some owner) now (j_id j) db2 of
                       Inl e \<Rightarrow> failed e db2
                     | Inr db3 \<Rightarrow> Inr db3))))"

subsection \<open>The callback meets the contract of the queue\<close>

lemma requeued_settled: "1 \<le> job_max_attempts st \<Longrightarrow> settled_row st (requeued now)"
  by (auto simp: settled_row_def requeued_def job_ident_def job_wf_def)

lemma same_rows: "settled_row st (\<lambda>k. k)"
  by (simp add: settled_row_def)

lemma on_intakes_jobs: "on_intakes f db = Inr (x, db') \<Longrightarrow> jobs db' = jobs db"
  by (auto simp: on_intakes_def res_simps)

lemma mark_source_intake_failed_Inr:
  assumes "mark_source_intake_failed uuid_of now j version db = Inr db'"
  shows "db' = db \<or> (\<exists>r n. on_intakes (transition (failed_args r) now) db = Inr (n, db'))"
proof -
  from assms obtain x where x: "(case x of
       None \<Rightarrow> if names_source j then
           Inl (LookupError ''terminal process job exact source identity does not match an intake'') else Inr db
     | Some r \<Rightarrow> if si_state r = SI_Failed then Inr db
         else (case on_intakes (transition (failed_args r) now) db of
             Inr (_, db') \<Rightarrow> Inr db' | Inl e \<Rightarrow> if lost_race e then Inr db else Inl e)) = Inr db'"
    unfolding mark_source_intake_failed_def rbind_Inr by blast
  show ?thesis
  proof (cases x)
    case None
    with x show ?thesis by (simp split: if_splits)
  next
    case (Some r)
    with x show ?thesis
      by (cases "on_intakes (transition (failed_args r) now) db") (auto split: if_splits prod.splits)
  qed
qed

text \<open>The callback requeues the job it was called for, or writes the intake and then the document.\<close>

lemma terminal_callback_Inr:
  assumes "mark_terminal_processing_failure uuid_of now j db = Inr db'"
  obtains (requeue) "db' = update_job (requeued now) (j_id j) db"
  | (source) db1 where "db1 = db \<or> (\<exists>r n. on_intakes (transition (failed_args r) now) db = Inr (n, db1))"
      "db' = db1 \<or> (\<exists>i v. set_status i Failed_Doc v db1 = Inr db')"
proof (cases "j_job_type j = rebuild_job_type \<and> j_status j = Dead \<and> j_last_error j = Some lease_expired_error")
  case True
  with assms requeue show ?thesis by (simp add: mark_terminal_processing_failure_def)
next
  case other: False
  show ?thesis
  proof (cases "j_job_type j \<noteq> u ''process_document'' \<or> j_status j \<noteq> Dead \<or> job_source_version j = None")
    case True
    with assms other have "db' = db"
      by (auto simp: mark_terminal_processing_failure_def split: if_splits)
    then show ?thesis using source [of db] by blast
  next
    case False
    then obtain version where v: "job_source_version j = Some version" by blast
    with False other assms obtain db1 where
      m: "mark_source_intake_failed uuid_of now j version db = Inr db1"
      and s: "(case set_status (j_document_id j) Failed_Doc (Some version) db1 of Inr db2 \<Rightarrow> Inr db2
          | Inl e \<Rightarrow> if e = SourceVersionSupersededError then Inr db1 else Inl e) = Inr db'"
      unfolding mark_terminal_processing_failure_def by (auto simp: rbind_Inr)
    from s have "db' = db1 \<or> set_status (j_document_id j) Failed_Doc (Some version) db1 = Inr db'"
      by (auto split: sum.splits if_splits)
    with mark_source_intake_failed_Inr [OF m] show ?thesis using source [of db1] by blast
  qed
qed

lemma terminal_callback_jobs:
  assumes "mark_terminal_processing_failure uuid_of now j db = Inr db'"
  shows "jobs db' = jobs db \<or> db' = update_job (requeued now) (j_id j) db"
  using assms
proof (cases rule: terminal_callback_Inr)
  case (source db1)
  have "jobs db1 = jobs db" using source(1) by (elim disjE exE) (simp, erule on_intakes_jobs)
  moreover have "jobs db' = jobs db1" using source(2) by (elim disjE exE) (simp, drule set_status_Inr, simp)
  ultimately show ?thesis by simp
qed simp

lemma terminal_callback_sources_ok:
  assumes "mark_terminal_processing_failure uuid_of now j db = Inr db'" and ok: "sources_ok db"
  shows "sources_ok db'"
  using assms(1)
proof (cases rule: terminal_callback_Inr)
  case requeue
  then show ?thesis using ok by (simp add: update_job_def)
next
  case (source db1)
  have "sources_ok db1" using source(1) ok by (elim disjE exE) (simp, blast intro: transition_sources_ok)
  with source(2) show ?thesis by (elim disjE exE) (simp, blast intro: set_status_sources_ok)
qed

lemma terminal_callback_ok:
  assumes "1 \<le> job_max_attempts st"
  shows "handler_ok st (mark_terminal_processing_failure uuid_of now)"
  unfolding handler_ok_def
proof (intro allI impI)
  fix j db db' assume "mark_terminal_processing_failure uuid_of now j db = Inr db'"
  then consider "jobs db' = jobs db" | "db' = update_job (requeued now) (j_id j) db"
    using terminal_callback_jobs by blast
  then show "\<exists>g. settled_row st g \<and> jobs db' = map (\<lambda>k. if j_id k = j_id j then g k else k) (jobs db)"
  proof cases
    case 1
    then show ?thesis using same_rows by (intro exI [of _ "\<lambda>k. k"]) simp
  next
    case 2
    then show ?thesis using requeued_settled [OF assms] by (intro exI [of _ "requeued now"]) (simp add: update_job_def)
  qed
qed

end
