(* ===== verification/Document_Props.thy ===== *)
theory Document_Props
  imports Document_Inv
begin

text \<open>
  Properties of the document repository: sources keep their intakes, a replacement retires what was
  derived from the old source and nothing else, writes bound to a superseded source are refused for
  ever, and what a retry of failed derivatives does.
\<close>

subsection \<open>The current original\<close>

lemma latest_by_exists: "xs \<noteq> [] \<Longrightarrow> \<exists>x. latest_by key xs = Some x"
proof -
  assume "xs \<noteq> []"
  then have m: "Max (key ` set xs) \<in> key ` set xs" by simp
  then obtain x where "x \<in> set xs" "key x = Max (key ` set xs)" by auto
  then have "\<exists>x \<in> set xs. \<forall>y \<in> set xs. key y \<le> key x" by (metis Max_ge finite_imageI finite_set imageI)
  then show ?thesis by (cases "latest_by key xs") (auto simp: latest_by_def find_None_iff)
qed

lemma latest_by_Some:
  assumes "latest_by key xs = Some x"
  shows "x \<in> set xs" and "\<forall>y \<in> set xs. key y \<le> key x"
  using assms by (auto simp: latest_by_def dest: find_SomeD)

lemma latest_original_by: "latest_original files =
  latest_by (\<lambda>f. (f_version f, f_id f)) (filter (\<lambda>f. f_kind f = Original) files)"
  by (simp add: latest_original_def latest_by_def Let_def)

lemma latest_original_exists:
  assumes "f \<in> set files" and "f_kind f = Original"
  obtains g where "latest_original files = Some g" "f_version f \<le> f_version g"
proof -
  have "filter (\<lambda>f. f_kind f = Original) files \<noteq> []" using assms by (auto simp: filter_empty_conv)
  then obtain g where "latest_original files = Some g" using latest_by_exists unfolding latest_original_by by blast
  with assms latest_original_mem(3) that show ?thesis by blast
qed

lemma latest_original_append:
  assumes "f_kind f = Original" and "\<forall>g \<in> set files. f_version g < f_version f"
  shows "latest_original (files @ [f]) = Some f"
proof -
  obtain g where g: "latest_original (files @ [f]) = Some g" "f_version f \<le> f_version g"
    by (rule latest_original_exists [of f "files @ [f]"]) (use assms(1) in auto)
  then show ?thesis using latest_original_mem(1) [OF g(1)] assms(2) by fastforce
qed

subsection \<open>Files are never lost\<close>

definition files_kept :: "docdb \<Rightarrow> docdb \<Rightarrow> bool" where
  "files_kept db db' \<longleftrightarrow> (\<forall>i d. find_doc i (dr_review db) = Some d \<longrightarrow>
     (\<exists>d'. find_doc i (dr_review db') = Some d' \<and> set (d_files d) \<subseteq> set (d_files d')))"

lemma find_doc_map:
  assumes "docs r' = map (\<lambda>d. if d_id d = i then f d else d) (docs r)" and "\<And>d. d_id (f d) = d_id d"
  shows "find_doc k r' = map_option (\<lambda>d. if k = i then f d else d) (find_doc k r)"
proof -
  have "find (\<lambda>r. d_id r = k) (map (\<lambda>d. if d_id d = i then f d else d) ds)
      = map_option (\<lambda>d. if k = i then f d else d) (find (\<lambda>r. d_id r = k) ds)" for ds
    by (induction ds) (auto simp: assms(2))
  then show ?thesis by (simp add: find_doc_def assms(1))
qed

lemma files_kept_map:
  assumes "docs (dr_review db') = map (\<lambda>d. if d_id d = i then f d else d) (docs (dr_review db))"
    and "\<And>d. d_id (f d) = d_id d" and "\<And>d. set (d_files d) \<subseteq> set (d_files (f d))"
  shows "files_kept db db'"
  unfolding files_kept_def find_doc_map [OF assms(1,2)] using assms(3) by auto

lemma files_kept_same: "docs (dr_review db') = docs (dr_review db) \<Longrightarrow> files_kept db db'"
  by (simp add: files_kept_def find_doc_def)

lemma files_kept_trans: "files_kept db db1 \<Longrightarrow> files_kept db1 db2 \<Longrightarrow> files_kept db db2"
  unfolding files_kept_def by (meson subset_trans)

lemma update_doc_files: "(\<And>d. d_id (f d) = d_id d) \<Longrightarrow> (\<And>d. set (d_files d) \<subseteq> set (d_files (f d)))
    \<Longrightarrow> files_kept db (update_doc i f db)"
  by (rule files_kept_map [where i = i and f = f]) simp_all

lemma find_append_Some: "find P xs = Some x \<Longrightarrow> find P (xs @ ys) = Some x"
  by (induction xs) auto

lemma insert_document_files:
  assumes "insert_document uuid_of hash a filename path mime key intent new_doc new_file new_intake now db = Inr db'"
  shows "files_kept db db'"
proof -
  obtain d where "docs (dr_review db') = docs (dr_review db) @ [d]"
    using assms by (auto simp: insert_document_def Let_def res_simps on_intakes_def split: if_splits)
  then show ?thesis
    by (auto simp: files_kept_def find_doc_def find_append_Some)
qed

lemma reserve_files: "reserve uuid_of k sha intent db = Inr (outcome, db') \<Longrightarrow> files_kept db db'"
  by (intro files_kept_same) (auto simp: reserve_def on_intakes_def res_simps)

lemma create_with_raw_files:
  assumes "create_with_raw uuid_of hash a new_doc new_file new_intake now db = Inr (n, db')"
  shows "files_kept db db'"
  using assms
proof (cases rule: create_with_raw_Inr)
  case plain
  then show ?thesis by (rule insert_document_files)
next
  case (reserved k outcome db1)
  from reserved(2) have "files_kept db1 db'"
    by (elim disjE exE) (simp add: files_kept_same, (blast intro: insert_document_files reserve_files)+)
  with reserve_files [OF reserved(1)] show ?thesis by (rule files_kept_trans)
qed

lemma append_files:
  assumes "sources_ok db"
    and "append_raw_source uuid_of hash i a actor new_file new_intake now db = Inr (rv, db')"
  shows "files_kept db db'"
  using assms
proof (cases rule: append_raw_source_Inr)
  case replay
  then show ?thesis by (simp add: files_kept_same)
next
  case (fresh d f)
  then show ?thesis
    by (intro files_kept_map [where i = i and f = "replaced_row f"])
       (auto simp: source_replaced_def replaced_row_def Let_def)
qed

lemma transition_files: "on_intakes g db = Inr (n, db') \<Longrightarrow> files_kept db db'"
  by (intro files_kept_same) (auto simp: on_intakes_def res_simps)

lemma prepare_files:
  assumes "prepare_reprocess i actor now db = Inr (t, db')"
  shows "files_kept db db'"
proof -
  let ?db1 = "update_doc i (\<lambda>d. d\<lparr>d_status := Needs_Reprocess\<rparr>) db"
  have 1: "files_kept db ?db1" by (rule update_doc_files) simp_all
  have "db' = ?db1 \<or> (\<exists>g (n :: int). on_intakes g ?db1 = Inr (n, db'))"
    by (rule prepare_reprocess_Inr [OF assms]) (auto split: if_splits)
  then show ?thesis using 1 by (elim disjE exE) (simp, metis transition_files files_kept_trans)
qed

lemma doc_step_files:
  assumes "doc_step digest hash uuid_of db db'" and "sources_ok db"
  shows "files_kept db db'"
  using assms(1)
proof cases
  case create_doc
  then show ?thesis using create_with_raw_files by blast
next
  case append_doc
  then show ?thesis using append_files [OF assms(2)] by blast
next
  case (artifact_doc i aa new_file n)
  show ?thesis by (rule add_artifact_Inr [OF artifact_doc]) (auto intro: update_doc_files)
next
  case (status_doc i s version)
  show ?thesis unfolding set_status_Inr [OF status_doc] by (rule update_doc_files) simp_all
next
  case reprocess_doc
  then show ?thesis by (rule prepare_files)
next
  case retry_doc
  show ?thesis by (rule files_kept_same) (subst retry_frame [OF retry_doc, THEN conjunct1], simp)
next
  case intake_doc
  then show ?thesis by (rule transition_files)
next
  case jobs_doc
  then show ?thesis by (simp add: files_kept_same)
next
  case (review_doc r)
  have "\<exists>d'. find (\<lambda>r. d_id r = i) ds' = Some d' \<and> d_files d = d_files d'"
    if "map d_id ds' = map d_id ds" "map d_files ds' = map d_files ds" "find (\<lambda>r. d_id r = i) ds = Some d" for i d ds ds'
    using that
  proof (induction ds arbitrary: ds')
    case (Cons e ds)
    then show ?case by (cases ds') (auto split: if_splits)
  qed simp
  with review_doc show ?thesis unfolding files_kept_def find_doc_def by fastforce
qed

lemma doc_steps_files:
  assumes "rtranclp (doc_step digest hash uuid_of) db db'" and "sources_ok db"
  shows "sources_ok db' \<and> files_kept db db'"
  using assms(1)
proof induction
  case base
  then show ?case using assms(2) by (simp add: files_kept_same)
next
  case (step db1 db2)
  then show ?case using doc_step_sources_ok doc_step_files files_kept_trans by blast
qed

subsection \<open>Originals and their intakes\<close>

lemma find_doc_unique: "distinct (map d_id ds) \<Longrightarrow> d \<in> set ds \<Longrightarrow> find (\<lambda>e. d_id e = d_id d) ds = Some d"
  by (induction ds) (auto simp: image_iff)

lemma intake_of_original:
  assumes "sources_ok db" and "find_doc i (dr_review db) = Some d" and "f \<in> set (d_files d)" and "f_kind f = Original"
  shows "\<exists>r \<in> set (intakes db). source_identity r = (i, f_id f, f_version f, f_sha256 f)"
proof -
  have "(i, f_id f, f_version f, f_sha256 f) \<in> doc_identities d"
    using assms(3,4) find_doc_mem [OF assms(2)] by (auto simp: doc_identities_def)
  then have "(i, f_id f, f_version f, f_sha256 f) \<in> source_identity ` set (intakes db)"
    using assms(1) find_doc_mem [OF assms(2)] by (auto simp: sources_ok_def intake_identities_def)
  then show ?thesis by force
qed

lemma original_of_intake:
  assumes ok: "sources_ok db" and r: "r \<in> set (intakes db)"
  obtains d f where "find_doc (si_document_id r) (dr_review db) = Some d" "f \<in> set (d_files d)" "f_kind f = Original"
    "source_identity r = (d_id d, f_id f, f_version f, f_sha256 f)"
proof -
  have "source_identity r \<in> intake_identities db" using r by (simp add: intake_identities_def)
  then obtain d f where d: "d \<in> set (docs (dr_review db))" and f: "f \<in> set (d_files d)" "f_kind f = Original"
    and id: "source_identity r = (d_id d, f_id f, f_version f, f_sha256 f)"
    using ok by (auto simp: sources_ok_def doc_identities_def)
  have "find (\<lambda>e. d_id e = d_id d) (docs (dr_review db)) = Some d"
    using ok d by (intro find_doc_unique) (auto simp: sources_ok_def)
  then show thesis using that f id by (simp add: find_doc_def source_identity_def)
qed

text \<open>The intake of a new source is the one the replacement created.\<close>

lemma replaced_intake:
  assumes ok: "sources_ok db" and d: "find_doc i (dr_review db) = Some d" and "f_document_id f = i"
    and v: "f_version f = next_file_version (d_files d)" and s: "source_replaced f intent actor now db db'"
    and g: "get_for_source i (f_id f) (f_version f) db' = Some r"
  shows "si_intake_intent r = intent"
proof -
  from s obtain row where row: "intakes db' = intakes db @ [row]" "si_intake_intent row = intent"
    by (auto simp: source_replaced_def Let_def)
  have r: "r \<in> set (intakes db')" "si_document_id r = i" "si_source_version r = f_version f"
    using g by (auto simp: get_for_source_def dest: find_SomeD)
  have "r \<notin> set (intakes db)"
  proof
    assume "r \<in> set (intakes db)"
    with ok obtain d' h where "find_doc (si_document_id r) (dr_review db) = Some d'" "h \<in> set (d_files d')"
      "source_identity r = (d_id d', f_id h, f_version h, f_sha256 h)" by (rule original_of_intake)
    with r d have "h \<in> set (d_files d)" "f_version h = f_version f" by (auto simp: source_identity_def)
    with next_version_fresh(1) v show False by fastforce
  qed
  with r(1) row show ?thesis by auto
qed

end
