(* ===== verification/Document_Retry.thy ===== *)
theory Document_Retry
  imports Document_Props
begin

text \<open>
  What \<^verbatim>\<open>retry_current_derivatives\<close> does with a job of a sandboxed source. The successor is enqueued
  without settings, which \<^verbatim>\<open>enqueue\<close> reads as legacy execution and refuses for such a source.
\<close>

lemma intake_of_version:
  assumes ok: "sources_ok db" and "r \<in> set (intakes db)" "s \<in> set (intakes db)"
    and "si_document_id r = si_document_id s" and "si_source_version r = si_source_version s"
  shows "r = s"
proof -
  obtain d f where d: "find_doc (si_document_id r) (dr_review db) = Some d" "f \<in> set (d_files d)"
    and r: "source_identity r = (d_id d, f_id f, f_version f, f_sha256 f)"
    by (rule original_of_intake [OF ok assms(2)])
  obtain e g where e: "find_doc (si_document_id s) (dr_review db) = Some e" "g \<in> set (d_files e)"
    and s: "source_identity s = (d_id e, f_id g, f_version g, f_sha256 g)"
    by (rule original_of_intake [OF ok assms(3)])
  have "e = d" using d e assms(4) by simp
  moreover have "f_version f = f_version g" using r s assms(5) by (simp add: source_identity_def)
  moreover have "inj_on f_version (set (d_files d))"
    using ok find_doc_mem [OF d(1)] by (auto simp: sources_ok_def doc_ok_def distinct_map)
  ultimately have "source_identity r = source_identity s" using d e r s by (metis inj_onD)
  moreover have "inj_on source_identity (set (intakes db))"
    using ok by (simp add: sources_ok_def intakes_ok_def distinct_map)
  ultimately show ?thesis using assms(2,3) by (metis inj_onD)
qed

lemma provided_version:
  assumes "dict_get p (u ''source_version'') = Some v" and "payload_source_version v = Some n"
  shows "provided payload_source_version p (u ''source_version'') err = Inr (Some n)"
  using assms by (simp add: provided_def)

lemma single_Inr: "(case xs of [] \<Rightarrow> Inl e | [r] \<Rightarrow> Inr (g r) | r # x # ys \<Rightarrow> Inl e) = Inr y \<longleftrightarrow> (\<exists>r. xs = [r] \<and> g r = y)"
  by (cases xs rule: remdups_adj.cases) auto

lemma source_of_version:
  assumes "dict_get p (u ''source_version'') = Some v" and "payload_source_version v = Some n"
    and "source_intake_for_payload uuid_of rows doc p = Inr (src, p')"
  obtains r where "src = Some r" "r \<in> set rows" "si_document_id r = doc" "si_source_version r = n"
proof -
  define hits where "hits sid fid = filter (\<lambda>r. si_document_id r = doc \<and> opt_match sid (si_id r)
      \<and> opt_match fid (si_source_file_id r) \<and> opt_match (Some n) (si_source_version r)) rows" for sid fid
  have "\<exists>sid fid r. take 2 (hits sid fid) = [r] \<and> src = Some r"
    using assms(3)
    unfolding source_intake_for_payload_def rbind_Inr provided_version [OF assms(1,2)]
  proof (elim exE conjE)
    fix x xa xb
    assume "Inr (Some n) = (Inr xb :: int option res)"
      and c: "(if x = None \<and> xa = None \<and> xb = None then Inr (None, p)
        else case take 2 (filter (\<lambda>r. si_document_id r = doc \<and> opt_match x (si_id r)
            \<and> opt_match xa (si_source_file_id r) \<and> opt_match xb (si_source_version r)) rows) of
          [r] \<Rightarrow> Inr (Some r, dict_set (u ''source_version'') (PInt (si_source_version r))
              (dict_set (u ''source_file_id'') (PStr (uuid_str (si_source_file_id r)))
              (dict_set (u ''source_intake_id'') (PStr (uuid_str (si_id r))) p)))
        | _ \<Rightarrow> Inl (ValueError ''payload source identity must resolve to exactly one persisted source intake''))
        = Inr (src, p')"
    then have "xb = Some n" by simp
    from c [unfolded this] have "\<exists>r. take 2 (hits x xa) = [r] \<and> src = Some r"
      unfolding hits_def by (simp add: single_Inr del: dict_get_set) blast
    then show ?thesis by blast
  qed
  then obtain sid fid r where h: "take 2 (hits sid fid) = [r]" and src: "src = Some r" by blast
  have "r \<in> set (hits sid fid)" using h by (metis in_set_takeD list.set_intros(1))
  with src that show thesis by (auto simp: hits_def opt_match_def)
qed

lemma build_job_source:
  assumes "build_job digest hash uuid_of new_id now rows a = Inr j"
  obtains doc p intent src p' where "job_document_payload uuid_of (ea_payload a) = Inr (doc, p)"
    "resolve_intake_intent uuid_of rows doc p (ea_intake_intent a) = Inr (intent, src, p')"
    "is_universal a \<or> (case src of None \<Rightarrow> True | Some r \<Rightarrow> si_execution_profile r \<noteq> Universal_Sandboxed)"
  using assms unfolding build_job_def rbind_Inr require_Inr case_prod_beta
  by (elim exE conjE) (metis prod.collapse)

lemma resolve_intake_intent_source:
  assumes "resolve_intake_intent uuid_of rows doc p requested = Inr (intent, src, p')"
  shows "source_intake_for_payload uuid_of rows doc p = Inr (src, p')"
proof -
  from assms obtain req x where s: "source_intake_for_payload uuid_of rows doc p = Inr x"
    and c: "(case fst x of None \<Rightarrow> Inr (case req of None \<Rightarrow> Legacy_Unspecified | Some i \<Rightarrow> i, None, snd x)
      | Some r \<Rightarrow> if req \<noteq> None \<and> req \<noteq> Some (si_intake_intent r) then
          Inl (ValueError ''intake_intent must match the persisted source intake'')
        else Inr (si_intake_intent r, Some r, snd x)) = Inr (intent, src, p')"
    unfolding resolve_intake_intent_def rbind_Inr case_prod_beta by (elim exE conjE) (rule that)
  from c have "fst x = src \<and> snd x = p'" by (cases "fst x") (simp_all split: if_splits)
  then have "x = (src, p')" by (cases x) simp
  with s show ?thesis by simp
qed

text \<open>A job whose payload names a sandboxed source cannot be enqueued without universal settings.\<close>

lemma legacy_enqueue_of_sandboxed_source:
  assumes ok: "sources_ok db" and r: "r \<in> set (intakes db)" "si_execution_profile r = Universal_Sandboxed"
    and p: "dict_get p (u ''document_id'') = Some (PStr (uuid_str (si_document_id r)))"
      "uuid_of (PStr (uuid_str (si_document_id r))) = Some (si_document_id r)"
      "dict_get p (u ''source_version'') = Some v" "payload_source_version v = Some (si_source_version r)"
    and a: "ea_payload a = PDict p" "\<not> is_universal a"
  shows "\<exists>e. enqueue digest hash uuid_of dia new_id now db a = Inl e"
proof (rule ccontr)
  assume "\<not> ?thesis"
  then obtain j where j: "build_job digest hash uuid_of new_id now (intakes db) a = Inr j"
    by (cases "build_job digest hash uuid_of new_id now (intakes db) a") (auto simp: enqueue_def)
  have doc: "job_document_payload uuid_of (PDict p) = Inr (d, p') \<Longrightarrow>
      d = si_document_id r \<and> dict_get p' (u ''source_version'') = Some v" for d p'
    using p by (auto simp: coerce_uuid_def Let_def split: if_splits)
  obtain d p1 intent src p2 where d: "job_document_payload uuid_of (ea_payload a) = Inr (d, p1)"
    and i: "resolve_intake_intent uuid_of (intakes db) d p1 (ea_intake_intent a) = Inr (intent, src, p2)"
    and safe: "case src of None \<Rightarrow> True | Some x \<Rightarrow> si_execution_profile x \<noteq> Universal_Sandboxed"
    by (rule build_job_source [OF j]) (use a(2) in blast)
  have p1: "d = si_document_id r" "dict_get p1 (u ''source_version'') = Some v"
    using doc d unfolding a(1) by blast+
  have s: "source_intake_for_payload uuid_of (intakes db) (si_document_id r) p1 = Inr (src, p2)"
    using resolve_intake_intent_source [OF i] p1(1) by simp
  obtain x where "src = Some x" "x \<in> set (intakes db)" "si_document_id x = si_document_id r"
    "si_source_version x = si_source_version r"
    by (rule source_of_version [OF p1(2) p(4) s])
  moreover have "x = r" using calculation r(1) ok intake_of_version by blast
  ultimately show False using safe r(2) by simp
qed

subsection \<open>The whole retry\<close>

lemma group_append_mem:
  "(t, js) \<in> set (group_append k v g) \<Longrightarrow> j \<in> set js \<Longrightarrow> (t = k \<and> j = v) \<or> (\<exists>ks. (t, ks) \<in> set g \<and> j \<in> set ks)"
  by (induction k v g rule: group_append.induct) (auto split: if_splits)

lemma derivative_group_jobs:
  assumes "(t, js) \<in> set (current_source_derivative_jobs all version)" and "j \<in> set js"
  shows "j \<in> set all \<and> derivative_job_target j = Some t \<and> fst (snd t) = version"
  using assms unfolding current_source_derivative_jobs_def
proof (induction all arbitrary: t js j rule: rev_induct)
  case (snoc x xs)
  show ?case
  proof (cases "derivative_job_target x")
    case None
    with snoc show ?thesis by simp
  next
    case (Some k)
    show ?thesis
    proof (cases "fst (snd k) = version")
      case True
      from snoc.prems Some True group_append_mem
      have "(t = k \<and> j = x) \<or> (\<exists>ks. (t, ks) \<in> set (foldl (\<lambda>g j. case derivative_job_target j of
          Some t \<Rightarrow> if fst (snd t) = version then group_append t j g else g | None \<Rightarrow> g) [] xs) \<and> j \<in> set ks)"
        by simp
      then show ?thesis
      proof (elim disjE exE conjE)
        fix ks assume "(t, ks) \<in> set (foldl (\<lambda>g j. case derivative_job_target j of
          Some t \<Rightarrow> if fst (snd t) = version then group_append t j g else g | None \<Rightarrow> g) [] xs)" "j \<in> set ks"
        from snoc.IH [OF this] show ?thesis by simp
      qed (use Some True in simp)
    next
      case False
      with Some snoc show ?thesis by simp
    qed
  qed
qed simp

lemma target_version:
  assumes "derivative_job_target j = Some t"
  shows "\<exists>v. dict_get (j_payload j) (u ''source_version'') = Some v \<and> payload_source_version v = Some (fst (snd t))"
  using assms by (auto simp: derivative_job_target_def job_source_version_def Let_def split: if_splits option.splits)

lemma failed_derivative_mem: "failed_derivative all js = Some f \<Longrightarrow> f \<in> set js"
  by (auto simp: failed_derivative_def latest_derivative_recovery_leaf_def Let_def split: if_splits option.splits
      dest!: latest_by_Some(1))

lemma queue_recoveries_fails:
  assumes "(t, js) \<in> set gs" and "failed_derivative all js = Some f"
    and "\<And>g ks h n. (g, ks) \<in> set gs \<Longrightarrow> failed_derivative all ks = Some h \<Longrightarrow> \<exists>e. enq h n db = Inl e"
  shows "\<exists>e. queue_recoveries enq all gs n db = Inl e"
  using assms
proof (induction gs arbitrary: n)
  case (Cons g gs)
  obtain k ks where g: "g = (k, ks)" by (cases g)
  show ?case
  proof (cases "failed_derivative all ks")
    case None
    with Cons g have "(t, js) \<in> set gs" by auto
    then have "\<exists>e. queue_recoveries enq all gs n db = Inl e"
      by (rule Cons.IH [OF _ Cons.prems(2)]) (rule Cons.prems(3), rule list.set_intros(2))
    with None g show ?thesis by simp
  next
    case (Some h)
    then obtain e where "enq h n db = Inl e" using Cons.prems(3) [of k ks h n] g by auto
    with Some g show ?thesis by simp
  qed
qed simp

text \<open>Every retry of a document whose current source is sandboxed fails as soon as there is something to retry.\<close>

lemma sandboxed_retry_fails:
  assumes ok: "sources_ok db" and c: "current_original_intake i db = Inr (d, original, r)"
    and r: "si_execution_profile r = Universal_Sandboxed"
    and bound: "\<forall>j \<in> set (document_jobs i db). dict_get (j_payload j) (u ''document_id'') = Some (PStr (uuid_str i))"
      "uuid_of (PStr (uuid_str i)) = Some i"
    and g: "(t, js) \<in> set (current_source_derivative_jobs (document_jobs i db) (f_version original))"
    and f: "failed_derivative (document_jobs i db) js = Some f"
  shows "\<exists>e. retry_current_derivatives digest hash uuid_of dia draw now i db = Inl e"
proof -
  let ?gs = "current_source_derivative_jobs (document_jobs i db) (f_version original)"
  let ?enq = "\<lambda>f n db. enqueue digest hash uuid_of dia (draw n) now db (recovery_args f)"
  have d: "find_doc i (dr_review db) = Some d" "latest_original (d_files d) = Some original"
    and s: "get_for_source (d_id d) (f_id original) (f_version original) db = Some r"
    using c unfolding current_original_intake_Inr by blast+
  have r': "r \<in> set (intakes db)" "si_document_id r = i" "si_source_version r = f_version original"
    using s find_doc_mem [OF d(1)] by (auto simp: get_for_source_def dest: find_SomeD)
  have "\<exists>e. ?enq h n db = Inl e" if h: "(k, ks) \<in> set ?gs" "failed_derivative (document_jobs i db) ks = Some h" for k ks h n
  proof -
    have j: "h \<in> set (document_jobs i db)" "derivative_job_target h = Some k" "fst (snd k) = f_version original"
      using derivative_group_jobs [OF h(1) failed_derivative_mem [OF h(2)]] by blast+
    obtain v where v: "dict_get (j_payload h) (u ''source_version'') = Some v" "payload_source_version v = Some (si_source_version r)"
      using target_version [OF j(2)] j(3) r'(3) by auto
    show ?thesis
      by (rule legacy_enqueue_of_sandboxed_source [OF ok r'(1) r _ _ v])
         (use bound j(1) r'(2) in \<open>simp_all add: recovery_args_def is_universal_def\<close>)
  qed
  then have "\<exists>e. queue_recoveries ?enq (document_jobs i db) ?gs 0 db = Inl e"
    by (rule queue_recoveries_fails [OF g f])
  then show ?thesis
    using d by (auto simp: retry_current_derivatives_def locked_document_def)
qed

end
