(* ===== verification/Worker_Props.thy ===== *)
theory Worker_Props
  imports Worker Document_Retry
begin

text \<open>
  Properties of the worker: its claims keep the invariants of the queue and of the documents, and are
  never blocked by a buried job; a final failure becomes visible and can be reprocessed.
\<close>

subsection \<open>Transitions that cannot fail\<close>

lemma one_row:
  assumes "distinct (map si_id rows)" and "cur \<in> set rows"
  shows "length (filter (\<lambda>r. si_id r = si_id cur \<and> si_version r = si_version cur \<and> si_state r = si_state cur) rows) = 1"
  using assms
proof (induction rows)
  case (Cons x rows)
  show ?case
  proof (cases "x = cur")
    case True
    then have "filter (\<lambda>r. si_id r = si_id cur \<and> si_version r = si_version cur \<and> si_state r = si_state cur) rows = []"
      using Cons.prems(1) by (auto simp: filter_empty_conv image_iff)
    with True show ?thesis by simp
  next
    case False
    with Cons.prems have "cur \<in> set rows" "si_id x \<noteq> si_id cur" by auto
    with Cons show ?thesis by simp
  qed
qed simp

lemma transition_succeeds:
  assumes ok: "intakes_ok (intake_view db)" and r: "r \<in> set (intakes db)"
    and a: "tr_intake_id a = si_id r" "tr_expected_version a = si_version r" "tr_state a = Inl s"
      "clean_optional_text (tr_reason_code a) = Inr (Some reason)" "clean_optional_text (tr_failure_phase a) = Inr phase"
      "strip (tr_actor a) \<noteq> []"
    and edge: "s \<in> source_intake_transitions (si_state r)"
  shows "\<exists>db'. on_intakes (transition a now) db = Inr (si_version r + 1, db') \<and> jobs db' = jobs db
    \<and> dr_review db' = dr_review db
    \<and> intakes db' = map (\<lambda>x. if si_id x = si_id r then transitioned s (Some reason) (tr_retryable a) phase now x else x) (intakes db)"
proof -
  have d: "distinct (map si_id (intakes db))" and v: "1 \<le> si_version r"
    using ok r by (auto simp: intakes_ok_def row_ok_def list_all_iff)
  have f: "find_intake (si_id r) (intake_view db) = Some r"
  proof -
    have "find (\<lambda>x. si_id x = si_id r) rows = Some r" if "distinct (map si_id rows)" "r \<in> set rows" for rows
      using that by (induction rows) (auto simp: image_iff)
    with d r show ?thesis by (simp add: find_intake_def)
  qed
  let ?hit = "\<lambda>x. si_id x = si_id r \<and> si_version x = si_version r \<and> si_state x = si_state r"
  have t: "transition a now (intake_view db) = Inr (si_version r + 1, (intake_view db)\<lparr>source_rows :=
      map (\<lambda>x. if ?hit x then transitioned s (Some reason) (tr_retryable a) phase now x else x) (intakes db)\<rparr>)"
    using v edge one_row [OF d r] by (simp add: transition_def a coerce_state_def f clean_text_def Let_def)
  have "map (\<lambda>x. if ?hit x then transitioned s (Some reason) (tr_retryable a) phase now x else x) (intakes db)
      = map (\<lambda>x. if si_id x = si_id r then transitioned s (Some reason) (tr_retryable a) phase now x else x) (intakes db)"
    using d r by (intro map_cong [OF refl]) (auto simp: distinct_map inj_on_def)
  with t show ?thesis by (simp add: on_intakes_def)
qed

lemma transition_error_is_a_race:
  assumes "transition (failed_args r) now v = Inl e"
  shows "lost_race e"
proof -
  have strips: "strip (u ''processing_failed'') = u ''processing_failed''" "strip (u ''legacy_job'') = u ''legacy_job''"
    "strip (u ''worker'') = u ''worker''"
    by (simp_all add: strip_def u_def is_space_def)
  show ?thesis using assms
    by (auto simp: transition_def failed_args_def coerce_state_def clean_text_def Let_def strips
        split: if_splits option.splits)
qed

subsection \<open>Jobs that name their source\<close>

text \<open>A processing job with a source version finds its intake. This is what enqueueing resolves.\<close>

definition job_bound :: "uuid_parser \<Rightarrow> docdb \<Rightarrow> job \<Rightarrow> bool" where
  "job_bound uuid_of db j \<longleftrightarrow> j_job_type j = u ''process_document'' \<longrightarrow>
     (\<forall>v. job_source_version j = Some v \<longrightarrow> (\<exists>r. source_intake_for_job uuid_of j v db = Inr (Some r)))"

definition intake_key :: "source_intake \<Rightarrow> nat \<times> nat \<times> nat \<times> int \<times> intake_intent" where
  "intake_key r = (si_id r, si_document_id r, si_source_file_id r, si_source_version r, si_intake_intent r)"

lemma transitioned_key [simp]: "intake_key (transitioned s x y z n r) = intake_key r"
  by (simp add: intake_key_def transitioned_def)

lemma source_intake_for_job_Some:
  "source_intake_for_job uuid_of j v db = Inr (Some r) \<longleftrightarrow>
     (\<exists>fid sid. job_optional_uuid uuid_of (j_payload j) (u ''source_file_id'') = Inr fid
       \<and> job_optional_uuid uuid_of (j_payload j) (u ''source_intake_id'') = Inr sid
       \<and> find (\<lambda>r. si_document_id r = j_document_id j \<and> si_source_version r = v
           \<and> opt_match fid (si_source_file_id r) \<and> opt_match sid (si_id r)) (intakes db) = Some r
       \<and> si_intake_intent r = j_intake_intent j)"
  unfolding source_intake_for_job_def
  by (cases "job_optional_uuid uuid_of (j_payload j) (u ''source_file_id'')";
      cases "job_optional_uuid uuid_of (j_payload j) (u ''source_intake_id'')"; auto split: option.split)

lemma source_intake_for_job_mem:
  assumes "source_intake_for_job uuid_of j v db = Inr (Some r)"
  shows "r \<in> set (intakes db)" and "si_document_id r = j_document_id j" and "si_source_version r = v"
  using assms unfolding source_intake_for_job_Some by (auto dest: find_SomeD)

lemma find_same_keys:
  assumes "map intake_key xs = map intake_key ys" and "\<And>r s. intake_key r = intake_key s \<Longrightarrow> P r = P s"
    and "find P xs = Some r"
  shows "\<exists>s. find P ys = Some s \<and> intake_key s = intake_key r"
  using assms(1,3)
proof (induction xs arbitrary: ys)
  case (Cons x xs)
  then obtain y ys' where ys: "ys = y # ys'" "intake_key x = intake_key y" "map intake_key xs = map intake_key ys'"
    by (cases ys) auto
  with Cons assms(2) [OF ys(2)] show ?case by (auto split: if_splits)
qed simp

lemma job_bound_same_keys:
  assumes "map intake_key (intakes db) = map intake_key (intakes db')" and "job_bound uuid_of db j"
  shows "job_bound uuid_of db' j"
  unfolding job_bound_def
proof (intro impI allI)
  fix v assume "j_job_type j = u ''process_document''" and "job_source_version j = Some v"
  with assms(2) obtain r fid sid where
    f: "job_optional_uuid uuid_of (j_payload j) (u ''source_file_id'') = Inr fid"
      "job_optional_uuid uuid_of (j_payload j) (u ''source_intake_id'') = Inr sid"
    and r: "find (\<lambda>r. si_document_id r = j_document_id j \<and> si_source_version r = v
           \<and> opt_match fid (si_source_file_id r) \<and> opt_match sid (si_id r)) (intakes db) = Some r"
      "si_intake_intent r = j_intake_intent j"
    unfolding job_bound_def source_intake_for_job_Some by blast
  obtain s where "find (\<lambda>r. si_document_id r = j_document_id j \<and> si_source_version r = v
           \<and> opt_match fid (si_source_file_id r) \<and> opt_match sid (si_id r)) (intakes db') = Some s"
    "intake_key s = intake_key r"
    using find_same_keys [OF assms(1) _ r(1)] by (auto simp: intake_key_def)
  with f r(2) show "\<exists>r. source_intake_for_job uuid_of j v db' = Inr (Some r)"
    unfolding source_intake_for_job_Some by (auto simp: intake_key_def)
qed

lemma transition_keys:
  assumes "intakes_ok (intake_view db)" and "on_intakes (transition a now) db = Inr (n, db')"
  shows "map intake_key (intakes db') = map intake_key (intakes db)"
proof -
  from assms obtain v where db': "db' = put_intakes v db" and t: "transition a now (intake_view db) = Inr (n, v)"
    by (rule transition_written)
  have "map intake_key (source_rows v) = map intake_key (intakes db)"
    by (rule transition_Inr [OF assms(1) t]) (simp add: comp_def if_distrib [of intake_key] cong: if_cong)
  with db' show ?thesis by simp
qed

subsection \<open>The callback never raises on a job that names its source\<close>

lemma terminal_callback_keys:
  assumes "mark_terminal_processing_failure uuid_of now j db = Inr db'" and ok: "sources_ok db"
  shows "map intake_key (intakes db') = map intake_key (intakes db)"
  using assms(1)
proof (cases rule: terminal_callback_Inr)
  case requeue
  then show ?thesis by (simp add: update_job_def)
next
  case (source db1)
  have io: "intakes_ok (intake_view db)" using ok by (simp add: sources_ok_def)
  have "map intake_key (intakes db1) = map intake_key (intakes db)"
    using source(1) by (elim disjE exE) (simp, erule transition_keys [OF io])
  moreover have "intakes db' = intakes db1"
    using source(2) by (elim disjE exE) (simp, drule set_status_Inr, simp)
  ultimately show ?thesis by simp
qed

lemma terminal_callback_returns:
  assumes ok: "sources_ok db" and b: "job_bound uuid_of db j"
  shows "\<exists>db'. mark_terminal_processing_failure uuid_of now j db = Inr db'"
proof (cases "j_job_type j = u ''process_document'' \<and> j_status j = Dead \<and> job_source_version j \<noteq> None")
  case False
  then show ?thesis by (auto simp: mark_terminal_processing_failure_def split: option.splits)
next
  case True
  then obtain v where v: "job_source_version j = Some v" by blast
  obtain r where r: "source_intake_for_job uuid_of j v db = Inr (Some r)"
    using b True v unfolding job_bound_def by blast
  have "\<exists>db1. mark_source_intake_failed uuid_of now j v db = Inr db1"
    using transition_error_is_a_race
    by (cases "on_intakes (transition (failed_args r) now) db")
       (auto simp: mark_source_intake_failed_def r on_intakes_def rbind_Inl)
  then obtain db1 where m: "mark_source_intake_failed uuid_of now j v db = Inr db1" by blast
  have "dr_review db1 = dr_review db"
    using mark_source_intake_failed_Inr [OF m] by (auto simp: on_intakes_def rbind_Inr)
  moreover obtain d where "find_doc (j_document_id j) (dr_review db) = Some d"
    using original_of_intake [OF ok] source_intake_for_job_mem [OF r] by metis
  ultimately have "\<exists>db2. set_status (j_document_id j) Failed_Doc (Some v) db1 = Inr db2
      \<or> set_status (j_document_id j) Failed_Doc (Some v) db1 = Inl SourceVersionSupersededError"
    by (auto simp: set_status_def locked_document_def require_def split: option.splits)
  with True v m show ?thesis
    by (auto simp: mark_terminal_processing_failure_def rebuild_job_type_def)
qed

lemma run_terminal_handlers_return:
  assumes "sources_ok db" and "\<forall>j \<in> set js. job_bound uuid_of db j"
  shows "\<exists>db'. run_terminal_handlers (mark_terminal_processing_failure uuid_of now) js db = Inr db'"
  using assms
proof (induction js arbitrary: db)
  case (Cons j js)
  then obtain db1 where h: "mark_terminal_processing_failure uuid_of now j db = Inr db1"
    using terminal_callback_returns by fastforce
  have "sources_ok db1" using terminal_callback_sources_ok [OF h Cons.prems(1)] .
  moreover have "\<forall>k \<in> set js. job_bound uuid_of db1 k"
    using Cons.prems job_bound_same_keys [OF terminal_callback_keys [OF h Cons.prems(1), symmetric]] by simp
  ultimately show ?case using Cons.IH h by simp
qed simp

lemma run_terminal_handlers_sources_ok:
  "run_terminal_handlers (mark_terminal_processing_failure uuid_of now) js db = Inr db' \<Longrightarrow> sources_ok db \<Longrightarrow> sources_ok db'"
  by (induction js arbitrary: db) (auto simp: rbind_Inr dest: terminal_callback_sources_ok)

lemma buried_bound:
  assumes "\<forall>j \<in> set (jobs db). job_bound uuid_of db j"
    and "bury_exhausted_expired_jobs st now scope db = (db1, dead)"
  shows "\<forall>j \<in> set dead. job_bound uuid_of db1 j"
proof -
  have f: "j_job_type (bury now j) = j_job_type j" "j_payload (bury now j) = j_payload j"
    "j_document_id (bury now j) = j_document_id j" "j_intake_intent (bury now j) = j_intake_intent j" for j
    by (simp_all add: bury_def Let_def)
  have "job_bound uuid_of db (bury now j) = job_bound uuid_of db j" for j
    unfolding job_bound_def job_source_version_def source_intake_for_job_def f by (rule refl)
  moreover have "job_bound uuid_of db1 j = job_bound uuid_of db j" for j
    using assms(2) by (auto simp: bury_exhausted_expired_jobs_def job_bound_def source_intake_for_job_def)
  ultimately show ?thesis using assms by (auto simp: bury_exhausted_expired_jobs_def)
qed

subsection \<open>Claims\<close>

lemma update_job_sources_ok [simp]: "sources_ok (update_job f i db) = sources_ok db"
  by (simp add: update_job_def)

lemma claim_sources_ok:
  "claim_postgresql locked elig st now owner db = (r, db') \<Longrightarrow> sources_ok db \<Longrightarrow> sources_ok db'"
  "claim_sqlite elig st now owner db = (r, db') \<Longrightarrow> sources_ok db \<Longrightarrow> sources_ok db'"
  by (auto simp: claim_postgresql_def claim_sqlite_def split: option.splits)

lemma bury_sources_ok:
  "bury_exhausted_expired_jobs st now scope db = (db1, dead) \<Longrightarrow> sources_ok db \<Longrightarrow> sources_ok db1"
  by (auto simp: bury_exhausted_expired_jobs_def)

lemma worker_claim_sources_ok:
  assumes "worker_claim digest hash uuid_of dia locked st reg ready owner wid now db = Inr (r, db')" and "sources_ok db"
  shows "sources_ok db'"
proof -
  let ?b = "bury_exhausted_expired_jobs st now (execution_scope hash st reg ready) db"
  let ?e = "\<lambda>j. eligible_clause st now j \<and> execution_scope hash st reg ready j"
  from assms(1) obtain o' db2 where
    t: "run_terminal_handlers (mark_terminal_processing_failure uuid_of now) (snd ?b) (fst ?b) = Inr db2"
    and c: "(case dia of Sqlite \<Rightarrow> claim_sqlite ?e st now o' db2 | Postgresql \<Rightarrow> claim_postgresql locked ?e st now o' db2) = (r, db')"
    unfolding worker_claim_def claim_next_def by (auto simp: rbind_Inr Let_def)
  have "sources_ok db2"
    using run_terminal_handlers_sources_ok [OF t] bury_sources_ok [OF prod.collapse [symmetric] assms(2)] by blast
  with c claim_sources_ok show ?thesis by (cases dia) auto
qed

lemma worker_claim_returns:
  assumes "sources_ok db" and "\<forall>j \<in> set (jobs db). job_bound uuid_of db j" and "strip owner \<noteq> []"
  shows "\<exists>r db'. worker_claim digest hash uuid_of dia locked st reg ready owner wid now db = Inr (r, db')"
proof -
  let ?b = "bury_exhausted_expired_jobs st now (execution_scope hash st reg ready) db"
  have "owner \<noteq> []" using assms(3) by (auto simp: strip_def)
  then have o: "clean_nonempty (lease_owner_text (Some owner) wid) = Inr (strip owner)"
    using assms(3) by (simp add: lease_owner_text_def)
  obtain db2 where "run_terminal_handlers (mark_terminal_processing_failure uuid_of now) (snd ?b) (fst ?b) = Inr db2"
    using run_terminal_handlers_return [of "fst ?b" "snd ?b" uuid_of now]
      bury_sources_ok [OF prod.collapse [symmetric] assms(1)] buried_bound [OF assms(2) prod.collapse [symmetric]] by blast
  then show ?thesis
    unfolding worker_claim_def claim_next_def using o by (auto simp: Let_def split: prod.splits)
qed

subsection \<open>A final failure is visible and recoverable\<close>

lemma dead_job_exists:
  assumes "k \<in> set (jobs db)" and "j_document_id k = i" and "j_job_type k = u ''process_document''"
    and "job_source_version k = Some v" and "j_status k = Dead"
  shows "job_reprocess_key (current_source_process_jobs (document_jobs i db) v) v \<noteq> None"
proof -
  have "k \<in> set (current_source_process_jobs (document_jobs i db) v)"
    using assms by (simp add: current_source_process_jobs_def document_jobs_def)
  then have "dead_job (current_source_process_jobs (document_jobs i db) v) \<noteq> None"
    using assms(5) by (auto simp: dead_job_def find_None_iff)
  then show ?thesis by (auto simp: job_reprocess_key_def split: option.splits)
qed

lemma failed_document_reprocessable:
  assumes ok: "sources_ok db" and c: "current_original_intake i db = Inr (d, f, r)"
    and d: "d_status d = Failed_Doc" "si_state r = SI_Failed"
    and k: "k \<in> set (jobs db)" "j_document_id k = i" "j_job_type k = u ''process_document''"
      "job_source_version k = Some (f_version f)" "j_status k = Dead"
    and actor: "strip actor \<noteq> []"
  shows "\<exists>t db'. prepare_reprocess i actor now db = Inr (t, db')"
proof -
  let ?db1 = "update_doc i (\<lambda>d. d\<lparr>d_status := Needs_Reprocess\<rparr>) db"
  obtain key where key: "job_reprocess_key (current_source_process_jobs (document_jobs i db) (f_version f)) (f_version f) = Some key"
    using dead_job_exists [OF k] by blast
  have r: "r \<in> set (intakes ?db1)"
    using c unfolding current_original_intake_Inr get_for_source_def by (auto dest: find_SomeD)
  have io: "intakes_ok (intake_view ?db1)" using ok by (simp add: sources_ok_def)
  have q: "strip (u ''processing_queued'') = u ''processing_queued''" by (simp add: strip_def u_def is_space_def)
  obtain db2 where "on_intakes (transition (requeue_args r (strip actor)) now) ?db1 = Inr (si_version r + 1, db2)"
    using transition_succeeds [OF io r, of "requeue_args r (strip actor)" SI_Queued "u ''processing_queued''" None now] d(2) actor q
    by (auto simp: requeue_args_def source_intake_transitions_def)
  then show ?thesis
    using c d key actor
    by (simp add: prepare_reprocess_def clean_text_def reprocess_choice_def Let_def)
qed

lemma retried_dead:
  assumes "job_max_attempts st \<le> j_attempts j"
  shows "j_status (retried st now e j) = Dead" "j_id (retried st now e j) = j_id j"
    "j_job_type (retried st now e j) = j_job_type j" "j_payload (retried st now e j) = j_payload j"
    "j_document_id (retried st now e j) = j_document_id j" "j_intake_intent (retried st now e j) = j_intake_intent j"
  using assms by (simp_all add: retried_def Let_def)

lemma retry_or_bury_returns:
  assumes "distinct (map j_id (jobs db))" and "j \<in> set (jobs db)" and "j_status j = Running" and "j_lease_owner j = Some owner"
  shows "retry_or_bury st (Some owner) e now (j_id j) db = Inr (update_job (retried st now e) (j_id j) db)"
    and "find (\<lambda>k. j_id k = j_id j) (jobs (update_job (retried st now e) (j_id j) db)) = Some (retried st now e j)"
proof -
  have f: "find (\<lambda>k. j_id k = j_id j) (jobs db) = Some j"
    using find_by_id [where P = "\<lambda>_. True", OF assms(1,2)] by simp
  then show "retry_or_bury st (Some owner) e now (j_id j) db = Inr (update_job (retried st now e) (j_id j) db)"
    using assms(3,4) by (simp add: retry_or_bury_def locked_job_def require_running_lease_def)
  have "find (\<lambda>k. j_id k = j_id j) (map (\<lambda>k. if j_id k = j_id j then retried st now e k else k) (jobs db))
      = map_option (\<lambda>k. if j_id k = j_id j then retried st now e k else k) (find (\<lambda>k. j_id k = j_id j) (jobs db))"
    by (rule find_map_id) (simp add: retried_def Let_def)
  with f show "find (\<lambda>k. j_id k = j_id j) (jobs (update_job (retried st now e) (j_id j) db)) = Some (retried st now e j)"
    by (simp add: update_job_def)
qed

lemma terminal_failure_marks_source:
  assumes ok: "sources_ok db" and k: "j_job_type k = u ''process_document''" "j_status k = Dead" "job_source_version k = Some v"
    and s: "source_intake_for_job uuid_of k v db = Inr (Some r)" and st: "si_state r \<in> {SI_Queued, SI_Processing}"
    and d: "find_doc (j_document_id k) (dr_review db) = Some d" "latest_original (d_files d) = Some f" "f_version f = v"
  shows "\<exists>db' r'. mark_terminal_processing_failure uuid_of now k db = Inr db' \<and> jobs db' = jobs db \<and> sources_ok db'
    \<and> current_original_intake (j_document_id k) db' = Inr (d\<lparr>d_status := Failed_Doc\<rparr>, f, r') \<and> si_state r' = SI_Failed"
proof -
  note r = source_intake_for_job_mem [OF s]
  have strips: "strip (u ''processing_failed'') = u ''processing_failed''" "strip (u ''legacy_job'') = u ''legacy_job''"
    "strip (u ''worker'') = u ''worker''"
    by (simp_all add: strip_def u_def is_space_def)
  have io: "intakes_ok (intake_view db)" using ok by (simp add: sources_ok_def)
  obtain db1 where t: "on_intakes (transition (failed_args r) now) db = Inr (si_version r + 1, db1)" "jobs db1 = jobs db"
    "dr_review db1 = dr_review db" and rows: "intakes db1 = map (\<lambda>x. if si_id x = si_id r then
      transitioned SI_Failed (Some (u ''processing_failed'')) True (Some (u ''legacy_job'')) now x else x) (intakes db)"
    using transition_succeeds [OF io r(1), of "failed_args r" SI_Failed "u ''processing_failed''" "Some (u ''legacy_job'')" now] st strips
    by (auto simp: failed_args_def source_intake_transitions_def)
  let ?db2 = "update_doc (j_document_id k) (\<lambda>d. d\<lparr>d_status := Failed_Doc\<rparr>) db1"
  let ?r = "transitioned SI_Failed (Some (u ''processing_failed'')) True (Some (u ''legacy_job'')) now r"
  have m: "mark_source_intake_failed uuid_of now k v db = Inr db1"
    using s st t(1) by (auto simp: mark_source_intake_failed_def)
  have ss: "set_status (j_document_id k) Failed_Doc (Some v) db1 = Inr ?db2"
    using d t(3) by (simp add: set_status_def locked_document_def)
  have run: "mark_terminal_processing_failure uuid_of now k db = Inr ?db2"
    using k m ss by (simp add: mark_terminal_processing_failure_def rebuild_job_type_def)
  have ok2: "sources_ok ?db2" using terminal_callback_sources_ok [OF run ok] .
  have "find_doc (j_document_id k) (dr_review ?db2) = Some (d\<lparr>d_status := Failed_Doc\<rparr>)"
    using d(1) t(3) find_doc_map [of "dr_review ?db2" "j_document_id k" "\<lambda>d. d\<lparr>d_status := Failed_Doc\<rparr>" "dr_review db1"] by simp
  then obtain r' where c: "current_original_intake (j_document_id k) ?db2 = Inr (d\<lparr>d_status := Failed_Doc\<rparr>, f, r')"
    using original_has_intake [OF ok2] d(2) by (metis (no_types, lifting) document_row.ext_inject document_row.surjective document_row.update_convs(3))
  have r': "r' \<in> set (intakes ?db2)" "si_document_id r' = j_document_id k" "si_source_version r' = v"
    using c d(3) find_doc_mem [OF d(1)] unfolding current_original_intake_Inr get_for_source_def
    by (auto dest: find_SomeD)
  have "?r \<in> set (intakes ?db2)" using rows r(1) by (auto simp: image_iff)
  then have "r' = ?r"
    using intake_of_version [OF ok2 r'(1), of ?r] r r' by (simp add: transitioned_def)
  then have "si_state r' = SI_Failed" by simp
  with run t(2) ok2 c show ?thesis by auto
qed

end
