(* ===== verification/Document_Theorems.thy ===== *)
theory Document_Theorems
  imports Document_Retry
begin

text \<open>
  A concrete history for the witnesses: a file is uploaded, replaced by a second version, and a
  derivative of it fails.
\<close>

definition csv_args :: raw_args where
  "csv_args = \<lparr>ra_filename = u ''a.csv'', ra_content_path = u ''p'', ra_sha256 = demo_sha, ra_mime = u ''text/csv'',
     ra_doc_class = Other_Class, ra_duplicate_of = None, ra_upload_key = PNone, ra_intent_digest = PNone,
     ra_registry_digest = PNone, ra_capabilities_digest = PNone, ra_policy_version = u ''v1'',
     ra_required_components = PList [], ra_intake_intent = PStr (u ''generic_file''), ra_detected_family = PNone,
     ra_detected_format = PNone, ra_detection_evidence = [], ra_intake_state = Inl SI_Queued,
     ra_reason_code = PStr (u ''processing_queued''), ra_retryable = False,
     ra_execution_profile = Inl Legacy_Compat, ra_sandbox_verified = False\<rparr>"

definition csv_file :: document_file where
  "csv_file = original_file 3 2 1 (u ''p'') demo_sha (u ''text/csv'') (u ''a.csv'')"

definition csv_intake :: source_intake where
  "csv_intake = \<lparr>si_id = 5, si_document_id = 2, si_source_file_id = 3, si_source_version = 1,
     si_source_sha256 = demo_sha, si_duplicate_of = None, si_detected_family = None,
     si_detected_format = None, si_canonical_mime = Some (u ''text/csv''), si_detection_evidence = [],
     si_policy_version = u ''v1'', si_registry_digest = None, si_capabilities_digest = None,
     si_requirements_digest = demo_sha, si_required_components = [], si_intake_intent = Generic_File,
     si_state = SI_Queued, si_reason_code = Some (u ''processing_queued''), si_retryable = False,
     si_failure_phase = None, si_execution_profile = Legacy_Compat, si_sandbox_verified = False,
     si_upload_idempotency_key = None, si_intent_digest = None, si_version = 1,
     si_created_at = 0, si_updated_at = 0\<rparr>"

definition csv_doc :: document_row where
  "csv_doc = \<lparr>d_id = 2, d_document_class = Other_Class, d_status = Uploaded, d_source_filename = u ''a.csv'',
     d_files = [csv_file]\<rparr>"

definition csv_db :: "document_row list \<Rightarrow> source_intake list \<Rightarrow> job list \<Rightarrow> (nat \<times> nat) list \<Rightarrow> docdb" where
  "csv_db ds rs js cs = \<lparr>jobs = js, intakes = rs, documents = map d_id ds,
     dr_review = \<lparr>docs = ds, extractions = [], verifieds = [], batches = []\<rparr>, dr_reservations = [],
     dr_owned_keys = {}, dr_chunks = cs, dr_spreadsheet_rows = [], dr_embedded_media = []\<rparr>"

lemma csv_strips: "strip (u ''a.csv'') = u ''a.csv''" "strip (u ''p'') = u ''p''"
  "strip (u ''text/csv'') = u ''text/csv''" "strip (u ''reviewer'') = u ''reviewer''" "strip (u ''b.csv'') = u ''b.csv''"
  by (simp_all add: strip_def u_def is_space_def)

lemma csv_companion:
  "companion_row uuid_of (\<lambda>_. demo_sha) (companion_args_of csv_args 2 csv_file None Generic_File (u ''text/csv'')) 5 0
     = Inr csv_intake"
  by (simp add: companion_row_def companion_args_of_def csv_args_def csv_file_def original_file_def
      normalize_upload_idempotency_key_def intake_intent_value_def validate_sha256_def intake_intent_of_def
      clean_text_def demo_strips csv_strips coerce_state_def coerce_profile_def csv_intake_def)

lemma upload_creates:
  assumes a: "ra_filename a = u ''a.csv''" "ra_content_path a = u ''p''" "ra_mime a = u ''text/csv''"
      "ra_sha256 a = demo_sha" "ra_intake_intent a = PStr (u ''generic_file'')" "ra_doc_class a = Other_Class"
      "ra_upload_key a = PNone" "ra_intent_digest a = PNone"
    and row: "companion_row uuid_of hash (companion_args_of a 2 csv_file None Generic_File (u ''text/csv'')) 5 0 = Inr row"
      "si_upload_idempotency_key row = None" "0 < si_source_version row"
  shows "create_with_raw uuid_of hash a 2 3 5 0 (csv_db [] [] [] cs) = Inr (2, csv_db [csv_doc] [row] [] cs)"
proof -
  have i: "repo_intake_intent (PStr (u ''generic_file'')) = Inr Generic_File"
    by (simp add: intake_intent_of_def intake_intent_value_def)
  have f: "original_file 3 2 1 (u ''p'') demo_sha (u ''text/csv'') (u ''a.csv'') = csv_file"
    by (simp add: csv_file_def)
  have ins: "insert_document uuid_of hash a (u ''a.csv'') (u ''p'') (u ''text/csv'') None Generic_File
      2 3 5 0 (csv_db [] [] [] cs) = Inr (csv_db [csv_doc] [row] [] cs)"
    unfolding insert_document_def Let_def a f on_intakes_def create_source_companion_def row(1) rbind.simps row(2)
    by (simp add: csv_db_def all_files_def insert_intake_def violates_unique_def intake_view_def
        put_intakes_def csv_doc_def row(3) not_le [THEN iffD2])
  show ?thesis
    unfolding create_with_raw_def a
    by (simp add: clean_text_def csv_strips validate_sha256_def normalize_upload_idempotency_key_def i ins
        del: repo_intake_intent.simps)
qed

lemma csv_created:
  "create_with_raw (\<lambda>_. None) (\<lambda>_. demo_sha) csv_args 2 3 5 0 (csv_db [] [] [] [(9, 2), (8, 4)])
     = Inr (2, csv_db [csv_doc] [csv_intake] [] [(9, 2), (8, 4)])"
  by (rule upload_creates [OF _ _ _ _ _ _ _ _ csv_companion]) (simp_all add: csv_args_def csv_intake_def)

lemma csv_reachable:
  "reachable_docs digest (\<lambda>_. demo_sha) (\<lambda>_. None) (csv_db [csv_doc] [csv_intake] [] [(9, 2), (8, 4)])"
proof (rule doc_steps [OF _ create_doc [OF csv_created]])
  show "reachable_docs digest (\<lambda>_. demo_sha) (\<lambda>_. None) (csv_db [] [] [] [(9, 2), (8, 4)])"
    by (rule no_docs) (simp_all add: csv_db_def)
qed

subsection \<open>A second version\<close>

definition sha_two :: pystr where
  "sha_two = replicate 64 98"

lemma sha_two_hex [simp]: "is_sha256_hex sha_two" "demo_sha \<noteq> sha_two"
  by (simp_all add: is_sha256_hex_def sha_two_def demo_sha_def is_lower_hex_def list_all_iff numeral_eq_Suc)

definition second_args :: raw_args where
  "second_args = csv_args\<lparr>ra_filename := u ''b.csv'', ra_sha256 := sha_two, ra_intake_intent := PNone\<rparr>"

definition second_file :: document_file where
  "second_file = original_file 6 2 2 (u ''p'') sha_two (u ''text/csv'') (u ''b.csv'')"

definition second_intake :: source_intake where
  "second_intake = csv_intake\<lparr>si_id := 7, si_source_file_id := 6, si_source_version := 2, si_source_sha256 := sha_two,
     si_created_at := 4, si_updated_at := 4\<rparr>"

lemma second_companion:
  "companion_row (\<lambda>_. None) (\<lambda>_. demo_sha)
     (companion_args_of second_args 2 second_file None Generic_File (u ''text/csv'')) 7 4 = Inr second_intake"
  by (simp add: companion_row_def companion_args_of_def second_args_def csv_args_def second_file_def original_file_def
      normalize_upload_idempotency_key_def intake_intent_value_def validate_sha256_def intake_intent_of_def
      clean_text_def demo_strips csv_strips coerce_state_def coerce_profile_def csv_intake_def second_intake_def)

definition second_doc :: document_row where
  "second_doc = replaced_row second_file csv_doc"

lemma second_appended:
  "append_raw_source (\<lambda>_. None) (\<lambda>_. demo_sha) 2 second_args (u ''reviewer'') 6 7 4
     (csv_db [csv_doc] [csv_intake] [] [(9, 2), (8, 4)])
   = Inr (\<lparr>rv_version = 2, rv_sha256 = sha_two, rv_intake_intent = Generic_File\<rparr>,
          csv_db [second_doc] [csv_intake, second_intake] [] [(8, 4)])"
proof -
  let ?db = "csv_db [csv_doc] [csv_intake] [] [(9, 2), (8, 4)]"
  have d: "find_doc 2 (dr_review ?db) = Some csv_doc" by (simp add: find_doc_def csv_db_def csv_doc_def)
  have f: "original_file 6 (d_id csv_doc) (next_file_version (d_files csv_doc)) (u ''p'') (ra_sha256 second_args)
      (u ''text/csv'') (u ''b.csv'') = second_file"
    by (simp add: second_file_def csv_doc_def csv_file_def original_file_def next_file_version_def second_args_def csv_args_def)
  have r: "replace_source (\<lambda>_. None) (\<lambda>_. demo_sha) second_args second_file (u ''reviewer'') (u ''text/csv'') None
      Generic_File 7 4 ?db = Inr (csv_db [second_doc] [csv_intake, second_intake] [] [(8, 4)])"
  proof -
    have i: "f_document_id second_file = 2" by (simp add: second_file_def original_file_def)
    show ?thesis
      unfolding replace_source_def Let_def i on_intakes_def create_source_companion_def second_companion
      by (simp add: csv_db_def all_files_def insert_intake_def violates_unique_def intake_view_def put_intakes_def
          update_doc_def supersede_pending_extractions_def update_extractions_def Let_def source_identity_def
          csv_intake_def second_intake_def csv_doc_def second_doc_def replaced_row_def csv_file_def
          second_file_def original_file_def)
  qed
  have app: "append_original (\<lambda>_. None) (\<lambda>_. demo_sha) csv_doc second_args (u ''b.csv'') (u ''p'') (u ''text/csv'')
      (u ''reviewer'') None Generic_File 6 7 4 ?db
    = Inr (\<lparr>rv_version = 2, rv_sha256 = sha_two, rv_intake_intent = Generic_File\<rparr>,
          csv_db [second_doc] [csv_intake, second_intake] [] [(8, 4)])"
    unfolding append_original_def Let_def f r
    by (simp add: csv_doc_def csv_file_def original_file_def second_file_def second_args_def csv_args_def)
  have i: "resolve_append_intent csv_doc None ?db = Generic_File"
    by (simp add: resolve_append_intent_def csv_doc_def csv_file_def original_file_def latest_original_def
        get_for_source_def csv_db_def csv_intake_def)
  have args: "ra_filename second_args = u ''b.csv''" "ra_content_path second_args = u ''p''"
    "ra_mime second_args = u ''text/csv''" "ra_sha256 second_args = sha_two" "ra_intake_intent second_args = PNone"
    "ra_upload_key second_args = PNone" "ra_intent_digest second_args = PNone"
    by (simp_all add: second_args_def csv_args_def)
  show ?thesis
    unfolding append_raw_source_def
    by (simp add: args clean_text_def csv_strips validate_sha256_def requested_intent_def
        normalize_upload_idempotency_key_def locked_document_def d i app)
qed

lemma second_reachable:
  "reachable_docs digest (\<lambda>_. demo_sha) (\<lambda>_. None) (csv_db [second_doc] [csv_intake, second_intake] [] [(8, 4)])"
  by (rule doc_steps [OF csv_reachable append_doc [OF second_appended]])

subsection \<open>Properties\<close>

text \<open>
  C4. In every state the repositories can reach, each original file of each document has a source
  intake that names exactly its document, file, version and checksum, so that asking for the intake
  of the current original never fails for want of it; versions of a document's files never repeat,
  and every derivative is bound to an earlier original of its own document.
\<close>

theorem documents_keep_their_sources:
  assumes "reachable_docs digest hash uuid_of db" and "find_doc i (dr_review db) = Some d"
    and "f \<in> set (d_files d)"
  shows "distinct (map f_version (d_files d)) \<and> (\<exists>g r. current_original_intake i db = Inr (d, g, r))
    \<and> (if f_kind f = Original
       then (\<exists>r \<in> set (intakes db). source_identity r = (i, f_id f, f_version f, f_sha256 f))
       else \<exists>g \<in> set (d_files d). f_kind g = Original \<and> f_source_file_id f = Some (f_id g)
              \<and> f_source_version f = Some (f_version g) \<and> f_version g < f_version f)"
proof -
  have ok: "sources_ok db" using reachable_sources_ok [OF assms(1)] .
  have d: "doc_ok d" "d_id d = i" using ok find_doc_mem [OF assms(2)] by (simp_all add: sources_ok_def)
  obtain o' where "o' \<in> set (d_files d)" "f_kind o' = Original"
    using d(1) assms(3) by (cases "f_kind f = Original") (auto simp: doc_ok_def bound_artifact_def)
  then obtain g where "latest_original (d_files d) = Some g" by (rule latest_original_exists)
  then have "\<exists>r. current_original_intake i db = Inr (d, g, r)" using original_has_intake [OF ok assms(2)] by blast
  moreover have "\<exists>r \<in> set (intakes db). source_identity r = (i, f_id f, f_version f, f_sha256 f)"
    if "f_kind f = Original" using intake_of_original [OF ok assms(2,3) that] .
  ultimately show ?thesis using d(1) assms(3) by (auto simp: bound_artifact_def doc_ok_def)
qed

theorem documents_keep_their_sources_witness:
  "\<exists>g r. current_original_intake 2 (csv_db [second_doc] [csv_intake, second_intake] [] [(8, 4)]) = Inr (second_doc, g, r)"
proof -
  have "find_doc 2 (dr_review (csv_db [second_doc] [csv_intake, second_intake] [] [(8, 4)])) = Some second_doc"
    by (simp add: find_doc_def csv_db_def second_doc_def replaced_row_def csv_doc_def)
  from documents_keep_their_sources [OF second_reachable [of "\<lambda>_. []"] this, of second_file]
  show ?thesis by (simp add: second_doc_def replaced_row_def)
qed

lemma superseded_set:
  "set (extractions (snd (supersede_pending_extractions i actor now r)))
     = (\<lambda>x. if x_document_id x = i \<and> x_status x = Pending_Review then supersede actor now x else x) ` set (extractions r)"
  by (simp add: supersede_pending_extractions_def update_extractions_def Let_def)

lemma superseded_not_pending:
  assumes "x \<in> set (extractions (snd (supersede_pending_extractions i actor now r)))" and "x_document_id x = i"
  shows "x_status x \<noteq> Pending_Review"
proof -
  from assms(1) obtain y where
    x: "x = (if x_document_id y = i \<and> x_status y = Pending_Review then supersede actor now y else y)"
    unfolding superseded_set by blast
  show ?thesis
  proof (cases "x_document_id y = i \<and> x_status y = Pending_Review")
    case True
    then have "x = supersede actor now y" using x by simp
    then show ?thesis by (simp add: supersede_def)
  next
    case False
    then have "x = y" using x by (metis (no_types))
    with False assms(2) show ?thesis by simp
  qed
qed

lemma superseded_keeps:
  assumes "x \<in> set (extractions r)" and "x_document_id x \<noteq> i \<or> x_status x \<noteq> Pending_Review"
  shows "x \<in> set (extractions (snd (supersede_pending_extractions i actor now r)))"
  unfolding superseded_set by (rule image_eqI [OF _ assms(1)]) (use assms(2) in auto)



text \<open>
  C14. Once a newer original is recorded, no write that names an older source version can succeed any
  more, whatever calls come in between: neither the status of the document nor a derivative of it can be
  recorded for the superseded version.
\<close>

theorem superseded_source_cannot_write:
  assumes "reachable_docs digest hash uuid_of db" and "find_doc i (dr_review db) = Some d"
    and "f \<in> set (d_files d)" and "f_kind f = Original" and "v < f_version f"
    and "rtranclp (doc_step digest hash uuid_of) db db'"
    and "aa_source_version a = v" and "aa_kind a \<noteq> Original"
  shows "set_status i status (Some v) db' = Inl SourceVersionSupersededError
    \<and> add_artifact i a new_file db' = Inl SourceVersionSupersededError"
proof -
  have "files_kept db db'" using doc_steps_files [OF assms(6) reachable_sources_ok [OF assms(1)]] by blast
  then obtain d' where d': "find_doc i (dr_review db') = Some d'" "f \<in> set (d_files d')"
    using assms(2,3) unfolding files_kept_def by blast
  obtain g where "latest_original (d_files d') = Some g" "f_version f \<le> f_version g"
    by (rule latest_original_exists [OF d'(2) assms(4)])
  with d' assms(5,7,8) show ?thesis
    by (simp add: set_status_def add_artifact_def locked_document_def)
qed

theorem superseded_source_cannot_write_witness:
  "set_status 2 Failed_Doc (Some 1) (csv_db [second_doc] [csv_intake, second_intake] [] [(8, 4)])
     = Inl SourceVersionSupersededError"
proof -
  have d: "find_doc 2 (dr_review (csv_db [second_doc] [csv_intake, second_intake] [] [(8, 4)])) = Some second_doc"
    by (simp add: find_doc_def csv_db_def second_doc_def replaced_row_def csv_doc_def)
  have f: "second_file \<in> set (d_files second_doc)" "f_kind second_file = Original" "1 < f_version second_file"
    by (simp_all add: second_doc_def replaced_row_def second_file_def)
  let ?a = "\<lparr>aa_kind = Normalized, aa_content_path = [], aa_sha256 = [], aa_mime = [], aa_source_file_id = 3,
    aa_source_version = 1, aa_ocr_text = None, aa_text_provenance = None, aa_page_number = None\<rparr>"
  from superseded_source_cannot_write [OF second_reachable [of "\<lambda>_. []"] d f rtranclp.rtrancl_refl, of ?a]
  show ?thesis by simp
qed

subsection \<open>A sandboxed source\<close>

definition boxed_args :: raw_args where
  "boxed_args = csv_args\<lparr>ra_registry_digest := PStr demo_sha, ra_capabilities_digest := PStr demo_sha,
     ra_execution_profile := Inl Universal_Sandboxed, ra_sandbox_verified := True\<rparr>"

definition boxed_intake :: source_intake where
  "boxed_intake = csv_intake\<lparr>si_registry_digest := Some demo_sha, si_capabilities_digest := Some demo_sha,
     si_execution_profile := Universal_Sandboxed, si_sandbox_verified := True\<rparr>"

definition index_job :: job where
  "index_job = \<lparr>j_id = 1, j_document_id = 2, j_job_type = u ''index_document'',
     j_payload = [(u ''document_id'', PStr (uuid_str 2)), (u ''source_version'', PInt 1),
       (u ''normalized_sha256'', PStr demo_sha)],
     j_idempotency_key = u ''index:1'', j_execution_profile = Universal_Sandboxed, j_sandbox_verified = True,
     j_registry_digest = Some demo_sha, j_capabilities_digest = Some demo_sha,
     j_requirements_digest = demo_sha, j_required_components = [], j_intake_intent = Generic_File,
     j_status = Dead, j_attempts = 4, j_last_error = Some (u ''timeout''), j_available_at = 0,
     j_lease_expires_at = None, j_lease_owner = None, j_created_at = 0, j_updated_at = 9\<rparr>"

lemma boxed_companion:
  "companion_row uuid_of (\<lambda>_. demo_sha) (companion_args_of boxed_args 2 csv_file None Generic_File (u ''text/csv'')) 5 0
     = Inr boxed_intake"
  by (simp add: companion_row_def companion_args_of_def boxed_args_def csv_args_def csv_file_def original_file_def
      normalize_upload_idempotency_key_def intake_intent_value_def validate_sha256_def intake_intent_of_def
      clean_text_def demo_strips csv_strips coerce_state_def coerce_profile_def csv_intake_def boxed_intake_def)

lemma boxed_reachable:
  "reachable_docs digest (\<lambda>_. demo_sha) uuid_of (csv_db [csv_doc] [boxed_intake] [index_job] [])"
proof -
  have "create_with_raw uuid_of (\<lambda>_. demo_sha) boxed_args 2 3 5 0 (csv_db [] [] [] [])
      = Inr (2, csv_db [csv_doc] [boxed_intake] [] [])"
    by (rule upload_creates [OF _ _ _ _ _ _ _ _ boxed_companion])
       (simp_all add: boxed_args_def csv_args_def boxed_intake_def csv_intake_def)
  moreover have "reachable_docs digest (\<lambda>_. demo_sha) uuid_of (csv_db [] [] [] [])"
    by (rule no_docs) (simp_all add: csv_db_def)
  ultimately have "reachable_docs digest (\<lambda>_. demo_sha) uuid_of (csv_db [csv_doc] [boxed_intake] [] [])"
    using doc_steps create_doc by blast
  from doc_steps [OF this jobs_doc [where js = "[index_job]"]] show ?thesis by (simp add: csv_db_def)
qed

text \<open>
  C39. Retrying the failed derivatives of a document raises an error whenever its current source was
  taken in by the sandboxed profile and any of its indexing or media jobs is waiting for a retry: the
  successor is enqueued without settings, which makes it a legacy job, and legacy execution is refused
  for a sandboxed source. No such job can ever be retried by this operation.
\<close>

theorem sandboxed_derivatives_cannot_be_retried:
  assumes "reachable_docs digest hash uuid_of db" and "current_original_intake i db = Inr (d, original, r)"
    and "si_execution_profile r = Universal_Sandboxed"
    and "\<forall>j \<in> set (document_jobs i db). dict_get (j_payload j) (u ''document_id'') = Some (PStr (uuid_str i))"
    and "uuid_of (PStr (uuid_str i)) = Some i"
    and "(t, js) \<in> set (current_source_derivative_jobs (document_jobs i db) (f_version original))"
    and "failed_derivative (document_jobs i db) js = Some f"
  shows "\<exists>e. retry_current_derivatives digest hash uuid_of dia draw now i db = Inl e"
  using reachable_sources_ok [OF assms(1)] assms(2-) by (rule sandboxed_retry_fails)

theorem sandboxed_derivatives_cannot_be_retried_witness:
  "\<exists>e. retry_current_derivatives (\<lambda>_. []) (\<lambda>_. demo_sha) (\<lambda>v. if v = PStr (uuid_str 2) then Some 2 else None)
     Sqlite (\<lambda>n. 50 + n) 10 2 (csv_db [csv_doc] [boxed_intake] [index_job] []) = Inl e"
proof (rule sandboxed_derivatives_cannot_be_retried [OF boxed_reachable])
  let ?db = "csv_db [csv_doc] [boxed_intake] [index_job] []"
  have js: "document_jobs 2 ?db = [index_job]" by (simp add: document_jobs_def csv_db_def index_job_def)
  have t: "derivative_job_target index_job = Some (u ''index_document'', 1, demo_sha)"
    by (simp add: derivative_job_target_def index_job_def job_source_version_def payload_text_def)
  show "current_original_intake 2 ?db = Inr (csv_doc, csv_file, boxed_intake)"
    unfolding current_original_intake_Inr
    by (simp add: find_doc_def csv_db_def csv_doc_def latest_original_def csv_file_def original_file_def
        get_for_source_def boxed_intake_def csv_intake_def)
  show "si_execution_profile boxed_intake = Universal_Sandboxed" by (simp add: boxed_intake_def)
  show "\<forall>j \<in> set (document_jobs 2 ?db). dict_get (j_payload j) (u ''document_id'') = Some (PStr (uuid_str 2))"
    by (simp add: js) (simp add: index_job_def)
  show "((u ''index_document'', 1, demo_sha), [index_job])
      \<in> set (current_source_derivative_jobs (document_jobs 2 ?db) (f_version csv_file))"
    by (simp add: js current_source_derivative_jobs_def t) (simp add: csv_file_def)
  show "failed_derivative (document_jobs 2 ?db) [index_job] = Some index_job"
    unfolding js failed_derivative_def latest_derivative_recovery_leaf_def latest_by_def recovery_key_def
    by (simp add: index_job_def u_def)
qed simp

end
