(* ===== verification/Worker_Theorems.thy ===== *)
theory Worker_Theorems
  imports Worker_Props Document_Theorems Job_Queue_Props
begin

text \<open>
  The properties of the worker, on the composition of the job queue, the source intakes and the
  documents, with a concrete job in its last attempt.
\<close>

definition proc_job :: job where
  "proc_job = demo_job\<lparr>j_document_id := 2, j_payload := [(u ''document_id'', PStr (uuid_str 2)), (u ''source_version'', PInt 1)],
     j_intake_intent := Generic_File, j_status := Running, j_attempts := 4, j_lease_expires_at := Some 100,
     j_lease_owner := Some (u ''A'')\<rparr>"

definition proc_db :: docdb where
  "proc_db = csv_db [csv_doc] [csv_intake] [proc_job] []"

lemma proc_source: "source_intake_for_job uuid_of proc_job 1 proc_db = Inr (Some csv_intake)"
  unfolding source_intake_for_job_Some
  by (simp add: job_optional_uuid_def proc_job_def proc_db_def csv_db_def csv_intake_def demo_job_def opt_match_def)

lemma proc_bound: "\<forall>j \<in> set (jobs proc_db). job_bound uuid_of proc_db j"
proof -
  have js: "jobs proc_db = [proc_job]" by (simp add: proc_db_def csv_db_def)
  have v: "job_source_version proc_job = Some 1" by (simp add: job_source_version_def proc_job_def demo_job_def)
  show ?thesis using proc_source [of uuid_of] by (simp add: js job_bound_def v)
qed

lemma proc_reachable: "reachable_docs digest (\<lambda>_. demo_sha) uuid_of proc_db"
proof -
  have "create_with_raw uuid_of (\<lambda>_. demo_sha) csv_args 2 3 5 0 (csv_db [] [] [] [])
      = Inr (2, csv_db [csv_doc] [csv_intake] [] [])"
    by (rule upload_creates [OF _ _ _ _ _ _ _ _ csv_companion]) (simp_all add: csv_args_def csv_intake_def)
  moreover have "reachable_docs digest (\<lambda>_. demo_sha) uuid_of (csv_db [] [] [] [])"
    by (rule no_docs) (simp_all add: csv_db_def)
  ultimately have "reachable_docs digest (\<lambda>_. demo_sha) uuid_of (csv_db [csv_doc] [csv_intake] [] [])"
    using doc_steps create_doc by blast
  from doc_steps [OF this jobs_doc [where js = "[proc_job]"]] show ?thesis by (simp add: csv_db_def proc_db_def)
qed

lemma proc_table: "table_ok demo_settings proc_db"
  by (simp add: table_ok_def proc_db_def csv_db_def job_wf_def proc_job_def demo_job_def demo_settings_def)

lemma strip_A: "strip (u ''A'') = u ''A''"
  by (simp add: strip_def u_def is_space_def)

subsection \<open>Properties\<close>

text \<open>
  C40. A claim of the worker keeps every invariant although its callback rewrites jobs, intakes and
  documents in the same transaction: the table of jobs stays well formed, every original keeps its
  intake, and a job that was done, failed or dead before the claim is untouched.
\<close>

theorem worker_claims_keep_the_tables:
  assumes "reachable_docs digest hash uuid_of db" and "table_ok st db" and "1 \<le> job_max_attempts st"
    and "worker_claim digest hash uuid_of dia locked st reg ready owner wid now db = Inr (r, db')"
  shows "table_ok st db' \<and> sources_ok db'
    \<and> (\<forall>j \<in> set (jobs db). j_status j \<in> {Done, Failed, Dead} \<longrightarrow> j \<in> set (jobs db'))"
proof -
  have ev: "rows_evolve st db db'"
    using claim_next_evolves [OF assms(4) [unfolded worker_claim_def] terminal_callback_ok [OF assms(3)]
        table_ok_distinct [OF assms(2)]] .
  then show ?thesis
    using rows_evolve_table_ok [OF ev assms(2)] rows_evolve_terminal [OF ev]
      worker_claim_sources_ok [OF assms(4) reachable_sources_ok [OF assms(1)]]
    by (simp add: terminal_def)
qed

theorem worker_claims_keep_the_tables_witness:
  "\<exists>r db'. worker_claim (\<lambda>_. []) (\<lambda>_. demo_sha) (\<lambda>_. None) Sqlite (\<lambda>_. False) demo_settings demo_registry True (u ''A'') [] 200 proc_db
     = Inr (r, db') \<and> table_ok demo_settings db'"
proof -
  obtain r db' where c: "worker_claim (\<lambda>_. []) (\<lambda>_. demo_sha) (\<lambda>_. None) Sqlite (\<lambda>_. False) demo_settings demo_registry True
      (u ''A'') [] 200 proc_db = Inr (r, db')"
    using worker_claim_returns [OF reachable_sources_ok [OF proc_reachable] proc_bound] strip_A by fastforce
  then show ?thesis using worker_claims_keep_the_tables [OF proc_reachable proc_table demo_max_attempts c] by blast
qed

text \<open>
  C6. A buried job cannot block the queue: as long as every processing job names the intake of its
  source, as enqueueing resolves it, a claim by a worker with a non-blank identity always returns,
  whatever the clock and the rows locked by others; the callback on exhausted jobs never raises, so the
  transaction is not rolled back again and again.
\<close>

theorem claims_are_never_blocked:
  assumes "reachable_docs digest hash uuid_of db" and "\<forall>j \<in> set (jobs db). job_bound uuid_of db j"
    and "strip owner \<noteq> []"
  shows "\<exists>r db'. worker_claim digest hash uuid_of dia locked st reg ready owner wid now db = Inr (r, db')"
  by (rule worker_claim_returns [OF reachable_sources_ok [OF assms(1)] assms(2,3)])

theorem claims_are_never_blocked_witness:
  "\<exists>r db'. worker_claim (\<lambda>_. []) (\<lambda>_. demo_sha) (\<lambda>_. None) Postgresql (\<lambda>i. i = 1) demo_settings demo_registry True (u ''A'') [] 200
     proc_db = Inr (r, db')"
  by (rule claims_are_never_blocked [OF proc_reachable proc_bound]) (simp add: strip_A)

text \<open>
  C7. When the last attempt of a processing job fails and its source is still current, recording the
  failure succeeds, the job is dead, the document and the source intake are visibly failed, and an
  operator can always ask for reprocessing.
\<close>

theorem final_failure_is_recoverable:
  assumes reach: "reachable_docs digest hash uuid_of db" and table: "table_ok st db"
    and j: "j \<in> set (jobs db)" "j_status j = Running" "j_lease_owner j = Some owner"
      "job_max_attempts st \<le> j_attempts j" "j_job_type j = u ''process_document''" "job_source_version j = Some v"
    and r: "source_intake_for_job uuid_of j v db = Inr (Some r)" "si_state r \<in> {SI_Queued, SI_Processing}"
    and d: "find_doc (j_document_id j) (dr_review db) = Some d" "latest_original (d_files d) = Some f" "f_version f = v"
    and actor: "strip actor \<noteq> []"
  shows "\<exists>db' d' r' k t db''. record_failure uuid_of st owner e now (j_id j) db = Inr db'
    \<and> k \<in> set (jobs db') \<and> j_id k = j_id j \<and> j_status k = Dead
    \<and> current_original_intake (j_document_id j) db' = Inr (d', f, r') \<and> d_status d' = Failed_Doc \<and> si_state r' = SI_Failed
    \<and> prepare_reprocess (j_document_id j) actor later db' = Inr (t, db'')"
proof -
  let ?k = "retried st now e j"
  let ?db1 = "update_job (retried st now e) (j_id j) db"
  have ok1: "sources_ok ?db1" using reachable_sources_ok [OF reach] by simp
  note rb = retry_or_bury_returns [OF table_ok_distinct [OF table] j(1-3), where st = st and e = e and now = now]
  note k = retried_dead [OF j(4), where now = now and e = e]
  have kv: "job_source_version ?k = Some v" using j(6) by (simp add: job_source_version_def k)
  have kt: "j_job_type ?k = u ''process_document''" using j(5) by (simp add: k)
  have s: "source_intake_for_job uuid_of ?k v ?db1 = Inr (Some r)"
    using r(1) unfolding source_intake_for_job_Some by (simp add: k update_job_def)
  have d1: "find_doc (j_document_id ?k) (dr_review ?db1) = Some d" using d(1) by (simp add: k update_job_def)
  obtain db' r' where run: "mark_terminal_processing_failure uuid_of now ?k ?db1 = Inr db'" and js: "jobs db' = jobs ?db1"
    and ok': "sources_ok db'"
    and c: "current_original_intake (j_document_id ?k) db' = Inr (d\<lparr>d_status := Failed_Doc\<rparr>, f, r')" "si_state r' = SI_Failed"
    using terminal_failure_marks_source [OF ok1 kt k(1) kv s r(2) d1 d(2,3), of now] by blast
  have rec: "record_failure uuid_of st owner e now (j_id j) db = Inr db'"
    unfolding record_failure_def rb(1) by (simp add: rb(2) run)
  have mem: "?k \<in> set (jobs db')" unfolding js using rb(2) by (auto dest: find_SomeD)
  obtain t db'' where "prepare_reprocess (j_document_id j) actor later db' = Inr (t, db'')"
    using failed_document_reprocessable [OF ok' c(1) _ c(2) mem _ _ _ k(1) actor, where now = later] kv d(3) j(5)
    by (auto simp: k)
  then show ?thesis using rec mem k c by auto
qed

theorem final_failure_is_recoverable_witness:
  "\<exists>db' t db''. record_failure (\<lambda>_. None) demo_settings (u ''A'') (u ''boom'') 50 1 proc_db = Inr db'
     \<and> prepare_reprocess 2 (u ''reviewer'') 60 db' = Inr (t, db'')"
proof -
  have j: "proc_job \<in> set (jobs proc_db)" "j_status proc_job = Running" "j_lease_owner proc_job = Some (u ''A'')"
    "job_max_attempts demo_settings \<le> j_attempts proc_job" "j_job_type proc_job = u ''process_document''"
    "job_source_version proc_job = Some 1" and i: "j_id proc_job = 1" "j_document_id proc_job = 2"
    by (simp_all add: proc_db_def csv_db_def proc_job_def demo_job_def demo_settings_def job_source_version_def)
  have r: "si_state csv_intake \<in> {SI_Queued, SI_Processing}" by (simp add: csv_intake_def)
  have d: "find_doc (j_document_id proc_job) (dr_review proc_db) = Some csv_doc" "latest_original (d_files csv_doc) = Some csv_file"
    "f_version csv_file = 1"
    by (simp_all add: i find_doc_def proc_db_def csv_db_def csv_doc_def latest_original_def csv_file_def)
  have a: "strip (u ''reviewer'') \<noteq> []" by (simp add: csv_strips)
  from final_failure_is_recoverable [OF proc_reachable [of "\<lambda>_. []" "\<lambda>_. None"] proc_table j
      proc_source r d a, where e = "u ''boom''" and now = 50 and later = 60]
  show ?thesis unfolding i by blast
qed

end
