(* ===== verification/Spec2Isabelle.thy ===== *)
theory Spec2Isabelle
  imports Job_Queue_Props Ingest_Limits_Props Intake_Props Source_Intake_Props Review_Props Activation
    Chunking_Props Mapping_Props Accounting_Props Bill_Props Batch_Theorems Worker_Theorems
begin

text \<open>
  \<^bold>\<open>Clerk-san\<close> is a local-first clerk for financial documents. An upload is inspected and either stored,
  queued or refused; a worker leases queued jobs, parses the file under a resource budget into a normalized
  document, stages its tables and chunks its text; a mapping or a model proposes candidate records; a person
  reviews them; approved records feed search, recurring bills and accounting exports.

  \<^bold>\<open>Shared vocabulary.\<close>
  \<^item> \<open>Clerk_Prelude\<close>: text as code points, results \<open>exn + 'a\<close>, dictionaries, dynamic values, the collections
    \<open>res_simps\<close> and \<open>py_simps\<close>. \<open>Py_Text\<close>: joining, splitting, numerals, UTF-8 and the locale \<open>prefix_code\<close> of
    uniquely decodable encodings. \<open>Py_Num\<close>: binary64 and 28-digit decimal rounding over exact rationals.
    \<open>Py_Date\<close>: the proleptic Gregorian calendar. \<open>Csv_Text\<close>: the CSV writer and a reader that inverts it.
    \<open>Optimistic\<close>: the locale of version-checked updates.
  \<^item> \<open>Clerk_Models\<close>: enumerations and rows of \<^verbatim>\<open>src/clerksan/db/models.py\<close>.

  \<^bold>\<open>Components, in the order of the data flow.\<close>
  \<^item> \<open>File_Type\<close>, \<open>Intake_Policy\<close>, \<open>Intake_Props\<close>: content detection (\<^verbatim>\<open>ingest/filetype.py\<close>) and the intake
    decision (\<^verbatim>\<open>ingest/policy.py\<close>). The format of bytes does not depend on the claimed name, prohibited families
    and executables are refused whatever the registry says, and only advertised formats are processed.
  \<^item> \<open>Capabilities\<close>, \<open>Activation\<close>: the capability registry, the switch to universal intake and worker capability
    leases (\<^verbatim>\<open>ingest/capabilities.py\<close>, \<^verbatim>\<open>ingest/activation.py\<close>, \<^verbatim>\<open>WorkerCapabilityLeaseRepo\<close>).
  \<^item> \<open>Source_Intake\<close>, \<open>Source_Intake_Props\<close>: upload idempotency and the intake state machine (\<^verbatim>\<open>SourceIntakeRepo\<close>).
  \<^item> \<open>Job_Queue\<close>, \<open>Job_Queue_Inv\<close>, \<open>Job_Lease\<close>, \<open>Job_Queue_Props\<close>: the durable queue (\<^verbatim>\<open>ingest/jobs.py\<close>): row
    invariant over every history, exclusive leases, the order of claims, idempotent enqueueing, retry and burial.
    The callback on a buried job is a parameter under the contract \<open>handler_ok\<close>: it may rewrite the row of that job
    into an unleased one, which is what the worker does when it requeues a maintenance job.
  \<^item> \<open>Document_Repo\<close>, \<open>Document_Reprocess\<close>: the document repository (\<^verbatim>\<open>DocumentRepo\<close>): uploads, replacement of a source,
    derivatives, status, reprocessing and the retry of failed derivatives, over the job, intake and review tables.
    \<open>Document_Inv\<close> (every original has exactly its intake, derivatives stay bound, over every history),
    \<open>Document_Props\<close> (files are never lost), \<open>Document_Retry\<close> (why a sandboxed source cannot be retried) and
    \<open>Document_Theorems\<close> (the properties, on a concrete upload and its replacement).
  \<^item> \<open>Worker\<close>, \<open>Worker_Props\<close>, \<open>Worker_Theorems\<close>: the transactions of the worker (\<^verbatim>\<open>ingest/worker.py\<close>) over the job,
    intake and document tables: claiming with its callback, executing a job and recording a failure. A claim is never
    blocked by a buried job, and a final failure is visible and can be reprocessed.
  \<^item> \<open>Ingest_Limits\<close>, \<open>Ingest_Limits_Props\<close>: parse budgets and archive safety (\<^verbatim>\<open>ingest/limits.py\<close>).
  \<^item> \<open>Canonical\<close>, \<open>Canonical_Props\<close>: normalized documents, canonical JSON and locators (\<^verbatim>\<open>ingest/normalized.py\<close>).
  \<^item> \<open>Staging\<close>, \<open>Staging_Props\<close>, \<open>Records\<close>, \<open>Schema_Mapping\<close>, \<open>Mapping_Props\<close>: staged tables, candidate drafts, the
    reconciliation ledger and schema mappings (\<^verbatim>\<open>ingest/staging.py\<close>, \<^verbatim>\<open>records.py\<close>, \<^verbatim>\<open>mapping.py\<close>).
  \<^item> \<open>Chunking\<close>, \<open>Chunking_Props\<close>: retrieval chunks (\<^verbatim>\<open>search/chunking.py\<close>).
  \<^item> \<open>Review_Lifecycle\<close>, \<open>Review_Props\<close>: extraction review and active authority (\<^verbatim>\<open>ExtractionRepo\<close>,
    \<^verbatim>\<open>VerifiedRepo\<close>, \<^verbatim>\<open>db/active_records.py\<close>).
  \<^item> \<open>Accounting_Export\<close>, \<open>Accounting_Props\<close>: journal and audit CSV (\<^verbatim>\<open>export/\<close>).
  \<^item> \<open>Batch_Store\<close>, \<open>Batch_Review\<close>, \<open>Batch_Activation\<close>: cohorts of candidates (\<^verbatim>\<open>ExtractionBatchRepo\<close>,
    \<^verbatim>\<open>ReviewBatchRepo\<close>): creation from a reconciled ledger, append-only decisions, preview, activation, rejection and
    reprocessing. \<open>Batch_Inv\<close> is the invariant over every history, \<open>Batch_Props\<close> the effect of an activation and the
    version discipline as an instance of \<open>versioned_store\<close>, \<open>Batch_Vector\<close> that a decision digest identifies the
    decisions, \<open>Batch_Demo\<close> a concrete cohort and \<open>Batch_Theorems\<close> the properties.
  \<^item> \<open>Recurring\<close>, \<open>Bill_Analysis\<close>, \<open>Bill_Service\<close>, \<open>Bill_Props\<close>: normalization of recurring bills
    (\<^verbatim>\<open>extract/recurring.py\<close>), comparisons and anomaly signals (\<^verbatim>\<open>bills/analysis.py\<close>), bill projections, payments
    and reminders (\<^verbatim>\<open>bills/service.py\<close>, \<^verbatim>\<open>bills/reminders.py\<close>).

  \<^bold>\<open>State and effects.\<close> A database table is a list of rows in a record; an operation maps the tables to a result
  or an exception, and an exception leaves the tables as they were (the transaction is rolled back). Clocks and
  fresh identifiers are arguments. Histories are inductive step relations; invariants are proved by rule induction.

  \<^bold>\<open>Parameters.\<close> SHA-256, UUID parsing, Unicode case mapping and normalization, the representation of floats,
  ISO date and decimal parsing, \<^verbatim>\<open>str\<close> of decimals and \<^verbatim>\<open>isoformat\<close> of datetimes, the Shift_JIS codec and the
  \<^verbatim>\<open>zipfile\<close> directory reader are arguments of the definitions that use them. Where a claim needs a digest to tell two
  payloads apart, that is a hypothesis about those two payloads.

  \<^bold>\<open>Termination.\<close> Every loop is a total function; no fuel is used. Byte-level scans are structural or have a
  length measure.

  \<^bold>\<open>Not modelled.\<close> HTTP routing, the user interface, process sandboxing, format adapters over third-party parsers,
  model and OCR clients, SQL migrations, backup tooling and repository scripts: they are input and output around the
  modelled core. The asyncio loop of the worker, the ingestion pipeline, the review queue service, the mapping repositories, the
  search index and duplicate detection compose or read the modelled operations and are left out, as are the read-only
  pages and projections of the repositories.
\<close>

end
